(* ===== verification/Gateway_Prelude.thy ===== *)
theory Gateway_Prelude
  imports Complex_Main "HOL-Library.Log_Nat"
begin

text \<open>
  Shared vocabulary of the development.

  Python exceptions are values: a fallible operation returns \<open>gateway_error + 'a\<close>, with
  \<open>Inl\<close> the raised exception and \<open>Inr\<close> the returned value, and \<open>sbind\<close> is "run the
  first statement, then the rest" (an exception skips the rest).  Database tables are lists of
  rows in insertion order, each row carrying its primary key; \<open>get_row\<close> is a lookup by primary
  key, \<open>put_row\<close> an in-place update of the row with the same key.  Strings are
  lists of characters with code points below 256; \<open>py_strip\<close>, \<open>py_lower\<close> and
  \<open>py_upper\<close> give the parts of \<open>str\<close> the gateway uses (case mapping on ASCII letters).
\<close>

named_theorems result_simps "rewriting of exception-valued computations"
named_theorems table_simps "reads after writes on tables"
named_theorems eval_simps "what simp unfolds to run an operation on a concrete input"

type_synonym uuid = nat

section \<open>Exceptions\<close>

datatype (plugins only: code) gateway_error =
    QuotaLimitExceededError string
  | KeyNotReservableError
  | InvalidQuotaEstimateError string
  | QuotaReservationNotFoundError
  | QuotaConcurrencyError
  | QuotaCounterInvariantError string
  | ExternalToolFenceActiveError
  | UsageMissingError
  | InvalidUsageError string
  | ReservationFinalizationError
  | ReservationAlreadyFinalizedError
  | LedgerWriteError
  | ProviderCompletionRecordError
  | AccountingFinalizationRecoveryError
  | FinalizationRecoveryNotSupportedError
  | UnsupportedProviderCostError string
  | StaleReservationNotFoundError
  | ReservationNotPendingError
  | ReservationNotExpiredError
  | ReconciliationInvariantError
  | ProviderCompletedRecoveryNotFoundError
  | ProviderCompletedRecoveryNotRepairableError
  | ProviderCompletedRecoveryMetadataMissingError
  | ProviderCompletedRecoveryInvariantError
  | ProviderCompletedRecoveryAlreadyReconciledError
  | InvalidExternalToolFenceInputError string
  | ExternalToolFenceConflictError string
  | ExternalToolFenceOccupiedError string
  | ExternalToolFenceExhaustedError
  | ExternalToolFenceInvariantError string
  | InvalidExternalToolAccountingHoldError
  | ExternalToolAccountingHoldInvariantError
  | PyValueError
  | PricingRuleNotFoundError
  | FxRateNotFoundError
  | UnsupportedCurrencyError
  | InvalidPricingDataError string
  | InvalidFxRateError
  | AudioOutputPricingNotSupportedError
  | AudioRequestPricingNotSupportedError
  | RealtimeClientSecretPricingNotSupportedError
  | InvalidRateLimitPolicyError string
  | RequestRateLimitExceededError "int option"
  | TokenRateLimitExceededError "int option"
  | ConcurrencyRateLimitExceededError "int option"
  | RedisRateLimitUnavailableError
  | RateLimitReleaseError
  | ClientDisconnectedError
  | LazyThrottlingDeadlineExceededError "int option"
  | LazyThrottlingWaitingCapacityFullError "int option"
  | RedisError
  | OpenAICompatibleError string
  | ModelNotFoundError
  | ModelNotAllowedForKeyError
  | ModelRouteDisabledError
  | ProviderDisabledError
  | ProviderNotAllowedForKeyError
  | AmbiguousRouteError
  | UnsupportedRouteMatchTypeError
  | EndpointNotAllowedError
  | GatewayAuthError
  | MissingAuthorizationError
  | InvalidAuthorizationSchemeError
  | MalformedGatewayKeyError
  | GatewayKeyNotFoundError
  | GatewayKeyDigestMismatchError
  | GatewayKeySuspendedError
  | GatewayKeyRevokedError
  | GatewayKeyExpiredError
  | GatewayKeyNotYetValidError
  | GatewayKeyExternalToolFenceActiveError
  | MissingTokenHmacSecretError
  | GatewayKeyAlreadyRevokedError
  | GatewayKeyAlreadySuspendedError
  | GatewayKeyAlreadyActiveError
  | InvalidGatewayKeyStatusTransitionError
  | InvalidGatewayKeyValidityError
  | InvalidGatewayKeyLimitsError
  | InvalidGatewayKeyUsageResetError
  | InvalidGatewayKeyPolicyError string
  | GatewayKeyRotationError
  | ChatStreamingLiveBurnPolicyError string
  | EmbeddingsUnsupportedFieldError string
  | EmbeddingsUnsupportedOptionError string
  | EmbeddingsInputInvalidError string
  | EmbeddingsInputLimitExceededError string
  | ProviderError string
  | MultipleResultsFound
  | IntegrityError string
  | DataError string
  | PyLookupError
  | PyTypeError
  | InvalidOperation

type_synonym 'a result = "gateway_error + 'a"

definition sbind :: "'a result \<Rightarrow> ('a \<Rightarrow> 'b result) \<Rightarrow> 'b result" where
  "sbind m f = (case m of Inl e \<Rightarrow> Inl e | Inr x \<Rightarrow> f x)"

definition ensure :: "bool \<Rightarrow> gateway_error \<Rightarrow> unit result" where
  "ensure b e = (if b then Inr () else Inl e)"

definition the_or_raise :: "'a option \<Rightarrow> gateway_error \<Rightarrow> 'a result" where
  "the_or_raise m e = (case m of None \<Rightarrow> Inl e | Some x \<Rightarrow> Inr x)"

text \<open>A statement that runs one check per element and stops at the first that raises.\<close>

primrec each_ok :: "('a \<Rightarrow> unit result) \<Rightarrow> 'a list \<Rightarrow> unit result" where
  "each_ok f [] = Inr ()"
| "each_ok f (x # xs) = sbind (f x) (\<lambda>_. each_ok f xs)"

lemma sbind_Inl [simp, result_simps]: "sbind (Inl e) f = Inl e"
  by (simp add: sbind_def)

lemma sbind_Inr [simp, result_simps]: "sbind (Inr x) f = f x"
  by (simp add: sbind_def)

lemma sbind_eq_Inr [simp, result_simps]:
  "sbind m f = Inr y \<longleftrightarrow> (\<exists>x. m = Inr x \<and> f x = Inr y)"
  by (cases m) auto

lemma sbind_eq_Inl [simp, result_simps]:
  "sbind m f = Inl e \<longleftrightarrow> m = Inl e \<or> (\<exists>x. m = Inr x \<and> f x = Inl e)"
  by (cases m) auto

lemma ensure_eq_Inr [simp, result_simps]: "ensure b e = Inr u \<longleftrightarrow> b"
  by (simp add: ensure_def)

lemma ensure_eq_Inl [simp, result_simps]: "ensure b e = Inl e' \<longleftrightarrow> \<not> b \<and> e' = e"
  by (auto simp: ensure_def)

lemma ensure_True [simp]: "ensure True e = Inr ()"
  by (simp add: ensure_def)

lemma ensure_False [simp]: "ensure False e = Inl e"
  by (simp add: ensure_def)

lemma the_or_raise_eq_Inr [simp, result_simps]: "the_or_raise m e = Inr x \<longleftrightarrow> m = Some x"
  by (cases m) (auto simp: the_or_raise_def)

lemma the_or_raise_eq_Inl [simp, result_simps]: "the_or_raise m e = Inl e' \<longleftrightarrow> m = None \<and> e' = e"
  by (cases m) (auto simp: the_or_raise_def)

lemma the_or_raise_Some [simp]: "the_or_raise (Some x) e = Inr x"
  by (simp add: the_or_raise_def)

lemma the_or_raise_None [simp]: "the_or_raise None e = Inl e"
  by (simp add: the_or_raise_def)

lemma each_ok_eq_Inr [simp, result_simps]:
  "each_ok f xs = Inr u \<longleftrightarrow> (\<forall>x \<in> set xs. f x = Inr ())"
  by (induction xs) auto

section \<open>Tables\<close>

definition get_row :: "('r \<Rightarrow> uuid) \<Rightarrow> uuid \<Rightarrow> 'r list \<Rightarrow> 'r option" where
  "get_row idf x t = find (\<lambda>r. idf r = x) t"

definition put_row :: "('r \<Rightarrow> uuid) \<Rightarrow> 'r \<Rightarrow> 'r list \<Rightarrow> 'r list" where
  "put_row idf r t = map (\<lambda>q. if idf q = idf r then r else q) t"

lemma get_row_Nil [simp]: "get_row idf x [] = None"
  by (simp add: get_row_def)

lemma get_row_Cons [simp]:
  "get_row idf x (r # t) = (if idf r = x then Some r else get_row idf x t)"
  by (simp add: get_row_def)

lemma get_row_append [table_simps]:
  "get_row idf x (t @ u) = (case get_row idf x t of None \<Rightarrow> get_row idf x u | Some r \<Rightarrow> Some r)"
  by (induction t) auto

lemma get_row_SomeD: "get_row idf x t = Some r \<Longrightarrow> r \<in> set t \<and> idf r = x"
  by (induction t) (auto split: if_splits)

lemma get_row_None [table_simps]: "get_row idf x t = None \<longleftrightarrow> x \<notin> idf ` set t"
  by (induction t) auto

lemma put_row_Nil [simp]: "put_row idf r [] = []"
  by (simp add: put_row_def)

lemma put_row_Cons [simp]:
  "put_row idf r (q # t) = (if idf q = idf r then r else q) # put_row idf r t"
  by (simp add: put_row_def)

lemma put_row_ids [simp, table_simps]: "map idf (put_row idf r t) = map idf t"
  by (induction t) auto

lemma put_row_id_set [simp, table_simps]: "idf ` set (put_row idf r t) = idf ` set t"
  by (metis list.set_map put_row_ids)

lemma get_put_row [table_simps]:
  "get_row idf x (put_row idf r t) =
     (if x = idf r \<and> x \<in> idf ` set t then Some r else get_row idf x t)"
  by (induction t) auto

lemma get_put_row_found:
  "get_row idf x t = Some q \<Longrightarrow> get_row idf x (put_row idf r t) = Some (if x = idf r then r else q)"
  by (induction t) (auto split: if_splits)

lemma put_row_absent: "idf r \<notin> idf ` set t \<Longrightarrow> put_row idf r t = t"
  by (induction t) auto

lemma set_put_row: "q \<in> set (put_row idf r t) \<Longrightarrow> q = r \<or> (q \<in> set t \<and> idf q \<noteq> idf r)"
  by (induction t) (auto split: if_splits)

lemma set_put_row_iff:
  "q \<in> set (put_row idf r t) \<longleftrightarrow>
     (q = r \<and> idf r \<in> idf ` set t) \<or> (q \<in> set t \<and> idf q \<noteq> idf r)"
proof -
  have "q \<in> set (put_row idf r t) \<longleftrightarrow> (\<exists>p. p \<in> set t \<and> q = (if idf p = idf r then r else p))"
    unfolding put_row_def set_map image_iff by blast
  also have "\<dots> \<longleftrightarrow> (q = r \<and> (\<exists>p. p \<in> set t \<and> idf r = idf p)) \<or> (q \<in> set t \<and> idf q \<noteq> idf r)"
    by metis
  finally show ?thesis unfolding image_iff by blast
qed

lemma distinct_get_row:
  assumes "distinct (map idf t)" "r \<in> set t"
  shows "get_row idf (idf r) t = Some r"
proof -
  obtain q where q: "get_row idf (idf r) t = Some q"
    using assms(2) by (cases "get_row idf (idf r) t") (simp_all add: get_row_None)
  then have "q \<in> set t" "idf q = idf r" by (auto dest: get_row_SomeD)
  moreover have "inj_on idf (set t)" using assms(1) by (simp add: distinct_map)
  ultimately show ?thesis using assms(2) q by (simp add: inj_on_eq_iff)
qed

lemma distinct_row_eq:
  "distinct (map idf t) \<Longrightarrow> r \<in> set t \<Longrightarrow> q \<in> set t \<Longrightarrow> idf r = idf q \<Longrightarrow> r = q"
  by (auto simp: distinct_map dest: inj_onD)

lemma put_row_put_row [simp]: "idf r = idf q \<Longrightarrow> put_row idf r (put_row idf q t) = put_row idf r t"
  by (induction t) auto

lemma put_row_self: "distinct (map idf t) \<Longrightarrow> get_row idf (idf r) t = Some r \<Longrightarrow> put_row idf r t = t"
  by (induction t) (auto simp: put_row_absent split: if_splits)

text \<open>Replacing one row of a table with distinct keys moves a column sum by the difference.\<close>

lemma sum_list_put_row:
  fixes f :: "'r \<Rightarrow> 'n::ab_group_add"
  assumes "distinct (map idf t)" "get_row idf (idf r) t = Some q"
  shows "sum_list (map f (put_row idf r t)) = sum_list (map f t) - f q + f r"
  using assms
proof (induction t)
  case Nil
  then show ?case by simp
next
  case (Cons a t)
  show ?case
  proof (cases "idf a = idf r")
    case True
    with Cons.prems have "idf r \<notin> idf ` set t" "q = a" by auto
    with True show ?thesis by (simp add: put_row_absent algebra_simps)
  next
    case False
    with Cons show ?thesis by (simp add: algebra_simps)
  qed
qed

section \<open>Strings\<close>

definition char_code :: "char \<Rightarrow> nat" where
  "char_code c = (of_char c :: nat)"

definition py_isspace :: "char \<Rightarrow> bool" where
  "py_isspace c = (char_code c \<in> {9, 10, 11, 12, 13, 28, 29, 30, 31, 32, 133, 160})"

definition is_lower :: "char \<Rightarrow> bool" where
  "is_lower c = (97 \<le> char_code c \<and> char_code c \<le> 122)"

definition is_upper :: "char \<Rightarrow> bool" where
  "is_upper c = (65 \<le> char_code c \<and> char_code c \<le> 90)"

definition is_digit :: "char \<Rightarrow> bool" where
  "is_digit c = (48 \<le> char_code c \<and> char_code c \<le> 57)"

definition lower_char :: "char \<Rightarrow> char" where
  "lower_char c = (if is_upper c then char_of (char_code c + 32) else c)"

definition upper_char :: "char \<Rightarrow> char" where
  "upper_char c = (if is_lower c then char_of (char_code c - 32) else c)"

definition py_lower :: "string \<Rightarrow> string" where
  "py_lower s = map lower_char s"

definition py_upper :: "string \<Rightarrow> string" where
  "py_upper s = map upper_char s"

definition py_strip :: "string \<Rightarrow> string" where
  "py_strip s = rev (dropWhile py_isspace (rev (dropWhile py_isspace s)))"

primrec starts_with :: "string \<Rightarrow> string \<Rightarrow> bool" where
  "starts_with s [] = True"
| "starts_with s (c # p) = (case s of [] \<Rightarrow> False | d # s' \<Rightarrow> d = c \<and> starts_with s' p)"

fun contains_sub :: "string \<Rightarrow> string \<Rightarrow> bool" where
  "contains_sub [] p = (p = [])"
| "contains_sub (c # s) p = (starts_with (c # s) p \<or> contains_sub s p)"

lemmas string_eval [eval_simps] =
  py_strip_def py_lower_def py_upper_def py_isspace_def char_code_def lower_char_def upper_char_def
  is_lower_def is_upper_def is_digit_def

lemma starts_with_iff: "starts_with s p \<longleftrightarrow> (\<exists>u. s = p @ u)"
proof (induction p arbitrary: s)
  case Nil
  show ?case by simp
next
  case (Cons c p)
  then show ?case by (cases s) auto
qed

lemma contains_sub_iff: "contains_sub s p \<longleftrightarrow> (\<exists>u v. s = u @ p @ v)"
proof (induction s)
  case Nil
  show ?case by simp
next
  case (Cons c s)
  have "(\<exists>u v. c # s = u @ p @ v) \<longleftrightarrow> starts_with (c # s) p \<or> (\<exists>u v. s = u @ p @ v)"
    (is "?L \<longleftrightarrow> ?R")
  proof
    assume ?L
    then obtain u v where uv: "c # s = u @ p @ v" by blast
    then show ?R by (cases u) (auto simp: starts_with_iff)
  next
    assume ?R
    then show ?L
    proof
      assume "starts_with (c # s) p"
      then obtain v where "c # s = [] @ p @ v" by (auto simp: starts_with_iff)
      then show ?L by blast
    next
      assume "\<exists>u v. s = u @ p @ v"
      then obtain u v where "c # s = (c # u) @ p @ v" by auto
      then show ?L by blast
    qed
  qed
  with Cons.IH show ?case by simp
qed

section \<open>Timestamps\<close>

text \<open>
  A \<open>datetime\<close> is its microsecond count together with whether it carries a time zone;
  \<open>aware_now\<close> is the helper every service defines under the name \<open>_aware_now\<close>: a missing
  value is the clock, a naive one is read as UTC.
\<close>

datatype pydatetime = Aware int | Naive int

primrec micros :: "pydatetime \<Rightarrow> int" where
  "micros (Aware t) = t"
| "micros (Naive t) = t"

primrec is_aware :: "pydatetime \<Rightarrow> bool" where
  "is_aware (Aware t) = True"
| "is_aware (Naive t) = False"

definition aware :: "pydatetime \<Rightarrow> pydatetime" where
  "aware d = Aware (micros d)"

definition aware_now :: "pydatetime \<Rightarrow> pydatetime option \<Rightarrow> pydatetime" where
  "aware_now clock v = (case v of None \<Rightarrow> aware clock | Some d \<Rightarrow> aware d)"

lemma micros_aware [simp]: "micros (aware d) = micros d"
  by (simp add: aware_def)

lemma is_aware_aware [simp]: "is_aware (aware d)"
  by (simp add: aware_def)

lemma is_aware_aware_now [simp]: "is_aware (aware_now c v)"
  by (cases v) (auto simp: aware_now_def)

lemmas time_eval [eval_simps] = aware_now_def aware_def

text \<open>\<open>int((finished_at - started_at).total_seconds() * 1000)\<close>, clamped at zero: truncation
  towards zero of a negative difference is at most zero as well.\<close>

definition latency_ms :: "pydatetime \<Rightarrow> pydatetime \<Rightarrow> int" where
  "latency_ms started finished = max 0 ((micros finished - micros started) div 1000)"

lemma latency_ms_nonneg: "0 \<le> latency_ms s f"
  by (simp add: latency_ms_def)

end
