(* ===== verification/PyDecimal.thy ===== *)
theory PyDecimal
  imports Gateway_Prelude
begin

text \<open>
  Python's \<open>decimal.Decimal\<close> under the default context: a finite Decimal is its rational value,
  and every arithmetic operation rounds its exact result to 28 significant digits, ties to even
  (\<open>dround\<close>); comparison and construction from an int are exact.  The locale \<open>decimal_rounding\<close>
  is what the pricing and accounting theories rely on; it is interpreted on \<open>dround\<close>.
  \<open>column_value\<close> is a value a \<open>Numeric(18, 9)\<close> column of \<open>db/models.py\<close> can hold: Decimal
  addition and subtraction of two column values are exact.
\<close>

type_synonym decimal = rat

section \<open>Rounding to 28 significant digits\<close>

definition half_even :: "rat \<Rightarrow> int" where
  "half_even x =
     (let f = \<lfloor>x\<rfloor>; d = x - of_int f
      in if d < 1 / 2 then f else if 1 / 2 < d then f + 1 else if even f then f else f + 1)"

text \<open>The exponent of the leading digit of a non-zero value.\<close>

definition adjusted :: "rat \<Rightarrow> int" where
  "adjusted x =
     (let a = \<bar>x\<bar>
      in if 1 \<le> a then int (floorlog 10 (nat \<lfloor>a\<rfloor>)) - 1
         else - int (floorlog 10 (nat (\<lceil>1 / a\<rceil> - 1))))"

definition dround :: "rat \<Rightarrow> rat" where
  "dround x =
     (if x = 0 then 0
      else let e = adjusted x - 27
           in sgn x * of_int (half_even (\<bar>x\<bar> / 10 powi e)) * 10 powi e)"

definition dec_add :: "decimal \<Rightarrow> decimal \<Rightarrow> decimal" where
  "dec_add x y = dround (x + y)"

definition dec_sub :: "decimal \<Rightarrow> decimal \<Rightarrow> decimal" where
  "dec_sub x y = dround (x - y)"

definition dec_mul :: "decimal \<Rightarrow> decimal \<Rightarrow> decimal" where
  "dec_mul x y = dround (x * y)"

definition dec_div :: "decimal \<Rightarrow> decimal \<Rightarrow> decimal" where
  "dec_div x y = dround (x / y)"

definition dec_sum :: "decimal list \<Rightarrow> decimal" where
  "dec_sum xs = foldl dec_add 0 xs"

definition column_value :: "decimal \<Rightarrow> bool" where
  "column_value x \<longleftrightarrow> of_int \<lfloor>x * 10 ^ 9\<rfloor> = x * 10 ^ 9 \<and> \<bar>x\<bar> < 10 ^ 9"

lemmas dec_ops = dec_add_def dec_sub_def dec_mul_def dec_div_def

section \<open>Half-even rounding\<close>

lemma half_even_bounds: "\<lfloor>x\<rfloor> \<le> half_even x" "half_even x \<le> \<lfloor>x\<rfloor> + 1"
  by (auto simp: half_even_def Let_def)

lemma half_even_mono: "x \<le> y \<Longrightarrow> half_even x \<le> half_even y"
proof -
  assume le: "x \<le> y"
  show ?thesis
  proof (cases "\<lfloor>x\<rfloor> = \<lfloor>y\<rfloor>")
    case True
    with le show ?thesis by (auto simp: half_even_def Let_def)
  next
    case False
    with le have "\<lfloor>x\<rfloor> + 1 \<le> \<lfloor>y\<rfloor>" using floor_mono[of x y] by linarith
    then show ?thesis using half_even_bounds(2)[of x] half_even_bounds(1)[of y] by linarith
  qed
qed

lemma half_even_of_int [simp]: "half_even (of_int n) = n"
  by (simp add: half_even_def)

lemma half_even_error: "\<bar>of_int (half_even x) - x\<bar> \<le> 1 / 2"
proof -
  have "of_int \<lfloor>x\<rfloor> \<le> x" "x < of_int \<lfloor>x\<rfloor> + 1" using floor_correct[of x] by simp_all
  then show ?thesis by (auto simp: half_even_def Let_def abs_le_iff)
qed

section \<open>The leading exponent\<close>

lemma floorlog10_bounds:
  assumes "0 < n"
  shows "10 ^ (floorlog 10 n - 1) \<le> n" "n < 10 ^ floorlog 10 n" "0 < floorlog 10 n"
  using assms floorlog_bounds[of n 10] by (auto simp: floorlog_def)

lemma adjusted_bounds:
  assumes "x \<noteq> 0"
  shows "10 powi adjusted x \<le> \<bar>x\<bar>" "\<bar>x\<bar> < 10 powi (adjusted x + 1)"
proof -
  define a where "a = \<bar>x\<bar>"
  have a: "0 < a" using assms by (simp add: a_def)
  have "10 powi adjusted x \<le> a \<and> a < 10 powi (adjusted x + 1)"
  proof (cases "1 \<le> a")
    case True
    define n where "n = nat \<lfloor>a\<rfloor>"
    have n: "0 < n" "of_nat n \<le> a" "a < of_nat n + 1"
      using True floor_correct[of a] by (simp_all add: n_def)
    define l where "l = floorlog 10 n"
    have l: "10 ^ (l - 1) \<le> n" "n < 10 ^ l" "0 < l"
      using floorlog10_bounds[OF n(1)] by (auto simp: l_def)
    have "adjusted x = int l - 1"
      using True by (simp add: adjusted_def a_def[symmetric] n_def[symmetric] l_def Let_def)
    then have adj: "adjusted x + 1 = int l" by simp
    have "(10::rat) powi adjusted x = 10 ^ (l - 1)"
      using \<open>adjusted x = int l - 1\<close> l(3) power_int_of_nat[of "10::rat" "l - 1"] by (simp add: of_nat_diff)
    have lo: "(10::rat) ^ (l - 1) \<le> of_nat n"
      using l(1) by (metis of_nat_le_iff of_nat_numeral of_nat_power)
    have hi: "of_nat n + 1 \<le> (10::rat) ^ l"
    proof -
      have "Suc n \<le> 10 ^ l" using l(2) by simp
      then have "(of_nat (Suc n) :: rat) \<le> of_nat (10 ^ l)" by (simp only: of_nat_le_iff)
      then show ?thesis by (simp add: add.commute)
    qed
    show ?thesis
      unfolding \<open>10 powi adjusted x = 10 ^ (l - 1)\<close> adj power_int_of_nat
      using lo hi n by linarith
  next
    case False
    define y where "y = 1 / a"
    have y: "1 < y" using False a by (simp add: y_def)
    define n where "n = nat (\<lceil>y\<rceil> - 1)"
    have "1 < \<lceil>y\<rceil>" using y by (simp add: less_ceiling_iff)
    then have n: "0 < n" "of_nat n < y" "y \<le> of_nat n + 1"
      using ceiling_correct[of y] by (auto simp: n_def)
    define l where "l = floorlog 10 n"
    have l: "10 ^ (l - 1) \<le> n" "n < 10 ^ l" "0 < l"
      using floorlog10_bounds[OF n(1)] by (auto simp: l_def)
    have adj: "adjusted x = - int l"
      using False by (simp add: adjusted_def a_def[symmetric] n_def y_def l_def Let_def)
    have lo: "(10::rat) ^ (l - 1) < y"
    proof -
      have "(10::rat) ^ (l - 1) \<le> of_nat n"
        using l(1) by (metis of_nat_le_iff of_nat_numeral of_nat_power)
      with n show ?thesis by linarith
    qed
    have hi: "y \<le> (10::rat) ^ l"
    proof -
      have "Suc n \<le> 10 ^ l" using l(2) by simp
      then have "(of_nat (Suc n) :: rat) \<le> of_nat (10 ^ l)" by (simp only: of_nat_le_iff)
      with n show ?thesis by (simp add: add.commute)
    qed
    have e1: "10 powi adjusted x = 1 / (10::rat) ^ l"
      by (simp add: adj power_int_minus power_int_of_nat divide_inverse)
    have e2: "10 powi (adjusted x + 1) = 1 / (10::rat) ^ (l - 1)"
    proof -
      have "adjusted x + 1 = - int (l - 1)" using l(3) adj by simp
      then show ?thesis by (simp add: power_int_minus power_int_of_nat divide_inverse)
    qed
    have ya: "a = 1 / y" by (simp add: y_def)
    show ?thesis unfolding e1 e2 ya using lo hi y
      by (simp add: frac_le frac_less2)
  qed
  then show "10 powi adjusted x \<le> \<bar>x\<bar>" "\<bar>x\<bar> < 10 powi (adjusted x + 1)" by (simp_all add: a_def)
qed

section \<open>The rounding function\<close>

lemma powi_pos [simp]: "0 < (10::rat) powi e"
  by (simp add: zero_less_power_int)

lemma powi_diff_nat:
  "e \<le> e' \<Longrightarrow> (10::rat) powi e' = 10 ^ nat (e' - e) * 10 powi e"
  by (simp add: power_int_add[symmetric] flip: power_int_of_nat)

text \<open>The scaled significand of a positive value lies between \<open>10^27\<close> and \<open>10^28\<close>.\<close>

lemma significand_bounds:
  assumes "0 < x"
  shows "10 ^ 27 \<le> x / 10 powi (adjusted x - 27)" "x / 10 powi (adjusted x - 27) < 10 ^ 28"
proof -
  define e where "e = adjusted x - 27"
  have "(10::rat) powi adjusted x = 10 ^ 27 * 10 powi e"
    using powi_diff_nat[of e "adjusted x"] by (simp add: e_def)
  moreover have "(10::rat) powi (adjusted x + 1) = 10 ^ 28 * 10 powi e"
    using powi_diff_nat[of e "adjusted x + 1"] by (simp add: e_def)
  ultimately show "10 ^ 27 \<le> x / 10 powi (adjusted x - 27)"
    "x / 10 powi (adjusted x - 27) < 10 ^ 28"
    using adjusted_bounds[of x] assms
    by (simp_all add: e_def[symmetric] pos_le_divide_eq pos_divide_less_eq)
qed

definition significand :: "rat \<Rightarrow> int" where
  "significand x = half_even (x / 10 powi (adjusted x - 27))"

lemma dround_pos_eq: "0 < x \<Longrightarrow> dround x = of_int (significand x) * 10 powi (adjusted x - 27)"
  by (simp add: dround_def significand_def Let_def)

lemma significand_range:
  assumes "0 < x"
  shows "10 ^ 27 \<le> significand x" "significand x \<le> 10 ^ 28"
proof -
  have "half_even (of_int (10 ^ 27)) \<le> significand x"
    unfolding significand_def by (rule half_even_mono) (use significand_bounds(1)[OF assms] in simp)
  then show "10 ^ 27 \<le> significand x" by (simp only: half_even_of_int)
  have "significand x \<le> half_even (of_int (10 ^ 28))"
    unfolding significand_def
    by (rule half_even_mono) (use significand_bounds(2)[OF assms] in simp)
  then show "significand x \<le> 10 ^ 28" by (simp only: half_even_of_int)
qed

lemma dround_zero [simp]: "dround 0 = 0"
  by (simp add: dround_def)

lemma adjusted_uminus [simp]: "adjusted (- x) = adjusted x"
  by (simp add: adjusted_def)

lemma dround_uminus: "dround (- x) = - dround x"
  by (simp add: dround_def Let_def sgn_minus)

lemma dround_pos: "0 < x \<Longrightarrow> 0 < dround x"
  using significand_range(1)[of x] by (simp add: dround_pos_eq)

lemma dround_nonneg: "0 \<le> x \<Longrightarrow> 0 \<le> dround x"
  using dround_pos[of x] by (cases "x = 0") auto

lemma adjusted_mono:
  assumes "0 < x" "x \<le> y"
  shows "adjusted x \<le> adjusted y"
proof (rule ccontr)
  assume "\<not> adjusted x \<le> adjusted y"
  then have "(10::rat) powi (adjusted y + 1) \<le> 10 powi adjusted x"
    by (intro power_int_increasing) auto
  moreover have "10 powi adjusted x \<le> x" "y < 10 powi (adjusted y + 1)"
    using adjusted_bounds[of x] adjusted_bounds[of y] assms by auto
  ultimately show False using assms by linarith
qed

lemma dround_mono_pos:
  assumes "0 < x" "x \<le> y"
  shows "dround x \<le> dround y"
proof (cases "adjusted x = adjusted y")
  case True
  have "significand x \<le> significand y"
    unfolding significand_def True by (rule half_even_mono) (simp add: assms divide_right_mono)
  then show ?thesis using assms True by (simp add: dround_pos_eq mult_right_mono)
next
  case False
  with adjusted_mono[OF assms] have lt: "adjusted x + 1 \<le> adjusted y" by simp
  have y: "0 < y" using assms by simp
  have "dround x \<le> 10 ^ 28 * 10 powi (adjusted x - 27)"
    using significand_range(2)[OF assms(1)] of_int_le_iff[of "significand x" "10 ^ 28"]
    by (simp add: dround_pos_eq assms mult_right_mono del: of_int_le_iff)
  also have "\<dots> = 10 powi (adjusted x + 1)"
    using powi_diff_nat[of "adjusted x - 27" "adjusted x + 1"] by simp
  also have "\<dots> \<le> 10 powi adjusted y"
    using lt by (intro power_int_increasing) auto
  also have "\<dots> = 10 ^ 27 * 10 powi (adjusted y - 27)"
    using powi_diff_nat[of "adjusted y - 27" "adjusted y"] by simp
  also have "\<dots> \<le> dround y"
    using significand_range(1)[OF y] of_int_le_iff[of "10 ^ 27" "significand y"]
    by (simp add: dround_pos_eq y mult_right_mono del: of_int_le_iff)
  finally show ?thesis .
qed

lemma dround_mono: "x \<le> y \<Longrightarrow> dround x \<le> dround y"
proof -
  assume le: "x \<le> y"
  consider "0 < x" | "x \<le> 0" "0 \<le> y" | "y < 0" by linarith
  then show ?thesis
  proof cases
    case 1
    then show ?thesis using le by (rule dround_mono_pos)
  next
    case 2
    then have "0 \<le> dround (- x)" "0 \<le> dround y" by (auto intro: dround_nonneg)
    then show ?thesis by (simp add: dround_uminus)
  next
    case 3
    then have "dround (- y) \<le> dround (- x)" using le by (intro dround_mono_pos) auto
    then show ?thesis by (simp add: dround_uminus)
  qed
qed

text \<open>A value with at most 28 significant digits is not changed.\<close>

lemma dround_exact_pos:
  assumes "0 < n" "n < 10 ^ 28"
  shows "dround (of_int n * 10 powi e) = of_int n * 10 powi e"
proof -
  define x where "x = of_int n * (10::rat) powi e"
  have x: "0 < x" using assms by (simp add: x_def)
  have "x < 10 ^ 28 * 10 powi e"
    using assms of_int_less_iff[of n "10 ^ 28"] by (simp add: x_def del: of_int_less_iff)
  also have "\<dots> = 10 powi (e + 28)" using powi_diff_nat[of e "e + 28"] by simp
  finally have "x < 10 powi (e + 28)" .
  moreover have "10 powi adjusted x \<le> x" using adjusted_bounds[of x] x by simp
  ultimately have "(10::rat) powi adjusted x < 10 powi (e + 28)" by linarith
  then have le: "adjusted x - 27 \<le> e"
    using power_int_increasing[of "e + 28" "adjusted x" "10::rat"] by force
  define u where "u = (10::rat) powi (adjusted x - 27)"
  have "x = of_int (n * 10 ^ nat (e - (adjusted x - 27))) * u"
    using powi_diff_nat[OF le] by (simp add: x_def u_def)
  then have "x / 10 powi (adjusted x - 27) = of_int (n * 10 ^ nat (e - (adjusted x - 27)))"
    by (metis powi_pos less_numeral_extra(3) nonzero_mult_div_cancel_right u_def)
  then have "of_int (significand x) = x / 10 powi (adjusted x - 27)"
    unfolding significand_def by (simp only: half_even_of_int)
  then show ?thesis using dround_pos_eq[OF x] unfolding x_def[symmetric] by simp
qed

lemma dround_exact:
  assumes "\<bar>n\<bar> < 10 ^ 28"
  shows "dround (of_int n * 10 powi e) = of_int n * 10 powi e"
proof -
  consider "0 < n" | "n = 0" | "0 < - n" by linarith
  then show ?thesis
  proof cases
    case 1
    then show ?thesis using assms by (intro dround_exact_pos) auto
  next
    case 2
    then show ?thesis by simp
  next
    case 3
    then show ?thesis using assms dround_exact_pos[of "- n" e] dround_uminus[of "of_int n * 10 powi e"]
      by simp
  qed
qed

lemma dround_grid:
  assumes "of_int \<lfloor>x * 10 ^ 15\<rfloor> = x * 10 ^ 15" "\<bar>x\<bar> < 10 ^ 13"
  shows "dround x = x"
proof -
  define n where "n = \<lfloor>x * 10 ^ 15\<rfloor>"
  have n: "of_int n = x * 10 ^ 15" using assms(1) by (simp only: n_def)
  have "\<bar>of_int n :: rat\<bar> < of_int (10 ^ 28)" using assms(2) by (simp add: n abs_mult)
  then have "\<bar>n\<bar> < 10 ^ 28" by (simp only: of_int_abs[symmetric] of_int_less_iff)
  moreover have "x = of_int n * 10 powi (-15)" by (simp add: n power_int_minus power_int_numeral)
  ultimately show ?thesis using dround_exact by metis
qed

lemmas decimal_eval [eval_simps] = dec_ops dround_grid

lemma dround_idem: "dround (dround x) = dround x"
proof -
  have pos: "dround (dround y) = dround y" if y: "0 < y" for y :: rat
  proof (cases "significand y = 10 ^ 28")
    case True
    have "dround y = of_int 1 * 10 powi (adjusted y + 1)"
      using powi_diff_nat[of "adjusted y - 27" "adjusted y + 1"] by (simp add: dround_pos_eq y True)
    then show ?thesis using dround_exact[of 1 "adjusted y + 1"] by simp
  next
    case False
    with significand_range[OF y] show ?thesis
      using dround_exact[of "significand y" "adjusted y - 27"] by (simp add: dround_pos_eq y)
  qed
  consider "0 < x" | "x = 0" | "0 < - x" by linarith
  then show ?thesis
  proof cases
    case 1
    then show ?thesis by (rule pos)
  next
    case 2
    then show ?thesis by simp
  next
    case 3
    then show ?thesis using pos[OF 3] by (simp add: dround_uminus)
  qed
qed

text \<open>The relative error of one operation is at most \<open>5 * 10^-28\<close>.\<close>

lemma dround_error: "\<bar>dround x - x\<bar> \<le> \<bar>x\<bar> / (2 * 10 ^ 27)"
proof -
  have pos: "\<bar>dround y - y\<bar> \<le> y / (2 * 10 ^ 27)" if y: "0 < y" for y :: rat
  proof -
    define u where "u = (10::rat) powi (adjusted y - 27)"
    have u: "0 < u" by (simp add: u_def)
    have "dround y - y = (of_int (significand y) - y / u) * u"
      using u by (simp add: dround_pos_eq y u_def[symmetric] algebra_simps)
    then have "\<bar>dround y - y\<bar> = \<bar>of_int (significand y) - y / u\<bar> * u"
      using u by (simp add: abs_mult)
    also have "\<dots> \<le> 1 / 2 * u"
      unfolding significand_def u_def[symmetric]
      by (rule mult_right_mono) (use u half_even_error in auto)
    also have "\<dots> \<le> y / (2 * 10 ^ 27)"
      using significand_bounds(1)[OF y] u by (simp add: u_def[symmetric] pos_le_divide_eq)
    finally show ?thesis .
  qed
  consider "0 < x" | "x = 0" | "0 < - x" by linarith
  then show ?thesis
  proof cases
    case 3
    then show ?thesis using pos[OF 3] by (simp add: dround_uminus)
  qed (use pos in auto)
qed

section \<open>The contract the cost computations rely on\<close>

locale decimal_rounding =
  fixes rnd :: "rat \<Rightarrow> rat"
  assumes rnd_zero: "rnd 0 = 0"
    and rnd_mono: "x \<le> y \<Longrightarrow> rnd x \<le> rnd y"
    and rnd_idem: "rnd (rnd x) = rnd x"
begin

lemma rnd_nonneg: "0 \<le> x \<Longrightarrow> 0 \<le> rnd x"
  using rnd_mono[of 0 x] by (simp add: rnd_zero)

lemma rnd_add_mono: "x \<le> x' \<Longrightarrow> y \<le> y' \<Longrightarrow> rnd (x + y) \<le> rnd (x' + y')"
  by (intro rnd_mono add_mono)

lemma rnd_mult_mono:
  "0 \<le> x \<Longrightarrow> x \<le> x' \<Longrightarrow> 0 \<le> y \<Longrightarrow> y \<le> y' \<Longrightarrow> rnd (x * y) \<le> rnd (x' * y')"
  by (intro rnd_mono mult_mono) auto

lemma rnd_sum_nonneg:
  "0 \<le> a \<Longrightarrow> \<forall>x \<in> set xs. 0 \<le> x \<Longrightarrow> 0 \<le> foldl (\<lambda>u v. rnd (u + v)) a xs"
  by (induction xs arbitrary: a) (auto simp: rnd_nonneg)

lemma rnd_sum_mono:
  "a \<le> b \<Longrightarrow> list_all2 (\<le>) xs ys \<Longrightarrow>
     foldl (\<lambda>u v. rnd (u + v)) a xs \<le> foldl (\<lambda>u v. rnd (u + v)) b ys"
proof (induction xs arbitrary: a b ys)
  case Nil
  then show ?case by simp
next
  case (Cons x xs)
  then obtain y ys' where ys: "ys = y # ys'" "x \<le> y" "list_all2 (\<le>) xs ys'"
    by (auto simp: list_all2_Cons1)
  with Cons show ?case by (simp add: rnd_add_mono)
qed

end

interpretation py28: decimal_rounding dround
  by unfold_locales (auto simp: dround_idem intro: dround_mono)

lemma dec_add_nonneg: "0 \<le> x \<Longrightarrow> 0 \<le> y \<Longrightarrow> 0 \<le> dec_add x y"
  by (simp add: dec_add_def py28.rnd_nonneg)

lemma dec_mul_nonneg: "0 \<le> x \<Longrightarrow> 0 \<le> y \<Longrightarrow> 0 \<le> dec_mul x y"
  by (simp add: dec_mul_def py28.rnd_nonneg)

lemma dec_div_nonneg: "0 \<le> x \<Longrightarrow> 0 \<le> y \<Longrightarrow> 0 \<le> dec_div x y"
  by (simp add: dec_div_def py28.rnd_nonneg)

lemma dec_sum_nonneg: "\<forall>x \<in> set xs. 0 \<le> x \<Longrightarrow> 0 \<le> dec_sum xs"
  using py28.rnd_sum_nonneg[of 0 xs] by (simp add: dec_sum_def dec_add_def[abs_def])

lemma dec_sum_mono: "list_all2 (\<le>) xs ys \<Longrightarrow> dec_sum xs \<le> dec_sum ys"
  using py28.rnd_sum_mono[of 0 0 xs ys] by (simp add: dec_sum_def dec_add_def[abs_def])

lemmas dec_nonneg = dec_add_nonneg dec_mul_nonneg dec_div_nonneg dec_sum_nonneg

section \<open>Column values\<close>

lemma column_valueD:
  assumes "column_value x"
  obtains n :: int where "x = of_int n * 10 powi (-9)" "\<bar>n\<bar> < 10 ^ 18"
proof -
  have i: "of_int \<lfloor>x * 10 ^ 9\<rfloor> = x * 10 ^ 9" "\<bar>x\<bar> < 10 ^ 9"
    using assms by (auto simp: column_value_def)
  have x: "x = of_int \<lfloor>x * 10 ^ 9\<rfloor> * 10 powi (-9)"
    by (simp only: i(1)) (simp add: power_int_minus power_int_numeral)
  have "\<bar>of_int \<lfloor>x * 10 ^ 9\<rfloor> :: rat\<bar> < 10 ^ 18"
    using i(2) by (simp only: i(1)) (simp add: abs_mult)
  then have "\<bar>\<lfloor>x * 10 ^ 9\<rfloor>\<bar> < 10 ^ 18"
    by (metis of_int_abs of_int_less_iff of_int_numeral of_int_power)
  with x show ?thesis using that by blast
qed

lemma grid_exact:
  assumes "column_value x" "column_value y"
  shows "dround (x + y) = x + y" "dround (x - y) = x - y"
proof -
  obtain n m :: int where n: "x = of_int n * 10 powi (-9)" "\<bar>n\<bar> < 10 ^ 18"
    and m: "y = of_int m * 10 powi (-9)" "\<bar>m\<bar> < 10 ^ 18"
    using column_valueD[OF assms(1)] column_valueD[OF assms(2)] by metis
  have "x + y = of_int (n + m) * 10 powi (-9)" by (simp add: n m distrib_right)
  moreover have "\<bar>n + m\<bar> < 10 ^ 28" using n(2) m(2) by simp
  ultimately show "dround (x + y) = x + y" using dround_exact by metis
  have "x - y = of_int (n - m) * 10 powi (-9)" by (simp add: n m left_diff_distrib)
  moreover have "\<bar>n - m\<bar> < 10 ^ 28" using n(2) m(2) by simp
  ultimately show "dround (x - y) = x - y" using dround_exact by metis
qed

lemma dec_add_column: "column_value x \<Longrightarrow> column_value y \<Longrightarrow> dec_add x y = x + y"
  by (simp add: dec_add_def grid_exact)

lemma dec_sub_column: "column_value x \<Longrightarrow> column_value y \<Longrightarrow> dec_sub x y = x - y"
  by (simp add: dec_sub_def grid_exact)

lemma column_value_zero [simp]: "column_value 0"
  by (simp add: column_value_def)

end
