(* ===== verification/PyValue.thy ===== *)
theory PyValue
  imports PyDecimal "HOL-Library.AList"
begin

text \<open>
  The Python values that the gateway keeps in JSON columns and reads back from provider
  responses.  A dict with string keys is an association list in insertion order; \<open>dget\<close> is
  \<open>d.get(k)\<close>, \<open>dset\<close> is \<open>d[k] = v\<close> and \<open>dmerge\<close> is \<open>{**a, **b}\<close>.  A float is carried as the
  text \<open>str\<close> gives for it (no arithmetic is done on floats), \<open>PDecStr d\<close> is the string
  \<open>str(d)\<close> of a Decimal \<open>d\<close>, and \<open>PTimeStr t\<close> is the string \<open>t.isoformat()\<close> of a datetime.
\<close>

datatype pyval =
    PNone
  | PBool bool
  | PInt int
  | PFloat string
  | PDec decimal
  | PDecStr decimal
  | PTimeStr pydatetime
  | PStr string
  | PList "pyval list"
  | PDict "(string \<times> pyval) list"

type_synonym pydict = "(string \<times> pyval) list"

definition dget :: "pydict \<Rightarrow> string \<Rightarrow> pyval" where
  "dget d k = (case map_of d k of None \<Rightarrow> PNone | Some v \<Rightarrow> v)"

definition dset :: "string \<Rightarrow> pyval \<Rightarrow> pydict \<Rightarrow> pydict" where
  "dset k v d = AList.update k v d"

definition dmerge :: "pydict \<Rightarrow> pydict \<Rightarrow> pydict" where
  "dmerge a b = foldl (\<lambda>d kv. dset (fst kv) (snd kv) d) a b"

text \<open>\<open>d if isinstance(d, dict) else {}\<close> and \<open>dict(d or {})\<close>.\<close>

fun as_dict :: "pyval \<Rightarrow> pydict" where
  "as_dict (PDict d) = d"
| "as_dict _ = []"

fun is_dict :: "pyval \<Rightarrow> bool" where
  "is_dict (PDict d) = True"
| "is_dict _ = False"

definition pystr :: "string option \<Rightarrow> pyval" where
  "pystr v = (case v of None \<Rightarrow> PNone | Some s \<Rightarrow> PStr s)"

definition pyint :: "int option \<Rightarrow> pyval" where
  "pyint v = (case v of None \<Rightarrow> PNone | Some i \<Rightarrow> PInt i)"

text \<open>\<open>str(d)\<close> of an optional Decimal, \<open>None\<close> kept.\<close>

definition pydecstr :: "decimal option \<Rightarrow> pyval" where
  "pydecstr v = (case v of None \<Rightarrow> PNone | Some d \<Rightarrow> PDecStr d)"

lemma dget_dset: "dget (dset k v d) k' = (if k' = k then v else dget d k')"
  by (simp add: dget_def dset_def update_conv)

lemma dget_dset_same [simp]: "dget (dset k v d) k = v"
  by (simp add: dget_dset)

lemma dget_dset_other: "k' \<noteq> k \<Longrightarrow> dget (dset k v d) k' = dget d k'"
  by (simp add: dget_dset)

lemma dget_Nil [simp]: "dget [] k = PNone"
  by (simp add: dget_def)

lemma dget_Cons [simp]: "dget ((k, v) # d) k' = (if k' = k then v else dget d k')"
  by (simp add: dget_def)

lemma dmerge_Nil [simp]: "dmerge a [] = a"
  by (simp add: dmerge_def)

lemma dmerge_Cons [simp]: "dmerge a ((k, v) # b) = dmerge (dset k v a) b"
  by (simp add: dmerge_def)

lemma dget_dmerge_other: "k \<notin> fst ` set b \<Longrightarrow> dget (dmerge a b) k = dget a k"
  by (induction b arbitrary: a) (auto simp: dget_dset)

lemma dget_dmerge:
  "distinct (map fst b) \<Longrightarrow>
     dget (dmerge a b) k = (case map_of b k of None \<Rightarrow> dget a k | Some v \<Rightarrow> v)"
proof (induction b arbitrary: a)
  case Nil
  then show ?case by simp
next
  case (Cons kv b)
  obtain k' v where kv: "kv = (k', v)" by force
  show ?case
  proof (cases "k = k'")
    case True
    with Cons.prems kv have "k \<notin> fst ` set b" by auto
    then show ?thesis by (simp add: kv True dget_dmerge_other)
  next
    case False
    with Cons kv show ?thesis by (simp add: dget_dset split: option.splits)
  qed
qed

section \<open>Texts of identifiers\<close>

text \<open>\<open>str(uuid)\<close>: the 128-bit value as 32 hexadecimal digits in groups of 8-4-4-4-12.\<close>

definition hex_digit :: "nat \<Rightarrow> char" where
  "hex_digit d = (if d < 10 then char_of (48 + d) else char_of (87 + d))"

primrec hex_digits :: "nat \<Rightarrow> nat \<Rightarrow> string" where
  "hex_digits 0 n = []"
| "hex_digits (Suc w) n = hex_digits w (n div 16) @ [hex_digit (n mod 16)]"

definition uuid_str :: "uuid \<Rightarrow> string" where
  "uuid_str u =
     (let h = hex_digits 32 u
      in take 8 h @ ''-'' @ take 4 (drop 8 h) @ ''-'' @ take 4 (drop 12 h) @ ''-''
         @ take 4 (drop 16 h) @ ''-'' @ drop 20 h)"

lemma length_hex_digits [simp]: "length (hex_digits w n) = w"
  by (induction w arbitrary: n) auto

end
