(* ===== verification/Redaction.thy ===== *)
theory Redaction
  imports Gateway_Prelude
begin

text \<open>
  \<open>utils/redaction.py\<close> and the gateway-key parsing of \<open>utils/crypto.py\<close>.

  The four regular expressions of the redaction module are modelled as terms of a small type of
  expressions; \<open>ends\<close> lists the end positions of the matches that start at a position in the
  order Python's backtracking matcher tries them, so its head is the match \<open>re\<close> reports, and
  \<open>rx_sub\<close> is \<open>Pattern.sub\<close>.  Repetition is only needed over character classes.
\<close>

section \<open>Regular expressions\<close>

datatype rx =
    Sym "char \<Rightarrow> bool"
  | Many "char \<Rightarrow> bool" nat "nat option"
  | Cat rx rx
  | Alt rx rx
  | Eps
  | WordB
  | NotAhead rx

definition is_alnum :: "char \<Rightarrow> bool" where
  "is_alnum c = (is_lower c \<or> is_upper c \<or> is_digit c)"

text \<open>\<open>\w\<close>: the alphanumeric code points below 256, and the underscore.\<close>

definition is_word :: "char \<Rightarrow> bool" where
  "is_word c =
     (is_alnum c \<or> c = CHR ''_''
      \<or> char_code c \<in> {170, 178, 179, 181, 185, 186, 188, 189, 190}
      \<or> 192 \<le> char_code c \<and> char_code c \<le> 214
      \<or> 216 \<le> char_code c \<and> char_code c \<le> 246
      \<or> 248 \<le> char_code c)"

definition word_at :: "string \<Rightarrow> nat \<Rightarrow> bool" where
  "word_at s i = (i < length s \<and> is_word (s ! i))"

definition at_boundary :: "string \<Rightarrow> nat \<Rightarrow> bool" where
  "at_boundary s i = ((0 < i \<and> word_at s (i - 1)) \<noteq> word_at s i)"

primrec ends :: "rx \<Rightarrow> string \<Rightarrow> nat \<Rightarrow> nat list" where
  "ends (Sym p) s i = (if i < length s \<and> p (s ! i) then [Suc i] else [])"
| "ends (Many p lo hi) s i =
     (let run = length (takeWhile p (drop i s));
          top = (case hi of None \<Rightarrow> run | Some h \<Rightarrow> min run h)
      in if lo \<le> top then map (\<lambda>k. i + top - k) [0 ..< Suc (top - lo)] else [])"
| "ends (Cat a b) s i = concat (map (ends b s) (ends a s i))"
| "ends (Alt a b) s i = ends a s i @ ends b s i"
| "ends Eps s i = [i]"
| "ends WordB s i = (if at_boundary s i then [i] else [])"
| "ends (NotAhead r) s i = (if ends r s i = [] then [i] else [])"

primrec cat :: "rx list \<Rightarrow> rx" where
  "cat [] = Eps"
| "cat (r # rs) = Cat r (cat rs)"

definition rx_lit :: "string \<Rightarrow> rx" where
  "rx_lit w = cat (map (\<lambda>c. Sym (\<lambda>d. d = c)) w)"

definition rx_lit_i :: "string \<Rightarrow> rx" where
  "rx_lit_i w = cat (map (\<lambda>c. Sym (\<lambda>d. lower_char d = lower_char c)) w)"

primrec rx_alts :: "rx \<Rightarrow> rx list \<Rightarrow> rx" where
  "rx_alts r [] = r"
| "rx_alts r (q # qs) = Alt r (rx_alts q qs)"

definition slice :: "string \<Rightarrow> nat \<Rightarrow> nat \<Rightarrow> string" where
  "slice s i j = take (j - i) (drop i s)"

text \<open>\<open>Pattern.sub\<close> with a replacement function; every pattern used here matches at least one
  character, so an empty match (which \<open>re\<close> treats specially) does not occur.\<close>

function rx_sub_from :: "rx \<Rightarrow> (string \<Rightarrow> string) \<Rightarrow> string \<Rightarrow> nat \<Rightarrow> string" where
  "rx_sub_from r f s i =
     (if length s \<le> i then []
      else case ends r s i of
             [] \<Rightarrow> s ! i # rx_sub_from r f s (Suc i)
           | e # _ \<Rightarrow>
               if i < e then f (slice s i e) @ rx_sub_from r f s e
               else s ! i # rx_sub_from r f s (Suc i))"
  by pat_completeness auto
termination
  by (relation "measure (\<lambda>(r, f, s, i). length s - i)") auto

declare rx_sub_from.simps [simp del]

definition rx_sub :: "rx \<Rightarrow> (string \<Rightarrow> string) \<Rightarrow> string \<Rightarrow> string" where
  "rx_sub r f s = rx_sub_from r f s 0"

definition rx_fullmatch :: "rx \<Rightarrow> string \<Rightarrow> bool" where
  "rx_fullmatch r s = (length s \<in> set (ends r s 0))"

section \<open>Gateway keys (utils/crypto.py)\<close>

definition id_class :: "char \<Rightarrow> bool" where
  "id_class c = (is_alnum c \<or> c = CHR ''_'' \<or> c = CHR ''-'')"

definition token_class :: "char \<Rightarrow> bool" where
  "token_class c = (is_alnum c \<or> c \<in> set ''._~+/=-'')"

definition dash_class :: "char \<Rightarrow> bool" where
  "dash_class c = (is_alnum c \<or> c = CHR ''-'')"

definition public_id_pattern :: rx where
  "public_id_pattern = Many id_class 8 (Some 64)"

definition gateway_key_pattern :: rx where
  "gateway_key_pattern =
     cat [WordB, rx_lit_i ''sk-'', Many dash_class 1 None, rx_lit_i ''-'',
          Many id_class 4 (Some 64), rx_lit ''.'', Many token_class 8 None, WordB]"

text \<open>\<open>max(matches, key=len)\<close>: the first of the longest.\<close>

fun longest :: "string \<Rightarrow> string list \<Rightarrow> string" where
  "longest best [] = best"
| "longest best (p # ps) = (if length best < length p then longest p ps else longest best ps)"

definition best_matching_prefix :: "string \<Rightarrow> string list \<Rightarrow> string option" where
  "best_matching_prefix key accepted_prefixes =
     (case filter (\<lambda>p. p \<noteq> [] \<and> starts_with key p) accepted_prefixes of
        [] \<Rightarrow> None
      | p # ps \<Rightarrow> Some (longest p ps))"

definition parse_gateway_key_public_id :: "string \<Rightarrow> string list \<Rightarrow> string result" where
  "parse_gateway_key_public_id key accepted_prefixes =
     (if key = [] then Inl PyValueError
      else case best_matching_prefix key accepted_prefixes of
        None \<Rightarrow> Inl PyValueError
      | Some matched_prefix \<Rightarrow>
          (let payload = drop (length matched_prefix) key;
               public_key_id = takeWhile (\<lambda>c. c \<noteq> CHR ''.'') payload;
               secret = drop (Suc (length public_key_id)) payload
           in if CHR ''.'' \<notin> set payload then Inl PyValueError
              else if public_key_id = [] \<or> secret = [] then Inl PyValueError
              else if \<not> rx_fullmatch public_id_pattern public_key_id then Inl PyValueError
              else if length secret < 43 then Inl PyValueError
              else Inr public_key_id))"

definition is_plausible_gateway_key :: "string \<Rightarrow> string list \<Rightarrow> bool" where
  "is_plausible_gateway_key key accepted_prefixes =
     (case parse_gateway_key_public_id key accepted_prefixes of Inl _ \<Rightarrow> False | Inr _ \<Rightarrow> True)"

definition default_prefixes :: "string list" where
  "default_prefixes = [''sk-slaif-'']"

text \<open>In the generic branch the prefix and public-id groups hold no dot, so the two groups
  together are the text before the first dot of the key.\<close>

definition redact_gateway_key :: "string \<Rightarrow> string list option \<Rightarrow> string" where
  "redact_gateway_key key accepted =
     (let prefixes = (case accepted of None \<Rightarrow> default_prefixes | Some ps \<Rightarrow> ps);
          generic =
            (case ends gateway_key_pattern key 0 of
               [] \<Rightarrow> ''<redacted>''
             | e # _ \<Rightarrow>
                 if e = length key then takeWhile (\<lambda>c. c \<noteq> CHR ''.'') key @ ''.***''
                 else ''<redacted>'')
      in if key = [] then ''<redacted>''
         else case (parse_gateway_key_public_id key prefixes, best_matching_prefix key prefixes) of
                (Inr public_key_id, Some prefix) \<Rightarrow> prefix @ public_key_id @ ''.***''
              | _ \<Rightarrow> generic)"

section \<open>Sensitive keys and free text (utils/redaction.py)\<close>

definition sensitive_key_parts :: "string list" where
  "sensitive_key_parts =
     [''authorization'', ''apikey'', ''providerapikey'', ''openaiapikey'', ''openrouterapikey'',
      ''token'', ''secret'', ''password'', ''csrf'', ''cookie'', ''session'', ''credential'',
      ''bearer'', ''nonce'', ''encryptedpayload'', ''tokenhash'', ''plaintextkey'', ''gatewaykey'',
      ''providerkey'', ''passwordhash'']"

definition safe_token_counter_keys :: "string list" where
  "safe_token_counter_keys =
     [''prompttokens'', ''completiontokens'', ''totaltokens'', ''cachedtokens'',
      ''reasoningtokens'', ''inputtokens'', ''outputtokens'', ''estimatedtokens'',
      ''actualtokens'', ''actualtotaltokens'', ''actualcachedtokens'', ''actualreasoningtokens'',
      ''reservedtokens'', ''releasedtokens'', ''componenttokencounts'', ''inputuncachedtokens'',
      ''inputcachedtokens'', ''outputnonreasoningtokens'', ''outputreasoningtokens'',
      ''tokenreservationoverrun'', ''tokensusedtotal'', ''tokensreservedtotal'',
      ''tokenlimittotal'']"

definition normalize_sensitive_key :: "string \<Rightarrow> string" where
  "normalize_sensitive_key key = filter (\<lambda>c. is_lower c \<or> is_digit c) (py_lower key)"

definition is_sensitive_key :: "string \<Rightarrow> bool" where
  "is_sensitive_key key =
     (let normalized = normalize_sensitive_key key
      in if normalized \<in> set safe_token_counter_keys then False
         else list_ex (contains_sub normalized) sensitive_key_parts)"

definition bearer_pattern :: rx where
  "bearer_pattern =
     cat [WordB, rx_lit_i ''bearer'', Many py_isspace 1 None, Many token_class 8 None]"

definition dotted_class :: "char \<Rightarrow> bool" where
  "dotted_class c = (is_alnum c \<or> c \<in> set ''._-'')"

definition provider_key_pattern :: rx where
  "provider_key_pattern =
     Cat WordB
       (rx_alts
         (cat [rx_lit ''sk-'', Alt (rx_lit ''proj-'') (rx_lit ''or-''), Many dotted_class 10 None])
         [cat [rx_lit ''sk-'', Many is_alnum 20 None],
          cat [rx_lit ''sk-'', Many dash_class 12 None, NotAhead (Sym dotted_class)]])"

text \<open>\<open>name1[_-]?name2\<close>\<close>

definition joined :: "string \<Rightarrow> string \<Rightarrow> rx" where
  "joined a b = cat [rx_lit_i a, Many (\<lambda>c. c = CHR ''_'' \<or> c = CHR ''-'') 0 (Some 1), rx_lit_i b]"

definition assigned_class :: "char \<Rightarrow> bool" where
  "assigned_class c = (\<not> py_isspace c \<and> c \<notin> set ''&;,'')"

definition sensitive_assignment_pattern :: rx where
  "sensitive_assignment_pattern =
     cat [WordB,
          rx_alts (joined ''api'' ''key'')
            [joined ''provider'' ''key'', joined ''gateway'' ''key'', joined ''plaintext'' ''key'',
             Cat (joined ''new'' ''plaintext'')
                 (Cat (Many (\<lambda>c. c = CHR ''_'' \<or> c = CHR ''-'') 0 (Some 1)) (rx_lit_i ''key'')),
             rx_lit_i ''authorization'', rx_lit_i ''cookie'', joined ''access'' ''token'',
             joined ''refresh'' ''token'', joined ''session'' ''token'', joined ''csrf'' ''token'',
             joined ''token'' ''hash'', joined ''encrypted'' ''payload'', rx_lit_i ''nonce'',
             rx_lit_i ''password'', rx_lit_i ''secret'', rx_lit_i ''token''],
          rx_lit ''='', Many assigned_class 1 None]"

definition redact_text :: "string \<Rightarrow> string list option \<Rightarrow> string" where
  "redact_text value accepted =
     (let r1 = rx_sub bearer_pattern (\<lambda>m. take 6 m @ '' ***'') value;
          r2 = rx_sub gateway_key_pattern (\<lambda>m. redact_gateway_key m accepted) r1;
          r3 = rx_sub provider_key_pattern (\<lambda>m. ''***'') r2
      in rx_sub sensitive_assignment_pattern
           (\<lambda>m. takeWhile (\<lambda>c. c \<noteq> CHR ''='') m @ ''=***'') r3)"

definition redact_secret :: "string option \<Rightarrow> nat \<Rightarrow> nat \<Rightarrow> string" where
  "redact_secret value visible_prefix visible_suffix =
     (case value of
        None \<Rightarrow> ''<not set>''
      | Some v \<Rightarrow>
          if v = [] then ''<empty>''
          else if length v \<le> visible_prefix + visible_suffix then ''***''
          else take visible_prefix v @ ''***'' @
               (if visible_suffix = 0 then v else drop (length v - visible_suffix) v))"

text \<open>\<open>value.split(None, 1)\<close> has two parts exactly when a second word exists.\<close>

definition redact_authorization_header :: "string option \<Rightarrow> string" where
  "redact_authorization_header value =
     (case value of
        None \<Rightarrow> ''<not set>''
      | Some v \<Rightarrow>
          if v = [] then ''<not set>''
          else let w = dropWhile py_isspace v;
                   scheme = takeWhile (\<lambda>c. \<not> py_isspace c) w;
                   rest = dropWhile py_isspace (drop (length scheme) w)
               in if rest = [] then ''***'' else scheme @ '' ***'')"

section \<open>Facts\<close>

lemma ends_ge: "e \<in> set (ends r s i) \<Longrightarrow> i \<le> e"
proof (induction r arbitrary: i e)
  case (Many p lo hi)
  then show ?case by (auto simp: Let_def split: if_splits)
next
  case (Cat a b)
  then obtain j where "j \<in> set (ends a s i)" "e \<in> set (ends b s j)" by auto
  with Cat.IH show ?case by (meson le_trans)
qed (auto split: if_splits)

text \<open>A redacted header never shows more of the credential than its scheme.\<close>

lemma redact_authorization_header_scheme:
  assumes "py_isspace ` set scheme \<subseteq> {False}" "scheme \<noteq> []" "tok \<noteq> []" "\<not> py_isspace (hd tok)"
  shows "redact_authorization_header (Some (scheme @ CHR '' '' # tok)) = scheme @ '' ***''"
proof -
  have a: "dropWhile py_isspace (scheme @ CHR '' '' # tok) = scheme @ CHR '' '' # tok"
    using assms(1,2) by (cases scheme) auto
  have sp: "py_isspace (CHR '' '')" by (simp add: py_isspace_def char_code_def)
  have b: "takeWhile (\<lambda>c. \<not> py_isspace c) (scheme @ CHR '' '' # tok) = scheme"
    using assms(1) sp by (subst takeWhile_append2) (auto)
  have "dropWhile py_isspace (CHR '' '' # tok) = tok"
    using assms(3,4) sp by (cases tok) auto
  moreover have "\<exists>x \<in> set tok. \<not> py_isspace x" using assms(3,4) by (meson hd_in_set)
  ultimately show ?thesis using assms(2,3) sp
    by (simp add: redact_authorization_header_def Let_def a b)
qed

text \<open>The result of parsing a key is the text between the prefix and the first dot.\<close>

lemma parse_gateway_key_public_id_Inr:
  assumes "parse_gateway_key_public_id key ps = Inr pid"
  shows "\<exists>prefix secret. key = prefix @ pid @ CHR ''.'' # secret \<and> prefix \<in> set ps \<and> prefix \<noteq> []
           \<and> CHR ''.'' \<notin> set pid \<and> 43 \<le> length secret \<and> rx_fullmatch public_id_pattern pid"
proof -
  have longest_in: "longest b qs \<in> insert b (set qs)" for b qs
    by (induction b qs rule: longest.induct) auto
  obtain prefix where best: "best_matching_prefix key ps = Some prefix"
    using assms by (auto simp: parse_gateway_key_public_id_def split: option.splits if_splits)
  then obtain b qs where f: "filter (\<lambda>p. p \<noteq> [] \<and> starts_with key p) ps = b # qs"
    "prefix = longest b qs"
    by (auto simp: best_matching_prefix_def split: list.splits)
  then have "prefix \<in> set (filter (\<lambda>p. p \<noteq> [] \<and> starts_with key p) ps)"
    using longest_in[of b qs] by simp
  then have pre: "prefix \<in> set ps" "prefix \<noteq> []" "starts_with key prefix" by auto
  then obtain payload where key: "key = prefix @ payload" by (auto simp: starts_with_iff)
  have drop: "drop (length prefix) key = payload" by (simp add: key)
  have facts: "CHR ''.'' \<in> set payload" "pid = takeWhile (\<lambda>c. c \<noteq> CHR ''.'') payload"
    "rx_fullmatch public_id_pattern pid" "43 \<le> length (drop (Suc (length pid)) payload)"
    using assms unfolding parse_gateway_key_public_id_def best option.case Let_def drop
    by (auto split: if_splits)
  obtain u rest where u: "payload = u @ CHR ''.'' # rest" "CHR ''.'' \<notin> set u"
    using split_list_first[OF facts(1)] by blast
  have "takeWhile (\<lambda>c. c \<noteq> CHR ''.'') payload = u"
    unfolding u(1) by (subst takeWhile_append2) (use u(2) in auto)
  then have pay: "payload = pid @ CHR ''.'' # rest" and "CHR ''.'' \<notin> set pid"
    using u facts(2) by simp_all
  then have "drop (Suc (length pid)) payload = rest" by simp
  then have "43 \<le> length rest" using facts(4) by simp
  moreover have "key = prefix @ pid @ CHR ''.'' # rest" unfolding key pay ..
  ultimately show ?thesis using pre(1,2) facts(3) \<open>CHR ''.'' \<notin> set pid\<close> by blast
qed

text \<open>A text of lower-case letters and underscores, such as the gateway's own status names, is left
  as it is: each pattern needs a character that such a text does not have.\<close>

primrec needs_other :: "(char \<Rightarrow> bool) \<Rightarrow> rx \<Rightarrow> bool" where
  "needs_other p (Sym q) = (\<forall>c. p c \<longrightarrow> \<not> q c)"
| "needs_other p (Many q lo hi) = (0 < lo \<and> (\<forall>c. p c \<longrightarrow> \<not> q c))"
| "needs_other p (Cat a b) = (needs_other p a \<or> needs_other p b)"
| "needs_other p (Alt a b) = (needs_other p a \<and> needs_other p b)"
| "needs_other p Eps = False"
| "needs_other p WordB = False"
| "needs_other p (NotAhead r) = False"

lemma needs_other_no_match: "\<forall>c \<in> set s. p c \<Longrightarrow> needs_other p r \<Longrightarrow> ends r s i = []"
proof (induction r arbitrary: i)
  case (Many q lo hi)
  have "takeWhile q (drop i s) = []"
    using Many set_drop_subset[of i s] by (cases "drop i s") auto
  then show ?case using Many(2) by (simp add: Let_def split: option.splits)
qed auto

lemma rx_sub_no_match: "(\<And>i. ends r s i = []) \<Longrightarrow> rx_sub r f s = s"
proof -
  assume none: "\<And>i. ends r s i = []"
  have "rx_sub_from r f s i = drop i s" for i
    by (induction "length s - i" arbitrary: i)
       (subst rx_sub_from.simps; simp add: none Cons_nth_drop_Suc)+
  then show ?thesis by (simp add: rx_sub_def)
qed

definition plain_char :: "char \<Rightarrow> bool" where
  "plain_char c = (is_lower c \<or> c = CHR ''_'')"

lemma plain_char_other:
  "plain_char c \<Longrightarrow> \<not> py_isspace c" "plain_char c \<Longrightarrow> c \<noteq> CHR ''-''" "plain_char c \<Longrightarrow> c \<noteq> CHR ''=''"
  "plain_char c \<Longrightarrow> c \<noteq> CHR ''.''"
  by (auto simp: plain_char_def is_lower_def py_isspace_def char_code_def)

lemma redact_text_plain:
  assumes "list_all plain_char s"
  shows "redact_text s pfx = s"
proof -
  have all: "\<forall>c \<in> set s. plain_char c" using assms by (simp add: list_all_iff)
  have "needs_other plain_char bearer_pattern"
    by (simp add: bearer_pattern_def plain_char_other)
  moreover have "needs_other plain_char gateway_key_pattern"
    by (simp add: gateway_key_pattern_def rx_lit_def plain_char_other)
  moreover have "needs_other plain_char provider_key_pattern"
    by (simp add: provider_key_pattern_def rx_lit_def plain_char_other)
  moreover have "needs_other plain_char sensitive_assignment_pattern"
    by (simp add: sensitive_assignment_pattern_def rx_lit_def plain_char_other)
  ultimately show ?thesis
    by (simp add: redact_text_def Let_def rx_sub_no_match needs_other_no_match[OF all])
qed

end
