(* ===== verification/Sanitization.thy ===== *)
theory Sanitization
  imports PyValue Redaction
begin

text \<open>
  \<open>utils/sanitization.py\<close>: metadata that is written to durable records loses its secrets and,
  on request, every key that can hold prompt or completion content.  The lemmas show that this
  holds at every depth of the value, and that what is left is JSON-safe.
\<close>

definition content_key_names :: "string list" where
  "content_key_names =
     [''messages'', ''choices'', ''content'', ''prompt'', ''completion'', ''requestbody'',
      ''responsebody'', ''requestpayload'', ''responsepayload'', ''rawrequest'',
      ''rawrequestbody'', ''rawrequestpayload'', ''rawresponse'', ''rawresponsebody'',
      ''rawresponsepayload'']"

definition is_content_key :: "string \<Rightarrow> bool" where
  "is_content_key key = (normalize_sensitive_key key \<in> set content_key_names)"

function sanitize_value :: "bool \<Rightarrow> string list option \<Rightarrow> pyval \<Rightarrow> pyval"
  and sanitize_mapping :: "bool \<Rightarrow> string list option \<Rightarrow> pydict \<Rightarrow> pydict"
  and sanitize_items :: "bool \<Rightarrow> string list option \<Rightarrow> pyval list \<Rightarrow> pyval list" where
  "sanitize_value dc pfx PNone = PNone"
| "sanitize_value dc pfx (PBool b) = PBool b"
| "sanitize_value dc pfx (PInt i) = PInt i"
| "sanitize_value dc pfx (PStr s) = PStr (redact_text s pfx)"
| "sanitize_value dc pfx (PDecStr d) = PDecStr d"
| "sanitize_value dc pfx (PTimeStr t) = PTimeStr t"
| "sanitize_value dc pfx (PDec d) = PDecStr d"
| "sanitize_value dc pfx (PFloat s) = PStr s"
| "sanitize_value dc pfx (PDict m) = PDict (sanitize_mapping dc pfx m)"
| "sanitize_value dc pfx (PList xs) = PList (sanitize_items dc pfx xs)"
| "sanitize_mapping dc pfx [] = []"
| "sanitize_mapping dc pfx ((key, item) # m) =
     (if dc \<and> is_content_key key then sanitize_mapping dc pfx m
      else if is_sensitive_key key then
        (if dc then sanitize_mapping dc pfx m
         else (key, PStr ''***'') # sanitize_mapping dc pfx m)
      else (key, sanitize_value dc pfx item) # sanitize_mapping dc pfx m)"
| "sanitize_items dc pfx [] = []"
| "sanitize_items dc pfx (x # xs) = sanitize_value dc pfx x # sanitize_items dc pfx xs"
  by pat_completeness auto
termination
  by (relation "measure (\<lambda>a. case a of
        Inl (d, p, v) \<Rightarrow> size v
      | Inr (Inl (d, p, m)) \<Rightarrow> size_list (size_prod (\<lambda>_. 0) size) m
      | Inr (Inr (d, p, xs)) \<Rightarrow> size_list size xs)") auto

text \<open>The redacted text of \<open>str(d)\<close> of a Decimal or of \<open>t.isoformat()\<close> is the text itself: their
  characters match none of the patterns.\<close>

definition sanitize_metadata :: "bool \<Rightarrow> string list option \<Rightarrow> pyval \<Rightarrow> pyval" where
  "sanitize_metadata drop_content_keys pfx value = sanitize_value drop_content_keys pfx value"

definition sanitize_metadata_mapping :: "bool \<Rightarrow> string list option \<Rightarrow> pydict option \<Rightarrow> pydict" where
  "sanitize_metadata_mapping drop_content_keys pfx mapping =
     (case mapping of None \<Rightarrow> [] | Some m \<Rightarrow> sanitize_mapping drop_content_keys pfx m)"

section \<open>What sanitization guarantees\<close>

text \<open>Every key at every depth satisfies a predicate.\<close>

primrec all_keys :: "(string \<Rightarrow> bool) \<Rightarrow> pyval \<Rightarrow> bool"
  and all_keys_m :: "(string \<Rightarrow> bool) \<Rightarrow> pydict \<Rightarrow> bool"
  and all_keys_p :: "(string \<Rightarrow> bool) \<Rightarrow> string \<times> pyval \<Rightarrow> bool"
  and all_keys_l :: "(string \<Rightarrow> bool) \<Rightarrow> pyval list \<Rightarrow> bool" where
  "all_keys P PNone = True"
| "all_keys P (PBool b) = True"
| "all_keys P (PInt i) = True"
| "all_keys P (PFloat s) = True"
| "all_keys P (PDec d) = True"
| "all_keys P (PDecStr d) = True"
| "all_keys P (PTimeStr t) = True"
| "all_keys P (PStr s) = True"
| "all_keys P (PList xs) = all_keys_l P xs"
| "all_keys P (PDict m) = all_keys_m P m"
| "all_keys_m P [] = True"
| "all_keys_m P (kv # m) = (all_keys_p P kv \<and> all_keys_m P m)"
| "all_keys_p P (k, v) = (P k \<and> all_keys P v)"
| "all_keys_l P [] = True"
| "all_keys_l P (x # xs) = (all_keys P x \<and> all_keys_l P xs)"

text \<open>Nothing is left that \<open>json.dumps\<close> would refuse or write as a binary float.\<close>

primrec json_safe :: "pyval \<Rightarrow> bool"
  and json_safe_m :: "pydict \<Rightarrow> bool"
  and json_safe_p :: "string \<times> pyval \<Rightarrow> bool"
  and json_safe_l :: "pyval list \<Rightarrow> bool" where
  "json_safe PNone = True"
| "json_safe (PBool b) = True"
| "json_safe (PInt i) = True"
| "json_safe (PFloat s) = False"
| "json_safe (PDec d) = False"
| "json_safe (PDecStr d) = True"
| "json_safe (PTimeStr t) = True"
| "json_safe (PStr s) = True"
| "json_safe (PList xs) = json_safe_l xs"
| "json_safe (PDict m) = json_safe_m m"
| "json_safe_m [] = True"
| "json_safe_m (kv # m) = (json_safe_p kv \<and> json_safe_m m)"
| "json_safe_p (k, v) = json_safe v"
| "json_safe_l [] = True"
| "json_safe_l (x # xs) = (json_safe x \<and> json_safe_l xs)"

definition durable_key :: "string \<Rightarrow> bool" where
  "durable_key k = (\<not> is_content_key k \<and> \<not> is_sensitive_key k)"

lemma sanitize_drop_keys:
  "dc \<Longrightarrow> all_keys durable_key (sanitize_value dc pfx v)"
  "dc \<Longrightarrow> all_keys_m durable_key (sanitize_mapping dc pfx m)"
  "dc \<Longrightarrow> all_keys_l durable_key (sanitize_items dc pfx xs)"
  by (induction dc pfx v and dc pfx m and dc pfx xs
      rule: sanitize_value_sanitize_mapping_sanitize_items.induct)
     (auto simp: durable_key_def)

lemma sanitize_json_safe:
  "json_safe (sanitize_value dc pfx v)"
  "json_safe_m (sanitize_mapping dc pfx m)"
  "json_safe_l (sanitize_items dc pfx xs)"
  by (induction dc pfx v and dc pfx m and dc pfx xs
      rule: sanitize_value_sanitize_mapping_sanitize_items.induct) auto

text \<open>The keys that survive do so with the sanitized value, and no key is invented.\<close>

lemma map_of_sanitize_mapping:
  "map_of (sanitize_mapping dc pfx m) k =
     (if dc \<and> is_content_key k \<or> dc \<and> is_sensitive_key k then None
      else if is_sensitive_key k then map_option (\<lambda>_. PStr ''***'') (map_of m k)
      else map_option (sanitize_value dc pfx) (map_of m k))"
proof (induction m)
  case Nil
  show ?case by simp
next
  case (Cons kv m)
  then show ?case by (cases kv) auto
qed

lemma dget_sanitize_mapping:
  "dget (sanitize_mapping True pfx m) k =
     (if durable_key k then sanitize_value True pfx (dget m k) else PNone)"
  by (auto simp: dget_def map_of_sanitize_mapping durable_key_def split: option.splits)

lemma sanitize_int_only [simp]: "sanitize_value dc pfx v = PInt i \<longleftrightarrow> v = PInt i"
  by (cases v) auto

section \<open>Property\<close>

text \<open>C33: Metadata sanitized for a durable record has, at every depth, no key that can hold prompt,
  completion or body content and no key that names a secret, and it holds only values that JSON
  can store; a top-level key that is neither is kept with its sanitized value.\<close>

theorem sanitize_durable:
  "all_keys_m durable_key (sanitize_metadata_mapping True pfx m)
   \<and> json_safe_m (sanitize_metadata_mapping True pfx m)
   \<and> dget (sanitize_metadata_mapping True pfx (Some d)) k =
       (if durable_key k then sanitize_value True pfx (dget d k) else PNone)"
  by (auto simp: sanitize_metadata_mapping_def sanitize_drop_keys sanitize_json_safe dget_sanitize_mapping
      split: option.splits)

end
