(* ===== verification/Tables.thy ===== *)
theory Tables
  imports Sanitization
begin

text \<open>
  The PostgreSQL tables the quota and accounting services share (\<open>db/models.py\<close>): gateway keys,
  quota reservations, the usage ledger and the audit log, with their CHECK and UNIQUE
  constraints.  A row object of the Python session is a record; flushing it stores its
  \<open>Numeric(18, 9)\<close> columns rounded to nine places (\<open>pg9\<close>, ties away from zero as
  PostgreSQL does), refuses values that do not fit their column, and refuses rows that break a
  constraint.  A service call runs in one transaction: when it raises, nothing is stored.  Foreign
  keys to tables outside the model are not checked.
\<close>

section \<open>Columns\<close>

definition pg9 :: "decimal \<Rightarrow> decimal" where
  "pg9 x = sgn x * of_int \<lfloor>\<bar>x\<bar> * 10 ^ 9 + 1 / 2\<rfloor> / 10 ^ 9"

definition fits_numeric :: "decimal \<Rightarrow> bool" where
  "fits_numeric x = (\<bar>pg9 x\<bar> < 10 ^ 9)"

definition fits_bigint :: "int \<Rightarrow> bool" where
  "fits_bigint i = (- (2 ^ 63) \<le> i \<and> i < 2 ^ 63)"

definition fits_integer :: "int \<Rightarrow> bool" where
  "fits_integer i = (- (2 ^ 31) \<le> i \<and> i < 2 ^ 31)"

definition opt_all :: "('a \<Rightarrow> bool) \<Rightarrow> 'a option \<Rightarrow> bool" where
  "opt_all P v = (case v of None \<Rightarrow> True | Some x \<Rightarrow> P x)"

datatype key_status = KeyActive | KeySuspended | KeyRevoked
datatype key_purpose = StandardPurpose | TrustedCalibration
datatype capability_policy_mode = StandardMode | TrustedCalibrationDiscovery
datatype fence_state = FenceNone | FenceActive | FenceHeld
datatype reservation_status = Pending | Finalized | Released | Expired
datatype quota_mode = StrictBounded | ExternalToolFenced
datatype accounting_status =
  LPending | LFinalized | LEstimated | LFailed | LInterrupted | LReleased

section \<open>Gateway keys\<close>

record gateway_key =
  gk_id :: uuid
  gk_public_key_id :: string
  gk_key_prefix :: string
  gk_key_hint :: "string option"
  gk_token_hash :: string
  gk_hash_algorithm :: string
  gk_hmac_key_version :: int
  gk_owner_id :: uuid
  gk_cohort_id :: "uuid option"
  gk_status :: key_status
  gk_valid_from :: pydatetime
  gk_valid_until :: pydatetime
  gk_cost_limit_eur :: "decimal option"
  gk_token_limit_total :: "int option"
  gk_request_limit_total :: "int option"
  gk_cost_used_eur :: decimal
  gk_tokens_used_total :: int
  gk_requests_used_total :: int
  gk_cost_reserved_eur :: decimal
  gk_tokens_reserved_total :: int
  gk_requests_reserved_total :: int
  gk_rate_limit_requests_per_minute :: "int option"
  gk_rate_limit_tokens_per_minute :: "int option"
  gk_max_concurrent_requests :: "int option"
  gk_allow_all_models :: bool
  gk_allowed_models :: "string list"
  gk_allow_all_endpoints :: bool
  gk_allowed_endpoints :: "string list"
  gk_key_purpose :: key_purpose
  gk_capability_policy_mode :: capability_policy_mode
  gk_metadata_json :: pydict
  gk_fence_state :: fence_state
  gk_fence_reservation_id :: "uuid option"
  gk_fence_request_id :: "string option"
  gk_fence_acquired_at :: "pydatetime option"
  gk_fence_expires_at :: "pydatetime option"
  gk_last_used_at :: "pydatetime option"
  gk_last_quota_reset_at :: "pydatetime option"
  gk_quota_reset_count :: int
  gk_revoked_at :: "pydatetime option"
  gk_revoked_reason :: "string option"

definition fence_fields_null :: "gateway_key \<Rightarrow> bool" where
  "fence_fields_null k =
     (gk_fence_reservation_id k = None \<and> gk_fence_request_id k = None
      \<and> gk_fence_acquired_at k = None \<and> gk_fence_expires_at k = None)"

definition fence_fields_set :: "gateway_key \<Rightarrow> bool" where
  "fence_fields_set k =
     (gk_fence_reservation_id k \<noteq> None \<and> gk_fence_request_id k \<noteq> None
      \<and> gk_fence_acquired_at k \<noteq> None \<and> gk_fence_expires_at k \<noteq> None)"

definition gateway_key_checks :: "gateway_key \<Rightarrow> bool" where
  "gateway_key_checks k =
     ((gk_key_purpose k = StandardPurpose) = (gk_capability_policy_mode k = StandardMode)
      \<and> (gk_key_purpose k = TrustedCalibration \<longrightarrow> gk_request_limit_total k \<noteq> None)
      \<and> 0 \<le> gk_cost_used_eur k \<and> 0 \<le> gk_cost_reserved_eur k
      \<and> 0 \<le> gk_tokens_used_total k \<and> 0 \<le> gk_tokens_reserved_total k
      \<and> 0 \<le> gk_requests_used_total k \<and> 0 \<le> gk_requests_reserved_total k
      \<and> micros (gk_valid_from k) < micros (gk_valid_until k)
      \<and> (gk_fence_state k = FenceNone) = fence_fields_null k
      \<and> (gk_fence_state k \<in> {FenceActive, FenceHeld}) = fence_fields_set k)"

definition gateway_key_fits :: "gateway_key \<Rightarrow> bool" where
  "gateway_key_fits k =
     (opt_all fits_numeric (gk_cost_limit_eur k)
      \<and> fits_numeric (gk_cost_used_eur k) \<and> fits_numeric (gk_cost_reserved_eur k)
      \<and> opt_all fits_bigint (gk_token_limit_total k)
      \<and> opt_all fits_bigint (gk_request_limit_total k)
      \<and> fits_bigint (gk_tokens_used_total k) \<and> fits_bigint (gk_requests_used_total k)
      \<and> fits_bigint (gk_tokens_reserved_total k) \<and> fits_bigint (gk_requests_reserved_total k)
      \<and> fits_integer (gk_quota_reset_count k))"

definition stored_key :: "gateway_key \<Rightarrow> gateway_key" where
  "stored_key k =
     k\<lparr>gk_cost_limit_eur := map_option pg9 (gk_cost_limit_eur k),
       gk_cost_used_eur := pg9 (gk_cost_used_eur k),
       gk_cost_reserved_eur := pg9 (gk_cost_reserved_eur k)\<rparr>"

section \<open>Quota reservations\<close>

record quota_reservation =
  qr_id :: uuid
  qr_gateway_key_id :: uuid
  qr_request_id :: string
  qr_endpoint :: string
  qr_requested_model :: "string option"
  qr_provider :: "string option"
  qr_resolved_model :: "string option"
  qr_streaming :: "bool option"
  qr_quota_mode :: quota_mode
  qr_capabilities :: "string list"
  qr_destination_ids :: "string list"
  qr_ext_provider :: "string option"
  qr_ext_route_id :: "uuid option"
  qr_reserved_cost_eur :: decimal
  qr_reserved_tokens :: int
  qr_reserved_requests :: int
  qr_status :: reservation_status
  qr_created_at :: pydatetime
  qr_expires_at :: pydatetime
  qr_finalized_at :: "pydatetime option"
  qr_released_at :: "pydatetime option"

text \<open>PostgreSQL's \<open>btrim\<close> with its default argument removes spaces only.\<close>

definition only_spaces :: "string \<Rightarrow> bool" where
  "only_spaces s = list_all (\<lambda>c. c = CHR '' '') s"

definition strict_facts :: "quota_reservation \<Rightarrow> bool" where
  "strict_facts r =
     (qr_capabilities r = [] \<and> qr_destination_ids r = []
      \<and> qr_ext_provider r = None \<and> qr_ext_route_id r = None)"

definition fenced_facts :: "quota_reservation \<Rightarrow> bool" where
  "fenced_facts r =
     (qr_capabilities r \<noteq> []
      \<and> (case qr_ext_provider r of None \<Rightarrow> False
           | Some p \<Rightarrow> \<not> only_spaces p \<and> length p \<le> 255)
      \<and> qr_ext_route_id r \<noteq> None)"

definition reservation_checks :: "quota_reservation \<Rightarrow> bool" where
  "reservation_checks r =
     (0 \<le> qr_reserved_cost_eur r \<and> 0 \<le> qr_reserved_tokens r \<and> 0 \<le> qr_reserved_requests r
      \<and> (qr_quota_mode r = StrictBounded) = strict_facts r
      \<and> (qr_quota_mode r = ExternalToolFenced) = fenced_facts r)"

definition reservation_fits :: "quota_reservation \<Rightarrow> bool" where
  "reservation_fits r =
     (fits_numeric (qr_reserved_cost_eur r) \<and> fits_bigint (qr_reserved_tokens r)
      \<and> fits_bigint (qr_reserved_requests r))"

definition stored_reservation :: "quota_reservation \<Rightarrow> quota_reservation" where
  "stored_reservation r = r\<lparr>qr_reserved_cost_eur := pg9 (qr_reserved_cost_eur r)\<rparr>"

section \<open>Usage ledger\<close>

record usage_ledger =
  ul_id :: uuid
  ul_request_id :: string
  ul_quota_reservation_id :: "uuid option"
  ul_gateway_key_id :: uuid
  ul_owner_id :: "uuid option"
  ul_cohort_id :: "uuid option"
  ul_endpoint :: string
  ul_http_method :: string
  ul_provider :: string
  ul_requested_model :: "string option"
  ul_resolved_model :: "string option"
  ul_upstream_request_id :: "string option"
  ul_streaming :: bool
  ul_success :: "bool option"
  ul_accounting_status :: accounting_status
  ul_http_status :: "int option"
  ul_error_type :: "string option"
  ul_error_message :: "string option"
  ul_prompt_tokens :: int
  ul_completion_tokens :: int
  ul_input_tokens :: int
  ul_output_tokens :: int
  ul_cached_tokens :: int
  ul_reasoning_tokens :: int
  ul_total_tokens :: int
  ul_estimated_cost_eur :: "decimal option"
  ul_actual_cost_eur :: "decimal option"
  ul_actual_cost_native :: "decimal option"
  ul_native_currency :: "string option"
  ul_usage_raw :: pydict
  ul_response_metadata :: pydict
  ul_started_at :: pydatetime
  ul_finished_at :: "pydatetime option"
  ul_latency_ms :: "int option"
  ul_created_at :: pydatetime

definition ledger_checks :: "usage_ledger \<Rightarrow> bool" where
  "ledger_checks l =
     (0 \<le> ul_prompt_tokens l \<and> 0 \<le> ul_completion_tokens l \<and> 0 \<le> ul_input_tokens l
      \<and> 0 \<le> ul_output_tokens l \<and> 0 \<le> ul_cached_tokens l \<and> 0 \<le> ul_reasoning_tokens l
      \<and> 0 \<le> ul_total_tokens l
      \<and> opt_all (\<lambda>x. 0 \<le> x) (ul_estimated_cost_eur l)
      \<and> opt_all (\<lambda>x. 0 \<le> x) (ul_actual_cost_eur l))"

definition ledger_fits :: "usage_ledger \<Rightarrow> bool" where
  "ledger_fits l =
     (fits_bigint (ul_prompt_tokens l) \<and> fits_bigint (ul_completion_tokens l)
      \<and> fits_bigint (ul_input_tokens l) \<and> fits_bigint (ul_output_tokens l)
      \<and> fits_bigint (ul_cached_tokens l) \<and> fits_bigint (ul_reasoning_tokens l)
      \<and> fits_bigint (ul_total_tokens l)
      \<and> opt_all fits_numeric (ul_estimated_cost_eur l)
      \<and> opt_all fits_numeric (ul_actual_cost_eur l)
      \<and> opt_all fits_numeric (ul_actual_cost_native l)
      \<and> opt_all fits_integer (ul_http_status l) \<and> opt_all fits_integer (ul_latency_ms l))"

definition stored_ledger :: "usage_ledger \<Rightarrow> usage_ledger" where
  "stored_ledger l =
     l\<lparr>ul_estimated_cost_eur := map_option pg9 (ul_estimated_cost_eur l),
       ul_actual_cost_eur := map_option pg9 (ul_actual_cost_eur l),
       ul_actual_cost_native := map_option pg9 (ul_actual_cost_native l)\<rparr>"

section \<open>Audit log and the database\<close>

record audit_log =
  al_id :: uuid
  al_action :: string
  al_entity_type :: string
  al_admin_user_id :: "uuid option"
  al_entity_id :: "uuid option"
  al_old_values :: "pydict option"
  al_new_values :: "pydict option"
  al_request_id :: "string option"
  al_note :: "string option"

record db =
  db_keys :: "gateway_key list"
  db_reservations :: "quota_reservation list"
  db_ledger :: "usage_ledger list"
  db_audit :: "audit_log list"

text \<open>The foreign key and the unique index on the fence's reservation column.\<close>

definition fence_reference_ok :: "gateway_key \<Rightarrow> db \<Rightarrow> bool" where
  "fence_reference_ok k db =
     (case gk_fence_reservation_id k of
        None \<Rightarrow> True
      | Some rid \<Rightarrow>
          list_ex (\<lambda>r. qr_id r = rid) (db_reservations db)
          \<and> list_all (\<lambda>q. gk_id q = gk_id k \<or> gk_fence_reservation_id q \<noteq> Some rid) (db_keys db))"

definition flush_key :: "gateway_key \<Rightarrow> db \<Rightarrow> db result" where
  "flush_key k db =
     sbind (ensure (gateway_key_fits k) (DataError ''gateway_keys'')) (\<lambda>_.
     sbind (ensure (gateway_key_checks (stored_key k) \<and> fence_reference_ok k db)
              (IntegrityError ''gateway_keys'')) (\<lambda>_.
     Inr (db\<lparr>db_keys := put_row gk_id (stored_key k) (db_keys db)\<rparr>)))"

definition flush_reservation :: "quota_reservation \<Rightarrow> db \<Rightarrow> db result" where
  "flush_reservation r db =
     sbind (ensure (reservation_fits r) (DataError ''quota_reservations'')) (\<lambda>_.
     sbind (ensure (reservation_checks (stored_reservation r)) (IntegrityError ''quota_reservations'')) (\<lambda>_.
     Inr (db\<lparr>db_reservations := put_row qr_id (stored_reservation r) (db_reservations db)\<rparr>)))"

definition insert_reservation :: "quota_reservation \<Rightarrow> db \<Rightarrow> db result" where
  "insert_reservation r db =
     sbind (ensure (reservation_fits r) (DataError ''quota_reservations'')) (\<lambda>_.
     sbind (ensure (reservation_checks (stored_reservation r)) (IntegrityError ''quota_reservations'')) (\<lambda>_.
     sbind (ensure (\<not> list_ex (\<lambda>q. qr_id q = qr_id r \<or> qr_request_id q = qr_request_id r)
                      (db_reservations db)) (IntegrityError ''quota_reservations'')) (\<lambda>_.
     Inr (db\<lparr>db_reservations := db_reservations db @ [stored_reservation r]\<rparr>))))"

definition flush_ledger :: "usage_ledger \<Rightarrow> db \<Rightarrow> db result" where
  "flush_ledger l db =
     sbind (ensure (ledger_fits l) (DataError ''usage_ledger'')) (\<lambda>_.
     sbind (ensure (ledger_checks (stored_ledger l)) (IntegrityError ''usage_ledger'')) (\<lambda>_.
     Inr (db\<lparr>db_ledger := put_row ul_id (stored_ledger l) (db_ledger db)\<rparr>)))"

definition insert_ledger :: "usage_ledger \<Rightarrow> db \<Rightarrow> db result" where
  "insert_ledger l db =
     sbind (ensure (ledger_fits l) (DataError ''usage_ledger'')) (\<lambda>_.
     sbind (ensure (ledger_checks (stored_ledger l)) (IntegrityError ''usage_ledger'')) (\<lambda>_.
     sbind (ensure (\<not> list_ex (\<lambda>q. ul_id q = ul_id l \<or> ul_request_id q = ul_request_id l)
                      (db_ledger db)) (IntegrityError ''usage_ledger'')) (\<lambda>_.
     Inr (db\<lparr>db_ledger := db_ledger db @ [stored_ledger l]\<rparr>))))"

section \<open>Facts about columns\<close>

text \<open>A stored amount: a multiple of \<open>10^-9\<close>.\<close>

definition nine_places :: "decimal \<Rightarrow> bool" where
  "nine_places x = (of_int \<lfloor>x * 10 ^ 9\<rfloor> = x * 10 ^ 9)"

lemma nine_places_iff: "nine_places x \<longleftrightarrow> (\<exists>n. x = of_int n / 10 ^ 9)"
proof
  assume "nine_places x"
  then have "of_int \<lfloor>x * 10 ^ 9\<rfloor> / 10 ^ 9 = x" unfolding nine_places_def by simp
  then show "\<exists>n. x = of_int n / 10 ^ 9" by metis
next
  assume "\<exists>n. x = of_int n / 10 ^ 9"
  then obtain n where "x = of_int n / 10 ^ 9" ..
  then show "nine_places x" by (simp add: nine_places_def)
qed

lemma nine_places_zero [simp]: "nine_places 0"
  by (simp add: nine_places_def)

lemma nine_places_add: "nine_places x \<Longrightarrow> nine_places y \<Longrightarrow> nine_places (x + y)"
  unfolding nine_places_iff by (metis add_divide_distrib of_int_add)

lemma nine_places_diff: "nine_places x \<Longrightarrow> nine_places y \<Longrightarrow> nine_places (x - y)"
  unfolding nine_places_iff by (metis diff_divide_distrib of_int_diff)

lemma floor_half_of_int: "\<lfloor>of_int n + 1 / 2 :: rat\<rfloor> = n"
  by (simp add: floor_eq_iff)

lemma pg9_zero [simp]: "pg9 0 = 0"
  by (simp add: pg9_def)

lemma pg9_nonneg_eq: "0 \<le> x \<Longrightarrow> pg9 x = of_int \<lfloor>x * 10 ^ 9 + 1 / 2\<rfloor> / 10 ^ 9"
  using floor_half_of_int[of 0] by (cases "x = 0") (simp_all add: pg9_def)

lemma pg9_nonneg [simp]: "0 \<le> x \<Longrightarrow> 0 \<le> pg9 x"
  by (simp add: pg9_nonneg_eq)

lemma pg9_mono: "0 \<le> x \<Longrightarrow> x \<le> y \<Longrightarrow> pg9 x \<le> pg9 y"
  by (simp add: pg9_nonneg_eq divide_right_mono floor_mono)

lemma pg9_error:
  assumes "0 \<le> x"
  shows "\<bar>pg9 x - x\<bar> \<le> 1 / (2 * 10 ^ 9)"
proof -
  define y where "y = x * 10 ^ 9"
  have "of_int \<lfloor>y + 1 / 2\<rfloor> \<le> y + 1 / 2" "y + 1 / 2 < of_int \<lfloor>y + 1 / 2\<rfloor> + 1"
    using floor_correct[of "y + 1 / 2"] by auto
  then have le: "\<bar>of_int \<lfloor>y + 1 / 2\<rfloor> - y\<bar> \<le> 1 / 2" by linarith
  have "pg9 x - x = (of_int \<lfloor>y + 1 / 2\<rfloor> - y) / 10 ^ 9"
    using assms by (simp add: pg9_nonneg_eq y_def)
  then have "\<bar>pg9 x - x\<bar> = \<bar>of_int \<lfloor>y + 1 / 2\<rfloor> - y\<bar> / 10 ^ 9" by (simp only: abs_divide) simp
  also have "\<dots> \<le> 1 / 2 / 10 ^ 9" by (rule divide_right_mono[OF le]) simp
  finally show ?thesis by simp
qed

text \<open>Adding a stored value commutes with rounding.\<close>

lemma pg9_add:
  assumes "nine_places g" "0 \<le> g" "0 \<le> x"
  shows "pg9 (g + x) = g + pg9 x"
proof -
  obtain n where n: "g = of_int n / 10 ^ 9" using assms(1) by (auto simp: nine_places_iff)
  define y where "y = x * 10 ^ 9 + 1 / 2"
  have "(g + x) * 10 ^ 9 + 1 / 2 = y + of_int n" by (simp add: n y_def distrib_right)
  then have "pg9 (g + x) = of_int (\<lfloor>y\<rfloor> + n) / 10 ^ 9"
    using assms by (simp only: pg9_nonneg_eq add_nonneg_nonneg floor_add_int)
  also have "\<dots> = g + of_int \<lfloor>y\<rfloor> / 10 ^ 9" by (simp add: n add_divide_distrib)
  finally show ?thesis using assms(3) by (simp only: pg9_nonneg_eq y_def)
qed

lemma nine_places_pg9 [simp]: "nine_places (pg9 x)"
proof -
  have "pg9 x = of_int ((if x < 0 then -1 else if x = 0 then 0 else 1) * \<lfloor>\<bar>x\<bar> * 10 ^ 9 + 1 / 2\<rfloor>) / 10 ^ 9"
    by (simp add: pg9_def sgn_if)
  then show ?thesis unfolding nine_places_iff by blast
qed

lemma pg9_nine_places:
  assumes "nine_places x"
  shows "pg9 x = x"
proof -
  obtain n :: int where n: "x = of_int n / 10 ^ 9" using assms by (auto simp: nine_places_iff)
  have "\<bar>x\<bar> * 10 ^ 9 = of_int \<bar>n\<bar>" by (simp add: n)
  then have "pg9 x = sgn x * of_int \<bar>n\<bar> / 10 ^ 9" by (simp only: pg9_def floor_half_of_int)
  moreover have "of_int \<bar>n\<bar> / 10 ^ 9 = \<bar>x\<bar>" by (simp add: n)
  ultimately show ?thesis by (simp add: sgn_mult_abs flip: times_divide_eq_right)
qed

lemma pg9_pg9 [simp]: "pg9 (pg9 x) = pg9 x"
  by (simp add: pg9_nine_places)

lemma column_value_stored: "nine_places x \<Longrightarrow> fits_numeric x \<Longrightarrow> column_value x"
  by (simp add: fits_numeric_def pg9_nine_places column_value_def nine_places_def)

lemma pg9_whole: "of_int \<lfloor>x\<rfloor> = x \<Longrightarrow> pg9 x = x"
proof -
  assume "of_int \<lfloor>x\<rfloor> = x"
  then obtain n where n: "x = of_int n" by metis
  then have "x = of_int (n * 10 ^ 9) / 10 ^ 9" by simp
  then have "nine_places x" unfolding nine_places_iff by blast
  then show ?thesis by (rule pg9_nine_places)
qed

lemmas table_eval [eval_simps] =
  pg9_whole fits_numeric_def fits_bigint_def fits_integer_def opt_all_def
  gateway_key_fits_def gateway_key_checks_def stored_key_def fence_fields_null_def fence_fields_set_def
  fence_reference_ok_def reservation_fits_def reservation_checks_def strict_facts_def fenced_facts_def
  only_spaces_def stored_reservation_def ledger_fits_def ledger_checks_def stored_ledger_def
  flush_key_def flush_reservation_def insert_reservation_def flush_ledger_def insert_ledger_def

end
