(* ===== verification/Repositories.thy ===== *)
theory Repositories
  imports Tables
begin

text \<open>
  The repository layer (\<open>db/repositories/keys.py\<close>, \<open>quota.py\<close>, \<open>usage.py\<close>,
  \<open>audit.py\<close>): lookups, inserts and the row mutations the quota services perform.  A mutation
  takes the row object the session holds and the database, and returns the flushed database with
  the mutated object (which still carries the unrounded Decimals).  Row ids come from
  \<open>uuid4\<close> and are arguments; so is the clock of \<open>created_at\<close>.  The two JSONB tests on
  \<open>needs_reconciliation\<close> are true on the JSON value \<open>true\<close> only, the one form in which the
  services write that key.
\<close>

named_theorems flush_simps "what a successful flush or insert means"

section \<open>Lookups\<close>

definition get_gateway_key_by_id :: "uuid \<Rightarrow> db \<Rightarrow> gateway_key option" where
  "get_gateway_key_by_id kid db = get_row gk_id kid (db_keys db)"

definition get_reservation_by_id :: "uuid \<Rightarrow> db \<Rightarrow> quota_reservation option" where
  "get_reservation_by_id rid db = get_row qr_id rid (db_reservations db)"

definition get_reservation_by_request_id :: "string \<Rightarrow> db \<Rightarrow> quota_reservation option" where
  "get_reservation_by_request_id req db = find (\<lambda>r. qr_request_id r = req) (db_reservations db)"

definition get_usage_record_by_id :: "uuid \<Rightarrow> db \<Rightarrow> usage_ledger option" where
  "get_usage_record_by_id uid db = get_row ul_id uid (db_ledger db)"

definition get_usage_record_by_request_id :: "string \<Rightarrow> db \<Rightarrow> usage_ledger option" where
  "get_usage_record_by_request_id req db = find (\<lambda>l. ul_request_id l = req) (db_ledger db)"

definition get_usage_records_by_reservation_id :: "uuid \<Rightarrow> db \<Rightarrow> usage_ledger list" where
  "get_usage_records_by_reservation_id rid db =
     filter (\<lambda>l. ul_quota_reservation_id l = Some rid) (db_ledger db)"

text \<open>\<open>ORDER BY created_at DESC LIMIT limit OFFSET offset\<close>\<close>

definition list_reservations_for_key ::
  "uuid \<Rightarrow> reservation_status option \<Rightarrow> nat \<Rightarrow> nat \<Rightarrow> db \<Rightarrow> quota_reservation list" where
  "list_reservations_for_key kid status limit offset db =
     take limit (drop offset
       (sort_key (\<lambda>r. - micros (qr_created_at r))
         (filter (\<lambda>r. qr_gateway_key_id r = kid \<and> opt_all (\<lambda>s. qr_status r = s) status)
           (db_reservations db))))"

definition list_expired_pending_reservations ::
  "pydatetime \<Rightarrow> nat \<Rightarrow> db \<Rightarrow> quota_reservation list" where
  "list_expired_pending_reservations now limit db =
     take limit
       (sort_key (\<lambda>r. micros (qr_expires_at r))
         (filter (\<lambda>r. qr_status r = Pending \<and> micros (qr_expires_at r) \<le> micros now)
           (db_reservations db)))"

definition list_external_tool_fences :: "int \<Rightarrow> db \<Rightarrow> gateway_key list" where
  "list_external_tool_fences limit db =
     take (nat (max 1 (min limit 1000)))
       (let rows = filter (\<lambda>k. gk_fence_state k \<in> {FenceActive, FenceHeld}) (db_keys db)
        in sort_key (\<lambda>k. micros (the (gk_fence_expires_at k)))
             (filter (\<lambda>k. gk_fence_expires_at k \<noteq> None) rows)
           @ filter (\<lambda>k. gk_fence_expires_at k = None) rows)"

definition is_provider_completed_recovery :: "usage_ledger \<Rightarrow> bool" where
  "is_provider_completed_recovery l =
     (ul_accounting_status l = LFailed
      \<and> dget (ul_response_metadata l) ''needs_reconciliation'' = PBool True
      \<and> dget (ul_response_metadata l) ''recovery_state'' = PStr ''provider_completed_finalization_failed'')"

definition list_provider_completed_recovery_records ::
  "nat \<Rightarrow> uuid option \<Rightarrow> string option \<Rightarrow> string option \<Rightarrow> pydatetime option \<Rightarrow> db \<Rightarrow> usage_ledger list" where
  "list_provider_completed_recovery_records limit kid provider model older_than db =
     take limit
       (sort_key (\<lambda>l. micros (ul_created_at l))
         (filter (\<lambda>l. is_provider_completed_recovery l
                    \<and> opt_all (\<lambda>k. ul_gateway_key_id l = k) kid
                    \<and> opt_all (\<lambda>p. ul_provider l = p) provider
                    \<and> opt_all (\<lambda>m. ul_requested_model l = Some m \<or> ul_resolved_model l = Some m) model
                    \<and> opt_all (\<lambda>t. micros (ul_created_at l) \<le> micros t) older_than)
           (db_ledger db)))"

text \<open>\<open>scalar_one_or_none\<close> raises when the query returns more than one row.\<close>

definition scalar_one_or_none :: "'a list \<Rightarrow> 'a option result" where
  "scalar_one_or_none rows =
     (case rows of [] \<Rightarrow> Inr None | [r] \<Rightarrow> Inr (Some r) | _ \<Rightarrow> Inl MultipleResultsFound)"

definition get_provider_completed_recovery_record ::
  "uuid option \<Rightarrow> uuid option \<Rightarrow> db \<Rightarrow> usage_ledger option result" where
  "get_provider_completed_recovery_record uid rid db =
     scalar_one_or_none
       (filter (\<lambda>l. is_provider_completed_recovery l
                  \<and> opt_all (\<lambda>u. ul_id l = u) uid
                  \<and> opt_all (\<lambda>r. ul_quota_reservation_id l = Some r) rid)
         (db_ledger db))"

definition list_external_tool_accounting_hold_records :: "int \<Rightarrow> db \<Rightarrow> usage_ledger list" where
  "list_external_tool_accounting_hold_records limit db =
     take (nat (max 1 (min limit 1000)))
       (sort_key (\<lambda>l. micros (ul_created_at l))
         (filter (\<lambda>l. ul_accounting_status l \<in> {LEstimated, LInterrupted}
                    \<and> dget (as_dict (dget (ul_response_metadata l) ''external_tool_accounting_hold''))
                        ''needs_reconciliation'' = PBool True)
           (db_ledger db)))"

section \<open>Reservations\<close>

definition new_reservation :: "uuid \<Rightarrow> pydatetime \<Rightarrow> uuid \<Rightarrow> string \<Rightarrow> string \<Rightarrow> pydatetime \<Rightarrow> quota_reservation" where
  "new_reservation rid clock kid req endpoint expires_at =
     \<lparr>qr_id = rid, qr_gateway_key_id = kid, qr_request_id = req, qr_endpoint = endpoint,
      qr_requested_model = None, qr_provider = None, qr_resolved_model = None, qr_streaming = None,
      qr_quota_mode = StrictBounded, qr_capabilities = [], qr_destination_ids = [],
      qr_ext_provider = None, qr_ext_route_id = None, qr_reserved_cost_eur = 0,
      qr_reserved_tokens = 0, qr_reserved_requests = 1, qr_status = Pending,
      qr_created_at = aware clock, qr_expires_at = expires_at, qr_finalized_at = None,
      qr_released_at = None\<rparr>"

definition create_reservation :: "quota_reservation \<Rightarrow> db \<Rightarrow> (db \<times> quota_reservation) result" where
  "create_reservation row db = sbind (insert_reservation row db) (\<lambda>db'. Inr (db', row))"

definition flushed_reservation :: "quota_reservation \<Rightarrow> db \<Rightarrow> (db \<times> quota_reservation) result" where
  "flushed_reservation r db = sbind (flush_reservation r db) (\<lambda>db'. Inr (db', r))"

definition mark_pending_reservation_released ::
  "quota_reservation \<Rightarrow> pydatetime \<Rightarrow> db \<Rightarrow> (db \<times> quota_reservation) result" where
  "mark_pending_reservation_released r released_at db =
     flushed_reservation (r\<lparr>qr_status := Released, qr_released_at := Some released_at\<rparr>) db"

definition mark_pending_reservation_finalized ::
  "quota_reservation \<Rightarrow> pydatetime \<Rightarrow> db \<Rightarrow> (db \<times> quota_reservation) result" where
  "mark_pending_reservation_finalized r finalized_at db =
     flushed_reservation (r\<lparr>qr_status := Finalized, qr_finalized_at := Some finalized_at,
                            qr_released_at := None\<rparr>) db"

definition mark_pending_reservation_expired ::
  "quota_reservation \<Rightarrow> pydatetime \<Rightarrow> db \<Rightarrow> (db \<times> quota_reservation) result" where
  "mark_pending_reservation_expired r released_at db =
     flushed_reservation (r\<lparr>qr_status := Expired, qr_released_at := Some released_at,
                            qr_finalized_at := None\<rparr>) db"

section \<open>Gateway keys\<close>

definition flushed_key :: "gateway_key \<Rightarrow> db \<Rightarrow> (db \<times> gateway_key) result" where
  "flushed_key k db = sbind (flush_key k db) (\<lambda>db'. Inr (db', k))"

definition ensure_reserved_counters_can_decrement ::
  "gateway_key \<Rightarrow> decimal \<Rightarrow> int \<Rightarrow> int \<Rightarrow> unit result" where
  "ensure_reserved_counters_can_decrement k cost tokens requests =
     sbind (ensure (\<not> gk_cost_reserved_eur k < cost) (QuotaCounterInvariantError ''cost_reserved_eur'')) (\<lambda>_.
     sbind (ensure (\<not> gk_tokens_reserved_total k < tokens) (QuotaCounterInvariantError ''tokens_reserved_total'')) (\<lambda>_.
     ensure (\<not> gk_requests_reserved_total k < requests) (QuotaCounterInvariantError ''requests_reserved_total'')))"

definition reserved_plus :: "gateway_key \<Rightarrow> decimal \<Rightarrow> int \<Rightarrow> int \<Rightarrow> gateway_key" where
  "reserved_plus k cost tokens requests =
     k\<lparr>gk_cost_reserved_eur := dec_add (gk_cost_reserved_eur k) cost,
       gk_tokens_reserved_total := gk_tokens_reserved_total k + tokens,
       gk_requests_reserved_total := gk_requests_reserved_total k + requests\<rparr>"

definition reserved_minus :: "gateway_key \<Rightarrow> decimal \<Rightarrow> int \<Rightarrow> int \<Rightarrow> gateway_key" where
  "reserved_minus k cost tokens requests =
     k\<lparr>gk_cost_reserved_eur := dec_sub (gk_cost_reserved_eur k) cost,
       gk_tokens_reserved_total := gk_tokens_reserved_total k - tokens,
       gk_requests_reserved_total := gk_requests_reserved_total k - requests\<rparr>"

definition used_plus :: "gateway_key \<Rightarrow> decimal \<Rightarrow> int \<Rightarrow> int \<Rightarrow> pydatetime \<Rightarrow> gateway_key" where
  "used_plus k cost tokens requests last_used_at =
     k\<lparr>gk_cost_used_eur := dec_add (gk_cost_used_eur k) cost,
       gk_tokens_used_total := gk_tokens_used_total k + tokens,
       gk_requests_used_total := gk_requests_used_total k + requests,
       gk_last_used_at := Some last_used_at\<rparr>"

definition fence_set ::
  "gateway_key \<Rightarrow> fence_state \<Rightarrow> uuid option \<Rightarrow> string option \<Rightarrow> pydatetime option
     \<Rightarrow> pydatetime option \<Rightarrow> gateway_key" where
  "fence_set k state rid req acquired_at expires_at =
     k\<lparr>gk_fence_state := state, gk_fence_reservation_id := rid, gk_fence_request_id := req,
       gk_fence_acquired_at := acquired_at, gk_fence_expires_at := expires_at\<rparr>"

definition add_reserved_counters ::
  "gateway_key \<Rightarrow> decimal \<Rightarrow> int \<Rightarrow> int \<Rightarrow> db \<Rightarrow> (db \<times> gateway_key) result" where
  "add_reserved_counters k cost tokens requests db =
     flushed_key (reserved_plus k cost tokens requests) db"

definition subtract_reserved_counters ::
  "gateway_key \<Rightarrow> decimal \<Rightarrow> int \<Rightarrow> int \<Rightarrow> db \<Rightarrow> (db \<times> gateway_key) result" where
  "subtract_reserved_counters k cost tokens requests db =
     sbind (ensure_reserved_counters_can_decrement k cost tokens requests) (\<lambda>_.
     flushed_key (reserved_minus k cost tokens requests) db)"

definition finalize_reserved_counters ::
  "gateway_key \<Rightarrow> decimal \<Rightarrow> int \<Rightarrow> int \<Rightarrow> decimal \<Rightarrow> int \<Rightarrow> int \<Rightarrow> pydatetime \<Rightarrow> db
     \<Rightarrow> (db \<times> gateway_key) result" where
  "finalize_reserved_counters k rcost rtokens rrequests acost atokens arequests last_used_at db =
     sbind (ensure_reserved_counters_can_decrement k rcost rtokens rrequests) (\<lambda>_.
     flushed_key
       (used_plus (reserved_minus k rcost rtokens rrequests) acost atokens arequests last_used_at) db)"

definition set_external_tool_fence ::
  "gateway_key \<Rightarrow> fence_state \<Rightarrow> uuid option \<Rightarrow> string option \<Rightarrow> pydatetime option
     \<Rightarrow> pydatetime option \<Rightarrow> db \<Rightarrow> (db \<times> gateway_key) result" where
  "set_external_tool_fence k state rid req acquired_at expires_at db =
     flushed_key (fence_set k state rid req acquired_at expires_at) db"

definition reset_gateway_key_usage_counters ::
  "gateway_key \<Rightarrow> bool \<Rightarrow> bool \<Rightarrow> pydatetime \<Rightarrow> db \<Rightarrow> (db \<times> gateway_key) result" where
  "reset_gateway_key_usage_counters k reset_used reset_reserved reset_at db =
     (let k1 = (if reset_used
                then k\<lparr>gk_cost_used_eur := 0, gk_tokens_used_total := 0,
                       gk_requests_used_total := 0, gk_last_used_at := None\<rparr> else k);
          k2 = (if reset_reserved
                then k1\<lparr>gk_cost_reserved_eur := 0, gk_tokens_reserved_total := 0,
                        gk_requests_reserved_total := 0\<rparr> else k1)
      in flushed_key (k2\<lparr>gk_last_quota_reset_at := Some reset_at,
                         gk_quota_reset_count := gk_quota_reset_count k2 + 1\<rparr>) db)"

section \<open>Usage ledger\<close>

definition new_usage_record ::
  "uuid \<Rightarrow> pydatetime \<Rightarrow> string \<Rightarrow> uuid \<Rightarrow> string \<Rightarrow> string \<Rightarrow> pydatetime \<Rightarrow> usage_ledger" where
  "new_usage_record uid clock req kid endpoint provider started_at =
     \<lparr>ul_id = uid, ul_request_id = req, ul_quota_reservation_id = None, ul_gateway_key_id = kid,
      ul_owner_id = None, ul_cohort_id = None, ul_endpoint = endpoint, ul_http_method = ''POST'',
      ul_provider = provider, ul_requested_model = None, ul_resolved_model = None,
      ul_upstream_request_id = None, ul_streaming = False, ul_success = None,
      ul_accounting_status = LPending, ul_http_status = None, ul_error_type = None,
      ul_error_message = None, ul_prompt_tokens = 0, ul_completion_tokens = 0, ul_input_tokens = 0,
      ul_output_tokens = 0, ul_cached_tokens = 0, ul_reasoning_tokens = 0, ul_total_tokens = 0,
      ul_estimated_cost_eur = None, ul_actual_cost_eur = None, ul_actual_cost_native = None,
      ul_native_currency = None, ul_usage_raw = [], ul_response_metadata = [],
      ul_started_at = started_at, ul_finished_at = None, ul_latency_ms = None,
      ul_created_at = aware clock\<rparr>"

definition create_usage_record :: "usage_ledger \<Rightarrow> db \<Rightarrow> (db \<times> usage_ledger) result" where
  "create_usage_record row db =
     (let row' = row\<lparr>ul_usage_raw := sanitize_metadata_mapping True None (Some (ul_usage_raw row)),
                     ul_response_metadata :=
                       sanitize_metadata_mapping True None (Some (ul_response_metadata row))\<rparr>
      in sbind (insert_ledger row' db) (\<lambda>db'. Inr (db', row')))"

definition create_success_record :: "usage_ledger \<Rightarrow> db \<Rightarrow> (db \<times> usage_ledger) result" where
  "create_success_record row db =
     create_usage_record (row\<lparr>ul_success := Some True, ul_accounting_status := LFinalized\<rparr>) db"

definition create_failure_record :: "usage_ledger \<Rightarrow> db \<Rightarrow> (db \<times> usage_ledger) result" where
  "create_failure_record row db =
     create_usage_record (row\<lparr>ul_success := Some False, ul_accounting_status := LFailed\<rparr>) db"

definition create_provider_completed_record :: "usage_ledger \<Rightarrow> db \<Rightarrow> (db \<times> usage_ledger) result" where
  "create_provider_completed_record row db =
     create_usage_record (row\<lparr>ul_success := None, ul_accounting_status := LPending\<rparr>) db"

definition flushed_ledger :: "usage_ledger \<Rightarrow> db \<Rightarrow> (db \<times> usage_ledger) result" where
  "flushed_ledger l db = sbind (flush_ledger l db) (\<lambda>db'. Inr (db', l))"

definition mark_provider_completed_record_finalized ::
  "uuid \<Rightarrow> int \<Rightarrow> pydict \<Rightarrow> pydatetime \<Rightarrow> int option \<Rightarrow> db \<Rightarrow> (db \<times> usage_ledger) result" where
  "mark_provider_completed_record_finalized uid http_status metadata finished_at latency db =
     sbind (the_or_raise (get_usage_record_by_id uid db) PyLookupError) (\<lambda>row.
     flushed_ledger
       (row\<lparr>ul_success := Some True, ul_accounting_status := LFinalized,
            ul_http_status := Some http_status, ul_error_type := None, ul_error_message := None,
            ul_response_metadata := sanitize_metadata_mapping True None (Some metadata),
            ul_finished_at := Some finished_at, ul_latency_ms := latency\<rparr>) db)"

definition mark_provider_completed_record_finalization_failed ::
  "uuid \<Rightarrow> string \<Rightarrow> string \<Rightarrow> pydict \<Rightarrow> pydatetime \<Rightarrow> int option \<Rightarrow> db \<Rightarrow> (db \<times> usage_ledger) result" where
  "mark_provider_completed_record_finalization_failed uid error_type error_message metadata
       finished_at latency db =
     sbind (the_or_raise (get_usage_record_by_id uid db) PyLookupError) (\<lambda>row.
     flushed_ledger
       (row\<lparr>ul_success := None, ul_accounting_status := LFailed,
            ul_error_type := Some error_type, ul_error_message := Some error_message,
            ul_response_metadata := sanitize_metadata_mapping True None (Some metadata),
            ul_finished_at := Some finished_at, ul_latency_ms := latency\<rparr>) db)"

definition mark_provider_completed_reconciled ::
  "uuid \<Rightarrow> pydict \<Rightarrow> pydatetime \<Rightarrow> db \<Rightarrow> (db \<times> usage_ledger) result" where
  "mark_provider_completed_reconciled uid metadata finished_at db =
     sbind (the_or_raise (get_usage_record_by_id uid db) PyLookupError) (\<lambda>row.
     flushed_ledger
       (row\<lparr>ul_success := Some True, ul_accounting_status := LFinalized,
            ul_error_type := None, ul_error_message := None,
            ul_response_metadata := sanitize_metadata_mapping True None (Some metadata),
            ul_finished_at := Some finished_at\<rparr>) db)"

definition update_external_tool_hold_ledger ::
  "usage_ledger \<Rightarrow> accounting_status \<Rightarrow> bool \<Rightarrow> decimal \<Rightarrow> int \<Rightarrow> pydict \<Rightarrow> pydatetime \<Rightarrow> db
     \<Rightarrow> (db \<times> usage_ledger) result" where
  "update_external_tool_hold_ledger l status success cost tokens metadata finished_at db =
     flushed_ledger
       (l\<lparr>ul_accounting_status := status, ul_success := Some success,
          ul_actual_cost_eur := Some cost, ul_total_tokens := tokens,
          ul_response_metadata := sanitize_metadata_mapping True None (Some metadata),
          ul_finished_at := Some finished_at\<rparr>) db"

section \<open>Audit log\<close>

definition sanitize_optional_metadata :: "pydict option \<Rightarrow> pydict option" where
  "sanitize_optional_metadata values =
     (case values of None \<Rightarrow> None | Some v \<Rightarrow> Some (sanitize_metadata_mapping True None (Some v)))"

definition add_audit_log ::
  "uuid \<Rightarrow> string \<Rightarrow> string \<Rightarrow> uuid option \<Rightarrow> uuid option \<Rightarrow> pydict option \<Rightarrow> pydict option
     \<Rightarrow> string option \<Rightarrow> string option \<Rightarrow> db \<Rightarrow> (db \<times> audit_log) result" where
  "add_audit_log aid action entity_type admin entity old new req note db =
     (let row = \<lparr>al_id = aid, al_action = action, al_entity_type = entity_type,
                 al_admin_user_id = admin, al_entity_id = entity,
                 al_old_values = sanitize_optional_metadata old,
                 al_new_values = sanitize_optional_metadata new,
                 al_request_id = req,
                 al_note = map_option (\<lambda>n. redact_text n None) note\<rparr>
      in sbind (ensure (\<not> list_ex (\<lambda>a. al_id a = aid) (db_audit db)) (IntegrityError ''audit_log'')) (\<lambda>_.
         Inr (db\<lparr>db_audit := db_audit db @ [row]\<rparr>, row)))"

section \<open>What the primitives do when they succeed\<close>

lemma unique_violation:
  "list_ex (\<lambda>q. f q = a \<or> g q = b) t \<longleftrightarrow> a \<in> f ` set t \<or> b \<in> g ` set t"
  by (induction t) auto

lemma flush_key_Inr [flush_simps]:
  "flush_key k db = Inr db' \<longleftrightarrow>
     gateway_key_fits k \<and> gateway_key_checks (stored_key k) \<and> fence_reference_ok k db
     \<and> db' = db\<lparr>db_keys := put_row gk_id (stored_key k) (db_keys db)\<rparr>"
  by (auto simp: flush_key_def)

lemma flush_reservation_Inr [flush_simps]:
  "flush_reservation r db = Inr db' \<longleftrightarrow>
     reservation_fits r \<and> reservation_checks (stored_reservation r)
     \<and> db' = db\<lparr>db_reservations := put_row qr_id (stored_reservation r) (db_reservations db)\<rparr>"
  by (auto simp: flush_reservation_def)

lemma insert_reservation_Inr [flush_simps]:
  "insert_reservation r db = Inr db' \<longleftrightarrow>
     reservation_fits r \<and> reservation_checks (stored_reservation r)
     \<and> qr_id r \<notin> qr_id ` set (db_reservations db)
     \<and> qr_request_id r \<notin> qr_request_id ` set (db_reservations db)
     \<and> db' = db\<lparr>db_reservations := db_reservations db @ [stored_reservation r]\<rparr>"
  by (auto simp: insert_reservation_def unique_violation)

lemma flush_ledger_Inr [flush_simps]:
  "flush_ledger l db = Inr db' \<longleftrightarrow>
     ledger_fits l \<and> ledger_checks (stored_ledger l)
     \<and> db' = db\<lparr>db_ledger := put_row ul_id (stored_ledger l) (db_ledger db)\<rparr>"
  by (auto simp: flush_ledger_def)

lemma insert_ledger_Inr [flush_simps]:
  "insert_ledger l db = Inr db' \<longleftrightarrow>
     ledger_fits l \<and> ledger_checks (stored_ledger l)
     \<and> ul_id l \<notin> ul_id ` set (db_ledger db)
     \<and> ul_request_id l \<notin> ul_request_id ` set (db_ledger db)
     \<and> db' = db\<lparr>db_ledger := db_ledger db @ [stored_ledger l]\<rparr>"
  by (auto simp: insert_ledger_def unique_violation)

lemma flushed_key_Inr [flush_simps]: "flushed_key k db = Inr (db', k') \<longleftrightarrow> k' = k \<and> flush_key k db = Inr db'"
  by (auto simp: flushed_key_def)

lemma flushed_reservation_Inr [flush_simps]:
  "flushed_reservation r db = Inr (db', r') \<longleftrightarrow> r' = r \<and> flush_reservation r db = Inr db'"
  by (auto simp: flushed_reservation_def)

lemma flushed_ledger_Inr [flush_simps]:
  "flushed_ledger l db = Inr (db', l') \<longleftrightarrow> l' = l \<and> flush_ledger l db = Inr db'"
  by (auto simp: flushed_ledger_def)

lemma create_reservation_Inr [flush_simps]:
  "create_reservation r db = Inr (db', r') \<longleftrightarrow> r' = r \<and> insert_reservation r db = Inr db'"
  by (auto simp: create_reservation_def)

lemma can_decrement_Inr [flush_simps]:
  "ensure_reserved_counters_can_decrement k c t n = Inr u \<longleftrightarrow>
     c \<le> gk_cost_reserved_eur k \<and> t \<le> gk_tokens_reserved_total k \<and> n \<le> gk_requests_reserved_total k"
  by (auto simp: ensure_reserved_counters_can_decrement_def)

text \<open>Ledger and audit writes leave keys and reservations alone.\<close>

definition same_quota :: "db \<Rightarrow> db \<Rightarrow> bool" where
  "same_quota db db' = (db_keys db' = db_keys db \<and> db_reservations db' = db_reservations db)"

lemma same_quota_refl [simp]: "same_quota db db"
  by (simp add: same_quota_def)

lemma same_quota_trans: "same_quota a b \<Longrightarrow> same_quota b c \<Longrightarrow> same_quota a c"
  by (simp add: same_quota_def)

lemma insert_ledger_same: "insert_ledger l db = Inr db' \<Longrightarrow> same_quota db db'"
  by (auto simp: flush_simps same_quota_def)

lemma flushed_ledger_same: "flushed_ledger l db = Inr (db', l') \<Longrightarrow> same_quota db db'"
  by (auto simp: flush_simps same_quota_def)

lemma create_usage_record_same: "create_usage_record l db = Inr (db', l') \<Longrightarrow> same_quota db db'"
  by (auto simp: create_usage_record_def Let_def dest: insert_ledger_same)

lemma add_audit_log_same: "add_audit_log a b c d e f g h i db = Inr (db', row) \<Longrightarrow> same_quota db db'"
  by (auto simp: add_audit_log_def Let_def same_quota_def)

lemmas ledger_same = insert_ledger_same flushed_ledger_same create_usage_record_same add_audit_log_same

text \<open>Selectors of mutated rows.\<close>

lemmas row_mutations = reserved_plus_def reserved_minus_def used_plus_def fence_set_def

lemma mutated_key_id [simp]:
  "gk_id (stored_key k) = gk_id k"
  "gk_id (reserved_plus k c t n) = gk_id k"
  "gk_id (reserved_minus k c t n) = gk_id k"
  "gk_id (used_plus k c t n l) = gk_id k"
  "gk_id (fence_set k s r q a e) = gk_id k"
  by (simp_all add: stored_key_def row_mutations)

lemma stored_reservation_sels [simp]:
  "qr_id (stored_reservation r) = qr_id r"
  "qr_gateway_key_id (stored_reservation r) = qr_gateway_key_id r"
  "qr_request_id (stored_reservation r) = qr_request_id r"
  "qr_status (stored_reservation r) = qr_status r"
  "qr_reserved_cost_eur (stored_reservation r) = pg9 (qr_reserved_cost_eur r)"
  "qr_reserved_tokens (stored_reservation r) = qr_reserved_tokens r"
  "qr_reserved_requests (stored_reservation r) = qr_reserved_requests r"
  "qr_quota_mode (stored_reservation r) = qr_quota_mode r"
  by (simp_all add: stored_reservation_def)

lemmas repository_eval [eval_simps] =
  get_gateway_key_by_id_def get_reservation_by_id_def get_reservation_by_request_id_def
  get_usage_record_by_id_def get_usage_record_by_request_id_def
  get_usage_records_by_reservation_id_def list_reservations_for_key_def
  list_expired_pending_reservations_def list_external_tool_fences_def
  is_provider_completed_recovery_def list_provider_completed_recovery_records_def
  scalar_one_or_none_def get_provider_completed_recovery_record_def
  list_external_tool_accounting_hold_records_def new_reservation_def create_reservation_def
  flushed_reservation_def mark_pending_reservation_released_def
  mark_pending_reservation_finalized_def mark_pending_reservation_expired_def flushed_key_def
  ensure_reserved_counters_can_decrement_def reserved_plus_def reserved_minus_def used_plus_def
  fence_set_def add_reserved_counters_def subtract_reserved_counters_def
  finalize_reserved_counters_def set_external_tool_fence_def reset_gateway_key_usage_counters_def
  new_usage_record_def create_usage_record_def create_success_record_def create_failure_record_def
  create_provider_completed_record_def flushed_ledger_def
  mark_provider_completed_record_finalized_def
  mark_provider_completed_record_finalization_failed_def mark_provider_completed_reconciled_def
  update_external_tool_hold_ledger_def sanitize_optional_metadata_def add_audit_log_def

end
