(* ===== verification/QuotaMachine.thy ===== *)
theory QuotaMachine
  imports Repositories
begin

text \<open>
  The abstract specification of quota bookkeeping: \<open>quota_step e db db'\<close> lists the only ways a
  committed transaction may change gateway keys and reservations.  Every service operation of the
  later theories refines a sequence of these steps.  The invariants are proved here once, by cases
  on the step: rows stay well-formed, each reserved counter of a key equals the sum over its
  pending reservations (locale \<open>reserved_counter\<close>, interpreted for tokens, requests and cost), and
  a fence excludes every other pending reservation.

  The flag \<open>e\<close> says that every amount reserved by an ordinary request has at most nineteen decimal
  places; then no Decimal addition to the cost counter is rounded before PostgreSQL stores it.
  Tokens and requests need no such condition.
\<close>

section \<open>Well-formed tables\<close>

definition key_ok :: "gateway_key \<Rightarrow> bool" where
  "key_ok k = (stored_key k = k \<and> gateway_key_fits k \<and> gateway_key_checks k)"

definition reservation_ok :: "quota_reservation \<Rightarrow> bool" where
  "reservation_ok r = (stored_reservation r = r \<and> reservation_fits r \<and> reservation_checks r)"

definition wf_quota :: "db \<Rightarrow> bool" where
  "wf_quota db =
     (distinct (map gk_id (db_keys db)) \<and> distinct (map qr_id (db_reservations db))
      \<and> distinct (map qr_request_id (db_reservations db))
      \<and> (\<forall>k \<in> set (db_keys db). key_ok k)
      \<and> (\<forall>r \<in> set (db_reservations db). reservation_ok r \<and> qr_gateway_key_id r \<in> gk_id ` set (db_keys db)))"

definition nineteen_places :: "decimal \<Rightarrow> bool" where
  "nineteen_places x = (of_int \<lfloor>x * 10 ^ 19\<rfloor> = x * 10 ^ 19)"

definition pending_of :: "uuid \<Rightarrow> quota_reservation \<Rightarrow> bool" where
  "pending_of kid r = (qr_status r = Pending \<and> qr_gateway_key_id r = kid)"

definition exposure :: "(quota_reservation \<Rightarrow> 'n::ab_group_add) \<Rightarrow> uuid \<Rightarrow> quota_reservation list \<Rightarrow> 'n" where
  "exposure amount kid rs = sum_list (map (\<lambda>r. if pending_of kid r then amount r else 0) rs)"

section \<open>The step relation\<close>

inductive quota_step :: "bool \<Rightarrow> db \<Rightarrow> db \<Rightarrow> bool" for e :: bool where
  Idle: "same_quota db db' \<Longrightarrow> quota_step e db db'"
| Reserve: "\<lbrakk>get_gateway_key_by_id (qr_gateway_key_id r) db = Some k;
     gk_fence_state k = FenceNone; qr_status r = Pending;
     reservation_fits r; reservation_checks (stored_reservation r);
     0 \<le> qr_reserved_cost_eur r; e \<longrightarrow> nineteen_places (qr_reserved_cost_eur r);
     qr_id r \<notin> qr_id ` set (db_reservations db);
     qr_request_id r \<notin> qr_request_id ` set (db_reservations db);
     k' = reserved_plus k (qr_reserved_cost_eur r) (qr_reserved_tokens r) (qr_reserved_requests r);
     gateway_key_fits k'; gateway_key_checks (stored_key k');
     db_keys db' = put_row gk_id (stored_key k') (db_keys db);
     db_reservations db' = db_reservations db @ [stored_reservation r]\<rbrakk>
   \<Longrightarrow> quota_step e db db'"
| Fence: "\<lbrakk>get_gateway_key_by_id (qr_gateway_key_id r) db = Some k;
     gk_fence_state k = FenceNone; qr_status r = Pending;
     \<forall>q \<in> set (db_reservations db). \<not> pending_of (gk_id k) q;
     reservation_fits r; reservation_checks (stored_reservation r);
     qr_quota_mode r = ExternalToolFenced; nine_places (qr_reserved_cost_eur r);
     qr_id r \<notin> qr_id ` set (db_reservations db);
     qr_request_id r \<notin> qr_request_id ` set (db_reservations db);
     k' = fence_set (reserved_plus k (qr_reserved_cost_eur r) (qr_reserved_tokens r) (qr_reserved_requests r))
            FenceActive (Some (qr_id r)) (Some (qr_request_id r)) acquired expires;
     gateway_key_fits k'; gateway_key_checks (stored_key k');
     db_keys db' = put_row gk_id (stored_key k') (db_keys db);
     db_reservations db' = db_reservations db @ [stored_reservation r]\<rbrakk>
   \<Longrightarrow> quota_step e db db'"
| Release: "\<lbrakk>get_reservation_by_id (qr_id r) db = Some r; qr_status r = Pending;
     get_gateway_key_by_id (qr_gateway_key_id r) db = Some k;
     qr_reserved_cost_eur r \<le> gk_cost_reserved_eur k;
     s \<noteq> Pending; r' = r\<lparr>qr_status := s, qr_finalized_at := f, qr_released_at := x\<rparr>;
     k' = reserved_minus k (qr_reserved_cost_eur r) (qr_reserved_tokens r) (qr_reserved_requests r);
     gateway_key_fits k'; gateway_key_checks (stored_key k');
     db_keys db' = put_row gk_id (stored_key k') (db_keys db);
     db_reservations db' = put_row qr_id (stored_reservation r') (db_reservations db)\<rbrakk>
   \<Longrightarrow> quota_step e db db'"
| Finalize: "\<lbrakk>get_reservation_by_id (qr_id r) db = Some r; qr_status r = Pending;
     get_gateway_key_by_id (qr_gateway_key_id r) db = Some k;
     qr_reserved_cost_eur r \<le> gk_cost_reserved_eur k;
     s \<noteq> Pending; r' = r\<lparr>qr_status := s, qr_finalized_at := f, qr_released_at := x\<rparr>;
     k' = used_plus (reserved_minus k (qr_reserved_cost_eur r) (qr_reserved_tokens r) (qr_reserved_requests r))
            cost tokens 1 last_used;
     gateway_key_fits k'; gateway_key_checks (stored_key k');
     db_keys db' = put_row gk_id (stored_key k') (db_keys db);
     db_reservations db' = put_row qr_id (stored_reservation r') (db_reservations db)\<rbrakk>
   \<Longrightarrow> quota_step e db db'"
| Hold: "\<lbrakk>get_gateway_key_by_id kid db = Some k; gk_fence_state k = FenceActive;
     k' = fence_set k FenceHeld (gk_fence_reservation_id k) (gk_fence_request_id k)
            (gk_fence_acquired_at k) (gk_fence_expires_at k);
     gateway_key_fits k'; gateway_key_checks (stored_key k');
     db_keys db' = put_row gk_id (stored_key k') (db_keys db);
     db_reservations db' = db_reservations db\<rbrakk>
   \<Longrightarrow> quota_step e db db'"
| Clear: "\<lbrakk>get_gateway_key_by_id kid db = Some k; gk_fence_state k \<noteq> FenceNone;
     gk_tokens_reserved_total k = 0; gk_requests_reserved_total k = 0; gk_cost_reserved_eur k = 0;
     k' = fence_set k FenceNone None None None None;
     gateway_key_fits k'; gateway_key_checks (stored_key k');
     db_keys db' = put_row gk_id (stored_key k') (db_keys db);
     db_reservations db' = db_reservations db\<rbrakk>
   \<Longrightarrow> quota_step e db db'"

text \<open>A transaction is a sequence of steps.\<close>

abbreviation quota_steps :: "bool \<Rightarrow> db \<Rightarrow> db \<Rightarrow> bool" where
  "quota_steps e \<equiv> (quota_step e)\<^sup>*\<^sup>*"

lemma quota_steps_idle: "same_quota db db' \<Longrightarrow> quota_steps e db db'"
  by (simp add: quota_step.Idle r_into_rtranclp)

section \<open>Stored rows\<close>

lemma stored_key_idem [simp]: "stored_key (stored_key k) = stored_key k"
  by (simp add: stored_key_def map_option.compositionality comp_def)

lemma stored_reservation_idem [simp]: "stored_reservation (stored_reservation r) = stored_reservation r"
  by (simp add: stored_reservation_def)

lemma fits_numeric_pg9 [simp]: "fits_numeric (pg9 x) = fits_numeric x"
  by (simp add: fits_numeric_def)

lemma opt_all_map: "opt_all P (map_option f v) = opt_all (\<lambda>x. P (f x)) v"
  by (cases v) (simp_all add: opt_all_def)

lemma stored_key_fits [simp]: "gateway_key_fits (stored_key k) = gateway_key_fits k"
  by (simp add: gateway_key_fits_def stored_key_def opt_all_map)

lemma stored_reservation_fits [simp]: "reservation_fits (stored_reservation r) = reservation_fits r"
  by (simp add: reservation_fits_def stored_reservation_def)

lemma key_ok_stored: "gateway_key_fits k \<Longrightarrow> gateway_key_checks (stored_key k) \<Longrightarrow> key_ok (stored_key k)"
  by (simp add: key_ok_def)

lemma reservation_ok_stored:
  "reservation_fits r \<Longrightarrow> reservation_checks (stored_reservation r) \<Longrightarrow> reservation_ok (stored_reservation r)"
  by (simp add: reservation_ok_def)

lemma reservation_ok_closed:
  "reservation_ok r \<Longrightarrow> reservation_ok (stored_reservation (r\<lparr>qr_status := s, qr_finalized_at := f, qr_released_at := x\<rparr>))"
  by (simp add: reservation_ok_def stored_reservation_def reservation_fits_def reservation_checks_def
      strict_facts_def fenced_facts_def)

lemma stored_reservation_eq: "stored_reservation r = r \<longleftrightarrow> pg9 (qr_reserved_cost_eur r) = qr_reserved_cost_eur r"
  by (cases r) (simp add: stored_reservation_def)

lemma key_okD:
  assumes "key_ok k"
  shows "nine_places (gk_cost_reserved_eur k)" "nine_places (gk_cost_used_eur k)"
    "0 \<le> gk_cost_reserved_eur k" "0 \<le> gk_cost_used_eur k"
    "column_value (gk_cost_reserved_eur k)" "column_value (gk_cost_used_eur k)"
proof -
  have "gk_cost_reserved_eur (stored_key k) = gk_cost_reserved_eur k"
    "gk_cost_used_eur (stored_key k) = gk_cost_used_eur k" using assms by (simp_all add: key_ok_def)
  then show p: "nine_places (gk_cost_reserved_eur k)" "nine_places (gk_cost_used_eur k)"
    using nine_places_pg9[of "gk_cost_reserved_eur k"] nine_places_pg9[of "gk_cost_used_eur k"]
    by (simp_all add: stored_key_def)
  show "0 \<le> gk_cost_reserved_eur k" "0 \<le> gk_cost_used_eur k"
    using assms by (simp_all add: key_ok_def gateway_key_checks_def)
  show "column_value (gk_cost_reserved_eur k)" "column_value (gk_cost_used_eur k)"
    using p assms by (simp_all add: key_ok_def gateway_key_fits_def column_value_stored)
qed

lemma reservation_okD:
  assumes "reservation_ok r"
  shows "nine_places (qr_reserved_cost_eur r)" "0 \<le> qr_reserved_cost_eur r"
    "column_value (qr_reserved_cost_eur r)" "0 \<le> qr_reserved_tokens r" "0 \<le> qr_reserved_requests r"
proof -
  have eq: "pg9 (qr_reserved_cost_eur r) = qr_reserved_cost_eur r"
    using assms by (simp add: reservation_ok_def stored_reservation_eq)
  then show p: "nine_places (qr_reserved_cost_eur r)" by (metis nine_places_pg9)
  show "0 \<le> qr_reserved_cost_eur r" "0 \<le> qr_reserved_tokens r" "0 \<le> qr_reserved_requests r"
    using assms by (simp_all add: reservation_ok_def reservation_checks_def)
  show "column_value (qr_reserved_cost_eur r)"
    using p assms by (simp add: reservation_ok_def reservation_fits_def column_value_stored)
qed

text \<open>A Decimal addition whose stored result fits is exact for amounts of nineteen places.\<close>

lemma dec_add_stored_exact:
  assumes g: "nine_places g" "0 \<le> g" and c: "nineteen_places c" "0 \<le> c" and fits: "fits_numeric (dec_add g c)"
  shows "dec_add g c = g + c"
proof (cases "g + c < 10 ^ 9")
  case True
  obtain n where n: "g = of_int n / 10 ^ 9" using g(1) by (auto simp: nine_places_iff)
  define m where "m = n * 10 ^ 10 + \<lfloor>c * 10 ^ 19\<rfloor>"
  have "of_int m = g * 10 ^ 19 + c * 10 ^ 19" using c(1) by (simp add: m_def n nineteen_places_def)
  then have m: "of_int m = (g + c) * 10 ^ 19" by (simp add: distrib_right)
  have eq: "g + c = of_int m * 10 powi (-19)" by (simp add: m power_int_minus power_int_numeral)
  have "of_int m < (of_int (10 ^ 28) :: rat)" using True by (simp add: m)
  moreover have "0 \<le> (of_int m :: rat)" using g c by (simp add: m)
  ultimately have "\<bar>m\<bar> < 10 ^ 28" by (simp only: of_int_less_iff of_int_0_le_iff abs_of_nonneg)
  then show ?thesis unfolding dec_add_def eq by (rule dround_exact)
next
  case False
  have "dround (of_int 1 * 10 powi 9) = of_int 1 * 10 powi 9" by (rule dround_exact) simp
  then have "dround (10 ^ 9) = 10 ^ 9" by (simp add: power_int_numeral)
  then have "10 ^ 9 \<le> dec_add g c" using False dround_mono[of "10 ^ 9" "g + c"] by (simp add: dec_add_def)
  then have "pg9 (10 ^ 9) \<le> pg9 (dec_add g c)" by (intro pg9_mono) auto
  moreover have "pg9 (10 ^ 9) = 10 ^ 9" by (rule pg9_nine_places) (simp add: nine_places_def)
  ultimately show ?thesis using fits by (simp add: fits_numeric_def)
qed

lemma nine_places_nineteen: "nine_places x \<Longrightarrow> nineteen_places x"
proof -
  assume "nine_places x"
  then obtain n where "x = of_int n / 10 ^ 9" by (auto simp: nine_places_iff)
  then have "x * 10 ^ 19 = of_int (n * 10 ^ 10)" by simp
  then show ?thesis unfolding nineteen_places_def by (metis floor_of_int)
qed

lemma stored_key_counters [simp]:
  "gk_cost_reserved_eur (stored_key k) = pg9 (gk_cost_reserved_eur k)"
  "gk_cost_used_eur (stored_key k) = pg9 (gk_cost_used_eur k)"
  "gk_tokens_reserved_total (stored_key k) = gk_tokens_reserved_total k"
  "gk_requests_reserved_total (stored_key k) = gk_requests_reserved_total k"
  "gk_tokens_used_total (stored_key k) = gk_tokens_used_total k"
  "gk_requests_used_total (stored_key k) = gk_requests_used_total k"
  "gk_fence_state (stored_key k) = gk_fence_state k"
  "gk_fence_reservation_id (stored_key k) = gk_fence_reservation_id k"
  "gk_fence_request_id (stored_key k) = gk_fence_request_id k"
  by (simp_all add: stored_key_def)

section \<open>Exposure\<close>

lemma exposure_append [simp]: "exposure a kid (rs @ qs) = exposure a kid rs + exposure a kid qs"
  by (simp add: exposure_def)

lemma exposure_single [simp]: "exposure a kid [r] = (if pending_of kid r then a r else 0)"
  by (simp add: exposure_def)

lemma exposure_put:
  assumes "distinct (map qr_id rs)" "get_row qr_id (qr_id r') rs = Some r"
  shows "exposure a kid (put_row qr_id r' rs) =
     exposure a kid rs - (if pending_of kid r then a r else 0) + (if pending_of kid r' then a r' else 0)"
  unfolding exposure_def by (rule sum_list_put_row[OF assms])

lemma exposure_no_pending: "\<forall>q \<in> set rs. \<not> pending_of kid q \<Longrightarrow> exposure a kid rs = 0"
  unfolding exposure_def by (induction rs) auto

section \<open>Well-formedness is kept\<close>

lemma wf_quota_put_key:
  assumes "wf_quota db" "key_ok k'" "gk_id k' \<in> gk_id ` set (db_keys db)"
    "db_keys db' = put_row gk_id k' (db_keys db)" "db_reservations db' = db_reservations db"
  shows "wf_quota db'"
  using assms unfolding wf_quota_def by (auto dest: set_put_row)

lemma wf_quota_append:
  assumes "wf_quota db" "reservation_ok r" "qr_gateway_key_id r \<in> gk_id ` set (db_keys db)"
    "qr_id r \<notin> qr_id ` set (db_reservations db)"
    "qr_request_id r \<notin> qr_request_id ` set (db_reservations db)"
    "db_keys db' = db_keys db" "db_reservations db' = db_reservations db @ [r]"
  shows "wf_quota db'"
  using assms unfolding wf_quota_def by auto

lemma put_row_map_same:
  assumes "distinct (map idf t)" "get_row idf (idf r') t = Some r" "f r' = f r"
  shows "map f (put_row idf r' t) = map f t"
proof -
  have "f q = f r'" if "q \<in> set t" "idf q = idf r'" for q
    using distinct_get_row[OF assms(1) that(1)] assms(2,3) that(2) by simp
  then show ?thesis unfolding put_row_def by (auto simp: comp_def)
qed

lemma wf_quota_put_reservation:
  assumes "wf_quota db" "get_row qr_id (qr_id r') (db_reservations db) = Some r"
    "reservation_ok r'" "qr_gateway_key_id r' = qr_gateway_key_id r" "qr_request_id r' = qr_request_id r"
    "db_keys db' = db_keys db" "db_reservations db' = put_row qr_id r' (db_reservations db)"
  shows "wf_quota db'"
proof -
  have r: "r \<in> set (db_reservations db)" using get_row_SomeD[OF assms(2)] by simp
  have "map qr_request_id (put_row qr_id r' (db_reservations db)) = map qr_request_id (db_reservations db)"
    using assms(1,2,5) by (intro put_row_map_same) (auto simp: wf_quota_def)
  moreover have "reservation_ok q \<and> qr_gateway_key_id q \<in> gk_id ` set (db_keys db)"
    if "q \<in> set (put_row qr_id r' (db_reservations db))" for q
    using set_put_row[OF that] assms(1,3,4) r unfolding wf_quota_def by auto
  ultimately show ?thesis using assms(1) by (simp add: wf_quota_def assms(6,7))
qed

lemma get_key_in: "get_gateway_key_by_id kid db = Some k \<Longrightarrow> k \<in> set (db_keys db) \<and> gk_id k = kid"
  by (auto simp: get_gateway_key_by_id_def dest: get_row_SomeD)

lemma get_reservation_in: "get_reservation_by_id rid db = Some r \<Longrightarrow> r \<in> set (db_reservations db) \<and> qr_id r = rid"
  by (auto simp: get_reservation_by_id_def dest: get_row_SomeD)

lemma wf_quota_key_ok: "wf_quota db \<Longrightarrow> get_gateway_key_by_id kid db = Some k \<Longrightarrow> key_ok k"
  by (auto simp: wf_quota_def dest: get_key_in)

lemma wf_quota_reservation_ok: "wf_quota db \<Longrightarrow> get_reservation_by_id rid db = Some r \<Longrightarrow> reservation_ok r"
  by (auto simp: wf_quota_def dest: get_reservation_in)

text \<open>A step that replaces one key and appends or replaces one reservation.\<close>

lemma wf_quota_open:
  assumes "wf_quota db" "get_gateway_key_by_id (qr_gateway_key_id r) db = Some k" "gk_id k' = gk_id k"
    "gateway_key_fits k'" "gateway_key_checks (stored_key k')"
    "reservation_fits r" "reservation_checks (stored_reservation r)"
    "qr_id r \<notin> qr_id ` set (db_reservations db)"
    "qr_request_id r \<notin> qr_request_id ` set (db_reservations db)"
    "db_keys db' = put_row gk_id (stored_key k') (db_keys db)"
    "db_reservations db' = db_reservations db @ [stored_reservation r]"
  shows "wf_quota db'"
proof -
  let ?m = "db\<lparr>db_keys := put_row gk_id (stored_key k') (db_keys db)\<rparr>"
  have k: "k \<in> set (db_keys db)" "gk_id k = qr_gateway_key_id r" using get_key_in[OF assms(2)] by auto
  then have kin: "qr_gateway_key_id r \<in> gk_id ` set (db_keys db)" by force
  have "wf_quota ?m"
    by (rule wf_quota_put_key[OF assms(1) key_ok_stored[OF assms(4,5)]]) (simp_all add: assms(3) k kin)
  then show ?thesis
    by (rule wf_quota_append[OF _ reservation_ok_stored[OF assms(6,7)]]) (simp_all add: assms kin)
qed

lemma wf_quota_close:
  assumes "wf_quota db" "get_reservation_by_id (qr_id r) db = Some r"
    "get_gateway_key_by_id (qr_gateway_key_id r) db = Some k" "gk_id k' = gk_id k"
    "gateway_key_fits k'" "gateway_key_checks (stored_key k')"
    "r' = r\<lparr>qr_status := s, qr_finalized_at := f, qr_released_at := x\<rparr>"
    "db_keys db' = put_row gk_id (stored_key k') (db_keys db)"
    "db_reservations db' = put_row qr_id (stored_reservation r') (db_reservations db)"
  shows "wf_quota db'"
proof -
  let ?m = "db\<lparr>db_keys := put_row gk_id (stored_key k') (db_keys db)\<rparr>"
  have k: "k \<in> set (db_keys db)" using get_key_in[OF assms(3)] by auto
  then have m: "wf_quota ?m"
    by (intro wf_quota_put_key[OF assms(1) key_ok_stored[OF assms(5,6)]]) (auto simp: assms(4))
  have "reservation_ok (stored_reservation r')"
    using wf_quota_reservation_ok[OF assms(1,2)] unfolding assms(7) by (rule reservation_ok_closed)
  then show ?thesis
    by (intro wf_quota_put_reservation[OF m, of "stored_reservation r'" r])
       (use assms(2,8,9) in \<open>auto simp: assms(7) get_reservation_by_id_def\<close>)
qed

lemma wf_quota_step:
  assumes "quota_step e db db'" and wf: "wf_quota db"
  shows "wf_quota db'"
  using assms(1)
proof cases
  case Idle
  then have "db_keys db' = db_keys db" "db_reservations db' = db_reservations db"
    by (simp_all add: same_quota_def)
  then show ?thesis using wf by (simp add: wf_quota_def)
next
  case (Reserve r k k')
  then show ?thesis by (intro wf_quota_open[OF wf, of r k k']) simp_all
next
  case (Fence r k k')
  then show ?thesis by (intro wf_quota_open[OF wf, of r k k']) simp_all
next
  case (Release r k s r' f x k')
  then show ?thesis by (intro wf_quota_close[OF wf, of r k k' r']) simp_all
next
  case (Finalize r k s r' f x k')
  then show ?thesis by (intro wf_quota_close[OF wf, of r k k' r']) simp_all
next
  case (Hold kid k k')
  then have "gk_id (stored_key k') \<in> gk_id ` set (db_keys db)" by (auto dest: get_key_in)
  with Hold show ?thesis by (intro wf_quota_put_key[OF wf key_ok_stored[of k']]) simp_all
next
  case (Clear kid k k')
  then have "gk_id (stored_key k') \<in> gk_id ` set (db_keys db)" by (auto dest: get_key_in)
  with Clear show ?thesis by (intro wf_quota_put_key[OF wf key_ok_stored[of k']]) simp_all
qed

lemma wf_quota_steps: "quota_steps e db db' \<Longrightarrow> wf_quota db \<Longrightarrow> wf_quota db'"
  by (induction rule: rtranclp_induct) (auto intro: wf_quota_step)

section \<open>Reserved counters equal the pending exposure\<close>

locale reserved_counter =
  fixes reserved :: "gateway_key \<Rightarrow> 'n::ab_group_add"
    and amount :: "quota_reservation \<Rightarrow> 'n"
    and needs :: bool
  assumes reserved_plus: "\<lbrakk>key_ok k; 0 \<le> qr_reserved_cost_eur r;
      needs \<longrightarrow> nineteen_places (qr_reserved_cost_eur r);
      gateway_key_fits (reserved_plus k (qr_reserved_cost_eur r) (qr_reserved_tokens r) (qr_reserved_requests r))\<rbrakk>
    \<Longrightarrow> reserved (stored_key (reserved_plus k (qr_reserved_cost_eur r) (qr_reserved_tokens r) (qr_reserved_requests r)))
        = reserved k + amount (stored_reservation r)"
    and reserved_minus: "\<lbrakk>key_ok k; reservation_ok r\<rbrakk>
    \<Longrightarrow> reserved (stored_key (reserved_minus k (qr_reserved_cost_eur r) (qr_reserved_tokens r) (qr_reserved_requests r)))
        = reserved k - amount r"
    and reserved_used: "reserved (stored_key (used_plus k a t n l)) = reserved (stored_key k)"
    and reserved_fence: "reserved (stored_key (fence_set k st i q acq ex)) = reserved (stored_key k)"
    and reserved_stored: "key_ok k \<Longrightarrow> reserved (stored_key k) = reserved k"
begin

definition balanced :: "db \<Rightarrow> bool" where
  "balanced db = (\<forall>k \<in> set (db_keys db). reserved k = exposure amount (gk_id k) (db_reservations db))"

lemma balanced_open:
  assumes wf: "wf_quota db" and b: "balanced db"
    and k: "get_gateway_key_by_id (qr_gateway_key_id r) db = Some k" and id: "gk_id k' = gk_id k"
    and pend: "qr_status r = Pending"
    and res: "reserved (stored_key k') = reserved k + amount (stored_reservation r)"
    and keys: "db_keys db' = put_row gk_id (stored_key k') (db_keys db)"
    and rs: "db_reservations db' = db_reservations db @ [stored_reservation r]"
  shows "balanced db'"
  unfolding balanced_def
proof
  fix q assume "q \<in> set (db_keys db')"
  then have q: "q = stored_key k' \<or> q \<in> set (db_keys db) \<and> gk_id q \<noteq> gk_id k"
    by (auto simp: keys id dest!: set_put_row)
  have kk: "k \<in> set (db_keys db)" "gk_id k = qr_gateway_key_id r" using get_key_in[OF k] by auto
  show "reserved q = exposure amount (gk_id q) (db_reservations db')"
    using q b kk pend by (auto simp: rs res id balanced_def pending_of_def)
qed

lemma balanced_close:
  assumes wf: "wf_quota db" and b: "balanced db"
    and r: "get_reservation_by_id (qr_id r) db = Some r" and pend: "qr_status r = Pending"
    and k: "get_gateway_key_by_id (qr_gateway_key_id r) db = Some k" and id: "gk_id k' = gk_id k"
    and res: "reserved (stored_key k') = reserved k - amount r"
    and r': "qr_id r' = qr_id r" "qr_status r' \<noteq> Pending"
    and keys: "db_keys db' = put_row gk_id (stored_key k') (db_keys db)"
    and rs: "db_reservations db' = put_row qr_id r' (db_reservations db)"
  shows "balanced db'"
  unfolding balanced_def
proof
  fix q assume "q \<in> set (db_keys db')"
  then have q: "q = stored_key k' \<or> q \<in> set (db_keys db) \<and> gk_id q \<noteq> gk_id k"
    by (auto simp: keys id dest!: set_put_row)
  have kk: "k \<in> set (db_keys db)" "gk_id k = qr_gateway_key_id r" using get_key_in[OF k] by auto
  have "exposure amount (gk_id q) (db_reservations db') =
      exposure amount (gk_id q) (db_reservations db) - (if pending_of (gk_id q) r then amount r else 0)"
    using wf r r' unfolding rs
    by (subst exposure_put[where r = r]) (auto simp: wf_quota_def get_reservation_by_id_def pending_of_def)
  note ex = this
  from q show "reserved q = exposure amount (gk_id q) (db_reservations db')"
  proof
    assume "q = stored_key k'"
    then have "reserved q = reserved k - amount r" "pending_of (gk_id q) r" "gk_id q = gk_id k"
      using kk pend by (simp_all add: res id pending_of_def)
    then show ?thesis using b kk unfolding ex balanced_def by simp
  next
    assume "q \<in> set (db_keys db) \<and> gk_id q \<noteq> gk_id k"
    then show ?thesis using b kk by (simp add: ex balanced_def pending_of_def)
  qed
qed

lemma balanced_key_only:
  assumes b: "balanced db" and k: "get_gateway_key_by_id kid db = Some k" and id: "gk_id k' = gk_id k"
    and res: "reserved (stored_key k') = reserved k"
    and keys: "db_keys db' = put_row gk_id (stored_key k') (db_keys db)"
    and rs: "db_reservations db' = db_reservations db"
  shows "balanced db'"
  unfolding balanced_def
proof
  fix q assume "q \<in> set (db_keys db')"
  then have "q = stored_key k' \<or> q \<in> set (db_keys db) \<and> gk_id q \<noteq> gk_id k"
    by (auto simp: keys id dest!: set_put_row)
  then show "reserved q = exposure amount (gk_id q) (db_reservations db')"
    using b get_key_in[OF k] by (auto simp: rs res id balanced_def)
qed

lemma balanced_step:
  assumes "quota_step e db db'" and wf: "wf_quota db" and b: "balanced db" and e: "needs \<longrightarrow> e"
  shows "balanced db'"
  using assms(1)
proof cases
  case Idle
  then show ?thesis using b by (simp add: balanced_def same_quota_def)
next
  case (Reserve r k k')
  then have "reserved (stored_key k') = reserved k + amount (stored_reservation r)"
    using wf e by (auto intro!: reserved_plus wf_quota_key_ok)
  with Reserve show ?thesis by (intro balanced_open[OF wf b, of r k k']) auto
next
  case (Fence r k k' acq ex)
  have "nineteen_places (qr_reserved_cost_eur r)"
    using Fence(8) by (rule nine_places_nineteen)
  moreover have "0 \<le> qr_reserved_cost_eur r"
  proof -
    have "pg9 (qr_reserved_cost_eur r) = qr_reserved_cost_eur r" using Fence(8) by (rule pg9_nine_places)
    then show ?thesis using Fence(6) by (simp add: reservation_checks_def)
  qed
  moreover have "gateway_key_fits (reserved_plus k (qr_reserved_cost_eur r) (qr_reserved_tokens r) (qr_reserved_requests r))"
    using Fence(12) unfolding Fence(11) by (simp add: gateway_key_fits_def fence_set_def)
  ultimately have "reserved (stored_key k') = reserved k + amount (stored_reservation r)"
    unfolding Fence(11) reserved_fence using wf Fence(1) by (intro reserved_plus) (auto intro: wf_quota_key_ok)
  with Fence show ?thesis by (intro balanced_open[OF wf b, of r k k']) auto
next
  case (Release r k s r' f x k')
  then have "reserved (stored_key k') = reserved k - amount r"
    using wf by (auto intro!: reserved_minus intro: wf_quota_key_ok wf_quota_reservation_ok)
  with Release show ?thesis by (intro balanced_close[OF wf b, of r k k' "stored_reservation r'"]) auto
next
  case (Finalize r k s r' f x k')
  then have "reserved (stored_key k') = reserved k - amount r"
    using wf by (auto simp: reserved_used intro!: reserved_minus intro: wf_quota_key_ok wf_quota_reservation_ok)
  with Finalize show ?thesis by (intro balanced_close[OF wf b, of r k k' "stored_reservation r'"]) auto
next
  case (Hold kid k k')
  then have "reserved (stored_key k') = reserved k"
    using wf by (simp add: reserved_fence reserved_stored wf_quota_key_ok)
  with Hold show ?thesis by (intro balanced_key_only[OF b, of kid k k']) auto
next
  case (Clear kid k k')
  then have "reserved (stored_key k') = reserved k"
    using wf by (simp add: reserved_fence reserved_stored wf_quota_key_ok)
  with Clear show ?thesis by (intro balanced_key_only[OF b, of kid k k']) auto
qed

lemma balanced_steps:
  "quota_steps e db db' \<Longrightarrow> wf_quota db \<Longrightarrow> balanced db \<Longrightarrow> (needs \<longrightarrow> e) \<Longrightarrow> balanced db'"
  by (induction rule: rtranclp_induct) (auto intro: balanced_step wf_quota_steps)

end

section \<open>The three counters\<close>

interpretation tok: reserved_counter gk_tokens_reserved_total qr_reserved_tokens False
  by unfold_locales (auto simp: row_mutations)

interpretation reqs: reserved_counter gk_requests_reserved_total qr_reserved_requests False
  by unfold_locales (auto simp: row_mutations)

lemma cost_reserved_plus:
  assumes "key_ok k" "0 \<le> c" "nineteen_places c" "gateway_key_fits (reserved_plus k c t n)"
  shows "pg9 (dec_add (gk_cost_reserved_eur k) c) = gk_cost_reserved_eur k + pg9 c"
proof -
  have "fits_numeric (dec_add (gk_cost_reserved_eur k) c)"
    using assms(4) by (simp add: gateway_key_fits_def reserved_plus_def)
  then have "dec_add (gk_cost_reserved_eur k) c = gk_cost_reserved_eur k + c"
    using key_okD[OF assms(1)] assms(2,3) by (intro dec_add_stored_exact)
  then show ?thesis using key_okD[OF assms(1)] assms(2) by (simp add: pg9_add)
qed

lemma cost_reserved_minus:
  assumes "key_ok k" "reservation_ok r"
  shows "pg9 (dec_sub (gk_cost_reserved_eur k) (qr_reserved_cost_eur r)) =
    gk_cost_reserved_eur k - qr_reserved_cost_eur r"
proof -
  have "dec_sub (gk_cost_reserved_eur k) (qr_reserved_cost_eur r) = gk_cost_reserved_eur k - qr_reserved_cost_eur r"
    using key_okD(5)[OF assms(1)] reservation_okD(3)[OF assms(2)] by (rule dec_sub_column)
  then show ?thesis
    using key_okD(1)[OF assms(1)] reservation_okD(1)[OF assms(2)]
    by (simp add: pg9_nine_places nine_places_diff)
qed

interpretation cost: reserved_counter gk_cost_reserved_eur qr_reserved_cost_eur True
proof unfold_locales
  fix k and r :: quota_reservation
  let ?k = "reserved_plus k (qr_reserved_cost_eur r) (qr_reserved_tokens r) (qr_reserved_requests r)"
  assume a: "key_ok k" "0 \<le> qr_reserved_cost_eur r" "True \<longrightarrow> nineteen_places (qr_reserved_cost_eur r)"
    "gateway_key_fits ?k"
  have "gk_cost_reserved_eur ?k = dec_add (gk_cost_reserved_eur k) (qr_reserved_cost_eur r)"
    by (simp add: reserved_plus_def)
  then show "gk_cost_reserved_eur (stored_key ?k) = gk_cost_reserved_eur k + qr_reserved_cost_eur (stored_reservation r)"
    using cost_reserved_plus[of k "qr_reserved_cost_eur r"] a by simp
next
  fix k r assume "key_ok k" "reservation_ok r"
  then show "gk_cost_reserved_eur (stored_key (reserved_minus k (qr_reserved_cost_eur r) (qr_reserved_tokens r) (qr_reserved_requests r))) =
    gk_cost_reserved_eur k - qr_reserved_cost_eur r"
    using cost_reserved_minus by (simp add: reserved_minus_def)
qed (simp_all add: row_mutations key_okD(1) pg9_nine_places)

lemmas balance_defs = tok.balanced_def reqs.balanced_def cost.balanced_def

section \<open>A fence excludes every other pending reservation\<close>

definition fence_exclusive :: "db \<Rightarrow> bool" where
  "fence_exclusive db =
     (\<forall>k \<in> set (db_keys db). gk_fence_state k \<noteq> FenceNone \<longrightarrow>
        (\<forall>r \<in> set (db_reservations db). pending_of (gk_id k) r \<longrightarrow> gk_fence_reservation_id k = Some (qr_id r)))"

lemma fence_exclusive_close:
  assumes "fence_exclusive db" "get_reservation_by_id (qr_id r) db = Some r"
    "get_gateway_key_by_id kid db = Some k" "gk_id k' = gk_id k"
    "gk_fence_state k' = gk_fence_state k" "gk_fence_reservation_id k' = gk_fence_reservation_id k"
    "qr_id r' = qr_id r" "qr_status r' \<noteq> Pending"
    "db_keys db' = put_row gk_id k' (db_keys db)"
    "db_reservations db' = put_row qr_id r' (db_reservations db)"
  shows "fence_exclusive db'"
proof -
  have k: "k \<in> set (db_keys db)" using get_key_in[OF assms(3)] by simp
  have "gk_fence_reservation_id q = Some (qr_id p)"
    if "q \<in> set (db_keys db')" "gk_fence_state q \<noteq> FenceNone" "p \<in> set (db_reservations db')"
      "pending_of (gk_id q) p" for q p
  proof -
    have p: "p \<in> set (db_reservations db)"
      using that(3,4) assms(8) unfolding assms(10) by (auto simp: pending_of_def dest!: set_put_row)
    have q: "q \<in> set (put_row gk_id k' (db_keys db))" using that(1) by (simp add: assms(9))
    obtain q' where "q' \<in> set (db_keys db)" "gk_id q' = gk_id q" "gk_fence_state q' = gk_fence_state q"
      "gk_fence_reservation_id q' = gk_fence_reservation_id q"
      using set_put_row[OF q] k assms(4,5,6) by metis
    then show ?thesis using assms(1) that(2,4) p by (metis fence_exclusive_def)
  qed
  then show ?thesis unfolding fence_exclusive_def by blast
qed

lemma fence_exclusive_step:
  assumes "quota_step e db db'" and wf: "wf_quota db" and x: "fence_exclusive db"
  shows "fence_exclusive db'"
  using assms(1)
proof cases
  case Idle
  then show ?thesis using x by (simp add: fence_exclusive_def same_quota_def)
next
  case (Reserve r k k')
  have "gk_fence_state (stored_key k') = FenceNone" "gk_id k = qr_gateway_key_id r"
    using Reserve(2,10) get_key_in[OF Reserve(1)] by (simp_all add: reserved_plus_def)
  then show ?thesis
    using x unfolding fence_exclusive_def Reserve(10,13,14)
    by (auto simp: pending_of_def dest!: set_put_row)
next
  case (Fence r k k' acq ex)
  have k': "gk_fence_reservation_id (stored_key k') = Some (qr_id r)" "gk_id k = qr_gateway_key_id r"
    "gk_id (stored_key k') = gk_id k"
    using Fence(11) get_key_in[OF Fence(1)] by (simp_all add: fence_set_def)
  have "gk_fence_reservation_id q = Some (qr_id p)"
    if q: "q \<in> set (db_keys db')" "gk_fence_state q \<noteq> FenceNone"
      and p: "p \<in> set (db_reservations db')" "pending_of (gk_id q) p" for q p
  proof -
    have p': "p \<in> set (db_reservations db) \<or> p = stored_reservation r" using p(1) by (auto simp: Fence(15))
    from set_put_row[OF q(1)[unfolded Fence(14)]] show ?thesis
    proof
      assume "q = stored_key k'"
      then show ?thesis using p' p(2) Fence(4) k' by auto
    next
      assume "q \<in> set (db_keys db) \<and> gk_id q \<noteq> gk_id (stored_key k')"
      then show ?thesis using p' p(2) q(2) x k' by (auto simp: fence_exclusive_def pending_of_def)
    qed
  qed
  then show ?thesis unfolding fence_exclusive_def by blast
next
  case (Release r k s r' f y k')
  then show ?thesis
    by (intro fence_exclusive_close[OF x, of r _ k "stored_key k'" "stored_reservation r'"])
       (simp_all add: reserved_minus_def)
next
  case (Finalize r k s r' f y k')
  then show ?thesis
    by (intro fence_exclusive_close[OF x, of r _ k "stored_key k'" "stored_reservation r'"])
       (simp_all add: row_mutations)
next
  case (Hold kid k k')
  have k: "k \<in> set (db_keys db)" "gk_fence_state k \<noteq> FenceNone" using get_key_in[OF Hold(1)] Hold(2) by auto
  have k': "gk_fence_reservation_id (stored_key k') = gk_fence_reservation_id k" "gk_id (stored_key k') = gk_id k"
    using Hold(3) by (simp_all add: fence_set_def)
  show ?thesis using x k k' unfolding fence_exclusive_def Hold(6,7) by (auto dest!: set_put_row)
next
  case (Clear kid k k')
  have "gk_fence_state (stored_key k') = FenceNone" using Clear(6) by (simp add: fence_set_def)
  then show ?thesis using x unfolding fence_exclusive_def Clear(9,10) by (auto dest!: set_put_row)
qed

section \<open>The invariant\<close>

text \<open>What every committed state satisfies; the cost balance only when the flag is set.\<close>

definition quota_inv :: "bool \<Rightarrow> db \<Rightarrow> bool" where
  "quota_inv e db =
     (wf_quota db \<and> tok.balanced db \<and> reqs.balanced db \<and> (e \<longrightarrow> cost.balanced db) \<and> fence_exclusive db)"

lemma quota_inv_step:
  assumes "quota_step e db db'" "quota_inv e db"
  shows "quota_inv e db'"
  using assms wf_quota_step[OF assms(1)] tok.balanced_step[OF assms(1)] reqs.balanced_step[OF assms(1)]
    cost.balanced_step[OF assms(1)] fence_exclusive_step[OF assms(1)]
  by (simp add: quota_inv_def)

lemma quota_inv_steps: "quota_steps e db db' \<Longrightarrow> quota_inv e db \<Longrightarrow> quota_inv e db'"
  by (induction rule: rtranclp_induct) (auto intro: quota_inv_step)

end
