(* ===== verification/Schemas.thy ===== *)
theory Schemas
  imports Tables
begin

text \<open>
  The dataclasses that services pass to each other (\<open>schemas/auth.py\<close>, \<open>routing.py\<close>,
  \<open>policy.py\<close>, \<open>pricing.py\<close>, \<open>providers.py\<close>, \<open>quota.py\<close>,
  \<open>accounting.py\<close>).  Fields whose Python annotation is a plain int or Decimal have that type
  here, so the \<open>isinstance\<close> guards on them have no counterpart; the fields of a provider's
  response keep the untyped values of its JSON (\<open>pyval\<close>), and the guards on them are modelled.
\<close>

record lazy_throttling_policy =
  lt_mode :: string
  lt_max_wait_seconds :: int
  lt_max_waiting_requests :: int

record authenticated_key =
  ak_gateway_key_id :: uuid
  ak_owner_id :: uuid
  ak_cohort_id :: "uuid option"
  ak_public_key_id :: string
  ak_status :: key_status
  ak_valid_from :: pydatetime
  ak_valid_until :: pydatetime
  ak_allow_all_models :: bool
  ak_allowed_models :: "string list"
  ak_allow_all_endpoints :: bool
  ak_allowed_endpoints :: "string list"
  ak_allowed_providers :: "string list option"
  ak_cost_limit_eur :: "decimal option"
  ak_token_limit_total :: "int option"
  ak_request_limit_total :: "int option"
  ak_rate_limit_policy :: "(string \<times> int option) list"
  ak_lazy_throttling :: "lazy_throttling_policy option"
  ak_cost_used_eur :: decimal
  ak_tokens_used_total :: int
  ak_cost_reserved_eur :: decimal
  ak_tokens_reserved_total :: int
  ak_responses_policy :: "pydict option"
  ak_chat_streaming_live_burn_policy :: "pydict option"
  ak_responses_streaming_live_burn_policy :: "pydict option"
  ak_key_purpose :: key_purpose
  ak_capability_policy_mode :: capability_policy_mode
  ak_external_tool_policy :: "pydict option"

record route_resolution =
  rt_requested_model :: string
  rt_resolved_model :: string
  rt_provider :: string
  rt_route_id :: uuid
  rt_route_match_type :: string
  rt_route_pattern :: string
  rt_priority :: int
  rt_provider_kind :: "string option"
  rt_provider_base_url :: "string option"
  rt_provider_api_key_env_var :: "string option"
  rt_provider_timeout_seconds :: "int option"
  rt_provider_max_retries :: "int option"
  rt_visible_model_id :: "string option"
  rt_supports_streaming :: bool
  rt_capabilities :: "pydict option"

text \<open>
  \<open>ChatCompletionPolicyResult\<close> and \<open>ResponsesPolicyResult\<close>: the chat result has no Codex fields, so
  its \<open>codex_limits_applied\<close> reads as False (\<open>getattr\<close> with that default).
\<close>

record policy_result =
  pr_effective_body :: pyval
  pr_requested_output_tokens :: int
  pr_effective_output_tokens :: int
  pr_effective_output_tokens_per_choice :: int
  pr_effective_choice_count :: int
  pr_estimated_input_tokens :: int
  pr_unadjusted_input_tokens :: "int option"
  pr_estimated_media_input_tokens :: int
  pr_encoded_media_input_bytes :: int
  pr_estimated_message_input_tokens :: int
  pr_estimated_non_message_input_tokens :: int
  pr_estimated_non_message_input_bytes :: int
  pr_estimated_non_message_input_fields :: "string list"
  pr_injected_default_output_tokens :: bool
  pr_codex_context_window_tokens :: "int option"
  pr_codex_limits_applied :: bool

record cost_estimate =
  ce_provider :: string
  ce_requested_model :: string
  ce_resolved_model :: string
  ce_native_currency :: string
  ce_estimated_input_tokens :: int
  ce_estimated_output_tokens :: int
  ce_estimated_input_cost_native :: decimal
  ce_estimated_output_cost_native :: decimal
  ce_estimated_total_cost_native :: decimal
  ce_estimated_total_cost_eur :: decimal
  ce_pricing_rule_id :: "uuid option"
  ce_fx_rate_id :: "uuid option"
  ce_input_price_per_1m :: "decimal option"
  ce_cached_input_price_per_1m :: "decimal option"
  ce_output_price_per_1m :: "decimal option"
  ce_reasoning_price_per_1m :: "decimal option"
  ce_audio_output_price_per_1m :: "decimal option"
  ce_request_price :: "decimal option"
  ce_fx_rate :: "decimal option"
  ce_cache_write_input_price_per_1m :: "decimal option"
  ce_cache_write_input_multiplier :: "decimal option"
  ce_long_context_threshold_tokens :: "int option"
  ce_long_context_input_multiplier :: "decimal option"
  ce_long_context_output_multiplier :: "decimal option"
  ce_codex_accounting :: bool

record provider_usage =
  pu_prompt_tokens :: pyval
  pu_completion_tokens :: pyval
  pu_total_tokens :: pyval
  pu_cached_tokens :: pyval
  pu_cache_write_tokens :: pyval
  pu_reasoning_tokens :: pyval
  pu_other_usage :: pydict

record provider_response =
  rs_provider :: string
  rs_upstream_model :: string
  rs_status_code :: int
  rs_upstream_request_id :: "string option"
  rs_usage :: "provider_usage option"
  rs_raw_cost_native :: pyval
  rs_native_currency :: "string option"

record actual_usage =
  au_prompt_tokens :: int
  au_completion_tokens :: int
  au_total_tokens :: int
  au_cached_tokens :: "int option"
  au_cache_write_tokens :: "int option"
  au_reasoning_tokens :: "int option"
  au_other_usage :: pydict

record actual_cost =
  ac_actual_cost_eur :: decimal
  ac_actual_cost_native :: decimal
  ac_native_currency :: string
  ac_slaif_calculated_cost_eur :: decimal
  ac_slaif_calculated_cost_native :: decimal
  ac_cost_source :: string
  ac_cost_confidence :: string
  ac_cost_warnings :: "string list"
  ac_component_costs_native :: "(string \<times> decimal) list"
  ac_component_token_counts :: "(string \<times> int) list"
  ac_provider_reported_cost_native :: "decimal option"
  ac_provider_reported_currency :: "string option"
  ac_provider_reported_cost_eur :: "decimal option"

record quota_reservation_result =
  qrr_reservation_id :: uuid
  qrr_gateway_key_id :: uuid
  qrr_request_id :: string
  qrr_reserved_cost_eur :: decimal
  qrr_reserved_tokens :: int
  qrr_status :: reservation_status
  qrr_expires_at :: pydatetime

record finalized_accounting_result =
  far_usage_ledger_id :: uuid
  far_reservation_id :: uuid
  far_gateway_key_id :: uuid
  far_request_id :: string
  far_estimated_cost_eur :: decimal
  far_actual_cost_eur :: decimal
  far_actual_cost_native :: "decimal option"
  far_native_currency :: "string option"
  far_prompt_tokens :: int
  far_completion_tokens :: int
  far_total_tokens :: int
  far_accounting_status :: accounting_status

record provider_failure_result =
  pfr_usage_ledger_id :: uuid
  pfr_reservation_id :: uuid
  pfr_gateway_key_id :: uuid
  pfr_request_id :: string
  pfr_released :: bool
  pfr_accounting_status :: accounting_status
  pfr_error_type :: string
  pfr_error_code :: "string option"

record provider_completed_record =
  pcr_usage_ledger_id :: uuid
  pcr_reservation_id :: uuid
  pcr_gateway_key_id :: uuid
  pcr_request_id :: string
  pcr_provider :: string
  pcr_requested_model :: "string option"
  pcr_resolved_model :: "string option"
  pcr_endpoint :: string
  pcr_upstream_request_id :: "string option"
  pcr_prompt_tokens :: int
  pcr_completion_tokens :: int
  pcr_total_tokens :: int
  pcr_estimated_cost_eur :: decimal
  pcr_computed_actual_cost_eur :: "decimal option"
  pcr_accounting_status :: accounting_status

record finalization_recovery_result =
  frr_usage_ledger_id :: uuid
  frr_reservation_id :: uuid
  frr_previous_status :: accounting_status
  frr_new_status :: accounting_status
  frr_needs_reconciliation :: bool
  frr_safe_message :: string

text \<open>\<open>is_fixed_request_module_billing\<close> of \<open>chat_completion_route_capabilities.py\<close>.\<close>

definition is_fixed_request_module_billing :: "string option \<Rightarrow> string \<Rightarrow> bool" where
  "is_fixed_request_module_billing provider_kind endpoint =
     (let stripped = py_strip endpoint;
          normalized = (if stripped = ''chat.completions'' then ''/v1/chat/completions'' else stripped)
      in provider_kind = Some ''module'' \<and> normalized = ''/v1/chat/completions'')"

lemmas schema_eval [eval_simps] = is_fixed_request_module_billing_def

end
