(* ===== verification/Sample_Data.thy ===== *)
theory Sample_Data
  imports Schemas
begin

text \<open>
  A concrete key, database, route, policy, estimate and provider response.  The theorems with
  hypotheses are applied to them, which shows that their hypotheses can be met by the
  operations of the model.
\<close>

definition sample_key :: gateway_key where
  "sample_key =
     \<lparr>gk_id = 10, gk_public_key_id = ''pubid001'', gk_key_prefix = ''sk-slaif-'', gk_key_hint = None,
      gk_token_hash = ''h'', gk_hash_algorithm = ''hmac-sha256'', gk_hmac_key_version = 1,
      gk_owner_id = 20, gk_cohort_id = None, gk_status = KeyActive,
      gk_valid_from = Aware 0, gk_valid_until = Aware 1000000000000,
      gk_cost_limit_eur = Some 10, gk_token_limit_total = Some 1000, gk_request_limit_total = Some 5,
      gk_cost_used_eur = 0, gk_tokens_used_total = 0, gk_requests_used_total = 0,
      gk_cost_reserved_eur = 0, gk_tokens_reserved_total = 0, gk_requests_reserved_total = 0,
      gk_rate_limit_requests_per_minute = None, gk_rate_limit_tokens_per_minute = None,
      gk_max_concurrent_requests = None, gk_allow_all_models = True, gk_allowed_models = [],
      gk_allow_all_endpoints = True, gk_allowed_endpoints = [], gk_key_purpose = StandardPurpose,
      gk_capability_policy_mode = StandardMode, gk_metadata_json = [], gk_fence_state = FenceNone,
      gk_fence_reservation_id = None, gk_fence_request_id = None, gk_fence_acquired_at = None,
      gk_fence_expires_at = None, gk_last_used_at = None, gk_last_quota_reset_at = None,
      gk_quota_reset_count = 0, gk_revoked_at = None, gk_revoked_reason = None\<rparr>"

definition sample_db :: db where
  "sample_db = \<lparr>db_keys = [sample_key], db_reservations = [], db_ledger = [], db_audit = []\<rparr>"

definition sample_ak :: authenticated_key where
  "sample_ak =
     \<lparr>ak_gateway_key_id = 10, ak_owner_id = 20, ak_cohort_id = None, ak_public_key_id = ''pubid001'',
      ak_status = KeyActive, ak_valid_from = Aware 0, ak_valid_until = Aware 1000000000000,
      ak_allow_all_models = True, ak_allowed_models = [], ak_allow_all_endpoints = True,
      ak_allowed_endpoints = [], ak_allowed_providers = None, ak_cost_limit_eur = Some 10,
      ak_token_limit_total = Some 1000, ak_request_limit_total = Some 5, ak_rate_limit_policy = [],
      ak_lazy_throttling = None, ak_cost_used_eur = 0, ak_tokens_used_total = 0, ak_cost_reserved_eur = 0,
      ak_tokens_reserved_total = 0, ak_responses_policy = None, ak_chat_streaming_live_burn_policy = None,
      ak_responses_streaming_live_burn_policy = None,
      ak_key_purpose = StandardPurpose, ak_capability_policy_mode = StandardMode, ak_external_tool_policy = None\<rparr>"

definition sample_route :: route_resolution where
  "sample_route =
     \<lparr>rt_requested_model = ''m'', rt_resolved_model = ''m'', rt_provider = ''openai'', rt_route_id = 3,
      rt_route_match_type = ''exact'', rt_route_pattern = ''m'', rt_priority = 1,
      rt_provider_kind = Some ''openai'', rt_provider_base_url = Some ''https://api.openai.com/v1'',
      rt_provider_api_key_env_var = Some ''OPENAI_API_KEY'', rt_provider_timeout_seconds = Some 300,
      rt_provider_max_retries = Some 2, rt_visible_model_id = Some ''m'', rt_supports_streaming = True, rt_capabilities = None\<rparr>"

definition sample_policy :: policy_result where
  "sample_policy =
     \<lparr>pr_effective_body = PDict [], pr_requested_output_tokens = 70, pr_effective_output_tokens = 70,
      pr_effective_output_tokens_per_choice = 70, pr_effective_choice_count = 1, pr_estimated_input_tokens = 30,
      pr_unadjusted_input_tokens = None, pr_estimated_media_input_tokens = 0, pr_encoded_media_input_bytes = 0,
      pr_estimated_message_input_tokens = 30, pr_estimated_non_message_input_tokens = 0,
      pr_estimated_non_message_input_bytes = 0, pr_estimated_non_message_input_fields = [],
      pr_injected_default_output_tokens = False, pr_codex_context_window_tokens = None,
      pr_codex_limits_applied = False\<rparr>"

definition sample_estimate :: cost_estimate where
  "sample_estimate =
     \<lparr>ce_provider = ''openai'', ce_requested_model = ''m'', ce_resolved_model = ''m'',
      ce_native_currency = ''EUR'', ce_estimated_input_tokens = 30, ce_estimated_output_tokens = 70,
      ce_estimated_input_cost_native = 3, ce_estimated_output_cost_native = 1,
      ce_estimated_total_cost_native = 4, ce_estimated_total_cost_eur = 4,
      ce_pricing_rule_id = None, ce_fx_rate_id = None, ce_input_price_per_1m = Some 100000,
      ce_cached_input_price_per_1m = None, ce_output_price_per_1m = Some 1000000,
      ce_reasoning_price_per_1m = None, ce_audio_output_price_per_1m = None, ce_request_price = None,
      ce_fx_rate = None, ce_cache_write_input_price_per_1m = None,
      ce_cache_write_input_multiplier = None, ce_long_context_threshold_tokens = None,
      ce_long_context_input_multiplier = None, ce_long_context_output_multiplier = None,
      ce_codex_accounting = False\<rparr>"

definition sample_usage :: provider_usage where
  "sample_usage =
     \<lparr>pu_prompt_tokens = PInt 10, pu_completion_tokens = PInt 2, pu_total_tokens = PInt 12,
      pu_cached_tokens = PNone, pu_cache_write_tokens = PNone, pu_reasoning_tokens = PNone,
      pu_other_usage = []\<rparr>"

definition sample_response :: provider_response where
  "sample_response =
     \<lparr>rs_provider = ''openai'', rs_upstream_model = ''m'', rs_status_code = 200,
      rs_upstream_request_id = None, rs_usage = Some sample_usage, rs_raw_cost_native = PNone,
      rs_native_currency = None\<rparr>"

lemmas sample_eval [eval_simps] =
  sample_key_def sample_db_def sample_ak_def sample_route_def sample_policy_def sample_estimate_def
  sample_usage_def sample_response_def

end
