(* ===== verification/Quota.thy ===== *)
theory Quota
  imports QuotaMachine Sample_Data
begin

text \<open>
  \<open>services/quota_service.py\<close>: reserving estimated quota for a request under the locked key
  row, and releasing it.  Shown: both operations refine the abstract steps; an admitted request
  fits every limit; a limit that would be exceeded is refused with its own error; reserving and
  releasing restores the counters; a second release changes nothing.
\<close>

definition policy_streaming :: "policy_result \<Rightarrow> bool" where
  "policy_streaming policy =
     (case pr_effective_body policy of
        PDict body \<Rightarrow> (case map_of body ''stream'' of Some (PBool b) \<Rightarrow> b | _ \<Rightarrow> False)
      | _ \<Rightarrow> False)"

definition normalize_endpoint :: "string \<Rightarrow> string" where
  "normalize_endpoint value =
     (let endpoint = py_strip value
      in if endpoint = ''chat.completions'' then ''/v1/chat/completions''
         else if endpoint = ''audio.speech'' then ''/v1/audio/speech''
         else if endpoint = ''audio.transcriptions'' then ''/v1/audio/transcriptions''
         else if endpoint = ''audio.translations'' then ''/v1/audio/translations''
         else if endpoint = ''embeddings'' then ''/v1/embeddings''
         else if endpoint = ''realtime.client_secrets'' then ''/v1/realtime/client_secrets''
         else if endpoint = ''responses'' then ''/v1/responses''
         else endpoint)"

definition validate_cost :: "decimal \<Rightarrow> decimal result" where
  "validate_cost value =
     (if value < 0 then Inl (InvalidQuotaEstimateError ''estimated_cost_eur'') else Inr value)"

definition validate_tokens :: "int \<Rightarrow> int result" where
  "validate_tokens value =
     (if value < 0 then Inl (InvalidQuotaEstimateError ''estimated_tokens'') else Inr value)"

definition validate_external_tool_fence :: "gateway_key \<Rightarrow> unit result" where
  "validate_external_tool_fence k =
     ensure (gk_fence_state k \<notin> {FenceActive, FenceHeld}) ExternalToolFenceActiveError"

definition validate_key_can_reserve :: "gateway_key \<Rightarrow> pydatetime \<Rightarrow> unit result" where
  "validate_key_can_reserve k now =
     sbind (ensure (gk_status k = KeyActive) KeyNotReservableError) (\<lambda>_.
     sbind (ensure (is_aware (gk_valid_from k) \<and> is_aware (gk_valid_until k)) KeyNotReservableError) (\<lambda>_.
     ensure (\<not> (micros now < micros (gk_valid_from k) \<or> micros (gk_valid_until k) \<le> micros now))
       KeyNotReservableError))"

definition validate_limits :: "gateway_key \<Rightarrow> decimal \<Rightarrow> int \<Rightarrow> int \<Rightarrow> unit result" where
  "validate_limits k cost tokens requests =
     sbind (case gk_cost_limit_eur k of
              None \<Rightarrow> Inr ()
            | Some limit \<Rightarrow>
                ensure (\<not> limit < dec_add (dec_add (gk_cost_used_eur k) (gk_cost_reserved_eur k)) cost)
                  (QuotaLimitExceededError ''cost_limit_eur'')) (\<lambda>_.
     sbind (case gk_token_limit_total k of
              None \<Rightarrow> Inr ()
            | Some limit \<Rightarrow>
                ensure (\<not> limit < gk_tokens_used_total k + gk_tokens_reserved_total k + tokens)
                  (QuotaLimitExceededError ''token_limit_total'')) (\<lambda>_.
     (case gk_request_limit_total k of
        None \<Rightarrow> Inr ()
      | Some limit \<Rightarrow>
          ensure (\<not> limit < gk_requests_used_total k + gk_requests_reserved_total k + requests)
            (QuotaLimitExceededError ''request_limit_total''))))"

definition reservation_result :: "quota_reservation \<Rightarrow> quota_reservation_result" where
  "reservation_result r =
     \<lparr>qrr_reservation_id = qr_id r, qrr_gateway_key_id = qr_gateway_key_id r,
      qrr_request_id = qr_request_id r, qrr_reserved_cost_eur = qr_reserved_cost_eur r,
      qrr_reserved_tokens = qr_reserved_tokens r, qrr_status = qr_status r,
      qrr_expires_at = qr_expires_at r\<rparr>"

text \<open>\<open>timedelta(minutes=15)\<close> in microseconds.\<close>

definition reservation_ttl :: int where
  "reservation_ttl = 15 * 60 * 1000000"

definition later :: "pydatetime \<Rightarrow> int \<Rightarrow> pydatetime" where
  "later t d = (case t of Aware m \<Rightarrow> Aware (m + d) | Naive m \<Rightarrow> Naive (m + d))"

text \<open>The row \<open>reserve_for_chat_completion\<close> passes to \<open>create_reservation\<close>.\<close>

definition request_reservation ::
  "pydatetime \<Rightarrow> uuid \<Rightarrow> uuid \<Rightarrow> route_resolution \<Rightarrow> policy_result \<Rightarrow> string \<Rightarrow> string \<Rightarrow> pydatetime
     \<Rightarrow> decimal \<Rightarrow> int \<Rightarrow> quota_reservation" where
  "request_reservation clock rid kid route policy request_id endpoint expires_at cost tokens =
     (new_reservation rid clock kid request_id endpoint expires_at)
       \<lparr>qr_requested_model := Some (rt_requested_model route),
        qr_provider := Some (rt_provider route),
        qr_resolved_model := Some (rt_resolved_model route),
        qr_streaming := Some (policy_streaming policy),
        qr_reserved_cost_eur := cost,
        qr_reserved_tokens := tokens,
        qr_reserved_requests := 1, qr_status := Pending\<rparr>"

definition reserve_for_chat_completion ::
  "pydatetime \<Rightarrow> uuid \<Rightarrow> authenticated_key \<Rightarrow> route_resolution \<Rightarrow> policy_result \<Rightarrow> cost_estimate
     \<Rightarrow> string \<Rightarrow> string \<Rightarrow> pydatetime option \<Rightarrow> db \<Rightarrow> (db \<times> quota_reservation_result) result" where
  "reserve_for_chat_completion clock rid ak route policy estimate request_id endpoint now db =
     (let check_now = aware_now clock now in
     sbind (validate_cost (ce_estimated_total_cost_eur estimate)) (\<lambda>reserved_cost.
     sbind (validate_tokens (pr_estimated_input_tokens policy)) (\<lambda>_.
     sbind (validate_tokens (pr_effective_output_tokens policy)) (\<lambda>_.
     sbind (if is_fixed_request_module_billing (rt_provider_kind route) endpoint then Inr 0
            else validate_tokens (pr_estimated_input_tokens policy + pr_effective_output_tokens policy)) (\<lambda>reserved_tokens.
     sbind (validate_tokens (ce_estimated_input_tokens estimate)) (\<lambda>_.
     sbind (validate_tokens (ce_estimated_output_tokens estimate)) (\<lambda>_.
     sbind (the_or_raise (get_gateway_key_by_id (ak_gateway_key_id ak) db) KeyNotReservableError) (\<lambda>k.
     sbind (validate_key_can_reserve k check_now) (\<lambda>_.
     sbind (validate_external_tool_fence k) (\<lambda>_.
     sbind (validate_limits k reserved_cost reserved_tokens 1) (\<lambda>_.
     sbind (create_reservation
              (request_reservation clock rid (ak_gateway_key_id ak) route policy request_id
                (normalize_endpoint endpoint) (later check_now reservation_ttl) reserved_cost reserved_tokens) db) (\<lambda>(db1, reservation).
     sbind (add_reserved_counters k reserved_cost reserved_tokens 1 db1) (\<lambda>(db2, _).
     Inr (db2, reservation_result reservation))))))))))))))"

definition release_reservation ::
  "pydatetime \<Rightarrow> uuid \<Rightarrow> pydatetime option \<Rightarrow> db \<Rightarrow> (db \<times> quota_reservation_result) result" where
  "release_reservation clock rid now db =
     (let released_at = aware_now clock now in
     sbind (the_or_raise (get_reservation_by_id rid db) QuotaReservationNotFoundError) (\<lambda>r.
     if qr_status r \<noteq> Pending then Inr (db, reservation_result r)
     else
       sbind (the_or_raise (get_gateway_key_by_id (qr_gateway_key_id r) db) QuotaConcurrencyError) (\<lambda>k.
       sbind (subtract_reserved_counters k (qr_reserved_cost_eur r) (qr_reserved_tokens r)
                (qr_reserved_requests r) db) (\<lambda>(db1, _).
       sbind (mark_pending_reservation_released r released_at db1) (\<lambda>(db2, r').
       Inr (db2, reservation_result r'))))))"

lemmas quota_eval [eval_simps] =
  policy_streaming_def normalize_endpoint_def validate_cost_def validate_tokens_def
  validate_external_tool_fence_def validate_key_can_reserve_def validate_limits_def
  reservation_result_def reservation_ttl_def later_def request_reservation_def

section \<open>Closing a reservation is an abstract step\<close>

text \<open>Shared by every service that settles a pending reservation.\<close>

lemma release_is_step:
  assumes "get_reservation_by_id rid db = Some r" "qr_status r = Pending"
    "get_gateway_key_by_id (qr_gateway_key_id r) db = Some k"
    "subtract_reserved_counters k (qr_reserved_cost_eur r) (qr_reserved_tokens r) (qr_reserved_requests r) db = Inr (db1, k1)"
    "flushed_reservation (r\<lparr>qr_status := s, qr_finalized_at := f, qr_released_at := x\<rparr>) db1 = Inr (db2, r2)"
    "s \<noteq> Pending"
  shows "quota_step e db db2"
proof (rule quota_step.Release[where r = r and k = k and s = s and f = f and x = x])
  show "get_reservation_by_id (qr_id r) db = Some r" using assms(1) get_reservation_in[OF assms(1)] by simp
qed (use assms in \<open>auto simp: subtract_reserved_counters_def flush_simps\<close>)

lemma finalize_is_step:
  assumes "get_reservation_by_id rid db = Some r" "qr_status r = Pending"
    "get_gateway_key_by_id (qr_gateway_key_id r) db = Some k"
    "finalize_reserved_counters k (qr_reserved_cost_eur r) (qr_reserved_tokens r) (qr_reserved_requests r)
       cost tokens 1 last_used db = Inr (db1, k1)"
    "flushed_reservation (r\<lparr>qr_status := s, qr_finalized_at := f, qr_released_at := x\<rparr>) db1 = Inr (db2, r2)"
    "s \<noteq> Pending"
  shows "quota_step e db db2"
proof (rule quota_step.Finalize[where r = r and k = k and s = s and f = f and x = x
      and cost = cost and tokens = tokens and last_used = last_used])
  show "get_reservation_by_id (qr_id r) db = Some r" using assms(1) get_reservation_in[OF assms(1)] by simp
qed (use assms in \<open>auto simp: finalize_reserved_counters_def flush_simps\<close>)

lemma mark_flushed:
  "mark_pending_reservation_released r t db =
     flushed_reservation (r\<lparr>qr_status := Released, qr_finalized_at := qr_finalized_at r, qr_released_at := Some t\<rparr>) db"
  "mark_pending_reservation_finalized r t db =
     flushed_reservation (r\<lparr>qr_status := Finalized, qr_finalized_at := Some t, qr_released_at := None\<rparr>) db"
  "mark_pending_reservation_expired r t db =
     flushed_reservation (r\<lparr>qr_status := Expired, qr_finalized_at := None, qr_released_at := Some t\<rparr>) db"
  by (cases r; simp add: mark_pending_reservation_released_def mark_pending_reservation_finalized_def
      mark_pending_reservation_expired_def)+

text \<open>Flushing a row that is already in stored form succeeds.\<close>

lemma flushed_closed:
  assumes "reservation_ok r"
  shows "flushed_reservation (r\<lparr>qr_status := s, qr_finalized_at := f, qr_released_at := x\<rparr>) db =
    Inr (db\<lparr>db_reservations :=
           put_row qr_id (r\<lparr>qr_status := s, qr_finalized_at := f, qr_released_at := x\<rparr>) (db_reservations db)\<rparr>,
         r\<lparr>qr_status := s, qr_finalized_at := f, qr_released_at := x\<rparr>)"
proof -
  let ?r = "r\<lparr>qr_status := s, qr_finalized_at := f, qr_released_at := x\<rparr>"
  have "stored_reservation ?r = ?r" using assms by (simp add: reservation_ok_def stored_reservation_eq)
  moreover have "reservation_fits ?r"
    using assms by (simp add: reservation_ok_def reservation_fits_def)
  moreover have "reservation_checks ?r"
    using assms by (simp add: reservation_ok_def reservation_checks_def strict_facts_def fenced_facts_def)
  ultimately show ?thesis by (simp add: flushed_reservation_def flush_reservation_def)
qed

lemma mark_closed:
  assumes "reservation_ok r"
  shows "mark_pending_reservation_released r t db =
      Inr (db\<lparr>db_reservations := put_row qr_id (r\<lparr>qr_status := Released, qr_released_at := Some t\<rparr>) (db_reservations db)\<rparr>,
           r\<lparr>qr_status := Released, qr_released_at := Some t\<rparr>)"
    and "mark_pending_reservation_finalized r t db =
      Inr (db\<lparr>db_reservations := put_row qr_id (r\<lparr>qr_status := Finalized, qr_finalized_at := Some t, qr_released_at := None\<rparr>) (db_reservations db)\<rparr>,
           r\<lparr>qr_status := Finalized, qr_finalized_at := Some t, qr_released_at := None\<rparr>)"
  using flushed_closed[OF assms, where s = Released and f = "qr_finalized_at r" and x = "Some t" and db = db]
    flushed_closed[OF assms, where s = Finalized and f = "Some t" and x = None and db = db]
  by (simp_all add: mark_pending_reservation_released_def mark_pending_reservation_finalized_def)

lemma flushed_key_ok:
  "key_ok k \<Longrightarrow> fence_reference_ok k db \<Longrightarrow>
     flushed_key k db = Inr (db\<lparr>db_keys := put_row gk_id k (db_keys db)\<rparr>, k)"
  by (simp add: flushed_key_def flush_key_def key_ok_def)

section \<open>Reserving\<close>

lemma request_reservation_sels [simp]:
  fixes clock rid kid route policy req ep ex c t
  defines "r \<equiv> request_reservation clock rid kid route policy req ep ex c t"
  shows "qr_id r = rid" "qr_gateway_key_id r = kid" "qr_request_id r = req" "qr_status r = Pending"
    "qr_reserved_cost_eur r = c" "qr_reserved_tokens r = t" "qr_reserved_requests r = 1"
    "qr_quota_mode r = StrictBounded" "qr_expires_at r = ex"
  by (simp_all add: r_def request_reservation_def new_reservation_def)

definition reserved_tokens_for :: "route_resolution \<Rightarrow> string \<Rightarrow> policy_result \<Rightarrow> int" where
  "reserved_tokens_for route endpoint policy =
     (if is_fixed_request_module_billing (rt_provider_kind route) endpoint then 0
      else pr_estimated_input_tokens policy + pr_effective_output_tokens policy)"

definition within_cost_limit :: "gateway_key \<Rightarrow> decimal \<Rightarrow> bool" where
  "within_cost_limit k c =
     opt_all (\<lambda>l. dec_add (dec_add (gk_cost_used_eur k) (gk_cost_reserved_eur k)) c \<le> l) (gk_cost_limit_eur k)"

definition within_token_limit :: "gateway_key \<Rightarrow> int \<Rightarrow> bool" where
  "within_token_limit k t =
     opt_all (\<lambda>l. gk_tokens_used_total k + gk_tokens_reserved_total k + t \<le> l) (gk_token_limit_total k)"

definition within_request_limit :: "gateway_key \<Rightarrow> int \<Rightarrow> bool" where
  "within_request_limit k n =
     opt_all (\<lambda>l. gk_requests_used_total k + gk_requests_reserved_total k + n \<le> l) (gk_request_limit_total k)"

lemmas within_limit_defs = within_cost_limit_def within_token_limit_def within_request_limit_def

lemma validate_limits_Inr:
  "validate_limits k c t n = Inr u \<longleftrightarrow>
     opt_all (\<lambda>l. dec_add (dec_add (gk_cost_used_eur k) (gk_cost_reserved_eur k)) c \<le> l) (gk_cost_limit_eur k)
     \<and> opt_all (\<lambda>l. gk_tokens_used_total k + gk_tokens_reserved_total k + t \<le> l) (gk_token_limit_total k)
     \<and> opt_all (\<lambda>l. gk_requests_used_total k + gk_requests_reserved_total k + n \<le> l) (gk_request_limit_total k)"
  by (auto simp: validate_limits_def opt_all_def not_less split: option.splits)

lemma reserve_elim:
  assumes "reserve_for_chat_completion clock rid ak route policy est req ep now db = Inr (db', res)"
  obtains k r db1 where
    "get_gateway_key_by_id (ak_gateway_key_id ak) db = Some k"
    "r = request_reservation clock rid (ak_gateway_key_id ak) route policy req (normalize_endpoint ep)
           (later (aware_now clock now) reservation_ttl) (ce_estimated_total_cost_eur est)
           (reserved_tokens_for route ep policy)"
    "0 \<le> ce_estimated_total_cost_eur est" "0 \<le> reserved_tokens_for route ep policy"
    "validate_key_can_reserve k (aware_now clock now) = Inr ()" "gk_fence_state k = FenceNone"
    "validate_limits k (ce_estimated_total_cost_eur est) (reserved_tokens_for route ep policy) 1 = Inr ()"
    "insert_reservation r db = Inr db1"
    "flush_key (reserved_plus k (ce_estimated_total_cost_eur est) (reserved_tokens_for route ep policy) 1) db1 = Inr db'"
    "res = reservation_result r"
  using assms
  unfolding reserve_for_chat_completion_def Let_def reserved_tokens_for_def
  by (auto simp: validate_cost_def validate_tokens_def create_reservation_def add_reserved_counters_def
      flushed_key_def validate_external_tool_fence_def split: if_splits prod.splits intro: fence_state.exhaust)

lemma reserve_is_step:
  assumes "reserve_for_chat_completion clock rid ak route policy est req ep now db = Inr (db', res)"
    "e \<longrightarrow> nineteen_places (ce_estimated_total_cost_eur est)"
  shows "quota_step e db db'"
  using assms(1)
proof (cases rule: reserve_elim)
  case (1 k r db1)
  show ?thesis
    by (rule quota_step.Reserve[where r = r and k = k]) (use 1 assms(2) in \<open>auto simp: flush_simps\<close>)
qed

lemma release_elim:
  assumes "release_reservation clock rid now db = Inr (db', res)"
  obtains (closed) r where "get_reservation_by_id rid db = Some r" "qr_status r \<noteq> Pending" "db' = db"
      "res = reservation_result r"
  | (pending) r k db1 k1 r' where "get_reservation_by_id rid db = Some r" "qr_status r = Pending"
      "get_gateway_key_by_id (qr_gateway_key_id r) db = Some k"
      "subtract_reserved_counters k (qr_reserved_cost_eur r) (qr_reserved_tokens r) (qr_reserved_requests r) db = Inr (db1, k1)"
      "mark_pending_reservation_released r (aware_now clock now) db1 = Inr (db', r')"
      "res = reservation_result r'"
proof -
  obtain r where r: "get_reservation_by_id rid db = Some r"
    using assms unfolding release_reservation_def Let_def by auto
  show ?thesis
  proof (cases "qr_status r = Pending")
    case True
    with assms r show ?thesis
      unfolding release_reservation_def Let_def by (auto intro: pending)
  next
    case False
    with assms r show ?thesis
      unfolding release_reservation_def Let_def by (auto intro: closed)
  qed
qed

lemma release_is_steps:
  assumes "release_reservation clock rid now db = Inr (db', res)"
  shows "quota_steps e db db'"
  using assms
proof (cases rule: release_elim)
  case closed
  then show ?thesis by simp
next
  case (pending r k db1 k1 r')
  show ?thesis
    by (rule r_into_rtranclp, rule release_is_step[OF pending(1-4) pending(5)[unfolded mark_flushed]]) simp
qed

section \<open>Properties\<close>

text \<open>After a successful reservation of a well-formed database: the row just inserted and the key.\<close>

lemma reserve_post:
  assumes "reserve_for_chat_completion clock rid ak route policy est req ep now db = Inr (db', res)"
    and wf: "wf_quota db"
  obtains k r where
    "get_gateway_key_by_id (ak_gateway_key_id ak) db = Some k" "key_ok k"
    "get_gateway_key_by_id (ak_gateway_key_id ak) db' =
       Some (stored_key (reserved_plus k (ce_estimated_total_cost_eur est) (reserved_tokens_for route ep policy) 1))"
    "get_reservation_by_id rid db' = Some (stored_reservation r)" "reservation_ok (stored_reservation r)"
    "r = request_reservation clock rid (ak_gateway_key_id ak) route policy req (normalize_endpoint ep)
           (later (aware_now clock now) reservation_ttl) (ce_estimated_total_cost_eur est)
           (reserved_tokens_for route ep policy)"
    "db_keys db' = put_row gk_id (stored_key (reserved_plus k (ce_estimated_total_cost_eur est)
                      (reserved_tokens_for route ep policy) 1)) (db_keys db)"
    "db_reservations db' = db_reservations db @ [stored_reservation r]"
    "gateway_key_fits (reserved_plus k (ce_estimated_total_cost_eur est) (reserved_tokens_for route ep policy) 1)"
    "validate_limits k (ce_estimated_total_cost_eur est) (reserved_tokens_for route ep policy) 1 = Inr ()"
    "0 \<le> ce_estimated_total_cost_eur est" "gk_fence_state k = FenceNone"
  using assms(1)
proof (cases rule: reserve_elim)
  case (1 k r db1)
  have "key_ok k" using wf 1(1) by (rule wf_quota_key_ok)
  moreover have "gk_id k = ak_gateway_key_id ak" "ak_gateway_key_id ak \<in> gk_id ` set (db_keys db)"
    using get_key_in[OF 1(1)] by force+
  moreover have "get_row qr_id rid (db_reservations db) = None"
    using 1(2,8) by (simp add: flush_simps get_row_None)
  ultimately show ?thesis using 1
    by (intro that[of k r])
       (auto simp: flush_simps get_gateway_key_by_id_def get_reservation_by_id_def get_put_row get_row_append
         intro!: reservation_ok_stored)
qed

text \<open>Adding an amount that keeps the projected cost under a stored limit keeps the stored counters under it.\<close>

lemma projected_cost_bound:
  assumes k: "key_ok k" and c: "0 \<le> c" "nineteen_places c" and l: "nine_places l" "fits_numeric l"
    and le: "dec_add (dec_add (gk_cost_used_eur k) (gk_cost_reserved_eur k)) c \<le> l"
  shows "gk_cost_used_eur k + (gk_cost_reserved_eur k + pg9 c) \<le> l"
proof -
  let ?g = "gk_cost_used_eur k + gk_cost_reserved_eur k"
  note kd = key_okD[OF k]
  have g: "dec_add (gk_cost_used_eur k) (gk_cost_reserved_eur k) = ?g" "nine_places ?g" "0 \<le> ?g"
    using kd by (auto simp: dec_add_column intro: nine_places_add)
  have nn: "0 \<le> dec_add ?g c" using g(3) c(1) by (rule dec_add_nonneg)
  have "pg9 (dec_add ?g c) \<le> pg9 l" using nn le g(1) by (intro pg9_mono) simp_all
  moreover have "\<bar>pg9 l\<bar> < 10 ^ 9" using l(2) by (simp add: fits_numeric_def)
  ultimately have "fits_numeric (dec_add ?g c)" using pg9_nonneg[OF nn] by (simp add: fits_numeric_def)
  from dec_add_stored_exact[OF g(2,3) c(2,1) this] have "?g + c \<le> l" using le g(1) by simp
  then have "pg9 (?g + c) \<le> pg9 l" using g(3) c(1) by (intro pg9_mono) auto
  then show ?thesis using pg9_add[OF g(2,3) c(1)] pg9_nine_places[OF l(1)] by simp
qed

lemma key_ok_limit: "key_ok k \<Longrightarrow> gk_cost_limit_eur k = Some l \<Longrightarrow> nine_places l \<and> fits_numeric l"
proof -
  assume a: "key_ok k" "gk_cost_limit_eur k = Some l"
  have "gk_cost_limit_eur (stored_key k) = gk_cost_limit_eur k" using a(1) by (simp add: key_ok_def)
  then have "pg9 l = l" using a(2) by (simp add: stored_key_def)
  then show ?thesis using a by (metis key_ok_def gateway_key_fits_def nine_places_pg9 opt_all_def option.simps(5))
qed

text \<open>C2: An admitted request never takes a key over a limit.  After
  \<open>reserve_for_chat_completion\<close> returns, the stored key has used plus reserved tokens, requests
  and cost within its limits (cost for estimates of at most nineteen decimal places), the new
  pending reservation carries exactly the reserved amounts, and it expires fifteen minutes after
  the time of the check.\<close>

theorem reserve_respects_limits:
  assumes "reserve_for_chat_completion clock rid ak route policy est req ep now db = Inr (db', res)"
    and "wf_quota db" and "nineteen_places (ce_estimated_total_cost_eur est)"
  shows "\<exists>k r. get_gateway_key_by_id (ak_gateway_key_id ak) db' = Some k
    \<and> opt_all (\<lambda>l. gk_tokens_used_total k + gk_tokens_reserved_total k \<le> l) (gk_token_limit_total k)
    \<and> opt_all (\<lambda>l. gk_requests_used_total k + gk_requests_reserved_total k \<le> l) (gk_request_limit_total k)
    \<and> opt_all (\<lambda>l. gk_cost_used_eur k + gk_cost_reserved_eur k \<le> l) (gk_cost_limit_eur k)
    \<and> get_reservation_by_id rid db' = Some r \<and> pending_of (gk_id k) r
    \<and> qr_reserved_tokens r = reserved_tokens_for route ep policy
    \<and> qr_reserved_cost_eur r = pg9 (ce_estimated_total_cost_eur est)
    \<and> micros (qr_expires_at r) = micros (aware_now clock now) + 15 * 60 * 1000000"
  using assms(1,2)
proof (cases rule: reserve_post)
  case (1 k r)
  let ?c = "ce_estimated_total_cost_eur est" and ?t = "reserved_tokens_for route ep policy"
  let ?k = "stored_key (reserved_plus k ?c ?t 1)"
  have cost: "gk_cost_reserved_eur ?k = gk_cost_reserved_eur k + pg9 ?c"
    using cost_reserved_plus[OF 1(2,11) assms(3) 1(9)] by (simp add: reserved_plus_def)
  have lim: "gk_cost_limit_eur ?k = gk_cost_limit_eur k" "gk_cost_used_eur ?k = gk_cost_used_eur k"
    using 1(2) key_okD[OF 1(2)] key_ok_limit[OF 1(2)]
    by (auto simp: stored_key_def reserved_plus_def pg9_nine_places split: option.splits intro: option.map_ident_strong)
  have "opt_all (\<lambda>l. gk_cost_used_eur ?k + gk_cost_reserved_eur ?k \<le> l) (gk_cost_limit_eur ?k)"
    unfolding cost lim using 1(2,10,11) assms(3) key_ok_limit[OF 1(2)]
    by (auto simp: opt_all_def validate_limits_Inr intro: projected_cost_bound split: option.splits)
  moreover have "micros (later (aware_now clock now) reservation_ttl) = micros (aware_now clock now) + 15 * 60 * 1000000"
    by (cases "aware_now clock now") (simp_all add: later_def reservation_ttl_def)
  moreover have "gk_id k = ak_gateway_key_id ak" using get_key_in[OF 1(1)] by simp
  ultimately show ?thesis using 1
    by (intro exI[of _ ?k] exI[of _ "stored_reservation r"])
       (simp add: validate_limits_Inr reserved_plus_def stored_key_def stored_reservation_def pending_of_def algebra_simps)
qed

text \<open>The sample request is admitted.\<close>

definition sample_reserved :: "(db \<times> quota_reservation_result) result" where
  "sample_reserved =
     reserve_for_chat_completion (Aware 1000) 7 sample_ak sample_route sample_policy sample_estimate
       ''req1'' ''chat.completions'' None sample_db"

lemma sample_reserved_Inr: "\<exists>db' res. sample_reserved = Inr (db', res)"
  unfolding sample_reserved_def reserve_for_chat_completion_def by (simp add: eval_simps Let_def)

lemma sample_wf: "wf_quota sample_db"
  by (simp add: wf_quota_def key_ok_def eval_simps)

lemma sample_nineteen: "nineteen_places (ce_estimated_total_cost_eur sample_estimate)"
  by (simp add: nineteen_places_def eval_simps)

theorem reserve_respects_limits_witness:
  "\<exists>db' res k. sample_reserved = Inr (db', res) \<and> get_gateway_key_by_id 10 db' = Some k
     \<and> opt_all (\<lambda>l. gk_cost_used_eur k + gk_cost_reserved_eur k \<le> l) (gk_cost_limit_eur k)"
proof -
  obtain db' res where r: "sample_reserved = Inr (db', res)" using sample_reserved_Inr by blast
  from reserve_respects_limits[OF r[unfolded sample_reserved_def] sample_wf sample_nineteen]
  show ?thesis using r by (auto simp: sample_ak_def)
qed

text \<open>A request that would take an otherwise usable key over one of its limits is refused, with
  the error that names the first limit exceeded (cost, then tokens, then requests), and nothing
  is stored.\<close>

theorem reserve_refuses_over_limit:
  assumes "get_gateway_key_by_id (ak_gateway_key_id ak) db = Some k"
    and "0 \<le> ce_estimated_total_cost_eur est"
    and "0 \<le> pr_estimated_input_tokens policy" "0 \<le> pr_effective_output_tokens policy"
    and "0 \<le> ce_estimated_input_tokens est" "0 \<le> ce_estimated_output_tokens est"
    and "validate_key_can_reserve k (aware_now clock now) = Inr ()" and "gk_fence_state k = FenceNone"
  shows "(\<not> within_cost_limit k (ce_estimated_total_cost_eur est)
          \<longrightarrow> reserve_for_chat_completion clock rid ak route policy est req ep now db =
                Inl (QuotaLimitExceededError ''cost_limit_eur''))
       \<and> (within_cost_limit k (ce_estimated_total_cost_eur est)
          \<and> \<not> within_token_limit k (reserved_tokens_for route ep policy)
          \<longrightarrow> reserve_for_chat_completion clock rid ak route policy est req ep now db =
                Inl (QuotaLimitExceededError ''token_limit_total''))
       \<and> (within_cost_limit k (ce_estimated_total_cost_eur est)
          \<and> within_token_limit k (reserved_tokens_for route ep policy) \<and> \<not> within_request_limit k 1
          \<longrightarrow> reserve_for_chat_completion clock rid ak route policy est req ep now db =
                Inl (QuotaLimitExceededError ''request_limit_total''))"
  using assms unfolding within_limit_defs reserve_for_chat_completion_def Let_def
  by (auto simp: validate_cost_def validate_tokens_def validate_external_tool_fence_def validate_limits_def
      reserved_tokens_for_def opt_all_def not_le split: option.splits)

text \<open>A policy that asks for more output tokens than the sample key has left.\<close>

theorem reserve_refuses_over_limit_witness:
  "reserve_for_chat_completion (Aware 1000) 7 sample_ak sample_route
     (sample_policy\<lparr>pr_effective_output_tokens := 5000\<rparr>) sample_estimate ''req1'' ''chat.completions'' None
     sample_db = Inl (QuotaLimitExceededError ''token_limit_total'')"
proof -
  have k: "get_gateway_key_by_id (ak_gateway_key_id sample_ak) sample_db = Some sample_key"
    by (simp add: eval_simps)
  have v: "validate_key_can_reserve sample_key (aware_now (Aware 1000) None) = Inr ()"
    by (simp add: eval_simps)
  show ?thesis
    using reserve_refuses_over_limit[OF k _ _ _ _ _ v, where est = sample_estimate
        and policy = "sample_policy\<lparr>pr_effective_output_tokens := 5000\<rparr>"]
    by (simp add: eval_simps reserved_tokens_for_def within_limit_defs)
qed

text \<open>While an external-tool fence is active or held on a key, no ordinary request can reserve on
  it: whatever the request, the reservation is not created.\<close>

theorem reserve_blocked_by_fence:
  assumes "get_gateway_key_by_id (ak_gateway_key_id ak) db = Some k" "gk_fence_state k \<noteq> FenceNone"
  shows "reserve_for_chat_completion clock rid ak route policy est req ep now db \<noteq> Inr (db', res)"
  using assms by (auto elim!: reserve_elim)

definition sample_fenced_key :: gateway_key where
  "sample_fenced_key =
     fence_set sample_key FenceActive (Some 7) (Some ''req1'') (Some (Aware 1)) (Some (Aware 2))"

theorem reserve_blocked_by_fence_witness:
  "\<forall>db' res. reserve_for_chat_completion (Aware 1000) 8 sample_ak sample_route sample_policy sample_estimate
     ''req2'' ''chat.completions'' None (sample_db\<lparr>db_keys := [sample_fenced_key]\<rparr>) \<noteq> Inr (db', res)"
  by (intro allI, rule reserve_blocked_by_fence[of _ _ sample_fenced_key])
     (simp_all add: eval_simps sample_fenced_key_def)

text \<open>Undoing a reservation on the key row.\<close>

lemma reserved_minus_plus:
  assumes "key_ok k" "0 \<le> c" "nineteen_places c" "gateway_key_fits (reserved_plus k c t n)"
  shows "reserved_minus (stored_key (reserved_plus k c t n)) (pg9 c) t n = k"
proof -
  have k: "stored_key k = k" "gk_cost_used_eur k = pg9 (gk_cost_used_eur k)"
    using assms(1) key_okD[OF assms(1)] by (simp_all add: key_ok_def pg9_nine_places)
  let ?g = "gk_cost_reserved_eur k"
  have p: "pg9 (dec_add ?g c) = ?g + pg9 c" using assms by (rule cost_reserved_plus)
  have "fits_numeric (dec_add ?g c)" using assms(4) by (simp add: gateway_key_fits_def reserved_plus_def)
  then have big: "\<bar>?g + pg9 c\<bar> < 10 ^ 9" by (simp add: fits_numeric_def p)
  have g0: "0 \<le> ?g" "0 \<le> pg9 c" using key_okD[OF assms(1)] assms(2) by simp_all
  then have "fits_numeric (?g + pg9 c)" "fits_numeric (pg9 c)"
    using big key_okD(1)[OF assms(1)]
    by (simp_all add: fits_numeric_def pg9_nine_places nine_places_add)
  then have "dec_sub (?g + pg9 c) (pg9 c) = ?g"
    using key_okD(1)[OF assms(1)]
    by (subst dec_sub_column) (auto intro!: column_value_stored nine_places_add simp: pg9_nine_places)
  moreover have "gk_cost_limit_eur k = map_option pg9 (gk_cost_limit_eur k)"
    using arg_cong[OF k(1), of gk_cost_limit_eur] by (simp add: stored_key_def)
  ultimately show ?thesis
    using k(2) p by (cases k) (simp add: stored_key_def reserved_plus_def reserved_minus_def)
qed

lemma release_after_reserve:
  assumes "reserve_for_chat_completion clock rid ak route policy est req ep now db = Inr (db', res)"
    and "wf_quota db" and "nineteen_places (ce_estimated_total_cost_eur est)"
  shows "\<exists>db'' res'. release_reservation clock' rid now' db' = Inr (db'', res')
    \<and> db_keys db'' = db_keys db \<and> qrr_status res' = Released
    \<and> map_option qr_status (get_reservation_by_id rid db'') = Some Released"
  using assms(1,2)
proof (cases rule: reserve_post)
  case (1 k r)
  let ?c = "ce_estimated_total_cost_eur est" and ?t = "reserved_tokens_for route ep policy"
  let ?k = "stored_key (reserved_plus k ?c ?t 1)"
  have undo: "reserved_minus ?k (pg9 ?c) ?t 1 = k"
    using 1(2,11) assms(3) 1(9) by (rule reserved_minus_plus)
  have le: "pg9 ?c \<le> gk_cost_reserved_eur ?k" "?t \<le> gk_tokens_reserved_total ?k" "1 \<le> gk_requests_reserved_total ?k"
    using cost_reserved_plus[OF 1(2,11) assms(3) 1(9)] key_okD[OF 1(2)] 1(2)
    by (simp_all add: reserved_plus_def key_ok_def gateway_key_checks_def)
  have kk: "gateway_key_fits k" "gateway_key_checks k" "stored_key k = k" using 1(2) by (simp_all add: key_ok_def)
  have fr: "fence_reference_ok k db'"
    using kk(2) 1(12) by (simp add: fence_reference_ok_def gateway_key_checks_def fence_fields_null_def)
  let ?r = "(stored_reservation r)\<lparr>qr_status := Released, qr_released_at := Some (aware_now clock' now')\<rparr>"
  have keys: "put_row gk_id k (db_keys db') = db_keys db"
    using assms(2) 1(1,7) get_key_in[OF 1(1)] by (simp add: put_row_self wf_quota_def get_gateway_key_by_id_def)
  have "release_reservation clock' rid now' db' =
      Inr (db'\<lparr>db_keys := db_keys db, db_reservations := put_row qr_id ?r (db_reservations db')\<rparr>, reservation_result ?r)"
    using 1(3,4,6) le undo keys mark_closed(1)[OF 1(5)]
    by (simp add: release_reservation_def subtract_reserved_counters_def ensure_reserved_counters_can_decrement_def
        flushed_key_ok[OF 1(2) fr] Let_def del: sbind_eq_Inr)
  moreover have "get_row qr_id rid (db_reservations db') = Some (stored_reservation r)"
    using 1(4) by (simp add: get_reservation_by_id_def)
  ultimately show ?thesis using 1(6)
    by (auto simp: get_reservation_by_id_def get_put_row_found reservation_result_def)
qed

text \<open>C32: Reserving and then releasing restores the key: on a well-formed database, for estimates of at
  most nineteen decimal places, the release of a reservation that was just made succeeds, every
  key row is again what it was before the request, and the reservation is stored as released.\<close>

theorem reserve_release_restores:
  assumes "reserve_for_chat_completion clock rid ak route policy est req ep now db = Inr (db', res)"
    and "wf_quota db" and "nineteen_places (ce_estimated_total_cost_eur est)"
  shows "\<exists>db'' res'. release_reservation clock' rid now' db' = Inr (db'', res')
    \<and> db_keys db'' = db_keys db \<and> qrr_status res' = Released
    \<and> map_option qr_status (get_reservation_by_id rid db'') = Some Released"
  by (rule release_after_reserve[OF assms])


theorem reserve_release_restores_witness:
  "\<exists>db' res db'' res'. sample_reserved = Inr (db', res)
     \<and> release_reservation (Aware 2000) 7 None db' = Inr (db'', res') \<and> db_keys db'' = [sample_key]"
proof -
  obtain db' res where r: "sample_reserved = Inr (db', res)" using sample_reserved_Inr by blast
  from reserve_release_restores[OF r[unfolded sample_reserved_def] sample_wf sample_nineteen, of "Aware 2000" None]
  show ?thesis using r by (auto simp: sample_db_def)
qed

text \<open>Releasing is idempotent: once \<open>release_reservation\<close> has returned, the reservation is no
  longer pending, and releasing it again at any later time changes nothing, so the key's
  counters are decremented at most once per reservation.\<close>

theorem release_idempotent:
  assumes "release_reservation clock rid now db = Inr (db', res)" and "wf_quota db"
  shows "\<exists>r. get_reservation_by_id rid db' = Some r \<and> qr_status r \<noteq> Pending
    \<and> release_reservation clock' rid now' db' = Inr (db', reservation_result r)"
  using assms(1)
proof (cases rule: release_elim)
  case (closed r)
  then show ?thesis by (simp add: release_reservation_def)
next
  case (pending r k db1 k1 r')
  have id: "qr_id r = rid" using get_reservation_in[OF pending(1)] by simp
  have "db_reservations db1 = db_reservations db"
    using pending(4) by (auto simp: subtract_reserved_counters_def flush_simps)
  then have "get_reservation_by_id rid db' =
      Some (r\<lparr>qr_status := Released, qr_released_at := Some (aware_now clock now)\<rparr>)"
    using pending(1,5) mark_closed(1)[OF wf_quota_reservation_ok[OF assms(2) pending(1)]] id
    by (auto simp: get_reservation_by_id_def get_put_row_found)
  then show ?thesis by (simp add: release_reservation_def)
qed

theorem release_idempotent_witness:
  "\<exists>db1 res db' res' r. sample_reserved = Inr (db1, res)
     \<and> release_reservation (Aware 2000) 7 None db1 = Inr (db', res')
     \<and> release_reservation (Aware 3000) 7 None db' = Inr (db', reservation_result r)"
proof -
  obtain db1 res where r: "sample_reserved = Inr (db1, res)" using sample_reserved_Inr by blast
  have wf: "wf_quota db1"
    using wf_quota_step[OF reserve_is_step[OF r[unfolded sample_reserved_def], of False] sample_wf] by simp
  obtain db' res' where "release_reservation (Aware 2000) 7 None db1 = Inr (db', res')"
    using release_after_reserve[OF r[unfolded sample_reserved_def] sample_wf sample_nineteen] by blast
  with release_idempotent[OF this wf, of "Aware 3000" None] r show ?thesis by blast
qed

end
