(* ===== verification/ToolPolicy.thy ===== *)
theory ToolPolicy
  imports Tables "HOL-Library.List_Lexorder" "HOL-Library.Char_ord"
begin

text \<open>
  \<open>services/external_tool_policy_contract.py\<close>: which tool authority a request asks for, what a
  key's and a route's stored policy allow, and the admission decision made of the three.  The
  values that come from JSON are \<open>pyval\<close>s, so that every malformed shape is a case of the model.
  In a decoded JSON value no mapping occurs twice, so the identity test of the namespace walk
  (\<open>seen_namespaces\<close>) never fires and has no counterpart.

  Shown: an allowed external decision implies every grant and bound the contract asks for; a
  client-operated classification has no provider authority at any nesting depth; stored policies
  are canonical and survive being written and parsed again.
\<close>

section \<open>Vocabulary\<close>

definition known_external_capabilities :: "string list" where
  "known_external_capabilities =
     [''provider_web_search'', ''provider_file_search'', ''provider_code_interpreter'',
      ''provider_hosted_shell'', ''provider_image_generation'', ''provider_computer_use'',
      ''provider_tool_search'', ''provider_skill'', ''provider_remote_mcp'', ''provider_connector'',
      ''provider_url_fetch'']"

definition destination_capabilities :: "string list" where
  "destination_capabilities = [''provider_remote_mcp'', ''provider_connector'']"

definition client_tool_aliases :: "string list" where
  "client_tool_aliases = [''function'', ''custom'', ''namespace'', ''local_shell'', ''apply_patch'']"

definition provider_tool_alias_to_capability :: "(string \<times> string) list" where
  "provider_tool_alias_to_capability =
     [(''web_search'', ''provider_web_search''), (''web_search_preview'', ''provider_web_search''),
      (''file_search'', ''provider_file_search''), (''code_interpreter'', ''provider_code_interpreter''),
      (''shell'', ''provider_hosted_shell''), (''image_generation'', ''provider_image_generation''),
      (''computer'', ''provider_computer_use''), (''computer_use'', ''provider_computer_use''),
      (''computer_use_preview'', ''provider_computer_use''), (''tool_search'', ''provider_tool_search''),
      (''skill'', ''provider_skill''), (''skills'', ''provider_skill'')]"

definition neutral_tool_choices :: "string list" where
  "neutral_tool_choices = [''none'', ''auto'', ''required'']"

definition search_specific_models :: "string list" where
  "search_specific_models = [''gpt-5-search-api'', ''gpt-4o-search-preview'', ''gpt-4o-mini-search-preview'']"

definition key_policy_fields :: "string list" where
  "key_policy_fields =
     [''version'', ''mode'', ''allowed_capabilities'', ''allowed_destination_ids'',
      ''max_provider_tool_calls_per_request'', ''single_request_overrun_acknowledged'']"

definition route_policy_fields :: "string list" where
  "route_policy_fields =
     [''version'', ''supported_capabilities'', ''approved_destination_ids'',
      ''max_provider_tool_calls_per_request'', ''call_limit_enforced'', ''final_usage_required'',
      ''final_cost_required'']"

definition provider_authority_markers :: "string list" where
  "provider_authority_markers =
     [''server_url'', ''connector_id'', ''authorization'', ''require_approval'', ''defer_loading'',
      ''server_label'', ''server_description'', ''allowed_tools'', ''api_key'', ''bearer_token'',
      ''cookie'', ''cookies'', ''oauth'', ''headers'']"

definition mcp_destination_markers :: "string list" where
  "mcp_destination_markers = [''server_url'', ''connector_id'']"

definition secret_words :: "string list" where
  "secret_words =
     [''apikey'', ''api_key'', ''authorization'', ''bearer'', ''credential'', ''oauth'', ''password'',
      ''secret'', ''token'']"

section \<open>Data\<close>

record operator_ceilings =
  oc_max_distinct_capabilities :: int
  oc_max_approved_destinations :: int
  oc_max_provider_tool_declarations_per_request :: int
  oc_max_provider_tool_calls_per_request :: int

text \<open>The constructor raises outside the absolute maxima.\<close>

definition build_external_tool_operator_ceilings :: "int \<Rightarrow> int \<Rightarrow> int \<Rightarrow> int \<Rightarrow> operator_ceilings result" where
  "build_external_tool_operator_ceilings capabilities destinations declarations calls =
     sbind (each_ok (\<lambda>(value, maximum). ensure (\<not> (value \<le> 0 \<or> maximum < value)) PyValueError)
              [(capabilities, 16), (destinations, 8), (declarations, 16), (calls, 16)]) (\<lambda>_.
     Inr \<lparr>oc_max_distinct_capabilities = capabilities, oc_max_approved_destinations = destinations,
          oc_max_provider_tool_declarations_per_request = declarations,
          oc_max_provider_tool_calls_per_request = calls\<rparr>)"

definition default_ceilings :: operator_ceilings where
  "default_ceilings =
     \<lparr>oc_max_distinct_capabilities = 16, oc_max_approved_destinations = 8,
      oc_max_provider_tool_declarations_per_request = 16, oc_max_provider_tool_calls_per_request = 16\<rparr>"

record key_policy =
  kp_version :: int
  kp_mode :: quota_mode
  kp_allowed_capabilities :: "string list"
  kp_allowed_destination_ids :: "string list"
  kp_max_provider_tool_calls_per_request :: int
  kp_single_request_overrun_acknowledged :: bool

record route_policy =
  rp_version :: int
  rp_supported_capabilities :: "string list"
  rp_approved_destination_ids :: "string list"
  rp_max_provider_tool_calls_per_request :: int
  rp_call_limit_enforced :: bool
  rp_final_usage_required :: bool
  rp_final_cost_required :: bool

definition quota_mode_str :: "quota_mode \<Rightarrow> string" where
  "quota_mode_str m = (case m of StrictBounded \<Rightarrow> ''strict_bounded'' | ExternalToolFenced \<Rightarrow> ''external_tool_fenced'')"

definition key_policy_to_metadata :: "key_policy \<Rightarrow> pydict" where
  "key_policy_to_metadata p =
     [(''version'', PInt (kp_version p)), (''mode'', PStr (quota_mode_str (kp_mode p))),
      (''allowed_capabilities'', PList (map PStr (kp_allowed_capabilities p))),
      (''allowed_destination_ids'', PList (map PStr (kp_allowed_destination_ids p))),
      (''max_provider_tool_calls_per_request'', PInt (kp_max_provider_tool_calls_per_request p)),
      (''single_request_overrun_acknowledged'', PBool (kp_single_request_overrun_acknowledged p))]"

definition route_policy_to_metadata :: "route_policy \<Rightarrow> pydict" where
  "route_policy_to_metadata p =
     [(''version'', PInt (rp_version p)),
      (''supported_capabilities'', PList (map PStr (rp_supported_capabilities p))),
      (''approved_destination_ids'', PList (map PStr (rp_approved_destination_ids p))),
      (''max_provider_tool_calls_per_request'', PInt (rp_max_provider_tool_calls_per_request p)),
      (''call_limit_enforced'', PBool (rp_call_limit_enforced p)),
      (''final_usage_required'', PBool (rp_final_usage_required p)),
      (''final_cost_required'', PBool (rp_final_cost_required p))]"

record 'p policy_parse_result =
  pp_valid :: bool
  pp_present :: bool
  pp_policy :: "'p option"
  pp_reason_code :: string

datatype authority_class = ClientOperated | ProviderExternal | UnknownExternal

record tool_classification =
  tc_authority_class :: authority_class
  tc_capability_id :: "string option"
  tc_destination_id :: "string option"
  tc_provider_tool_declaration :: bool
  tc_unreviewed_external_authority :: bool
  tc_reason_code :: string

record classified_request =
  cr_capabilities :: "string list"
  cr_destination_ids :: "string list"
  cr_provider_tool_declaration_count :: int
  cr_requested_provider_tool_calls_per_request :: int
  cr_unknown_external_authority :: bool
  cr_unreviewed_external_authority :: bool
  cr_unsupported_external_state :: bool
  cr_approval_floor_satisfied :: bool

record key_limit_facts =
  kl_key_purpose :: key_purpose
  kl_request_limit_total :: "int option"
  kl_token_limit_total :: "int option"
  kl_cost_limit_eur :: "decimal option"

record admission_decision =
  ad_allowed :: bool
  ad_quota_mode :: quota_mode
  ad_effective_tool_call_cap :: int
  ad_reason_code :: string
  ad_exclusive_key_fence_required :: bool
  ad_single_request_overrun_accepted :: bool
  ad_hold_on_missing_or_ambiguous_final_cost :: bool
  ad_following_requests_block_after_exhaustion :: bool

section \<open>Destination identifiers\<close>

definition opaque_char :: "char \<Rightarrow> bool" where
  "opaque_char c = (is_lower c \<or> is_digit c \<or> c = CHR ''_'' \<or> c = CHR ''-'')"

definition opaque_ok :: "string \<Rightarrow> bool" where
  "opaque_ok w =
     (w \<noteq> [] \<and> length w \<le> 48 \<and> (is_lower (hd w) \<or> is_digit (hd w)) \<and> list_all opaque_char w)"

text \<open>\<open>_DESTINATION_ID_PATTERN.fullmatch\<close> with its two groups.\<close>

definition destination_match :: "string \<Rightarrow> (string \<times> string) option" where
  "destination_match s =
     (if starts_with s ''connector:'' \<and> opaque_ok (drop 10 s) then Some (''connector'', drop 10 s)
      else if starts_with s ''remote_mcp:'' \<and> opaque_ok (drop 11 s) then Some (''remote_mcp'', drop 11 s)
      else None)"

definition destination_kind :: "string \<Rightarrow> string option" where
  "destination_kind s = map_option fst (destination_match s)"

text \<open>The non-empty parts of \<open>re.split("[-_]", opaque)\<close>.\<close>

fun split_terms :: "string \<Rightarrow> string \<Rightarrow> string list" where
  "split_terms acc [] = (if acc = [] then [] else [rev acc])"
| "split_terms acc (c # cs) =
     (if c = CHR ''-'' \<or> c = CHR ''_''
      then (if acc = [] then split_terms [] cs else rev acc # split_terms [] cs)
      else split_terms (c # acc) cs)"

definition is_normalized_destination_id :: "string \<Rightarrow> bool" where
  "is_normalized_destination_id s =
     (length s \<le> 64 \<and>
      (case destination_match s of
         None \<Rightarrow> False
       | Some (_, w) \<Rightarrow>
           \<not> starts_with w ''sk-'' \<and> \<not> starts_with w ''sk_''
           \<and> \<not> list_ex (\<lambda>t. t \<in> set secret_words) (split_terms [] w)))"

definition destination_matches_capability :: "string option \<Rightarrow> string \<Rightarrow> bool" where
  "destination_matches_capability destination_id capability_id =
     (case destination_id of
        None \<Rightarrow> False
      | Some d \<Rightarrow>
          is_normalized_destination_id d \<and> capability_id \<in> set destination_capabilities
          \<and> destination_kind d =
              Some (if capability_id = ''provider_connector'' then ''connector'' else ''remote_mcp''))"

definition destinations_match_capabilities :: "string list \<Rightarrow> string list \<Rightarrow> bool" where
  "destinations_match_capabilities capabilities destinations =
     (set (map destination_kind destinations) =
      set (map (\<lambda>(kind, _). Some kind)
        (filter (\<lambda>(_, capability). capability \<in> set capabilities)
          [(''connector'', ''provider_connector''), (''remote_mcp'', ''provider_remote_mcp'')])))"

section \<open>Parsing stored policies\<close>

fun is_exact_version :: "pyval \<Rightarrow> bool" where
  "is_exact_version (PInt i) = (i = 1)"
| "is_exact_version _ = False"

fun non_negative_int_of :: "pyval \<Rightarrow> int option" where
  "non_negative_int_of (PInt i) = (if 0 \<le> i then Some i else None)"
| "non_negative_int_of _ = None"

fun bool_of :: "pyval \<Rightarrow> bool option" where
  "bool_of (PBool b) = Some b"
| "bool_of _ = None"

fun str_of :: "pyval \<Rightarrow> string option" where
  "str_of (PStr s) = Some s"
| "str_of _ = None"

text \<open>A list of strings that all satisfy a test, without duplicates and of bounded length, sorted.\<close>

definition parse_string_list :: "(string \<Rightarrow> bool) \<Rightarrow> pyval \<Rightarrow> int \<Rightarrow> string list option" where
  "parse_string_list ok value maximum =
     (case value of
        PList xs \<Rightarrow>
          if maximum < int (length xs) then None
          else if list_ex (\<lambda>v. case str_of v of None \<Rightarrow> True | Some s \<Rightarrow> \<not> ok s) xs then None
          else if \<not> distinct xs then None
          else Some (sort (List.map_filter str_of xs))
      | _ \<Rightarrow> None)"

definition parse_capability_list :: "pyval \<Rightarrow> int \<Rightarrow> string list option" where
  "parse_capability_list = parse_string_list (\<lambda>s. s \<in> set known_external_capabilities)"

definition parse_destination_list :: "pyval \<Rightarrow> int \<Rightarrow> string list option" where
  "parse_destination_list = parse_string_list is_normalized_destination_id"

definition parse_mode :: "pyval \<Rightarrow> quota_mode option" where
  "parse_mode v =
     (case str_of v of
        None \<Rightarrow> None
      | Some s \<Rightarrow> if s = ''strict_bounded'' then Some StrictBounded
                  else if s = ''external_tool_fenced'' then Some ExternalToolFenced else None)"

definition invalid_policy :: "string \<Rightarrow> 'p policy_parse_result" where
  "invalid_policy reason =
     \<lparr>pp_valid = False, pp_present = True, pp_policy = None, pp_reason_code = reason\<rparr>"

definition strict_key_policy :: key_policy where
  "strict_key_policy =
     \<lparr>kp_version = 1, kp_mode = StrictBounded, kp_allowed_capabilities = [], kp_allowed_destination_ids = [],
      kp_max_provider_tool_calls_per_request = 0, kp_single_request_overrun_acknowledged = False\<rparr>"

definition strict_route_policy :: route_policy where
  "strict_route_policy =
     \<lparr>rp_version = 1, rp_supported_capabilities = [], rp_approved_destination_ids = [],
      rp_max_provider_tool_calls_per_request = 0, rp_call_limit_enforced = False,
      rp_final_usage_required = False, rp_final_cost_required = False\<rparr>"

definition parse_key_external_tool_policy ::
  "pyval \<Rightarrow> operator_ceilings \<Rightarrow> key_policy policy_parse_result" where
  "parse_key_external_tool_policy value ceilings =
     (case value of
        PNone \<Rightarrow> \<lparr>pp_valid = True, pp_present = False, pp_policy = Some strict_key_policy,
                  pp_reason_code = ''key_policy_missing_strict_default''\<rparr>
      | PDict d \<Rightarrow>
          if set (map fst d) \<noteq> set key_policy_fields then invalid_policy ''key_policy_invalid_fields''
          else if \<not> is_exact_version (dget d ''version'') then invalid_policy ''key_policy_invalid_version''
          else (case parse_mode (dget d ''mode'') of
            None \<Rightarrow> invalid_policy ''key_policy_invalid_mode''
          | Some mode \<Rightarrow>
          (case parse_capability_list (dget d ''allowed_capabilities'') (oc_max_distinct_capabilities ceilings) of
            None \<Rightarrow> invalid_policy ''key_policy_invalid_capabilities''
          | Some capabilities \<Rightarrow>
          (case parse_destination_list (dget d ''allowed_destination_ids'') (oc_max_approved_destinations ceilings) of
            None \<Rightarrow> invalid_policy ''key_policy_invalid_destinations''
          | Some destinations \<Rightarrow>
          (case non_negative_int_of (dget d ''max_provider_tool_calls_per_request'') of
            None \<Rightarrow> invalid_policy ''key_policy_invalid_call_cap''
          | Some call_cap \<Rightarrow>
          (case bool_of (dget d ''single_request_overrun_acknowledged'') of
            None \<Rightarrow> invalid_policy ''key_policy_invalid_acknowledgement''
          | Some acknowledged \<Rightarrow>
              if mode = StrictBounded \<and>
                 (capabilities \<noteq> [] \<or> destinations \<noteq> [] \<or> call_cap \<noteq> 0 \<or> acknowledged)
              then invalid_policy ''key_policy_invalid_strict_shape''
              else if mode \<noteq> StrictBounded \<and>
                 (capabilities = [] \<or> \<not> 0 < call_cap
                  \<or> oc_max_provider_tool_calls_per_request ceilings < call_cap \<or> \<not> acknowledged
                  \<or> \<not> destinations_match_capabilities capabilities destinations)
              then invalid_policy ''key_policy_external_requirements_not_met''
              else \<lparr>pp_valid = True, pp_present = True,
                    pp_policy = Some \<lparr>kp_version = 1, kp_mode = mode,
                      kp_allowed_capabilities = capabilities, kp_allowed_destination_ids = destinations,
                      kp_max_provider_tool_calls_per_request = call_cap,
                      kp_single_request_overrun_acknowledged = acknowledged\<rparr>,
                    pp_reason_code = ''key_policy_valid''\<rparr>)))))
      | _ \<Rightarrow> invalid_policy ''key_policy_invalid_shape'')"

definition parse_route_external_tool_policy ::
  "pyval \<Rightarrow> operator_ceilings \<Rightarrow> route_policy policy_parse_result" where
  "parse_route_external_tool_policy value ceilings =
     (case value of
        PNone \<Rightarrow> \<lparr>pp_valid = True, pp_present = False, pp_policy = Some strict_route_policy,
                  pp_reason_code = ''route_policy_missing_strict_default''\<rparr>
      | PDict d \<Rightarrow>
          if set (map fst d) \<noteq> set route_policy_fields then invalid_policy ''route_policy_invalid_fields''
          else if \<not> is_exact_version (dget d ''version'') then invalid_policy ''route_policy_invalid_version''
          else (case parse_capability_list (dget d ''supported_capabilities'') (oc_max_distinct_capabilities ceilings) of
            None \<Rightarrow> invalid_policy ''route_policy_invalid_capabilities''
          | Some capabilities \<Rightarrow>
          (case parse_destination_list (dget d ''approved_destination_ids'') (oc_max_approved_destinations ceilings) of
            None \<Rightarrow> invalid_policy ''route_policy_invalid_destinations''
          | Some destinations \<Rightarrow>
          (case non_negative_int_of (dget d ''max_provider_tool_calls_per_request'') of
            None \<Rightarrow> invalid_policy ''route_policy_invalid_call_cap''
          | Some call_cap \<Rightarrow>
          (case (bool_of (dget d ''call_limit_enforced''), bool_of (dget d ''final_usage_required''),
                 bool_of (dget d ''final_cost_required'')) of
            (Some enforced, Some usage, Some cost) \<Rightarrow>
              if capabilities = [] \<and> (destinations \<noteq> [] \<or> call_cap \<noteq> 0 \<or> enforced \<or> usage \<or> cost)
              then invalid_policy ''route_policy_invalid_strict_shape''
              else if capabilities \<noteq> [] \<and>
                 (\<not> 0 < call_cap \<or> oc_max_provider_tool_calls_per_request ceilings < call_cap
                  \<or> \<not> (enforced \<and> usage \<and> cost) \<or> \<not> destinations_match_capabilities capabilities destinations)
              then invalid_policy ''route_policy_external_requirements_not_met''
              else \<lparr>pp_valid = True, pp_present = True,
                    pp_policy = Some \<lparr>rp_version = 1, rp_supported_capabilities = capabilities,
                      rp_approved_destination_ids = destinations,
                      rp_max_provider_tool_calls_per_request = call_cap,
                      rp_call_limit_enforced = enforced, rp_final_usage_required = usage,
                      rp_final_cost_required = cost\<rparr>,
                    pp_reason_code = ''route_policy_valid''\<rparr>
          | _ \<Rightarrow> invalid_policy ''route_policy_invalid_evidence_flags''))))
      | _ \<Rightarrow> invalid_policy ''route_policy_invalid_shape'')"

section \<open>Classifying tool declarations\<close>

definition unknown_classification :: "bool \<Rightarrow> string \<Rightarrow> tool_classification" where
  "unknown_classification provider_declaration reason =
     \<lparr>tc_authority_class = UnknownExternal, tc_capability_id = None, tc_destination_id = None,
      tc_provider_tool_declaration = provider_declaration, tc_unreviewed_external_authority = False,
      tc_reason_code = reason\<rparr>"

definition external_classification :: "string \<Rightarrow> string option \<Rightarrow> bool \<Rightarrow> bool \<Rightarrow> string \<Rightarrow> tool_classification" where
  "external_classification capability destination declaration unreviewed reason =
     \<lparr>tc_authority_class = ProviderExternal, tc_capability_id = Some capability,
      tc_destination_id = destination, tc_provider_tool_declaration = declaration,
      tc_unreviewed_external_authority = unreviewed, tc_reason_code = reason\<rparr>"

definition client_classification :: "string \<Rightarrow> tool_classification" where
  "client_classification reason =
     \<lparr>tc_authority_class = ClientOperated, tc_capability_id = None, tc_destination_id = None,
      tc_provider_tool_declaration = False, tc_unreviewed_external_authority = False,
      tc_reason_code = reason\<rparr>"

definition declaration_control_markers :: "pydict \<Rightarrow> string list" where
  "declaration_control_markers d = filter (\<lambda>k. k \<in> set provider_authority_markers) (map fst d)"

definition client_declaration_control_markers :: "string \<Rightarrow> pydict \<Rightarrow> string list" where
  "client_declaration_control_markers tool_type d =
     declaration_control_markers d @
     (if tool_type \<in> {''function'', ''custom''}
      then (case dget d tool_type of PDict n \<Rightarrow> declaration_control_markers n | _ \<Rightarrow> []) else [])"

text \<open>A non-empty string without surrounding whitespace.\<close>

definition trimmed_name :: "pyval \<Rightarrow> bool" where
  "trimmed_name v = (case str_of v of None \<Rightarrow> False | Some s \<Rightarrow> s \<noteq> [] \<and> s = py_strip s)"

definition is_recognizable_client_tool_shape :: "string \<Rightarrow> pydict \<Rightarrow> bool" where
  "is_recognizable_client_tool_shape tool_type d =
     (if tool_type \<in> {''local_shell'', ''apply_patch''} then True
      else if tool_type \<in> {''function'', ''custom''}
      then trimmed_name (dget d ''name'')
           \<or> (case dget d tool_type of PDict n \<Rightarrow> trimmed_name (dget n ''name'') | _ \<Rightarrow> False)
      else if tool_type = ''namespace''
      then trimmed_name (dget d ''name'') \<and> (case dget d ''tools'' of PList _ \<Rightarrow> True | _ \<Rightarrow> False)
      else False)"

text \<open>One pass over the children of a namespace: None when a child is not a client tool, else the
  child namespaces in order.\<close>

fun scan_children :: "pyval list \<Rightarrow> pydict list option" where
  "scan_children [] = Some []"
| "scan_children (PDict c # cs) =
     (case str_of (dget c ''type'') of
        None \<Rightarrow> None
      | Some t \<Rightarrow>
          if t \<notin> set client_tool_aliases then None
          else if t = ''namespace'' then map_option (\<lambda>ns. c # ns) (scan_children cs)
          else if client_declaration_control_markers t c \<noteq> [] then None
          else if \<not> is_recognizable_client_tool_shape t c then None
          else scan_children cs)"
| "scan_children (_ # cs) = None"

abbreviation dict_size :: "pydict \<Rightarrow> nat" where
  "dict_size d \<equiv> size (PDict d)"

lemma scan_children_size:
  "scan_children cs = Some ns \<Longrightarrow> sum_list (map dict_size ns) \<le> size_list size cs"
proof (induction cs arbitrary: ns rule: scan_children.induct)
  case (2 c cs)
  then show ?case by (force split: option.splits if_splits)
qed auto

lemma dget_size: "dget d k = v \<Longrightarrow> v \<noteq> PNone \<Longrightarrow> size v < dict_size d"
  by (induction d) (auto simp: dget_def split: if_splits prod.splits)

text \<open>The explicit stack of the walk, top first; each entry has its depth.\<close>

function namespace_walk :: "(pydict \<times> nat) list \<Rightarrow> nat \<Rightarrow> bool" where
  "namespace_walk [] child_count = True"
| "namespace_walk ((ns, depth) # stack) child_count =
     (if 4 < depth then False
      else if client_declaration_control_markers ''namespace'' ns \<noteq> [] then False
      else if \<not> is_recognizable_client_tool_shape ''namespace'' ns then False
      else case dget ns ''tools'' of
             PList children \<Rightarrow>
               if 16 < child_count + length children then False
               else (case scan_children children of
                       None \<Rightarrow> False
                     | Some nested \<Rightarrow>
                         namespace_walk (rev (map (\<lambda>d. (d, Suc depth)) nested) @ stack)
                           (child_count + length children))
           | _ \<Rightarrow> False)"
  by pat_completeness auto
termination
proof (relation "measure (\<lambda>(stack, _). sum_list (map (\<lambda>(d, _). dict_size d) stack))", goal_cases)
  case (2 ns depth stack child_count children nested)
  then have "sum_list (map dict_size nested) \<le> size_list size children"
    by (intro scan_children_size)
  moreover have "size (PList children) < dict_size ns" using 2 by (intro dget_size) auto
  moreover have "sum_list (map ((\<lambda>(d, _). dict_size d) \<circ> (\<lambda>d. (d, Suc depth))) nested) = sum_list (map dict_size nested)"
    by (simp add: comp_def)
  ultimately show ?case by (simp add: sum_list.rev comp_def flip: rev_map)
qed auto

definition namespace_children_are_client_operated :: "pydict \<Rightarrow> bool" where
  "namespace_children_are_client_operated d = namespace_walk [(d, 1)] 0"

definition classify_wire_mcp :: "pydict \<Rightarrow> tool_classification" where
  "classify_wire_mcp d =
     (let destinations = filter (\<lambda>m. m \<in> set mcp_destination_markers) (remdups (declaration_control_markers d))
      in if length destinations \<noteq> 1
         then unknown_classification True ''mcp_destination_ambiguous_or_missing''
         else external_classification
                (if ''connector_id'' \<in> set destinations then ''provider_connector'' else ''provider_remote_mcp'')
                None True True ''client_mcp_destination_not_reviewed'')"

definition classify_tool_declaration :: "pyval \<Rightarrow> tool_classification" where
  "classify_tool_declaration value =
     (case value of
        PDict d \<Rightarrow>
          (if \<not> trimmed_name (dget d ''type'') then unknown_classification True ''malformed_tool_type''
           else let tool_type = the (str_of (dget d ''type'')) in
             if tool_type \<in> set client_tool_aliases then
               (if client_declaration_control_markers tool_type d \<noteq> []
                then unknown_classification True ''mixed_local_external_authority''
                else if \<not> is_recognizable_client_tool_shape tool_type d
                then unknown_classification True ''malformed_client_tool_shape''
                else if tool_type = ''namespace'' \<and> \<not> namespace_children_are_client_operated d
                then unknown_classification True ''namespace_child_external_or_invalid''
                else client_classification ''client_operated_tool'')
             else if tool_type = ''mcp'' then classify_wire_mcp d
             else case map_of provider_tool_alias_to_capability tool_type of
                    Some capability \<Rightarrow>
                      if declaration_control_markers d \<noteq> []
                      then unknown_classification True ''malformed_provider_tool_authority''
                      else external_classification capability None True False ''provider_external_tool''
                  | None \<Rightarrow> unknown_classification True ''unknown_tool_type'')
      | _ \<Rightarrow> unknown_classification True ''malformed_tool_declaration'')"

definition classify_tool_choice :: "pyval \<Rightarrow> tool_classification" where
  "classify_tool_choice value =
     (case value of
        PNone \<Rightarrow> client_classification ''neutral_tool_choice''
      | PStr s \<Rightarrow> if s \<in> set neutral_tool_choices then client_classification ''neutral_tool_choice''
                  else unknown_classification False ''unknown_tool_choice''
      | PDict d \<Rightarrow> (classify_tool_declaration (PDict d))\<lparr>tc_provider_tool_declaration := False\<rparr>
      | _ \<Rightarrow> unknown_classification False ''unknown_tool_choice'')"

definition classify_reviewed_external_tool :: "string \<Rightarrow> string option \<Rightarrow> tool_classification result" where
  "classify_reviewed_external_tool capability_id destination_id =
     sbind (ensure (capability_id \<in> set known_external_capabilities) PyValueError) (\<lambda>_.
     sbind (if capability_id \<in> set destination_capabilities
            then ensure (destination_matches_capability destination_id capability_id) PyValueError
            else ensure (destination_id = None) PyValueError) (\<lambda>_.
     Inr (external_classification capability_id destination_id True False ''reviewed_provider_external_tool'')))"

section \<open>Classifying a request\<close>

text \<open>The constructor of the request facts refuses values that are not canonical.\<close>

definition canonical_request :: "classified_request \<Rightarrow> bool" where
  "canonical_request r =
     (cr_capabilities r = sort (remdups (cr_capabilities r))
      \<and> list_all (\<lambda>c. c \<in> set known_external_capabilities) (cr_capabilities r)
      \<and> cr_destination_ids r = sort (remdups (cr_destination_ids r))
      \<and> list_all is_normalized_destination_id (cr_destination_ids r)
      \<and> 0 \<le> cr_provider_tool_declaration_count r \<and> 0 \<le> cr_requested_provider_tool_calls_per_request r)"

definition has_external_authority :: "classified_request \<Rightarrow> bool" where
  "has_external_authority r =
     (cr_capabilities r \<noteq> [] \<or> cr_unknown_external_authority r \<or> cr_unreviewed_external_authority r
      \<or> cr_unsupported_external_state r)"

definition requires_provider_tool_calls :: "classified_request \<Rightarrow> bool" where
  "requires_provider_tool_calls r = (set (cr_capabilities r) - {''provider_url_fetch''} \<noteq> {})"

definition reviewed_ok :: "tool_classification \<Rightarrow> bool" where
  "reviewed_ok c =
     (tc_authority_class c = ProviderExternal
      \<and> (case tc_capability_id c of None \<Rightarrow> False | Some x \<Rightarrow> x \<in> set known_external_capabilities)
      \<and> \<not> tc_unreviewed_external_authority c)"

text \<open>The classifications the request is reduced from, and whether a flag or a reviewed tool was
  malformed.\<close>

definition request_flags :: "pyval \<Rightarrow> pyval \<Rightarrow> pyval \<Rightarrow> pyval \<Rightarrow> pyval \<Rightarrow> bool option list" where
  "request_flags web_search_options search_model url_fetch unsupported_state approval_floor =
     map bool_of [web_search_options, search_model, url_fetch, unsupported_state, approval_floor]"

definition request_classifications ::
  "pyval \<Rightarrow> pyval \<Rightarrow> pyval \<Rightarrow> pyval \<Rightarrow> pyval \<Rightarrow> tool_classification list \<Rightarrow> pyval \<Rightarrow> pyval \<Rightarrow> tool_classification list" where
  "request_classifications tools tool_choice web_search_options search_model url_fetch reviewed
       unsupported_state approval_floor =
     (let declared =
            (case tools of
               PNone \<Rightarrow> []
             | PList ts \<Rightarrow> map classify_tool_declaration ts
             | _ \<Rightarrow> [unknown_classification True ''malformed_tools_collection'']);
          choice = classify_tool_choice tool_choice;
          chosen = (if tc_capability_id choice \<noteq> None \<or> tc_authority_class choice = UnknownExternal
                    then [choice] else []);
          flagged =
            (if None \<in> set (request_flags web_search_options search_model url_fetch unsupported_state approval_floor)
             then []
             else (if bool_of web_search_options = Some True \<or> bool_of search_model = Some True
                   then [external_classification ''provider_web_search'' None True False ''provider_external_web_search'']
                   else [])
                @ (if bool_of url_fetch = Some True
                   then [external_classification ''provider_url_fetch'' None False False ''provider_external_url_fetch'']
                   else []))
      in declared @ chosen @ flagged @ filter reviewed_ok reviewed)"

definition classify_external_tool_request ::
  "pyval \<Rightarrow> pyval \<Rightarrow> pyval \<Rightarrow> pyval \<Rightarrow> pyval \<Rightarrow> tool_classification list \<Rightarrow> pyval \<Rightarrow> pyval \<Rightarrow> pyval
     \<Rightarrow> classified_request result" where
  "classify_external_tool_request tools tool_choice web_search_options search_model url_fetch reviewed
       requested_calls unsupported_state approval_floor =
     (let malformed =
            (None \<in> set (request_flags web_search_options search_model url_fetch unsupported_state approval_floor)
             \<or> list_ex (\<lambda>c. \<not> reviewed_ok c) reviewed);
          all = request_classifications tools tool_choice web_search_options search_model url_fetch reviewed
                  unsupported_state approval_floor;
          request =
            \<lparr>cr_capabilities = sort (remdups (filter (\<lambda>c. c \<in> set known_external_capabilities)
               (List.map_filter tc_capability_id all))),
             cr_destination_ids = sort (remdups (List.map_filter tc_destination_id all)),
             cr_provider_tool_declaration_count = int (length (filter tc_provider_tool_declaration all)),
             cr_requested_provider_tool_calls_per_request =
               (case non_negative_int_of requested_calls of Some n \<Rightarrow> n | None \<Rightarrow> 0),
             cr_unknown_external_authority =
               (malformed \<or> list_ex (\<lambda>c. tc_authority_class c = UnknownExternal) all
                \<or> non_negative_int_of requested_calls = None),
             cr_unreviewed_external_authority = list_ex tc_unreviewed_external_authority all,
             cr_unsupported_external_state =
               (case bool_of unsupported_state of Some b \<Rightarrow> b | None \<Rightarrow> True),
             cr_approval_floor_satisfied = (case bool_of approval_floor of Some b \<Rightarrow> b | None \<Rightarrow> False)\<rparr>
      in sbind (ensure (canonical_request request) PyValueError) (\<lambda>_. Inr request))"

definition ends_with :: "string \<Rightarrow> string \<Rightarrow> bool" where
  "ends_with s suffix = starts_with (rev s) (rev suffix)"

definition is_search_specific_chat_completion_model :: "pyval \<Rightarrow> bool" where
  "is_search_specific_chat_completion_model model =
     (case str_of model of
        None \<Rightarrow> False
      | Some m \<Rightarrow> m = py_strip m \<and> (m \<in> set search_specific_models \<or> ends_with m ''-search-preview''))"

section \<open>The admission decision\<close>

definition decision :: "bool \<Rightarrow> quota_mode \<Rightarrow> int \<Rightarrow> string \<Rightarrow> admission_decision" where
  "decision allowed mode cap reason =
     (let fenced = (allowed \<and> mode = ExternalToolFenced)
      in \<lparr>ad_allowed = allowed, ad_quota_mode = mode, ad_effective_tool_call_cap = cap,
          ad_reason_code = reason, ad_exclusive_key_fence_required = fenced,
          ad_single_request_overrun_accepted = fenced,
          ad_hold_on_missing_or_ambiguous_final_cost = fenced,
          ad_following_requests_block_after_exhaustion = fenced\<rparr>)"

abbreviation deny :: "string \<Rightarrow> admission_decision" where
  "deny reason \<equiv> decision False StrictBounded 0 reason"

definition positive_limits :: "key_limit_facts \<Rightarrow> bool" where
  "positive_limits k =
     ((case kl_request_limit_total k of None \<Rightarrow> False | Some n \<Rightarrow> 0 < n)
      \<and> (case kl_token_limit_total k of None \<Rightarrow> False | Some n \<Rightarrow> 0 < n)
      \<and> (case kl_cost_limit_eur k of None \<Rightarrow> False | Some c \<Rightarrow> 0 < c))"

definition decide_with_policies ::
  "classified_request \<Rightarrow> key_policy \<Rightarrow> route_policy \<Rightarrow> operator_ceilings \<Rightarrow> key_limit_facts \<Rightarrow> admission_decision" where
  "decide_with_policies request key route ceilings limits =
     (let effective_cap = min (min (kp_max_provider_tool_calls_per_request key)
            (rp_max_provider_tool_calls_per_request route)) (oc_max_provider_tool_calls_per_request ceilings)
      in
      if \<not> set (cr_capabilities request) \<subseteq> set (kp_allowed_capabilities key) then deny ''key_capability_mismatch''
      else if \<not> set (cr_capabilities request) \<subseteq> set (rp_supported_capabilities route)
      then deny ''route_capability_mismatch''
      else if \<not> set (cr_destination_ids request) \<subseteq> set (kp_allowed_destination_ids key)
      then deny ''key_destination_mismatch''
      else if \<not> set (cr_destination_ids request) \<subseteq> set (rp_approved_destination_ids route)
      then deny ''route_destination_mismatch''
      else if list_ex (\<lambda>c. c \<in> set destination_capabilities
                 \<and> \<not> list_ex (\<lambda>d. destination_matches_capability (Some d) c) (cr_destination_ids request))
               (cr_capabilities request)
      then deny ''request_destination_missing''
      else if effective_cap < cr_requested_provider_tool_calls_per_request request
      then deny ''effective_call_cap_exceeded''
      else if \<not> (rp_call_limit_enforced route \<and> rp_final_usage_required route \<and> rp_final_cost_required route)
      then deny ''route_evidence_contract_missing''
      else if \<not> kp_single_request_overrun_acknowledged key then deny ''single_request_overrun_not_acknowledged''
      else if kl_key_purpose limits \<noteq> StandardPurpose then deny ''standard_key_required''
      else if \<not> positive_limits limits then deny ''positive_finite_key_limits_required''
      else decision True ExternalToolFenced effective_cap ''external_tool_fenced_allowed'')"

definition decide_external_tool_admission ::
  "classified_request \<Rightarrow> key_policy policy_parse_result \<Rightarrow> route_policy policy_parse_result
     \<Rightarrow> operator_ceilings \<Rightarrow> key_limit_facts \<Rightarrow> admission_decision" where
  "decide_external_tool_admission request kres rres ceilings limits =
     (if \<not> has_external_authority request then decision True StrictBounded 0 ''no_external_authority''
      else if cr_unknown_external_authority request then deny ''unknown_external_authority''
      else if cr_unsupported_external_state request then deny ''unsupported_external_state''
      else if cr_unreviewed_external_authority request then deny ''unreviewed_external_authority''
      else if \<not> cr_approval_floor_satisfied request then deny ''approval_floor_not_satisfied''
      else if oc_max_distinct_capabilities ceilings < int (length (cr_capabilities request))
      then deny ''operator_capability_ceiling_exceeded''
      else if oc_max_approved_destinations ceilings < int (length (cr_destination_ids request))
      then deny ''operator_destination_ceiling_exceeded''
      else if oc_max_provider_tool_declarations_per_request ceilings < cr_provider_tool_declaration_count request
      then deny ''operator_declaration_ceiling_exceeded''
      else if oc_max_provider_tool_calls_per_request ceilings < cr_requested_provider_tool_calls_per_request request
      then deny ''operator_call_ceiling_exceeded''
      else if requires_provider_tool_calls request \<and> \<not> 0 < cr_requested_provider_tool_calls_per_request request
      then deny ''provider_tool_call_cap_required''
      else case pp_policy kres of
             None \<Rightarrow> deny ''key_policy_invalid''
           | Some key \<Rightarrow>
             if \<not> pp_valid kres then deny ''key_policy_invalid''
             else if \<not> pp_present kres then deny ''key_policy_missing''
             else if kp_mode key \<noteq> ExternalToolFenced then deny ''strict_bounded_external_authority_denied''
             else (case pp_policy rres of
                     None \<Rightarrow> deny ''route_policy_invalid''
                   | Some route \<Rightarrow>
                     if \<not> pp_valid rres then deny ''route_policy_invalid''
                     else if \<not> pp_present rres \<or> rp_supported_capabilities route = []
                     then deny ''route_external_support_missing''
                     else decide_with_policies request key route ceilings limits))"

section \<open>Canonical lists\<close>

definition canonical_list :: "(string \<Rightarrow> bool) \<Rightarrow> int \<Rightarrow> string list \<Rightarrow> bool" where
  "canonical_list ok maximum xs =
     (sorted xs \<and> distinct xs \<and> (\<forall>x \<in> set xs. ok x) \<and> int (length xs) \<le> maximum)"

lemma map_filter_str_of: "\<forall>v \<in> set xs. \<exists>s. v = PStr s \<Longrightarrow> map PStr (List.map_filter str_of xs) = xs"
  by (induction xs) (auto simp: List.map_filter_simps)

lemma str_of_Some [simp]: "str_of v = Some s \<longleftrightarrow> v = PStr s"
  by (cases v) auto

lemma parse_string_list_canonical:
  assumes "parse_string_list ok v maximum = Some ys"
  shows "canonical_list ok maximum ys"
proof -
  from assms obtain xs where xs: "v = PList xs" "\<not> maximum < int (length xs)" "distinct xs"
    "\<not> list_ex (\<lambda>v. case str_of v of None \<Rightarrow> True | Some s \<Rightarrow> \<not> ok s) xs"
    "ys = sort (List.map_filter str_of xs)"
    by (auto simp: parse_string_list_def split: pyval.splits if_splits)
  have str: "\<forall>v \<in> set xs. \<exists>s. v = PStr s \<and> ok s"
    using xs(4) by (auto simp: list_ex_iff split: option.splits)
  then have m: "map PStr (List.map_filter str_of xs) = xs" by (intro map_filter_str_of) auto
  then have "distinct (map PStr (List.map_filter str_of xs))" using xs(3) by simp
  then have "distinct ys" by (simp add: distinct_map xs(5))
  moreover have "length ys = length xs" using arg_cong[OF m, of length] by (simp add: xs(5))
  moreover have "PStr ` set ys = set xs" using arg_cong[OF m, of set] by (simp add: xs(5))
  then have "\<forall>s \<in> set ys. ok s" using str by fastforce
  ultimately show ?thesis using xs(2,5) by (simp add: canonical_list_def)
qed

lemma parse_string_list_print:
  assumes "canonical_list ok maximum ys"
  shows "parse_string_list ok (PList (map PStr ys)) maximum = Some ys"
proof -
  have "List.map_filter str_of (map PStr ys) = ys" by (induction ys) (auto simp: List.map_filter_simps)
  moreover have "distinct (map PStr ys)" using assms by (simp add: canonical_list_def distinct_map inj_on_def)
  ultimately show ?thesis
    using assms by (auto simp: parse_string_list_def canonical_list_def list_ex_iff sorted_sort_id)
qed

definition key_policy_ok :: "operator_ceilings \<Rightarrow> key_policy \<Rightarrow> bool" where
  "key_policy_ok oc p =
     (kp_version p = 1
      \<and> canonical_list (\<lambda>s. s \<in> set known_external_capabilities) (oc_max_distinct_capabilities oc) (kp_allowed_capabilities p)
      \<and> canonical_list is_normalized_destination_id (oc_max_approved_destinations oc) (kp_allowed_destination_ids p)
      \<and> (case kp_mode p of
           StrictBounded \<Rightarrow> kp_allowed_capabilities p = [] \<and> kp_allowed_destination_ids p = []
             \<and> kp_max_provider_tool_calls_per_request p = 0 \<and> \<not> kp_single_request_overrun_acknowledged p
         | ExternalToolFenced \<Rightarrow> kp_allowed_capabilities p \<noteq> []
             \<and> 0 < kp_max_provider_tool_calls_per_request p
             \<and> kp_max_provider_tool_calls_per_request p \<le> oc_max_provider_tool_calls_per_request oc
             \<and> kp_single_request_overrun_acknowledged p
             \<and> destinations_match_capabilities (kp_allowed_capabilities p) (kp_allowed_destination_ids p)))"

definition route_policy_ok :: "operator_ceilings \<Rightarrow> route_policy \<Rightarrow> bool" where
  "route_policy_ok oc p =
     (rp_version p = 1
      \<and> canonical_list (\<lambda>s. s \<in> set known_external_capabilities) (oc_max_distinct_capabilities oc) (rp_supported_capabilities p)
      \<and> canonical_list is_normalized_destination_id (oc_max_approved_destinations oc) (rp_approved_destination_ids p)
      \<and> (if rp_supported_capabilities p = []
         then rp_approved_destination_ids p = [] \<and> rp_max_provider_tool_calls_per_request p = 0
           \<and> \<not> rp_call_limit_enforced p \<and> \<not> rp_final_usage_required p \<and> \<not> rp_final_cost_required p
         else 0 < rp_max_provider_tool_calls_per_request p
           \<and> rp_max_provider_tool_calls_per_request p \<le> oc_max_provider_tool_calls_per_request oc
           \<and> rp_call_limit_enforced p \<and> rp_final_usage_required p \<and> rp_final_cost_required p
           \<and> destinations_match_capabilities (rp_supported_capabilities p) (rp_approved_destination_ids p)))"

lemma non_negative_int_of_Some: "non_negative_int_of v = Some i \<longleftrightarrow> v = PInt i \<and> 0 \<le> i"
  by (cases v) auto

lemma invalid_policy_sels [simp]: "\<not> pp_valid (invalid_policy r)" "pp_policy (invalid_policy r) = None"
  by (simp_all add: invalid_policy_def)

lemma parse_key_policy_ok:
  assumes "pp_policy (parse_key_external_tool_policy v oc) = Some p" "v \<noteq> PNone"
  shows "key_policy_ok oc p"
proof -
  from assms obtain d caps dests where d: "v = PDict d"
    and c: "parse_capability_list (dget d ''allowed_capabilities'') (oc_max_distinct_capabilities oc) = Some caps"
    and ds: "parse_destination_list (dget d ''allowed_destination_ids'') (oc_max_approved_destinations oc) = Some dests"
    and p: "kp_allowed_capabilities p = caps" "kp_allowed_destination_ids p = dests" "kp_version p = 1"
      "if kp_mode p = StrictBounded
       then caps = [] \<and> dests = [] \<and> kp_max_provider_tool_calls_per_request p = 0 \<and> \<not> kp_single_request_overrun_acknowledged p
       else caps \<noteq> [] \<and> 0 < kp_max_provider_tool_calls_per_request p
         \<and> kp_max_provider_tool_calls_per_request p \<le> oc_max_provider_tool_calls_per_request oc
         \<and> kp_single_request_overrun_acknowledged p \<and> destinations_match_capabilities caps dests"
    unfolding parse_key_external_tool_policy_def
    by (auto split: pyval.splits option.splits if_splits)
  show ?thesis
    using p parse_string_list_canonical[OF c[unfolded parse_capability_list_def]]
      parse_string_list_canonical[OF ds[unfolded parse_destination_list_def]]
    by (cases "kp_mode p") (auto simp: key_policy_ok_def)
qed

lemma parse_route_policy_ok:
  assumes "pp_policy (parse_route_external_tool_policy v oc) = Some p" "v \<noteq> PNone"
  shows "route_policy_ok oc p"
proof -
  from assms obtain d caps dests where d: "v = PDict d"
    and c: "parse_capability_list (dget d ''supported_capabilities'') (oc_max_distinct_capabilities oc) = Some caps"
    and ds: "parse_destination_list (dget d ''approved_destination_ids'') (oc_max_approved_destinations oc) = Some dests"
    and p: "rp_supported_capabilities p = caps" "rp_approved_destination_ids p = dests" "rp_version p = 1"
      "if caps = []
       then dests = [] \<and> rp_max_provider_tool_calls_per_request p = 0
           \<and> \<not> rp_call_limit_enforced p \<and> \<not> rp_final_usage_required p \<and> \<not> rp_final_cost_required p
       else 0 < rp_max_provider_tool_calls_per_request p
           \<and> rp_max_provider_tool_calls_per_request p \<le> oc_max_provider_tool_calls_per_request oc
           \<and> rp_call_limit_enforced p \<and> rp_final_usage_required p \<and> rp_final_cost_required p
           \<and> destinations_match_capabilities caps dests"
    unfolding parse_route_external_tool_policy_def
    by (auto split: pyval.splits option.splits if_splits)
  show ?thesis
    using p parse_string_list_canonical[OF c[unfolded parse_capability_list_def]]
      parse_string_list_canonical[OF ds[unfolded parse_destination_list_def]]
    by (auto simp: route_policy_ok_def)
qed

lemma print_parse_key_policy:
  assumes "key_policy_ok oc p"
  shows "pp_policy (parse_key_external_tool_policy (PDict (key_policy_to_metadata p)) oc) = Some p"
proof -
  have f: "set (map fst (key_policy_to_metadata p)) = set key_policy_fields"
    by (simp add: key_policy_to_metadata_def key_policy_fields_def)
  have g: "dget (key_policy_to_metadata p) ''version'' = PInt 1"
    "parse_mode (dget (key_policy_to_metadata p) ''mode'') = Some (kp_mode p)"
    "parse_capability_list (dget (key_policy_to_metadata p) ''allowed_capabilities'') (oc_max_distinct_capabilities oc)
       = Some (kp_allowed_capabilities p)"
    "parse_destination_list (dget (key_policy_to_metadata p) ''allowed_destination_ids'') (oc_max_approved_destinations oc)
       = Some (kp_allowed_destination_ids p)"
    "non_negative_int_of (dget (key_policy_to_metadata p) ''max_provider_tool_calls_per_request'')
       = Some (kp_max_provider_tool_calls_per_request p)"
    "bool_of (dget (key_policy_to_metadata p) ''single_request_overrun_acknowledged'')
       = Some (kp_single_request_overrun_acknowledged p)"
    using assms
    by (auto simp: key_policy_to_metadata_def key_policy_ok_def parse_mode_def quota_mode_str_def parse_capability_list_def
        parse_destination_list_def parse_string_list_print split: quota_mode.splits)
  show ?thesis
    unfolding parse_key_external_tool_policy_def pyval.case f g(2-6) option.case
    using assms by (auto simp: g(1) key_policy_ok_def split: quota_mode.splits)
qed

lemma print_parse_route_policy:
  assumes "route_policy_ok oc p"
  shows "pp_policy (parse_route_external_tool_policy (PDict (route_policy_to_metadata p)) oc) = Some p"
proof -
  have f: "set (map fst (route_policy_to_metadata p)) = set route_policy_fields"
    by (simp add: route_policy_to_metadata_def route_policy_fields_def)
  have g: "dget (route_policy_to_metadata p) ''version'' = PInt 1"
    "parse_capability_list (dget (route_policy_to_metadata p) ''supported_capabilities'') (oc_max_distinct_capabilities oc)
       = Some (rp_supported_capabilities p)"
    "parse_destination_list (dget (route_policy_to_metadata p) ''approved_destination_ids'') (oc_max_approved_destinations oc)
       = Some (rp_approved_destination_ids p)"
    "non_negative_int_of (dget (route_policy_to_metadata p) ''max_provider_tool_calls_per_request'')
       = Some (rp_max_provider_tool_calls_per_request p)"
    "bool_of (dget (route_policy_to_metadata p) ''call_limit_enforced'') = Some (rp_call_limit_enforced p)"
    "bool_of (dget (route_policy_to_metadata p) ''final_usage_required'') = Some (rp_final_usage_required p)"
    "bool_of (dget (route_policy_to_metadata p) ''final_cost_required'') = Some (rp_final_cost_required p)"
    using assms
    by (auto simp: route_policy_to_metadata_def route_policy_ok_def parse_capability_list_def
        parse_destination_list_def parse_string_list_print split: if_splits)
  show ?thesis
    unfolding parse_route_external_tool_policy_def pyval.case f g(2-7) option.case prod.case
    using assms by (auto simp: g(1) route_policy_ok_def split: if_splits)
qed

section \<open>Nested declarations\<close>

text \<open>\<open>child_of d c\<close>: the mapping \<open>c\<close> is declared directly in the namespace \<open>d\<close>; its transitive closure
  reaches every depth.\<close>

inductive child_of :: "pydict \<Rightarrow> pydict \<Rightarrow> bool" where
  child: "dget d ''type'' = PStr ''namespace'' \<Longrightarrow> dget d ''tools'' = PList cs \<Longrightarrow> PDict c \<in> set cs \<Longrightarrow> child_of d c"

inductive_cases child_ofE: "child_of d c"

abbreviation nested :: "pydict \<Rightarrow> pydict \<Rightarrow> bool" where
  "nested \<equiv> child_of\<^sup>+\<^sup>+"

definition client_tool :: "pydict \<Rightarrow> bool" where
  "client_tool c =
     (\<exists>t \<in> set client_tool_aliases. dget c ''type'' = PStr t \<and> client_declaration_control_markers t c = []
        \<and> is_recognizable_client_tool_shape t c)"

lemma scan_children_sound:
  assumes "scan_children cs = Some ns" "PDict c \<in> set cs"
  shows "dget c ''type'' = PStr ''namespace'' \<and> c \<in> set ns
    \<or> dget c ''type'' \<noteq> PStr ''namespace'' \<and> client_tool c"
  using assms
proof (induction cs arbitrary: ns rule: scan_children.induct)
  case (2 c' cs)
  then obtain t where t: "dget c' ''type'' = PStr t" "t \<in> set client_tool_aliases"
    by (auto split: option.splits if_splits)
  show ?case
  proof (cases "t = ''namespace''")
    case True
    with 2 t show ?thesis by (auto split: if_splits)
  next
    case False
    with 2 t show ?thesis by (auto simp: client_tool_def split: if_splits)
  qed
qed auto

lemma scan_children_namespaces:
  "scan_children cs = Some ns \<Longrightarrow> d \<in> set ns \<Longrightarrow> dget d ''type'' = PStr ''namespace''"
  by (induction cs arbitrary: ns rule: scan_children.induct) (auto split: option.splits if_splits)

definition client_below :: "pydict \<Rightarrow> bool" where
  "client_below d = (client_tool d \<and> (\<forall>c. nested d c \<longrightarrow> client_tool c))"

lemma client_below_namespace:
  assumes "dget d ''type'' = PStr ''namespace''" "client_tool d" "dget d ''tools'' = PList cs"
    "scan_children cs = Some ns" "\<forall>b \<in> set ns. client_below b"
  shows "client_below d"
  unfolding client_below_def
proof (intro conjI allI impI)
  fix c assume "nested d c"
  then obtain b where b: "child_of d b" "b = c \<or> nested b c" by (metis tranclpD rtranclpD)
  then have "PDict b \<in> set cs" using assms(3) by (auto elim: child_ofE)
  from scan_children_sound[OF assms(4) this] show "client_tool c"
  proof
    assume "dget b ''type'' = PStr ''namespace'' \<and> b \<in> set ns"
    then show ?thesis using assms(5) b(2) by (auto simp: client_below_def)
  next
    assume other: "dget b ''type'' \<noteq> PStr ''namespace'' \<and> client_tool b"
    then have "\<not> child_of b e" for e by (auto elim: child_ofE)
    then have "\<not> nested b c" by (metis tranclpD)
    then show ?thesis using b(2) other by simp
  qed
qed (rule assms(2))

lemma namespace_walk_sound:
  assumes "namespace_walk stack n" "\<forall>(d, _) \<in> set stack. dget d ''type'' = PStr ''namespace''"
  shows "\<forall>(d, _) \<in> set stack. client_below d"
  using assms
proof (induction stack n rule: namespace_walk.induct)
  case (1 n)
  then show ?case by simp
next
  case (2 ns depth stack n)
  then obtain cs nested where
    ok: "client_declaration_control_markers ''namespace'' ns = []" "is_recognizable_client_tool_shape ''namespace'' ns"
    and cs: "dget ns ''tools'' = PList cs" "scan_children cs = Some nested" "\<not> 16 < n + length cs" "\<not> 4 < depth"
    and walk: "namespace_walk (rev (map (\<lambda>d. (d, Suc depth)) nested) @ stack) (n + length cs)"
    by (auto split: if_splits pyval.splits option.splits)
  have types: "\<forall>(d, _) \<in> set (rev (map (\<lambda>d. (d, Suc depth)) nested) @ stack). dget d ''type'' = PStr ''namespace''"
    using 2(3) scan_children_namespaces[OF cs(2)] by auto
  have ih: "\<forall>(d, _) \<in> set (rev (map (\<lambda>d. (d, Suc depth)) nested) @ stack). client_below d"
    using 2(1)[of cs nested] ok cs walk types by simp
  have ty: "dget ns ''type'' = PStr ''namespace''" using 2(3) by simp
  then have "client_tool ns" using ok by (auto simp: client_tool_def client_tool_aliases_def)
  then have "client_below ns" using ih by (intro client_below_namespace[OF ty _ cs(1,2)]) auto
  then show ?case using ih by auto
qed

section \<open>Properties\<close>

text \<open>A declaration classified as client-operated carries no provider authority, however deeply it is
  nested: it and every declaration below it in its namespaces is one of the client tool types, has
  a recognizable shape, and has none of the keys that name a server, a connector or credentials.\<close>

theorem client_operated_has_no_authority:
  assumes "tc_authority_class (classify_tool_declaration (PDict d)) = ClientOperated"
    and "c = d \<or> nested d c"
  shows "\<exists>t \<in> set client_tool_aliases. dget c ''type'' = PStr t \<and> is_recognizable_client_tool_shape t c
    \<and> set (map fst c) \<inter> set provider_authority_markers = {}"
proof -
  from assms(1) obtain t where t: "dget d ''type'' = PStr t" "t \<in> set client_tool_aliases"
    and ok: "client_declaration_control_markers t d = []" "is_recognizable_client_tool_shape t d"
    and ns: "t = ''namespace'' \<longrightarrow> namespace_walk [(d, 1)] 0"
    unfolding classify_tool_declaration_def pyval.case Let_def
    by (auto simp: trimmed_name_def unknown_classification_def classify_wire_mcp_def external_classification_def
        namespace_children_are_client_operated_def Let_def split: if_splits option.splits)
  have d: "client_tool d" using t ok by (auto simp: client_tool_def)
  have "client_below d"
  proof (cases "t = ''namespace''")
    case True
    then show ?thesis using ns namespace_walk_sound[of "[(d, 1)]" 0] t(1) by simp
  next
    case False
    then have "\<not> child_of d e" for e using t(1) by (auto elim: child_ofE)
    then have "\<not> nested d e" for e by (metis tranclpD)
    then show ?thesis using d by (simp add: client_below_def)
  qed
  then have "client_tool c" using assms(2) d by (auto simp: client_below_def)
  then show ?thesis
    by (auto simp: client_tool_def client_declaration_control_markers_def declaration_control_markers_def
        filter_empty_conv)
qed

definition sample_namespace :: pydict where
  "sample_namespace =
     [(''type'', PStr ''namespace''), (''name'', PStr ''ns''),
      (''tools'', PList [PDict [(''type'', PStr ''function''), (''name'', PStr ''f'')],
        PDict [(''type'', PStr ''namespace''), (''name'', PStr ''inner''),
               (''tools'', PList [PDict [(''type'', PStr ''local_shell'')]])]])]"

theorem client_operated_has_no_authority_witness:
  "nested sample_namespace [(''type'', PStr ''local_shell'')]
   \<and> tc_authority_class (classify_tool_declaration (PDict sample_namespace)) = ClientOperated
   \<and> (\<exists>t \<in> set client_tool_aliases. dget [(''type'', PStr ''local_shell'')] ''type'' = PStr t)"
proof -
  let ?inner = "[(''type'', PStr ''namespace''), (''name'', PStr ''inner''),
               (''tools'', PList [PDict [(''type'', PStr ''local_shell'')]])]"
  have "child_of sample_namespace ?inner" by (rule child_of.intros) (simp add: sample_namespace_def, simp add: sample_namespace_def, simp)
  moreover have "child_of ?inner [(''type'', PStr ''local_shell'')]" by (rule child_of.intros) (simp, simp, simp)
  ultimately have n: "nested sample_namespace [(''type'', PStr ''local_shell'')]"
    by (rule tranclp.trancl_into_trancl[OF tranclp.r_into_trancl])
  have c: "tc_authority_class (classify_tool_declaration (PDict sample_namespace)) = ClientOperated"
    by code_simp
  from client_operated_has_no_authority[OF c disjI2[OF n]] n c show ?thesis by blast
qed

lemma deny_refused: "\<not> ad_allowed (deny r)"
  by (simp add: decision_def)

lemma allowed_if: "ad_allowed (if b then deny r else y) \<longleftrightarrow> \<not> b \<and> ad_allowed y"
  by (simp add: deny_refused)

lemma decide_allowed_elim:
  assumes "d = decide_external_tool_admission request kres rres oc limits" "ad_allowed d"
    "has_external_authority request"
  obtains key route where "pp_policy kres = Some key" "pp_valid kres" "pp_policy rres = Some route" "pp_valid rres"
    "d = decide_with_policies request key route oc limits"
    "\<not> cr_unknown_external_authority request" "\<not> cr_unreviewed_external_authority request"
    "\<not> cr_unsupported_external_state request" "cr_approval_floor_satisfied request"
proof -
  have a: "ad_allowed (decide_external_tool_admission request kres rres oc limits)" using assms by simp
  obtain key where k: "pp_policy kres = Some key"
    using a assms(3) by (cases "pp_policy kres") (simp_all only: decide_external_tool_admission_def allowed_if deny_refused option.case if_False simp_thms)
  obtain route where r: "pp_policy rres = Some route"
    using a assms(3) by (cases "pp_policy rres") (simp_all only: decide_external_tool_admission_def allowed_if deny_refused k option.case if_False simp_thms)
  note g = a[unfolded decide_external_tool_admission_def k r option.case, simplified assms(3) allowed_if deny_refused if_False simp_thms]
  have "d = decide_with_policies request key route oc limits"
    unfolding assms(1) decide_external_tool_admission_def k r option.case using assms(3) g by (simp only: if_True if_False simp_thms)
  then show ?thesis using g by (intro that[OF k _ r]) blast+
qed

lemma allowed_external:
  assumes "d = decide_external_tool_admission request kres rres oc limits" "ad_allowed d"
    "has_external_authority request"
  obtains key route where "pp_policy kres = Some key" "pp_valid kres" "pp_policy rres = Some route" "pp_valid rres"
    "\<not> cr_unknown_external_authority request" "\<not> cr_unreviewed_external_authority request"
    "\<not> cr_unsupported_external_state request" "cr_approval_floor_satisfied request"
    "d = decision True ExternalToolFenced
       (min (min (kp_max_provider_tool_calls_per_request key) (rp_max_provider_tool_calls_per_request route))
          (oc_max_provider_tool_calls_per_request oc)) ''external_tool_fenced_allowed''"
    "set (cr_capabilities request) \<subseteq> set (kp_allowed_capabilities key) \<inter> set (rp_supported_capabilities route)"
    "set (cr_destination_ids request) \<subseteq> set (kp_allowed_destination_ids key) \<inter> set (rp_approved_destination_ids route)"
    "cr_requested_provider_tool_calls_per_request request
       \<le> min (min (kp_max_provider_tool_calls_per_request key) (rp_max_provider_tool_calls_per_request route))
          (oc_max_provider_tool_calls_per_request oc)"
    "kp_single_request_overrun_acknowledged key" "kl_key_purpose limits = StandardPurpose" "positive_limits limits"
proof -
  have deny: "\<not> ad_allowed (deny r)" for r by (simp add: decision_def)
  from assms obtain key route where
    k: "pp_policy kres = Some key" "pp_valid kres" "pp_policy rres = Some route" "pp_valid rres"
    and d: "d = decide_with_policies request key route oc limits"
    and r: "\<not> cr_unknown_external_authority request" "\<not> cr_unreviewed_external_authority request"
      "\<not> cr_unsupported_external_state request" "cr_approval_floor_satisfied request"
    by (rule decide_allowed_elim)
  let ?cap = "min (min (kp_max_provider_tool_calls_per_request key) (rp_max_provider_tool_calls_per_request route))
     (oc_max_provider_tool_calls_per_request oc)"
  have "d = decision True ExternalToolFenced ?cap ''external_tool_fenced_allowed''
    \<and> set (cr_capabilities request) \<subseteq> set (kp_allowed_capabilities key) \<inter> set (rp_supported_capabilities route)
    \<and> set (cr_destination_ids request) \<subseteq> set (kp_allowed_destination_ids key) \<inter> set (rp_approved_destination_ids route)
    \<and> \<not> ?cap < cr_requested_provider_tool_calls_per_request request
    \<and> kp_single_request_overrun_acknowledged key \<and> kl_key_purpose limits = StandardPurpose \<and> positive_limits limits"
    using assms(2) unfolding d decide_with_policies_def Let_def by (simp add: deny split: if_splits)
  then show ?thesis by (intro that[OF k r]) auto
qed

text \<open>C25: An external-tool admission is sound.  When the decision allows a request that has external
  authority, the mode is the fenced one with all four obligations, the authority is known, reviewed
  and supported, every capability and destination of the request is granted by the key's and by the
  route's policy, the requested calls are within the key's, the route's and the operator's
  ceilings, the key is a standard one with positive limits, and its owner acknowledged the
  overrun.\<close>

theorem external_admission_sound:
  assumes "d = decide_external_tool_admission request kres rres oc limits"
    and "ad_allowed d" and "has_external_authority request"
  shows "\<exists>key route. pp_policy kres = Some key \<and> pp_policy rres = Some route \<and> pp_valid kres \<and> pp_valid rres
    \<and> ad_quota_mode d = ExternalToolFenced \<and> ad_exclusive_key_fence_required d \<and> ad_single_request_overrun_accepted d
    \<and> ad_hold_on_missing_or_ambiguous_final_cost d \<and> ad_following_requests_block_after_exhaustion d
    \<and> \<not> cr_unknown_external_authority request \<and> \<not> cr_unreviewed_external_authority request
    \<and> \<not> cr_unsupported_external_state request \<and> cr_approval_floor_satisfied request
    \<and> set (cr_capabilities request) \<subseteq> set (kp_allowed_capabilities key) \<inter> set (rp_supported_capabilities route)
    \<and> set (cr_destination_ids request) \<subseteq> set (kp_allowed_destination_ids key) \<inter> set (rp_approved_destination_ids route)
    \<and> cr_requested_provider_tool_calls_per_request request \<le> ad_effective_tool_call_cap d
    \<and> ad_effective_tool_call_cap d \<le> kp_max_provider_tool_calls_per_request key
    \<and> ad_effective_tool_call_cap d \<le> rp_max_provider_tool_calls_per_request route
    \<and> ad_effective_tool_call_cap d \<le> oc_max_provider_tool_calls_per_request oc
    \<and> kp_single_request_overrun_acknowledged key \<and> kl_key_purpose limits = StandardPurpose \<and> positive_limits limits"
  by (rule allowed_external[OF assms]) (auto simp: decision_def)

definition sample_key_policy :: key_policy where
  "sample_key_policy =
     \<lparr>kp_version = 1, kp_mode = ExternalToolFenced, kp_allowed_capabilities = [''provider_web_search''],
      kp_allowed_destination_ids = [], kp_max_provider_tool_calls_per_request = 3,
      kp_single_request_overrun_acknowledged = True\<rparr>"

definition sample_route_policy :: route_policy where
  "sample_route_policy =
     \<lparr>rp_version = 1, rp_supported_capabilities = [''provider_web_search''], rp_approved_destination_ids = [],
      rp_max_provider_tool_calls_per_request = 5, rp_call_limit_enforced = True, rp_final_usage_required = True,
      rp_final_cost_required = True\<rparr>"

definition sample_tool_request :: classified_request where
  "sample_tool_request =
     \<lparr>cr_capabilities = [''provider_web_search''], cr_destination_ids = [],
      cr_provider_tool_declaration_count = 1, cr_requested_provider_tool_calls_per_request = 2,
      cr_unknown_external_authority = False, cr_unreviewed_external_authority = False,
      cr_unsupported_external_state = False, cr_approval_floor_satisfied = True\<rparr>"

definition sample_limits :: key_limit_facts where
  "sample_limits = \<lparr>kl_key_purpose = StandardPurpose, kl_request_limit_total = Some 5,
     kl_token_limit_total = Some 1000, kl_cost_limit_eur = Some 10\<rparr>"

definition sample_tool_decision :: admission_decision where
  "sample_tool_decision =
     decide_external_tool_admission sample_tool_request
       (parse_key_external_tool_policy (PDict (key_policy_to_metadata sample_key_policy)) default_ceilings)
       (parse_route_external_tool_policy (PDict (route_policy_to_metadata sample_route_policy)) default_ceilings)
       default_ceilings sample_limits"

lemma sample_policies_ok:
  "key_policy_ok default_ceilings sample_key_policy" "route_policy_ok default_ceilings sample_route_policy"
  by (simp_all add: key_policy_ok_def route_policy_ok_def sample_key_policy_def sample_route_policy_def
      canonical_list_def known_external_capabilities_def default_ceilings_def destinations_match_capabilities_def)

lemma sample_tool_decision_allowed: "ad_allowed sample_tool_decision"
  by code_simp

theorem external_admission_sound_witness:
  "ad_allowed sample_tool_decision \<and> ad_quota_mode sample_tool_decision = ExternalToolFenced"
proof -
  have "has_external_authority sample_tool_request" by (simp add: has_external_authority_def sample_tool_request_def)
  from external_admission_sound[OF sample_tool_decision_def sample_tool_decision_allowed this]
  show ?thesis using sample_tool_decision_allowed by blast
qed

lemma alias_capability_known:
  "map_of provider_tool_alias_to_capability t = Some c \<Longrightarrow> c \<in> set known_external_capabilities"
  by (auto simp: provider_tool_alias_to_capability_def known_external_capabilities_def split: if_splits)

lemma mcp_capabilities_known:
  "''provider_connector'' \<in> set known_external_capabilities" "''provider_remote_mcp'' \<in> set known_external_capabilities"
  by (simp_all add: known_external_capabilities_def)

lemma classify_wire_mcp_cases:
  "tc_authority_class (classify_wire_mcp d) = ProviderExternal
     \<Longrightarrow> \<exists>c \<in> set known_external_capabilities. tc_capability_id (classify_wire_mcp d) = Some c"
  using mcp_capabilities_known
  by (auto simp: classify_wire_mcp_def unknown_classification_def external_classification_def Let_def split: if_splits)

lemma classification_cases:
  assumes "tc_authority_class (classify_tool_declaration v) = ProviderExternal"
  shows "\<exists>c \<in> set known_external_capabilities. tc_capability_id (classify_tool_declaration v) = Some c"
proof (cases v)
  case (PDict d)
  let ?t = "the (str_of (dget d ''type''))"
  have no: "tc_authority_class (unknown_classification b r) \<noteq> ProviderExternal"
    "tc_authority_class (client_classification r) \<noteq> ProviderExternal" for b r
    by (simp_all add: unknown_classification_def client_classification_def)
  from assms have "trimmed_name (dget d ''type'') \<and> ?t \<notin> set client_tool_aliases"
    unfolding PDict classify_tool_declaration_def pyval.case Let_def by (auto simp: no split: if_splits)
  then have eq: "classify_tool_declaration v = (if ?t = ''mcp'' then classify_wire_mcp d
      else case map_of provider_tool_alias_to_capability ?t of
             Some capability \<Rightarrow> if declaration_control_markers d \<noteq> []
               then unknown_classification True ''malformed_provider_tool_authority''
               else external_classification capability None True False ''provider_external_tool''
           | None \<Rightarrow> unknown_classification True ''unknown_tool_type'')"
    unfolding PDict classify_tool_declaration_def pyval.case Let_def by simp
  show ?thesis
    using assms classify_wire_mcp_cases[of d] unfolding eq
    by (auto simp: no external_classification_def dest: alias_capability_known split: if_splits option.splits)
qed (use assms in \<open>simp_all add: classify_tool_declaration_def unknown_classification_def\<close>)

lemma choice_cases:
  "tc_authority_class (classify_tool_choice v) = ProviderExternal
     \<Longrightarrow> \<exists>c \<in> set known_external_capabilities. tc_capability_id (classify_tool_choice v) = Some c"
  unfolding classify_tool_choice_def
  by (auto simp: unknown_classification_def client_classification_def dest: classification_cases
      split: pyval.splits if_splits)

lemma set_map_filter: "set (List.map_filter f xs) = {y. \<exists>x \<in> set xs. f x = Some y}"
  by (force simp: List.map_filter_def)

lemma classified_request_facts:
  assumes "classify_external_tool_request tools choice web search_model url_fetch reviewed calls state approval = Inr r"
    and "xs = request_classifications tools choice web search_model url_fetch reviewed state approval"
  shows "set (cr_capabilities r) = {x \<in> set known_external_capabilities. \<exists>c \<in> set xs. tc_capability_id c = Some x}"
    and "(\<exists>c \<in> set xs. tc_authority_class c = UnknownExternal) \<Longrightarrow> cr_unknown_external_authority r"
proof -
  have e: "cr_capabilities r = sort (remdups (filter (\<lambda>c. c \<in> set known_external_capabilities)
      (List.map_filter tc_capability_id xs)))
    \<and> (list_ex (\<lambda>c. tc_authority_class c = UnknownExternal) xs \<longrightarrow> cr_unknown_external_authority r)"
    using assms(1) unfolding classify_external_tool_request_def Let_def assms(2) sbind_eq_Inr
    by (elim exE conjE) (simp only: sum.inject, erule subst, simp)
  then show "set (cr_capabilities r) = {x \<in> set known_external_capabilities. \<exists>c \<in> set xs. tc_capability_id c = Some x}"
    by (auto simp: set_map_filter)
  from e show "(\<exists>c \<in> set xs. tc_authority_class c = UnknownExternal) \<Longrightarrow> cr_unknown_external_authority r"
    by (simp add: list_ex_iff)
qed

text \<open>C27: Nothing but a client-operated tool passes without the fence: when some declared tool of the
  request, or its tool choice, is not client-operated (a provider tool, an MCP server, or anything
  unknown or malformed), the request is denied or allowed only in the fenced mode; and when one is
  unknown it is denied.\<close>

theorem tools_fail_closed:
  assumes "classify_external_tool_request (PList ts) choice web search_model url_fetch reviewed calls state approval = Inr r"
    and "c = classify_tool_choice choice \<or> (\<exists>t \<in> set ts. c = classify_tool_declaration t)"
    and "tc_authority_class c \<noteq> ClientOperated"
    and "d = decide_external_tool_admission r kres rres oc limits"
  shows "(ad_allowed d \<longrightarrow> ad_quota_mode d = ExternalToolFenced \<and> ad_exclusive_key_fence_required d)
    \<and> (tc_authority_class c = UnknownExternal \<longrightarrow> \<not> ad_allowed d)"
proof -
  define xs where "xs = request_classifications (PList ts) choice web search_model url_fetch reviewed state approval"
  note facts = classified_request_facts[OF assms(1) xs_def]
  have "tc_authority_class c = ProviderExternal \<longrightarrow> (\<exists>x \<in> set known_external_capabilities. tc_capability_id c = Some x)"
    using assms(2) classification_cases choice_cases by auto
  moreover have c: "c \<in> set xs" if "tc_authority_class c = UnknownExternal \<or> tc_capability_id c \<noteq> None"
    using assms(2) that by (auto simp: xs_def request_classifications_def Let_def)
  moreover have "tc_authority_class c = ProviderExternal \<or> tc_authority_class c = UnknownExternal"
    using assms(3) by (cases "tc_authority_class c") auto
  ultimately have ext: "has_external_authority r" "tc_authority_class c = UnknownExternal \<Longrightarrow> cr_unknown_external_authority r"
    using facts by (fastforce simp: has_external_authority_def)+
  have "ad_quota_mode d = ExternalToolFenced \<and> ad_exclusive_key_fence_required d \<and> \<not> cr_unknown_external_authority r"
    if "ad_allowed d"
    by (rule allowed_external[OF assms(4) that ext(1)]) (simp add: decision_def)
  then show ?thesis using ext(2) by blast
qed

definition sample_tools :: "pyval list" where
  "sample_tools = [PDict [(''type'', PStr ''function''), (''name'', PStr ''f'')],
                   PDict [(''type'', PStr ''web_search'')]]"

definition sample_classified :: "classified_request result" where
  "sample_classified = classify_external_tool_request (PList sample_tools) PNone (PBool False) (PBool False) (PBool False)
     [] (PInt 2) (PBool False) (PBool True)"

theorem tools_fail_closed_witness:
  "\<exists>r. sample_classified = Inr r
     \<and> tc_authority_class (classify_tool_declaration (sample_tools ! 1)) = ProviderExternal
     \<and> (let d = decide_external_tool_admission r
           (parse_key_external_tool_policy (PDict (key_policy_to_metadata sample_key_policy)) default_ceilings)
           (parse_route_external_tool_policy (PDict (route_policy_to_metadata sample_route_policy)) default_ceilings)
           default_ceilings sample_limits
        in ad_allowed d \<and> ad_quota_mode d = ExternalToolFenced)"
proof -
  have r: "sample_classified = Inr sample_tool_request" by code_simp
  have c: "tc_authority_class (classify_tool_declaration (sample_tools ! 1)) = ProviderExternal" by code_simp
  have m: "sample_tools ! 1 \<in> set sample_tools" by (simp add: sample_tools_def)
  from c have "tc_authority_class (classify_tool_declaration (sample_tools ! 1)) \<noteq> ClientOperated" by simp
  from tools_fail_closed[OF r[unfolded sample_classified_def] disjI2[OF bexI[OF refl m]] this sample_tool_decision_def]
  have "ad_quota_mode sample_tool_decision = ExternalToolFenced" using sample_tool_decision_allowed by blast
  then show ?thesis
    using r c sample_tool_decision_allowed unfolding sample_tool_decision_def Let_def by blast
qed

text \<open>A stored policy is canonical and survives being written and read again: parsing accepts only
  sorted, duplicate-free lists of known capabilities and normalized destinations within the
  operator's ceilings, with the requirements of its mode, and parsing the metadata of an accepted
  policy yields the same policy.\<close>

theorem key_policy_roundtrip:
  assumes "v \<noteq> PNone" and "pp_policy (parse_key_external_tool_policy v oc) = Some p"
  shows "key_policy_ok oc p
    \<and> pp_policy (parse_key_external_tool_policy (PDict (key_policy_to_metadata p)) oc) = Some p"
  using parse_key_policy_ok[OF assms(2,1)] print_parse_key_policy by blast

theorem key_policy_roundtrip_witness:
  "key_policy_ok default_ceilings sample_key_policy
   \<and> pp_policy (parse_key_external_tool_policy (PDict (key_policy_to_metadata sample_key_policy)) default_ceilings)
     = Some sample_key_policy"
  by (rule key_policy_roundtrip[of "PDict (key_policy_to_metadata sample_key_policy)"])
     (simp_all add: print_parse_key_policy sample_policies_ok)

text \<open>The same holds of the policy stored with a route.\<close>

theorem route_policy_roundtrip:
  assumes "v \<noteq> PNone" and "pp_policy (parse_route_external_tool_policy v oc) = Some p"
  shows "route_policy_ok oc p
    \<and> pp_policy (parse_route_external_tool_policy (PDict (route_policy_to_metadata p)) oc) = Some p"
  using parse_route_policy_ok[OF assms(2,1)] print_parse_route_policy by blast

theorem route_policy_roundtrip_witness:
  "route_policy_ok default_ceilings sample_route_policy
   \<and> pp_policy (parse_route_external_tool_policy (PDict (route_policy_to_metadata sample_route_policy)) default_ceilings)
     = Some sample_route_policy"
  by (rule route_policy_roundtrip[of "PDict (route_policy_to_metadata sample_route_policy)"])
     (simp_all add: print_parse_route_policy sample_policies_ok)

end
