(* ===== verification/Fence.thy ===== *)
theory Fence
  imports Quota ToolPolicy
begin

text \<open>
  \<open>services/external_tool_fence.py\<close> with the types of \<open>schemas/external_tool_fence.py\<close>: a
  request that uses provider-hosted tools takes the whole remaining balance of its key in one
  reservation and closes the key with a fence; the fence is lifted only from terminal evidence.

  The admission decision of the input is \<open>None\<close> when the object is not an
  \<open>ExternalToolAdmissionDecision\<close>.  \<open>resolve\<close> reads the key once without a lock and again under
  the row lock; another transaction may commit in between, so the model takes the state of the
  first read (\<open>db0\<close>) and the state under the locks (\<open>db\<close>).  A text argument is \<open>None\<close> when it is
  not a string.

  Shown: an acquisition takes exactly what was left and excludes every other reservation, a retry
  changes nothing, a fence is lifted only when its reservation is settled, recorded once and the
  counters are zero, and a settled and recorded one can always be lifted.
\<close>

section \<open>Data\<close>

record fence_route_facts =
  fr_endpoint :: string
  fr_requested_model :: string
  fr_provider :: string
  fr_route_id :: uuid

record fence_acquire_input =
  fa_gateway_key_id :: uuid
  fa_request_id :: string
  fa_route :: fence_route_facts
  fa_capabilities :: "string list"
  fa_destination_ids :: "string list"
  fa_decision :: "admission_decision option"
  fa_now :: pydatetime
  fa_ttl :: int

record fence_result =
  fe_gateway_key_id :: uuid
  fe_request_id :: string
  fe_reservation_id :: uuid
  fe_fence_state :: fence_state
  fe_reserved_cost_eur :: decimal
  fe_reserved_tokens :: int
  fe_reserved_requests :: int
  fe_acquired_at :: "pydatetime option"
  fe_expires_at :: "pydatetime option"
  fe_capabilities :: "string list"
  fe_destination_ids :: "string list"
  fe_idempotent :: bool

record fence_projection =
  fp_gateway_key_id :: uuid
  fp_fence_state :: fence_state
  fp_reservation_id :: "uuid option"
  fp_request_id :: "string option"
  fp_acquired_at :: "pydatetime option"
  fp_expires_at :: "pydatetime option"

record fence_resolve_input =
  fi_gateway_key_id :: uuid
  fi_request_id :: string

record fence_resolve_result =
  fv_gateway_key_id :: uuid
  fv_fence_state :: fence_state
  fv_resolved :: bool

section \<open>Validation\<close>

definition validate_ttl :: "int \<Rightarrow> int result" where
  "validate_ttl ttl =
     sbind (ensure (0 < ttl) (InvalidExternalToolFenceInputError ''external_tool_fence_ttl_invalid'')) (\<lambda>_. Inr ttl)"

text \<open>The common body of the four text checks; each has its own error code.\<close>

definition bounded_text :: "string \<Rightarrow> string option \<Rightarrow> string result" where
  "bounded_text code value =
     sbind (the_or_raise value (InvalidExternalToolFenceInputError code)) (\<lambda>s.
     sbind (ensure (py_strip s \<noteq> []) (InvalidExternalToolFenceInputError code)) (\<lambda>_.
     sbind (ensure (length s \<le> 255 \<and> \<not> list_ex (\<lambda>c. char_code c < 32) s)
              (InvalidExternalToolFenceInputError code)) (\<lambda>_.
     Inr s)))"

definition validate_request_id :: "string option \<Rightarrow> string result" where
  "validate_request_id = bounded_text ''external_tool_fence_request_id_invalid''"

definition validate_requested_model :: "string option \<Rightarrow> string result" where
  "validate_requested_model = bounded_text ''external_tool_fence_model_invalid''"

definition validate_provider :: "string option \<Rightarrow> string result" where
  "validate_provider = bounded_text ''external_tool_fence_provider_invalid''"

definition validate_endpoint :: "string option \<Rightarrow> string result" where
  "validate_endpoint = bounded_text ''external_tool_fence_endpoint_invalid''"

definition validate_capabilities :: "string list \<Rightarrow> string list result" where
  "validate_capabilities capabilities =
     sbind (ensure (capabilities \<noteq> [])
       (InvalidExternalToolFenceInputError ''external_tool_fence_capabilities_empty'')) (\<lambda>_.
     sbind (ensure (list_all (\<lambda>c. c \<in> set known_external_capabilities) capabilities)
       (InvalidExternalToolFenceInputError ''external_tool_fence_capability_unknown'')) (\<lambda>_.
     sbind (ensure (distinct capabilities)
       (InvalidExternalToolFenceInputError ''external_tool_fence_capability_duplicate'')) (\<lambda>_.
     sbind (ensure (int (length capabilities) \<le> oc_max_distinct_capabilities default_ceilings)
       (InvalidExternalToolFenceInputError ''external_tool_fence_capabilities_over_ceiling'')) (\<lambda>_.
     Inr (sort (remdups capabilities))))))"

definition validate_destination_ids :: "string list \<Rightarrow> string list \<Rightarrow> string list result" where
  "validate_destination_ids destinations capabilities =
     sbind (ensure (list_all (\<lambda>d. destination_match d \<noteq> None) destinations)
       (InvalidExternalToolFenceInputError ''external_tool_fence_destination_malformed'')) (\<lambda>_.
     sbind (ensure (distinct destinations)
       (InvalidExternalToolFenceInputError ''external_tool_fence_destination_duplicate'')) (\<lambda>_.
     sbind (ensure (int (length destinations) \<le> oc_max_approved_destinations default_ceilings)
       (InvalidExternalToolFenceInputError ''external_tool_fence_destinations_over_ceiling'')) (\<lambda>_.
     sbind (ensure (list_all (\<lambda>d. (if destination_kind d = Some ''connector'' then ''provider_connector''
                                     else ''provider_remote_mcp'') \<in> set capabilities) destinations)
       (InvalidExternalToolFenceInputError ''external_tool_fence_destination_capability_mismatch'')) (\<lambda>_.
     Inr (sort (remdups destinations))))))"

definition validate_decision :: "admission_decision option \<Rightarrow> admission_decision result" where
  "validate_decision decision_input =
     sbind (the_or_raise decision_input
       (InvalidExternalToolFenceInputError ''external_tool_fence_decision_type'')) (\<lambda>d.
     sbind (ensure (ad_allowed d)
       (InvalidExternalToolFenceInputError ''external_tool_fence_decision_denied'')) (\<lambda>_.
     sbind (ensure (ad_quota_mode d = ExternalToolFenced)
       (InvalidExternalToolFenceInputError ''external_tool_fence_decision_not_fenced'')) (\<lambda>_.
     sbind (ensure (0 < ad_effective_tool_call_cap d)
       (InvalidExternalToolFenceInputError ''external_tool_fence_decision_call_cap'')) (\<lambda>_.
     sbind (ensure (ad_reason_code d = ''external_tool_fenced_allowed'')
       (InvalidExternalToolFenceInputError ''external_tool_fence_decision_reason'')) (\<lambda>_.
     sbind (ensure (ad_exclusive_key_fence_required d \<and> ad_single_request_overrun_accepted d
                    \<and> ad_hold_on_missing_or_ambiguous_final_cost d \<and> ad_following_requests_block_after_exhaustion d)
       (InvalidExternalToolFenceInputError ''external_tool_fence_decision_obligations'')) (\<lambda>_.
     Inr d))))))"

definition require_positive_finite_limits :: "gateway_key \<Rightarrow> unit result" where
  "require_positive_finite_limits k =
     sbind (ensure (case gk_cost_limit_eur k of None \<Rightarrow> False | Some l \<Rightarrow> 0 < l)
       (InvalidExternalToolFenceInputError ''external_tool_fence_cost_limit'')) (\<lambda>_.
     sbind (ensure (case gk_token_limit_total k of None \<Rightarrow> False | Some l \<Rightarrow> 0 < l)
       (InvalidExternalToolFenceInputError ''external_tool_fence_token_limit'')) (\<lambda>_.
     ensure (case gk_request_limit_total k of None \<Rightarrow> False | Some l \<Rightarrow> 0 < l)
       (InvalidExternalToolFenceInputError ''external_tool_fence_request_limit'')))"

definition validate_key_for_fence :: "gateway_key \<Rightarrow> pydatetime \<Rightarrow> unit result" where
  "validate_key_for_fence k now =
     sbind (ensure (gk_status k = KeyActive)
       (InvalidExternalToolFenceInputError ''external_tool_fence_key_not_active'')) (\<lambda>_.
     sbind (ensure (gk_key_purpose k = StandardPurpose)
       (InvalidExternalToolFenceInputError ''external_tool_fence_key_not_standard'')) (\<lambda>_.
     sbind (ensure (is_aware (gk_valid_from k) \<and> is_aware (gk_valid_until k))
       (InvalidExternalToolFenceInputError ''external_tool_fence_invalid_window'')) (\<lambda>_.
     sbind (ensure (micros (gk_valid_from k) \<le> micros now \<and> micros now < micros (gk_valid_until k))
       (InvalidExternalToolFenceInputError ''external_tool_fence_invalid_window'')) (\<lambda>_.
     require_positive_finite_limits k))))"

definition validate_stored_fenced_policy ::
  "gateway_key \<Rightarrow> string list \<Rightarrow> string list \<Rightarrow> admission_decision \<Rightarrow> unit result" where
  "validate_stored_fenced_policy k capabilities destinations d =
     (let parsed = parse_key_external_tool_policy (dget (gk_metadata_json k) ''external_tool_policy'') default_ceilings in
     sbind (ensure (pp_valid parsed)
       (InvalidExternalToolFenceInputError ''external_tool_fence_policy_invalid'')) (\<lambda>_.
     sbind (the_or_raise (pp_policy parsed)
       (InvalidExternalToolFenceInputError ''external_tool_fence_policy_invalid'')) (\<lambda>p.
     sbind (ensure (kp_mode p = ExternalToolFenced)
       (InvalidExternalToolFenceInputError ''external_tool_fence_policy_not_fenced'')) (\<lambda>_.
     sbind (ensure (set capabilities \<subseteq> set (kp_allowed_capabilities p))
       (InvalidExternalToolFenceInputError ''external_tool_fence_capability_not_permitted'')) (\<lambda>_.
     sbind (ensure (set destinations \<subseteq> set (kp_allowed_destination_ids p))
       (InvalidExternalToolFenceInputError ''external_tool_fence_destination_not_permitted'')) (\<lambda>_.
     ensure (ad_effective_tool_call_cap d \<le> kp_max_provider_tool_calls_per_request p)
       (InvalidExternalToolFenceInputError ''external_tool_fence_decision_call_cap_over_ceiling'')))))))"

definition reject_existing_key_exposure :: "gateway_key \<Rightarrow> db \<Rightarrow> unit result" where
  "reject_existing_key_exposure k db =
     sbind (ensure (list_reservations_for_key (gk_id k) (Some Pending) 100 0 db = [])
       (ExternalToolFenceOccupiedError ''external_tool_fence_pending_reservation'')) (\<lambda>_.
     ensure (gk_cost_reserved_eur k = 0 \<and> gk_tokens_reserved_total k = 0 \<and> gk_requests_reserved_total k = 0)
       (ExternalToolFenceOccupiedError ''external_tool_fence_counters_nonzero''))"

definition reservation_matches ::
  "quota_reservation \<Rightarrow> uuid \<Rightarrow> string \<Rightarrow> fence_route_facts \<Rightarrow> string list \<Rightarrow> string list \<Rightarrow> bool" where
  "reservation_matches r kid req route capabilities destinations =
     (qr_gateway_key_id r = kid \<and> qr_request_id r = req \<and> qr_endpoint r = fr_endpoint route
      \<and> qr_requested_model r = Some (fr_requested_model route)
      \<and> qr_ext_provider r = Some (fr_provider route) \<and> qr_ext_route_id r = Some (fr_route_id route)
      \<and> qr_capabilities r = capabilities \<and> qr_destination_ids r = destinations
      \<and> qr_quota_mode r = ExternalToolFenced)"

definition validate_bound_route_facts :: "quota_reservation \<Rightarrow> unit result" where
  "validate_bound_route_facts r =
     (case sbind (validate_provider (qr_ext_provider r)) (\<lambda>_. validate_requested_model (qr_requested_model r)) of
        Inl _ \<Rightarrow> Inl (ExternalToolFenceInvariantError ''external_tool_fence_reservation_route_facts_invalid'')
      | Inr _ \<Rightarrow>
          ensure (qr_ext_route_id r \<noteq> None)
            (ExternalToolFenceInvariantError ''external_tool_fence_reservation_route_facts_invalid''))"

definition verify_reserved_counters_zero :: "gateway_key \<Rightarrow> unit result" where
  "verify_reserved_counters_zero k =
     ensure (gk_cost_reserved_eur k = 0 \<and> gk_tokens_reserved_total k = 0 \<and> gk_requests_reserved_total k = 0)
       (ExternalToolFenceInvariantError ''external_tool_fence_counters_inconsistent'')"

section \<open>Acquisition\<close>

definition projection_result :: "gateway_key \<Rightarrow> quota_reservation \<Rightarrow> bool \<Rightarrow> fence_result" where
  "projection_result k r idempotent =
     \<lparr>fe_gateway_key_id = gk_id k,
      fe_request_id = (case gk_fence_request_id k of
                         Some q \<Rightarrow> if q = [] then qr_request_id r else q | None \<Rightarrow> qr_request_id r),
      fe_reservation_id = qr_id r, fe_fence_state = gk_fence_state k,
      fe_reserved_cost_eur = qr_reserved_cost_eur r, fe_reserved_tokens = qr_reserved_tokens r,
      fe_reserved_requests = qr_reserved_requests r,
      fe_acquired_at = gk_fence_acquired_at k, fe_expires_at = gk_fence_expires_at k,
      fe_capabilities = qr_capabilities r, fe_destination_ids = qr_destination_ids r,
      fe_idempotent = idempotent\<rparr>"

text \<open>The branch for a key that already carries a fence: the same request again, or a refusal.\<close>

definition acquire_again ::
  "gateway_key \<Rightarrow> string \<Rightarrow> fence_route_facts \<Rightarrow> string list \<Rightarrow> string list \<Rightarrow> db \<Rightarrow> (db \<times> fence_result) result" where
  "acquire_again k req route capabilities destinations db =
     (case (gk_fence_state k, gk_fence_reservation_id k) of
        (FenceActive, Some rid) \<Rightarrow>
          if gk_fence_request_id k = Some req
          then
            sbind (the_or_raise (get_reservation_by_id rid db)
              (ExternalToolFenceInvariantError ''external_tool_fence_reservation_missing'')) (\<lambda>r.
            sbind (ensure (qr_gateway_key_id r = gk_id k)
              (ExternalToolFenceInvariantError ''external_tool_fence_reservation_key_mismatch'')) (\<lambda>_.
            sbind (ensure (qr_status r = Pending)
              (ExternalToolFenceInvariantError ''external_tool_fence_reservation_not_pending'')) (\<lambda>_.
            sbind (ensure (qr_quota_mode r = ExternalToolFenced)
              (ExternalToolFenceInvariantError ''external_tool_fence_reservation_not_fenced'')) (\<lambda>_.
            if reservation_matches r (gk_id k) req route capabilities destinations
            then Inr (db, projection_result k r True)
            else Inl (ExternalToolFenceConflictError ''external_tool_fence_conflict'')))))
          else Inl ExternalToolFenceActiveError
      | _ \<Rightarrow> Inl ExternalToolFenceActiveError)"

definition fence_reservation ::
  "pydatetime \<Rightarrow> uuid \<Rightarrow> uuid \<Rightarrow> string \<Rightarrow> fence_route_facts \<Rightarrow> string list \<Rightarrow> string list
     \<Rightarrow> pydatetime \<Rightarrow> decimal \<Rightarrow> int \<Rightarrow> quota_reservation" where
  "fence_reservation clock rid kid req route capabilities destinations expires_at cost tokens =
     (new_reservation rid clock kid req (fr_endpoint route) expires_at)
       \<lparr>qr_requested_model := Some (fr_requested_model route),
        qr_quota_mode := ExternalToolFenced, qr_capabilities := capabilities,
        qr_destination_ids := destinations, qr_ext_provider := Some (fr_provider route),
        qr_ext_route_id := Some (fr_route_id route), qr_reserved_cost_eur := cost,
        qr_reserved_tokens := tokens, qr_reserved_requests := 1, qr_status := Pending\<rparr>"

text \<open>What is left of each limit.\<close>

definition remaining_cost :: "gateway_key \<Rightarrow> decimal" where
  "remaining_cost k = dec_sub (dec_sub (the (gk_cost_limit_eur k)) (gk_cost_used_eur k)) (gk_cost_reserved_eur k)"

definition remaining_tokens :: "gateway_key \<Rightarrow> int" where
  "remaining_tokens k = the (gk_token_limit_total k) - gk_tokens_used_total k - gk_tokens_reserved_total k"

definition remaining_requests :: "gateway_key \<Rightarrow> int" where
  "remaining_requests k = the (gk_request_limit_total k) - gk_requests_used_total k - gk_requests_reserved_total k"

definition acquire_new ::
  "pydatetime \<Rightarrow> uuid \<Rightarrow> uuid \<Rightarrow> gateway_key \<Rightarrow> string \<Rightarrow> fence_route_facts \<Rightarrow> string list \<Rightarrow> string list
     \<Rightarrow> pydatetime \<Rightarrow> pydatetime \<Rightarrow> db \<Rightarrow> (db \<times> fence_result) result" where
  "acquire_new clock rid aid k req route capabilities destinations now expires_at db =
     sbind (reject_existing_key_exposure k db) (\<lambda>_.
     sbind (ensure (get_reservation_by_request_id req db = None)
       (ExternalToolFenceConflictError ''external_tool_fence_request_id_reused'')) (\<lambda>_.
     sbind (ensure (\<not> (remaining_requests k < 1 \<or> remaining_tokens k \<le> 0 \<or> remaining_cost k \<le> 0))
       ExternalToolFenceExhaustedError) (\<lambda>_.
     sbind (create_reservation
              (fence_reservation clock rid (gk_id k) req route capabilities destinations expires_at
                 (remaining_cost k) (remaining_tokens k)) db) (\<lambda>(db1, reservation).
     sbind (add_reserved_counters k (remaining_cost k) (remaining_tokens k) 1 db1) (\<lambda>(db2, k1).
     sbind (set_external_tool_fence k1 FenceActive (Some rid) (Some req) (Some now) (Some expires_at) db2) (\<lambda>(db3, k2).
     sbind (add_audit_log aid ''external_tool_fence_acquired'' ''gateway_key'' None (Some (gk_id k)) None None
              (Some req) (Some ''external tool fence acquired'') db3) (\<lambda>(db4, _).
     Inr (db4, projection_result k2 reservation False))))))))"

definition acquire ::
  "pydatetime \<Rightarrow> uuid \<Rightarrow> uuid \<Rightarrow> fence_acquire_input \<Rightarrow> db \<Rightarrow> (db \<times> fence_result) result" where
  "acquire clock rid aid i db =
     (let now = aware (fa_now i); route = fa_route i in
     sbind (validate_ttl (fa_ttl i)) (\<lambda>ttl.
     sbind (validate_request_id (Some (fa_request_id i))) (\<lambda>req.
     sbind (validate_endpoint (Some (fr_endpoint route))) (\<lambda>_.
     sbind (validate_requested_model (Some (fr_requested_model route))) (\<lambda>_.
     sbind (validate_provider (Some (fr_provider route))) (\<lambda>_.
     sbind (validate_capabilities (fa_capabilities i)) (\<lambda>capabilities.
     sbind (validate_destination_ids (fa_destination_ids i) capabilities) (\<lambda>destinations.
     sbind (validate_decision (fa_decision i)) (\<lambda>d.
     sbind (the_or_raise (get_gateway_key_by_id (fa_gateway_key_id i) db)
       (ExternalToolFenceInvariantError ''external_tool_fence_key_missing'')) (\<lambda>k.
     sbind (validate_key_for_fence k now) (\<lambda>_.
     sbind (validate_stored_fenced_policy k capabilities destinations d) (\<lambda>_.
     if gk_fence_state k \<in> {FenceActive, FenceHeld}
     then acquire_again k req route capabilities destinations db
     else acquire_new clock rid aid k req route capabilities destinations now (later now ttl) db))))))))))))"

section \<open>Resolution\<close>

definition not_resolved :: "fence_resolve_input \<Rightarrow> fence_state \<Rightarrow> fence_resolve_result" where
  "not_resolved i state = \<lparr>fv_gateway_key_id = fi_gateway_key_id i, fv_fence_state = state, fv_resolved = False\<rparr>"

text \<open>The evidence checks under the locks: reservation, ledger, counters.\<close>

definition resolution_evidence ::
  "fence_resolve_input \<Rightarrow> gateway_key \<Rightarrow> quota_reservation \<Rightarrow> db \<Rightarrow> unit result" where
  "resolution_evidence i k r db =
     sbind (ensure (qr_gateway_key_id r = gk_id k)
       (ExternalToolFenceInvariantError ''external_tool_fence_reservation_key_mismatch'')) (\<lambda>_.
     sbind (ensure (qr_request_id r = fi_request_id i)
       (ExternalToolFenceInvariantError ''external_tool_fence_reservation_request_mismatch'')) (\<lambda>_.
     sbind (ensure (qr_quota_mode r = ExternalToolFenced)
       (ExternalToolFenceInvariantError ''external_tool_fence_reservation_not_fenced'')) (\<lambda>_.
     sbind (validate_bound_route_facts r) (\<lambda>_.
     sbind (ensure (qr_status r \<in> {Finalized, Released})
       (ExternalToolFenceInvariantError ''external_tool_fence_reservation_not_terminal'')) (\<lambda>_.
     case get_usage_records_by_reservation_id (qr_id r) db of
       [l] \<Rightarrow>
         sbind (ensure (ul_gateway_key_id l = gk_id k)
           (ExternalToolFenceInvariantError ''external_tool_fence_ledger_key_mismatch'')) (\<lambda>_.
         sbind (ensure (ul_endpoint l = qr_endpoint r \<and> Some (ul_provider l) = qr_ext_provider r
                        \<and> ul_requested_model l = qr_requested_model r \<and> ul_request_id l = qr_request_id r)
           (ExternalToolFenceInvariantError ''external_tool_fence_ledger_facts_mismatch'')) (\<lambda>_.
         sbind (ensure (if qr_status r = Finalized
                        then ul_accounting_status l = LFinalized \<and> ul_success l \<noteq> None
                        else ul_accounting_status l = LFailed \<and> ul_success l = Some False)
           (ExternalToolFenceInvariantError ''external_tool_fence_ledger_mismatch'')) (\<lambda>_.
         verify_reserved_counters_zero k)))
     | _ \<Rightarrow> Inl (ExternalToolFenceInvariantError ''external_tool_fence_ledger_count''))))))"

definition resolve_locked ::
  "uuid \<Rightarrow> fence_resolve_input \<Rightarrow> bool \<Rightarrow> fence_state \<Rightarrow> uuid \<Rightarrow> gateway_key \<Rightarrow> quota_reservation \<Rightarrow> db
     \<Rightarrow> (db \<times> fence_resolve_result) result" where
  "resolve_locked aid i permit_held state rid k r db =
     (if permit_held \<and> (state \<noteq> FenceHeld \<or> gk_fence_state k \<noteq> FenceHeld)
      then if gk_fence_state k = FenceNone then Inr (db, not_resolved i FenceNone)
           else Inl (ExternalToolFenceConflictError ''external_tool_fence_held_state_changed'')
      else if state = FenceActive \<and> gk_fence_state k = FenceHeld \<and> \<not> permit_held
      then Inr (db, not_resolved i FenceHeld)
      else if gk_fence_state k \<notin> {FenceActive, FenceHeld} \<or> gk_fence_reservation_id k \<noteq> Some rid
              \<or> gk_fence_request_id k \<noteq> Some (fi_request_id i)
      then if gk_fence_state k = FenceNone then Inr (db, not_resolved i FenceNone)
           else if gk_fence_state k = FenceHeld \<and> (\<not> permit_held \<or> state \<noteq> FenceHeld)
           then Inr (db, not_resolved i FenceHeld)
           else Inl (ExternalToolFenceConflictError ''external_tool_fence_resolution_state_changed'')
      else
        sbind (resolution_evidence i k r db) (\<lambda>_.
        sbind (set_external_tool_fence k FenceNone None None None None db) (\<lambda>(db1, _).
        sbind (add_audit_log aid ''external_tool_fence_resolved'' ''gateway_key'' None (Some (gk_id k)) None None
                 (Some (fi_request_id i))
                 (Some ''external tool fence resolved from authoritative terminal evidence'') db1) (\<lambda>(db2, _).
        Inr (db2, \<lparr>fv_gateway_key_id = fi_gateway_key_id i, fv_fence_state = FenceNone, fv_resolved = True\<rparr>)))))"

definition resolve ::
  "uuid \<Rightarrow> fence_resolve_input \<Rightarrow> bool \<Rightarrow> db \<Rightarrow> db \<Rightarrow> (db \<times> fence_resolve_result) result" where
  "resolve aid i permit_held db0 db =
     sbind (the_or_raise (get_gateway_key_by_id (fi_gateway_key_id i) db0)
       (ExternalToolFenceInvariantError ''external_tool_fence_key_missing'')) (\<lambda>k0.
     let state = gk_fence_state k0 in
     if state = FenceNone then Inr (db, not_resolved i FenceNone)
     else if state = FenceHeld \<and> \<not> permit_held then Inr (db, not_resolved i state)
     else if gk_fence_request_id k0 \<noteq> Some (fi_request_id i)
     then Inl (ExternalToolFenceConflictError ''external_tool_fence_resolution_request_mismatch'')
     else
       sbind (the_or_raise (gk_fence_reservation_id k0)
         (ExternalToolFenceConflictError ''external_tool_fence_resolution_request_mismatch'')) (\<lambda>rid.
       sbind (the_or_raise (get_reservation_by_id rid db)
         (ExternalToolFenceInvariantError ''external_tool_fence_reservation_missing'')) (\<lambda>r.
       sbind (the_or_raise (get_gateway_key_by_id (fi_gateway_key_id i) db)
         (ExternalToolFenceInvariantError ''external_tool_fence_key_missing'')) (\<lambda>k.
       resolve_locked aid i permit_held state rid k r db))))"

section \<open>Inspection\<close>

definition project_key :: "gateway_key \<Rightarrow> fence_projection" where
  "project_key k =
     \<lparr>fp_gateway_key_id = gk_id k, fp_fence_state = gk_fence_state k,
      fp_reservation_id = gk_fence_reservation_id k, fp_request_id = gk_fence_request_id k,
      fp_acquired_at = gk_fence_acquired_at k, fp_expires_at = gk_fence_expires_at k\<rparr>"

definition list_unresolved_fences :: "int \<Rightarrow> db \<Rightarrow> fence_projection list" where
  "list_unresolved_fences limit db = map project_key (list_external_tool_fences limit db)"

lemmas fence_eval [eval_simps] =
  validate_ttl_def bounded_text_def validate_request_id_def validate_requested_model_def validate_provider_def
  validate_endpoint_def validate_capabilities_def validate_destination_ids_def validate_decision_def
  require_positive_finite_limits_def validate_key_for_fence_def validate_stored_fenced_policy_def
  reject_existing_key_exposure_def reservation_matches_def validate_bound_route_facts_def
  verify_reserved_counters_zero_def projection_result_def acquire_again_def fence_reservation_def
  remaining_cost_def remaining_tokens_def remaining_requests_def acquire_new_def acquire_def not_resolved_def
  resolution_evidence_def resolve_locked_def resolve_def project_key_def list_unresolved_fences_def

section \<open>Acquisition refines the abstract fence step\<close>

lemma no_pending_iff:
  "list_reservations_for_key kid (Some Pending) 100 0 db = [] \<longleftrightarrow> (\<forall>q \<in> set (db_reservations db). \<not> pending_of kid q)"
proof -
  have "sort_key f xs = [] \<longleftrightarrow> xs = []" for f :: "quota_reservation \<Rightarrow> int" and xs
    by (metis length_0_conv length_sort)
  then show ?thesis
    by (auto simp: list_reservations_for_key_def opt_all_def pending_of_def filter_empty_conv)
qed

lemma fence_reservation_sels [simp]:
  fixes clock rid kid req route caps dests ex c t
  defines "r \<equiv> fence_reservation clock rid kid req route caps dests ex c t"
  shows "qr_id r = rid" "qr_gateway_key_id r = kid" "qr_request_id r = req" "qr_status r = Pending"
    "qr_reserved_cost_eur r = c" "qr_reserved_tokens r = t" "qr_reserved_requests r = 1"
    "qr_quota_mode r = ExternalToolFenced" "qr_expires_at r = ex" "qr_endpoint r = fr_endpoint route"
    "qr_requested_model r = Some (fr_requested_model route)" "qr_ext_provider r = Some (fr_provider route)"
    "qr_ext_route_id r = Some (fr_route_id route)" "qr_capabilities r = caps" "qr_destination_ids r = dests"
  by (simp_all add: r_def fence_reservation_def new_reservation_def)

definition fenced_key :: "gateway_key \<Rightarrow> uuid \<Rightarrow> string \<Rightarrow> pydatetime \<Rightarrow> pydatetime \<Rightarrow> gateway_key" where
  "fenced_key k rid req now expires_at =
     fence_set (reserved_plus k (remaining_cost k) (remaining_tokens k) 1)
       FenceActive (Some rid) (Some req) (Some now) (Some expires_at)"

lemma acquire_new_elim:
  assumes "acquire_new clock rid aid k req route caps dests now ex db = Inr (db', res)"
  obtains r k' where
    "r = fence_reservation clock rid (gk_id k) req route caps dests ex (remaining_cost k) (remaining_tokens k)"
    "k' = fenced_key k rid req now ex"
    "\<forall>q \<in> set (db_reservations db). \<not> pending_of (gk_id k) q"
    "gk_cost_reserved_eur k = 0" "gk_tokens_reserved_total k = 0" "gk_requests_reserved_total k = 0"
    "1 \<le> remaining_requests k" "0 < remaining_tokens k" "0 < remaining_cost k"
    "reservation_fits r" "reservation_checks (stored_reservation r)"
    "rid \<notin> qr_id ` set (db_reservations db)" "req \<notin> qr_request_id ` set (db_reservations db)"
    "gateway_key_fits k'" "gateway_key_checks (stored_key k')"
    "db_keys db' = put_row gk_id (stored_key k') (db_keys db)"
    "db_reservations db' = db_reservations db @ [stored_reservation r]"
    "res = projection_result k' r False"
proof -
  let ?r = "fence_reservation clock rid (gk_id k) req route caps dests ex (remaining_cost k) (remaining_tokens k)"
  let ?k1 = "reserved_plus k (remaining_cost k) (remaining_tokens k) 1"
  let ?k' = "fenced_key k rid req now ex"
  from assms obtain db1 db2 db3 row where
    g: "reject_existing_key_exposure k db = Inr ()"
      "\<not> (remaining_requests k < 1 \<or> remaining_tokens k \<le> 0 \<or> remaining_cost k \<le> 0)"
    and s: "insert_reservation ?r db = Inr db1" "flush_key ?k1 db1 = Inr db2" "flush_key ?k' db2 = Inr db3"
      "add_audit_log aid ''external_tool_fence_acquired'' ''gateway_key'' None (Some (gk_id k)) None None
              (Some req) (Some ''external tool fence acquired'') db3 = Inr (db', row)"
    and res: "res = projection_result ?k' ?r False"
    unfolding acquire_new_def fenced_key_def
    by (auto simp: add_reserved_counters_def set_external_tool_fence_def flushed_key_def create_reservation_def)
  from g(1) have "\<forall>q \<in> set (db_reservations db). \<not> pending_of (gk_id k) q"
    "gk_cost_reserved_eur k = 0" "gk_tokens_reserved_total k = 0" "gk_requests_reserved_total k = 0"
    by (auto simp: reject_existing_key_exposure_def no_pending_iff)
  moreover from s add_audit_log_same[OF s(4)] have
    "reservation_fits ?r" "reservation_checks (stored_reservation ?r)"
    "rid \<notin> qr_id ` set (db_reservations db)" "req \<notin> qr_request_id ` set (db_reservations db)"
    "gateway_key_fits ?k'" "gateway_key_checks (stored_key ?k')"
    "db_keys db' = put_row gk_id (stored_key ?k') (db_keys db)"
    "db_reservations db' = db_reservations db @ [stored_reservation ?r]"
    by (auto simp: flush_simps same_quota_def fenced_key_def)
  ultimately show ?thesis using g(2) res by (intro that[of ?r ?k']) auto
qed

lemma acquire_elim:
  assumes "acquire clock rid aid i db = Inr (db', res)"
  obtains (again) k r x where "get_gateway_key_by_id (fa_gateway_key_id i) db = Some k"
      "gk_fence_state k = FenceActive" "gk_fence_reservation_id k = Some x" "get_reservation_by_id x db = Some r"
      "qr_status r = Pending" "gk_fence_request_id k = Some (fa_request_id i)"
      "db' = db" "res = projection_result k r True"
  | (new) k where "get_gateway_key_by_id (fa_gateway_key_id i) db = Some k"
      "validate_key_for_fence k (aware (fa_now i)) = Inr ()" "gk_fence_state k = FenceNone"
      "acquire_new clock rid aid k (fa_request_id i) (fa_route i) (sort (remdups (fa_capabilities i)))
         (sort (remdups (fa_destination_ids i))) (aware (fa_now i)) (later (aware (fa_now i)) (fa_ttl i)) db = Inr (db', res)"
proof -
  let ?c = "sort (remdups (fa_capabilities i))" and ?d = "sort (remdups (fa_destination_ids i))"
  from assms obtain k where k: "get_gateway_key_by_id (fa_gateway_key_id i) db = Some k"
    "validate_key_for_fence k (aware (fa_now i)) = Inr ()"
    and b: "(if gk_fence_state k \<in> {FenceActive, FenceHeld}
       then acquire_again k (fa_request_id i) (fa_route i) ?c ?d db
       else acquire_new clock rid aid k (fa_request_id i) (fa_route i) ?c ?d (aware (fa_now i))
              (later (aware (fa_now i)) (fa_ttl i)) db) = Inr (db', res)"
    unfolding acquire_def Let_def
    by (auto simp: validate_ttl_def bounded_text_def validate_request_id_def validate_capabilities_def
        validate_destination_ids_def simp del: sort_key_simps)
  show ?thesis
  proof (cases "gk_fence_state k = FenceNone")
    case True
    with b show ?thesis by (intro new[OF k]) auto
  next
    case False
    then have "acquire_again k (fa_request_id i) (fa_route i) ?c ?d db = Inr (db', res)"
      using b by (cases "gk_fence_state k") auto
    then show ?thesis
      unfolding acquire_again_def by (auto split: fence_state.splits option.splits if_splits intro: again[OF k(1)])
  qed
qed

lemma positive_limits_Inr:
  "validate_key_for_fence k now = Inr u \<Longrightarrow>
     (\<exists>c t n. gk_cost_limit_eur k = Some c \<and> 0 < c \<and> gk_token_limit_total k = Some t \<and> 0 < t
        \<and> gk_request_limit_total k = Some n \<and> 0 < n)"
  by (auto simp: validate_key_for_fence_def require_positive_finite_limits_def split: option.splits)

lemma remaining_cost_exact:
  assumes "key_ok k" "gk_cost_limit_eur k = Some l" "gk_cost_reserved_eur k = 0" "0 < l"
  shows "remaining_cost k = l - gk_cost_used_eur k" "nine_places (remaining_cost k)"
proof -
  have l: "nine_places l" "fits_numeric l" using key_ok_limit[OF assms(1,2)] by auto
  then have cl: "column_value l" by (rule column_value_stored)
  have cu: "column_value (gk_cost_used_eur k)" "0 \<le> gk_cost_used_eur k" using key_okD[OF assms(1)] by auto
  have np: "nine_places (l - gk_cost_used_eur k)" using l(1) key_okD(2)[OF assms(1)] by (rule nine_places_diff)
  have "\<bar>l - gk_cost_used_eur k\<bar> < 10 ^ 9" using cl cu assms(4) by (auto simp: column_value_def)
  then have cd: "column_value (l - gk_cost_used_eur k)" using np by (simp add: column_value_def nine_places_def)
  show "remaining_cost k = l - gk_cost_used_eur k"
    by (simp add: remaining_cost_def assms(2,3) dec_sub_column[OF cl cu(1)] dec_sub_column[OF cd column_value_zero])
  then show "nine_places (remaining_cost k)" using np by simp
qed

lemma acquire_is_steps:
  assumes "acquire clock rid aid i db = Inr (db', res)" and wf: "wf_quota db"
  shows "quota_steps e db db'"
  using assms(1)
proof (cases rule: acquire_elim)
  case again
  then show ?thesis by simp
next
  case (new k)
  obtain l where l: "gk_cost_limit_eur k = Some l" "0 < l" using positive_limits_Inr[OF new(2)] by blast
  from new(4) show ?thesis
  proof (cases rule: acquire_new_elim)
    case (1 r k')
    have "nine_places (remaining_cost k)"
      using remaining_cost_exact(2)[OF wf_quota_key_ok[OF wf new(1)] l(1) 1(4) l(2)] .
    moreover have "gk_id k = fa_gateway_key_id i" using get_key_in[OF new(1)] by simp
    ultimately have "quota_step e db db'"
      by (intro quota_step.Fence[where r = r and k = k and k' = k' and acquired = "Some (aware (fa_now i))"
            and expires = "Some (later (aware (fa_now i)) (fa_ttl i))"])
         (use 1 new in \<open>simp_all add: fenced_key_def\<close>)
    then show ?thesis by simp
  qed
qed

lemma get_key_put:
  assumes "get_gateway_key_by_id kid db = Some k" "db_keys db' = put_row gk_id x (db_keys db)" "gk_id x = gk_id k"
  shows "get_gateway_key_by_id kid db' = Some x"
  using get_put_row_found[of gk_id kid "db_keys db" k x] get_key_in[OF assms(1)] assms
  by (simp add: get_gateway_key_by_id_def)

lemma stored_fence_set: "stored_key (fence_set k s r q a x) = fence_set (stored_key k) s r q a x"
  by (simp add: stored_key_def fence_set_def)

lemma key_ok_cleared:
  assumes "key_ok k"
  shows "key_ok (fence_set k FenceNone None None None None)"
proof -
  let ?k = "fence_set k FenceNone None None None None"
  have "stored_key ?k = ?k" using assms by (simp add: stored_fence_set key_ok_def)
  moreover have "gateway_key_fits ?k = gateway_key_fits k" by (simp add: gateway_key_fits_def fence_set_def)
  moreover have "gateway_key_checks k \<Longrightarrow> gateway_key_checks ?k"
    by (simp add: gateway_key_checks_def fence_set_def fence_fields_null_def fence_fields_set_def)
  ultimately show ?thesis using assms by (simp add: key_ok_def)
qed

lemma fenced_key_post:
  fixes k rid req t ex now
  assumes "key_ok k" "validate_key_for_fence k now = Inr ()"
    "gk_cost_reserved_eur k = 0" "gk_tokens_reserved_total k = 0" "gk_requests_reserved_total k = 0"
    "0 < remaining_cost k"
  defines "k' \<equiv> stored_key (fenced_key k rid req t ex)"
  shows "gk_cost_limit_eur k' = Some (gk_cost_used_eur k' + gk_cost_reserved_eur k')"
    "gk_token_limit_total k' = Some (gk_tokens_used_total k' + gk_tokens_reserved_total k')"
    "gk_cost_reserved_eur k' = remaining_cost k" "gk_tokens_reserved_total k' = remaining_tokens k"
    "gk_requests_reserved_total k' = 1" "gk_cost_used_eur k' = gk_cost_used_eur k"
    "gk_tokens_used_total k' = gk_tokens_used_total k" "gk_requests_used_total k' = gk_requests_used_total k"
    "validate_key_for_fence k' now = Inr ()" "gk_metadata_json k' = gk_metadata_json k"
proof -
  obtain l t where l: "gk_cost_limit_eur k = Some l" "0 < l" "gk_token_limit_total k = Some t"
    using positive_limits_Inr[OF assms(2)] by blast
  note rc = remaining_cost_exact[OF assms(1) l(1) assms(3) l(2)]
  have u: "pg9 (gk_cost_used_eur k) = gk_cost_used_eur k" using key_okD(2)[OF assms(1)] by (rule pg9_nine_places)
  have p: "pg9 l = l" using key_ok_limit[OF assms(1) l(1)] by (simp add: pg9_nine_places)
  have "dec_add 0 (remaining_cost k) = remaining_cost k"
  proof -
    have lt: "l < 10 ^ 9" using key_ok_limit[OF assms(1) l(1)] l(2) by (simp add: fits_numeric_def p)
    have "\<bar>remaining_cost k\<bar> < 10 ^ 9"
      using assms(6) rc(1) lt key_okD(4)[OF assms(1)] by simp
    then have "column_value (remaining_cost k)" using rc(2) by (simp add: column_value_def nine_places_def)
    then show ?thesis by (simp add: dec_add_column[OF column_value_zero])
  qed
  note add = this
  show "gk_cost_reserved_eur k' = remaining_cost k"
    by (simp add: k'_def fenced_key_def row_mutations assms(3) add rc(2) pg9_nine_places)
  then show "gk_cost_limit_eur k' = Some (gk_cost_used_eur k' + gk_cost_reserved_eur k')"
    by (simp add: k'_def fenced_key_def row_mutations stored_key_def l(1) p u rc(1))
  show "gk_token_limit_total k' = Some (gk_tokens_used_total k' + gk_tokens_reserved_total k')"
    by (simp add: k'_def fenced_key_def row_mutations stored_key_def l(3) remaining_tokens_def)
  show "gk_cost_used_eur k' = gk_cost_used_eur k" by (simp add: k'_def fenced_key_def row_mutations u)
  show "gk_tokens_reserved_total k' = remaining_tokens k" "gk_requests_reserved_total k' = 1"
    "gk_tokens_used_total k' = gk_tokens_used_total k" "gk_requests_used_total k' = gk_requests_used_total k"
    "gk_metadata_json k' = gk_metadata_json k"
    by (simp_all add: k'_def fenced_key_def row_mutations stored_key_def assms(4,5))
  show "validate_key_for_fence k' now = Inr ()"
    using assms(2) by (simp add: k'_def fenced_key_def row_mutations stored_key_def validate_key_for_fence_def
        require_positive_finite_limits_def l(1) p)
qed

text \<open>The rows after a fresh acquisition.\<close>

lemma acquire_post:
  assumes "acquire clock rid aid i db = Inr (db', res)" and wf: "wf_quota db" and "\<not> fe_idempotent res"
  obtains k r k' where
    "get_gateway_key_by_id (fa_gateway_key_id i) db = Some k" "key_ok k" "gk_fence_state k = FenceNone"
    "validate_key_for_fence k (aware (fa_now i)) = Inr ()"
    "gk_cost_reserved_eur k = 0" "gk_tokens_reserved_total k = 0" "gk_requests_reserved_total k = 0"
    "1 \<le> remaining_requests k" "0 < remaining_tokens k" "0 < remaining_cost k"
    "nine_places (remaining_cost k)"
    "r = fence_reservation clock rid (gk_id k) (fa_request_id i) (fa_route i) (sort (remdups (fa_capabilities i)))
         (sort (remdups (fa_destination_ids i))) (later (aware (fa_now i)) (fa_ttl i)) (remaining_cost k) (remaining_tokens k)"
    "k' = fenced_key k rid (fa_request_id i) (aware (fa_now i)) (later (aware (fa_now i)) (fa_ttl i))"
    "get_gateway_key_by_id (fa_gateway_key_id i) db' = Some (stored_key k')"
    "get_reservation_by_id rid db' = Some (stored_reservation r)"
    "\<forall>q \<in> set (db_reservations db). \<not> pending_of (gk_id k) q"
    "rid \<notin> qr_id ` set (db_reservations db)"
    "db_reservations db' = db_reservations db @ [stored_reservation r]" "res = projection_result k' r False"
  using assms(1)
proof (cases rule: acquire_elim)
  case again
  then show ?thesis using assms(3) by (simp add: projection_result_def)
next
  case (new k)
  obtain l where l: "gk_cost_limit_eur k = Some l" "0 < l" using positive_limits_Inr[OF new(2)] by blast
  note ok = wf_quota_key_ok[OF wf new(1)]
  from new(4) show ?thesis
  proof (cases rule: acquire_new_elim)
    case (1 r k')
    have k: "get_gateway_key_by_id (fa_gateway_key_id i) db' = Some (stored_key k')"
      by (rule get_key_put[OF new(1) 1(16)]) (simp add: 1(2) fenced_key_def)
    have r: "get_reservation_by_id rid db' = Some (stored_reservation r)"
      using 1(1,12,17) by (auto simp: get_reservation_by_id_def get_row_append get_row_None split: option.splits dest: get_row_SomeD)
    show ?thesis
      by (rule that[OF new(1) ok new(3,2) 1(4-9) remaining_cost_exact(2)[OF ok l(1) 1(4) l(2)] 1(1,2) k r 1(3,12,17,18)])
  qed
qed

text \<open>C6: A fence takes everything that is left.  A fresh acquisition on a consistent database leaves
  the key with its cost and token limits fully spoken for (used plus reserved equals the limit), one
  request reserved, the fence bound to the new reservation and request, and no other pending
  reservation of that key; it succeeds only when something was left of every limit.\<close>

theorem acquire_takes_remaining:
  assumes "acquire clock rid aid i db = Inr (db', res)" and "quota_inv e db" and "\<not> fe_idempotent res"
  shows "\<exists>k k'. get_gateway_key_by_id (fa_gateway_key_id i) db = Some k
    \<and> get_gateway_key_by_id (fa_gateway_key_id i) db' = Some k'
    \<and> gk_fence_state k = FenceNone \<and> gk_fence_state k' = FenceActive
    \<and> gk_fence_reservation_id k' = Some rid \<and> gk_fence_request_id k' = Some (fa_request_id i)
    \<and> gk_cost_limit_eur k' = Some (gk_cost_used_eur k' + gk_cost_reserved_eur k')
    \<and> gk_token_limit_total k' = Some (gk_tokens_used_total k' + gk_tokens_reserved_total k')
    \<and> gk_requests_reserved_total k' = 1 \<and> 0 < gk_cost_reserved_eur k' \<and> 0 < gk_tokens_reserved_total k'
    \<and> gk_cost_used_eur k' = gk_cost_used_eur k \<and> gk_tokens_used_total k' = gk_tokens_used_total k
    \<and> fe_reserved_cost_eur res = gk_cost_reserved_eur k' \<and> fe_reserved_tokens res = gk_tokens_reserved_total k'
    \<and> (\<forall>r \<in> set (db_reservations db'). pending_of (fa_gateway_key_id i) r \<longleftrightarrow> qr_id r = rid)
    \<and> quota_inv e db'"
proof -
  have wf: "wf_quota db" using assms(2) by (simp add: quota_inv_def)
  have inv: "quota_inv e db'" using quota_inv_steps[OF acquire_is_steps[OF assms(1) wf] assms(2)] .
  show ?thesis
    using assms(1) wf assms(3)
  proof (cases rule: acquire_post)
    case (1 k r k')
    note p = fenced_key_post[OF 1(2,4,5,6,7,10), of rid "fa_request_id i" "aware (fa_now i)"
        "later (aware (fa_now i)) (fa_ttl i)", folded 1(13)]
    have id: "gk_id k = fa_gateway_key_id i" using get_key_in[OF 1(1)] by simp
    have f: "gk_fence_state (stored_key k') = FenceActive" "gk_fence_reservation_id (stored_key k') = Some rid"
      "gk_fence_request_id (stored_key k') = Some (fa_request_id i)"
      by (simp_all add: 1(13) fenced_key_def fence_set_def)
    have "\<forall>q \<in> set (db_reservations db'). pending_of (fa_gateway_key_id i) q \<longleftrightarrow> qr_id q = rid"
      using 1(12,16,17,18) id by (auto simp: pending_of_def)
    moreover have "fe_reserved_cost_eur res = gk_cost_reserved_eur (stored_key k')"
      "fe_reserved_tokens res = gk_tokens_reserved_total (stored_key k')"
      using p(3,4) by (simp_all add: 1(12,19) projection_result_def)
    moreover have "0 < gk_cost_reserved_eur (stored_key k')" "0 < gk_tokens_reserved_total (stored_key k')"
      using p(3,4) 1(9,10) by simp_all
    ultimately show ?thesis using 1(1,3,14) f p(1,2,5,6,7) inv by blast
  qed
qed

text \<open>Acquiring is idempotent: the same acquisition repeated after it succeeded (with any clock
  and any fresh identifiers) changes nothing and returns the same facts, marked as a
  repetition.\<close>

theorem acquire_retry:
  assumes "acquire clock rid aid i db = Inr (db', res)" and "wf_quota db" and "\<not> fe_idempotent res"
  shows "acquire clock2 rid2 aid2 i db' = Inr (db', res\<lparr>fe_idempotent := True\<rparr>)"
  using assms
proof (cases rule: acquire_post)
  case (1 k r k')
  let ?c = "sort (remdups (fa_capabilities i))" and ?d = "sort (remdups (fa_destination_ids i))"
  note p = fenced_key_post[OF 1(2,4,5,6,7,10), of rid "fa_request_id i" "aware (fa_now i)"
      "later (aware (fa_now i)) (fa_ttl i)", folded 1(13)]
  have id: "gk_id k = fa_gateway_key_id i" using get_key_in[OF 1(1)] by simp
  have c: "stored_reservation r = r" by (simp add: stored_reservation_eq 1(11,12) pg9_nine_places)
  have f: "gk_fence_state (stored_key k') = FenceActive" "gk_fence_reservation_id (stored_key k') = Some rid"
    "gk_fence_request_id (stored_key k') = Some (fa_request_id i)" "gk_id (stored_key k') = fa_gateway_key_id i"
    by (simp_all add: 1(13) fenced_key_def id) (simp_all add: fence_set_def)
  have proj: "projection_result (stored_key k') r True = res\<lparr>fe_idempotent := True\<rparr>"
    by (simp add: 1(19) projection_result_def stored_key_def)
  have again: "acquire_again (stored_key k') (fa_request_id i) (fa_route i) ?c ?d db' = Inr (db', res\<lparr>fe_idempotent := True\<rparr>)"
    unfolding acquire_again_def f using 1(15) f(4)
    by (simp add: c proj[symmetric]) (simp add: 1(12) id reservation_matches_def)
  obtain d where d: "validate_ttl (fa_ttl i) = Inr (fa_ttl i)" "validate_request_id (Some (fa_request_id i)) = Inr (fa_request_id i)"
    "\<exists>x. validate_endpoint (Some (fr_endpoint (fa_route i))) = Inr x"
    "\<exists>x. validate_requested_model (Some (fr_requested_model (fa_route i))) = Inr x"
    "\<exists>x. validate_provider (Some (fr_provider (fa_route i))) = Inr x"
    "validate_capabilities (fa_capabilities i) = Inr ?c" "validate_destination_ids (fa_destination_ids i) ?c = Inr ?d"
    "validate_decision (fa_decision i) = Inr d" "validate_stored_fenced_policy k ?c ?d d = Inr ()"
    using assms(1) 1(1) unfolding acquire_def Let_def
    by (auto simp: validate_ttl_def bounded_text_def validate_request_id_def validate_capabilities_def
        validate_destination_ids_def simp del: sort_key_simps)
  have pol: "validate_stored_fenced_policy (stored_key k') ?c ?d d = Inr ()"
    using d(9) p(10) by (simp add: validate_stored_fenced_policy_def Let_def)
  from d(3-5) obtain x y z where xyz: "validate_endpoint (Some (fr_endpoint (fa_route i))) = Inr x"
    "validate_requested_model (Some (fr_requested_model (fa_route i))) = Inr y"
    "validate_provider (Some (fr_provider (fa_route i))) = Inr z" by blast
  show ?thesis
    unfolding acquire_def Let_def d(1,2,6,7,8) xyz 1(14) sbind_Inr the_or_raise_Some p(9) pol f(1)
    using again by simp
qed

section \<open>Resolution refines the abstract clearing step\<close>

lemma evidence_Inr:
  assumes "resolution_evidence i k r db = Inr u"
  obtains l where "qr_gateway_key_id r = gk_id k" "qr_request_id r = fi_request_id i"
    "qr_quota_mode r = ExternalToolFenced" "qr_status r \<in> {Finalized, Released}"
    "get_usage_records_by_reservation_id (qr_id r) db = [l]" "ul_gateway_key_id l = gk_id k"
    "ul_request_id l = qr_request_id r"
    "if qr_status r = Finalized then ul_accounting_status l = LFinalized \<and> ul_success l \<noteq> None
     else ul_accounting_status l = LFailed \<and> ul_success l = Some False"
    "gk_cost_reserved_eur k = 0" "gk_tokens_reserved_total k = 0" "gk_requests_reserved_total k = 0"
  using assms unfolding resolution_evidence_def
  by (auto simp: verify_reserved_counters_zero_def split: list.splits)

lemma resolve_elim:
  assumes "resolve aid i permit db0 db = Inr (db', res)"
  obtains (unchanged) "db' = db" "\<not> fv_resolved res"
  | (cleared) k r rid where "get_gateway_key_by_id (fi_gateway_key_id i) db = Some k" "gk_fence_state k \<noteq> FenceNone"
      "gk_fence_state k = FenceHeld \<longrightarrow> permit" "gk_fence_reservation_id k = Some rid" "get_reservation_by_id rid db = Some r"
      "gk_fence_request_id k = Some (fi_request_id i)" "resolution_evidence i k r db = Inr ()"
      "gateway_key_fits (fence_set k FenceNone None None None None)"
      "gateway_key_checks (stored_key (fence_set k FenceNone None None None None))"
      "db_keys db' = put_row gk_id (stored_key (fence_set k FenceNone None None None None)) (db_keys db)"
      "db_reservations db' = db_reservations db" "db_ledger db' = db_ledger db"
      "res = \<lparr>fv_gateway_key_id = fi_gateway_key_id i, fv_fence_state = FenceNone, fv_resolved = True\<rparr>"
proof -
  obtain k0 where k0: "get_gateway_key_by_id (fi_gateway_key_id i) db0 = Some k0"
    using assms by (auto simp: resolve_def)
  consider "db' = db \<and> \<not> fv_resolved res"
    | rid r k where "gk_fence_state k0 = FenceHeld \<longrightarrow> permit" "get_reservation_by_id rid db = Some r"
        "get_gateway_key_by_id (fi_gateway_key_id i) db = Some k" "gk_fence_state k0 \<noteq> FenceNone"
        "resolve_locked aid i permit (gk_fence_state k0) rid k r db = Inr (db', res)"
    using assms unfolding resolve_def k0 Let_def by (auto simp: not_resolved_def split: if_splits)
  then show ?thesis
  proof cases
    case 1
    then show ?thesis using unchanged by blast
  next
    case 2
    let ?k = "fence_set k FenceNone None None None None"
    show ?thesis
    proof (cases "fv_resolved res")
      case False
      with 2(5) have "db' = db" unfolding resolve_locked_def by (auto split: if_splits)
      with False show ?thesis using unchanged by blast
    next
      case True
      with 2(5) have g: "\<not> (permit \<and> (gk_fence_state k0 \<noteq> FenceHeld \<or> gk_fence_state k \<noteq> FenceHeld))"
        "\<not> (gk_fence_state k0 = FenceActive \<and> gk_fence_state k = FenceHeld \<and> \<not> permit)"
        "gk_fence_state k \<noteq> FenceNone" "gk_fence_reservation_id k = Some rid"
        "gk_fence_request_id k = Some (fi_request_id i)"
        unfolding resolve_locked_def by (auto simp: not_resolved_def split: if_splits)
      with 2(5) obtain db1 row where s: "resolution_evidence i k r db = Inr ()" "flush_key ?k db = Inr db1"
        "add_audit_log aid ''external_tool_fence_resolved'' ''gateway_key'' None (Some (gk_id k)) None None
                 (Some (fi_request_id i))
                 (Some ''external tool fence resolved from authoritative terminal evidence'') db1 = Inr (db', row)"
        and res: "res = \<lparr>fv_gateway_key_id = fi_gateway_key_id i, fv_fence_state = FenceNone, fv_resolved = True\<rparr>"
        unfolding resolve_locked_def
        by (cases "gk_fence_state k") (auto simp: set_external_tool_fence_def flushed_key_def split: if_splits)
      have "db_ledger db' = db_ledger db1" using s(3) by (auto simp: add_audit_log_def Let_def)
      moreover have "gk_fence_state k = FenceHeld \<longrightarrow> permit" using g(1,2) 2(1,4) by (cases "gk_fence_state k0") auto
      ultimately show ?thesis
        using s add_audit_log_same[OF s(3)]
        by (intro cleared[OF 2(3) g(3) _ g(4) 2(2) g(5) s(1) _ _ _ _ _ res]) (auto simp: flush_simps same_quota_def)
    qed
  qed
qed

lemma resolve_is_steps:
  assumes "resolve aid i permit db0 db = Inr (db', res)"
  shows "quota_steps e db db'"
  using assms
proof (cases rule: resolve_elim)
  case unchanged
  then show ?thesis by simp
next
  case (cleared k r rid)
  from cleared(7) have "gk_cost_reserved_eur k = 0" "gk_tokens_reserved_total k = 0" "gk_requests_reserved_total k = 0"
    by (auto elim: evidence_Inr)
  with cleared have "quota_step e db db'" by (intro quota_step.Clear[where k = k]) auto
  then show ?thesis by simp
qed

text \<open>C21: A fence is lifted only from terminal evidence.  When \<open>resolve\<close> reports a lifted fence, the
  fence's reservation was finalized or released, exactly one ledger row records it with the matching
  outcome, every reserved counter of the key is zero, a held fence was lifted only with permission,
  and nothing but the fence of that key (and the audit log) changed; otherwise the database is
  unchanged.\<close>

theorem resolve_needs_evidence:
  assumes "resolve aid i permit db0 db = Inr (db', res)"
  shows "(\<not> fv_resolved res \<longrightarrow> db' = db)
    \<and> (fv_resolved res \<longrightarrow>
        (\<exists>k r l. get_gateway_key_by_id (fi_gateway_key_id i) db = Some k \<and> gk_fence_state k \<noteq> FenceNone
          \<and> (gk_fence_state k = FenceHeld \<longrightarrow> permit)
          \<and> gk_fence_reservation_id k = Some (qr_id r) \<and> get_reservation_by_id (qr_id r) db = Some r
          \<and> qr_status r \<in> {Finalized, Released}
          \<and> get_usage_records_by_reservation_id (qr_id r) db = [l]
          \<and> ul_accounting_status l = (if qr_status r = Finalized then LFinalized else LFailed)
          \<and> gk_cost_reserved_eur k = 0 \<and> gk_tokens_reserved_total k = 0 \<and> gk_requests_reserved_total k = 0
          \<and> db_keys db' = put_row gk_id (stored_key (fence_set k FenceNone None None None None)) (db_keys db)
          \<and> db_reservations db' = db_reservations db \<and> db_ledger db' = db_ledger db))"
  using assms
proof (cases rule: resolve_elim)
  case unchanged
  then show ?thesis by simp
next
  case (cleared k r rid)
  obtain l where "qr_status r \<in> {Finalized, Released}" "get_usage_records_by_reservation_id (qr_id r) db = [l]"
    "ul_accounting_status l = (if qr_status r = Finalized then LFinalized else LFailed)"
    "gk_cost_reserved_eur k = 0" "gk_tokens_reserved_total k = 0" "gk_requests_reserved_total k = 0"
    using cleared(7) by (elim evidence_Inr) (auto split: if_splits)
  moreover have "qr_id r = rid" using get_reservation_in[OF cleared(5)] by simp
  ultimately show ?thesis using cleared by auto
qed

text \<open>A settled fence can always be lifted.  On a consistent database, when the reservation bound to
  a key's active fence is finalized or released, carries its route facts and is recorded by exactly
  one matching ledger row, \<open>resolve\<close> succeeds and clears the fence: the reserved counters cannot be
  the obstacle, because no other reservation of the key can be pending.\<close>

theorem settled_fence_resolvable:
  assumes "quota_inv True db" and "get_gateway_key_by_id kid db = Some k" and "gk_fence_state k = FenceActive"
    and "gk_fence_reservation_id k = Some (qr_id r)" and "gk_fence_request_id k = Some (qr_request_id r)"
    and "get_reservation_by_id (qr_id r) db = Some r" and "qr_gateway_key_id r = kid"
    and "qr_quota_mode r = ExternalToolFenced" and "validate_bound_route_facts r = Inr ()"
    and "qr_status r \<in> {Finalized, Released}"
    and "get_usage_records_by_reservation_id (qr_id r) db = [l]" and "ul_gateway_key_id l = kid"
    and "ul_endpoint l = qr_endpoint r \<and> Some (ul_provider l) = qr_ext_provider r
         \<and> ul_requested_model l = qr_requested_model r \<and> ul_request_id l = qr_request_id r"
    and "if qr_status r = Finalized then ul_accounting_status l = LFinalized \<and> ul_success l \<noteq> None
         else ul_accounting_status l = LFailed \<and> ul_success l = Some False"
    and "aid \<notin> al_id ` set (db_audit db)"
  shows "\<exists>db' res k'. resolve aid \<lparr>fi_gateway_key_id = kid, fi_request_id = qr_request_id r\<rparr> False db db = Inr (db', res)
    \<and> fv_resolved res \<and> get_gateway_key_by_id kid db' = Some k' \<and> gk_fence_state k' = FenceNone"
proof -
  have inv: "wf_quota db" "tok.balanced db" "reqs.balanced db" "cost.balanced db" "fence_exclusive db"
    using assms(1) by (simp_all add: quota_inv_def)
  have k: "k \<in> set (db_keys db)" "gk_id k = kid" using get_key_in[OF assms(2)] by auto
  have r: "r \<in> set (db_reservations db)" using get_reservation_in[OF assms(6)] by simp
  have none: "\<forall>q \<in> set (db_reservations db). \<not> pending_of (gk_id k) q"
  proof
    fix q assume q: "q \<in> set (db_reservations db)"
    have "qr_id q = qr_id r \<Longrightarrow> q = r"
      using q r inv(1) by (auto simp: wf_quota_def dest: distinct_row_eq)
    moreover have "pending_of (gk_id k) q \<Longrightarrow> qr_id q = qr_id r"
      using inv(5) k q assms(3,4) by (auto simp: fence_exclusive_def)
    ultimately show "\<not> pending_of (gk_id k) q" using assms(10) by (auto simp: pending_of_def)
  qed
  then have z: "gk_tokens_reserved_total k = 0" "gk_requests_reserved_total k = 0" "gk_cost_reserved_eur k = 0"
    using inv(2-4) k(1) by (simp_all add: balance_defs exposure_no_pending)
  let ?i = "\<lparr>fi_gateway_key_id = kid, fi_request_id = qr_request_id r\<rparr>"
  let ?k = "fence_set k FenceNone None None None None"
  have ev: "resolution_evidence ?i k r db = Inr ()"
    using assms(7-14) k(2) z unfolding resolution_evidence_def
    by (auto simp: verify_reserved_counters_zero_def)
  have ok: "key_ok k" using wf_quota_key_ok[OF inv(1) assms(2)] .
  then have fl: "key_ok ?k" by (rule key_ok_cleared)
  have "set_external_tool_fence k FenceNone None None None None db
      = Inr (db\<lparr>db_keys := put_row gk_id ?k (db_keys db)\<rparr>, ?k)"
    unfolding set_external_tool_fence_def using fl
    by (rule flushed_key_ok) (simp add: fence_reference_ok_def fence_set_def)
  then obtain db' where res: "resolve aid ?i False db db = Inr (db', \<lparr>fv_gateway_key_id = kid, fv_fence_state = FenceNone, fv_resolved = True\<rparr>)"
    and keys: "db_keys db' = put_row gk_id ?k (db_keys db)"
    using assms(2-6,15) ev unfolding resolve_def resolve_locked_def
    by (auto simp: add_audit_log_def Let_def list_ex_iff image_iff)
  have "get_gateway_key_by_id kid db' = Some ?k"
    by (rule get_key_put[OF assms(2) keys]) simp
  then show ?thesis using res by (force simp: fence_set_def)
qed

section \<open>Sample runs\<close>

definition sample_fence_key :: gateway_key where
  "sample_fence_key = sample_key\<lparr>gk_metadata_json :=
     [(''external_tool_policy'', PDict (key_policy_to_metadata sample_key_policy))]\<rparr>"

definition sample_fence_db :: db where
  "sample_fence_db = \<lparr>db_keys = [sample_fence_key], db_reservations = [], db_ledger = [], db_audit = []\<rparr>"

definition sample_fence_route :: fence_route_facts where
  "sample_fence_route = \<lparr>fr_endpoint = ''/v1/responses'', fr_requested_model = ''m'', fr_provider = ''openai'', fr_route_id = 3\<rparr>"

definition sample_acquire_input :: fence_acquire_input where
  "sample_acquire_input =
     \<lparr>fa_gateway_key_id = 10, fa_request_id = ''req-f'', fa_route = sample_fence_route,
      fa_capabilities = [''provider_web_search''], fa_destination_ids = [],
      fa_decision = Some sample_tool_decision, fa_now = Aware 5, fa_ttl = 900000000\<rparr>"

definition sample_acquired :: "(db \<times> fence_result) result" where
  "sample_acquired = acquire (Aware 5) 100 200 sample_acquire_input sample_fence_db"

definition sample_fenced_db :: db where
  "sample_fenced_db = (case sample_acquired of Inr (d, _) \<Rightarrow> d | Inl _ \<Rightarrow> sample_fence_db)"

lemma sample_fence_input:
  "validate_ttl 900000000 = Inr 900000000" "validate_request_id (Some ''req-f'') = Inr ''req-f''"
  "validate_endpoint (Some ''/v1/responses'') = Inr ''/v1/responses''"
  "validate_requested_model (Some ''m'') = Inr ''m''" "validate_provider (Some ''openai'') = Inr ''openai''"
  "validate_capabilities [''provider_web_search''] = Inr [''provider_web_search'']"
  "validate_destination_ids [] [''provider_web_search''] = Inr []"
  "validate_decision (Some sample_tool_decision) = Inr sample_tool_decision"
  "validate_stored_fenced_policy sample_fence_key [''provider_web_search''] [] sample_tool_decision = Inr ()"
  "validate_key_for_fence sample_fence_key (Aware 5) = Inr ()"
  by code_simp+

lemma sample_remaining:
  "remaining_cost sample_fence_key = 10" "remaining_tokens sample_fence_key = 1000" "remaining_requests sample_fence_key = 5"
  by code_simp+

lemma sample_acquired_new:
  "sample_acquired = acquire_new (Aware 5) 100 200 sample_fence_key ''req-f'' sample_fence_route
     [''provider_web_search''] [] (Aware 5) (Aware 900000005) sample_fence_db"
proof -
  have k: "get_gateway_key_by_id 10 sample_fence_db = Some sample_fence_key" "gk_fence_state sample_fence_key = FenceNone"
    by code_simp+
  show ?thesis
    unfolding sample_acquired_def acquire_def Let_def sample_acquire_input_def
    by (simp add: sample_fence_input sample_fence_route_def k aware_def later_def del: sbind_eq_Inr)
qed

lemma sample_acquired_Inr:
  "\<exists>db' res. sample_acquired = Inr (db', res) \<and> \<not> fe_idempotent res"
proof -
  have r: "reject_existing_key_exposure sample_fence_key sample_fence_db = Inr ()" by code_simp
  show ?thesis
    unfolding sample_acquired_new acquire_new_def r
    by (simp add: sample_remaining, simp add: sample_fence_db_def sample_fence_key_def sample_fence_route_def
        eval_simps Let_def del: sbind_eq_Inr)
qed

lemma sample_fence_inv: "quota_inv True sample_fence_db"
  by (simp add: quota_inv_def wf_quota_def key_ok_def balance_defs fence_exclusive_def exposure_def
      sample_fence_db_def sample_fence_key_def eval_simps)

theorem acquire_takes_remaining_witness:
  "\<exists>db' res k'. sample_acquired = Inr (db', res) \<and> \<not> fe_idempotent res
     \<and> get_gateway_key_by_id 10 db' = Some k' \<and> gk_fence_state k' = FenceActive
     \<and> gk_cost_limit_eur k' = Some (gk_cost_used_eur k' + gk_cost_reserved_eur k')"
proof -
  obtain db' res where a: "sample_acquired = Inr (db', res)" "\<not> fe_idempotent res" using sample_acquired_Inr by blast
  have i: "fa_gateway_key_id sample_acquire_input = 10" by (simp add: sample_acquire_input_def)
  from acquire_takes_remaining[OF a(1)[unfolded sample_acquired_def] sample_fence_inv a(2)]
  show ?thesis using a unfolding i by blast
qed

theorem acquire_retry_witness:
  "\<exists>db' res. sample_acquired = Inr (db', res)
     \<and> acquire (Aware 9) 101 201 sample_acquire_input db' = Inr (db', res\<lparr>fe_idempotent := True\<rparr>)"
proof -
  obtain db' res where a: "sample_acquired = Inr (db', res)" "\<not> fe_idempotent res" using sample_acquired_Inr by blast
  have "wf_quota sample_fence_db" using sample_fence_inv by (simp add: quota_inv_def)
  from acquire_retry[OF a(1)[unfolded sample_acquired_def] this a(2)] a(1) show ?thesis by blast
qed

definition sample_settled_key :: gateway_key where
  "sample_settled_key = fence_set sample_fence_key FenceActive (Some 100) (Some ''req-f'') (Some (Aware 5)) (Some (Aware 900000005))"

definition sample_settled_reservation :: quota_reservation where
  "sample_settled_reservation =
     (fence_reservation (Aware 5) 100 10 ''req-f'' sample_fence_route [''provider_web_search''] [] (Aware 900000005) 10 1000)
       \<lparr>qr_status := Released, qr_released_at := Some (Aware 6)\<rparr>"

definition sample_settled_ledger :: usage_ledger where
  "sample_settled_ledger =
     (new_usage_record 300 (Aware 6) ''req-f'' 10 ''/v1/responses'' ''openai'' (Aware 5))
       \<lparr>ul_quota_reservation_id := Some 100, ul_requested_model := Some ''m'',
        ul_accounting_status := LFailed, ul_success := Some False\<rparr>"

definition sample_settled_db :: db where
  "sample_settled_db = \<lparr>db_keys = [sample_settled_key], db_reservations = [sample_settled_reservation],
     db_ledger = [sample_settled_ledger], db_audit = []\<rparr>"

lemmas sample_settled_defs = sample_settled_db_def sample_settled_key_def sample_settled_reservation_def
  sample_settled_ledger_def sample_fence_key_def sample_fence_route_def

lemma sample_settled_inv: "quota_inv True sample_settled_db"
  by (simp add: quota_inv_def wf_quota_def key_ok_def reservation_ok_def balance_defs fence_exclusive_def exposure_def
      pending_of_def sample_settled_defs eval_simps)

lemma sample_settled_facts:
  "get_gateway_key_by_id 10 sample_settled_db = Some sample_settled_key"
  "gk_fence_state sample_settled_key = FenceActive"
  "gk_fence_reservation_id sample_settled_key = Some (qr_id sample_settled_reservation)"
  "gk_fence_request_id sample_settled_key = Some (qr_request_id sample_settled_reservation)"
  "get_reservation_by_id (qr_id sample_settled_reservation) sample_settled_db = Some sample_settled_reservation"
  "qr_gateway_key_id sample_settled_reservation = 10"
  "qr_quota_mode sample_settled_reservation = ExternalToolFenced"
  "validate_bound_route_facts sample_settled_reservation = Inr ()"
  "qr_status sample_settled_reservation \<in> {Finalized, Released}"
  "get_usage_records_by_reservation_id (qr_id sample_settled_reservation) sample_settled_db = [sample_settled_ledger]"
  "ul_gateway_key_id sample_settled_ledger = 10"
  by code_simp+

lemma sample_settled_resolves:
  "\<exists>db' res k'. resolve 201 \<lparr>fi_gateway_key_id = 10, fi_request_id = ''req-f''\<rparr> False sample_settled_db sample_settled_db = Inr (db', res)
     \<and> fv_resolved res \<and> get_gateway_key_by_id 10 db' = Some k' \<and> gk_fence_state k' = FenceNone"
  by (simp add: sample_settled_defs eval_simps Let_def)

theorem settled_fence_resolvable_witness:
  "\<exists>db' res k'. resolve 201 \<lparr>fi_gateway_key_id = 10, fi_request_id = qr_request_id sample_settled_reservation\<rparr>
       False sample_settled_db sample_settled_db = Inr (db', res)
     \<and> fv_resolved res \<and> get_gateway_key_by_id 10 db' = Some k' \<and> gk_fence_state k' = FenceNone"
  by (rule settled_fence_resolvable[OF sample_settled_inv sample_settled_facts])
     (simp_all add: sample_settled_defs eval_simps)

theorem resolve_needs_evidence_witness:
  "\<exists>db' res. resolve 201 \<lparr>fi_gateway_key_id = 10, fi_request_id = ''req-f''\<rparr> False sample_settled_db sample_settled_db = Inr (db', res)
     \<and> fv_resolved res \<and> db_ledger db' = db_ledger sample_settled_db"
proof -
  obtain db' res where r: "resolve 201 \<lparr>fi_gateway_key_id = 10, fi_request_id = ''req-f''\<rparr> False sample_settled_db sample_settled_db = Inr (db', res)"
    "fv_resolved res" using sample_settled_resolves by blast
  from resolve_needs_evidence[OF r(1)] r show ?thesis by blast
qed

end
