(* ===== verification/AccountingCost.thy ===== *)
theory AccountingCost
  imports Sample_Data
begin

text \<open>
  The cost half of \<open>services/accounting.py\<close>: reading the usage of a provider response,
  splitting it into priced components, and computing the cost to charge.  Every guard of the
  source is a branch of the model and every Decimal operation rounds as Python's context does.
  Python's \<open>sum\<close> of the component costs is \<open>dec_sum\<close>.
\<close>

section \<open>Usage\<close>

definition optional_token_count :: "pyval \<Rightarrow> string \<Rightarrow> int option result" where
  "optional_token_count value field_name =
     (case value of
        PNone \<Rightarrow> Inr None
      | PInt i \<Rightarrow> if i < 0 then Inl (InvalidUsageError field_name) else Inr (Some i)
      | _ \<Rightarrow> Inl (InvalidUsageError field_name))"

definition safe_json_mapping :: "pydict \<Rightarrow> pydict" where
  "safe_json_mapping value = sanitize_metadata_mapping True None (Some value)"

definition or_zero :: "int option \<Rightarrow> int" where
  "or_zero v = (case v of None \<Rightarrow> 0 | Some i \<Rightarrow> i)"

definition extract_usage :: "provider_response \<Rightarrow> actual_usage result" where
  "extract_usage response =
     sbind (the_or_raise (rs_usage response) UsageMissingError) (\<lambda>usage.
     sbind (optional_token_count (pu_prompt_tokens usage) ''prompt_tokens'') (\<lambda>prompt_tokens.
     sbind (optional_token_count (pu_completion_tokens usage) ''completion_tokens'') (\<lambda>completion_tokens.
     sbind (optional_token_count (pu_total_tokens usage) ''total_tokens'') (\<lambda>total_tokens.
     sbind (optional_token_count (pu_cached_tokens usage) ''cached_tokens'') (\<lambda>cached_tokens.
     sbind (optional_token_count (pu_cache_write_tokens usage) ''cache_write_tokens'') (\<lambda>cache_write_tokens.
     sbind (optional_token_count (pu_reasoning_tokens usage) ''reasoning_tokens'') (\<lambda>reasoning_tokens.
     sbind (case total_tokens of
              Some t \<Rightarrow> Inr t
            | None \<Rightarrow>
                (case (prompt_tokens, completion_tokens) of
                   (Some p, Some c) \<Rightarrow> Inr (p + c)
                 | _ \<Rightarrow> Inl UsageMissingError)) (\<lambda>total.
     sbind (ensure (\<not> total < or_zero prompt_tokens + or_zero completion_tokens)
              (InvalidUsageError ''total_tokens'')) (\<lambda>_.
     Inr \<lparr>au_prompt_tokens = or_zero prompt_tokens, au_completion_tokens = or_zero completion_tokens,
          au_total_tokens = total, au_cached_tokens = cached_tokens,
          au_cache_write_tokens = cache_write_tokens, au_reasoning_tokens = reasoning_tokens,
          au_other_usage = safe_json_mapping (pu_other_usage usage)\<rparr>)))))))))"

text \<open>The value at a path of keys, \<open>None\<close> as soon as a step is not a mapping.\<close>

fun path_get :: "string list \<Rightarrow> pyval \<Rightarrow> pyval" where
  "path_get [] v = v"
| "path_get (k # ks) (PDict d) = path_get ks (dget d k)"
| "path_get (k # ks) _ = PNone"

fun first_count :: "pyval list \<Rightarrow> int option" where
  "first_count [] = None"
| "first_count (PInt i # vs) = (if 0 \<le> i then Some i else first_count vs)"
| "first_count (_ # vs) = first_count vs"

definition audio_output_tokens :: "pydict \<Rightarrow> int option" where
  "audio_output_tokens other_usage =
     first_count (map (\<lambda>key. path_get key (PDict other_usage))
       [[''completion_tokens_details'', ''audio_tokens''],
        [''output_tokens_details'', ''audio_tokens''],
        [''audio_tokens'']])"

section \<open>Prices\<close>

definition one_million :: decimal where
  "one_million = 1000000"

definition validate_price :: "decimal \<Rightarrow> string \<Rightarrow> unit result" where
  "validate_price value param = ensure (\<not> value < 0) (UnsupportedProviderCostError param)"

definition price_per_1m :: "decimal option \<Rightarrow> decimal \<Rightarrow> int \<Rightarrow> string \<Rightarrow> decimal result" where
  "price_per_1m value fallback_cost fallback_tokens param =
     (case value of
        Some p \<Rightarrow> sbind (validate_price p param) (\<lambda>_. Inr p)
      | None \<Rightarrow>
          if fallback_cost < 0 then Inl (UnsupportedProviderCostError param)
          else if fallback_tokens \<le> 0 then
            (if fallback_cost = 0 then Inr 0 else Inl (UnsupportedProviderCostError param))
          else Inr (dec_div (dec_mul fallback_cost one_million) (of_int fallback_tokens)))"

definition tokens_to_cost :: "int \<Rightarrow> decimal \<Rightarrow> decimal" where
  "tokens_to_cost tokens price = dec_mul (dec_div (of_int tokens) one_million) price"

definition normalize_currency :: "string \<Rightarrow> string result" where
  "normalize_currency value =
     (let currency = py_upper (py_strip value)
      in if currency = [] then Inl (UnsupportedProviderCostError ''currency'') else Inr currency)"

definition convert_estimate_native_to_eur :: "decimal \<Rightarrow> string \<Rightarrow> decimal \<Rightarrow> decimal \<Rightarrow> decimal result" where
  "convert_estimate_native_to_eur actual_native native_currency total_native total_eur =
     (if total_native < 0 \<or> total_eur < 0 then Inl (UnsupportedProviderCostError [])
      else if total_native = 0 then
        (if actual_native = 0 then Inr 0 else Inl (UnsupportedProviderCostError []))
      else if native_currency = ''EUR'' \<and> total_native = total_eur then Inr actual_native
      else Inr (dec_mul actual_native (dec_div total_eur total_native)))"

definition provider_reported_currency :: "provider_response \<Rightarrow> string option result" where
  "provider_reported_currency response =
     (case rs_native_currency response of
        None \<Rightarrow> Inr None
      | Some c \<Rightarrow> sbind (normalize_currency c) (\<lambda>n. Inr (Some n)))"

text \<open>Cost, currency and warning.\<close>

definition provider_reported_cost :: "provider_response \<Rightarrow> decimal option \<times> string option \<times> string option" where
  "provider_reported_cost response =
     (case rs_raw_cost_native response of
        PNone \<Rightarrow> (None, None, None)
      | PDec cost \<Rightarrow>
          if cost < 0 then (None, None, Some ''provider_reported_cost_invalid'')
          else (case provider_reported_currency response of
                  Inl _ \<Rightarrow> (None, None, Some ''provider_reported_currency_invalid'')
                | Inr None \<Rightarrow> (None, None, Some ''provider_reported_currency_missing'')
                | Inr (Some currency) \<Rightarrow> (Some cost, Some currency, None))
      | _ \<Rightarrow> (None, None, Some ''provider_reported_cost_invalid''))"

definition provider_reported_cost_to_eur :: "decimal \<Rightarrow> string \<Rightarrow> string \<Rightarrow> cost_estimate \<Rightarrow> decimal option" where
  "provider_reported_cost_to_eur cost currency native_currency estimate =
     (if currency = ''EUR'' then Some cost
      else if currency \<noteq> native_currency then None
      else case convert_estimate_native_to_eur cost native_currency
                  (ce_estimated_total_cost_native estimate) (ce_estimated_total_cost_eur estimate) of
             Inr eur \<Rightarrow> Some eur
           | Inl _ \<Rightarrow> None)"

section \<open>Codex components\<close>

definition dict_eq :: "pydict \<Rightarrow> pydict \<Rightarrow> bool" where
  "dict_eq a b = list_all (\<lambda>k. map_of a k = map_of b k) (map fst a @ map fst b)"

definition keys_within :: "string list \<Rightarrow> pydict \<Rightarrow> bool" where
  "keys_within allowed d = list_all (\<lambda>kv. fst kv \<in> set allowed) d"

definition validate_raw_usage_count :: "pydict \<Rightarrow> string \<Rightarrow> int option \<Rightarrow> unit result" where
  "validate_raw_usage_count raw field typed =
     (case map_of raw field of
        None \<Rightarrow> ensure (typed = None) (UnsupportedProviderCostError field)
      | Some (PInt i) \<Rightarrow> ensure (\<not> (i < 0 \<or> typed \<noteq> Some i)) (UnsupportedProviderCostError field)
      | Some _ \<Rightarrow> Inl (UnsupportedProviderCostError field))"

text \<open>The detail mappings present under one of the two alias names, each checked.\<close>

fun detail_shapes :: "string list \<Rightarrow> string list \<Rightarrow> pydict \<Rightarrow> pydict list result" where
  "detail_shapes allowed [] other = Inr []"
| "detail_shapes allowed (field # names) other =
     (case dget other field of
        PNone \<Rightarrow> detail_shapes allowed names other
      | PDict raw \<Rightarrow>
          sbind (ensure (keys_within allowed raw) (UnsupportedProviderCostError field)) (\<lambda>_.
          sbind (detail_shapes allowed names other) (\<lambda>rest. Inr (raw # rest)))
      | _ \<Rightarrow> Inl (UnsupportedProviderCostError field))"

definition aliases_agree :: "pydict list \<Rightarrow> string \<Rightarrow> unit result" where
  "aliases_agree shapes param =
     (case shapes of
        a # b # _ \<Rightarrow> ensure (dict_eq a b) (UnsupportedProviderCostError param)
      | _ \<Rightarrow> Inr ())"

definition validate_codex_usage_detail_shape :: "actual_usage \<Rightarrow> unit result" where
  "validate_codex_usage_detail_shape usage =
     sbind (detail_shapes [''cached_tokens'', ''cache_write_tokens'']
              [''input_tokens_details'', ''prompt_tokens_details''] (au_other_usage usage)) (\<lambda>inputs.
     sbind (aliases_agree inputs ''input_tokens_details'') (\<lambda>_.
     sbind (case inputs of
              [] \<Rightarrow> Inr ()
            | raw # _ \<Rightarrow>
                sbind (validate_raw_usage_count raw ''cached_tokens'' (au_cached_tokens usage)) (\<lambda>_.
                validate_raw_usage_count raw ''cache_write_tokens'' (au_cache_write_tokens usage))) (\<lambda>_.
     sbind (detail_shapes [''reasoning_tokens'']
              [''output_tokens_details'', ''completion_tokens_details''] (au_other_usage usage)) (\<lambda>outputs.
     sbind (aliases_agree outputs ''output_tokens_details'') (\<lambda>_.
     (case outputs of
        [] \<Rightarrow> Inr ()
      | raw # _ \<Rightarrow> validate_raw_usage_count raw ''reasoning_tokens'' (au_reasoning_tokens usage)))))))"

type_synonym components = "(string \<times> decimal) list \<times> (string \<times> int) list \<times> string list"

text \<open>\<open>required_prices\<close>: each must be present and non-negative.\<close>

definition required_price :: "string \<Rightarrow> decimal option \<Rightarrow> decimal result" where
  "required_price field value =
     sbind (the_or_raise value (UnsupportedProviderCostError field)) (\<lambda>p.
     sbind (validate_price p field) (\<lambda>_. Inr p))"

definition codex_component_slaif_costs :: "actual_usage \<Rightarrow> cost_estimate \<Rightarrow> components result" where
  "codex_component_slaif_costs usage est =
     sbind (required_price ''input_price_per_1m'' (ce_input_price_per_1m est)) (\<lambda>input_price.
     sbind (required_price ''cached_input_price_per_1m'' (ce_cached_input_price_per_1m est)) (\<lambda>cached_price.
     sbind (required_price ''cache_write_input_price_per_1m'' (ce_cache_write_input_price_per_1m est)) (\<lambda>cache_write_price.
     sbind (required_price ''output_price_per_1m'' (ce_output_price_per_1m est)) (\<lambda>output_price.
     sbind (required_price ''reasoning_price_per_1m'' (ce_reasoning_price_per_1m est)) (\<lambda>reasoning_price.
     sbind (required_price ''long_context_input_multiplier'' (ce_long_context_input_multiplier est)) (\<lambda>input_multiplier.
     sbind (required_price ''long_context_output_multiplier'' (ce_long_context_output_multiplier est)) (\<lambda>output_multiplier.
     sbind (case ce_long_context_threshold_tokens est of
              Some t \<Rightarrow> if t \<le> 0 then Inl (UnsupportedProviderCostError ''long_context_threshold_tokens'') else Inr t
            | None \<Rightarrow> Inl (UnsupportedProviderCostError ''long_context_threshold_tokens'')) (\<lambda>threshold.
     sbind (validate_codex_usage_detail_shape usage) (\<lambda>_.
     sbind (ensure (au_prompt_tokens usage + au_completion_tokens usage = au_total_tokens usage)
              (UnsupportedProviderCostError ''total_tokens'')) (\<lambda>_.
     (let cached_tokens = or_zero (au_cached_tokens usage);
          cache_write_tokens = or_zero (au_cache_write_tokens usage);
          reasoning_tokens = or_zero (au_reasoning_tokens usage)
      in
     sbind (ensure (\<not> au_prompt_tokens usage < cached_tokens + cache_write_tokens)
              (UnsupportedProviderCostError ''input_tokens_details'')) (\<lambda>_.
     sbind (ensure (\<not> au_completion_tokens usage < reasoning_tokens)
              (UnsupportedProviderCostError ''output_tokens_details.reasoning_tokens'')) (\<lambda>_.
     sbind (ensure (or_zero (audio_output_tokens (au_other_usage usage)) = 0)
              (UnsupportedProviderCostError ''output_tokens_details'')) (\<lambda>_.
     (let ordinary_input = au_prompt_tokens usage - cached_tokens - cache_write_tokens;
          ordinary_output = au_completion_tokens usage - reasoning_tokens;
          long_context = threshold < au_prompt_tokens usage;
          im = (if long_context then input_multiplier else 1);
          om = (if long_context then output_multiplier else 1)
      in Inr ([(''input_uncached'', tokens_to_cost ordinary_input (dec_mul input_price im)),
               (''input_cached'', tokens_to_cost cached_tokens (dec_mul cached_price im)),
               (''input_cache_write'', tokens_to_cost cache_write_tokens (dec_mul cache_write_price im)),
               (''output_non_reasoning'', tokens_to_cost ordinary_output (dec_mul output_price om)),
               (''output_reasoning'', tokens_to_cost reasoning_tokens (dec_mul reasoning_price om)),
               (''output_audio'', 0)],
              [(''input_uncached_tokens'', ordinary_input), (''input_cached_tokens'', cached_tokens),
               (''input_cache_write_tokens'', cache_write_tokens),
               (''output_non_reasoning_tokens'', ordinary_output),
               (''output_reasoning_tokens'', reasoning_tokens), (''output_audio_tokens'', 0),
               (''long_context_tier_applied'', if long_context then 1 else 0),
               (''total_tokens'', au_total_tokens usage)],
              if long_context then [''codex_long_context_tier_applied''] else []))))))))))))))))"

section \<open>Standard components\<close>

text \<open>The three steps \<open>price = configured or fallback\<close>, with the warning when tokens are priced by the
  fallback.\<close>

definition price_or_fallback :: "int \<Rightarrow> decimal option \<Rightarrow> decimal \<Rightarrow> string \<Rightarrow> decimal \<times> string list" where
  "price_or_fallback tokens price fallback warning =
     (case price of
        Some p \<Rightarrow> (p, [])
      | None \<Rightarrow> (fallback, if tokens \<noteq> 0 then [warning] else []))"

definition warn :: "bool \<Rightarrow> string \<Rightarrow> string list" where
  "warn b w = (if b then [w] else [])"

definition above :: "int option \<Rightarrow> int \<Rightarrow> bool" where
  "above v bound = (case v of None \<Rightarrow> False | Some i \<Rightarrow> bound < i)"

text \<open>Cached input, audio output and reasoning output tokens, capped by what they are part of.\<close>

definition cached_part :: "actual_usage \<Rightarrow> int" where
  "cached_part usage = min (or_zero (au_cached_tokens usage)) (au_prompt_tokens usage)"

definition audio_part :: "actual_usage \<Rightarrow> int" where
  "audio_part usage =
     min (or_zero (audio_output_tokens (au_other_usage usage))) (au_completion_tokens usage)"

definition reasoning_part :: "actual_usage \<Rightarrow> int" where
  "reasoning_part usage =
     min (or_zero (au_reasoning_tokens usage)) (au_completion_tokens usage - audio_part usage)"

definition component_slaif_costs :: "actual_usage \<Rightarrow> cost_estimate \<Rightarrow> bool \<Rightarrow> components result" where
  "component_slaif_costs usage est allow_unpriced_audio =
     (if ce_codex_accounting est then codex_component_slaif_costs usage est
      else
     sbind (price_per_1m (ce_input_price_per_1m est) (ce_estimated_input_cost_native est)
              (ce_estimated_input_tokens est) ''input_price_per_1m'') (\<lambda>input_price.
     sbind (ensure (\<not> (ce_input_price_per_1m est = None \<and> ce_estimated_input_tokens est \<le> 0
                        \<and> 0 < au_prompt_tokens usage)) (UnsupportedProviderCostError ''prompt_tokens'')) (\<lambda>_.
     sbind (price_per_1m (ce_output_price_per_1m est) (ce_estimated_output_cost_native est)
              (ce_estimated_output_tokens est) ''output_price_per_1m'') (\<lambda>output_price.
     sbind (ensure (\<not> (ce_output_price_per_1m est = None \<and> ce_estimated_output_tokens est \<le> 0
                        \<and> 0 < au_completion_tokens usage)) (UnsupportedProviderCostError ''completion_tokens'')) (\<lambda>_.
     (let cached = cached_part usage;
          uncached = au_prompt_tokens usage - cached;
          (cached_price, w1) = price_or_fallback cached (ce_cached_input_price_per_1m est) input_price
                                 ''cached_input_price_fallback_to_input''
      in
     sbind (validate_price cached_price ''cached_input_price_per_1m'') (\<lambda>_.
     (let audio = audio_part usage;
          reasoning = reasoning_part usage;
          non_reasoning = au_completion_tokens usage - reasoning - audio;
          (reasoning_price, w2) = price_or_fallback reasoning (ce_reasoning_price_per_1m est) output_price
                                    ''reasoning_price_fallback_to_output''
      in
     sbind (validate_price reasoning_price ''reasoning_price_per_1m'') (\<lambda>_.
     (let w3 = warn (above (au_cached_tokens usage) (au_prompt_tokens usage)) ''cached_tokens_exceed_prompt_tokens_capped''
            @ warn (above (au_reasoning_tokens usage) (au_completion_tokens usage)) ''reasoning_tokens_exceed_completion_tokens_capped''
            @ warn (au_completion_tokens usage < or_zero (audio_output_tokens (au_other_usage usage)))
                ''audio_output_tokens_exceed_completion_tokens_capped''
            @ warn (au_prompt_tokens usage + au_completion_tokens usage < au_total_tokens usage)
                ''total_tokens_include_unpriced_provider_components''
      in
     sbind (ensure (\<not> (audio \<noteq> 0 \<and> ce_audio_output_price_per_1m est = None \<and> \<not> allow_unpriced_audio))
              (UnsupportedProviderCostError ''audio'')) (\<lambda>_.
     (let (audio_price, w4) = price_or_fallback audio (ce_audio_output_price_per_1m est) output_price
                                ''audio_output_price_fallback_to_output_for_provider_cost_comparison''
      in
     sbind (validate_price audio_price ''audio_output_price_per_1m'') (\<lambda>_.
     Inr ([(''input_uncached'', tokens_to_cost uncached input_price),
           (''input_cached'', tokens_to_cost cached cached_price),
           (''output_non_reasoning'', tokens_to_cost non_reasoning output_price),
           (''output_reasoning'', tokens_to_cost reasoning reasoning_price),
           (''output_audio'', tokens_to_cost audio audio_price)],
          [(''input_uncached_tokens'', uncached), (''input_cached_tokens'', cached),
           (''output_non_reasoning_tokens'', non_reasoning), (''output_reasoning_tokens'', reasoning),
           (''output_audio_tokens'', audio), (''total_tokens'', au_total_tokens usage)],
          w1 @ w2 @ w3 @ w4))))))))))))))"

section \<open>The cost to charge\<close>

definition fixed_request_usage :: actual_usage where
  "fixed_request_usage =
     \<lparr>au_prompt_tokens = 0, au_completion_tokens = 0, au_total_tokens = 0, au_cached_tokens = Some 0,
      au_cache_write_tokens = Some 0, au_reasoning_tokens = Some 0, au_other_usage = []\<rparr>"

definition fixed_request_actual_cost :: "cost_estimate \<Rightarrow> actual_cost result" where
  "fixed_request_actual_cost est =
     sbind (case ce_request_price est of
              Some p \<Rightarrow> if p < 0 then Inl (UnsupportedProviderCostError ''request_price'') else Inr p
            | None \<Rightarrow> Inl (UnsupportedProviderCostError ''request_price'')) (\<lambda>request_price.
     sbind (normalize_currency (ce_native_currency est)) (\<lambda>currency.
     Inr \<lparr>ac_actual_cost_eur = ce_estimated_total_cost_eur est, ac_actual_cost_native = request_price,
          ac_native_currency = currency,
          ac_slaif_calculated_cost_eur = ce_estimated_total_cost_eur est,
          ac_slaif_calculated_cost_native = request_price,
          ac_cost_source = ''slaif_calculated'', ac_cost_confidence = ''fixed_request_pricing'',
          ac_cost_warnings = [], ac_component_costs_native = [(''request'', request_price)],
          ac_component_token_counts = [(''total_tokens'', 0)],
          ac_provider_reported_cost_native = None, ac_provider_reported_currency = None,
          ac_provider_reported_cost_eur = None\<rparr>))"

text \<open>\<open>tuple(dict.fromkeys(xs))\<close>: the first occurrence of each.\<close>

definition dict_fromkeys :: "'a list \<Rightarrow> 'a list" where
  "dict_fromkeys xs = rev (remdups (rev xs))"

definition compute_actual_cost ::
  "provider_response \<Rightarrow> route_resolution \<Rightarrow> actual_usage \<Rightarrow> cost_estimate \<Rightarrow> string \<Rightarrow> actual_cost result" where
  "compute_actual_cost response route usage est endpoint =
     (if is_fixed_request_module_billing (rt_provider_kind route) endpoint
      then fixed_request_actual_cost est
      else
     sbind (normalize_currency (ce_native_currency est)) (\<lambda>native_currency.
     (let (reported, reported_currency, provider_warning) = provider_reported_cost response;
          openrouter = (rs_provider response = ''openrouter'');
          reported_eur =
            (case (reported, reported_currency) of
               (Some c, Some cur) \<Rightarrow> provider_reported_cost_to_eur c cur native_currency est
             | _ \<Rightarrow> None);
          both = (reported \<noteq> None \<and> reported_currency \<noteq> None);
          trusted = (both \<and> openrouter \<and> reported_eur \<noteq> None);
          w0 = (case provider_warning of None \<Rightarrow> [] | Some w \<Rightarrow> [w]);
          w1 = warn (both \<and> openrouter \<and> reported_eur = None) ''provider_reported_cost_currency_unsupported''
      in
     sbind (component_slaif_costs usage est trusted) (\<lambda>(costs, tokens, w2).
     (let slaif_native = dec_sum (map snd costs) in
     sbind (convert_estimate_native_to_eur slaif_native native_currency
              (ce_estimated_total_cost_native est) (ce_estimated_total_cost_eur est)) (\<lambda>slaif_eur.
     (let warnings = w0 @ w1 @ w2;
          w3 = warn (\<not> trusted \<and> reported \<noteq> None \<and> \<not> openrouter)
                 ''provider_reported_cost_not_supported_for_provider'';
          confidence =
            (if trusted then ''provider_reported_with_slaif_comparison''
             else if reported \<noteq> None then ''slaif_calculated_provider_cost_untrusted''
             else if warnings \<noteq> [] then ''slaif_calculated_with_fallbacks''
             else ''slaif_calculated'')
      in Inr \<lparr>ac_actual_cost_eur = (if trusted then the reported_eur else slaif_eur),
              ac_actual_cost_native = (if trusted then the reported else slaif_native),
              ac_native_currency = (if trusted then the reported_currency else native_currency),
              ac_slaif_calculated_cost_eur = slaif_eur,
              ac_slaif_calculated_cost_native = slaif_native,
              ac_cost_source = (if trusted then ''provider_reported'' else ''slaif_calculated''),
              ac_cost_confidence = confidence,
              ac_cost_warnings = dict_fromkeys (warnings @ w3),
              ac_component_costs_native = costs,
              ac_component_token_counts = tokens,
              ac_provider_reported_cost_native = reported,
              ac_provider_reported_currency = reported_currency,
              ac_provider_reported_cost_eur = reported_eur\<rparr>)))))))"

lemmas cost_eval [eval_simps] =
  optional_token_count_def safe_json_mapping_def or_zero_def extract_usage_def audio_output_tokens_def
  one_million_def validate_price_def price_per_1m_def tokens_to_cost_def normalize_currency_def
  convert_estimate_native_to_eur_def provider_reported_currency_def provider_reported_cost_def
  provider_reported_cost_to_eur_def price_or_fallback_def warn_def above_def cached_part_def audio_part_def reasoning_part_def component_slaif_costs_def
  fixed_request_usage_def fixed_request_actual_cost_def dict_fromkeys_def compute_actual_cost_def
  dec_sum_def sanitize_metadata_mapping_def

section \<open>Usage that passes extraction\<close>

definition usage_ok :: "actual_usage \<Rightarrow> bool" where
  "usage_ok u =
     (0 \<le> au_prompt_tokens u \<and> 0 \<le> au_completion_tokens u
      \<and> au_prompt_tokens u + au_completion_tokens u \<le> au_total_tokens u
      \<and> opt_all (\<lambda>i. 0 \<le> i) (au_cached_tokens u) \<and> opt_all (\<lambda>i. 0 \<le> i) (au_cache_write_tokens u)
      \<and> opt_all (\<lambda>i. 0 \<le> i) (au_reasoning_tokens u))"

lemma optional_token_count_Inr:
  "optional_token_count v f = Inr n \<longleftrightarrow>
     (v = PNone \<and> n = None) \<or> (\<exists>i. v = PInt i \<and> 0 \<le> i \<and> n = Some i)"
  by (cases v) (auto simp: optional_token_count_def split: if_splits)

lemma or_zero_nonneg: "opt_all (\<lambda>i. 0 \<le> i) v \<Longrightarrow> 0 \<le> or_zero v"
  by (cases v) (auto simp: or_zero_def opt_all_def)

lemma optional_token_count_nonneg:
  "optional_token_count v f = Inr n \<Longrightarrow> opt_all (\<lambda>i. 0 \<le> i) n \<and> 0 \<le> or_zero n"
  by (auto simp: optional_token_count_Inr opt_all_def or_zero_def)

lemma extract_usage_ok: "extract_usage response = Inr u \<Longrightarrow> usage_ok u"
  unfolding extract_usage_def usage_ok_def
  by (auto simp: not_less dest!: optional_token_count_nonneg)

lemma usage_ok_fixed: "usage_ok fixed_request_usage"
  by (simp add: usage_ok_def fixed_request_usage_def opt_all_def)

section \<open>Component lists\<close>

lemma price_or_fallback_eq:
  "price_or_fallback t p f w =
     (case p of Some x \<Rightarrow> x | None \<Rightarrow> f, if p = None \<and> t \<noteq> 0 then [w] else [])"
  by (cases p) (auto simp: price_or_fallback_def)

definition price_or :: "decimal option \<Rightarrow> decimal \<Rightarrow> decimal" where
  "price_or p fallback = (case p of Some x \<Rightarrow> x | None \<Rightarrow> fallback)"

lemma component_slaif_costs_Inr:
  assumes "component_slaif_costs usage est allow = Inr (costs, tokens, ws)" "\<not> ce_codex_accounting est"
  obtains ip op where
    "price_per_1m (ce_input_price_per_1m est) (ce_estimated_input_cost_native est)
       (ce_estimated_input_tokens est) ''input_price_per_1m'' = Inr ip"
    "price_per_1m (ce_output_price_per_1m est) (ce_estimated_output_cost_native est)
       (ce_estimated_output_tokens est) ''output_price_per_1m'' = Inr op"
    "0 \<le> price_or (ce_cached_input_price_per_1m est) ip"
    "0 \<le> price_or (ce_reasoning_price_per_1m est) op"
    "0 \<le> price_or (ce_audio_output_price_per_1m est) op"
    "costs = [(''input_uncached'', tokens_to_cost (au_prompt_tokens usage - cached_part usage) ip),
              (''input_cached'', tokens_to_cost (cached_part usage) (price_or (ce_cached_input_price_per_1m est) ip)),
              (''output_non_reasoning'',
                 tokens_to_cost (au_completion_tokens usage - reasoning_part usage - audio_part usage) op),
              (''output_reasoning'', tokens_to_cost (reasoning_part usage) (price_or (ce_reasoning_price_per_1m est) op)),
              (''output_audio'', tokens_to_cost (audio_part usage) (price_or (ce_audio_output_price_per_1m est) op))]"
    "tokens = [(''input_uncached_tokens'', au_prompt_tokens usage - cached_part usage),
               (''input_cached_tokens'', cached_part usage),
               (''output_non_reasoning_tokens'', au_completion_tokens usage - reasoning_part usage - audio_part usage),
               (''output_reasoning_tokens'', reasoning_part usage), (''output_audio_tokens'', audio_part usage),
               (''total_tokens'', au_total_tokens usage)]"
proof -
  have "\<exists>ip op. price_per_1m (ce_input_price_per_1m est) (ce_estimated_input_cost_native est)
       (ce_estimated_input_tokens est) ''input_price_per_1m'' = Inr ip
    \<and> price_per_1m (ce_output_price_per_1m est) (ce_estimated_output_cost_native est)
       (ce_estimated_output_tokens est) ''output_price_per_1m'' = Inr op
    \<and> 0 \<le> price_or (ce_cached_input_price_per_1m est) ip
    \<and> 0 \<le> price_or (ce_reasoning_price_per_1m est) op
    \<and> 0 \<le> price_or (ce_audio_output_price_per_1m est) op
    \<and> costs = [(''input_uncached'', tokens_to_cost (au_prompt_tokens usage - cached_part usage) ip),
              (''input_cached'', tokens_to_cost (cached_part usage) (price_or (ce_cached_input_price_per_1m est) ip)),
              (''output_non_reasoning'',
                 tokens_to_cost (au_completion_tokens usage - reasoning_part usage - audio_part usage) op),
              (''output_reasoning'', tokens_to_cost (reasoning_part usage) (price_or (ce_reasoning_price_per_1m est) op)),
              (''output_audio'', tokens_to_cost (audio_part usage) (price_or (ce_audio_output_price_per_1m est) op))]"
    using assms
    apply (simp add: component_slaif_costs_def Let_def price_or_fallback_eq validate_price_def not_less
        flip: price_or_def)
    apply (elim exE conjE)
    apply simp
    done
  moreover have "tokens = [(''input_uncached_tokens'', au_prompt_tokens usage - cached_part usage),
               (''input_cached_tokens'', cached_part usage),
               (''output_non_reasoning_tokens'', au_completion_tokens usage - reasoning_part usage - audio_part usage),
               (''output_reasoning_tokens'', reasoning_part usage), (''output_audio_tokens'', audio_part usage),
               (''total_tokens'', au_total_tokens usage)]"
    using assms by (auto simp: component_slaif_costs_def Let_def price_or_fallback_eq)
  ultimately show ?thesis using that by blast
qed

section \<open>Costs are never negative\<close>

lemma price_per_1m_nonneg: "price_per_1m v c t p = Inr x \<Longrightarrow> 0 \<le> x"
  by (auto simp: price_per_1m_def validate_price_def one_million_def intro!: dec_div_nonneg dec_mul_nonneg
      split: option.splits if_splits)

lemma tokens_to_cost_nonneg: "0 \<le> t \<Longrightarrow> 0 \<le> p \<Longrightarrow> 0 \<le> tokens_to_cost t p"
  unfolding tokens_to_cost_def one_million_def by (intro dec_mul_nonneg dec_div_nonneg) auto

lemma parts_bounds:
  assumes "usage_ok u" "au_other_usage u = d"
  shows "0 \<le> cached_part u" "cached_part u \<le> au_prompt_tokens u" "0 \<le> audio_part u"
    "0 \<le> reasoning_part u" "reasoning_part u + audio_part u \<le> au_completion_tokens u"
proof -
  have audio: "0 \<le> or_zero (first_count vs)" for vs
    by (induction vs rule: first_count.induct) (auto simp: or_zero_def)
  show "0 \<le> cached_part u" "cached_part u \<le> au_prompt_tokens u" "0 \<le> audio_part u"
    "0 \<le> reasoning_part u" "reasoning_part u + audio_part u \<le> au_completion_tokens u"
    using assms audio or_zero_nonneg
    by (auto simp: cached_part_def audio_part_def reasoning_part_def usage_ok_def audio_output_tokens_def)
qed

lemma required_price_Inr: "required_price f v = Inr p \<longleftrightarrow> v = Some p \<and> 0 \<le> p"
  by (auto simp: required_price_def validate_price_def)

text \<open>The shape of the Codex components, used for both cost and token statements.\<close>

lemma codex_Inr:
  assumes "codex_component_slaif_costs usage est = Inr (costs, tokens, ws)"
  obtains ip cp wp op rp im om cached cwrite reasoning where
    "0 \<le> ip" "0 \<le> cp" "0 \<le> wp" "0 \<le> op" "0 \<le> rp" "0 \<le> im" "0 \<le> om"
    "cached = or_zero (au_cached_tokens usage)" "cwrite = or_zero (au_cache_write_tokens usage)"
    "reasoning = or_zero (au_reasoning_tokens usage)"
    "cached + cwrite \<le> au_prompt_tokens usage" "reasoning \<le> au_completion_tokens usage"
    "map snd costs = [tokens_to_cost (au_prompt_tokens usage - cached - cwrite) (dec_mul ip im),
       tokens_to_cost cached (dec_mul cp im), tokens_to_cost cwrite (dec_mul wp im),
       tokens_to_cost (au_completion_tokens usage - reasoning) (dec_mul op om),
       tokens_to_cost reasoning (dec_mul rp om), 0]"
    "\<exists>tier. tokens = [(''input_uncached_tokens'', au_prompt_tokens usage - cached - cwrite),
       (''input_cached_tokens'', cached), (''input_cache_write_tokens'', cwrite),
       (''output_non_reasoning_tokens'', au_completion_tokens usage - reasoning),
       (''output_reasoning_tokens'', reasoning), (''output_audio_tokens'', 0),
       (''long_context_tier_applied'', if tier then 1 else 0), (''total_tokens'', au_total_tokens usage)]"
    "ce_input_price_per_1m est = Some ip" "ce_cached_input_price_per_1m est = Some cp"
    "ce_cache_write_input_price_per_1m est = Some wp" "ce_output_price_per_1m est = Some op"
    "ce_reasoning_price_per_1m est = Some rp" "im = 1 \<or> ce_long_context_input_multiplier est = Some im"
    "om = 1 \<or> ce_long_context_output_multiplier est = Some om"
proof -
  obtain ip cp wp op rp im om th where
    p: "required_price ''input_price_per_1m'' (ce_input_price_per_1m est) = Inr ip"
       "required_price ''cached_input_price_per_1m'' (ce_cached_input_price_per_1m est) = Inr cp"
       "required_price ''cache_write_input_price_per_1m'' (ce_cache_write_input_price_per_1m est) = Inr wp"
       "required_price ''output_price_per_1m'' (ce_output_price_per_1m est) = Inr op"
       "required_price ''reasoning_price_per_1m'' (ce_reasoning_price_per_1m est) = Inr rp"
       "required_price ''long_context_input_multiplier'' (ce_long_context_input_multiplier est) = Inr im"
       "required_price ''long_context_output_multiplier'' (ce_long_context_output_multiplier est) = Inr om"
    and g: "or_zero (au_cached_tokens usage) + or_zero (au_cache_write_tokens usage) \<le> au_prompt_tokens usage"
      "or_zero (au_reasoning_tokens usage) \<le> au_completion_tokens usage"
    and c: "costs =
      (let im' = (if th < au_prompt_tokens usage then im else 1);
           om' = (if th < au_prompt_tokens usage then om else 1)
       in [(''input_uncached'', tokens_to_cost (au_prompt_tokens usage - or_zero (au_cached_tokens usage)
              - or_zero (au_cache_write_tokens usage)) (dec_mul ip im')),
           (''input_cached'', tokens_to_cost (or_zero (au_cached_tokens usage)) (dec_mul cp im')),
           (''input_cache_write'', tokens_to_cost (or_zero (au_cache_write_tokens usage)) (dec_mul wp im')),
           (''output_non_reasoning'', tokens_to_cost (au_completion_tokens usage - or_zero (au_reasoning_tokens usage)) (dec_mul op om')),
           (''output_reasoning'', tokens_to_cost (or_zero (au_reasoning_tokens usage)) (dec_mul rp om')),
           (''output_audio'', 0)])"
    and t: "\<exists>tier. tokens = [(''input_uncached_tokens'', au_prompt_tokens usage - or_zero (au_cached_tokens usage)
              - or_zero (au_cache_write_tokens usage)),
       (''input_cached_tokens'', or_zero (au_cached_tokens usage)),
       (''input_cache_write_tokens'', or_zero (au_cache_write_tokens usage)),
       (''output_non_reasoning_tokens'', au_completion_tokens usage - or_zero (au_reasoning_tokens usage)),
       (''output_reasoning_tokens'', or_zero (au_reasoning_tokens usage)), (''output_audio_tokens'', 0),
       (''long_context_tier_applied'', if tier then 1 else 0), (''total_tokens'', au_total_tokens usage)]"
    using assms unfolding codex_component_slaif_costs_def Let_def
    by (simp add: not_less) blast
  from p have "0 \<le> ip" "0 \<le> cp" "0 \<le> wp" "0 \<le> op" "0 \<le> rp" "0 \<le> im" "0 \<le> om"
    "ce_input_price_per_1m est = Some ip" "ce_cached_input_price_per_1m est = Some cp"
    "ce_cache_write_input_price_per_1m est = Some wp" "ce_output_price_per_1m est = Some op"
    "ce_reasoning_price_per_1m est = Some rp" "ce_long_context_input_multiplier est = Some im"
    "ce_long_context_output_multiplier est = Some om"
    by (simp_all add: required_price_Inr)
  then show ?thesis using g t c
    by (intro that[where ip = ip and cp = cp and wp = wp and op = op and rp = rp
          and im = "if th < au_prompt_tokens usage then im else 1" and om = "if th < au_prompt_tokens usage then om else 1"])
       (auto simp: Let_def)
qed

lemma component_costs_nonneg:
  assumes "component_slaif_costs usage est allow = Inr (costs, tokens, ws)" "usage_ok usage"
  shows "\<forall>x \<in> set (map snd costs). 0 \<le> x"
proof (cases "ce_codex_accounting est")
  case True
  then have c: "codex_component_slaif_costs usage est = Inr (costs, tokens, ws)"
    using assms(1) by (simp add: component_slaif_costs_def)
  show ?thesis
    by (rule codex_Inr[OF c]) (use assms(2) in \<open>auto simp: usage_ok_def or_zero_nonneg
        intro!: tokens_to_cost_nonneg dec_mul_nonneg\<close>)
next
  case False
  from assms(1) this show ?thesis
  proof (cases rule: component_slaif_costs_Inr)
    case (1 ip op)
    note b = parts_bounds[OF assms(2) refl]
    have "0 \<le> ip" "0 \<le> op" using 1(1,2) by (auto dest: price_per_1m_nonneg)
    then show ?thesis using 1(3-5) b unfolding 1(6)
      by (auto intro!: tokens_to_cost_nonneg)
  qed
qed

lemma convert_nonneg: "convert_estimate_native_to_eur a cur n e = Inr x \<Longrightarrow> 0 \<le> a \<Longrightarrow> 0 \<le> x"
  by (auto simp: convert_estimate_native_to_eur_def split: if_splits intro!: dec_mul_nonneg dec_div_nonneg)

lemma provider_reported_nonneg:
  "provider_reported_cost response = (Some c, cur, w) \<Longrightarrow> 0 \<le> c"
  by (auto simp: provider_reported_cost_def split: pyval.splits if_splits sum.splits option.splits)

lemma reported_to_eur_nonneg: "provider_reported_cost_to_eur c cur ncur est = Some x \<Longrightarrow> 0 \<le> c \<Longrightarrow> 0 \<le> x"
  by (auto simp: provider_reported_cost_to_eur_def dest: convert_nonneg split: if_splits sum.splits)

lemma compute_actual_cost_Inr:
  assumes "compute_actual_cost response route usage est endpoint = Inr c"
    "\<not> is_fixed_request_module_billing (rt_provider_kind route) endpoint"
  obtains ncur allow costs tokens ws eur where
    "component_slaif_costs usage est allow = Inr (costs, tokens, ws)"
    "ac_component_token_counts c = tokens" "ac_component_costs_native c = costs"
    "ac_slaif_calculated_cost_native c = dec_sum (map snd costs)"
    "convert_estimate_native_to_eur (dec_sum (map snd costs)) ncur (ce_estimated_total_cost_native est)
       (ce_estimated_total_cost_eur est) = Inr eur"
    "ac_slaif_calculated_cost_eur c = eur"
    "ac_actual_cost_eur c = eur \<and> ac_cost_source c = ''slaif_calculated''
     \<or> (\<exists>r cur. provider_reported_cost response = (Some r, Some cur, None) \<and> rs_provider response = ''openrouter''
          \<and> provider_reported_cost_to_eur r cur ncur est = Some (ac_actual_cost_eur c)
          \<and> ac_cost_source c = ''provider_reported'')"
    "normalize_currency (ce_native_currency est) = Inr ncur"
proof -
  obtain rep cur w where r: "provider_reported_cost response = (rep, cur, w)" by (metis prod_cases3)
  have w: "w = None" if "rep \<noteq> None"
    using r that by (auto simp: provider_reported_cost_def split: pyval.splits if_splits sum.splits option.splits)
  show ?thesis
  proof (cases "rep = None \<or> cur = None")
    case True
    then show ?thesis
      using assms that unfolding compute_actual_cost_def Let_def r prod.case
      by (cases rep; cases cur) (auto simp: r)
  next
    case False
    then obtain a b where ab: "rep = Some a" "cur = Some b" "w = None" using w by auto
    show ?thesis
      using assms that unfolding compute_actual_cost_def Let_def r ab prod.case
      by (auto simp: r ab split: if_splits)
  qed
qed

section \<open>Properties\<close>

text \<open>The cost charged for a response is never negative: for usage that passed extraction and a
  non-negative estimate, \<open>compute_actual_cost\<close> yields non-negative actual and calculated costs,
  whether it takes the provider's figure or its own, or it raises.\<close>

theorem compute_actual_cost_nonneg:
  assumes "compute_actual_cost response route usage est endpoint = Inr c"
    and "usage_ok usage" and "0 \<le> ce_estimated_total_cost_eur est"
  shows "0 \<le> ac_actual_cost_eur c \<and> 0 \<le> ac_slaif_calculated_cost_eur c
    \<and> 0 \<le> ac_slaif_calculated_cost_native c"
proof (cases "is_fixed_request_module_billing (rt_provider_kind route) endpoint")
  case True
  then show ?thesis
    using assms by (auto simp: compute_actual_cost_def fixed_request_actual_cost_def split: option.splits if_splits)
next
  case False
  from assms(1) this show ?thesis
  proof (cases rule: compute_actual_cost_Inr)
    case (1 ncur allow costs tokens ws eur)
    have "0 \<le> dec_sum (map snd costs)"
      by (rule dec_sum_nonneg, rule component_costs_nonneg[OF 1(1) assms(2)])
    then have "0 \<le> eur" using convert_nonneg[OF 1(5)] by simp
    moreover from 1(7) have "0 \<le> ac_actual_cost_eur c"
      using \<open>0 \<le> eur\<close> by (auto dest: provider_reported_nonneg reported_to_eur_nonneg)
    ultimately show ?thesis using \<open>0 \<le> dec_sum (map snd costs)\<close> 1(4,6) by simp
  qed
qed

text \<open>The usage and the cost of the sample response.\<close>

definition sample_actual :: actual_usage where
  "sample_actual =
     \<lparr>au_prompt_tokens = 10, au_completion_tokens = 2, au_total_tokens = 12, au_cached_tokens = None,
      au_cache_write_tokens = None, au_reasoning_tokens = None, au_other_usage = []\<rparr>"

definition sample_cost :: actual_cost where
  "sample_cost =
     \<lparr>ac_actual_cost_eur = 3, ac_actual_cost_native = 3, ac_native_currency = ''EUR'',
      ac_slaif_calculated_cost_eur = 3, ac_slaif_calculated_cost_native = 3,
      ac_cost_source = ''slaif_calculated'', ac_cost_confidence = ''slaif_calculated'',
      ac_cost_warnings = [],
      ac_component_costs_native =
        [(''input_uncached'', 1), (''input_cached'', 0), (''output_non_reasoning'', 2),
         (''output_reasoning'', 0), (''output_audio'', 0)],
      ac_component_token_counts =
        [(''input_uncached_tokens'', 10), (''input_cached_tokens'', 0),
         (''output_non_reasoning_tokens'', 2), (''output_reasoning_tokens'', 0),
         (''output_audio_tokens'', 0), (''total_tokens'', 12)],
      ac_provider_reported_cost_native = None, ac_provider_reported_currency = None,
      ac_provider_reported_cost_eur = None\<rparr>"

lemma sample_usage_eq: "extract_usage sample_response = Inr sample_actual"
  by (simp add: eval_simps sample_actual_def)

lemma sample_components:
  "component_slaif_costs sample_actual sample_estimate False =
     Inr (ac_component_costs_native sample_cost, ac_component_token_counts sample_cost, [])"
  by (simp add: eval_simps sample_actual_def sample_cost_def Let_def)

lemma sample_not_fixed:
  "is_fixed_request_module_billing (rt_provider_kind sample_route) ''chat.completions'' = False"
  by (simp add: eval_simps)

lemma sample_cost_facts:
  "normalize_currency (ce_native_currency sample_estimate) = Inr ''EUR''"
  "provider_reported_cost sample_response = (None, None, None)"
  "dec_sum (map snd (ac_component_costs_native sample_cost)) = 3"
  "convert_estimate_native_to_eur 3 ''EUR'' (ce_estimated_total_cost_native sample_estimate)
     (ce_estimated_total_cost_eur sample_estimate) = Inr 3"
  by (simp_all add: eval_simps sample_cost_def)

lemma sample_cost_eq:
  "compute_actual_cost sample_response sample_route sample_actual sample_estimate ''chat.completions'' = Inr sample_cost"
  unfolding compute_actual_cost_def sample_not_fixed sample_cost_facts if_False sbind_Inr Let_def prod.case
  by (simp add: sample_components sample_cost_facts warn_def dict_fromkeys_def) (simp add: sample_cost_def)

theorem compute_actual_cost_nonneg_witness:
  "compute_actual_cost sample_response sample_route sample_actual sample_estimate ''chat.completions'' = Inr sample_cost
   \<and> 0 \<le> ac_actual_cost_eur sample_cost"
  using compute_actual_cost_nonneg[OF sample_cost_eq extract_usage_ok[OF sample_usage_eq]] sample_cost_eq
  by (simp add: sample_estimate_def)

text \<open>The priced components account for every token exactly once: for usage that passed extraction,
  the input components add up to the prompt tokens and the output components to the completion
  tokens, and no component is negative, with and without Codex accounting.\<close>

theorem components_partition_usage:
  assumes "component_slaif_costs usage est allow = Inr (costs, tokens, ws)" and "usage_ok usage"
  shows "sum_list (map snd (filter (\<lambda>(n, t). starts_with n ''input_'') tokens)) = au_prompt_tokens usage
    \<and> sum_list (map snd (filter (\<lambda>(n, t). starts_with n ''output_'') tokens)) = au_completion_tokens usage
    \<and> (\<forall>(n, t) \<in> set tokens. 0 \<le> t)"
proof (cases "ce_codex_accounting est")
  case True
  then have c: "codex_component_slaif_costs usage est = Inr (costs, tokens, ws)"
    using assms(1) by (simp add: component_slaif_costs_def)
  show ?thesis
    by (rule codex_Inr[OF c]) (use assms(2) in \<open>auto simp: usage_ok_def or_zero_nonneg\<close>)
next
  case False
  from assms(1) this show ?thesis
  proof (cases rule: component_slaif_costs_Inr)
    case (1 ip op)
    then show ?thesis
      using parts_bounds[OF assms(2) refl] assms(2) by (auto simp: usage_ok_def)
  qed
qed

theorem components_partition_usage_witness:
  "\<exists>costs tokens ws. component_slaif_costs sample_actual sample_estimate False = Inr (costs, tokens, ws)
     \<and> sum_list (map snd (filter (\<lambda>(n, t). starts_with n ''input_'') tokens)) = 10"
  using components_partition_usage[OF sample_components extract_usage_ok[OF sample_usage_eq]]
    sample_components by (auto simp: sample_actual_def)

section \<open>Exact costs\<close>

definition fifteen_places :: "decimal \<Rightarrow> bool" where
  "fifteen_places x = (of_int \<lfloor>x * 10 ^ 15\<rfloor> = x * 10 ^ 15)"

lemma fifteen_places_iff: "fifteen_places x \<longleftrightarrow> (\<exists>n. x = of_int n / 10 ^ 15)"
proof
  assume "fifteen_places x"
  then have "of_int \<lfloor>x * 10 ^ 15\<rfloor> / 10 ^ 15 = x" unfolding fifteen_places_def by simp
  then show "\<exists>n. x = of_int n / 10 ^ 15" by metis
next
  assume "\<exists>n. x = of_int n / 10 ^ 15"
  then show "fifteen_places x" by (auto simp: fifteen_places_def)
qed

lemma fifteen_places_add: "fifteen_places x \<Longrightarrow> fifteen_places y \<Longrightarrow> fifteen_places (x + y)"
  unfolding fifteen_places_iff by (metis add_divide_distrib of_int_add)

lemma dround_fifteen: "fifteen_places x \<Longrightarrow> \<bar>x\<bar> < 10 ^ 13 \<Longrightarrow> dround x = x"
  unfolding fifteen_places_def by (rule dround_grid)

lemma tokens_to_cost_exact:
  assumes "0 \<le> t" "t \<le> 10 ^ 9" "column_value p" "0 \<le> p"
  shows "tokens_to_cost t p = of_int t * p / 10 ^ 6"
    "fifteen_places (tokens_to_cost t p) \<and> 0 \<le> tokens_to_cost t p \<and> tokens_to_cost t p \<le> 10 ^ 12"
proof -
  obtain n where n: "p = of_int n / 10 ^ 9"
    using assms(3) by (auto simp: column_value_def nine_places_iff[symmetric] nine_places_def)
  have "of_int t * p / 10 ^ 6 = of_int (t * n) / 10 ^ 15" by (simp add: n)
  then have grid: "fifteen_places (of_int t * p / 10 ^ 6)" unfolding fifteen_places_iff by blast
  have t: "(0::rat) \<le> of_int t" "of_int t \<le> (10 ^ 9 :: rat)"
    using assms(1,2) of_int_le_iff[of t "10 ^ 9", where 'a = rat] by simp_all
  have "\<bar>p\<bar> < 10 ^ 9" using assms(3) unfolding column_value_def by blast
  then have p: "p \<le> 10 ^ 9" by (simp add: abs_less_iff)
  have "of_int t * p \<le> (10 ^ 9 * 10 ^ 9 :: rat)" using t p assms(4) by (intro mult_mono) auto
  then have le: "of_int t * p / 10 ^ 6 \<le> 10 ^ 12" by simp
  have nn: "0 \<le> of_int t * p / 10 ^ 6" using t assms(4) by simp
  have "fifteen_places (of_int t / 10 ^ 6)"
    unfolding fifteen_places_iff by (intro exI[of _ "t * 10 ^ 9"]) simp
  then have d: "dec_div (of_int t) one_million = of_int t / 10 ^ 6"
    unfolding dec_div_def one_million_def using t dround_fifteen[of "of_int t / 10 ^ 6"] by simp
  have "dround (of_int t * p / 10 ^ 6) = of_int t * p / 10 ^ 6"
    using grid le nn by (intro dround_fifteen) auto
  then show eq: "tokens_to_cost t p = of_int t * p / 10 ^ 6"
    unfolding tokens_to_cost_def d dec_mul_def by simp
  show "fifteen_places (tokens_to_cost t p) \<and> 0 \<le> tokens_to_cost t p \<and> tokens_to_cost t p \<le> 10 ^ 12"
    unfolding eq using grid le nn by blast
qed

text \<open>Sums of a few bounded amounts on the grid are exact.\<close>

lemma foldl_dec_add_exact:
  assumes "fifteen_places a" "0 \<le> a" "\<forall>x \<in> set xs. fifteen_places x \<and> 0 \<le> x \<and> x \<le> 10 ^ 12"
    "a + of_nat (length xs) * 10 ^ 12 < 10 ^ 13"
  shows "foldl dec_add a xs = a + sum_list xs"
  using assms
proof (induction xs arbitrary: a)
  case (Cons x xs)
  have x: "fifteen_places x" "0 \<le> x" "x \<le> 10 ^ 12" using Cons.prems(3) by auto
  have b: "a + x + of_nat (length xs) * 10 ^ 12 < 10 ^ 13"
    using Cons.prems(4) x(3) by (simp add: algebra_simps)
  moreover have "(0::rat) \<le> of_nat (length xs) * 10 ^ 12" by simp
  ultimately have "a + x < 10 ^ 13" by linarith
  then have "dec_add a x = a + x"
    unfolding dec_add_def using Cons.prems(1,2) x by (intro dround_fifteen fifteen_places_add) auto
  then show ?case
    using Cons.IH[of "a + x"] Cons.prems x b by (simp add: fifteen_places_add add.assoc)
qed simp

lemma slaif_cost_formula:
  assumes "component_slaif_costs usage est allow = Inr (costs, tokens, ws)"
    and "\<not> ce_codex_accounting est" and "usage_ok usage" and "au_total_tokens usage \<le> 10 ^ 9"
    and "ce_input_price_per_1m est = Some ip" "column_value ip"
    and "ce_output_price_per_1m est = Some op" "column_value op"
    and "opt_all column_value (ce_cached_input_price_per_1m est)"
    and "opt_all column_value (ce_reasoning_price_per_1m est)"
    and "opt_all column_value (ce_audio_output_price_per_1m est)"
  shows "dec_sum (map snd costs) =
    (of_int (au_prompt_tokens usage - cached_part usage) * ip
     + of_int (cached_part usage) * price_or (ce_cached_input_price_per_1m est) ip
     + of_int (au_completion_tokens usage - reasoning_part usage - audio_part usage) * op
     + of_int (reasoning_part usage) * price_or (ce_reasoning_price_per_1m est) op
     + of_int (audio_part usage) * price_or (ce_audio_output_price_per_1m est) op) / 10 ^ 6"
  using assms(1,2)
proof (cases rule: component_slaif_costs_Inr)
  case (1 ip' op')
  have eq: "ip' = ip" "op' = op"
    using 1(1,2) assms(5,7) by (auto simp: price_per_1m_def validate_price_def)
  have pos: "0 \<le> ip" "0 \<le> op" using 1(1,2) price_per_1m_nonneg eq by auto
  have cv: "column_value (price_or (ce_cached_input_price_per_1m est) ip)"
    "column_value (price_or (ce_reasoning_price_per_1m est) op)"
    "column_value (price_or (ce_audio_output_price_per_1m est) op)"
    using assms(6,8,9-11) by (auto simp: price_or_def opt_all_def split: option.splits)
  note b = parts_bounds[OF assms(3) refl]
  have tot: "au_prompt_tokens usage \<le> 10 ^ 9" "au_completion_tokens usage \<le> 10 ^ 9"
    using assms(3,4) by (auto simp: usage_ok_def)
  have t: "0 \<le> au_prompt_tokens usage - cached_part usage" "au_prompt_tokens usage - cached_part usage \<le> 10 ^ 9"
    "0 \<le> cached_part usage" "cached_part usage \<le> 10 ^ 9"
    "0 \<le> au_completion_tokens usage - reasoning_part usage - audio_part usage"
    "au_completion_tokens usage - reasoning_part usage - audio_part usage \<le> 10 ^ 9"
    "0 \<le> reasoning_part usage" "reasoning_part usage \<le> 10 ^ 9" "0 \<le> audio_part usage" "audio_part usage \<le> 10 ^ 9"
    using b tot by linarith+
  note x = tokens_to_cost_exact(1)[OF t(1,2) assms(6) pos(1)] tokens_to_cost_exact(1)[OF t(3,4) cv(1) 1(3)[unfolded eq]]
    tokens_to_cost_exact(1)[OF t(5,6) assms(8) pos(2)] tokens_to_cost_exact(1)[OF t(7,8) cv(2) 1(4)[unfolded eq]]
    tokens_to_cost_exact(1)[OF t(9,10) cv(3) 1(5)[unfolded eq]]
  note g = tokens_to_cost_exact(2)[OF t(1,2) assms(6) pos(1)] tokens_to_cost_exact(2)[OF t(3,4) cv(1) 1(3)[unfolded eq]]
    tokens_to_cost_exact(2)[OF t(5,6) assms(8) pos(2)] tokens_to_cost_exact(2)[OF t(7,8) cv(2) 1(4)[unfolded eq]]
    tokens_to_cost_exact(2)[OF t(9,10) cv(3) 1(5)[unfolded eq]]
  have "dec_sum (map snd costs) = 0 + sum_list (map snd costs)"
    unfolding dec_sum_def
    by (rule foldl_dec_add_exact) (use g in \<open>simp_all add: 1(6) eq fifteen_places_def[of 0]\<close>)
  also have "\<dots> = of_int (au_prompt_tokens usage - cached_part usage) * ip / 10 ^ 6
     + of_int (cached_part usage) * price_or (ce_cached_input_price_per_1m est) ip / 10 ^ 6
     + of_int (au_completion_tokens usage - reasoning_part usage - audio_part usage) * op / 10 ^ 6
     + of_int (reasoning_part usage) * price_or (ce_reasoning_price_per_1m est) op / 10 ^ 6
     + of_int (audio_part usage) * price_or (ce_audio_output_price_per_1m est) op / 10 ^ 6"
    by (simp only: 1(6) eq x list.map snd_conv sum_list.Cons sum_list.Nil add_0 add_0_right add.assoc)
  finally show ?thesis by (simp only: add_divide_distrib)
qed

text \<open>C30: Outside Codex accounting the calculated cost is exact.  With an input and an output price in the estimate,
  all prices as the pricing table stores them (nine decimal places, below a thousand million), and usage
  counts as extraction accepts them (none negative) of at most a thousand million tokens in total, the
  calculated cost is exactly the sum of tokens times price per million over the components: no Decimal
  operation on the way rounds.\<close>

theorem slaif_cost_exact:
  assumes "component_slaif_costs usage est allow = Inr (costs, tokens, ws)"
    and "\<not> ce_codex_accounting est" and "usage_ok usage" and "au_total_tokens usage \<le> 10 ^ 9"
    and "ce_input_price_per_1m est = Some ip" "column_value ip"
    and "ce_output_price_per_1m est = Some op" "column_value op"
    and "opt_all column_value (ce_cached_input_price_per_1m est)"
    and "opt_all column_value (ce_reasoning_price_per_1m est)"
    and "opt_all column_value (ce_audio_output_price_per_1m est)"
  shows "dec_sum (map snd costs) =
    (of_int (au_prompt_tokens usage - cached_part usage) * ip
     + of_int (cached_part usage) * price_or (ce_cached_input_price_per_1m est) ip
     + of_int (au_completion_tokens usage - reasoning_part usage - audio_part usage) * op
     + of_int (reasoning_part usage) * price_or (ce_reasoning_price_per_1m est) op
     + of_int (audio_part usage) * price_or (ce_audio_output_price_per_1m est) op) / 10 ^ 6"
  by (rule slaif_cost_formula[OF assms])

theorem slaif_cost_exact_witness:
  "\<exists>costs tokens ws. component_slaif_costs sample_actual sample_estimate False = Inr (costs, tokens, ws)
     \<and> dec_sum (map snd costs) = (10 * 100000 + 2 * 1000000) / 10 ^ 6"
proof -
  have cv: "column_value 100000" "column_value 1000000" by (simp_all add: column_value_def)
  show ?thesis
    using slaif_cost_exact[OF sample_components _ extract_usage_ok[OF sample_usage_eq] _ _ cv(1) _ cv(2)]
      sample_components
    by (simp add: sample_estimate_def sample_actual_def opt_all_def cached_part_def reasoning_part_def
        audio_part_def or_zero_def audio_output_tokens_def price_or_def)
qed

section \<open>What extraction drops\<close>

lemma detail_keys_not_durable:
  "\<not> durable_key ''completion_tokens_details''" "\<not> durable_key ''output_tokens_details''"
  "\<not> durable_key ''audio_tokens''" "\<not> durable_key ''input_tokens_details''"
  "\<not> durable_key ''prompt_tokens_details''"
  by code_simp+

lemma extract_usage_other:
  "extract_usage response = Inr u \<Longrightarrow> \<exists>d. au_other_usage u = sanitize_mapping True None d"
  unfolding extract_usage_def by (auto simp: safe_json_mapping_def sanitize_metadata_mapping_def)

text \<open>The detail mappings of a provider's usage never survive extraction: their names hold the word
  \<open>token\<close> and are not on the list of safe counters, so the sanitizer drops them.  Hence after
  \<open>extract_usage\<close> the audio output count is always absent, no audio price is ever applied to
  extracted usage, and the Codex check of the detail shapes always passes.\<close>

theorem extracted_usage_has_no_details:
  assumes "extract_usage response = Inr u"
  shows "audio_output_tokens (au_other_usage u) = None \<and> audio_part u = min 0 (au_completion_tokens u)
    \<and> validate_codex_usage_detail_shape u = Inr ()"
proof -
  obtain d where d: "au_other_usage u = sanitize_mapping True None d" using extract_usage_other[OF assms] ..
  have "dget (au_other_usage u) k = PNone" if "\<not> durable_key k" for k
    using that by (simp add: d dget_sanitize_mapping)
  then show ?thesis using detail_keys_not_durable
    by (simp add: audio_output_tokens_def audio_part_def or_zero_def validate_codex_usage_detail_shape_def aliases_agree_def)
qed

text \<open>A response that reports forty audio tokens among its completion tokens.\<close>

definition sample_audio_response :: provider_response where
  "sample_audio_response =
     sample_response\<lparr>rs_usage :=
       Some (sample_usage\<lparr>pu_other_usage := [(''completion_tokens_details'', PDict [(''audio_tokens'', PInt 40)])]\<rparr>)\<rparr>"

theorem extracted_usage_has_no_details_witness:
  "audio_output_tokens [(''completion_tokens_details'', PDict [(''audio_tokens'', PInt 40)])] = Some 40
   \<and> (\<exists>u. extract_usage sample_audio_response = Inr u \<and> audio_output_tokens (au_other_usage u) = None)"
proof -
  have "\<exists>u. extract_usage sample_audio_response = Inr u"
    by (simp add: sample_audio_response_def extract_usage_def optional_token_count_def or_zero_def
        sample_response_def sample_usage_def)
  then obtain u where "extract_usage sample_audio_response = Inr u" ..
  with extracted_usage_has_no_details[OF this] show ?thesis
    by (simp add: audio_output_tokens_def)
qed

end
