(* ===== verification/Accounting.thy ===== *)
theory Accounting
  imports Quota AccountingCost
begin

text \<open>
  The state half of \<open>services/accounting.py\<close>: moving a reservation's amounts from the reserved
  to the used counters, releasing them after a provider failure, and writing the usage ledger.
  An exception of the ledger write becomes \<open>LedgerWriteError\<close> as in the source (\<open>as_error\<close>).
  The transaction is the caller's: an operation that raises leaves the database as it was.
\<close>

definition as_error :: "gateway_error \<Rightarrow> 'a result \<Rightarrow> 'a result" where
  "as_error e m = (case m of Inl _ \<Rightarrow> Inl e | Inr x \<Rightarrow> Inr x)"

lemma as_error_Inr [simp]: "as_error e m = Inr x \<longleftrightarrow> m = Inr x"
  by (cases m) (auto simp: as_error_def)

section \<open>Helpers\<close>

definition acc_normalize_endpoint :: "string \<Rightarrow> string" where
  "acc_normalize_endpoint value =
     (let endpoint = py_strip value
      in if endpoint = ''chat.completions'' then ''/v1/chat/completions''
         else if endpoint = ''audio.speech'' then ''/v1/audio/speech''
         else if endpoint = ''audio.transcriptions'' then ''/v1/audio/transcriptions''
         else if endpoint = ''audio.translations'' then ''/v1/audio/translations''
         else if endpoint = ''realtime.client_secrets'' then ''/v1/realtime/client_secrets''
         else if endpoint = ''responses'' then ''/v1/responses''
         else endpoint)"

definition overrun_policy :: "string \<Rightarrow> string" where
  "overrun_policy endpoint =
     (if endpoint = ''/v1/responses'' then ''responses_admit_then_finalize_v1''
      else ''chat_completions_admit_then_finalize_v1'')"

definition reservation_overrun_metadata :: "decimal \<Rightarrow> int \<Rightarrow> decimal \<Rightarrow> int \<Rightarrow> string \<Rightarrow> pydict" where
  "reservation_overrun_metadata actual_cost actual_tokens reserved_cost reserved_tokens endpoint =
     (let token_overrun = reserved_tokens < actual_tokens;
          cost_overrun = reserved_cost < actual_cost
      in [(''reserved_tokens'', PInt reserved_tokens), (''actual_tokens'', PInt actual_tokens),
          (''reserved_cost_eur'', PDecStr reserved_cost), (''actual_cost_eur'', PDecStr actual_cost),
          (''token_reservation_overrun'', PBool token_overrun),
          (''cost_reservation_overrun'', PBool cost_overrun),
          (''reservation_overrun'', PBool (token_overrun \<or> cost_overrun)),
          (''overrun_policy'', PStr (overrun_policy endpoint))])"

definition opt_entry :: "string \<Rightarrow> pyval option \<Rightarrow> pydict" where
  "opt_entry k v = (case v of None \<Rightarrow> [] | Some x \<Rightarrow> [(k, x)])"

definition decstr_or_none :: "decimal option \<Rightarrow> pyval" where
  "decstr_or_none v = (case v of None \<Rightarrow> PStr ''None'' | Some d \<Rightarrow> PDecStr d)"

definition response_metadata ::
  "provider_response \<Rightarrow> actual_cost \<Rightarrow> actual_usage \<Rightarrow> cost_estimate \<Rightarrow> pydict \<Rightarrow> pydict" where
  "response_metadata response cost usage est overrun =
     safe_json_mapping (dmerge
       ([(''provider'', PStr (rs_provider response)), (''upstream_model'', PStr (rs_upstream_model response)),
         (''status_code'', PInt (rs_status_code response)),
         (''actual_cost_source'', PStr (ac_cost_source cost)), (''cost_source'', PStr (ac_cost_source cost)),
         (''cost_confidence'', PStr (ac_cost_confidence cost)),
         (''slaif_calculated_cost_native'', PDecStr (ac_slaif_calculated_cost_native cost)),
         (''slaif_calculated_cost_eur'', PDecStr (ac_slaif_calculated_cost_eur cost))]
        @ (if ac_cost_confidence cost = ''fixed_request_pricing'' then [(''billing_mode'', PStr ''fixed_request'')] else [])
        @ (if ac_component_token_counts cost \<noteq> []
           then [(''component_token_counts'', PDict (map (\<lambda>(k, t). (k, PInt t)) (ac_component_token_counts cost)))] else [])
        @ (if ac_component_costs_native cost \<noteq> []
           then [(''component_costs_native'', PDict (map (\<lambda>(k, d). (k, PDecStr d)) (ac_component_costs_native cost)))] else [])
        @ (if ac_cost_warnings cost \<noteq> [] then [(''cost_warnings'', PList (map PStr (ac_cost_warnings cost)))] else [])
        @ opt_entry ''provider_reported_cost_native'' (map_option PDecStr (ac_provider_reported_cost_native cost))
        @ opt_entry ''provider_reported_currency'' (map_option PStr (ac_provider_reported_currency cost))
        @ opt_entry ''provider_reported_cost_eur'' (map_option PDecStr (ac_provider_reported_cost_eur cost))
        @ opt_entry ''pricing_rule_id'' (map_option (\<lambda>u. PStr (uuid_str u)) (ce_pricing_rule_id est))
        @ opt_entry ''fx_rate_id'' (map_option (\<lambda>u. PStr (uuid_str u)) (ce_fx_rate_id est))
        @ [(''actual_cached_tokens'', pyint (au_cached_tokens usage)),
           (''actual_cache_write_tokens'', pyint (au_cache_write_tokens usage)),
           (''actual_reasoning_tokens'', pyint (au_reasoning_tokens usage))]
        @ (if ce_codex_accounting est
           then [(''codex_accounting'', PBool True),
                 (''long_context_threshold_tokens'', pyint (ce_long_context_threshold_tokens est)),
                 (''long_context_input_multiplier'', decstr_or_none (ce_long_context_input_multiplier est)),
                 (''long_context_output_multiplier'', decstr_or_none (ce_long_context_output_multiplier est)),
                 (''cache_write_input_price_per_1m'', decstr_or_none (ce_cache_write_input_price_per_1m est))]
                @ opt_entry ''cache_write_input_multiplier'' (map_option PDecStr (ce_cache_write_input_multiplier est))
           else []))
       overrun)"

definition failure_response_metadata :: "pydict option \<Rightarrow> pydict" where
  "failure_response_metadata diagnostic =
     (case diagnostic of
        None \<Rightarrow> []
      | Some d \<Rightarrow> safe_json_mapping [(''provider_diagnostic'', PDict d)])"

definition safe_short_string :: "string \<Rightarrow> string" where
  "safe_short_string value = take 128 (redact_text (py_strip value) None)"

definition non_negative_int :: "int \<Rightarrow> string \<Rightarrow> int result" where
  "non_negative_int value field = (if value < 0 then Inl (InvalidUsageError field) else Inr value)"

definition non_negative_decimal :: "decimal \<Rightarrow> string \<Rightarrow> decimal result" where
  "non_negative_decimal value field = (if value < 0 then Inl (InvalidUsageError field) else Inr value)"

definition started_time :: "pydatetime \<Rightarrow> pydatetime option \<Rightarrow> quota_reservation \<Rightarrow> pydatetime" where
  "started_time clock started_at r =
     aware_now clock (Some (case started_at of Some s \<Rightarrow> s | None \<Rightarrow> qr_created_at r))"

section \<open>Reservation and ledger helpers\<close>

definition locked_pending_reservation :: "uuid \<Rightarrow> authenticated_key \<Rightarrow> db \<Rightarrow> quota_reservation result" where
  "locked_pending_reservation rid ak db =
     sbind (the_or_raise (get_reservation_by_id rid db) ReservationFinalizationError) (\<lambda>r.
     sbind (ensure (qr_gateway_key_id r = ak_gateway_key_id ak) ReservationFinalizationError) (\<lambda>_.
     sbind (ensure (qr_status r = Pending) ReservationAlreadyFinalizedError) (\<lambda>_.
     Inr r)))"

text \<open>The columns that a ledger row takes from the request and its usage.\<close>

definition usage_row ::
  "uuid \<Rightarrow> pydatetime \<Rightarrow> string \<Rightarrow> uuid \<Rightarrow> authenticated_key \<Rightarrow> route_resolution \<Rightarrow> provider_response
     \<Rightarrow> string \<Rightarrow> actual_usage \<Rightarrow> cost_estimate \<Rightarrow> actual_cost \<Rightarrow> pydict \<Rightarrow> bool \<Rightarrow> pydatetime \<Rightarrow> usage_ledger" where
  "usage_row uid clock req rid ak route response endpoint usage est cost metadata streaming started_at =
     (new_usage_record uid clock req (ak_gateway_key_id ak) endpoint (rt_provider route) started_at)
       \<lparr>ul_quota_reservation_id := Some rid, ul_owner_id := Some (ak_owner_id ak),
        ul_cohort_id := ak_cohort_id ak, ul_requested_model := Some (rt_requested_model route),
        ul_resolved_model := Some (rt_resolved_model route),
        ul_upstream_request_id := rs_upstream_request_id response, ul_streaming := streaming,
        ul_http_status := Some (rs_status_code response),
        ul_prompt_tokens := au_prompt_tokens usage, ul_completion_tokens := au_completion_tokens usage,
        ul_input_tokens := au_prompt_tokens usage, ul_output_tokens := au_completion_tokens usage,
        ul_cached_tokens := or_zero (au_cached_tokens usage),
        ul_reasoning_tokens := or_zero (au_reasoning_tokens usage),
        ul_total_tokens := au_total_tokens usage,
        ul_estimated_cost_eur := Some (ce_estimated_total_cost_eur est),
        ul_actual_cost_eur := Some (ac_actual_cost_eur cost),
        ul_actual_cost_native := Some (ac_actual_cost_native cost),
        ul_native_currency := Some (ac_native_currency cost),
        ul_usage_raw := au_other_usage usage, ul_response_metadata := metadata\<rparr>"

definition create_success_ledger ::
  "uuid \<Rightarrow> pydatetime \<Rightarrow> string \<Rightarrow> uuid \<Rightarrow> authenticated_key \<Rightarrow> route_resolution \<Rightarrow> provider_response
     \<Rightarrow> string \<Rightarrow> actual_usage \<Rightarrow> cost_estimate \<Rightarrow> actual_cost \<Rightarrow> pydict \<Rightarrow> bool \<Rightarrow> pydatetime \<Rightarrow> pydatetime
     \<Rightarrow> db \<Rightarrow> (db \<times> usage_ledger) result" where
  "create_success_ledger uid clock req rid ak route response endpoint usage est cost overrun streaming
       started_at finished_at db =
     as_error LedgerWriteError
       (create_success_record
          ((usage_row uid clock req rid ak route response endpoint usage est cost
              (response_metadata response cost usage est overrun) streaming started_at)
             \<lparr>ul_finished_at := Some finished_at,
              ul_latency_ms := Some (latency_ms started_at finished_at)\<rparr>) db)"

definition mark_provider_completed_ledger_finalized ::
  "uuid \<Rightarrow> provider_response \<Rightarrow> actual_usage \<Rightarrow> cost_estimate \<Rightarrow> actual_cost \<Rightarrow> pydict \<Rightarrow> pydatetime
     \<Rightarrow> int option \<Rightarrow> db \<Rightarrow> (db \<times> usage_ledger) result" where
  "mark_provider_completed_ledger_finalized uid response usage est cost overrun finished_at latency db =
     as_error LedgerWriteError
       (mark_provider_completed_record_finalized uid (rs_status_code response)
          (dmerge (response_metadata response cost usage est overrun)
             [(''recovery_state'', PStr ''finalized''), (''needs_reconciliation'', PBool False)])
          finished_at latency db)"

definition create_failure_ledger ::
  "uuid \<Rightarrow> pydatetime \<Rightarrow> string \<Rightarrow> uuid \<Rightarrow> authenticated_key \<Rightarrow> route_resolution \<Rightarrow> string \<Rightarrow> cost_estimate
     \<Rightarrow> string \<Rightarrow> string option \<Rightarrow> int option \<Rightarrow> pydict option \<Rightarrow> bool \<Rightarrow> pydatetime \<Rightarrow> pydatetime
     \<Rightarrow> db \<Rightarrow> (db \<times> usage_ledger) result" where
  "create_failure_ledger uid clock req rid ak route endpoint est error_type error_code status_code
       diagnostic streaming started_at finished_at db =
     as_error LedgerWriteError
       (sbind (normalize_currency (ce_native_currency est)) (\<lambda>currency.
        create_failure_record
          ((new_usage_record uid clock req (ak_gateway_key_id ak) endpoint (rt_provider route) started_at)
             \<lparr>ul_quota_reservation_id := Some rid, ul_owner_id := Some (ak_owner_id ak),
              ul_cohort_id := ak_cohort_id ak, ul_requested_model := Some (rt_requested_model route),
              ul_resolved_model := Some (rt_resolved_model route), ul_streaming := streaming,
              ul_http_status := status_code, ul_error_type := Some (safe_short_string error_type),
              ul_error_message := map_option safe_short_string error_code,
              ul_estimated_cost_eur := Some (ce_estimated_total_cost_eur est),
              ul_actual_cost_eur := Some 0, ul_actual_cost_native := Some 0,
              ul_native_currency := Some currency,
              ul_response_metadata := failure_response_metadata diagnostic,
              ul_finished_at := Some finished_at,
              ul_latency_ms := Some (latency_ms started_at finished_at)\<rparr>) db))"

section \<open>The service operations\<close>

definition usage_and_cost ::
  "provider_response \<Rightarrow> route_resolution \<Rightarrow> cost_estimate \<Rightarrow> string \<Rightarrow> (actual_usage \<times> actual_cost) result" where
  "usage_and_cost response route est endpoint =
     sbind (if is_fixed_request_module_billing (rt_provider_kind route) endpoint
            then Inr fixed_request_usage else extract_usage response) (\<lambda>usage.
     sbind (compute_actual_cost response route usage est endpoint) (\<lambda>cost. Inr (usage, cost)))"

definition finalize_successful_response ::
  "pydatetime \<Rightarrow> uuid \<Rightarrow> uuid \<Rightarrow> authenticated_key \<Rightarrow> route_resolution \<Rightarrow> cost_estimate \<Rightarrow> provider_response
     \<Rightarrow> string \<Rightarrow> string \<Rightarrow> bool \<Rightarrow> pydatetime option \<Rightarrow> pydatetime option \<Rightarrow> uuid option \<Rightarrow> db
     \<Rightarrow> (db \<times> finalized_accounting_result) result" where
  "finalize_successful_response clock uid rid ak route est response req endpoint streaming started_at
       finished_at provider_completed db =
     (let finished = aware_now clock finished_at in
     sbind (locked_pending_reservation rid ak db) (\<lambda>r.
     sbind (the_or_raise (get_gateway_key_by_id (ak_gateway_key_id ak) db) ReservationFinalizationError) (\<lambda>k.
     sbind (usage_and_cost response route est endpoint) (\<lambda>(usage, cost).
     (let overrun = reservation_overrun_metadata (ac_actual_cost_eur cost) (au_total_tokens usage)
                      (qr_reserved_cost_eur r) (qr_reserved_tokens r) (acc_normalize_endpoint endpoint)
      in
     sbind (finalize_reserved_counters k (qr_reserved_cost_eur r) (qr_reserved_tokens r)
              (qr_reserved_requests r) (ac_actual_cost_eur cost) (au_total_tokens usage) 1 finished db) (\<lambda>(db1, _).
     sbind (mark_pending_reservation_finalized r finished db1) (\<lambda>(db2, r2).
     (let started = started_time clock started_at r2 in
     sbind (case provider_completed of
              Some puid \<Rightarrow>
                mark_provider_completed_ledger_finalized puid response usage est cost overrun finished
                  (Some (latency_ms started finished)) db2
            | None \<Rightarrow>
                create_success_ledger uid clock req (qr_id r2) ak route response
                  (acc_normalize_endpoint endpoint) usage est cost overrun streaming started finished db2) (\<lambda>(db3, ledger).
     Inr (db3, \<lparr>far_usage_ledger_id = ul_id ledger, far_reservation_id = qr_id r2,
                far_gateway_key_id = ak_gateway_key_id ak, far_request_id = req,
                far_estimated_cost_eur = ce_estimated_total_cost_eur est,
                far_actual_cost_eur = ac_actual_cost_eur cost,
                far_actual_cost_native = Some (ac_actual_cost_native cost),
                far_native_currency = Some (ac_native_currency cost),
                far_prompt_tokens = au_prompt_tokens usage,
                far_completion_tokens = au_completion_tokens usage,
                far_total_tokens = au_total_tokens usage,
                far_accounting_status = ul_accounting_status ledger\<rparr>))))))))))"

text \<open>The caller supplies usage and cost; only the currency is normalised, after the counters have
  moved.\<close>

definition finalize_successful_custom_response ::
  "pydatetime \<Rightarrow> uuid \<Rightarrow> uuid \<Rightarrow> authenticated_key \<Rightarrow> route_resolution \<Rightarrow> cost_estimate \<Rightarrow> provider_response
     \<Rightarrow> string \<Rightarrow> string \<Rightarrow> actual_usage \<Rightarrow> decimal \<Rightarrow> decimal \<Rightarrow> string \<Rightarrow> string \<Rightarrow> string \<Rightarrow> string list
     \<Rightarrow> (string \<times> decimal) list \<Rightarrow> (string \<times> int) list \<Rightarrow> pydict \<Rightarrow> bool \<Rightarrow> pydatetime option
     \<Rightarrow> pydatetime option \<Rightarrow> db \<Rightarrow> (db \<times> finalized_accounting_result) result" where
  "finalize_successful_custom_response clock uid rid ak route est response req endpoint usage
       actual_cost_eur actual_cost_native native_currency cost_source cost_confidence cost_warnings
       component_costs component_tokens extra streaming started_at finished_at db =
     (let finished = aware_now clock finished_at in
     sbind (locked_pending_reservation rid ak db) (\<lambda>r.
     sbind (the_or_raise (get_gateway_key_by_id (ak_gateway_key_id ak) db) ReservationFinalizationError) (\<lambda>k.
     sbind (finalize_reserved_counters k (qr_reserved_cost_eur r) (qr_reserved_tokens r)
              (qr_reserved_requests r) actual_cost_eur (au_total_tokens usage) 1 finished db) (\<lambda>(db1, _).
     sbind (mark_pending_reservation_finalized r finished db1) (\<lambda>(db2, r2).
     (let started = started_time clock started_at r2;
          overrun = reservation_overrun_metadata actual_cost_eur (au_total_tokens usage)
                      (qr_reserved_cost_eur r2) (qr_reserved_tokens r2) (acc_normalize_endpoint endpoint)
      in
     sbind (normalize_currency native_currency) (\<lambda>currency.
     (let cost = \<lparr>ac_actual_cost_eur = actual_cost_eur, ac_actual_cost_native = actual_cost_native,
                  ac_native_currency = currency, ac_slaif_calculated_cost_eur = actual_cost_eur,
                  ac_slaif_calculated_cost_native = actual_cost_native, ac_cost_source = cost_source,
                  ac_cost_confidence = cost_confidence, ac_cost_warnings = cost_warnings,
                  ac_component_costs_native = component_costs,
                  ac_component_token_counts = component_tokens,
                  ac_provider_reported_cost_native = None, ac_provider_reported_currency = None,
                  ac_provider_reported_cost_eur = None\<rparr>
      in
     sbind (create_success_ledger uid clock req (qr_id r2) ak route response
              (acc_normalize_endpoint endpoint) usage est cost
              (dmerge overrun (sanitize_metadata_mapping True None (Some extra)))
              streaming started finished db2) (\<lambda>(db3, ledger).
     Inr (db3, \<lparr>far_usage_ledger_id = ul_id ledger, far_reservation_id = qr_id r2,
                far_gateway_key_id = ak_gateway_key_id ak, far_request_id = req,
                far_estimated_cost_eur = ce_estimated_total_cost_eur est,
                far_actual_cost_eur = actual_cost_eur,
                far_actual_cost_native = Some actual_cost_native,
                far_native_currency = Some currency,
                far_prompt_tokens = au_prompt_tokens usage,
                far_completion_tokens = au_completion_tokens usage,
                far_total_tokens = au_total_tokens usage,
                far_accounting_status = ul_accounting_status ledger\<rparr>))))))))))"

definition record_provider_completed_before_finalization ::
  "pydatetime \<Rightarrow> uuid \<Rightarrow> uuid \<Rightarrow> authenticated_key \<Rightarrow> route_resolution \<Rightarrow> cost_estimate \<Rightarrow> provider_response
     \<Rightarrow> string \<Rightarrow> string \<Rightarrow> bool \<Rightarrow> pydatetime option \<Rightarrow> db \<Rightarrow> (db \<times> provider_completed_record) result" where
  "record_provider_completed_before_finalization clock uid rid ak route est response req endpoint
       streaming started_at db =
     sbind (the_or_raise (get_reservation_by_id rid db) FinalizationRecoveryNotSupportedError) (\<lambda>r.
     sbind (ensure (qr_gateway_key_id r = ak_gateway_key_id ak) FinalizationRecoveryNotSupportedError) (\<lambda>_.
     sbind (ensure (qr_status r = Pending) FinalizationRecoveryNotSupportedError) (\<lambda>_.
     sbind (usage_and_cost response route est endpoint) (\<lambda>(usage, cost).
     (let overrun = reservation_overrun_metadata (ac_actual_cost_eur cost) (au_total_tokens usage)
                      (qr_reserved_cost_eur r) (qr_reserved_tokens r) (acc_normalize_endpoint endpoint)
      in case get_usage_record_by_request_id req db of
           Some existing \<Rightarrow>
             Inr (db, \<lparr>pcr_usage_ledger_id = ul_id existing, pcr_reservation_id = qr_id r,
                       pcr_gateway_key_id = ak_gateway_key_id ak, pcr_request_id = req,
                       pcr_provider = ul_provider existing,
                       pcr_requested_model = ul_requested_model existing,
                       pcr_resolved_model = ul_resolved_model existing, pcr_endpoint = ul_endpoint existing,
                       pcr_upstream_request_id = ul_upstream_request_id existing,
                       pcr_prompt_tokens = ul_prompt_tokens existing,
                       pcr_completion_tokens = ul_completion_tokens existing,
                       pcr_total_tokens = ul_total_tokens existing,
                       pcr_estimated_cost_eur = (case ul_estimated_cost_eur existing of Some c \<Rightarrow> c | None \<Rightarrow> 0),
                       pcr_computed_actual_cost_eur = ul_actual_cost_eur existing,
                       pcr_accounting_status = ul_accounting_status existing\<rparr>)
         | None \<Rightarrow>
             sbind (as_error ProviderCompletionRecordError
                      (create_provider_completed_record
                         (usage_row uid clock req (qr_id r) ak route response (acc_normalize_endpoint endpoint)
                            usage est cost
                            (dmerge (response_metadata response cost usage est overrun)
                               [(''recovery_state'', PStr ''provider_completed_finalization_pending''),
                                (''needs_reconciliation'', PBool False)])
                            streaming (started_time clock started_at r)) db)) (\<lambda>(db1, ledger).
             Inr (db1, \<lparr>pcr_usage_ledger_id = ul_id ledger, pcr_reservation_id = qr_id r,
                        pcr_gateway_key_id = ak_gateway_key_id ak, pcr_request_id = req,
                        pcr_provider = rt_provider route, pcr_requested_model = Some (rt_requested_model route),
                        pcr_resolved_model = Some (rt_resolved_model route),
                        pcr_endpoint = acc_normalize_endpoint endpoint,
                        pcr_upstream_request_id = rs_upstream_request_id response,
                        pcr_prompt_tokens = au_prompt_tokens usage,
                        pcr_completion_tokens = au_completion_tokens usage,
                        pcr_total_tokens = au_total_tokens usage,
                        pcr_estimated_cost_eur = ce_estimated_total_cost_eur est,
                        pcr_computed_actual_cost_eur = Some (ac_actual_cost_eur cost),
                        pcr_accounting_status = ul_accounting_status ledger\<rparr>)))))))"

text \<open>The code and the message of the error that made finalization fail; they are attributes of the
  exception object and arguments here.\<close>

definition or_default :: "string \<Rightarrow> string \<Rightarrow> string" where
  "or_default s d = (if s = [] then d else s)"

definition mark_provider_completed_finalization_failed ::
  "pydatetime \<Rightarrow> uuid \<Rightarrow> uuid \<Rightarrow> string \<Rightarrow> string \<Rightarrow> pydatetime option \<Rightarrow> db
     \<Rightarrow> (db \<times> finalization_recovery_result) result" where
  "mark_provider_completed_finalization_failed clock uid rid error_code safe_message finished_at db =
     (let finished = aware_now clock finished_at in
     sbind (the_or_raise (get_usage_record_by_id uid db) AccountingFinalizationRecoveryError) (\<lambda>row.
     sbind (ensure (ul_quota_reservation_id row = Some rid) AccountingFinalizationRecoveryError) (\<lambda>_.
     (let metadata = dmerge (safe_json_mapping (ul_response_metadata row))
                       [(''recovery_state'', PStr ''provider_completed_finalization_failed''),
                        (''needs_reconciliation'', PBool True),
                        (''finalization_error_code'', PStr (safe_short_string error_code))]
      in
     sbind (as_error AccountingFinalizationRecoveryError
              (mark_provider_completed_record_finalization_failed uid ''accounting_finalization_failed''
                 (or_default (safe_short_string error_code) ''accounting_finalization_failed'')
                 metadata finished
                 (Some (latency_ms (aware_now clock (Some (ul_started_at row))) finished)) db)) (\<lambda>(db1, row1).
     Inr (db1, \<lparr>frr_usage_ledger_id = ul_id row1, frr_reservation_id = rid,
                frr_previous_status = ul_accounting_status row, frr_new_status = ul_accounting_status row1,
                frr_needs_reconciliation = True,
                frr_safe_message = or_default (safe_short_string safe_message)
                  ''Provider completed but accounting finalization failed''\<rparr>))))))"

text \<open>A reservation that is no longer pending is left alone; the failure row is written all the same.\<close>

definition record_provider_failure_and_release ::
  "pydatetime \<Rightarrow> uuid \<Rightarrow> uuid \<Rightarrow> authenticated_key \<Rightarrow> route_resolution \<Rightarrow> cost_estimate \<Rightarrow> string
     \<Rightarrow> string \<Rightarrow> string \<Rightarrow> string option \<Rightarrow> int option \<Rightarrow> pydict option \<Rightarrow> bool
     \<Rightarrow> pydatetime option \<Rightarrow> pydatetime option \<Rightarrow> db \<Rightarrow> (db \<times> provider_failure_result) result" where
  "record_provider_failure_and_release clock uid rid ak route est req error_type endpoint error_code
       status_code diagnostic streaming started_at finished_at db =
     (let finished = aware_now clock finished_at in
     sbind (the_or_raise (get_reservation_by_id rid db) ReservationFinalizationError) (\<lambda>r.
     sbind (ensure (qr_gateway_key_id r = ak_gateway_key_id ak) ReservationFinalizationError) (\<lambda>_.
     sbind (the_or_raise (get_gateway_key_by_id (ak_gateway_key_id ak) db) ReservationFinalizationError) (\<lambda>k.
     sbind (if qr_status r = Pending
            then sbind (subtract_reserved_counters k (qr_reserved_cost_eur r) (qr_reserved_tokens r)
                          (qr_reserved_requests r) db) (\<lambda>(db1, _).
                 sbind (mark_pending_reservation_released r finished db1) (\<lambda>(db2, r2).
                 Inr (db2, r2, True)))
            else Inr (db, r, False)) (\<lambda>(db2, r2, released).
     sbind (create_failure_ledger uid clock req (qr_id r2) ak route (acc_normalize_endpoint endpoint)
              est error_type error_code status_code diagnostic streaming
              (started_time clock started_at r2) finished db2) (\<lambda>(db3, ledger).
     Inr (db3, \<lparr>pfr_usage_ledger_id = ul_id ledger, pfr_reservation_id = qr_id r2,
                pfr_gateway_key_id = ak_gateway_key_id ak, pfr_request_id = req,
                pfr_released = released, pfr_accounting_status = ul_accounting_status ledger,
                pfr_error_type = error_type, pfr_error_code = error_code\<rparr>)))))))"

definition record_streaming_interrupted_estimate ::
  "pydatetime \<Rightarrow> uuid \<Rightarrow> uuid \<Rightarrow> authenticated_key \<Rightarrow> route_resolution \<Rightarrow> cost_estimate \<Rightarrow> string
     \<Rightarrow> int \<Rightarrow> int \<Rightarrow> int \<Rightarrow> decimal \<Rightarrow> pydict \<Rightarrow> string \<Rightarrow> string \<Rightarrow> string \<Rightarrow> string option \<Rightarrow> int option
     \<Rightarrow> pydatetime option \<Rightarrow> pydatetime option \<Rightarrow> db \<Rightarrow> (db \<times> finalized_accounting_result) result" where
  "record_streaming_interrupted_estimate clock uid rid ak route est req estimated_input_tokens
       estimated_output_tokens estimated_total_tokens estimated_cost_eur metadata endpoint
       estimate_reason error_type error_message status_code started_at finished_at db =
     (let finished = aware_now clock finished_at in
     sbind (locked_pending_reservation rid ak db) (\<lambda>r.
     sbind (the_or_raise (get_gateway_key_by_id (ak_gateway_key_id ak) db) ReservationFinalizationError) (\<lambda>k.
     sbind (non_negative_int estimated_total_tokens ''estimated_total_tokens'') (\<lambda>total_tokens.
     sbind (non_negative_int estimated_input_tokens ''estimated_input_tokens'') (\<lambda>input0.
     (let input_tokens = min input0 total_tokens in
     sbind (non_negative_int estimated_output_tokens ''estimated_output_tokens'') (\<lambda>output0.
     (let output_tokens = min output0 (max (total_tokens - input_tokens) 0) in
     sbind (non_negative_decimal estimated_cost_eur ''estimated_cost_eur'') (\<lambda>actual_cost_eur.
     sbind (finalize_reserved_counters k (qr_reserved_cost_eur r) (qr_reserved_tokens r)
              (qr_reserved_requests r) actual_cost_eur total_tokens 1 finished db) (\<lambda>(db1, _).
     sbind (mark_pending_reservation_finalized r finished db1) (\<lambda>(db2, r2).
     (let started = started_time clock started_at r2;
          overrun = reservation_overrun_metadata actual_cost_eur total_tokens
                      (qr_reserved_cost_eur r2) (qr_reserved_tokens r2) (acc_normalize_endpoint endpoint);
          safe_metadata = dmerge (dmerge (sanitize_metadata_mapping True None (Some metadata)) overrun)
                            [(''accounting_estimate_reason'', PStr estimate_reason)]
      in
     sbind (as_error LedgerWriteError
              (sbind (normalize_currency (ce_native_currency est)) (\<lambda>currency.
               sbind (create_usage_record
                 ((new_usage_record uid clock req (ak_gateway_key_id ak) (acc_normalize_endpoint endpoint)
                     (rt_provider route) started)
                   \<lparr>ul_quota_reservation_id := Some (qr_id r2), ul_owner_id := Some (ak_owner_id ak),
                    ul_cohort_id := ak_cohort_id ak, ul_requested_model := Some (rt_requested_model route),
                    ul_resolved_model := Some (rt_resolved_model route), ul_streaming := True,
                    ul_success := Some False, ul_accounting_status := LEstimated,
                    ul_http_status := status_code, ul_error_type := Some error_type,
                    ul_error_message := Some (or_default (case error_message of Some m \<Rightarrow> m | None \<Rightarrow> []) error_type),
                    ul_prompt_tokens := input_tokens, ul_completion_tokens := output_tokens,
                    ul_input_tokens := input_tokens, ul_output_tokens := output_tokens,
                    ul_total_tokens := total_tokens, ul_estimated_cost_eur := Some actual_cost_eur,
                    ul_actual_cost_eur := Some actual_cost_eur, ul_actual_cost_native := None,
                    ul_native_currency := Some currency, ul_usage_raw := [],
                    ul_response_metadata := safe_metadata, ul_finished_at := Some finished,
                    ul_latency_ms := Some (latency_ms started finished)\<rparr>) db2) (\<lambda>(db3, ledger).
               Inr (db3, ledger, currency))))) (\<lambda>(db3, ledger, currency).
     Inr (db3, \<lparr>far_usage_ledger_id = ul_id ledger, far_reservation_id = qr_id r2,
                far_gateway_key_id = ak_gateway_key_id ak, far_request_id = req,
                far_estimated_cost_eur = ce_estimated_total_cost_eur est,
                far_actual_cost_eur = actual_cost_eur, far_actual_cost_native = None,
                far_native_currency = Some currency, far_prompt_tokens = input_tokens,
                far_completion_tokens = output_tokens, far_total_tokens = total_tokens,
                far_accounting_status = ul_accounting_status ledger\<rparr>))))))))))))))"

definition record_streaming_live_burn_interrupted_estimate ::
  "pydatetime \<Rightarrow> uuid \<Rightarrow> uuid \<Rightarrow> authenticated_key \<Rightarrow> route_resolution \<Rightarrow> cost_estimate \<Rightarrow> string
     \<Rightarrow> int \<Rightarrow> int \<Rightarrow> int \<Rightarrow> decimal \<Rightarrow> pydict \<Rightarrow> string \<Rightarrow> string
     \<Rightarrow> pydatetime option \<Rightarrow> pydatetime option \<Rightarrow> db \<Rightarrow> (db \<times> finalized_accounting_result) result" where
  "record_streaming_live_burn_interrupted_estimate clock uid rid ak route est req input_tokens
       output_tokens total_tokens cost metadata endpoint estimate_reason started_at finished_at db =
     record_streaming_interrupted_estimate clock uid rid ak route est req input_tokens output_tokens
       total_tokens cost metadata endpoint estimate_reason ''streaming_live_burn_limit_exceeded''
       (Some ''streaming_live_burn_limit_exceeded'') (Some 200) started_at finished_at db"

section \<open>What settling does to keys and reservations\<close>

text \<open>
  \<open>settles rid kid cost tokens db db'\<close>: a pending reservation of the key is closed as finalized,
  its reserved amounts leave the reserved counters and the actual amounts enter the used ones.
  The locale is the contract that every settling operation of the service meets; its lemmas are
  what the rest of the system may rely on.
\<close>

definition settles :: "uuid \<Rightarrow> uuid \<Rightarrow> decimal \<Rightarrow> int \<Rightarrow> db \<Rightarrow> db \<Rightarrow> bool" where
  "settles rid kid cost tokens db db' =
     (\<exists>r k t db1 k1 db2 r2.
        get_reservation_by_id rid db = Some r \<and> qr_gateway_key_id r = kid \<and> qr_status r = Pending
        \<and> get_gateway_key_by_id kid db = Some k
        \<and> finalize_reserved_counters k (qr_reserved_cost_eur r) (qr_reserved_tokens r) (qr_reserved_requests r)
            cost tokens 1 t db = Inr (db1, k1)
        \<and> mark_pending_reservation_finalized r t db1 = Inr (db2, r2) \<and> same_quota db2 db')"

lemma settlesI:
  "\<lbrakk>get_reservation_by_id rid db = Some r; qr_gateway_key_id r = kid; qr_status r = Pending;
    get_gateway_key_by_id kid db = Some k;
    finalize_reserved_counters k (qr_reserved_cost_eur r) (qr_reserved_tokens r) (qr_reserved_requests r)
      cost tokens 1 t db = Inr (db1, k1);
    mark_pending_reservation_finalized r t db1 = Inr (db2, r2); same_quota db2 db'\<rbrakk>
   \<Longrightarrow> settles rid kid cost tokens db db'"
  unfolding settles_def by blast

lemma settles_steps:
  assumes "settles rid kid cost tokens db db'"
  shows "quota_steps e db db'"
proof -
  from assms obtain r k t db1 k1 db2 r2 where
    *: "get_reservation_by_id rid db = Some r" "qr_status r = Pending"
      "get_gateway_key_by_id (qr_gateway_key_id r) db = Some k"
      "finalize_reserved_counters k (qr_reserved_cost_eur r) (qr_reserved_tokens r) (qr_reserved_requests r)
            cost tokens 1 t db = Inr (db1, k1)"
      "mark_pending_reservation_finalized r t db1 = Inr (db2, r2)" "same_quota db2 db'"
    by (auto simp: settles_def)
  have "quota_step e db db2"
    by (rule finalize_is_step[OF *(1-4) *(5)[unfolded mark_flushed]]) simp
  then show ?thesis using quota_step.Idle[OF *(6), of e] by simp
qed

text \<open>The row values after a settlement of a well-formed database.\<close>

definition settled_key :: "gateway_key \<Rightarrow> quota_reservation \<Rightarrow> decimal \<Rightarrow> int \<Rightarrow> gateway_key \<Rightarrow> bool" where
  "settled_key k r cost tokens k' =
     (gk_tokens_reserved_total k' = gk_tokens_reserved_total k - qr_reserved_tokens r
      \<and> gk_requests_reserved_total k' = gk_requests_reserved_total k - qr_reserved_requests r
      \<and> gk_cost_reserved_eur k' = gk_cost_reserved_eur k - qr_reserved_cost_eur r
      \<and> gk_tokens_used_total k' = gk_tokens_used_total k + tokens
      \<and> gk_requests_used_total k' = gk_requests_used_total k + 1
      \<and> gk_cost_used_eur k' = pg9 (dec_add (gk_cost_used_eur k) cost))"

lemma settles_post:
  assumes "settles rid kid cost tokens db db'" and wf: "wf_quota db"
  obtains r r' k k' where
    "get_reservation_by_id rid db = Some r" "qr_status r = Pending" "qr_gateway_key_id r = kid"
    "get_gateway_key_by_id kid db = Some k" "get_gateway_key_by_id kid db' = Some k'"
    "settled_key k r cost tokens k'"
    "\<And>i. i \<noteq> kid \<Longrightarrow> get_gateway_key_by_id i db' = get_gateway_key_by_id i db"
    "get_reservation_by_id rid db' = Some r'" "qr_status r' = Finalized" "qr_gateway_key_id r' = kid"
    "\<And>i. i \<noteq> rid \<Longrightarrow> get_reservation_by_id i db' = get_reservation_by_id i db"
proof -
  from assms(1) obtain r k t db1 k1 db2 r2 where
    r: "get_reservation_by_id rid db = Some r" "qr_gateway_key_id r = kid" "qr_status r = Pending"
    and k: "get_gateway_key_by_id kid db = Some k"
    and f: "finalize_reserved_counters k (qr_reserved_cost_eur r) (qr_reserved_tokens r) (qr_reserved_requests r)
            cost tokens 1 t db = Inr (db1, k1)"
    and m: "mark_pending_reservation_finalized r t db1 = Inr (db2, r2)" and same: "same_quota db2 db'"
    by (auto simp: settles_def)
  have ids: "qr_id r = rid" "gk_id k = kid" "rid \<in> qr_id ` set (db_reservations db)" "kid \<in> gk_id ` set (db_keys db)"
    using get_reservation_in[OF r(1)] get_key_in[OF k] by force+
  have ok: "reservation_ok r" "key_ok k"
    using wf_quota_reservation_ok[OF wf r(1)] wf_quota_key_ok[OF wf k] by simp_all
  let ?k = "used_plus (reserved_minus k (qr_reserved_cost_eur r) (qr_reserved_tokens r) (qr_reserved_requests r)) cost tokens 1 t"
  let ?r = "r\<lparr>qr_status := Finalized, qr_finalized_at := Some t, qr_released_at := None\<rparr>"
  have keys: "db_keys db' = put_row gk_id (stored_key ?k) (db_keys db)"
    and rs: "db_reservations db' = put_row qr_id ?r (db_reservations db)"
    using f m same mark_closed(2)[OF ok(1)]
    by (auto simp: finalize_reserved_counters_def flush_simps same_quota_def)
  have "settled_key k r cost tokens (stored_key ?k)"
    using cost_reserved_minus[OF ok(2,1)] by (simp add: settled_key_def used_plus_def reserved_minus_def)
  then show ?thesis
    using r k ids
    by (intro that[of r k "stored_key ?k" ?r])
       (auto simp: get_gateway_key_by_id_def get_reservation_by_id_def keys rs get_put_row)
qed

locale settlement =
  fixes run :: "db \<Rightarrow> (db \<times> finalized_accounting_result) result"
    and rid :: uuid and kid :: uuid
  assumes run_settles: "run db = Inr (db', res) \<Longrightarrow>
      settles rid kid (far_actual_cost_eur res) (far_total_tokens res) db db'"
    and run_closed: "\<lbrakk>get_reservation_by_id rid db = Some r; qr_gateway_key_id r = kid; qr_status r \<noteq> Pending\<rbrakk>
      \<Longrightarrow> run db = Inl ReservationAlreadyFinalizedError"
begin

lemma run_steps: "run db = Inr (db', res) \<Longrightarrow> quota_steps e db db'"
  by (rule settles_steps[OF run_settles])

lemma run_post:
  assumes "run db = Inr (db', res)" "wf_quota db"
  shows "\<exists>r k k' r'. get_reservation_by_id rid db = Some r \<and> qr_status r = Pending
    \<and> get_gateway_key_by_id kid db = Some k \<and> get_gateway_key_by_id kid db' = Some k'
    \<and> settled_key k r (far_actual_cost_eur res) (far_total_tokens res) k'
    \<and> (\<forall>i. i \<noteq> kid \<longrightarrow> get_gateway_key_by_id i db' = get_gateway_key_by_id i db)
    \<and> get_reservation_by_id rid db' = Some r' \<and> qr_status r' = Finalized \<and> qr_gateway_key_id r' = kid"
  by (rule settles_post[OF run_settles[OF assms(1)] assms(2)]) blast

lemma run_once: "run db = Inr (db', res) \<Longrightarrow> wf_quota db \<Longrightarrow> run db' = Inl ReservationAlreadyFinalizedError"
  using run_post run_closed by fastforce

end

lemma locked_Inr:
  "locked_pending_reservation rid ak db = Inr r \<longleftrightarrow>
     get_reservation_by_id rid db = Some r \<and> qr_gateway_key_id r = ak_gateway_key_id ak \<and> qr_status r = Pending"
  by (auto simp: locked_pending_reservation_def)

lemma locked_closed:
  "\<lbrakk>get_reservation_by_id rid db = Some r; qr_gateway_key_id r = ak_gateway_key_id ak; qr_status r \<noteq> Pending\<rbrakk>
     \<Longrightarrow> locked_pending_reservation rid ak db = Inl ReservationAlreadyFinalizedError"
  by (simp add: locked_pending_reservation_def)

lemma success_ledger_same:
  "create_success_ledger a b c d f g h i j k l m n p q db = Inr (db', row) \<Longrightarrow> same_quota db db'"
  by (simp add: create_success_ledger_def create_success_record_def create_usage_record_same)

lemma finalized_ledger_same:
  "mark_provider_completed_ledger_finalized a b c d f g h i db = Inr (db', row) \<Longrightarrow> same_quota db db'"
  by (auto simp: mark_provider_completed_ledger_finalized_def mark_provider_completed_record_finalized_def
      dest: flushed_ledger_same)

lemma finalize_elim:
  assumes "finalize_successful_response clock uid rid ak route est response req endpoint streaming started_at
      finished_at pc db = Inr (db', res)"
  obtains usage cost db1 db2 r r2 k k1 ledger overrun where
    "usage_and_cost response route est endpoint = Inr (usage, cost)"
    "get_reservation_by_id rid db = Some r" "qr_gateway_key_id r = ak_gateway_key_id ak" "qr_status r = Pending"
    "get_gateway_key_by_id (ak_gateway_key_id ak) db = Some k"
    "finalize_reserved_counters k (qr_reserved_cost_eur r) (qr_reserved_tokens r) (qr_reserved_requests r)
       (ac_actual_cost_eur cost) (au_total_tokens usage) 1 (aware_now clock finished_at) db = Inr (db1, k1)"
    "mark_pending_reservation_finalized r (aware_now clock finished_at) db1 = Inr (db2, r2)"
    "(case pc of
        Some puid \<Rightarrow> mark_provider_completed_ledger_finalized puid response usage est cost overrun
          (aware_now clock finished_at)
          (Some (latency_ms (started_time clock started_at r2) (aware_now clock finished_at))) db2
      | None \<Rightarrow> create_success_ledger uid clock req (qr_id r2) ak route response (acc_normalize_endpoint endpoint)
          usage est cost overrun streaming (started_time clock started_at r2)
          (aware_now clock finished_at) db2) = Inr (db', ledger)"
    "overrun = reservation_overrun_metadata (ac_actual_cost_eur cost) (au_total_tokens usage)
       (qr_reserved_cost_eur r) (qr_reserved_tokens r) (acc_normalize_endpoint endpoint)"
    "far_actual_cost_eur res = ac_actual_cost_eur cost" "far_total_tokens res = au_total_tokens usage"
    "far_usage_ledger_id res = ul_id ledger" "far_prompt_tokens res = au_prompt_tokens usage"
    "far_completion_tokens res = au_completion_tokens usage"
  using assms unfolding finalize_successful_response_def Let_def
  by (auto simp: locked_Inr split: prod.splits)

lemma finalize_settles:
  assumes "finalize_successful_response clock uid rid ak route est response req endpoint streaming started_at
      finished_at pc db = Inr (db', res)"
  shows "settles rid (ak_gateway_key_id ak) (far_actual_cost_eur res) (far_total_tokens res) db db'"
  using assms
proof (cases rule: finalize_elim)
  case (1 usage cost db1 db2 r r2 k k1 ledger overrun)
  have "same_quota db2 db'"
    using 1(8) by (auto split: option.splits dest: success_ledger_same finalized_ledger_same)
  with 1 show ?thesis by (auto intro: settlesI)
qed

interpretation fin: settlement
  "finalize_successful_response clock uid rid ak route est response req endpoint streaming started_at finished_at pc"
  rid "ak_gateway_key_id ak"
  for clock uid rid ak route est response req endpoint streaming started_at finished_at pc
  by unfold_locales
    (auto simp: finalize_settles finalize_successful_response_def locked_closed Let_def)

interpretation custom: settlement
  "finalize_successful_custom_response clock uid rid ak route est response req endpoint usage cost native currency
     source confidence warnings costs counts extra streaming started_at finished_at"
  rid "ak_gateway_key_id ak"
  for clock uid rid ak route est response req endpoint usage cost native currency source confidence
    warnings costs counts extra streaming started_at finished_at
proof unfold_locales
  fix db db' res
  assume "finalize_successful_custom_response clock uid rid ak route est response req endpoint usage cost native
    currency source confidence warnings costs counts extra streaming started_at finished_at db = Inr (db', res)"
  then show "settles rid (ak_gateway_key_id ak) (far_actual_cost_eur res) (far_total_tokens res) db db'"
    unfolding finalize_successful_custom_response_def Let_def
    by (auto simp: locked_Inr split: prod.splits dest!: success_ledger_same intro: settlesI)
qed (simp add: finalize_successful_custom_response_def locked_closed Let_def)

interpretation interrupted: settlement
  "record_streaming_interrupted_estimate clock uid rid ak route est req inp outp total cost metadata endpoint
     reason error_type error_message status started_at finished_at"
  rid "ak_gateway_key_id ak"
  for clock uid rid ak route est req inp outp total cost metadata endpoint reason error_type error_message
    status started_at finished_at
proof unfold_locales
  fix db db' res
  assume "record_streaming_interrupted_estimate clock uid rid ak route est req inp outp total cost metadata
    endpoint reason error_type error_message status started_at finished_at db = Inr (db', res)"
  then show "settles rid (ak_gateway_key_id ak) (far_actual_cost_eur res) (far_total_tokens res) db db'"
    unfolding record_streaming_interrupted_estimate_def Let_def non_negative_int_def non_negative_decimal_def
    by (auto simp: locked_Inr split: prod.splits if_splits dest!: create_usage_record_same intro: settlesI)
qed (simp add: record_streaming_interrupted_estimate_def locked_closed Let_def)

section \<open>Ledger rows\<close>

lemma stored_ledger_sels [simp]:
  "ul_id (stored_ledger l) = ul_id l"
  "ul_request_id (stored_ledger l) = ul_request_id l"
  "ul_quota_reservation_id (stored_ledger l) = ul_quota_reservation_id l"
  "ul_gateway_key_id (stored_ledger l) = ul_gateway_key_id l"
  "ul_accounting_status (stored_ledger l) = ul_accounting_status l"
  "ul_prompt_tokens (stored_ledger l) = ul_prompt_tokens l"
  "ul_completion_tokens (stored_ledger l) = ul_completion_tokens l"
  "ul_total_tokens (stored_ledger l) = ul_total_tokens l"
  "ul_actual_cost_eur (stored_ledger l) = map_option pg9 (ul_actual_cost_eur l)"
  "ul_response_metadata (stored_ledger l) = ul_response_metadata l"
  "ul_success (stored_ledger l) = ul_success l"
  "ul_streaming (stored_ledger l) = ul_streaming l"
  "ul_endpoint (stored_ledger l) = ul_endpoint l"
  by (simp_all add: stored_ledger_def)

lemma stored_ledger_idem [simp]: "stored_ledger (stored_ledger l) = stored_ledger l"
  by (simp add: stored_ledger_def map_option.compositionality comp_def)

lemma stored_ledger_fits [simp]: "ledger_fits (stored_ledger l) = ledger_fits l"
  by (simp add: ledger_fits_def stored_ledger_def opt_all_map)

definition ledger_ok :: "usage_ledger \<Rightarrow> bool" where
  "ledger_ok l = (stored_ledger l = l \<and> ledger_fits l \<and> ledger_checks l)"

lemma create_usage_record_Inr:
  "create_usage_record row db = Inr (db', row') \<longleftrightarrow>
     row' = row\<lparr>ul_usage_raw := sanitize_mapping True None (ul_usage_raw row),
                ul_response_metadata := sanitize_mapping True None (ul_response_metadata row)\<rparr>
     \<and> insert_ledger row' db = Inr db'"
  by (auto simp: create_usage_record_def sanitize_metadata_mapping_def Let_def)

lemma create_usage_record_row:
  assumes "create_usage_record row db = Inr (db', row')"
  shows "db_ledger db' = db_ledger db @ [stored_ledger row']" "same_quota db db'"
    "ul_id row \<notin> ul_id ` set (db_ledger db)" "ledger_ok (stored_ledger row')" "ul_id row' = ul_id row"
  using assms by (auto simp: create_usage_record_Inr flush_simps same_quota_def ledger_ok_def)

lemma finalize_counters_ledger:
  "finalize_reserved_counters k a b c d f g t db = Inr (db1, k1) \<Longrightarrow> db_ledger db1 = db_ledger db"
  "mark_pending_reservation_finalized r t db1 = Inr (db2, r2) \<Longrightarrow> db_ledger db2 = db_ledger db1 \<and> qr_id r2 = qr_id r"
  by (auto simp: finalize_reserved_counters_def mark_pending_reservation_finalized_def flush_simps)

text \<open>The row written when the provider has answered and the counters have not moved yet.\<close>

lemma record_completed_row:
  assumes "record_provider_completed_before_finalization clock uid rid ak route est response req endpoint streaming
      started_at db = Inr (db1, pcr)" and "get_usage_record_by_request_id req db = None"
  shows "\<exists>usage cost row. usage_and_cost response route est endpoint = Inr (usage, cost) \<and> same_quota db db1
    \<and> uid \<notin> ul_id ` set (db_ledger db) \<and> pcr_usage_ledger_id pcr = uid
    \<and> db_ledger db1 = db_ledger db @ [row] \<and> ul_id row = uid \<and> ul_request_id row = req
    \<and> ul_quota_reservation_id row = Some rid \<and> ul_gateway_key_id row = ak_gateway_key_id ak
    \<and> ul_accounting_status row = LPending \<and> ledger_ok row
    \<and> ul_prompt_tokens row = au_prompt_tokens usage \<and> ul_completion_tokens row = au_completion_tokens usage
    \<and> ul_total_tokens row = au_total_tokens usage \<and> ul_actual_cost_eur row = Some (pg9 (ac_actual_cost_eur cost))"
proof -
  from assms obtain r usage cost md row0 where
    r: "get_reservation_by_id rid db = Some r" and u: "usage_and_cost response route est endpoint = Inr (usage, cost)"
    and row: "create_usage_record ((usage_row uid clock req (qr_id r) ak route response
         (acc_normalize_endpoint endpoint) usage est cost md streaming (started_time clock started_at r))
         \<lparr>ul_success := None, ul_accounting_status := LPending\<rparr>) db = Inr (db1, row0)"
    and p: "pcr_usage_ledger_id pcr = ul_id row0"
    unfolding record_provider_completed_before_finalization_def create_provider_completed_record_def Let_def
    by (auto split: prod.splits)
  have id: "qr_id r = rid" using get_reservation_in[OF r] by simp
  note post = create_usage_record_row[OF row]
  have "ul_id row0 = uid \<and> ul_request_id row0 = req \<and> ul_quota_reservation_id row0 = Some rid
    \<and> ul_gateway_key_id row0 = ak_gateway_key_id ak \<and> ul_accounting_status row0 = LPending
    \<and> ul_prompt_tokens row0 = au_prompt_tokens usage \<and> ul_completion_tokens row0 = au_completion_tokens usage
    \<and> ul_total_tokens row0 = au_total_tokens usage \<and> ul_actual_cost_eur row0 = Some (ac_actual_cost_eur cost)"
    using row by (simp add: create_usage_record_Inr id usage_row_def new_usage_record_def)
  with u p post show ?thesis by (intro exI[of _ usage] exI[of _ cost] exI[of _ "stored_ledger row0"]) simp
qed

lemma put_row_last:
  "idf q = idf r \<Longrightarrow> idf r \<notin> idf ` set t \<Longrightarrow> put_row idf q (t @ [r]) = t @ [q]"
  by (induction t) auto

lemma get_row_last: "idf r \<notin> idf ` set t \<Longrightarrow> get_row idf (idf r) (t @ [r]) = Some r"
  by (induction t) auto

definition released_key :: "gateway_key \<Rightarrow> quota_reservation \<Rightarrow> gateway_key \<Rightarrow> bool" where
  "released_key k r k' =
     (gk_tokens_reserved_total k' = gk_tokens_reserved_total k - qr_reserved_tokens r
      \<and> gk_requests_reserved_total k' = gk_requests_reserved_total k - qr_reserved_requests r
      \<and> gk_cost_reserved_eur k' = gk_cost_reserved_eur k - qr_reserved_cost_eur r
      \<and> gk_tokens_used_total k' = gk_tokens_used_total k
      \<and> gk_requests_used_total k' = gk_requests_used_total k
      \<and> gk_cost_used_eur k' = gk_cost_used_eur k)"

lemma subtract_post:
  assumes "subtract_reserved_counters k (qr_reserved_cost_eur r) (qr_reserved_tokens r) (qr_reserved_requests r) db
      = Inr (db1, k1)"
    and "wf_quota db" "get_gateway_key_by_id kid db = Some k" "get_reservation_by_id rid db = Some r"
  shows "\<exists>k'. get_gateway_key_by_id kid db1 = Some k' \<and> released_key k r k'
    \<and> db_reservations db1 = db_reservations db \<and> db_ledger db1 = db_ledger db"
proof -
  have ok: "key_ok k" "reservation_ok r"
    using wf_quota_key_ok[OF assms(2,3)] wf_quota_reservation_ok[OF assms(2,4)] by simp_all
  let ?k = "stored_key (reserved_minus k (qr_reserved_cost_eur r) (qr_reserved_tokens r) (qr_reserved_requests r))"
  have "kid \<in> gk_id ` set (db_keys db)" "gk_id k = kid" using get_key_in[OF assms(3)] by force+
  then have "get_gateway_key_by_id kid db1 = Some ?k \<and> db_reservations db1 = db_reservations db
      \<and> db_ledger db1 = db_ledger db"
    using assms(1,3) by (auto simp: subtract_reserved_counters_def flush_simps get_gateway_key_by_id_def get_put_row)
  moreover have "released_key k r ?k"
    using cost_reserved_minus[OF ok] key_okD(2)[OF ok(1)]
    by (simp add: released_key_def reserved_minus_def pg9_nine_places)
  ultimately show ?thesis by blast
qed

lemma mark_reservations_only:
  assumes "flushed_reservation r db = Inr (db', r')"
  shows "db_keys db' = db_keys db" "db_ledger db' = db_ledger db" "r' = r"
  using assms by (auto simp: flush_simps)

lemma failure_ledger_row:
  assumes "create_failure_ledger uid clock req rid ak route endpoint est error_type error_code status_code diagnostic
      streaming started finished db = Inr (db', ledger)"
  shows "\<exists>row. db_ledger db' = db_ledger db @ [row] \<and> same_quota db db' \<and> ul_request_id row = req
    \<and> ul_accounting_status row = LFailed \<and> ul_total_tokens row = 0 \<and> ul_actual_cost_eur row = Some 0"
proof -
  from assms obtain cur where row: "create_usage_record
      ((new_usage_record uid clock req (ak_gateway_key_id ak) endpoint (rt_provider route) started)
             \<lparr>ul_quota_reservation_id := Some rid, ul_owner_id := Some (ak_owner_id ak),
              ul_cohort_id := ak_cohort_id ak, ul_requested_model := Some (rt_requested_model route),
              ul_resolved_model := Some (rt_resolved_model route), ul_streaming := streaming,
              ul_http_status := status_code, ul_error_type := Some (safe_short_string error_type),
              ul_error_message := map_option safe_short_string error_code,
              ul_estimated_cost_eur := Some (ce_estimated_total_cost_eur est),
              ul_actual_cost_eur := Some 0, ul_actual_cost_native := Some 0,
              ul_native_currency := Some cur,
              ul_response_metadata := failure_response_metadata diagnostic,
              ul_finished_at := Some finished,
              ul_latency_ms := Some (latency_ms started finished),
              ul_success := Some False, ul_accounting_status := LFailed\<rparr>) db = Inr (db', ledger)"
    by (auto simp: create_failure_ledger_def create_failure_record_def)
  from create_usage_record_row[OF row] row show ?thesis
    by (simp add: create_usage_record_Inr new_usage_record_def)
qed

lemma failure_steps:
  assumes "record_provider_failure_and_release clock uid rid ak route est req error_type endpoint error_code
      status_code diagnostic streaming started_at finished_at db = Inr (db', res)"
  shows "quota_steps e db db'"
proof -
  from assms obtain r k db2 r2 released ledger where
    r: "get_reservation_by_id rid db = Some r" "qr_gateway_key_id r = ak_gateway_key_id ak"
    and k: "get_gateway_key_by_id (ak_gateway_key_id ak) db = Some k"
    and rel: "(if qr_status r = Pending
            then sbind (subtract_reserved_counters k (qr_reserved_cost_eur r) (qr_reserved_tokens r)
                          (qr_reserved_requests r) db) (\<lambda>(db1, _).
                 sbind (mark_pending_reservation_released r (aware_now clock finished_at) db1) (\<lambda>(db2, r2).
                 Inr (db2, r2, True)))
            else Inr (db, r, False)) = Inr (db2, r2, released)"
    and led: "create_failure_ledger uid clock req (qr_id r2) ak route (acc_normalize_endpoint endpoint) est error_type
        error_code status_code diagnostic streaming (started_time clock started_at r2)
        (aware_now clock finished_at) db2 = Inr (db', ledger)"
    unfolding record_provider_failure_and_release_def Let_def by (auto split: prod.splits)
  have "quota_steps e db db2"
  proof (cases "qr_status r = Pending")
    case True
    with rel obtain db1 k1 where s: "subtract_reserved_counters k (qr_reserved_cost_eur r) (qr_reserved_tokens r)
        (qr_reserved_requests r) db = Inr (db1, k1)"
      and m: "mark_pending_reservation_released r (aware_now clock finished_at) db1 = Inr (db2, r2)"
      by (auto split: prod.splits)
    have "quota_step e db db2"
      by (rule release_is_step[OF r(1) True k[folded r(2)] s m[unfolded mark_flushed]]) simp
    then show ?thesis by simp
  next
    case False
    with rel show ?thesis by simp
  qed
  moreover have "same_quota db2 db'" using failure_ledger_row[OF led] by auto
  ultimately show ?thesis by (metis quota_step.Idle rtranclp.rtrancl_into_rtrancl)
qed

lemma record_completed_same:
  "record_provider_completed_before_finalization clock uid rid ak route est response req endpoint streaming
      started_at db = Inr (db', pcr) \<Longrightarrow> same_quota db db'"
  unfolding record_provider_completed_before_finalization_def Let_def create_provider_completed_record_def
  by (auto split: prod.splits option.splits dest: create_usage_record_same)

lemma mark_failed_elim:
  assumes "mark_provider_completed_finalization_failed clock uid rid code msg finished_at db = Inr (db', res)"
  obtains row row' where "get_usage_record_by_id uid db = Some row" "ul_quota_reservation_id row = Some rid"
    "row' = row\<lparr>ul_success := None, ul_accounting_status := LFailed,
       ul_error_type := Some ''accounting_finalization_failed'',
       ul_error_message := Some (or_default (safe_short_string code) ''accounting_finalization_failed''),
       ul_response_metadata := sanitize_mapping True None
         (dmerge (safe_json_mapping (ul_response_metadata row))
            [(''recovery_state'', PStr ''provider_completed_finalization_failed''),
             (''needs_reconciliation'', PBool True), (''finalization_error_code'', PStr (safe_short_string code))]),
       ul_finished_at := Some (aware_now clock finished_at),
       ul_latency_ms := Some (latency_ms (aware_now clock (Some (ul_started_at row))) (aware_now clock finished_at))\<rparr>"
    "flush_ledger row' db = Inr db'" "frr_usage_ledger_id res = ul_id row'"
  using assms unfolding mark_provider_completed_finalization_failed_def
    mark_provider_completed_record_finalization_failed_def Let_def
  by (auto simp: flushed_ledger_Inr sanitize_metadata_mapping_def split: prod.splits)

lemma mark_failed_same:
  "mark_provider_completed_finalization_failed clock uid rid code msg finished_at db = Inr (db', res)
     \<Longrightarrow> same_quota db db'"
  by (erule mark_failed_elim) (simp add: flush_simps same_quota_def)

lemma recovery_keys_durable:
  "durable_key ''recovery_state''" "durable_key ''needs_reconciliation''"
  by code_simp+

lemma recovery_state_plain:
  "redact_text ''provider_completed_finalization_failed'' pfx = ''provider_completed_finalization_failed''"
  by (rule redact_text_plain) (simp add: plain_char_def is_lower_def char_code_def)

lemma interrupted_ledger:
  assumes "record_streaming_interrupted_estimate clock uid rid ak route est req inp outp tot cost metadata endpoint
      reason error_type error_message status started_at finished_at db = Inr (db', res)"
  shows "\<exists>row. db_ledger db' = db_ledger db @ [row] \<and> ul_accounting_status row = LEstimated
         \<and> ul_success row = Some False \<and> ul_total_tokens row = tot \<and> ul_actual_cost_eur row = Some (pg9 cost)
         \<and> ul_quota_reservation_id row = Some rid \<and> ul_streaming row \<and> ul_endpoint row = acc_normalize_endpoint endpoint
         \<and> (\<exists>rcost rtokens. ul_response_metadata row = sanitize_mapping True None
               (dmerge (dmerge (sanitize_metadata_mapping True None (Some metadata))
                 (reservation_overrun_metadata cost tot rcost rtokens (acc_normalize_endpoint endpoint)))
                 [(''accounting_estimate_reason'', PStr reason)]))"
proof -
  from assms obtain r k db1 k1 db2 r2 cur row0 md where
    r: "get_reservation_by_id rid db = Some r"
    and f: "finalize_reserved_counters k (qr_reserved_cost_eur r) (qr_reserved_tokens r) (qr_reserved_requests r)
       cost tot 1 (aware_now clock finished_at) db = Inr (db1, k1)"
    and m: "mark_pending_reservation_finalized r (aware_now clock finished_at) db1 = Inr (db2, r2)"
    and row: "create_usage_record
                 ((new_usage_record uid clock req (ak_gateway_key_id ak) (acc_normalize_endpoint endpoint)
                     (rt_provider route) (started_time clock started_at r2))
                   \<lparr>ul_quota_reservation_id := Some (qr_id r2), ul_owner_id := Some (ak_owner_id ak),
                    ul_cohort_id := ak_cohort_id ak, ul_requested_model := Some (rt_requested_model route),
                    ul_resolved_model := Some (rt_resolved_model route), ul_streaming := True,
                    ul_success := Some False, ul_accounting_status := LEstimated,
                    ul_http_status := status, ul_error_type := Some error_type,
                    ul_error_message := Some (or_default (case error_message of Some m \<Rightarrow> m | None \<Rightarrow> []) error_type),
                    ul_prompt_tokens := min inp tot, ul_completion_tokens := min outp (max (tot - min inp tot) 0),
                    ul_input_tokens := min inp tot, ul_output_tokens := min outp (max (tot - min inp tot) 0),
                    ul_total_tokens := tot, ul_estimated_cost_eur := Some cost,
                    ul_actual_cost_eur := Some cost, ul_actual_cost_native := None,
                    ul_native_currency := Some cur, ul_usage_raw := [],
                    ul_response_metadata := md, ul_finished_at := Some (aware_now clock finished_at),
                    ul_latency_ms := Some (latency_ms (started_time clock started_at r2) (aware_now clock finished_at))\<rparr>) db2
       = Inr (db', row0)"
    and md: "md = dmerge (dmerge (sanitize_metadata_mapping True None (Some metadata))
        (reservation_overrun_metadata cost tot (qr_reserved_cost_eur r2) (qr_reserved_tokens r2) (acc_normalize_endpoint endpoint)))
        [(''accounting_estimate_reason'', PStr reason)]"
    unfolding record_streaming_interrupted_estimate_def Let_def non_negative_int_def non_negative_decimal_def
    by (auto simp: locked_Inr split: prod.splits if_splits)
  have "qr_id r2 = rid" "db_ledger db2 = db_ledger db"
    using get_reservation_in[OF r] finalize_counters_ledger(1)[OF f] finalize_counters_ledger(2)[OF m] by simp_all
  with create_usage_record_row[OF row] row show ?thesis unfolding md
    by (auto simp: create_usage_record_Inr new_usage_record_def)
qed

section \<open>A concrete request\<close>

definition sample_reserved_db :: db where
  "sample_reserved_db =
     sample_db\<lparr>db_keys := [reserved_plus sample_key 4 100 1],
       db_reservations := [request_reservation (Aware 1000) 7 10 sample_route sample_policy ''req1''
          ''/v1/chat/completions'' (Aware 900001000) 4 100]\<rparr>"

lemma sample_reserved_eq: "\<exists>res. sample_reserved = Inr (sample_reserved_db, res)"
  unfolding sample_reserved_def reserve_for_chat_completion_def sample_reserved_db_def
  by (simp add: eval_simps Let_def del: sbind_eq_Inr)

lemma sample_reserved_wf: "wf_quota sample_reserved_db"
  using wf_quota_step[OF reserve_is_step[of _ _ _ _ _ _ _ _ _ _ _ _ False] sample_wf] sample_reserved_eq
  unfolding sample_reserved_def by fastforce

lemma sample_usage_and_cost:
  "usage_and_cost sample_response sample_route sample_estimate ''chat.completions'' = Inr (sample_actual, sample_cost)"
  by (simp add: usage_and_cost_def sample_not_fixed sample_usage_eq sample_cost_eq)

lemmas accounting_eval [eval_simps] =
  as_error_def locked_pending_reservation_def usage_row_def create_success_ledger_def
  started_time_def latency_ms_def create_failure_ledger_def non_negative_int_def non_negative_decimal_def
  or_default_def mark_provider_completed_ledger_finalized_def

lemma sample_finalized:
  "\<exists>db' res. finalize_successful_response (Aware 2000) 8 7 sample_ak sample_route sample_estimate sample_response
     ''req1'' ''chat.completions'' False None None None sample_reserved_db = Inr (db', res)"
  unfolding finalize_successful_response_def sample_usage_and_cost sbind_Inr prod.case sample_reserved_db_def
  by (simp add: eval_simps Let_def sample_actual_def sample_cost_def)

lemma sample_completed:
  "\<exists>db1 pcr db2 res db3 frr.
     record_provider_completed_before_finalization (Aware 1500) 8 7 sample_ak sample_route sample_estimate
       sample_response ''req1'' ''chat.completions'' False None sample_reserved_db = Inr (db1, pcr)
     \<and> finalize_successful_response (Aware 2000) 9 7 sample_ak sample_route sample_estimate sample_response
       ''req1'' ''chat.completions'' False None None (Some (pcr_usage_ledger_id pcr)) db1 = Inr (db2, res)
     \<and> mark_provider_completed_finalization_failed (Aware 2000) (pcr_usage_ledger_id pcr) 7 ''db_error'' ''m'' None
         db1 = Inr (db3, frr)"
  unfolding finalize_successful_response_def record_provider_completed_before_finalization_def
    mark_provider_completed_finalization_failed_def
    sample_usage_and_cost sbind_Inr prod.case sample_reserved_db_def
  by (simp add: eval_simps Let_def sample_actual_def sample_cost_def del: sbind_eq_Inr)

lemma sample_fresh_request: "get_usage_record_by_request_id ''req1'' sample_reserved_db = None"
  by (simp add: sample_reserved_db_def eval_simps)

lemma sample_failed:
  "\<exists>db' res. record_provider_failure_and_release (Aware 2000) 8 7 sample_ak sample_route sample_estimate ''req1''
     ''upstream_error'' ''chat.completions'' None (Some 502) None False None None sample_reserved_db = Inr (db', res)"
  unfolding record_provider_failure_and_release_def sample_reserved_db_def
  by (simp add: eval_simps Let_def sample_cost_facts)

lemma sample_interrupted:
  "\<exists>db' res. record_streaming_interrupted_estimate (Aware 2000) 8 7 sample_ak sample_route sample_estimate ''req1''
     30 20 50 2 [] ''chat.completions'' ''r'' ''e'' None (Some 200) None None sample_reserved_db = Inr (db', res)"
  unfolding record_streaming_interrupted_estimate_def sample_reserved_db_def
  by (simp add: eval_simps Let_def)

section \<open>Properties\<close>

text \<open>C3: Finalizing a successful response charges the key exactly once and exactly what the ledger says.
  The reservation was pending and becomes finalized; its tokens, requests and cost leave the
  reserved counters, the actual tokens, one request and the actual cost (as the column rounds it)
  enter the used counters; no other key changes; and one finalized ledger row is appended that
  carries the same tokens and cost, the request and the reservation.\<close>

theorem finalize_charges_reservation:
  assumes "finalize_successful_response clock uid rid ak route est response req endpoint streaming started_at
      finished_at None db = Inr (db', res)" and "wf_quota db"
  shows "\<exists>r k k' r' row. get_reservation_by_id rid db = Some r \<and> qr_status r = Pending
    \<and> get_gateway_key_by_id (ak_gateway_key_id ak) db = Some k
    \<and> get_gateway_key_by_id (ak_gateway_key_id ak) db' = Some k'
    \<and> settled_key k r (far_actual_cost_eur res) (far_total_tokens res) k'
    \<and> (\<forall>i. i \<noteq> ak_gateway_key_id ak \<longrightarrow> get_gateway_key_by_id i db' = get_gateway_key_by_id i db)
    \<and> get_reservation_by_id rid db' = Some r' \<and> qr_status r' = Finalized
    \<and> db_ledger db' = db_ledger db @ [row] \<and> ul_id row = far_usage_ledger_id res
    \<and> ul_request_id row = req \<and> ul_quota_reservation_id row = Some rid
    \<and> ul_gateway_key_id row = ak_gateway_key_id ak \<and> ul_accounting_status row = LFinalized
    \<and> ul_total_tokens row = far_total_tokens res
    \<and> ul_actual_cost_eur row = Some (pg9 (far_actual_cost_eur res))"
proof -
  from fin.run_post[OF assms] obtain r k k' r' where
    post: "get_reservation_by_id rid db = Some r" "qr_status r = Pending"
      "get_gateway_key_by_id (ak_gateway_key_id ak) db = Some k"
      "get_gateway_key_by_id (ak_gateway_key_id ak) db' = Some k'"
      "settled_key k r (far_actual_cost_eur res) (far_total_tokens res) k'"
      "\<forall>i. i \<noteq> ak_gateway_key_id ak \<longrightarrow> get_gateway_key_by_id i db' = get_gateway_key_by_id i db"
      "get_reservation_by_id rid db' = Some r'" "qr_status r' = Finalized" by blast
  from assms(1) obtain row where
    "db_ledger db' = db_ledger db @ [row] \<and> ul_id row = far_usage_ledger_id res
    \<and> ul_request_id row = req \<and> ul_quota_reservation_id row = Some rid
    \<and> ul_gateway_key_id row = ak_gateway_key_id ak \<and> ul_accounting_status row = LFinalized
    \<and> ul_total_tokens row = far_total_tokens res
    \<and> ul_actual_cost_eur row = Some (pg9 (far_actual_cost_eur res))"
  proof (cases rule: finalize_elim)
    case (1 usage cost db1 db2 r r2 k k1 ledger overrun)
    have "qr_id r = rid" using get_reservation_in[OF 1(2)] by simp
    then show ?thesis using 1(8,10-12) finalize_counters_ledger(1)[OF 1(6)] finalize_counters_ledger(2)[OF 1(7)] that
      by (auto simp: create_success_ledger_def create_success_record_def create_usage_record_Inr usage_row_def
          new_usage_record_def flush_simps stored_ledger_def)
  qed
  with post show ?thesis by blast
qed

theorem finalize_charges_reservation_witness:
  "\<exists>db' res row. finalize_successful_response (Aware 2000) 8 7 sample_ak sample_route sample_estimate sample_response
     ''req1'' ''chat.completions'' False None None None sample_reserved_db = Inr (db', res)
     \<and> db_ledger db' = [row] \<and> ul_total_tokens row = far_total_tokens res"
proof -
  obtain db' res where f: "finalize_successful_response (Aware 2000) 8 7 sample_ak sample_route sample_estimate
     sample_response ''req1'' ''chat.completions'' False None None None sample_reserved_db = Inr (db', res)"
    using sample_finalized by blast
  from finalize_charges_reservation[OF f sample_reserved_wf] f show ?thesis
    by (auto simp: sample_reserved_db_def sample_db_def)
qed

text \<open>C23: The two-phase path gives the same result as the direct one: a provider-completed row written
  before finalization and then finalized leaves one ledger row for the request, with the tokens
  and the cost that the key was charged.\<close>

theorem two_phase_finalization:
  assumes "record_provider_completed_before_finalization clock uid rid ak route est response req endpoint streaming
      started_at db = Inr (db1, pcr)"
    and "get_usage_record_by_request_id req db = None" and "wf_quota db"
    and "finalize_successful_response clock' uid' rid ak route est response req endpoint streaming' started_at'
      finished_at (Some (pcr_usage_ledger_id pcr)) db1 = Inr (db2, res)"
  shows "\<exists>r k k' row. get_reservation_by_id rid db = Some r
    \<and> get_gateway_key_by_id (ak_gateway_key_id ak) db = Some k
    \<and> get_gateway_key_by_id (ak_gateway_key_id ak) db2 = Some k'
    \<and> settled_key k r (far_actual_cost_eur res) (far_total_tokens res) k'
    \<and> db_ledger db2 = db_ledger db @ [row] \<and> ul_id row = far_usage_ledger_id res
    \<and> ul_request_id row = req \<and> ul_quota_reservation_id row = Some rid
    \<and> ul_gateway_key_id row = ak_gateway_key_id ak \<and> ul_accounting_status row = LFinalized
    \<and> ul_total_tokens row = far_total_tokens res
    \<and> ul_actual_cost_eur row = Some (pg9 (far_actual_cost_eur res))"
proof -
  from record_completed_row[OF assms(1,2)] obtain usage cost row where
    u: "usage_and_cost response route est endpoint = Inr (usage, cost)" and same: "same_quota db db1"
    and fresh: "uid \<notin> ul_id ` set (db_ledger db)" and pid: "pcr_usage_ledger_id pcr = uid"
    and l1: "db_ledger db1 = db_ledger db @ [row]" and ids: "ul_id row = uid" "ul_request_id row = req"
      "ul_quota_reservation_id row = Some rid" "ul_gateway_key_id row = ak_gateway_key_id ak"
    and ok: "ledger_ok row" and amounts: "ul_total_tokens row = au_total_tokens usage"
      "ul_actual_cost_eur row = Some (pg9 (ac_actual_cost_eur cost))" by blast
  have wf1: "wf_quota db1" using assms(3) same by (simp add: wf_quota_def same_quota_def)
  have get: "get_usage_record_by_id uid db1 = Some row"
    using get_row_last[of ul_id row "db_ledger db"] fresh ids(1) by (simp add: get_usage_record_by_id_def l1)
  from assms(4) obtain row2 where
    "db_ledger db2 = db_ledger db @ [row2] \<and> ul_id row2 = far_usage_ledger_id res
    \<and> ul_request_id row2 = req \<and> ul_quota_reservation_id row2 = Some rid
    \<and> ul_gateway_key_id row2 = ak_gateway_key_id ak \<and> ul_accounting_status row2 = LFinalized
    \<and> ul_total_tokens row2 = far_total_tokens res
    \<and> ul_actual_cost_eur row2 = Some (pg9 (far_actual_cost_eur res))"
  proof (cases rule: finalize_elim)
    case (1 usage' cost' dba dbb r r2 k k1 ledger overrun)
    have eq: "usage' = usage" "cost' = cost" using 1(1) u by simp_all
    have lb: "db_ledger dbb = db_ledger db1"
      using finalize_counters_ledger(1)[OF 1(6)] finalize_counters_ledger(2)[OF 1(7)] by simp
    have "get_usage_record_by_id uid dbb = Some row" using get by (simp add: get_usage_record_by_id_def lb)
    with 1(8) obtain md hs fa la where led:
      "ledger = row\<lparr>ul_success := Some True, ul_accounting_status := LFinalized,
            ul_http_status := hs, ul_error_type := None, ul_error_message := None,
            ul_response_metadata := md, ul_finished_at := fa, ul_latency_ms := la\<rparr>"
      "flush_ledger ledger dbb = Inr db2"
      by (auto simp: pid mark_provider_completed_ledger_finalized_def mark_provider_completed_record_finalized_def
          flushed_ledger_Inr)
    then have "db_ledger db2 = db_ledger db @ [stored_ledger ledger]"
      using fresh ids(1) by (simp add: flush_ledger_Inr lb l1 put_row_last)
    then show ?thesis
      using led(1) ids amounts 1(10-12) eq by (intro that[of "stored_ledger ledger"]) simp
  qed
  moreover from fin.run_post[OF assms(4) wf1] same obtain r k k' where
    "get_reservation_by_id rid db = Some r" "get_gateway_key_by_id (ak_gateway_key_id ak) db = Some k"
    "get_gateway_key_by_id (ak_gateway_key_id ak) db2 = Some k'"
    "settled_key k r (far_actual_cost_eur res) (far_total_tokens res) k'"
    by (auto simp: same_quota_def get_reservation_by_id_def get_gateway_key_by_id_def)
  ultimately show ?thesis by blast
qed

theorem two_phase_finalization_witness:
  "\<exists>db1 pcr db2 res row.
     record_provider_completed_before_finalization (Aware 1500) 8 7 sample_ak sample_route sample_estimate
       sample_response ''req1'' ''chat.completions'' False None sample_reserved_db = Inr (db1, pcr)
     \<and> finalize_successful_response (Aware 2000) 9 7 sample_ak sample_route sample_estimate sample_response
       ''req1'' ''chat.completions'' False None None (Some (pcr_usage_ledger_id pcr)) db1 = Inr (db2, res)
     \<and> db_ledger db2 = [row] \<and> ul_accounting_status row = LFinalized"
proof -
  obtain db1 pcr db2 res where
    a: "record_provider_completed_before_finalization (Aware 1500) 8 7 sample_ak sample_route sample_estimate
       sample_response ''req1'' ''chat.completions'' False None sample_reserved_db = Inr (db1, pcr)"
    and b: "finalize_successful_response (Aware 2000) 9 7 sample_ak sample_route sample_estimate sample_response
       ''req1'' ''chat.completions'' False None None (Some (pcr_usage_ledger_id pcr)) db1 = Inr (db2, res)"
    using sample_completed by blast
  from two_phase_finalization[OF a sample_fresh_request sample_reserved_wf b] a b show ?thesis
    by (auto simp: sample_reserved_db_def sample_db_def)
qed

text \<open>C5: A reservation is settled at most once.  After a successful finalization every further attempt
  to finalize it, with whatever response, custom cost or streaming estimate, raises
  \<open>ReservationAlreadyFinalizedError\<close>, and releasing it changes nothing.\<close>

theorem settled_at_most_once:
  assumes "finalize_successful_response clock uid rid ak route est response req endpoint streaming started_at
      finished_at pc db = Inr (db', res)" and "wf_quota db"
  shows "finalize_successful_response clock' uid' rid ak route' est' response' req' endpoint' streaming' started_at'
           finished_at' pc' db' = Inl ReservationAlreadyFinalizedError
    \<and> finalize_successful_custom_response clock' uid' rid ak route' est' response' req' endpoint' usage' cost' native'
           currency' source' confidence' warnings' costs' counts' extra' streaming' started_at' finished_at' db'
         = Inl ReservationAlreadyFinalizedError
    \<and> record_streaming_interrupted_estimate clock' uid' rid ak route' est' req' inp' outp' total' cost' metadata'
           endpoint' reason' error_type' error_message' status' started_at' finished_at' db'
         = Inl ReservationAlreadyFinalizedError
    \<and> (\<exists>res'. release_reservation clock' rid now' db' = Inr (db', res'))"
proof -
  from fin.run_post[OF assms] obtain r where
    "get_reservation_by_id rid db' = Some r" "qr_gateway_key_id r = ak_gateway_key_id ak" "qr_status r \<noteq> Pending"
    by auto
  then show ?thesis
    by (simp add: fin.run_closed custom.run_closed interrupted.run_closed release_reservation_def)
qed

theorem settled_at_most_once_witness:
  "\<exists>db' res. finalize_successful_response (Aware 2000) 8 7 sample_ak sample_route sample_estimate sample_response
     ''req1'' ''chat.completions'' False None None None sample_reserved_db = Inr (db', res)
     \<and> finalize_successful_response (Aware 3000) 9 7 sample_ak sample_route sample_estimate sample_response
     ''req1'' ''chat.completions'' False None None None db' = Inl ReservationAlreadyFinalizedError"
proof -
  obtain db' res where f: "finalize_successful_response (Aware 2000) 8 7 sample_ak sample_route sample_estimate
     sample_response ''req1'' ''chat.completions'' False None None None sample_reserved_db = Inr (db', res)"
    using sample_finalized by blast
  from settled_at_most_once[OF f sample_reserved_wf, THEN conjunct1] f show ?thesis by blast
qed

text \<open>A provider failure costs nothing: the used counters of the key stay as they were, a pending
  reservation's amounts leave the reserved counters, a reservation that was already settled is not
  touched again, and the appended failed ledger row has zero tokens and zero cost.\<close>

theorem failure_release_charges_nothing:
  assumes "record_provider_failure_and_release clock uid rid ak route est req error_type endpoint error_code
      status_code diagnostic streaming started_at finished_at db = Inr (db', res)" and "wf_quota db"
  shows "\<exists>r k k' row. get_reservation_by_id rid db = Some r
    \<and> get_gateway_key_by_id (ak_gateway_key_id ak) db = Some k
    \<and> get_gateway_key_by_id (ak_gateway_key_id ak) db' = Some k'
    \<and> (if qr_status r = Pending then released_key k r k' else k' = k)
    \<and> pfr_released res = (qr_status r = Pending)
    \<and> db_ledger db' = db_ledger db @ [row] \<and> ul_request_id row = req
    \<and> ul_accounting_status row = LFailed \<and> ul_total_tokens row = 0 \<and> ul_actual_cost_eur row = Some 0"
proof -
  from assms(1) obtain r k db2 r2 released ledger where
    r: "get_reservation_by_id rid db = Some r" and k: "get_gateway_key_by_id (ak_gateway_key_id ak) db = Some k"
    and rel: "(if qr_status r = Pending
            then sbind (subtract_reserved_counters k (qr_reserved_cost_eur r) (qr_reserved_tokens r)
                          (qr_reserved_requests r) db) (\<lambda>(db1, _).
                 sbind (mark_pending_reservation_released r (aware_now clock finished_at) db1) (\<lambda>(db2, r2).
                 Inr (db2, r2, True)))
            else Inr (db, r, False)) = Inr (db2, r2, released)"
    and led: "create_failure_ledger uid clock req (qr_id r2) ak route (acc_normalize_endpoint endpoint) est error_type
        error_code status_code diagnostic streaming (started_time clock started_at r2)
        (aware_now clock finished_at) db2 = Inr (db', ledger)"
    and res: "pfr_released res = released"
    unfolding record_provider_failure_and_release_def Let_def by (auto split: prod.splits)
  have "\<exists>k'. get_gateway_key_by_id (ak_gateway_key_id ak) db2 = Some k' \<and> db_ledger db2 = db_ledger db
      \<and> (if qr_status r = Pending then released_key k r k' else k' = k) \<and> released = (qr_status r = Pending)"
  proof (cases "qr_status r = Pending")
    case True
    with rel obtain db1 k1 where s: "subtract_reserved_counters k (qr_reserved_cost_eur r) (qr_reserved_tokens r)
        (qr_reserved_requests r) db = Inr (db1, k1)"
      and m: "mark_pending_reservation_released r (aware_now clock finished_at) db1 = Inr (db2, r2)" "released"
      by (auto split: prod.splits)
    from mark_reservations_only[OF m(1)[unfolded mark_flushed]] subtract_post[OF s assms(2) k r] m(2) True
    show ?thesis by (auto simp: get_gateway_key_by_id_def)
  next
    case False
    with rel k show ?thesis by auto
  qed
  moreover from failure_ledger_row[OF led] obtain row where
    "db_ledger db' = db_ledger db2 @ [row]" "db_keys db' = db_keys db2" "ul_request_id row = req"
    "ul_accounting_status row = LFailed" "ul_total_tokens row = 0" "ul_actual_cost_eur row = Some 0"
    by (auto simp: same_quota_def)
  ultimately show ?thesis using r k res by (auto simp: get_gateway_key_by_id_def)
qed

theorem failure_release_charges_nothing_witness:
  "\<exists>db' res row. record_provider_failure_and_release (Aware 2000) 8 7 sample_ak sample_route sample_estimate ''req1''
     ''upstream_error'' ''chat.completions'' None (Some 502) None False None None sample_reserved_db = Inr (db', res)
     \<and> db_ledger db' = [row] \<and> ul_actual_cost_eur row = Some 0"
proof -
  obtain db' res where f: "record_provider_failure_and_release (Aware 2000) 8 7 sample_ak sample_route sample_estimate
     ''req1'' ''upstream_error'' ''chat.completions'' None (Some 502) None False None None sample_reserved_db = Inr (db', res)"
    using sample_failed by blast
  from failure_release_charges_nothing[OF f sample_reserved_wf] f show ?thesis
    by (auto simp: sample_reserved_db_def sample_db_def)
qed

text \<open>When finalization fails after the provider has answered, the usage is not lost: the row marked
  by \<open>mark_provider_completed_finalization_failed\<close> is one that the recovery query finds, it holds the
  computed tokens and cost of the response, and keys and reservations are untouched, so the
  reserved amounts stay reserved until the row is reconciled.\<close>

theorem failed_finalization_recoverable:
  assumes "record_provider_completed_before_finalization clock uid rid ak route est response req endpoint streaming
      started_at db = Inr (db1, pcr)"
    and "get_usage_record_by_request_id req db = None"
    and "mark_provider_completed_finalization_failed clock' (pcr_usage_ledger_id pcr) rid code msg finished_at db1
      = Inr (db2, res)"
  shows "\<exists>usage cost row. usage_and_cost response route est endpoint = Inr (usage, cost)
    \<and> db_ledger db2 = db_ledger db @ [row] \<and> is_provider_completed_recovery row
    \<and> ul_quota_reservation_id row = Some rid \<and> ul_gateway_key_id row = ak_gateway_key_id ak
    \<and> ul_total_tokens row = au_total_tokens usage \<and> ul_actual_cost_eur row = Some (pg9 (ac_actual_cost_eur cost))
    \<and> db_keys db2 = db_keys db \<and> db_reservations db2 = db_reservations db"
proof -
  from record_completed_row[OF assms(1,2)] obtain usage cost row where
    u: "usage_and_cost response route est endpoint = Inr (usage, cost)" and same: "same_quota db db1"
    and fresh: "uid \<notin> ul_id ` set (db_ledger db)" and pid: "pcr_usage_ledger_id pcr = uid"
    and l1: "db_ledger db1 = db_ledger db @ [row]" and ids: "ul_id row = uid"
      "ul_quota_reservation_id row = Some rid" "ul_gateway_key_id row = ak_gateway_key_id ak"
    and amounts: "ul_total_tokens row = au_total_tokens usage"
      "ul_actual_cost_eur row = Some (pg9 (ac_actual_cost_eur cost))" by blast
  have "get_usage_record_by_id uid db1 = Some row"
    using get_row_last[of ul_id row "db_ledger db"] fresh ids(1) by (simp add: get_usage_record_by_id_def l1)
  with mark_failed_elim[OF assms(3)[unfolded pid]] obtain row' where
    row': "row' = row\<lparr>ul_success := None, ul_accounting_status := LFailed,
       ul_error_type := Some ''accounting_finalization_failed'',
       ul_error_message := Some (or_default (safe_short_string code) ''accounting_finalization_failed''),
       ul_response_metadata := sanitize_mapping True None
         (dmerge (safe_json_mapping (ul_response_metadata row))
            [(''recovery_state'', PStr ''provider_completed_finalization_failed''),
             (''needs_reconciliation'', PBool True), (''finalization_error_code'', PStr (safe_short_string code))]),
       ul_finished_at := Some (aware_now clock' finished_at),
       ul_latency_ms := Some (latency_ms (aware_now clock' (Some (ul_started_at row))) (aware_now clock' finished_at))\<rparr>"
    and fl: "flush_ledger row' db1 = Inr db2"
    by (metis option.inject)
  have "db_ledger db2 = db_ledger db @ [stored_ledger row']"
    using fl fresh ids(1) by (simp add: flush_ledger_Inr l1 put_row_last row')
  moreover have "is_provider_completed_recovery (stored_ledger row')"
    by (simp add: row' is_provider_completed_recovery_def dget_sanitize_mapping recovery_keys_durable
        recovery_state_plain dget_dset)
  ultimately show ?thesis using u ids amounts mark_failed_same[OF assms(3)] same
    by (intro exI[of _ usage] exI[of _ cost] exI[of _ "stored_ledger row'"]) (simp add: row' same_quota_def)
qed

theorem failed_finalization_recoverable_witness:
  "\<exists>db1 pcr db3 frr row.
     record_provider_completed_before_finalization (Aware 1500) 8 7 sample_ak sample_route sample_estimate
       sample_response ''req1'' ''chat.completions'' False None sample_reserved_db = Inr (db1, pcr)
     \<and> mark_provider_completed_finalization_failed (Aware 2000) (pcr_usage_ledger_id pcr) 7 ''db_error'' ''m'' None
         db1 = Inr (db3, frr)
     \<and> db_ledger db3 = [row] \<and> is_provider_completed_recovery row"
proof -
  obtain db1 pcr db3 frr where
    a: "record_provider_completed_before_finalization (Aware 1500) 8 7 sample_ak sample_route sample_estimate
       sample_response ''req1'' ''chat.completions'' False None sample_reserved_db = Inr (db1, pcr)"
    and b: "mark_provider_completed_finalization_failed (Aware 2000) (pcr_usage_ledger_id pcr) 7 ''db_error'' ''m'' None
         db1 = Inr (db3, frr)"
    using sample_completed by blast
  from failed_finalization_recoverable[OF a sample_fresh_request b] a b show ?thesis
    by (auto simp: sample_reserved_db_def sample_db_def)
qed

text \<open>An interrupted stream is charged its estimate and recorded consistently: input and output
  tokens are non-negative and together at most the charged total (and are the given ones when
  these add up), negative estimates are refused, and the ledger row is an unsuccessful, estimated
  one with the same total and cost.\<close>

theorem interrupted_estimate_consistent:
  assumes "record_streaming_interrupted_estimate clock uid rid ak route est req inp outp tot cost metadata endpoint
      reason error_type error_message status started_at finished_at db = Inr (db', res)"
  shows "far_total_tokens res = tot \<and> far_actual_cost_eur res = cost \<and> 0 \<le> cost
    \<and> 0 \<le> far_prompt_tokens res \<and> 0 \<le> far_completion_tokens res
    \<and> far_prompt_tokens res + far_completion_tokens res \<le> tot
    \<and> (inp + outp = tot \<longrightarrow> far_prompt_tokens res = inp \<and> far_completion_tokens res = outp)
    \<and> (\<exists>row. db_ledger db' = db_ledger db @ [row] \<and> ul_accounting_status row = LEstimated
         \<and> ul_success row = Some False \<and> ul_total_tokens row = tot \<and> ul_actual_cost_eur row = Some (pg9 cost)
         \<and> ul_quota_reservation_id row = Some rid)"
proof -
  have "0 \<le> tot \<and> 0 \<le> inp \<and> 0 \<le> outp \<and> 0 \<le> cost \<and> far_total_tokens res = tot \<and> far_actual_cost_eur res = cost
    \<and> far_prompt_tokens res = min inp tot \<and> far_completion_tokens res = min outp (max (tot - min inp tot) 0)"
    using assms unfolding record_streaming_interrupted_estimate_def Let_def non_negative_int_def non_negative_decimal_def
    by (auto simp: not_less split: prod.splits if_splits)
  then show ?thesis using interrupted_ledger[OF assms] by auto
qed

theorem interrupted_estimate_consistent_witness:
  "\<exists>db' res row. record_streaming_interrupted_estimate (Aware 2000) 8 7 sample_ak sample_route sample_estimate ''req1''
     30 20 50 2 [] ''chat.completions'' ''r'' ''e'' None (Some 200) None None sample_reserved_db = Inr (db', res)
     \<and> far_prompt_tokens res = 30 \<and> db_ledger db' = [row] \<and> ul_accounting_status row = LEstimated"
proof -
  obtain db' res where f: "record_streaming_interrupted_estimate (Aware 2000) 8 7 sample_ak sample_route sample_estimate
     ''req1'' 30 20 50 2 [] ''chat.completions'' ''r'' ''e'' None (Some 200) None None sample_reserved_db = Inr (db', res)"
    using sample_interrupted by blast
  from interrupted_estimate_consistent[OF f] f show ?thesis by (auto simp: sample_reserved_db_def sample_db_def)
qed

end
