(* ===== verification/Reconciliation.thy ===== *)
theory Reconciliation
  imports Accounting
begin

text \<open>
  \<open>services/reservation_reconciliation.py\<close>: releasing reservations that expired while pending, and
  charging responses whose accounting failed after the provider had answered.  The batch forms
  read the clock and draw row ids anew for every candidate, which is the argument \<open>env\<close>.
  Shown: an expired reservation is released without charge and never a fenced or unexpired one; a
  recovery row is charged with exactly what it records, once; a dry run changes nothing.
\<close>

section \<open>Results\<close>

record stale_reservation_candidate =
  src_reservation_id :: uuid
  src_gateway_key_id :: uuid
  src_request_id :: string
  src_status :: reservation_status
  src_reserved_cost_eur :: decimal
  src_reserved_tokens :: int
  src_reserved_requests :: int
  src_expires_at :: pydatetime
  src_created_at :: pydatetime
  src_requires_external_tool_review :: bool

record reservation_reconciliation_result =
  rrr_reservation_id :: uuid
  rrr_gateway_key_id :: uuid
  rrr_request_id :: string
  rrr_previous_status :: reservation_status
  rrr_new_status :: reservation_status
  rrr_released_cost_eur :: decimal
  rrr_released_tokens :: int
  rrr_released_requests :: int
  rrr_ledger_created :: bool
  rrr_audit_created :: bool
  rrr_dry_run :: bool

record 'r reconciliation_summary =
  sm_checked_count :: nat
  sm_candidate_count :: nat
  sm_reconciled_count :: nat
  sm_skipped_count :: nat
  sm_dry_run :: bool
  sm_results :: "'r list"

record provider_completed_candidate =
  pcc_usage_ledger_id :: uuid
  pcc_reservation_id :: "uuid option"
  pcc_gateway_key_id :: uuid
  pcc_request_id :: string
  pcc_provider :: string
  pcc_requested_model :: "string option"
  pcc_resolved_model :: "string option"
  pcc_endpoint :: string
  pcc_prompt_tokens :: int
  pcc_completion_tokens :: int
  pcc_total_tokens :: int
  pcc_estimated_cost_eur :: "decimal option"
  pcc_actual_cost_eur :: "decimal option"
  pcc_created_at :: pydatetime
  pcc_recovery_state :: pyval

record provider_completed_result =
  pcx_usage_ledger_id :: uuid
  pcx_reservation_id :: uuid
  pcx_gateway_key_id :: uuid
  pcx_request_id :: string
  pcx_previous_accounting_status :: accounting_status
  pcx_new_accounting_status :: accounting_status
  pcx_reservation_status :: reservation_status
  pcx_used_cost_eur :: "decimal option"
  pcx_used_tokens :: int
  pcx_reconciled :: bool
  pcx_dry_run :: bool

definition candidate :: "quota_reservation \<Rightarrow> stale_reservation_candidate" where
  "candidate row =
     \<lparr>src_reservation_id = qr_id row, src_gateway_key_id = qr_gateway_key_id row,
      src_request_id = qr_request_id row, src_status = qr_status row,
      src_reserved_cost_eur = qr_reserved_cost_eur row, src_reserved_tokens = qr_reserved_tokens row,
      src_reserved_requests = qr_reserved_requests row, src_expires_at = qr_expires_at row,
      src_created_at = qr_created_at row,
      src_requires_external_tool_review = (qr_quota_mode row = ExternalToolFenced)\<rparr>"

text \<open>The default of \<open>.get("recovery_state", "")\<close> is the empty string.\<close>

definition provider_completed_candidate_of :: "usage_ledger \<Rightarrow> provider_completed_candidate" where
  "provider_completed_candidate_of row =
     \<lparr>pcc_usage_ledger_id = ul_id row, pcc_reservation_id = ul_quota_reservation_id row,
      pcc_gateway_key_id = ul_gateway_key_id row, pcc_request_id = ul_request_id row,
      pcc_provider = ul_provider row, pcc_requested_model = ul_requested_model row,
      pcc_resolved_model = ul_resolved_model row, pcc_endpoint = ul_endpoint row,
      pcc_prompt_tokens = ul_prompt_tokens row, pcc_completion_tokens = ul_completion_tokens row,
      pcc_total_tokens = ul_total_tokens row, pcc_estimated_cost_eur = ul_estimated_cost_eur row,
      pcc_actual_cost_eur = ul_actual_cost_eur row, pcc_created_at = ul_created_at row,
      pcc_recovery_state =
        (case map_of (ul_response_metadata row) ''recovery_state'' of Some v \<Rightarrow> v | None \<Rightarrow> PStr [])\<rparr>"

definition recon_result ::
  "quota_reservation \<Rightarrow> reservation_status \<Rightarrow> reservation_status \<Rightarrow> bool \<Rightarrow> bool \<Rightarrow> bool
     \<Rightarrow> reservation_reconciliation_result" where
  "recon_result r previous new ledger_created audit_created dry_run =
     \<lparr>rrr_reservation_id = qr_id r, rrr_gateway_key_id = qr_gateway_key_id r,
      rrr_request_id = qr_request_id r, rrr_previous_status = previous, rrr_new_status = new,
      rrr_released_cost_eur = qr_reserved_cost_eur r, rrr_released_tokens = qr_reserved_tokens r,
      rrr_released_requests = qr_reserved_requests r, rrr_ledger_created = ledger_created,
      rrr_audit_created = audit_created, rrr_dry_run = dry_run\<rparr>"

definition provider_completed_result_of ::
  "usage_ledger \<Rightarrow> quota_reservation \<Rightarrow> accounting_status \<Rightarrow> accounting_status \<Rightarrow> bool \<Rightarrow> bool
     \<Rightarrow> provider_completed_result" where
  "provider_completed_result_of l r previous new reconciled dry_run =
     \<lparr>pcx_usage_ledger_id = ul_id l, pcx_reservation_id = qr_id r,
      pcx_gateway_key_id = ul_gateway_key_id l, pcx_request_id = ul_request_id l,
      pcx_previous_accounting_status = previous, pcx_new_accounting_status = new,
      pcx_reservation_status = qr_status r, pcx_used_cost_eur = ul_actual_cost_eur l,
      pcx_used_tokens = ul_total_tokens l, pcx_reconciled = reconciled, pcx_dry_run = dry_run\<rparr>"

section \<open>Helpers\<close>

definition reservation_status_str :: "reservation_status \<Rightarrow> string" where
  "reservation_status_str s =
     (case s of Pending \<Rightarrow> ''pending'' | Finalized \<Rightarrow> ''finalized'' | Released \<Rightarrow> ''released''
      | Expired \<Rightarrow> ''expired'')"

definition accounting_status_str :: "accounting_status \<Rightarrow> string" where
  "accounting_status_str s =
     (case s of LPending \<Rightarrow> ''pending'' | LFinalized \<Rightarrow> ''finalized'' | LEstimated \<Rightarrow> ''estimated''
      | LFailed \<Rightarrow> ''failed'' | LInterrupted \<Rightarrow> ''interrupted'' | LReleased \<Rightarrow> ''released'')"

definition safe_reason :: "string option \<Rightarrow> string option" where
  "safe_reason value =
     (case value of
        None \<Rightarrow> None
      | Some v \<Rightarrow> (let s = take 256 (redact_text (py_strip v) None) in if s = [] then None else Some s))"

text \<open>\<open>except QuotaCounterInvariantError\<close>: only this error is replaced.\<close>

definition invariant_as :: "gateway_error \<Rightarrow> 'a result \<Rightarrow> 'a result" where
  "invariant_as e m = (case m of Inl (QuotaCounterInvariantError _) \<Rightarrow> Inl e | _ \<Rightarrow> m)"

definition reconciled_metadata ::
  "pydict \<Rightarrow> pydatetime \<Rightarrow> uuid option \<Rightarrow> string option \<Rightarrow> pydict" where
  "reconciled_metadata metadata reconciled_at actor reason =
     dmerge (dmerge (dmerge metadata
       [(''needs_reconciliation'', PBool False),
        (''recovery_state'', PStr ''provider_completed_reconciled''),
        (''reconciled_at'', PTimeStr reconciled_at)])
       (opt_entry ''reconciled_by_admin_id'' (map_option (\<lambda>u. PStr (uuid_str u)) actor)))
       (opt_entry ''reconciliation_reason'' (map_option PStr (safe_reason reason)))"

definition validate_provider_completed_ledger :: "usage_ledger \<Rightarrow> unit result" where
  "validate_provider_completed_ledger row =
     sbind (ensure (dget (ul_response_metadata row) ''needs_reconciliation'' = PBool True)
              ProviderCompletedRecoveryNotRepairableError) (\<lambda>_.
     sbind (ensure (dget (ul_response_metadata row) ''recovery_state''
                      = PStr ''provider_completed_finalization_failed'')
              ProviderCompletedRecoveryNotRepairableError) (\<lambda>_.
     sbind (ensure (ul_quota_reservation_id row \<noteq> None) ProviderCompletedRecoveryMetadataMissingError) (\<lambda>_.
     sbind (ensure (ul_provider row \<noteq> [] \<and> ul_endpoint row \<noteq> [])
              ProviderCompletedRecoveryMetadataMissingError) (\<lambda>_.
     sbind (ensure (\<not> ul_total_tokens row \<le> 0) ProviderCompletedRecoveryMetadataMissingError) (\<lambda>_.
     case (ul_estimated_cost_eur row, ul_actual_cost_eur row) of
       (Some _, Some cost) \<Rightarrow> ensure (\<not> cost \<le> 0) ProviderCompletedRecoveryMetadataMissingError
     | _ \<Rightarrow> Inl ProviderCompletedRecoveryMetadataMissingError)))))"

definition is_repairable_shape :: "usage_ledger \<Rightarrow> bool" where
  "is_repairable_shape row =
     (case validate_provider_completed_ledger row of Inl _ \<Rightarrow> False | Inr _ \<Rightarrow> True)"

section \<open>Expired reservations\<close>

definition list_stale_reservations ::
  "pydatetime \<Rightarrow> pydatetime option \<Rightarrow> nat \<Rightarrow> db \<Rightarrow> stale_reservation_candidate list" where
  "list_stale_reservations clock now limit db =
     map candidate (list_expired_pending_reservations (aware_now clock now) limit db)"

definition expired_ledger_row ::
  "uuid \<Rightarrow> pydatetime \<Rightarrow> quota_reservation \<Rightarrow> pydatetime \<Rightarrow> string option \<Rightarrow> usage_ledger" where
  "expired_ledger_row uid clock r reconciled_at reason =
     (new_usage_record uid clock (qr_request_id r) (qr_gateway_key_id r) (qr_endpoint r)
        (case qr_provider r of Some p \<Rightarrow> or_default p ''unknown'' | None \<Rightarrow> ''unknown'')
        (aware_now clock (Some (qr_created_at r))))
       \<lparr>ul_quota_reservation_id := Some (qr_id r), ul_requested_model := qr_requested_model r,
        ul_resolved_model := qr_resolved_model r,
        ul_streaming := (case qr_streaming r of Some b \<Rightarrow> b | None \<Rightarrow> False),
        ul_error_type := Some ''stale_quota_reservation'', ul_error_message := safe_reason reason,
        ul_estimated_cost_eur := Some (qr_reserved_cost_eur r), ul_actual_cost_eur := Some 0,
        ul_actual_cost_native := Some 0, ul_native_currency := Some ''EUR'',
        ul_response_metadata :=
          [(''reconciled_status'', PStr ''expired''),
           (''metadata_quality'',
             PStr (if qr_provider r \<noteq> None \<and> qr_resolved_model r \<noteq> None \<and> qr_streaming r \<noteq> None
                   then ''reservation_snapshot'' else ''legacy_reservation_fallback''))],
        ul_finished_at := Some reconciled_at,
        ul_latency_ms := Some (latency_ms (aware_now clock (Some (qr_created_at r))) reconciled_at)\<rparr>"

definition create_expired_ledger_if_absent ::
  "uuid \<Rightarrow> pydatetime \<Rightarrow> quota_reservation \<Rightarrow> pydatetime \<Rightarrow> string option \<Rightarrow> db \<Rightarrow> (db \<times> bool) result" where
  "create_expired_ledger_if_absent uid clock r reconciled_at reason db =
     (case get_usage_record_by_request_id (qr_request_id r) db of
        Some _ \<Rightarrow> Inr (db, False)
      | None \<Rightarrow>
          sbind (create_failure_record (expired_ledger_row uid clock r reconciled_at reason) db)
            (\<lambda>(db', _). Inr (db', True)))"

definition create_audit_log ::
  "uuid \<Rightarrow> quota_reservation \<Rightarrow> uuid option \<Rightarrow> string option \<Rightarrow> pydatetime \<Rightarrow> db \<Rightarrow> db result" where
  "create_audit_log aid r actor reason reconciled_at db =
     sbind (add_audit_log aid ''quota_reservation_expired'' ''quota_reservation'' actor (Some (qr_id r))
              (Some [(''status'', PStr ''pending'')])
              (Some [(''status'', PStr (reservation_status_str (qr_status r))),
                     (''released_at'', PTimeStr reconciled_at),
                     (''released_cost_eur'', PDecStr (qr_reserved_cost_eur r)),
                     (''released_tokens'', PInt (qr_reserved_tokens r)),
                     (''released_requests'', PInt (qr_reserved_requests r))])
              (Some (qr_request_id r)) (safe_reason reason) db) (\<lambda>(db', _). Inr db')"

text \<open>The ledger row of the request says that the provider had answered.\<close>

definition awaits_reconciliation :: "string \<Rightarrow> db \<Rightarrow> bool" where
  "awaits_reconciliation req db =
     (case get_usage_record_by_request_id req db of
        None \<Rightarrow> False
      | Some l \<Rightarrow> dget (ul_response_metadata l) ''needs_reconciliation'' = PBool True)"

definition reconcile_expired_pending_reservation ::
  "pydatetime \<Rightarrow> uuid \<Rightarrow> uuid \<Rightarrow> uuid \<Rightarrow> pydatetime option \<Rightarrow> bool \<Rightarrow> uuid option \<Rightarrow> string option \<Rightarrow> db
     \<Rightarrow> (db \<times> reservation_reconciliation_result) result" where
  "reconcile_expired_pending_reservation clock uid aid rid now dry_run actor reason db =
     (let checked_at = aware_now clock now in
     sbind (the_or_raise (get_reservation_by_id rid db) StaleReservationNotFoundError) (\<lambda>r.
     sbind (ensure (qr_status r = Pending) ReservationNotPendingError) (\<lambda>_.
     sbind (ensure (\<not> micros checked_at < micros (aware_now clock (Some (qr_expires_at r))))
              ReservationNotExpiredError) (\<lambda>_.
     sbind (ensure (qr_quota_mode r \<noteq> ExternalToolFenced) ReconciliationInvariantError) (\<lambda>_.
     sbind (ensure (dry_run \<or>
              \<not> awaits_reconciliation (qr_request_id r) db)
              ReconciliationInvariantError) (\<lambda>_.
     if dry_run then Inr (db, recon_result r (qr_status r) (qr_status r) False False True)
     else
       sbind (the_or_raise (get_gateway_key_by_id (qr_gateway_key_id r) db) ReconciliationInvariantError) (\<lambda>k.
       sbind (invariant_as ReconciliationInvariantError
                (subtract_reserved_counters k (qr_reserved_cost_eur r) (qr_reserved_tokens r)
                   (qr_reserved_requests r) db)) (\<lambda>(db1, _).
       sbind (mark_pending_reservation_expired r checked_at db1) (\<lambda>(db2, r2).
       sbind (create_expired_ledger_if_absent uid clock r2 checked_at reason db2) (\<lambda>(db3, ledger_created).
       sbind (create_audit_log aid r2 actor reason checked_at db3) (\<lambda>db4.
       Inr (db4, recon_result r2 (qr_status r) (qr_status r2) ledger_created True False))))))))))))"

type_synonym environment = "nat \<Rightarrow> pydatetime \<times> uuid \<times> uuid"

primrec reconcile_each ::
  "environment \<Rightarrow> pydatetime option \<Rightarrow> bool \<Rightarrow> uuid option \<Rightarrow> string option \<Rightarrow> nat
     \<Rightarrow> stale_reservation_candidate list \<Rightarrow> db \<Rightarrow> (db \<times> reservation_reconciliation_result list \<times> nat) result" where
  "reconcile_each env now dry_run actor reason i [] db = Inr (db, [], 0)"
| "reconcile_each env now dry_run actor reason i (c # cs) db =
     (if src_requires_external_tool_review c
      then sbind (reconcile_each env now dry_run actor reason (Suc i) cs db) (\<lambda>(db', rs, skipped).
           Inr (db', rs, Suc skipped))
      else (case env i of (clock, uid, aid) \<Rightarrow>
           sbind (reconcile_expired_pending_reservation clock uid aid (src_reservation_id c) now dry_run
                    actor reason db) (\<lambda>(db1, r).
           sbind (reconcile_each env now dry_run actor reason (Suc i) cs db1) (\<lambda>(db', rs, skipped).
           Inr (db', r # rs, skipped)))))"

definition reconcile_expired_pending_reservations ::
  "pydatetime \<Rightarrow> environment \<Rightarrow> pydatetime option \<Rightarrow> nat \<Rightarrow> bool \<Rightarrow> uuid option \<Rightarrow> string option \<Rightarrow> db
     \<Rightarrow> (db \<times> reservation_reconciliation_result reconciliation_summary) result" where
  "reconcile_expired_pending_reservations clock env now limit dry_run actor reason db =
     (let candidates = list_stale_reservations clock now limit db in
     sbind (reconcile_each env now dry_run actor reason 0 candidates db) (\<lambda>(db', results, skipped).
     Inr (db', \<lparr>sm_checked_count = length candidates, sm_candidate_count = length candidates,
                sm_reconciled_count = (if dry_run then 0 else length results),
                sm_skipped_count = skipped, sm_dry_run = dry_run, sm_results = results\<rparr>)))"

section \<open>Provider-completed recovery\<close>

definition list_provider_completed_recovery_rows ::
  "nat \<Rightarrow> uuid option \<Rightarrow> string option \<Rightarrow> string option \<Rightarrow> pydatetime option \<Rightarrow> db
     \<Rightarrow> provider_completed_candidate list" where
  "list_provider_completed_recovery_rows limit kid provider model older_than db =
     map provider_completed_candidate_of
       (filter is_repairable_shape
         (list_provider_completed_recovery_records limit kid provider model older_than db))"

definition create_provider_completed_audit_log ::
  "uuid \<Rightarrow> usage_ledger \<Rightarrow> quota_reservation \<Rightarrow> uuid option \<Rightarrow> string option \<Rightarrow> pydatetime \<Rightarrow> db \<Rightarrow> db result" where
  "create_provider_completed_audit_log aid l r actor reason reconciled_at db =
     sbind (add_audit_log aid ''provider_completed_reconciliation'' ''usage_ledger'' actor (Some (ul_id l))
              (Some [(''accounting_status'', PStr ''failed''), (''reservation_status'', PStr ''pending''),
                     (''needs_reconciliation'', PBool True)])
              (Some [(''accounting_status'', PStr (accounting_status_str (ul_accounting_status l))),
                     (''reservation_status'', PStr (reservation_status_str (qr_status r))),
                     (''needs_reconciliation'', PBool False), (''reconciled_at'', PTimeStr reconciled_at),
                     (''actual_cost_eur'', pydecstr (ul_actual_cost_eur l)),
                     (''total_tokens'', PInt (ul_total_tokens l))])
              (Some (ul_request_id l)) (safe_reason reason) db) (\<lambda>(db', _). Inr db')"

definition reconcile_provider_completed_recovery ::
  "pydatetime \<Rightarrow> uuid \<Rightarrow> uuid option \<Rightarrow> uuid option \<Rightarrow> bool \<Rightarrow> uuid option \<Rightarrow> string option
     \<Rightarrow> pydatetime option \<Rightarrow> db \<Rightarrow> (db \<times> provider_completed_result) result" where
  "reconcile_provider_completed_recovery clock aid ledger_id reservation_id dry_run actor reason now db =
     sbind (ensure ((ledger_id = None) \<noteq> (reservation_id = None)) ProviderCompletedRecoveryNotRepairableError) (\<lambda>_.
     (let reconciled_at = aware_now clock now in
     sbind (get_provider_completed_recovery_record ledger_id reservation_id db) (\<lambda>found.
     sbind (the_or_raise found
              (case Option.bind ledger_id (\<lambda>u. get_usage_record_by_id u db) of
                 Some existing \<Rightarrow>
                   (if ul_accounting_status existing = LFinalized
                    then ProviderCompletedRecoveryAlreadyReconciledError
                    else ProviderCompletedRecoveryNotFoundError)
               | None \<Rightarrow> ProviderCompletedRecoveryNotFoundError)) (\<lambda>l.
     sbind (validate_provider_completed_ledger l) (\<lambda>_.
     sbind (the_or_raise (ul_quota_reservation_id l) ProviderCompletedRecoveryMetadataMissingError) (\<lambda>rid.
     sbind (the_or_raise (get_reservation_by_id rid db) ProviderCompletedRecoveryNotRepairableError) (\<lambda>r.
     sbind (ensure (qr_id r = rid) ProviderCompletedRecoveryInvariantError) (\<lambda>_.
     sbind (ensure (qr_gateway_key_id r = ul_gateway_key_id l) ProviderCompletedRecoveryInvariantError) (\<lambda>_.
     sbind (ensure (qr_status r = Pending) ProviderCompletedRecoveryNotRepairableError) (\<lambda>_.
     if dry_run
     then Inr (db, provider_completed_result_of l r (ul_accounting_status l) (ul_accounting_status l) False True)
     else
       sbind (the_or_raise (get_gateway_key_by_id (ul_gateway_key_id l) db) ProviderCompletedRecoveryInvariantError) (\<lambda>k.
       sbind (the_or_raise (ul_actual_cost_eur l) ProviderCompletedRecoveryMetadataMissingError) (\<lambda>cost.
       sbind (invariant_as ProviderCompletedRecoveryInvariantError
                (finalize_reserved_counters k (qr_reserved_cost_eur r) (qr_reserved_tokens r)
                   (qr_reserved_requests r) cost (ul_total_tokens l) 1 reconciled_at db)) (\<lambda>(db1, _).
       sbind (mark_pending_reservation_finalized r reconciled_at db1) (\<lambda>(db2, r2).
       sbind (mark_provider_completed_reconciled (ul_id l)
                (reconciled_metadata (ul_response_metadata l) reconciled_at actor reason) reconciled_at db2) (\<lambda>(db3, l2).
       sbind (create_provider_completed_audit_log aid l2 r2 actor reason reconciled_at db3) (\<lambda>db4.
       Inr (db4, provider_completed_result_of l2 r2 (ul_accounting_status l) (ul_accounting_status l2)
                   True False)))))))))))))))))"

primrec recover_each ::
  "environment \<Rightarrow> pydatetime option \<Rightarrow> bool \<Rightarrow> uuid option \<Rightarrow> string option \<Rightarrow> nat
     \<Rightarrow> provider_completed_candidate list \<Rightarrow> db \<Rightarrow> (db \<times> provider_completed_result list) result" where
  "recover_each env now dry_run actor reason i [] db = Inr (db, [])"
| "recover_each env now dry_run actor reason i (c # cs) db =
     (case env i of (clock, _, aid) \<Rightarrow>
      sbind (reconcile_provider_completed_recovery clock aid (Some (pcc_usage_ledger_id c)) None dry_run
               actor reason now db) (\<lambda>(db1, r).
      sbind (recover_each env now dry_run actor reason (Suc i) cs db1) (\<lambda>(db', rs).
      Inr (db', r # rs))))"

definition reconcile_provider_completed_recovery_rows ::
  "environment \<Rightarrow> nat \<Rightarrow> bool \<Rightarrow> uuid option \<Rightarrow> string option \<Rightarrow> pydatetime option \<Rightarrow> pydatetime option \<Rightarrow> db
     \<Rightarrow> (db \<times> provider_completed_result reconciliation_summary) result" where
  "reconcile_provider_completed_recovery_rows env limit dry_run actor reason now older_than db =
     (let candidates = list_provider_completed_recovery_rows limit None None None older_than db in
     sbind (recover_each env now dry_run actor reason 0 candidates db) (\<lambda>(db', results).
     Inr (db', \<lparr>sm_checked_count = length candidates, sm_candidate_count = length candidates,
                sm_reconciled_count = (if dry_run then 0 else length results),
                sm_skipped_count = 0, sm_dry_run = dry_run, sm_results = results\<rparr>)))"

section \<open>Refinement\<close>

lemma invariant_as_Inr [simp]: "invariant_as e m = Inr x \<longleftrightarrow> m = Inr x"
  by (auto simp: invariant_as_def split: sum.splits gateway_error.splits)

lemma create_audit_log_same:
  assumes "create_audit_log aid r actor reason t db = Inr db'"
  shows "same_quota db db'" "db_ledger db' = db_ledger db" "\<exists>row. db_audit db' = db_audit db @ [row]"
  using assms by (auto simp: create_audit_log_def add_audit_log_def Let_def same_quota_def)

lemma create_provider_completed_audit_log_same:
  assumes "create_provider_completed_audit_log aid l r actor reason t db = Inr db'"
  shows "same_quota db db'" "db_ledger db' = db_ledger db" "\<exists>row. db_audit db' = db_audit db @ [row]"
  using assms by (auto simp: create_provider_completed_audit_log_def add_audit_log_def Let_def same_quota_def)

lemma expired_ledger_cases:
  assumes "create_expired_ledger_if_absent uid clock r t reason db = Inr (db', created)"
  shows "same_quota db db' \<and> db_audit db' = db_audit db
    \<and> (if get_usage_record_by_request_id (qr_request_id r) db = None
       then created \<and> (\<exists>row. db_ledger db' = db_ledger db @ [row] \<and> ul_request_id row = qr_request_id r
              \<and> ul_quota_reservation_id row = Some (qr_id r) \<and> ul_accounting_status row = LFailed
              \<and> ul_total_tokens row = 0 \<and> ul_actual_cost_eur row = Some 0)
       else \<not> created \<and> db' = db)"
proof (cases "get_usage_record_by_request_id (qr_request_id r) db")
  case None
  with assms obtain row where row: "create_usage_record ((expired_ledger_row uid clock r t reason)
      \<lparr>ul_success := Some False, ul_accounting_status := LFailed\<rparr>) db = Inr (db', row)" and "created"
    by (auto simp: create_expired_ledger_if_absent_def create_failure_record_def)
  moreover have "db_audit db' = db_audit db"
    using row by (auto simp: create_usage_record_Inr flush_simps)
  ultimately show ?thesis using None create_usage_record_row[OF row]
    by (auto simp: create_usage_record_Inr expired_ledger_row_def new_usage_record_def)
next
  case (Some l)
  with assms show ?thesis by (simp add: create_expired_ledger_if_absent_def)
qed

lemma expired_elim:
  assumes "reconcile_expired_pending_reservation clock uid aid rid now dry_run actor reason db = Inr (db', res)"
  obtains (dry) r where "dry_run" "db' = db" "get_reservation_by_id rid db = Some r" "qr_status r = Pending"
      "res = recon_result r Pending Pending False False True"
  | (run) r k db1 k1 db2 r2 db3 created where "\<not> dry_run" "get_reservation_by_id rid db = Some r" "qr_status r = Pending"
      "micros (qr_expires_at r) \<le> micros (aware_now clock now)" "qr_quota_mode r \<noteq> ExternalToolFenced"
      "get_gateway_key_by_id (qr_gateway_key_id r) db = Some k"
      "subtract_reserved_counters k (qr_reserved_cost_eur r) (qr_reserved_tokens r) (qr_reserved_requests r) db = Inr (db1, k1)"
      "mark_pending_reservation_expired r (aware_now clock now) db1 = Inr (db2, r2)"
      "create_expired_ledger_if_absent uid clock r2 (aware_now clock now) reason db2 = Inr (db3, created)"
      "create_audit_log aid r2 actor reason (aware_now clock now) db3 = Inr db'"
      "res = recon_result r2 Pending (qr_status r2) created True False"
      "\<not> awaits_reconciliation (qr_request_id r) db"
proof (cases dry_run)
  case True
  with assms show ?thesis
    unfolding reconcile_expired_pending_reservation_def Let_def by (auto intro: dry)
next
  case False
  have "micros (aware_now clock (Some t)) = micros t" for t by (simp add: aware_now_def)
  with assms False show ?thesis
    unfolding reconcile_expired_pending_reservation_def Let_def
    by (auto simp: not_less split: prod.splits option.splits intro: run)
qed

lemma expired_steps:
  assumes "reconcile_expired_pending_reservation clock uid aid rid now dry_run actor reason db = Inr (db', res)"
  shows "quota_steps e db db'"
  using assms
proof (cases rule: expired_elim)
  case dry
  then show ?thesis by simp
next
  case (run r k db1 k1 db2 r2 db3 created)
  have "quota_step e db db2"
    by (rule release_is_step[OF run(2,3,6,7) run(8)[unfolded mark_flushed]]) simp
  moreover have "same_quota db2 db'"
    using expired_ledger_cases[OF run(9)] create_audit_log_same(1)[OF run(10)] by (blast intro: same_quota_trans)
  ultimately show ?thesis using quota_step.Idle by (metis rtranclp.rtrancl_into_rtrancl r_into_rtranclp)
qed

lemma reconcile_each_steps:
  "reconcile_each env now dry_run actor reason i cs db = Inr (db', rs, n) \<Longrightarrow> quota_steps e db db'"
  by (induction cs arbitrary: i db rs n)
     (auto split: if_splits prod.splits dest!: expired_steps[where e = e] intro: rtranclp_trans)

lemma expired_batch_steps:
  "reconcile_expired_pending_reservations clock env now limit dry_run actor reason db = Inr (db', res)
     \<Longrightarrow> quota_steps e db db'"
  unfolding reconcile_expired_pending_reservations_def Let_def
  by (auto split: prod.splits dest: reconcile_each_steps)

lemma recovery_elim:
  assumes "reconcile_provider_completed_recovery clock aid lid rid0 dry_run actor reason now db = Inr (db', res)"
  obtains (dry) "dry_run" "db' = db"
  | (run) l rid r k cost db1 k1 db2 r2 db3 l2 where "\<not> dry_run"
      "get_provider_completed_recovery_record lid rid0 db = Inr (Some l)"
      "validate_provider_completed_ledger l = Inr ()" "ul_quota_reservation_id l = Some rid"
      "get_reservation_by_id rid db = Some r" "qr_gateway_key_id r = ul_gateway_key_id l" "qr_status r = Pending"
      "get_gateway_key_by_id (ul_gateway_key_id l) db = Some k" "ul_actual_cost_eur l = Some cost"
      "finalize_reserved_counters k (qr_reserved_cost_eur r) (qr_reserved_tokens r) (qr_reserved_requests r)
         cost (ul_total_tokens l) 1 (aware_now clock now) db = Inr (db1, k1)"
      "mark_pending_reservation_finalized r (aware_now clock now) db1 = Inr (db2, r2)"
      "mark_provider_completed_reconciled (ul_id l)
         (reconciled_metadata (ul_response_metadata l) (aware_now clock now) actor reason) (aware_now clock now) db2
         = Inr (db3, l2)"
      "create_provider_completed_audit_log aid l2 r2 actor reason (aware_now clock now) db3 = Inr db'"
      "res = provider_completed_result_of l2 r2 (ul_accounting_status l) (ul_accounting_status l2) True False"
proof (cases dry_run)
  case True
  with assms show ?thesis
    unfolding reconcile_provider_completed_recovery_def Let_def by (auto intro: dry)
next
  case False
  with assms show ?thesis
    unfolding reconcile_provider_completed_recovery_def Let_def
    by (auto split: prod.splits intro: run)
qed

lemma mark_reconciled_same:
  "mark_provider_completed_reconciled uid md t db = Inr (db', l) \<Longrightarrow> same_quota db db'"
  by (auto simp: mark_provider_completed_reconciled_def dest: flushed_ledger_same)

lemma recovery_settles:
  assumes "reconcile_provider_completed_recovery clock aid lid rid0 False actor reason now db = Inr (db', res)"
  shows "\<exists>l cost. get_provider_completed_recovery_record lid rid0 db = Inr (Some l) \<and> ul_actual_cost_eur l = Some cost
    \<and> ul_quota_reservation_id l = Some (pcx_reservation_id res) \<and> 0 < ul_total_tokens l \<and> 0 < cost
    \<and> settles (pcx_reservation_id res) (ul_gateway_key_id l) cost (ul_total_tokens l) db db'"
  using assms
proof (cases rule: recovery_elim)
  case (run l rid r k cost db1 k1 db2 r2 db3 l2)
  have "same_quota db2 db'"
    using mark_reconciled_same[OF run(12)] create_provider_completed_audit_log_same(1)[OF run(13)]
    by (blast intro: same_quota_trans)
  moreover have "qr_id r2 = rid"
    using finalize_counters_ledger(2)[OF run(11)] get_reservation_in[OF run(5)] by simp
  moreover have "0 < ul_total_tokens l" "0 < cost"
    using run(3,9) by (auto simp: validate_provider_completed_ledger_def split: option.splits)
  ultimately show ?thesis
    using run by (auto simp: provider_completed_result_of_def intro: settlesI)
qed simp

lemma recovery_steps:
  assumes "reconcile_provider_completed_recovery clock aid lid rid dry_run actor reason now db = Inr (db', res)"
  shows "quota_steps e db db'"
proof (cases dry_run)
  case True
  with assms show ?thesis by (auto elim: recovery_elim)
next
  case False
  then have "dry_run = False" by simp
  from recovery_settles[OF assms[unfolded this]] show ?thesis by (blast intro: settles_steps)
qed

lemma recover_each_steps:
  "recover_each env now dry_run actor reason i cs db = Inr (db', rs) \<Longrightarrow> quota_steps e db db'"
  by (induction cs arbitrary: i db rs)
     (auto split: prod.splits dest!: recovery_steps[where e = e] intro: rtranclp_trans)

lemma recovery_batch_steps:
  "reconcile_provider_completed_recovery_rows env limit dry_run actor reason now older_than db = Inr (db', res)
     \<Longrightarrow> quota_steps e db db'"
  unfolding reconcile_provider_completed_recovery_rows_def Let_def
  by (auto split: prod.splits dest: recover_each_steps)

section \<open>A concrete expiry and a concrete recovery\<close>

lemmas reconciliation_eval [eval_simps] =
  safe_reason_def invariant_as_def recon_result_def expired_ledger_row_def create_expired_ledger_if_absent_def
  create_audit_log_def awaits_reconciliation_def validate_provider_completed_ledger_def
  create_provider_completed_audit_log_def provider_completed_result_of_def

lemma sample_expired:
  "\<exists>db' res. reconcile_expired_pending_reservation (Aware 900002000) 8 9 7 None False None None sample_reserved_db
     = Inr (db', res)"
  unfolding reconcile_expired_pending_reservation_def sample_reserved_db_def
  by (simp add: eval_simps Let_def)

definition sample_recovery_row :: usage_ledger where
  "sample_recovery_row =
     (new_usage_record 8 (Aware 1500) ''req1'' 10 ''/v1/chat/completions'' ''openai'' (Aware 1000))
       \<lparr>ul_quota_reservation_id := Some 7, ul_accounting_status := LFailed, ul_prompt_tokens := 10,
        ul_completion_tokens := 2, ul_total_tokens := 12, ul_estimated_cost_eur := Some 4,
        ul_actual_cost_eur := Some 3,
        ul_response_metadata := [(''recovery_state'', PStr ''provider_completed_finalization_failed''),
          (''needs_reconciliation'', PBool True)]\<rparr>"

definition sample_recovery_db :: db where
  "sample_recovery_db = sample_reserved_db\<lparr>db_ledger := [sample_recovery_row]\<rparr>"

lemma sample_recovery_wf: "wf_quota sample_recovery_db"
  using sample_reserved_wf by (simp add: wf_quota_def sample_recovery_db_def)

lemma sample_recovered:
  "\<exists>db' res. reconcile_provider_completed_recovery (Aware 3000) 9 (Some 8) None False None None None
     sample_recovery_db = Inr (db', res)"
  unfolding reconcile_provider_completed_recovery_def sample_recovery_db_def sample_recovery_row_def
    sample_reserved_db_def
  by (simp add: eval_simps Let_def)

section \<open>Properties\<close>

text \<open>Reconciling an expired reservation gives its amounts back and charges nothing.  When the
  operation succeeds (not as a dry run) the reservation was pending, past its expiry, not an
  external-tool one, and no ledger row of its request awaits reconciliation; exactly its amounts
  leave the reserved counters and the used counters keep their values; it is stored as expired; a
  zero-cost failed ledger row is written unless the request has a row already, which is then left
  alone; and one audit record is added.\<close>

theorem expired_release_exact:
  assumes "reconcile_expired_pending_reservation clock uid aid rid now False actor reason db = Inr (db', res)"
    and "wf_quota db"
  shows "\<exists>r k k' r' row. get_reservation_by_id rid db = Some r \<and> qr_status r = Pending
    \<and> micros (qr_expires_at r) \<le> micros (aware_now clock now) \<and> qr_quota_mode r = StrictBounded
    \<and> \<not> awaits_reconciliation (qr_request_id r) db
    \<and> get_gateway_key_by_id (qr_gateway_key_id r) db = Some k
    \<and> get_gateway_key_by_id (qr_gateway_key_id r) db' = Some k' \<and> released_key k r k'
    \<and> get_reservation_by_id rid db' = Some r' \<and> qr_status r' = Expired
    \<and> (if get_usage_record_by_request_id (qr_request_id r) db = None
       then db_ledger db' = db_ledger db @ [row] \<and> ul_accounting_status row = LFailed
              \<and> ul_total_tokens row = 0 \<and> ul_actual_cost_eur row = Some 0
       else db_ledger db' = db_ledger db)
    \<and> length (db_audit db') = Suc (length (db_audit db))"
  using assms(1)
proof (cases rule: expired_elim)
  case (run r k db1 k1 db2 r2 db3 created)
  have id: "qr_id r = rid" "rid \<in> qr_id ` set (db_reservations db)" using get_reservation_in[OF run(2)] by force+
  have sub: "\<exists>k'. get_gateway_key_by_id (qr_gateway_key_id r) db1 = Some k' \<and> released_key k r k'"
    and db1: "db_reservations db1 = db_reservations db" "db_ledger db1 = db_ledger db"
    using subtract_post[OF run(7) assms(2) run(6,2)] by auto
  have m: "db_keys db2 = db_keys db1" "db_ledger db2 = db_ledger db1" "db_audit db2 = db_audit db"
    "r2 = r\<lparr>qr_status := Expired, qr_finalized_at := None, qr_released_at := Some (aware_now clock now)\<rparr>"
    "db_reservations db2 = put_row qr_id (stored_reservation r2) (db_reservations db1)"
    using run(7,8) by (auto simp: mark_flushed flush_simps subtract_reserved_counters_def)
  have led: "same_quota db2 db3 \<and> db_audit db3 = db_audit db2"
      "if get_usage_record_by_request_id (qr_request_id r) db = None
       then \<exists>row. db_ledger db3 = db_ledger db @ [row] \<and> ul_accounting_status row = LFailed
              \<and> ul_total_tokens row = 0 \<and> ul_actual_cost_eur row = Some 0
       else db_ledger db3 = db_ledger db"
    using expired_ledger_cases[OF run(9)] m db1
    by (auto simp: get_usage_record_by_request_id_def split: if_splits)
  note aud = create_audit_log_same[OF run(10)]
  have "get_reservation_by_id rid db' = Some (stored_reservation r2)"
    using led(1) aud(1) id by (simp add: get_reservation_by_id_def same_quota_def m db1 get_put_row)
  moreover have "\<exists>k'. get_gateway_key_by_id (qr_gateway_key_id r) db' = Some k' \<and> released_key k r k'"
    using sub led(1) aud(1) m(1) by (simp add: get_gateway_key_by_id_def same_quota_def)
  moreover have "qr_quota_mode r = StrictBounded" using run(5) by (cases "qr_quota_mode r") auto
  moreover have "length (db_audit db') = Suc (length (db_audit db))" using aud(3) led(1) m(3) by auto
  ultimately show ?thesis using run(2-6,12) led(2) aud(2) m(4)
    by (simp split: if_splits)
qed simp

theorem expired_release_exact_witness:
  "\<exists>db' res r. reconcile_expired_pending_reservation (Aware 900002000) 8 9 7 None False None None sample_reserved_db
     = Inr (db', res) \<and> get_reservation_by_id 7 db' = Some r \<and> qr_status r = Expired"
proof -
  obtain db' res where f: "reconcile_expired_pending_reservation (Aware 900002000) 8 9 7 None False None None
      sample_reserved_db = Inr (db', res)" using sample_expired by blast
  from expired_release_exact[OF f sample_reserved_wf] f show ?thesis by blast
qed

lemma reconciled_row:
  assumes "get_provider_completed_recovery_record lid rid0 db = Inr (Some l)" "distinct (map ul_id (db_ledger db))"
    "mark_provider_completed_reconciled (ul_id l) (reconciled_metadata (ul_response_metadata l) t actor reason) t db
       = Inr (db', l2)"
  shows "l \<in> set (db_ledger db) \<and> is_provider_completed_recovery l
    \<and> db_ledger db' = put_row ul_id (stored_ledger l2) (db_ledger db)
    \<and> l2 = l\<lparr>ul_success := Some True, ul_accounting_status := LFinalized, ul_error_type := None,
         ul_error_message := None,
         ul_response_metadata := sanitize_mapping True None
           (reconciled_metadata (ul_response_metadata l) t actor reason), ul_finished_at := Some t\<rparr>"
proof -
  have "l \<in> set (filter is_provider_completed_recovery (db_ledger db))"
    using assms(1) by (auto simp: get_provider_completed_recovery_record_def scalar_one_or_none_def
        filter_eq_Cons_iff split: list.splits)
  then have l: "l \<in> set (db_ledger db)" "is_provider_completed_recovery l" by auto
  then have "get_usage_record_by_id (ul_id l) db = Some l"
    using assms(2) by (simp add: get_usage_record_by_id_def distinct_get_row)
  then show ?thesis using assms(3) l
    by (auto simp: mark_provider_completed_reconciled_def flush_simps sanitize_metadata_mapping_def)
qed

text \<open>C24: A provider-completed response whose finalization failed is charged exactly what its ledger row
  records, once.  A successful repair found a pending reservation of the same key; the reserved
  amounts leave the reserved counters and the recorded tokens, one request and the recorded cost
  enter the used counters; the row is stored as finalized; and repairing the same row again is
  refused as already reconciled.\<close>

theorem recovery_charges_recorded:
  assumes "reconcile_provider_completed_recovery clock aid (Some uid) None False actor reason now db = Inr (db', res)"
    and "wf_quota db" and "distinct (map ul_id (db_ledger db))"
  shows "\<exists>l cost r k k' l'. get_usage_record_by_id uid db = Some l \<and> is_provider_completed_recovery l
    \<and> ul_actual_cost_eur l = Some cost \<and> ul_quota_reservation_id l = Some (qr_id r)
    \<and> get_reservation_by_id (qr_id r) db = Some r \<and> qr_status r = Pending
    \<and> qr_gateway_key_id r = ul_gateway_key_id l
    \<and> get_gateway_key_by_id (ul_gateway_key_id l) db = Some k
    \<and> get_gateway_key_by_id (ul_gateway_key_id l) db' = Some k'
    \<and> settled_key k r cost (ul_total_tokens l) k'
    \<and> get_usage_record_by_id uid db' = Some l' \<and> ul_accounting_status l' = LFinalized
    \<and> ul_total_tokens l' = ul_total_tokens l
    \<and> reconcile_provider_completed_recovery clock' aid' (Some uid) None dry actor' reason' now' db'
        = Inl ProviderCompletedRecoveryAlreadyReconciledError"
  using assms(1)
proof (cases rule: recovery_elim)
  case (run l rid r k cost db1 k1 db2 r2 db3 l2)
  from recovery_settles[OF assms(1)] run(2) have st: "settles (pcx_reservation_id res) (ul_gateway_key_id l) cost (ul_total_tokens l) db db'"
    and rid: "pcx_reservation_id res = rid" using run(4,9) by auto
  have lb: "db_ledger db2 = db_ledger db"
    using finalize_counters_ledger(1)[OF run(10)] finalize_counters_ledger(2)[OF run(11)] by simp
  have found: "get_provider_completed_recovery_record (Some uid) None db2 = Inr (Some l)"
    using run(2) by (simp add: get_provider_completed_recovery_record_def lb)
  have d: "distinct (map ul_id (db_ledger db2))" using assms(3) by (simp add: lb)
  note row = reconciled_row[OF found d run(12)]
  have lid: "ul_id l = uid"
    using run(2) by (auto simp: get_provider_completed_recovery_record_def scalar_one_or_none_def opt_all_def
        filter_eq_Cons_iff split: list.splits)
  have l: "l \<in> set (db_ledger db)" "is_provider_completed_recovery l"
    and l2: "l2 = l\<lparr>ul_success := Some True, ul_accounting_status := LFinalized, ul_error_type := None,
         ul_error_message := None,
         ul_response_metadata := sanitize_mapping True None
           (reconciled_metadata (ul_response_metadata l) (aware_now clock now) actor reason),
         ul_finished_at := Some (aware_now clock now)\<rparr>"
    and led: "db_ledger db' = put_row ul_id (stored_ledger l2) (db_ledger db)"
    using row create_provider_completed_audit_log_same(2)[OF run(13)] lb by auto
  have get: "get_usage_record_by_id uid db = Some l"
    using distinct_get_row[OF assms(3) l(1)] by (simp add: get_usage_record_by_id_def lid)
  moreover have get': "get_usage_record_by_id uid db' = Some (stored_ledger l2)"
    using l(1) lid by (auto simp: get_usage_record_by_id_def led get_put_row l2 get_row_None)
  moreover have "filter (\<lambda>q. is_provider_completed_recovery q \<and> opt_all (\<lambda>u. ul_id q = u) (Some uid)
      \<and> opt_all (\<lambda>r. ul_quota_reservation_id q = Some r) None) (db_ledger db') = []"
  proof -
    have "\<not> is_provider_completed_recovery (stored_ledger l2)"
      by (simp add: is_provider_completed_recovery_def l2)
    then show ?thesis
      using lid by (auto simp: filter_empty_conv led opt_all_def l2 dest!: set_put_row)
  qed
  then have "reconcile_provider_completed_recovery clock' aid' (Some uid) None dry actor' reason' now' db'
        = Inl ProviderCompletedRecoveryAlreadyReconciledError"
    using get' by (simp add: reconcile_provider_completed_recovery_def get_provider_completed_recovery_record_def
        scalar_one_or_none_def l2 del: sbind_eq_Inl)
  moreover have "qr_id r = rid" using get_reservation_in[OF run(5)] by simp
  moreover obtain k' where "get_gateway_key_by_id (ul_gateway_key_id l) db' = Some k'"
    "settled_key k r cost (ul_total_tokens l) k'"
    using st[unfolded rid] assms(2) by (rule settles_post) (use run(5,8) in auto)
  ultimately show ?thesis
    using run(4-9) l(2) l2 by (intro exI[of _ l] exI[of _ cost] exI[of _ r] exI[of _ k] exI[of _ k'] exI[of _ "stored_ledger l2"]) simp
qed simp

theorem recovery_charges_recorded_witness:
  "\<exists>db' res. reconcile_provider_completed_recovery (Aware 3000) 9 (Some 8) None False None None None
       sample_recovery_db = Inr (db', res)
     \<and> reconcile_provider_completed_recovery (Aware 4000) 10 (Some 8) None False None None None db'
       = Inl ProviderCompletedRecoveryAlreadyReconciledError"
proof -
  obtain db' res where f: "reconcile_provider_completed_recovery (Aware 3000) 9 (Some 8) None False None None None
      sample_recovery_db = Inr (db', res)" using sample_recovered by blast
  have "distinct (map ul_id (db_ledger sample_recovery_db))" by (simp add: sample_recovery_db_def)
  from recovery_charges_recorded[OF f sample_recovery_wf this, of "Aware 4000" 10 False None None None] f
  show ?thesis by blast
qed

text \<open>C35: A recovery row without tokens or without a positive cost is stuck: the repair refuses it, and
  the release of its reservation is refused too because the row awaits reconciliation, so the
  reserved amounts of the key can be freed by neither path.  (Fixed-price module requests are
  always recorded with zero tokens.)\<close>

theorem zero_usage_recovery_stuck:
  assumes "get_provider_completed_recovery_record lid rid0 db = Inr (Some l)"
    and "ul_total_tokens l \<le> 0 \<or> (\<exists>c. ul_actual_cost_eur l = Some c \<and> c \<le> 0)"
    and "get_reservation_by_id rid db = Some r" "qr_request_id r = ul_request_id l"
    and "get_usage_record_by_request_id (ul_request_id l) db = Some l"
  shows "reconcile_provider_completed_recovery clock aid lid rid0 dry actor reason now db \<noteq> Inr x
    \<and> reconcile_expired_pending_reservation clock uid aid rid now False actor reason db \<noteq> Inr y"
proof -
  have rec: "is_provider_completed_recovery l"
    using assms(1) by (auto simp: get_provider_completed_recovery_record_def scalar_one_or_none_def
        filter_eq_Cons_iff split: list.splits)
  have "validate_provider_completed_ledger l \<noteq> Inr ()"
    using assms(2) by (auto simp: validate_provider_completed_ledger_def split: option.splits)
  then have "reconcile_provider_completed_recovery clock aid lid rid0 dry actor reason now db \<noteq> Inr x"
    using assms(1) unfolding reconcile_provider_completed_recovery_def Let_def
    by auto
  moreover have "awaits_reconciliation (qr_request_id r) db"
    using rec assms(4,5) by (simp add: awaits_reconciliation_def is_provider_completed_recovery_def)
  then have "reconcile_expired_pending_reservation clock uid aid rid now False actor reason db \<noteq> Inr y"
    using assms(3) unfolding reconcile_expired_pending_reservation_def Let_def by auto
  ultimately show ?thesis by simp
qed

theorem zero_usage_recovery_stuck_witness:
  "\<forall>x y. reconcile_provider_completed_recovery (Aware 900002000) 9 (Some 8) None False None None None
       (sample_reserved_db\<lparr>db_ledger := [sample_recovery_row\<lparr>ul_total_tokens := 0\<rparr>]\<rparr>) \<noteq> Inr x
     \<and> reconcile_expired_pending_reservation (Aware 900002000) 11 9 7 None False None None
       (sample_reserved_db\<lparr>db_ledger := [sample_recovery_row\<lparr>ul_total_tokens := 0\<rparr>]\<rparr>) \<noteq> Inr y"
  by (intro allI, rule zero_usage_recovery_stuck[where l = "sample_recovery_row\<lparr>ul_total_tokens := 0\<rparr>"
        and r = "hd (db_reservations sample_reserved_db)"])
     (simp_all add: sample_recovery_row_def sample_reserved_db_def eval_simps opt_all_def)

lemma reconcile_each_dry: "reconcile_each env now True actor reason i cs db = Inr (db', rs, n) \<Longrightarrow> db' = db"
  by (induction cs arbitrary: i db rs n)
     (auto split: if_splits prod.splits elim!: expired_elim)

lemma recover_each_dry: "recover_each env now True actor reason i cs db = Inr (db', rs) \<Longrightarrow> db' = db"
  by (induction cs arbitrary: i db rs) (auto split: prod.splits elim!: recovery_elim)

text \<open>A dry run of any of the four reconciliation operations leaves the database as it is.\<close>

theorem dry_run_changes_nothing:
  "(reconcile_expired_pending_reservation clock uid aid rid now True actor reason db = Inr (db1, x1) \<longrightarrow> db1 = db)
   \<and> (reconcile_expired_pending_reservations clock env now limit True actor reason db = Inr (db2, x2) \<longrightarrow> db2 = db)
   \<and> (reconcile_provider_completed_recovery clock aid lid rid0 True actor reason now db = Inr (db3, x3) \<longrightarrow> db3 = db)
   \<and> (reconcile_provider_completed_recovery_rows env limit True actor reason now older db = Inr (db4, x4) \<longrightarrow> db4 = db)"
  by (auto simp: reconcile_expired_pending_reservations_def reconcile_provider_completed_recovery_rows_def Let_def
      split: prod.splits dest: reconcile_each_dry recover_each_dry elim: expired_elim recovery_elim)

theorem dry_run_changes_nothing_witness:
  "\<exists>res. reconcile_expired_pending_reservation (Aware 900002000) 8 9 7 None True None None sample_reserved_db
     = Inr (sample_reserved_db, res)"
proof -
  obtain db1 res where f: "reconcile_expired_pending_reservation (Aware 900002000) 8 9 7 None True None None
      sample_reserved_db = Inr (db1, res)"
    unfolding reconcile_expired_pending_reservation_def sample_reserved_db_def by (simp add: eval_simps Let_def)
  with dry_run_changes_nothing[THEN conjunct1] show ?thesis by blast
qed

lemma reconcile_each_results:
  assumes "reconcile_each env now False actor reason i cs db = Inr (db', rs, n)"
  shows "map rrr_reservation_id rs = map src_reservation_id (filter (\<lambda>c. \<not> src_requires_external_tool_review c) cs)
    \<and> n = length (filter src_requires_external_tool_review cs) \<and> (\<forall>x \<in> set rs. rrr_new_status x = Expired)"
  using assms
proof (induction cs arbitrary: i db rs n)
  case Nil
  then show ?case by simp
next
  case (Cons c cs)
  show ?case
  proof (cases "src_requires_external_tool_review c")
    case True
    with Cons.prems Cons.IH show ?thesis by (fastforce split: prod.splits)
  next
    case False
    with Cons.prems obtain clock uid aid db1 r rs' where
      step: "reconcile_expired_pending_reservation clock uid aid (src_reservation_id c) now False actor reason db = Inr (db1, r)"
      and rest: "reconcile_each env now False actor reason (Suc i) cs db1 = Inr (db', rs', n)" and "rs = r # rs'"
      by (auto split: prod.splits)
    moreover have "rrr_reservation_id r = src_reservation_id c \<and> rrr_new_status r = Expired"
      using step by (auto elim!: expired_elim simp: recon_result_def mark_flushed flush_simps dest: get_reservation_in)
    ultimately show ?thesis using Cons.IH[OF rest] False by simp
  qed
qed

text \<open>A batch accounts for every candidate: it lists at most \<open>limit\<close> expired pending
  reservations, expires each that is not an external-tool one, in order of expiry, and skips
  exactly the external-tool ones.\<close>

theorem expired_batch_complete:
  assumes "reconcile_expired_pending_reservations clock env now limit False actor reason db = Inr (db', s)"
  shows "map rrr_reservation_id (sm_results s) =
      map qr_id (filter (\<lambda>r. qr_quota_mode r \<noteq> ExternalToolFenced)
        (list_expired_pending_reservations (aware_now clock now) limit db))
    \<and> (\<forall>x \<in> set (sm_results s). rrr_new_status x = Expired)
    \<and> sm_reconciled_count s + sm_skipped_count s = sm_candidate_count s \<and> sm_candidate_count s \<le> limit"
proof -
  let ?rows = "list_expired_pending_reservations (aware_now clock now) limit db"
  let ?cs = "map candidate ?rows"
  from assms obtain rs n where r: "reconcile_each env now False actor reason 0 ?cs db = Inr (db', rs, n)"
    and s: "sm_results s = rs" "sm_reconciled_count s = length rs" "sm_skipped_count s = n"
      "sm_candidate_count s = length ?rows"
    unfolding reconcile_expired_pending_reservations_def list_stale_reservations_def Let_def
    by (auto split: prod.splits)
  note res = reconcile_each_results[OF r]
  have "length rs + n = length ?rows"
    using res map_eq_imp_length_eq[OF res[THEN conjunct1]]
      sum_length_filter_compl[of "\<lambda>r. qr_quota_mode r = ExternalToolFenced" ?rows]
    by (simp add: filter_map comp_def candidate_def)
  moreover have "length ?rows \<le> limit" by (simp add: list_expired_pending_reservations_def)
  ultimately show ?thesis using res s by (simp add: filter_map comp_def candidate_def)
qed

theorem expired_batch_complete_witness:
  "\<exists>db' s. reconcile_expired_pending_reservations (Aware 900002000) (\<lambda>i. (Aware 900002000, 8, 9)) None 100 False
       None None sample_reserved_db = Inr (db', s)
     \<and> sm_reconciled_count s + sm_skipped_count s = sm_candidate_count s"
proof -
  have c: "list_stale_reservations (Aware 900002000) None 100 sample_reserved_db
      = [candidate (hd (db_reservations sample_reserved_db))]"
    by (simp add: list_stale_reservations_def sample_reserved_db_def eval_simps)
  have i: "src_reservation_id (candidate (hd (db_reservations sample_reserved_db))) = 7"
    "\<not> src_requires_external_tool_review (candidate (hd (db_reservations sample_reserved_db)))"
    by (simp_all add: candidate_def sample_reserved_db_def)
  obtain db' s where f: "reconcile_expired_pending_reservations (Aware 900002000) (\<lambda>i. (Aware 900002000, 8, 9)) None
      100 False None None sample_reserved_db = Inr (db', s)"
    using sample_expired by (auto simp: reconcile_expired_pending_reservations_def c i simp del: sbind_eq_Inr)
  from expired_batch_complete[OF f] f show ?thesis by blast
qed

text \<open>A response that was recorded as provider-completed but neither finalized nor marked as failed
  (the process stopped in between) is not protected: once the reservation has expired it is
  released as a zero-cost one, the used counters stay zero although the provider's usage is in the
  ledger, and the ledger row keeps its pending state.\<close>

theorem unmarked_completion_released_uncharged:
  "\<exists>db1 pcr db' res k row.
     record_provider_completed_before_finalization (Aware 1500) 8 7 sample_ak sample_route sample_estimate
       sample_response ''req1'' ''chat.completions'' False None sample_reserved_db = Inr (db1, pcr)
     \<and> reconcile_expired_pending_reservation (Aware 900002000) 9 11 7 None False None None db1 = Inr (db', res)
     \<and> rrr_new_status res = Expired \<and> get_gateway_key_by_id 10 db' = Some k
     \<and> gk_tokens_used_total k = 0 \<and> gk_tokens_reserved_total k = 0
     \<and> db_ledger db' = [row] \<and> ul_accounting_status row = LPending \<and> ul_total_tokens row = 12"
  unfolding record_provider_completed_before_finalization_def reconcile_expired_pending_reservation_def
    sample_usage_and_cost sbind_Inr prod.case sample_reserved_db_def
  by (simp add: eval_simps Let_def sample_actual_def sample_cost_def dget_sanitize_mapping recovery_keys_durable
      dget_dset sanitize_metadata_mapping_def del: sbind_eq_Inr)

end
