(* ===== verification/Hold.thy ===== *)
theory Hold
  imports Fence Reconciliation
begin

text \<open>
  \<open>services/external_tool_hold.py\<close> with the types of \<open>schemas/external_tool_hold.py\<close>: when the
  provider's final usage or cost is missing, the fenced reservation is held (its balance stays
  reserved, a ledger row records the reason) until an operator either charges actual amounts or
  releases it without charge.  \<open>place\<close>, \<open>list_holds\<close> and \<open>reconcile\<close> are the service's
  operations; \<open>reconcile\<close> ends by lifting the fence with \<open>Fence.resolve\<close>.

  \<open>reconcile\<close> reads the id of the hold's ledger row before it takes the row locks, so it takes the
  state of that read (\<open>db0\<close>) and the state under the locks.  A timestamp in a JSON column is the
  text \<open>PTimeStr\<close> that the service wrote; any other text is not a timestamp.  Two Decimals with the
  same value have the same text.

  Shown: placing a hold charges and releases nothing and is recognised again, a reconciliation
  charges exactly what the operator states (or nothing) and lifts the fence, and a dry run changes
  nothing.
\<close>

section \<open>Data\<close>

datatype hold_reason_code =
    MissingFinalUsage | MissingFinalCost | AmbiguousFinalCost | InterruptionDisconnect | ProviderErrorUnknownCharge

datatype hold_evidence_quality = EvidenceMissing | EvidencePartialEstimate | EvidenceAmbiguous

datatype hold_action = FinalizeActual | ReleaseNoCharge

fun hold_reason_str :: "hold_reason_code \<Rightarrow> string" where
  "hold_reason_str MissingFinalUsage = ''missing_final_usage''"
| "hold_reason_str MissingFinalCost = ''missing_final_cost''"
| "hold_reason_str AmbiguousFinalCost = ''ambiguous_final_cost''"
| "hold_reason_str InterruptionDisconnect = ''interruption_disconnect''"
| "hold_reason_str ProviderErrorUnknownCharge = ''provider_error_unknown_charge''"

fun hold_quality_str :: "hold_evidence_quality \<Rightarrow> string" where
  "hold_quality_str EvidenceMissing = ''missing''"
| "hold_quality_str EvidencePartialEstimate = ''partial_estimate''"
| "hold_quality_str EvidenceAmbiguous = ''ambiguous''"

fun hold_action_str :: "hold_action \<Rightarrow> string" where
  "hold_action_str FinalizeActual = ''finalize-actual''"
| "hold_action_str ReleaseNoCharge = ''release-no-charge''"

definition known_reason :: "pyval \<Rightarrow> bool" where
  "known_reason v = (v \<in> set (map (PStr \<circ> hold_reason_str)
     [MissingFinalUsage, MissingFinalCost, AmbiguousFinalCost, InterruptionDisconnect, ProviderErrorUnknownCharge]))"

definition known_quality :: "pyval \<Rightarrow> bool" where
  "known_quality v = (v \<in> set (map (PStr \<circ> hold_quality_str)
     [EvidenceMissing, EvidencePartialEstimate, EvidenceAmbiguous]))"

record hold_input =
  hi_gateway_key_id :: uuid
  hi_reservation_id :: uuid
  hi_request_id :: string
  hi_reason_code :: hold_reason_code
  hi_evidence_quality :: hold_evidence_quality
  hi_streaming :: bool
  hi_now :: pydatetime
  hi_partial_total_tokens :: "int option"
  hi_estimated_cost_eur :: "decimal option"

record hold_projection =
  hp_gateway_key_id :: uuid
  hp_reservation_id :: uuid
  hp_usage_ledger_id :: uuid
  hp_request_id :: string
  hp_fence_state :: fence_state
  hp_accounting_status :: accounting_status
  hp_reason_code :: string
  hp_evidence_quality :: string
  hp_held_at :: pydatetime
  hp_created_at :: pydatetime
  hp_expires_at :: pydatetime
  hp_provider :: string
  hp_endpoint :: string
  hp_requested_model :: "string option"
  hp_reserved_cost_eur :: decimal
  hp_reserved_tokens :: int
  hp_reserved_requests :: int
  hp_partial_total_tokens :: "int option"
  hp_estimated_cost_eur :: "decimal option"

record hold_request =
  hr_reservation_id :: uuid
  hr_action :: hold_action
  hr_execute :: bool
  hr_actor_admin_id :: "uuid option"
  hr_reason :: "string option"
  hr_actual_cost_eur :: "decimal option"
  hr_actual_total_tokens :: "int option"
  hr_success :: "bool option"
  hr_confirm_no_charge :: bool

record hold_result =
  hs_reservation_id :: uuid
  hs_usage_ledger_id :: uuid
  hs_action :: string
  hs_executed :: bool
  hs_fence_state :: fence_state
  hs_reservation_status :: reservation_status
  hs_accounting_status :: accounting_status
  hs_actual_cost_eur :: "decimal option"
  hs_actual_total_tokens :: int
  hs_success :: "bool option"
  hs_idempotent :: bool

definition safe_hold_metadata :: "hold_reason_code \<Rightarrow> hold_evidence_quality \<Rightarrow> pydatetime \<Rightarrow> pydict" where
  "safe_hold_metadata reason quality held_at =
     [(''external_tool_accounting_hold'', PDict
        [(''version'', PInt 1), (''state'', PStr ''held''), (''reason_code'', PStr (hold_reason_str reason)),
         (''needs_reconciliation'', PBool True), (''evidence_quality'', PStr (hold_quality_str quality)),
         (''held_at'', PTimeStr held_at)])]"

definition validate_partial_facts :: "int option \<Rightarrow> decimal option \<Rightarrow> unit result" where
  "validate_partial_facts tokens cost =
     sbind (ensure (opt_all (\<lambda>t. 0 \<le> t) tokens) PyValueError) (\<lambda>_.
     ensure (opt_all (\<lambda>c. 0 \<le> c) cost) PyValueError)"

section \<open>Validation\<close>

definition validate_input :: "hold_input \<Rightarrow> unit result" where
  "validate_input h =
     ensure (\<not> (hi_request_id h = [] \<or> 255 < length (hi_request_id h))) InvalidExternalToolAccountingHoldError"

definition validate_reservation_and_fence :: "hold_input \<Rightarrow> quota_reservation \<Rightarrow> gateway_key \<Rightarrow> unit result" where
  "validate_reservation_and_fence h r k =
     ensure (qr_gateway_key_id r = hi_gateway_key_id h \<and> qr_request_id r = hi_request_id h
             \<and> qr_quota_mode r = ExternalToolFenced \<and> qr_status r = Pending
             \<and> gk_fence_state k \<in> {FenceActive, FenceHeld}
             \<and> gk_fence_reservation_id k = Some (qr_id r) \<and> gk_fence_request_id k = Some (qr_request_id r)
             \<and> qr_ext_provider r \<noteq> None \<and> qr_ext_route_id r \<noteq> None)
       ExternalToolAccountingHoldInvariantError"

definition exact_hold_metadata :: "usage_ledger \<Rightarrow> pydict option" where
  "exact_hold_metadata l =
     (if set (map fst (ul_response_metadata l)) \<noteq> {''external_tool_accounting_hold''} then None
      else case dget (ul_response_metadata l) ''external_tool_accounting_hold'' of
        PDict hold \<Rightarrow>
          if set (map fst hold) \<noteq>
             {''version'', ''state'', ''reason_code'', ''needs_reconciliation'', ''evidence_quality'', ''held_at''}
          then None
          else if dget hold ''version'' \<notin> {PInt 1, PBool True, PFloat ''1.0''} \<or> dget hold ''state'' \<noteq> PStr ''held'' then None
          else if dget hold ''needs_reconciliation'' \<noteq> PBool True then None
          else if \<not> known_reason (dget hold ''reason_code'') \<or> \<not> known_quality (dget hold ''evidence_quality'') then None
          else (case dget hold ''held_at'' of
                  PTimeStr t \<Rightarrow> if is_aware t then Some hold else None
                | _ \<Rightarrow> None)
      | _ \<Rightarrow> None)"

definition validate_locked_candidate :: "usage_ledger \<Rightarrow> quota_reservation \<Rightarrow> gateway_key \<Rightarrow> unit result" where
  "validate_locked_candidate l r k =
     ensure (gk_fence_state k = FenceHeld
             \<and> qr_status r = Pending \<and> qr_quota_mode r = ExternalToolFenced
             \<and> ul_quota_reservation_id l = Some (qr_id r) \<and> ul_gateway_key_id l = gk_id k
             \<and> gk_fence_reservation_id k = Some (qr_id r) \<and> gk_fence_request_id k = Some (qr_request_id r)
             \<and> ul_request_id l = qr_request_id r \<and> ul_endpoint l = qr_endpoint r
             \<and> Some (ul_provider l) = qr_ext_provider r \<and> ul_requested_model l = qr_requested_model r
             \<and> qr_ext_route_id r \<noteq> None
             \<and> ul_actual_cost_eur l = None \<and> ul_actual_cost_native l = None \<and> ul_usage_raw l = []
             \<and> gk_cost_reserved_eur k = qr_reserved_cost_eur r \<and> gk_tokens_reserved_total k = qr_reserved_tokens r
             \<and> gk_requests_reserved_total k = qr_reserved_requests r
             \<and> exact_hold_metadata l \<noteq> None \<and> ul_accounting_status l \<in> {LEstimated, LInterrupted}
             \<and> ul_success l = None)
       ExternalToolAccountingHoldInvariantError"

definition ledger_matches_hold :: "usage_ledger \<Rightarrow> hold_input \<Rightarrow> bool" where
  "ledger_matches_hold l h =
     (case exact_hold_metadata l of
        None \<Rightarrow> False
      | Some hold \<Rightarrow>
          dget hold ''reason_code'' = PStr (hold_reason_str (hi_reason_code h))
          \<and> dget hold ''evidence_quality'' = PStr (hold_quality_str (hi_evidence_quality h))
          \<and> ul_streaming l = hi_streaming h
          \<and> ul_total_tokens l = (case hi_partial_total_tokens h of Some t \<Rightarrow> t | None \<Rightarrow> 0)
          \<and> ul_estimated_cost_eur l = hi_estimated_cost_eur h)"

definition parse_timestamp :: "pyval \<Rightarrow> pydatetime \<Rightarrow> pydatetime" where
  "parse_timestamp v fallback = (case v of PTimeStr t \<Rightarrow> t | _ \<Rightarrow> fallback)"

definition text_or_empty :: "pyval \<Rightarrow> string" where
  "text_or_empty v = (case v of PStr s \<Rightarrow> s | _ \<Rightarrow> [])"

definition hold_projection_of :: "gateway_key \<Rightarrow> quota_reservation \<Rightarrow> usage_ledger \<Rightarrow> hold_projection" where
  "hold_projection_of k r l =
     (let hold = as_dict (dget (ul_response_metadata l) ''external_tool_accounting_hold'')
      in \<lparr>hp_gateway_key_id = gk_id k, hp_reservation_id = qr_id r, hp_usage_ledger_id = ul_id l,
          hp_request_id = qr_request_id r, hp_fence_state = gk_fence_state k,
          hp_accounting_status = ul_accounting_status l,
          hp_reason_code = text_or_empty (dget hold ''reason_code''),
          hp_evidence_quality = text_or_empty (dget hold ''evidence_quality''),
          hp_held_at = parse_timestamp (dget hold ''held_at'') (ul_created_at l),
          hp_created_at = ul_created_at l, hp_expires_at = qr_expires_at r,
          hp_provider = (case qr_ext_provider r of
             Some p \<Rightarrow> if p = [] then ul_provider l else p | None \<Rightarrow> ul_provider l),
          hp_endpoint = qr_endpoint r, hp_requested_model = qr_requested_model r,
          hp_reserved_cost_eur = qr_reserved_cost_eur r, hp_reserved_tokens = qr_reserved_tokens r,
          hp_reserved_requests = qr_reserved_requests r,
          hp_partial_total_tokens = (if ul_accounting_status l = LEstimated then Some (ul_total_tokens l) else None),
          hp_estimated_cost_eur = ul_estimated_cost_eur l\<rparr>)"

section \<open>Placing a hold\<close>

definition hold_status :: "hold_input \<Rightarrow> accounting_status" where
  "hold_status h =
     (if hi_partial_total_tokens h \<noteq> None \<or> hi_estimated_cost_eur h \<noteq> None then LEstimated else LInterrupted)"

definition hold_row :: "pydatetime \<Rightarrow> uuid \<Rightarrow> hold_input \<Rightarrow> quota_reservation \<Rightarrow> gateway_key \<Rightarrow> usage_ledger" where
  "hold_row clock uid h r k =
     (new_usage_record uid clock (qr_request_id r) (gk_id k) (qr_endpoint r)
        (case qr_ext_provider r of Some p \<Rightarrow> if p = [] then ''unknown'' else p | None \<Rightarrow> ''unknown'')
        (aware (hi_now h)))
       \<lparr>ul_requested_model := qr_requested_model r, ul_quota_reservation_id := Some (qr_id r),
        ul_streaming := hi_streaming h, ul_success := None, ul_accounting_status := hold_status h,
        ul_total_tokens := (case hi_partial_total_tokens h of Some t \<Rightarrow> t | None \<Rightarrow> 0),
        ul_estimated_cost_eur := hi_estimated_cost_eur h, ul_actual_cost_eur := None, ul_usage_raw := [],
        ul_response_metadata := safe_hold_metadata (hi_reason_code h) (hi_evidence_quality h) (aware (hi_now h))\<rparr>"

definition place ::
  "pydatetime \<Rightarrow> uuid \<Rightarrow> uuid \<Rightarrow> hold_input \<Rightarrow> db \<Rightarrow> (db \<times> hold_projection) result" where
  "place clock uid aid h db =
     sbind (validate_input h) (\<lambda>_.
     sbind (validate_partial_facts (hi_partial_total_tokens h) (hi_estimated_cost_eur h)) (\<lambda>_.
     sbind (the_or_raise (get_reservation_by_id (hi_reservation_id h) db) ExternalToolAccountingHoldInvariantError) (\<lambda>r.
     sbind (the_or_raise (get_gateway_key_by_id (hi_gateway_key_id h) db) ExternalToolAccountingHoldInvariantError) (\<lambda>k.
     let ledgers = get_usage_records_by_reservation_id (qr_id r) db in
     if gk_fence_state k = FenceHeld
     then (case ledgers of
             [l] \<Rightarrow>
               sbind (validate_locked_candidate l r k) (\<lambda>_.
               if ledger_matches_hold l h then Inr (db, hold_projection_of k r l)
               else Inl (ExternalToolFenceConflictError ''external_tool_accounting_hold_retry_conflict''))
           | _ \<Rightarrow> Inl ExternalToolAccountingHoldInvariantError)
     else
       sbind (ensure (gk_fence_state k = FenceActive) ExternalToolAccountingHoldInvariantError) (\<lambda>_.
       sbind (validate_reservation_and_fence h r k) (\<lambda>_.
       sbind (ensure (ledgers = []) ExternalToolAccountingHoldInvariantError) (\<lambda>_.
       sbind (ensure (gk_cost_reserved_eur k = qr_reserved_cost_eur r \<and> gk_tokens_reserved_total k = qr_reserved_tokens r
                      \<and> gk_requests_reserved_total k = qr_reserved_requests r)
                ExternalToolAccountingHoldInvariantError) (\<lambda>_.
       sbind (create_usage_record (hold_row clock uid h r k) db) (\<lambda>(db1, l).
       sbind (set_external_tool_fence k FenceHeld (Some (qr_id r)) (Some (qr_request_id r))
                (gk_fence_acquired_at k) (gk_fence_expires_at k) db1) (\<lambda>(db2, k2).
       sbind (add_audit_log aid ''external_tool_accounting_hold_created'' ''gateway_key'' None (Some (gk_id k)) None
                (Some [(''state'', PStr ''held''), (''reservation_id'', PStr (uuid_str (qr_id r))),
                       (''usage_ledger_id'', PStr (uuid_str (ul_id l))),
                       (''reason_code'', PStr (hold_reason_str (hi_reason_code h))),
                       (''evidence_quality'', PStr (hold_quality_str (hi_evidence_quality h))),
                       (''accounting_status'', PStr (accounting_status_str (hold_status h)))])
                (Some (qr_request_id r)) (Some ''external tool accounting hold created'') db2) (\<lambda>(db3, _).
       Inr (db3, hold_projection_of k2 r l))))))))))))"

section \<open>Listing holds\<close>

definition hold_shape :: "db \<Rightarrow> usage_ledger \<Rightarrow> hold_projection option" where
  "hold_shape db l =
     (case ul_quota_reservation_id l of
        None \<Rightarrow> None
      | Some rid \<Rightarrow>
        (case get_reservation_by_id rid db of
           None \<Rightarrow> None
         | Some r \<Rightarrow>
           (case get_usage_records_by_reservation_id (qr_id r) db of
              [l'] \<Rightarrow>
                if ul_id l' \<noteq> ul_id l then None
                else (case get_gateway_key_by_id (ul_gateway_key_id l) db of
                        None \<Rightarrow> None
                      | Some k \<Rightarrow>
                        (case validate_locked_candidate l r k of
                           Inl _ \<Rightarrow> None
                         | Inr _ \<Rightarrow> Some (hold_projection_of k r l)))
            | _ \<Rightarrow> None)))"

definition list_holds :: "int \<Rightarrow> db \<Rightarrow> hold_projection list result" where
  "list_holds limit db =
     sbind (ensure (0 < limit) InvalidExternalToolAccountingHoldError) (\<lambda>_.
     Inr (take (nat limit) (List.map_filter (hold_shape db) (list_external_tool_accounting_hold_records limit db))))"

section \<open>Reconciliation\<close>

definition validate_reconciliation_input :: "hold_request \<Rightarrow> unit result" where
  "validate_reconciliation_input q =
     sbind (ensure (opt_all (\<lambda>s. py_strip s \<noteq> [] \<and> length s \<le> 500) (hr_reason q)) InvalidExternalToolAccountingHoldError) (\<lambda>_.
     sbind (ensure (hr_execute q \<longrightarrow> hr_actor_admin_id q \<noteq> None
                    \<and> (case hr_reason q of None \<Rightarrow> False | Some s \<Rightarrow> py_strip s \<noteq> []))
              InvalidExternalToolAccountingHoldError) (\<lambda>_.
     case hr_action q of
       FinalizeActual \<Rightarrow>
         ensure (\<not> hr_confirm_no_charge q
                 \<and> (case hr_actual_cost_eur q of None \<Rightarrow> False | Some c \<Rightarrow> 0 \<le> c)
                 \<and> (case hr_actual_total_tokens q of None \<Rightarrow> False | Some t \<Rightarrow> 0 \<le> t)
                 \<and> hr_success q \<noteq> None) InvalidExternalToolAccountingHoldError
     | ReleaseNoCharge \<Rightarrow>
         ensure (hr_actual_cost_eur q = None \<and> hr_actual_total_tokens q = None \<and> hr_success q = None
                 \<and> hr_confirm_no_charge q) InvalidExternalToolAccountingHoldError))"

definition reconciliation_metadata :: "usage_ledger \<Rightarrow> pydict option" where
  "reconciliation_metadata l =
     (case dget (ul_response_metadata l) ''external_tool_accounting_reconciliation'' of PDict d \<Rightarrow> Some d | _ \<Rightarrow> None)"

definition reconciliation_matches :: "pydict option \<Rightarrow> hold_request \<Rightarrow> bool" where
  "reconciliation_matches prior q =
     (case prior of
        None \<Rightarrow> False
      | Some d \<Rightarrow>
          dget d ''action'' = PStr (hold_action_str (hr_action q))
          \<and> dget d ''actor_admin_id'' = PStr (case hr_actor_admin_id q of Some a \<Rightarrow> uuid_str a | None \<Rightarrow> ''None'')
          \<and> dget d ''reason'' = PStr (case hr_reason q of Some s \<Rightarrow> py_strip s | None \<Rightarrow> [])
          \<and> dget d ''actual_cost_eur'' = PDecStr (case hr_actual_cost_eur q of Some c \<Rightarrow> c | None \<Rightarrow> 0)
          \<and> dget d ''actual_total_tokens'' = PInt (case hr_actual_total_tokens q of Some t \<Rightarrow> t | None \<Rightarrow> 0)
          \<and> dget d ''success'' = PBool (case hr_success q of Some b \<Rightarrow> b | None \<Rightarrow> False)
          \<and> dget d ''confirmed_no_charge'' = PBool (hr_confirm_no_charge q))"

definition terminal_metadata ::
  "usage_ledger \<Rightarrow> hold_request \<Rightarrow> decimal \<Rightarrow> int \<Rightarrow> bool \<Rightarrow> bool \<Rightarrow> bool \<Rightarrow> bool \<Rightarrow> pydict" where
  "terminal_metadata l q cost tokens success overrun_cost overrun_tokens confirmed =
     (let hold = as_dict (dget (ul_response_metadata l) ''external_tool_accounting_hold'');
          hold' = dset ''state'' (PStr ''reconciled'') (dset ''needs_reconciliation'' (PBool False) hold)
      in dset ''external_tool_accounting_reconciliation''
           (PDict [(''version'', PInt 1), (''action'', PStr (hold_action_str (hr_action q))),
              (''actor_admin_id'', PStr (case hr_actor_admin_id q of Some a \<Rightarrow> uuid_str a | None \<Rightarrow> ''None'')),
              (''reason'', PStr (case hr_reason q of Some s \<Rightarrow> py_strip s | None \<Rightarrow> [])),
              (''actual_cost_eur'', PDecStr cost), (''actual_total_tokens'', PInt tokens), (''success'', PBool success),
              (''cost_source'', PStr ''operator_reconciliation''), (''confidence'', PStr ''operator_asserted''),
              (''overrun_cost'', PBool overrun_cost), (''overrun_tokens'', PBool overrun_tokens),
              (''confirmed_no_charge'', PBool confirmed)])
           (dset ''external_tool_accounting_hold'' (PDict hold') (ul_response_metadata l)))"

definition reconciliation_result ::
  "hold_request \<Rightarrow> usage_ledger \<Rightarrow> quota_reservation \<Rightarrow> gateway_key \<Rightarrow> bool \<Rightarrow> hold_result" where
  "reconciliation_result q l r k idempotent =
     \<lparr>hs_reservation_id = qr_id r, hs_usage_ledger_id = ul_id l, hs_action = hold_action_str (hr_action q),
      hs_executed = hr_execute q, hs_fence_state = gk_fence_state k, hs_reservation_status = qr_status r,
      hs_accounting_status = ul_accounting_status l, hs_actual_cost_eur = ul_actual_cost_eur l,
      hs_actual_total_tokens = ul_total_tokens l, hs_success = ul_success l, hs_idempotent = idempotent\<rparr>"

definition ledger_id_for_reservation :: "uuid \<Rightarrow> db \<Rightarrow> uuid result" where
  "ledger_id_for_reservation rid db =
     (case get_usage_records_by_reservation_id rid db of
        [l] \<Rightarrow> Inr (ul_id l)
      | _ \<Rightarrow> Inl ExternalToolAccountingHoldInvariantError)"

definition load_candidate :: "uuid \<Rightarrow> db \<Rightarrow> (usage_ledger \<times> quota_reservation \<times> gateway_key) result" where
  "load_candidate rid db =
     (case get_usage_records_by_reservation_id rid db of
        [l] \<Rightarrow>
          sbind (the_or_raise (get_reservation_by_id rid db) ExternalToolAccountingHoldInvariantError) (\<lambda>r.
          sbind (the_or_raise (get_gateway_key_by_id (qr_gateway_key_id r) db) ExternalToolAccountingHoldInvariantError) (\<lambda>k.
          sbind (validate_locked_candidate l r k) (\<lambda>_. Inr (l, r, k))))
      | _ \<Rightarrow> Inl ExternalToolAccountingHoldInvariantError)"

text \<open>The two ways to settle: charge what the operator states, or release without charge.\<close>

definition settle_hold ::
  "hold_request \<Rightarrow> pydatetime \<Rightarrow> usage_ledger \<Rightarrow> quota_reservation \<Rightarrow> gateway_key \<Rightarrow> db
     \<Rightarrow> (db \<times> quota_reservation \<times> usage_ledger) result" where
  "settle_hold q now l r k db =
     (case hr_action q of
        FinalizeActual \<Rightarrow>
          (let cost = the (hr_actual_cost_eur q); tokens = the (hr_actual_total_tokens q); success = the (hr_success q) in
          sbind (finalize_reserved_counters k (qr_reserved_cost_eur r) (qr_reserved_tokens r) (qr_reserved_requests r)
                   cost tokens 1 now db) (\<lambda>(db1, _).
          sbind (mark_pending_reservation_finalized r now db1) (\<lambda>(db2, r2).
          sbind (update_external_tool_hold_ledger l LFinalized success cost tokens
                   (terminal_metadata l q cost tokens success (qr_reserved_cost_eur r < cost)
                      (qr_reserved_tokens r < tokens) False) now db2) (\<lambda>(db3, l2).
          Inr (db3, r2, l2)))))
      | ReleaseNoCharge \<Rightarrow>
          sbind (subtract_reserved_counters k (qr_reserved_cost_eur r) (qr_reserved_tokens r) (qr_reserved_requests r) db) (\<lambda>(db1, _).
          sbind (mark_pending_reservation_released r now db1) (\<lambda>(db2, r2).
          sbind (update_external_tool_hold_ledger l LFailed False 0 0
                   (terminal_metadata l q 0 0 False False False True) now db2) (\<lambda>(db3, l2).
          Inr (db3, r2, l2)))))"

text \<open>What happens under the three locks: a repetition, or the settlement.\<close>

definition reconcile_locked ::
  "pydatetime \<Rightarrow> uuid \<Rightarrow> uuid \<Rightarrow> hold_request \<Rightarrow> usage_ledger \<Rightarrow> quota_reservation \<Rightarrow> gateway_key \<Rightarrow> db
     \<Rightarrow> (db \<times> hold_result) result" where
  "reconcile_locked clock aid aid2 q l r k db =
     (if qr_status r \<in> {Finalized, Released} \<and> gk_fence_state k = FenceNone
       then (if reconciliation_matches (reconciliation_metadata l) q
             then Inr (db, reconciliation_result q l r k True)
             else Inl (ExternalToolFenceConflictError ''external_tool_accounting_reconciliation_conflict''))
       else
         sbind (validate_locked_candidate l r k) (\<lambda>_.
         let now = aware clock; reason = (case hr_reason q of Some s \<Rightarrow> py_strip s | None \<Rightarrow> []) in
         sbind (settle_hold q now l r k db) (\<lambda>(db1, r2, l2).
         sbind (add_audit_log aid ''external_tool_accounting_hold_reconciled'' ''gateway_key'' (hr_actor_admin_id q)
                  (Some (gk_id k))
                  (Some [(''fence_state'', PStr ''held''), (''reservation_status'', PStr ''pending'')])
                  (Some [(''action'', PStr (hold_action_str (hr_action q))),
                         (''reservation_status'', PStr (reservation_status_str (qr_status r2))),
                         (''accounting_status'', PStr (accounting_status_str (ul_accounting_status l2))),
                         (''actual_cost_eur'', pydecstr (ul_actual_cost_eur l2)),
                         (''actual_total_tokens'', PInt (ul_total_tokens l2)),
                         (''success'', (case ul_success l2 of Some b \<Rightarrow> PBool b | None \<Rightarrow> PNone))])
                  (Some (qr_request_id r)) (Some reason) db1) (\<lambda>(db2, _).
         sbind (resolve aid2 \<lparr>fi_gateway_key_id = gk_id k, fi_request_id = qr_request_id r\<rparr> True db2 db2) (\<lambda>(db3, _).
         Inr (db3, reconciliation_result q l2 r2
                     (case get_gateway_key_by_id (gk_id k) db3 of Some k' \<Rightarrow> k' | None \<Rightarrow> k) False))))))"

definition reconcile ::
  "pydatetime \<Rightarrow> uuid \<Rightarrow> uuid \<Rightarrow> hold_request \<Rightarrow> db \<Rightarrow> db \<Rightarrow> (db \<times> hold_result) result" where
  "reconcile clock aid aid2 q db0 db =
     sbind (validate_reconciliation_input q) (\<lambda>_.
     if \<not> hr_execute q
     then sbind (load_candidate (hr_reservation_id q) db) (\<lambda>(l, r, k). Inr (db, reconciliation_result q l r k False))
     else
       sbind (ledger_id_for_reservation (hr_reservation_id q) db0) (\<lambda>lid.
       sbind (the_or_raise (get_usage_record_by_id lid db) ExternalToolAccountingHoldInvariantError) (\<lambda>l.
       sbind (the_or_raise (get_reservation_by_id (hr_reservation_id q) db) ExternalToolAccountingHoldInvariantError) (\<lambda>r.
       sbind (the_or_raise (get_gateway_key_by_id (qr_gateway_key_id r) db) ExternalToolAccountingHoldInvariantError) (\<lambda>k.
       sbind (case get_usage_records_by_reservation_id (qr_id r) db of
                [l'] \<Rightarrow> ensure (ul_id l' = ul_id l) ExternalToolAccountingHoldInvariantError
              | _ \<Rightarrow> Inl ExternalToolAccountingHoldInvariantError) (\<lambda>_.
       reconcile_locked clock aid aid2 q l r k db))))))"

section \<open>Hold metadata survives storage\<close>

lemma hold_keys_durable:
  "\<not> is_content_key x \<and> \<not> is_sensitive_key x"
  if "x \<in> set [''version'', ''state'', ''reason_code'', ''needs_reconciliation'', ''evidence_quality'', ''held_at'',
     ''external_tool_accounting_hold'']"
proof -
  have "list_all (\<lambda>x. \<not> is_content_key x \<and> \<not> is_sensitive_key x)
    [''version'', ''state'', ''reason_code'', ''needs_reconciliation'', ''evidence_quality'', ''held_at'',
     ''external_tool_accounting_hold'']" by code_simp
  then show ?thesis using that unfolding list_all_iff by blast
qed

lemma hold_reason_plain [simp]: "redact_text (hold_reason_str a) pfx = hold_reason_str a"
  by (rule redact_text_plain) (cases a; simp add: plain_char_def is_lower_def char_code_def)

lemma hold_quality_plain [simp]: "redact_text (hold_quality_str b) pfx = hold_quality_str b"
  by (rule redact_text_plain) (cases b; simp add: plain_char_def is_lower_def char_code_def)

lemma held_plain [simp]: "redact_text ''held'' pfx = ''held''"
  by (rule redact_text_plain) (simp add: plain_char_def is_lower_def char_code_def)

lemma sanitize_hold_metadata [simp]: "sanitize_mapping True None (safe_hold_metadata a b t) = safe_hold_metadata a b t"
  by (simp add: safe_hold_metadata_def hold_keys_durable)

lemma exact_hold_metadata_safe:
  assumes "ul_response_metadata l = safe_hold_metadata a b t" "is_aware t"
  shows "\<exists>hold. exact_hold_metadata l = Some hold \<and> dget hold ''reason_code'' = PStr (hold_reason_str a)
    \<and> dget hold ''evidence_quality'' = PStr (hold_quality_str b)"
proof -
  have "known_reason (PStr (hold_reason_str a))" "known_quality (PStr (hold_quality_str b))"
    by (cases a; simp add: known_reason_def) (cases b; simp add: known_quality_def)
  then show ?thesis using assms by (auto simp: exact_hold_metadata_def safe_hold_metadata_def)
qed

section \<open>Placing a hold\<close>

lemma place_elim:
  assumes "place clock uid aid h db = Inr (db', proj)"
  obtains (again) "db' = db"
  | (new) r k db1 l db2 where "get_reservation_by_id (hi_reservation_id h) db = Some r"
      "get_gateway_key_by_id (hi_gateway_key_id h) db = Some k" "gk_fence_state k = FenceActive"
      "validate_reservation_and_fence h r k = Inr ()" "get_usage_records_by_reservation_id (qr_id r) db = []"
      "gk_cost_reserved_eur k = qr_reserved_cost_eur r" "gk_tokens_reserved_total k = qr_reserved_tokens r"
      "gk_requests_reserved_total k = qr_reserved_requests r"
      "create_usage_record (hold_row clock uid h r k) db = Inr (db1, l)"
      "flush_key (fence_set k FenceHeld (Some (qr_id r)) (Some (qr_request_id r))
                (gk_fence_acquired_at k) (gk_fence_expires_at k)) db1 = Inr db2"
      "same_quota db2 db'" "db_ledger db' = db_ledger db2"
      "proj = hold_projection_of (fence_set k FenceHeld (Some (qr_id r)) (Some (qr_request_id r))
                (gk_fence_acquired_at k) (gk_fence_expires_at k)) r l"
proof -
  from assms obtain r k where r: "get_reservation_by_id (hi_reservation_id h) db = Some r"
    and k: "get_gateway_key_by_id (hi_gateway_key_id h) db = Some k"
    by (auto simp: place_def)
  show ?thesis
  proof (cases "gk_fence_state k = FenceHeld")
    case True
    then have "db' = db"
      using assms unfolding place_def r k Let_def by (auto split: list.splits if_splits)
    then show ?thesis by (rule again)
  next
    case False
    have led: "add_audit_log a b c d e f g hh i x = Inr (y, w) \<Longrightarrow> db_ledger y = db_ledger x" for a b c d e f g hh i x y w
      by (auto simp: add_audit_log_def Let_def)
    from False assms r k show ?thesis
      unfolding place_def Let_def
      by (auto simp: set_external_tool_fence_def flushed_key_def dest: led intro!: new[OF r k] elim!: add_audit_log_same)
  qed
qed

lemma three_steps: "R a b \<Longrightarrow> R b c \<Longrightarrow> R c d \<Longrightarrow> R\<^sup>*\<^sup>* a d"
  by (rule converse_rtranclp_into_rtranclp[OF _ converse_rtranclp_into_rtranclp[OF _ r_into_rtranclp]])

lemma place_is_steps:
  assumes "place clock uid aid h db = Inr (db', proj)"
  shows "quota_steps e db db'"
  using assms
proof (cases rule: place_elim)
  case again
  then show ?thesis by simp
next
  case (new r k db1 l db2)
  let ?k = "fence_set k FenceHeld (Some (qr_id r)) (Some (qr_request_id r)) (gk_fence_acquired_at k) (gk_fence_expires_at k)"
  have f: "gk_fence_reservation_id k = Some (qr_id r)" "gk_fence_request_id k = Some (qr_request_id r)"
    using new(4) by (auto simp: validate_reservation_and_fence_def)
  have q: "same_quota db db1" using new(9) by (rule create_usage_record_same)
  then have "get_gateway_key_by_id (hi_gateway_key_id h) db1 = Some k"
    using new(2) by (simp add: get_gateway_key_by_id_def same_quota_def)
  moreover have "gateway_key_fits ?k" "gateway_key_checks (stored_key ?k)"
    "db_keys db2 = put_row gk_id (stored_key ?k) (db_keys db1)" "db_reservations db2 = db_reservations db1"
    using new(10) by (auto simp: flush_simps)
  ultimately have "quota_step e db1 db2"
    using new(3) f by (intro quota_step.Hold[where k = k and k' = ?k]) auto
  moreover have "quota_step e db db1" "quota_step e db2 db'"
    using q new(11) by (auto intro: quota_step.Idle)
  ultimately show ?thesis by (blast intro: three_steps)
qed

lemma hold_row_sels [simp]:
  "ul_id (hold_row clock uid h r k) = uid" "ul_request_id (hold_row clock uid h r k) = qr_request_id r"
  "ul_gateway_key_id (hold_row clock uid h r k) = gk_id k" "ul_endpoint (hold_row clock uid h r k) = qr_endpoint r"
  "ul_requested_model (hold_row clock uid h r k) = qr_requested_model r"
  "ul_quota_reservation_id (hold_row clock uid h r k) = Some (qr_id r)"
  "ul_streaming (hold_row clock uid h r k) = hi_streaming h" "ul_success (hold_row clock uid h r k) = None"
  "ul_accounting_status (hold_row clock uid h r k) = hold_status h"
  "ul_total_tokens (hold_row clock uid h r k) = (case hi_partial_total_tokens h of Some t \<Rightarrow> t | None \<Rightarrow> 0)"
  "ul_estimated_cost_eur (hold_row clock uid h r k) = hi_estimated_cost_eur h"
  "ul_actual_cost_eur (hold_row clock uid h r k) = None" "ul_actual_cost_native (hold_row clock uid h r k) = None"
  "ul_usage_raw (hold_row clock uid h r k) = []"
  "ul_response_metadata (hold_row clock uid h r k) = safe_hold_metadata (hi_reason_code h) (hi_evidence_quality h) (aware (hi_now h))"
  by (simp_all add: hold_row_def new_usage_record_def)

lemma stored_ledger_fields [simp]:
  "ul_id (stored_ledger l) = ul_id l" "ul_request_id (stored_ledger l) = ul_request_id l"
  "ul_gateway_key_id (stored_ledger l) = ul_gateway_key_id l" "ul_endpoint (stored_ledger l) = ul_endpoint l"
  "ul_provider (stored_ledger l) = ul_provider l" "ul_requested_model (stored_ledger l) = ul_requested_model l"
  "ul_quota_reservation_id (stored_ledger l) = ul_quota_reservation_id l" "ul_streaming (stored_ledger l) = ul_streaming l"
  "ul_success (stored_ledger l) = ul_success l" "ul_accounting_status (stored_ledger l) = ul_accounting_status l"
  "ul_total_tokens (stored_ledger l) = ul_total_tokens l" "ul_usage_raw (stored_ledger l) = ul_usage_raw l"
  "ul_response_metadata (stored_ledger l) = ul_response_metadata l" "ul_created_at (stored_ledger l) = ul_created_at l"
  "ul_estimated_cost_eur (stored_ledger l) = map_option pg9 (ul_estimated_cost_eur l)"
  "ul_actual_cost_eur (stored_ledger l) = map_option pg9 (ul_actual_cost_eur l)"
  "ul_actual_cost_native (stored_ledger l) = map_option pg9 (ul_actual_cost_native l)"
  by (simp_all add: stored_ledger_def)

lemma hold_row_sanitized:
  "(hold_row clock uid h r k)\<lparr>ul_usage_raw := [], ul_response_metadata :=
      safe_hold_metadata (hi_reason_code h) (hi_evidence_quality h) (aware (hi_now h))\<rparr> = hold_row clock uid h r k"
  by (simp add: hold_row_def)

text \<open>The state after a fresh hold.\<close>

lemma place_post:
  assumes "place clock uid aid h db = Inr (db', proj)" and wf: "wf_quota db"
    and "get_gateway_key_by_id (hi_gateway_key_id h) db = Some k" and "gk_fence_state k = FenceActive"
  obtains r where "get_reservation_by_id (hi_reservation_id h) db = Some r"
    "validate_reservation_and_fence h r k = Inr ()" "get_usage_records_by_reservation_id (qr_id r) db = []"
    "gk_cost_reserved_eur k = qr_reserved_cost_eur r" "gk_tokens_reserved_total k = qr_reserved_tokens r"
    "gk_requests_reserved_total k = qr_reserved_requests r"
    "db_ledger db' = db_ledger db @ [stored_ledger (hold_row clock uid h r k)]"
    "db_reservations db' = db_reservations db" "db_keys db' = put_row gk_id (k\<lparr>gk_fence_state := FenceHeld\<rparr>) (db_keys db)"
    "proj = hold_projection_of (k\<lparr>gk_fence_state := FenceHeld\<rparr>) r (hold_row clock uid h r k)"
  using assms(1)
proof (cases rule: place_elim)
  case again
  have "\<exists>x. db_ledger db' = db_ledger db @ [x]"
    using assms(1,3,4) unfolding place_def Let_def
    by (auto simp: set_external_tool_fence_def flush_simps dest!: create_usage_record_row(1))
       (auto simp: add_audit_log_def Let_def)
  with again show ?thesis by simp
next
  case (new r k2 db1 l db2)
  then have kk: "k2 = k" using assms(3) by simp
  note new = new[unfolded kk]
  have f: "gk_fence_reservation_id k = Some (qr_id r)" "gk_fence_request_id k = Some (qr_request_id r)"
    using new(4) by (auto simp: validate_reservation_and_fence_def)
  let ?k = "k\<lparr>gk_fence_state := FenceHeld\<rparr>"
  have eq: "fence_set k FenceHeld (Some (qr_id r)) (Some (qr_request_id r)) (gk_fence_acquired_at k) (gk_fence_expires_at k) = ?k"
    using f by (simp add: fence_set_def)
  have l: "l = hold_row clock uid h r k"
    using new(9) by (simp add: create_usage_record_Inr hold_row_sanitized)
  have st: "stored_key ?k = ?k"
  proof -
    have "stored_key k = k" using wf_quota_key_ok[OF wf assms(3)] by (simp add: key_ok_def)
    then show ?thesis unfolding eq[symmetric] stored_fence_set by simp
  qed
  have "db_ledger db' = db_ledger db @ [stored_ledger (hold_row clock uid h r k)]"
    using new(10,12) create_usage_record_row(1)[OF new(9)] by (simp add: flush_simps l)
  moreover have "db_reservations db' = db_reservations db" "db_keys db' = put_row gk_id ?k (db_keys db)"
    using new(10,11) create_usage_record_same[OF new(9)] by (auto simp: flush_simps same_quota_def eq st)
  ultimately show ?thesis
    using new that[of r] by (simp add: eq l)
qed

text \<open>Placing a hold keeps every amount where it is.  A fresh hold turns the key's active fence into
  a held one and changes nothing else of any key or reservation; it appends one ledger row for the
  reservation, without an outcome and without an actual cost, that the hold service recognises as an
  unresolved hold.\<close>

theorem hold_keeps_balance:
  assumes "place clock uid aid h db = Inr (db', proj)" and "wf_quota db"
    and "get_gateway_key_by_id (hi_gateway_key_id h) db = Some k" and "gk_fence_state k = FenceActive"
  shows "db_keys db' = put_row gk_id (k\<lparr>gk_fence_state := FenceHeld\<rparr>) (db_keys db)
    \<and> db_reservations db' = db_reservations db
    \<and> (\<exists>r l. get_reservation_by_id (hi_reservation_id h) db = Some r \<and> qr_status r = Pending
        \<and> gk_fence_reservation_id k = Some (qr_id r)
        \<and> db_ledger db' = db_ledger db @ [l] \<and> ul_quota_reservation_id l = Some (qr_id r)
        \<and> ul_success l = None \<and> ul_actual_cost_eur l = None \<and> exact_hold_metadata l \<noteq> None
        \<and> ul_accounting_status l \<in> {LEstimated, LInterrupted})"
  using assms
proof (cases rule: place_post)
  case (1 r)
  have "exact_hold_metadata (stored_ledger (hold_row clock uid h r k)) \<noteq> None"
    using exact_hold_metadata_safe[of "stored_ledger (hold_row clock uid h r k)" _ _ "aware (hi_now h)"] by auto
  moreover have "hold_status h \<in> {LEstimated, LInterrupted}" by (simp add: hold_status_def)
  moreover have "qr_status r = Pending" "gk_fence_reservation_id k = Some (qr_id r)"
    using 1(2) by (auto simp: validate_reservation_and_fence_def)
  ultimately show ?thesis using 1(1,7,8,9) by auto
qed

text \<open>A placed hold is recognised again.  The same request placed a second time (with any clock and
  any fresh identifiers) changes nothing and returns the same projection, provided the estimated
  cost has at most nine decimal places, as the column stores it.\<close>

theorem hold_retry:
  assumes "place clock uid aid h db = Inr (db', proj)" and "wf_quota db"
    and "get_gateway_key_by_id (hi_gateway_key_id h) db = Some k" and "gk_fence_state k = FenceActive"
    and "map_option pg9 (hi_estimated_cost_eur h) = hi_estimated_cost_eur h"
  shows "place clock2 uid2 aid2 h db' = Inr (db', proj)"
  using assms(1-4)
proof (cases rule: place_post)
  case (1 r)
  let ?k = "k\<lparr>gk_fence_state := FenceHeld\<rparr>" and ?l = "hold_row clock uid h r k"
  have f: "qr_status r = Pending" "qr_quota_mode r = ExternalToolFenced" "gk_fence_reservation_id k = Some (qr_id r)"
    "gk_fence_request_id k = Some (qr_request_id r)" "qr_gateway_key_id r = hi_gateway_key_id h"
    and route: "qr_ext_provider r \<noteq> None" "qr_ext_route_id r \<noteq> None"
    using 1(2) by (auto simp: validate_reservation_and_fence_def)
  have id: "gk_id k = hi_gateway_key_id h" "qr_id r = hi_reservation_id h"
    using get_key_in[OF assms(3)] get_reservation_in[OF 1(1)] by auto
  have l: "stored_ledger ?l = ?l" using assms(5) by (simp add: stored_ledger_def hold_row_def new_usage_record_def)
  have k': "get_gateway_key_by_id (hi_gateway_key_id h) db' = Some ?k"
    by (rule get_key_put[OF assms(3) 1(9)]) simp
  have r': "get_reservation_by_id (hi_reservation_id h) db' = Some r"
    using 1(1,8) by (simp add: get_reservation_by_id_def)
  have ls: "get_usage_records_by_reservation_id (qr_id r) db' = [?l]"
    using 1(3,7) by (simp add: get_usage_records_by_reservation_id_def l)
  have chk: "qr_quota_mode r = ExternalToolFenced \<Longrightarrow> fenced_facts r"
    using wf_quota_reservation_ok[OF assms(2) 1(1)] by (simp add: reservation_ok_def reservation_checks_def)
  then have prov: "Some (ul_provider ?l) = qr_ext_provider r"
    using f(2) by (auto simp: fenced_facts_def hold_row_def new_usage_record_def only_spaces_def split: option.splits)
  obtain hold where hold: "exact_hold_metadata ?l = Some hold" "dget hold ''reason_code'' = PStr (hold_reason_str (hi_reason_code h))"
    "dget hold ''evidence_quality'' = PStr (hold_quality_str (hi_evidence_quality h))"
    using exact_hold_metadata_safe[of ?l _ _ "aware (hi_now h)"] by auto
  have v: "validate_locked_candidate ?l r ?k = Inr ()"
    using f route prov 1(4-6) hold(1) by (auto simp: validate_locked_candidate_def hold_status_def)
  have m: "ledger_matches_hold ?l h" using hold by (simp add: ledger_matches_hold_def)
  have i: "validate_input h = Inr ()" "validate_partial_facts (hi_partial_total_tokens h) (hi_estimated_cost_eur h) = Inr ()"
    using assms(1) by (auto simp: place_def)
  show ?thesis
    unfolding place_def i sbind_Inr r' k' the_or_raise_Some Let_def ls using v m 1(10) by simp
qed

section \<open>Settling a hold\<close>

definition settled_hold_key :: "hold_request \<Rightarrow> pydatetime \<Rightarrow> quota_reservation \<Rightarrow> gateway_key \<Rightarrow> gateway_key" where
  "settled_hold_key q now r k =
     (let k1 = reserved_minus k (qr_reserved_cost_eur r) (qr_reserved_tokens r) (qr_reserved_requests r)
      in case hr_action q of
           FinalizeActual \<Rightarrow> used_plus k1 (the (hr_actual_cost_eur q)) (the (hr_actual_total_tokens q)) 1 now
         | ReleaseNoCharge \<Rightarrow> k1)"

definition settled_status :: "hold_request \<Rightarrow> reservation_status" where
  "settled_status q = (case hr_action q of FinalizeActual \<Rightarrow> Finalized | ReleaseNoCharge \<Rightarrow> Released)"

lemma settle_hold_post:
  assumes "settle_hold q now l r k db = Inr (db1, r2, l2)" and wf: "wf_quota db"
    and r: "get_reservation_by_id (qr_id r) db = Some r" "qr_status r = Pending"
    and k: "get_gateway_key_by_id (qr_gateway_key_id r) db = Some k"
  shows "quota_steps e db db1" "db_keys db1 = put_row gk_id (stored_key (settled_hold_key q now r k)) (db_keys db)"
    "db_reservations db1 = put_row qr_id r2 (db_reservations db)"
    "qr_id r2 = qr_id r" "qr_status r2 = settled_status q" "qr_request_id r2 = qr_request_id r"
    "db_ledger db1 = put_row ul_id (stored_ledger l2) (db_ledger db)"
    "ul_id l2 = ul_id l"
proof -
  note ok = wf_quota_reservation_ok[OF wf r(1)]
  have "quota_steps e db db1 \<and> db_keys db1 = put_row gk_id (stored_key (settled_hold_key q now r k)) (db_keys db)
    \<and> db_reservations db1 = put_row qr_id r2 (db_reservations db)
    \<and> qr_id r2 = qr_id r \<and> qr_status r2 = settled_status q \<and> qr_request_id r2 = qr_request_id r
    \<and> db_ledger db1 = put_row ul_id (stored_ledger l2) (db_ledger db) \<and> ul_id l2 = ul_id l"
  proof (cases "hr_action q")
    case FinalizeActual
    from assms(1) obtain dba ka dbb where
      f: "finalize_reserved_counters k (qr_reserved_cost_eur r) (qr_reserved_tokens r) (qr_reserved_requests r)
           (the (hr_actual_cost_eur q)) (the (hr_actual_total_tokens q)) 1 now db = Inr (dba, ka)"
      and m: "mark_pending_reservation_finalized r now dba = Inr (dbb, r2)"
      and u: "flush_ledger l2 dbb = Inr db1" "ul_id l2 = ul_id l"
      unfolding settle_hold_def FinalizeActual Let_def
      by (auto simp: update_external_tool_hold_ledger_def flushed_ledger_def)
    have "quota_step e db dbb"
      by (rule finalize_is_step[OF r(1,2) k f m[unfolded mark_flushed]]) simp
    moreover have "same_quota dbb db1" using u(1) by (auto simp: flush_simps same_quota_def)
    ultimately have "quota_steps e db db1" by (meson quota_step.Idle r_into_rtranclp rtranclp.rtrancl_into_rtrancl)
    then show ?thesis
      using f m u mark_closed(2)[OF ok, of now dba] FinalizeActual
      by (auto simp: finalize_reserved_counters_def flush_simps settled_hold_key_def settled_status_def Let_def)
  next
    case ReleaseNoCharge
    from assms(1) obtain dba ka dbb where
      f: "subtract_reserved_counters k (qr_reserved_cost_eur r) (qr_reserved_tokens r) (qr_reserved_requests r) db = Inr (dba, ka)"
      and m: "mark_pending_reservation_released r now dba = Inr (dbb, r2)"
      and u: "flush_ledger l2 dbb = Inr db1" "ul_id l2 = ul_id l"
      unfolding settle_hold_def ReleaseNoCharge Let_def
      by (auto simp: update_external_tool_hold_ledger_def flushed_ledger_def)
    have "quota_step e db dbb"
      by (rule release_is_step[OF r(1,2) k f m[unfolded mark_flushed]]) simp
    moreover have "same_quota dbb db1" using u(1) by (auto simp: flush_simps same_quota_def)
    ultimately have "quota_steps e db db1" by (meson quota_step.Idle r_into_rtranclp rtranclp.rtrancl_into_rtrancl)
    then show ?thesis
      using f m u mark_closed(1)[OF ok, of now dba] ReleaseNoCharge
      by (auto simp: subtract_reserved_counters_def flush_simps settled_hold_key_def settled_status_def Let_def)
  qed
  then show "quota_steps e db db1" "db_keys db1 = put_row gk_id (stored_key (settled_hold_key q now r k)) (db_keys db)"
    "db_reservations db1 = put_row qr_id r2 (db_reservations db)"
    "qr_id r2 = qr_id r" "qr_status r2 = settled_status q" "qr_request_id r2 = qr_request_id r"
    "db_ledger db1 = put_row ul_id (stored_ledger l2) (db_ledger db)" "ul_id l2 = ul_id l" by blast+
qed

lemma reconcile_locked_elim:
  assumes "reconcile_locked clock aid aid2 q l r k db = Inr (db', res)"
  obtains (repeated) "db' = db" "hs_idempotent res"
  | (settled) db1 r2 l2 db2 fres where
      "validate_locked_candidate l r k = Inr ()" "settle_hold q (aware clock) l r k db = Inr (db1, r2, l2)"
      "same_quota db1 db2" "db_ledger db2 = db_ledger db1"
      "resolve aid2 \<lparr>fi_gateway_key_id = gk_id k, fi_request_id = qr_request_id r\<rparr> True db2 db2 = Inr (db', fres)"
      "\<not> hs_idempotent res"
proof (cases "qr_status r \<in> {Finalized, Released} \<and> gk_fence_state k = FenceNone")
  case True
  with assms have "db' = db" "hs_idempotent res"
    by (auto simp: reconcile_locked_def reconciliation_result_def split: if_splits)
  then show ?thesis by (rule repeated)
next
  case False
  have led: "add_audit_log a b c d e f g hh i x = Inr (y, w) \<Longrightarrow> db_ledger y = db_ledger x" for a b c d e f g hh i x y w
    by (auto simp: add_audit_log_def Let_def)
  from assms False obtain db1 r2 l2 x1 x2 x3 x4 x5 x6 x7 x8 db2 row fres where
    "validate_locked_candidate l r k = Inr ()" "settle_hold q (aware clock) l r k db = Inr (db1, r2, l2)"
    and a: "add_audit_log aid x1 x2 x3 x4 x5 x6 x7 x8 db1 = Inr (db2, row)"
    and "resolve aid2 \<lparr>fi_gateway_key_id = gk_id k, fi_request_id = qr_request_id r\<rparr> True db2 db2 = Inr (db', fres)"
    "\<not> hs_idempotent res"
    unfolding reconcile_locked_def by (auto simp: Let_def reconciliation_result_def)
  with add_audit_log_same[OF a] led[OF a] show ?thesis by (intro settled) auto
qed

lemma reconcile_elim:
  assumes "reconcile clock aid aid2 q db0 db = Inr (db', res)"
  obtains (dry) "db' = db" "\<not> hr_execute q"
  | (locked) l r k where "hr_execute q" "validate_reconciliation_input q = Inr ()"
      "get_reservation_by_id (hr_reservation_id q) db = Some r" "get_gateway_key_by_id (qr_gateway_key_id r) db = Some k"
      "reconcile_locked clock aid aid2 q l r k db = Inr (db', res)"
proof (cases "hr_execute q")
  case False
  with assms have "db' = db" unfolding reconcile_def by auto
  then show ?thesis using False by (rule dry)
next
  case True
  with assms show ?thesis unfolding reconcile_def by (auto intro: locked)
qed

lemma resolve_held:
  assumes "resolve aid i True db db = Inr (db', res)" "get_gateway_key_by_id (fi_gateway_key_id i) db = Some k"
    "gk_fence_state k = FenceHeld" "gk_fence_request_id k = Some (fi_request_id i)"
  shows "fv_resolved res"
  using assms unfolding resolve_def resolve_locked_def by (auto split: if_splits)

lemma reconcile_is_steps:
  assumes "reconcile clock aid aid2 q db0 db = Inr (db', res)" and wf: "wf_quota db"
  shows "quota_steps e db db'"
  using assms(1)
proof (cases rule: reconcile_elim)
  case dry
  then show ?thesis by simp
next
  case (locked l r k)
  from locked(5) show ?thesis
  proof (cases rule: reconcile_locked_elim)
    case repeated
    then show ?thesis by simp
  next
    case (settled db1 r2 l2 db2 fres)
    have p: "qr_status r = Pending" using settled(1) by (auto simp: validate_locked_candidate_def)
    have r: "get_reservation_by_id (qr_id r) db = Some r" using locked(3) get_reservation_in[OF locked(3)] by simp
    have "quota_steps e db db1" using settle_hold_post(1)[OF settled(2) wf r p locked(4)] .
    moreover have "quota_step e db1 db2" using settled(3) by (rule quota_step.Idle)
    moreover have "quota_steps e db2 db'" using settled(5) by (rule resolve_is_steps)
    ultimately show ?thesis by (meson r_into_rtranclp rtranclp_trans)
  qed
qed

text \<open>C7: An operator's reconciliation settles the hold exactly as stated.  When an executed
  reconciliation succeeds (and is not a repetition), the key was held with its whole reservation
  still reserved; afterwards the fence is gone, every reserved counter of the key is zero, and
  either the stated cost and tokens and one request were added to the used counters and the
  reservation is finalized, or nothing was charged and the reservation is released.\<close>

theorem hold_reconciliation_exact:
  assumes "reconcile clock aid aid2 q db0 db = Inr (db', res)" and "wf_quota db"
    and "hr_execute q" and "\<not> hs_idempotent res"
  shows "\<exists>r r' k k'. get_reservation_by_id (hr_reservation_id q) db = Some r \<and> qr_status r = Pending
    \<and> get_gateway_key_by_id (qr_gateway_key_id r) db = Some k \<and> gk_fence_state k = FenceHeld
    \<and> gk_cost_reserved_eur k = qr_reserved_cost_eur r \<and> gk_tokens_reserved_total k = qr_reserved_tokens r
    \<and> get_gateway_key_by_id (qr_gateway_key_id r) db' = Some k' \<and> gk_fence_state k' = FenceNone
    \<and> gk_cost_reserved_eur k' = 0 \<and> gk_tokens_reserved_total k' = 0 \<and> gk_requests_reserved_total k' = 0
    \<and> get_reservation_by_id (hr_reservation_id q) db' = Some r'
    \<and> (case hr_action q of
         FinalizeActual \<Rightarrow> qr_status r' = Finalized
           \<and> gk_tokens_used_total k' = gk_tokens_used_total k + the (hr_actual_total_tokens q)
           \<and> gk_requests_used_total k' = gk_requests_used_total k + 1
           \<and> gk_cost_used_eur k' = pg9 (dec_add (gk_cost_used_eur k) (the (hr_actual_cost_eur q)))
       | ReleaseNoCharge \<Rightarrow> qr_status r' = Released
           \<and> gk_tokens_used_total k' = gk_tokens_used_total k
           \<and> gk_requests_used_total k' = gk_requests_used_total k
           \<and> gk_cost_used_eur k' = gk_cost_used_eur k)"
  using assms(1)
proof (cases rule: reconcile_elim)
  case dry
  with assms(3) show ?thesis by simp
next
  case (locked l r k)
  from locked(5) show ?thesis
  proof (cases rule: reconcile_locked_elim)
    case repeated
    with assms(4) show ?thesis by simp
  next
    case (settled db1 r2 l2 db2 fres)
    let ?i = "\<lparr>fi_gateway_key_id = gk_id k, fi_request_id = qr_request_id r\<rparr>"
    let ?s = "settled_hold_key q (aware clock) r k"
    have v: "qr_status r = Pending" "gk_fence_state k = FenceHeld" "gk_fence_request_id k = Some (qr_request_id r)"
      "gk_cost_reserved_eur k = qr_reserved_cost_eur r" "gk_tokens_reserved_total k = qr_reserved_tokens r"
      using settled(1) by (auto simp: validate_locked_candidate_def)
    have r: "get_reservation_by_id (qr_id r) db = Some r" "qr_id r = hr_reservation_id q"
      using locked(3) get_reservation_in[OF locked(3)] by auto
    have kid: "gk_id k = qr_gateway_key_id r" using get_key_in[OF locked(4)] by simp
    note s = settle_hold_post[OF settled(2) assms(2) r(1) v(1) locked(4)]
    have s_sel: "gk_id ?s = gk_id k" "gk_fence_state ?s = FenceHeld" "gk_fence_request_id ?s = Some (qr_request_id r)"
      using v by (auto simp: settled_hold_key_def Let_def row_mutations split: hold_action.splits)
    have keys2: "db_keys db2 = put_row gk_id (stored_key ?s) (db_keys db)"
      and rs2: "db_reservations db2 = put_row qr_id r2 (db_reservations db)"
      using s(2,3) settled(3) by (simp_all add: same_quota_def)
    have k2: "get_gateway_key_by_id (qr_gateway_key_id r) db2 = Some (stored_key ?s)"
      by (rule get_key_put[OF locked(4) keys2]) (simp add: s_sel)
    have res: "fv_resolved fres"
      by (rule resolve_held[OF settled(5), of "stored_key ?s"]) (use k2 kid s_sel in simp_all)
    from settled(5) show ?thesis
    proof (cases rule: resolve_elim)
      case unchanged
      with res show ?thesis by simp
    next
      case (cleared k3 r3 rid)
      have k3: "k3 = stored_key ?s" using cleared(1) k2 kid by simp
      let ?k' = "stored_key (fence_set k3 FenceNone None None None None)"
      have zero: "gk_cost_reserved_eur k3 = 0" "gk_tokens_reserved_total k3 = 0" "gk_requests_reserved_total k3 = 0"
        using cleared(7) by (auto elim: evidence_Inr)
      have k': "get_gateway_key_by_id (qr_gateway_key_id r) db' = Some ?k'"
        by (rule get_key_put[OF k2 cleared(10)]) (simp add: k3)
      have sel: "gk_fence_state ?k' = FenceNone" "gk_cost_reserved_eur ?k' = 0" "gk_tokens_reserved_total ?k' = 0"
        "gk_requests_reserved_total ?k' = 0" "gk_tokens_used_total ?k' = gk_tokens_used_total ?s"
        "gk_requests_used_total ?k' = gk_requests_used_total ?s" "gk_cost_used_eur ?k' = pg9 (gk_cost_used_eur ?s)"
        using zero by (simp_all add: fence_set_def) (simp_all add: k3)
      have r': "get_reservation_by_id (hr_reservation_id q) db' = Some r2"
        using r s(4) get_put_row_found[of qr_id "qr_id r" "db_reservations db" r r2]
        by (simp add: get_reservation_by_id_def cleared(11) rs2)
      have u: "pg9 (gk_cost_used_eur k) = gk_cost_used_eur k"
        using key_okD(2)[OF wf_quota_key_ok[OF assms(2) locked(4)]] by (rule pg9_nine_places)
      have "case hr_action q of
         FinalizeActual \<Rightarrow> qr_status r2 = Finalized
           \<and> gk_tokens_used_total ?k' = gk_tokens_used_total k + the (hr_actual_total_tokens q)
           \<and> gk_requests_used_total ?k' = gk_requests_used_total k + 1
           \<and> gk_cost_used_eur ?k' = pg9 (dec_add (gk_cost_used_eur k) (the (hr_actual_cost_eur q)))
       | ReleaseNoCharge \<Rightarrow> qr_status r2 = Released
           \<and> gk_tokens_used_total ?k' = gk_tokens_used_total k
           \<and> gk_requests_used_total ?k' = gk_requests_used_total k
           \<and> gk_cost_used_eur ?k' = gk_cost_used_eur k"
        unfolding sel s(5) by (simp add: settled_status_def settled_hold_key_def Let_def row_mutations u split: hold_action.split)
      then show ?thesis using locked(3,4) v k' sel(1-4) r' by blast
    qed
  qed
qed

lemma hold_dry_run:
  assumes "reconcile clock aid aid2 q db0 db = Inr (db', res)" and "\<not> hr_execute q"
  shows "db' = db \<and> \<not> hs_executed res"
  using assms by (auto simp: reconcile_def reconciliation_result_def)

section \<open>A hold can always be released\<close>

lemma filter_put_row:
  "(\<forall>q \<in> set t. idf q = idf r \<longrightarrow> P q = P r) \<Longrightarrow> filter P (put_row idf r t) = put_row idf r (filter P t)"
  by (induction t) auto

lemma released_hold_key:
  assumes "key_ok k" "reservation_ok r" "gk_cost_reserved_eur k = qr_reserved_cost_eur r"
    "gk_tokens_reserved_total k = qr_reserved_tokens r" "gk_requests_reserved_total k = qr_reserved_requests r"
  shows "reserved_minus k (qr_reserved_cost_eur r) (qr_reserved_tokens r) (qr_reserved_requests r)
       = k\<lparr>gk_cost_reserved_eur := 0, gk_tokens_reserved_total := 0, gk_requests_reserved_total := 0\<rparr>" (is "_ = ?k")
    and "key_ok (k\<lparr>gk_cost_reserved_eur := 0, gk_tokens_reserved_total := 0, gk_requests_reserved_total := 0\<rparr>)"
proof -
  have "dec_sub (gk_cost_reserved_eur k) (qr_reserved_cost_eur r) = 0"
    using dec_sub_column[OF key_okD(5)[OF assms(1)] reservation_okD(3)[OF assms(2)]] assms(3) by simp
  then show "reserved_minus k (qr_reserved_cost_eur r) (qr_reserved_tokens r) (qr_reserved_requests r) = ?k"
    using assms(3-5) by (simp add: reserved_minus_def)
  have u: "pg9 (gk_cost_used_eur k) = gk_cost_used_eur k" using key_okD(2)[OF assms(1)] by (rule pg9_nine_places)
  have lim: "map_option pg9 (gk_cost_limit_eur k) = gk_cost_limit_eur k"
    using assms(1) key_ok_limit[OF assms(1)] by (cases "gk_cost_limit_eur k") (simp_all add: pg9_nine_places)
  have "stored_key ?k = ?k" using u lim by (simp add: stored_key_def)
  moreover have "gateway_key_fits ?k"
    using assms(1) by (simp add: key_ok_def gateway_key_fits_def fits_numeric_def fits_bigint_def)
  moreover have "gateway_key_checks ?k"
    using assms(1) by (simp add: key_ok_def gateway_key_checks_def fence_fields_null_def fence_fields_set_def)
  ultimately show "key_ok ?k" by (simp add: key_ok_def)
qed

lemma audit_fresh:
  "aid \<notin> al_id ` set (db_audit db) \<Longrightarrow>
     \<exists>row. al_id row = aid \<and> add_audit_log aid a b c d e f g h db = Inr (db\<lparr>db_audit := db_audit db @ [row]\<rparr>, row)"
  by (auto simp: add_audit_log_def Let_def list_ex_iff)

lemma settle_release_run:
  fixes now :: pydatetime and db q r k l rid kid
  assumes wf: "wf_quota db" and act: "hr_action q = ReleaseNoCharge"
    and r: "get_reservation_by_id rid db = Some r" and k: "get_gateway_key_by_id kid db = Some k"
    and l: "ledger_ok l" and c: "validate_locked_candidate l r k = Inr ()" and ref: "fence_reference_ok k db"
  defines "k1 \<equiv> k\<lparr>gk_cost_reserved_eur := 0, gk_tokens_reserved_total := 0, gk_requests_reserved_total := 0\<rparr>"
    and "r1 \<equiv> r\<lparr>qr_status := Released, qr_released_at := Some now\<rparr>"
    and "l1 \<equiv> l\<lparr>ul_accounting_status := LFailed, ul_success := Some False, ul_actual_cost_eur := Some 0, ul_total_tokens := 0,
        ul_response_metadata := sanitize_metadata_mapping True None (Some (terminal_metadata l q 0 0 False False False True)),
        ul_finished_at := Some now\<rparr>"
  shows "settle_hold q now l r k db = Inr (db\<lparr>db_keys := put_row gk_id k1 (db_keys db),
       db_reservations := put_row qr_id r1 (db_reservations db), db_ledger := put_row ul_id l1 (db_ledger db)\<rparr>, r1, l1)"
proof -
  have v: "gk_cost_reserved_eur k = qr_reserved_cost_eur r" "gk_tokens_reserved_total k = qr_reserved_tokens r"
    "gk_requests_reserved_total k = qr_reserved_requests r"
    using c by (auto simp: validate_locked_candidate_def)
  note ok = wf_quota_key_ok[OF wf k] wf_quota_reservation_ok[OF wf r]
  note k1 = released_hold_key[OF ok v, folded k1_def]
  have "fence_reference_ok k1 db" using ref by (simp add: fence_reference_ok_def k1_def split: option.splits)
  then have "flushed_key k1 db = Inr (db\<lparr>db_keys := put_row gk_id k1 (db_keys db)\<rparr>, k1)" by (rule flushed_key_ok[OF k1(2)])
  then have s: "subtract_reserved_counters k (qr_reserved_cost_eur r) (qr_reserved_tokens r) (qr_reserved_requests r) db
      = Inr (db\<lparr>db_keys := put_row gk_id k1 (db_keys db)\<rparr>, k1)"
    using v by (simp add: subtract_reserved_counters_def ensure_reserved_counters_can_decrement_def k1(1))
  have st: "stored_ledger l1 = l1"
  proof -
    have "ul_estimated_cost_eur (stored_ledger l) = ul_estimated_cost_eur l" "ul_actual_cost_native (stored_ledger l) = ul_actual_cost_native l"
      using l by (simp_all add: ledger_ok_def)
    then show ?thesis by (simp add: stored_ledger_def l1_def)
  qed
  moreover have "ledger_fits l1"
    using l by (simp add: l1_def ledger_ok_def ledger_fits_def opt_all_def fits_numeric_def fits_bigint_def)
  moreover have "ledger_checks l1" using l by (simp add: l1_def ledger_ok_def ledger_checks_def opt_all_def)
  ultimately have u: "flush_ledger l1 d = Inr (d\<lparr>db_ledger := put_row ul_id l1 (db_ledger d)\<rparr>)" for d
    by (simp add: flush_ledger_def)
  show ?thesis
    unfolding settle_hold_def act hold_action.case s sbind_Inr prod.case mark_closed(1)[OF ok(2)]
    using u by (simp add: update_external_tool_hold_ledger_def flushed_ledger_def l1_def r1_def)
qed

lemma release_hold_run:
  assumes wf: "wf_quota db" and led: "distinct (map ul_id (db_ledger db))"
    and q: "validate_reconciliation_input q = Inr ()" "hr_execute q" "hr_action q = ReleaseNoCharge"
    and r: "get_reservation_by_id (hr_reservation_id q) db = Some r"
    and k: "get_gateway_key_by_id (qr_gateway_key_id r) db = Some k"
    and l: "get_usage_records_by_reservation_id (qr_id r) db = [l]" "ledger_ok l"
    and c: "validate_locked_candidate l r k = Inr ()" and route: "validate_bound_route_facts r = Inr ()"
    and ref: "fence_reference_ok k db"
    and fresh: "aid \<notin> al_id ` set (db_audit db)" "aid2 \<notin> al_id ` set (db_audit db)" "aid \<noteq> aid2"
  shows "\<exists>db' res. reconcile clock aid aid2 q db db = Inr (db', res) \<and> \<not> hs_idempotent res \<and> hs_fence_state res = FenceNone"
proof -
  have v: "gk_fence_state k = FenceHeld" "qr_status r = Pending" "qr_quota_mode r = ExternalToolFenced"
    "ul_quota_reservation_id l = Some (qr_id r)" "ul_gateway_key_id l = gk_id k"
    "gk_fence_reservation_id k = Some (qr_id r)" "gk_fence_request_id k = Some (qr_request_id r)"
    "ul_request_id l = qr_request_id r" "ul_endpoint l = qr_endpoint r" "Some (ul_provider l) = qr_ext_provider r"
    "ul_requested_model l = qr_requested_model r"
    "gk_cost_reserved_eur k = qr_reserved_cost_eur r" "gk_tokens_reserved_total k = qr_reserved_tokens r"
    "gk_requests_reserved_total k = qr_reserved_requests r"
    using c by (auto simp: validate_locked_candidate_def)
  have id: "qr_id r = hr_reservation_id q" "gk_id k = qr_gateway_key_id r"
    using get_reservation_in[OF r] get_key_in[OF k] by auto
  have lin: "l \<in> set (db_ledger db)"
    using l(1) by (metis get_usage_records_by_reservation_id_def filter_is_subset list.set_intros(1) subset_code(1))
  have lget: "get_usage_record_by_id (ul_id l) db = Some l"
    unfolding get_usage_record_by_id_def by (rule distinct_get_row[OF led lin])
  define now where "now = aware clock"
  define k1 where "k1 = k\<lparr>gk_cost_reserved_eur := 0, gk_tokens_reserved_total := 0, gk_requests_reserved_total := 0\<rparr>"
  define r1 where "r1 = r\<lparr>qr_status := Released, qr_released_at := Some now\<rparr>"
  define l1 where "l1 = l\<lparr>ul_accounting_status := LFailed, ul_success := Some False, ul_actual_cost_eur := Some 0, ul_total_tokens := 0,
        ul_response_metadata := sanitize_metadata_mapping True None (Some (terminal_metadata l q 0 0 False False False True)),
        ul_finished_at := Some now\<rparr>"
  define db1 where "db1 = db\<lparr>db_keys := put_row gk_id k1 (db_keys db),
       db_reservations := put_row qr_id r1 (db_reservations db), db_ledger := put_row ul_id l1 (db_ledger db)\<rparr>"
  have settle: "settle_hold q now l r k db = Inr (db1, r1, l1)"
    unfolding db1_def k1_def r1_def l1_def by (rule settle_release_run[OF wf q(3) r k l(2) c ref])
  let ?n = "Some (case hr_reason q of Some s \<Rightarrow> py_strip s | None \<Rightarrow> [])"
  have "aid \<notin> al_id ` set (db_audit db1)" using fresh(1) by (simp add: db1_def)
  from audit_fresh[OF this] obtain row where row: "al_id row = aid"
    and au: "add_audit_log aid ''external_tool_accounting_hold_reconciled'' ''gateway_key'' (hr_actor_admin_id q)
        (Some (gk_id k)) (Some [(''fence_state'', PStr ''held''), (''reservation_status'', PStr ''pending'')])
        (Some [(''action'', PStr (hold_action_str (hr_action q))),
               (''reservation_status'', PStr (reservation_status_str (qr_status r1))),
               (''accounting_status'', PStr (accounting_status_str (ul_accounting_status l1))),
               (''actual_cost_eur'', pydecstr (ul_actual_cost_eur l1)),
               (''actual_total_tokens'', PInt (ul_total_tokens l1)),
               (''success'', (case ul_success l1 of Some b \<Rightarrow> PBool b | None \<Rightarrow> PNone))])
        (Some (qr_request_id r)) ?n db1 = Inr (db1\<lparr>db_audit := db_audit db1 @ [row]\<rparr>, row)"
    by blast
  define db2 where "db2 = db1\<lparr>db_audit := db_audit db1 @ [row]\<rparr>"
  have k2: "get_gateway_key_by_id (gk_id k) db2 = Some k1"
    by (rule get_key_put[OF k[folded id(2)]]) (simp_all add: db2_def db1_def k1_def)
  have r2: "get_reservation_by_id (qr_id r) db2 = Some r1"
    using r id get_put_row_found[of qr_id "qr_id r" "db_reservations db" r r1]
    by (simp add: get_reservation_by_id_def db2_def db1_def r1_def)
  have l2: "get_usage_records_by_reservation_id (qr_id r) db2 = [l1]"
  proof -
    have "\<forall>x \<in> set (db_ledger db). ul_id x = ul_id l1 \<longrightarrow> (ul_quota_reservation_id x = Some (qr_id r)) = (ul_quota_reservation_id l1 = Some (qr_id r))"
      using distinct_row_eq[OF led _ lin] by (auto simp: l1_def)
    then have "get_usage_records_by_reservation_id (qr_id r) db2 = put_row ul_id l1 (get_usage_records_by_reservation_id (qr_id r) db)"
      by (simp add: get_usage_records_by_reservation_id_def db2_def db1_def filter_put_row)
    then show ?thesis by (simp add: l(1) l1_def)
  qed
  let ?i = "\<lparr>fi_gateway_key_id = gk_id k, fi_request_id = qr_request_id r\<rparr>"
  have ev: "resolution_evidence ?i k1 r1 db2 = Inr ()"
  proof -
    have "qr_ext_provider r1 = qr_ext_provider r" "qr_requested_model r1 = qr_requested_model r"
      "qr_ext_route_id r1 = qr_ext_route_id r" by (simp_all add: r1_def)
    then have "validate_bound_route_facts r1 = Inr ()" using route by (simp only: validate_bound_route_facts_def)
    moreover have "qr_id r1 = qr_id r" by (simp add: r1_def)
    ultimately show ?thesis
      using v l2 id unfolding resolution_evidence_def
      by (simp add: r1_def[symmetric]) (simp add: verify_reserved_counters_zero_def r1_def k1_def l1_def)
  qed
  have ok: "key_ok k1"
    unfolding k1_def by (rule released_hold_key(2)[OF wf_quota_key_ok[OF wf k] wf_quota_reservation_ok[OF wf r] v(12-14)])
  let ?k2 = "fence_set k1 FenceNone None None None None"
  have fl: "set_external_tool_fence k1 FenceNone None None None None db2 = Inr (db2\<lparr>db_keys := put_row gk_id ?k2 (db_keys db2)\<rparr>, ?k2)"
    unfolding set_external_tool_fence_def using key_ok_cleared[OF ok]
    by (rule flushed_key_ok) (simp add: fence_reference_ok_def fence_set_def)
  define db3 where "db3 = db2\<lparr>db_keys := put_row gk_id ?k2 (db_keys db2)\<rparr>"
  have "aid2 \<notin> al_id ` set (db_audit db3)" using fresh(2,3) row by (simp add: db3_def db2_def db1_def)
  from audit_fresh[OF this] obtain row2 where
    au2: "add_audit_log aid2 ''external_tool_fence_resolved'' ''gateway_key'' None (Some (gk_id k1)) None None
                 (Some (qr_request_id r))
                 (Some ''external tool fence resolved from authoritative terminal evidence'') db3
        = Inr (db3\<lparr>db_audit := db_audit db3 @ [row2]\<rparr>, row2)" by blast
  have f1: "gk_fence_state k1 = FenceHeld" "gk_fence_reservation_id k1 = Some (qr_id r)" "gk_fence_request_id k1 = Some (qr_request_id r)"
    using v by (simp_all add: k1_def)
  define db4 where "db4 = db3\<lparr>db_audit := db_audit db3 @ [row2]\<rparr>"
  have res: "\<exists>x. resolve aid2 ?i True db2 db2 = Inr (db4, x)"
    unfolding resolve_def resolve_locked_def using k2 r2 f1 ev fl au2 by (simp add: db3_def db4_def)
  have k4: "get_gateway_key_by_id (gk_id k) db4 = Some ?k2"
    by (rule get_key_put[OF k2]) (simp_all add: db4_def db3_def)
  have "reconcile_locked clock aid aid2 q l r k db = Inr (db4, reconciliation_result q l1 r1 ?k2 False)"
    unfolding reconcile_locked_def Let_def using v(2) c settle au res k4
    by (auto simp: now_def[symmetric] db2_def[symmetric])
  then have "reconcile clock aid aid2 q db db = Inr (db4, reconciliation_result q l1 r1 ?k2 False)"
    unfolding reconcile_def ledger_id_for_reservation_def using q r k l(1) lget id by simp
  then show ?thesis by (simp add: reconciliation_result_def fence_set_def)
qed

text \<open>C20: A hold is never stuck.  On a consistent database every hold the service recognises can be
  released without charge by an operator: the reconciliation succeeds and lifts the fence.\<close>

theorem hold_releasable:
  assumes "wf_quota db" and "distinct (map ul_id (db_ledger db))"
    and "validate_reconciliation_input q = Inr ()" and "hr_execute q" and "hr_action q = ReleaseNoCharge"
    and "get_reservation_by_id (hr_reservation_id q) db = Some r"
    and "get_gateway_key_by_id (qr_gateway_key_id r) db = Some k"
    and "get_usage_records_by_reservation_id (qr_id r) db = [l]" and "ledger_ok l"
    and "validate_locked_candidate l r k = Inr ()" and "validate_bound_route_facts r = Inr ()"
    and "fence_reference_ok k db"
    and "aid \<notin> al_id ` set (db_audit db)" and "aid2 \<notin> al_id ` set (db_audit db)" and "aid \<noteq> aid2"
  shows "\<exists>db' res. reconcile clock aid aid2 q db db = Inr (db', res) \<and> hs_fence_state res = FenceNone"
  using release_hold_run[OF assms] by blast

section \<open>Sample runs\<close>

definition sample_active_db :: db where
  "sample_active_db =
     \<lparr>db_keys = [fenced_key sample_fence_key 100 ''req-f'' (Aware 5) (Aware 900000005)],
      db_reservations = [fence_reservation (Aware 5) 100 10 ''req-f'' sample_fence_route [''provider_web_search''] []
        (Aware 900000005) 10 1000],
      db_ledger = [], db_audit = []\<rparr>"

definition sample_hold_input :: hold_input where
  "sample_hold_input =
     \<lparr>hi_gateway_key_id = 10, hi_reservation_id = 100, hi_request_id = ''req-f'', hi_reason_code = MissingFinalCost,
      hi_evidence_quality = EvidenceMissing, hi_streaming = False, hi_now = Aware 7,
      hi_partial_total_tokens = None, hi_estimated_cost_eur = None\<rparr>"

definition sample_active_key :: gateway_key where
  "sample_active_key = fenced_key sample_fence_key 100 ''req-f'' (Aware 5) (Aware 900000005)"

lemma sample_active_wf: "wf_quota sample_active_db"
  by (simp add: wf_quota_def key_ok_def reservation_ok_def sample_active_db_def fenced_key_def sample_remaining,
      simp add: sample_fence_key_def sample_fence_route_def eval_simps)

lemma sample_active_facts:
  "get_gateway_key_by_id (hi_gateway_key_id sample_hold_input) sample_active_db = Some sample_active_key"
  "gk_fence_state sample_active_key = FenceActive"
  by (simp_all add: sample_active_db_def sample_active_key_def fenced_key_def,
      simp_all add: sample_hold_input_def sample_fence_key_def eval_simps)

lemma sample_placed:
  "\<exists>db' proj. place (Aware 7) 300 201 sample_hold_input sample_active_db = Inr (db', proj)"
  unfolding place_def sample_active_db_def fenced_key_def sample_remaining
  by (simp add: sample_hold_input_def sample_fence_key_def sample_fence_route_def validate_input_def
      validate_partial_facts_def validate_reservation_and_fence_def hold_row_def hold_status_def
      eval_simps Let_def del: sbind_eq_Inr)

theorem hold_keeps_balance_witness:
  "\<exists>db' proj. place (Aware 7) 300 201 sample_hold_input sample_active_db = Inr (db', proj)
     \<and> db_reservations db' = db_reservations sample_active_db"
  using sample_placed hold_keeps_balance[OF _ sample_active_wf sample_active_facts] by blast

theorem hold_retry_witness:
  "\<exists>db' proj. place (Aware 7) 300 201 sample_hold_input sample_active_db = Inr (db', proj)
     \<and> place (Aware 8) 301 202 sample_hold_input db' = Inr (db', proj)"
proof -
  have "map_option pg9 (hi_estimated_cost_eur sample_hold_input) = hi_estimated_cost_eur sample_hold_input"
    by (simp add: sample_hold_input_def)
  then show ?thesis using sample_placed hold_retry[OF _ sample_active_wf sample_active_facts] by blast
qed

definition sample_held_key :: gateway_key where
  "sample_held_key = sample_active_key\<lparr>gk_fence_state := FenceHeld\<rparr>"

definition sample_held_reservation :: quota_reservation where
  "sample_held_reservation = fence_reservation (Aware 5) 100 10 ''req-f'' sample_fence_route [''provider_web_search''] []
        (Aware 900000005) 10 1000"

definition sample_held_row :: usage_ledger where
  "sample_held_row = hold_row (Aware 7) 300 sample_hold_input sample_held_reservation sample_active_key"

definition sample_held_db :: db where
  "sample_held_db = \<lparr>db_keys = [sample_held_key], db_reservations = [sample_held_reservation],
     db_ledger = [sample_held_row], db_audit = []\<rparr>"

definition sample_hold_request :: hold_request where
  "sample_hold_request =
     \<lparr>hr_reservation_id = 100, hr_action = ReleaseNoCharge, hr_execute = True, hr_actor_admin_id = Some 50,
      hr_reason = Some ''void'', hr_actual_cost_eur = None, hr_actual_total_tokens = None,
      hr_success = None, hr_confirm_no_charge = True\<rparr>"

lemma sample_held_unfold:
  "sample_held_key = (fence_set (reserved_plus sample_fence_key 10 1000 1) FenceHeld (Some 100) (Some ''req-f'')
     (Some (Aware 5)) (Some (Aware 900000005)))"
  by (simp add: sample_held_key_def sample_active_key_def fenced_key_def sample_remaining fence_set_def)

lemma sample_held_wf: "wf_quota sample_held_db"
  unfolding wf_quota_def key_ok_def reservation_ok_def sample_held_db_def sample_held_unfold sample_held_reservation_def
  by (simp add: sample_fence_key_def sample_fence_route_def eval_simps)

lemma sample_held_candidate: "validate_locked_candidate sample_held_row sample_held_reservation sample_held_key = Inr ()"
proof -
  have "exact_hold_metadata sample_held_row \<noteq> None"
    using exact_hold_metadata_safe[of sample_held_row _ _ "aware (hi_now sample_hold_input)"]
    by (auto simp: sample_held_row_def)
  moreover have "Some (ul_provider sample_held_row) = qr_ext_provider sample_held_reservation"
    by (simp add: sample_held_row_def hold_row_def new_usage_record_def sample_held_reservation_def sample_fence_route_def)
  moreover have "hold_status sample_hold_input = LInterrupted" by (simp add: hold_status_def sample_hold_input_def)
  moreover have "gk_id sample_active_key = 10" "gk_id sample_held_key = 10"
    by (simp_all add: sample_held_unfold) (simp_all add: sample_active_key_def fenced_key_def sample_fence_key_def sample_key_def)
  ultimately show ?thesis
    unfolding validate_locked_candidate_def
    by (simp add: sample_held_row_def)
       (simp add: sample_held_unfold sample_held_reservation_def row_mutations sample_fence_key_def sample_key_def
         sample_fence_route_def eval_simps)
qed

lemma sample_held_run:
  "validate_reconciliation_input sample_hold_request = Inr ()" "hr_execute sample_hold_request"
  "hr_action sample_hold_request = ReleaseNoCharge"
  "get_reservation_by_id (hr_reservation_id sample_hold_request) sample_held_db = Some sample_held_reservation"
  "validate_bound_route_facts sample_held_reservation = Inr ()"
  by code_simp+

lemma sample_held_rows:
  "distinct (map ul_id (db_ledger sample_held_db))"
  "get_gateway_key_by_id (qr_gateway_key_id sample_held_reservation) sample_held_db = Some sample_held_key"
  "get_usage_records_by_reservation_id (qr_id sample_held_reservation) sample_held_db = [sample_held_row]"
  "fence_reference_ok sample_held_key sample_held_db" "ledger_ok sample_held_row"
  by (simp_all add: ledger_ok_def sample_held_db_def sample_held_row_def sample_held_unfold hold_row_def,
      simp_all add: sample_held_reservation_def sample_fence_key_def sample_hold_input_def eval_simps)

lemmas sample_hold_facts = sample_held_wf sample_held_rows(1) sample_held_run(1-4) sample_held_rows(2,3,5)
  sample_held_candidate sample_held_run(5) sample_held_rows(4)

theorem hold_releasable_witness:
  "\<exists>db' res. reconcile (Aware 9) 202 203 sample_hold_request sample_held_db sample_held_db = Inr (db', res)
     \<and> hs_fence_state res = FenceNone"
  by (rule hold_releasable[OF sample_hold_facts]) (simp_all add: sample_held_db_def)

theorem hold_reconciliation_exact_witness:
  "\<exists>db' res k'. reconcile (Aware 9) 202 203 sample_hold_request sample_held_db sample_held_db = Inr (db', res)
     \<and> get_gateway_key_by_id (qr_gateway_key_id sample_held_reservation) db' = Some k' \<and> gk_fence_state k' = FenceNone
     \<and> gk_tokens_reserved_total k' = 0"
proof -
  obtain db' res where run: "reconcile (Aware 9) 202 203 sample_hold_request sample_held_db sample_held_db = Inr (db', res)"
    "\<not> hs_idempotent res"
    using release_hold_run[OF sample_hold_facts, of 202 203 "Aware 9"] by (auto simp: sample_held_db_def)
  from hold_reconciliation_exact[OF run(1) sample_held_wf sample_held_run(2) run(2)] sample_held_run(4)
  show ?thesis using run(1) by (metis option.inject)
qed

end
