(* ===== verification/QuotaSystem.thy ===== *)
theory QuotaSystem
  imports Hold
begin

text \<open>
  The services together.  \<open>service_step e db db'\<close> is one committed transaction of any operation of
  the quota service, the accounting service, the reservation reconciliation, the external-tool
  fence or the hold service, or an operation that raised and was rolled back.  The transactions
  interleave freely, on any keys and with any arguments; row locks make each of them atomic.  The
  flag \<open>e\<close> restricts ordinary reservations to amounts of at most nineteen decimal places (see
  \<open>QuotaMachine\<close>); it is needed for the cost counter only.

  Shown: every step refines the abstract quota machine, hence in every reachable state the rows are
  well-formed, each reserved counter is the sum of its key's pending reservations, and a fence
  excludes every other pending reservation.  The administrative reset of reserved counters is not a
  step: the last theorem shows what it breaks.
\<close>

inductive service_step :: "bool \<Rightarrow> db \<Rightarrow> db \<Rightarrow> bool" for e :: bool where
  Rejected: "service_step e db db"
| ReserveRequest: "\<lbrakk>reserve_for_chat_completion clock rid ak route policy est req ep now db = Inr (db', res);
     e \<longrightarrow> nineteen_places (ce_estimated_total_cost_eur est)\<rbrakk> \<Longrightarrow> service_step e db db'"
| ReleaseReservation: "release_reservation clock rid now db = Inr (db', res1) \<Longrightarrow> service_step e db db'"
| RecordCompleted: "record_provider_completed_before_finalization clock uid rid ak route est response req ep
     streaming started db = Inr (db', pcr) \<Longrightarrow> service_step e db db'"
| MarkFailed: "mark_provider_completed_finalization_failed clock uid rid code msg finished db = Inr (db', frr)
     \<Longrightarrow> service_step e db db'"
| FinalizeResponse: "finalize_successful_response clock uid rid ak route est response req ep streaming started
     finished pc db = Inr (db', far) \<Longrightarrow> service_step e db db'"
| FinalizeCustom: "finalize_successful_custom_response clock uid rid ak route est response req ep usage cost native
     currency src confidence warnings costs counts extra streaming started finished db = Inr (db', far)
     \<Longrightarrow> service_step e db db'"
| ProviderFailure: "record_provider_failure_and_release clock uid rid ak route est req error_type ep error_code
     status_code diagnostic streaming started finished db = Inr (db', pfr) \<Longrightarrow> service_step e db db'"
| Interrupted: "record_streaming_interrupted_estimate clock uid rid ak route est req inp outp tot cost metadata ep
     reason error_type error_message status started finished db = Inr (db', far) \<Longrightarrow> service_step e db db'"
| LiveBurn: "record_streaming_live_burn_interrupted_estimate clock uid rid ak route est req inp outp tot cost
     metadata ep reason started finished db = Inr (db', far) \<Longrightarrow> service_step e db db'"
| ReconcileExpired: "reconcile_expired_pending_reservation clock uid aid rid now dry actor why db = Inr (db', rr)
     \<Longrightarrow> service_step e db db'"
| ReconcileExpiredBatch: "reconcile_expired_pending_reservations clock env now limit dry actor why db = Inr (db', summary)
     \<Longrightarrow> service_step e db db'"
| RecoverCompleted: "reconcile_provider_completed_recovery clock aid lid rid0 dry actor why now db = Inr (db', pr)
     \<Longrightarrow> service_step e db db'"
| RecoverCompletedBatch: "reconcile_provider_completed_recovery_rows env0 limit dry actor why now older db
     = Inr (db', prs) \<Longrightarrow> service_step e db db'"
| AcquireFence: "acquire clock rid aid inp0 db = Inr (db', fr) \<Longrightarrow> service_step e db db'"
| ResolveFence: "resolve aid rinp permit db0 db = Inr (db', rv) \<Longrightarrow> service_step e db db'"
| PlaceHold: "place clock uid aid hinp db = Inr (db', proj) \<Longrightarrow> service_step e db db'"
| ReconcileHold: "reconcile clock aid aid2 hreq db0 db = Inr (db', hres) \<Longrightarrow> service_step e db db'"

abbreviation reachable :: "bool \<Rightarrow> db \<Rightarrow> db \<Rightarrow> bool" where
  "reachable e \<equiv> (service_step e)\<^sup>*\<^sup>*"

section \<open>Refinement\<close>

lemma service_step_refines:
  assumes "service_step e db db'" and wf: "wf_quota db"
  shows "quota_steps e db db'"
  using assms(1)
proof cases
  case Rejected
  then show ?thesis by simp
next
  case ReserveRequest
  then show ?thesis by (blast intro: reserve_is_step)
next
  case ReleaseReservation
  then show ?thesis by (rule release_is_steps)
next
  case RecordCompleted
  then show ?thesis by (rule quota_steps_idle[OF record_completed_same])
next
  case MarkFailed
  then show ?thesis by (rule quota_steps_idle[OF mark_failed_same])
next
  case FinalizeResponse
  then show ?thesis by (rule fin.run_steps)
next
  case FinalizeCustom
  then show ?thesis by (rule custom.run_steps)
next
  case ProviderFailure
  then show ?thesis by (rule failure_steps)
next
  case Interrupted
  then show ?thesis by (rule interrupted.run_steps)
next
  case LiveBurn
  then show ?thesis unfolding record_streaming_live_burn_interrupted_estimate_def by (rule interrupted.run_steps)
next
  case ReconcileExpired
  then show ?thesis by (rule expired_steps)
next
  case ReconcileExpiredBatch
  then show ?thesis by (rule expired_batch_steps)
next
  case RecoverCompleted
  then show ?thesis by (rule recovery_steps)
next
  case RecoverCompletedBatch
  then show ?thesis by (rule recovery_batch_steps)
next
  case AcquireFence
  then show ?thesis using wf by (rule acquire_is_steps)
next
  case ResolveFence
  then show ?thesis by (rule resolve_is_steps)
next
  case PlaceHold
  then show ?thesis by (rule place_is_steps)
next
  case ReconcileHold
  then show ?thesis using wf by (rule reconcile_is_steps)
qed

lemma reachable_inv: "reachable e db db' \<Longrightarrow> quota_inv e db \<Longrightarrow> quota_inv e db'"
proof (induction rule: rtranclp_induct)
  case base
  then show ?case .
next
  case (step y z)
  then have "quota_inv e y" by simp
  then show ?case using quota_inv_steps[OF service_step_refines[OF step(2)]] by (simp add: quota_inv_def)
qed

lemma exposure_filter: "exposure a kid rs = (\<Sum>r\<leftarrow>filter (pending_of kid) rs. a r)"
  by (simp add: exposure_def sum_list_map_filter')

text \<open>A database before the first request: well-formed keys, nothing reserved, no fence.\<close>

definition fresh_db :: "db \<Rightarrow> bool" where
  "fresh_db db =
     (db_reservations db = [] \<and> distinct (map gk_id (db_keys db))
      \<and> (\<forall>k \<in> set (db_keys db). key_ok k \<and> gk_fence_state k = FenceNone
           \<and> gk_cost_reserved_eur k = 0 \<and> gk_tokens_reserved_total k = 0 \<and> gk_requests_reserved_total k = 0))"

lemma fresh_inv: "fresh_db db \<Longrightarrow> quota_inv e db"
  by (simp add: fresh_db_def quota_inv_def wf_quota_def balance_defs exposure_def fence_exclusive_def)

section \<open>Properties\<close>

text \<open>C8: Every service operation refines the abstract quota machine: a committed transaction of the
  quota, accounting, reconciliation, fence or hold service is a sequence of the machine's steps, and
  it keeps the machine's invariant.\<close>

theorem services_refine_quota_machine:
  assumes "service_step e db db'" and "quota_inv e db"
  shows "quota_steps e db db' \<and> quota_inv e db'"
  using service_step_refines[OF assms(1)] quota_inv_steps assms(2) by (auto simp: quota_inv_def)

text \<open>C1: Reserved counters never drift.  In every state reachable from a fresh database by any
  interleaving of service operations, each key's reserved tokens and requests are exactly the sums
  over its pending reservations, and so is its reserved cost when reservation estimates have at most
  nineteen decimal places; and a key with a fence has no pending reservation but the fence's own.\<close>

theorem reserved_counters_exact:
  assumes "fresh_db db" and "reachable e db db'" and "k \<in> set (db_keys db')"
  shows "gk_tokens_reserved_total k = (\<Sum>r\<leftarrow>filter (pending_of (gk_id k)) (db_reservations db'). qr_reserved_tokens r)
    \<and> gk_requests_reserved_total k = (\<Sum>r\<leftarrow>filter (pending_of (gk_id k)) (db_reservations db'). qr_reserved_requests r)
    \<and> (e \<longrightarrow> gk_cost_reserved_eur k = (\<Sum>r\<leftarrow>filter (pending_of (gk_id k)) (db_reservations db'). qr_reserved_cost_eur r))
    \<and> (gk_fence_state k \<noteq> FenceNone \<longrightarrow>
         (\<forall>r \<in> set (db_reservations db'). pending_of (gk_id k) r \<longrightarrow> gk_fence_reservation_id k = Some (qr_id r)))"
proof -
  have inv: "quota_inv e db'" by (rule reachable_inv[OF assms(2) fresh_inv[OF assms(1)]])
  show ?thesis
    using inv assms(3) by (auto simp: quota_inv_def balance_defs fence_exclusive_def exposure_filter)
qed

text \<open>C36: The administrative counter reset breaks the balance.  Resetting the reserved counters of a key
  that has a pending reservation leaves that reservation unreleasable: releasing it afterwards is
  refused, because the counters can no longer be decremented.\<close>

theorem reset_reserved_strands_reservation:
  assumes "get_reservation_by_id rid db = Some r" and "qr_status r = Pending"
    and "get_gateway_key_by_id (qr_gateway_key_id r) db = Some k" and "0 < qr_reserved_requests r"
    and "0 \<le> qr_reserved_cost_eur r" and "0 \<le> qr_reserved_tokens r"
    and "reset_gateway_key_usage_counters k used True t db = Inr (db', k')"
  shows "\<exists>c. release_reservation clock rid now db' = Inl (QuotaCounterInvariantError c)"
proof -
  have r: "get_reservation_by_id rid db' = Some r"
    using assms(1,7) by (auto simp: reset_gateway_key_usage_counters_def Let_def flush_simps get_reservation_by_id_def)
  have id: "gk_id k' = gk_id k" "gk_cost_reserved_eur k' = 0" "gk_tokens_reserved_total k' = 0" "gk_requests_reserved_total k' = 0"
    and keys: "db_keys db' = put_row gk_id (stored_key k') (db_keys db)"
    using assms(7) by (auto simp: reset_gateway_key_usage_counters_def Let_def flush_simps)
  have k: "get_gateway_key_by_id (qr_gateway_key_id r) db' = Some (stored_key k')"
    by (rule get_key_put[OF assms(3) keys]) (simp add: id)
  show ?thesis
    unfolding release_reservation_def r Let_def using assms(2,4-6) k id
    by (auto simp: subtract_reserved_counters_def ensure_reserved_counters_can_decrement_def ensure_def)
qed

section \<open>A run\<close>

lemma sample_fresh: "fresh_db sample_db"
  by (simp add: fresh_db_def key_ok_def eval_simps)

lemma sample_reserve_step: "service_step True sample_db sample_reserved_db"
  using sample_reserved_eq sample_nineteen unfolding sample_reserved_def by (blast intro: service_step.ReserveRequest)

lemma sample_reachable: "reachable True sample_db sample_reserved_db"
  using sample_reserve_step by blast

theorem services_refine_quota_machine_witness:
  "service_step True sample_db sample_reserved_db \<and> quota_inv True sample_db \<and> quota_inv True sample_reserved_db"
  using services_refine_quota_machine[OF sample_reserve_step fresh_inv[OF sample_fresh]]
    sample_reserve_step fresh_inv[OF sample_fresh] by blast

theorem reserved_counters_exact_witness:
  "reachable True sample_db sample_reserved_db
   \<and> (\<exists>k. k \<in> set (db_keys sample_reserved_db) \<and> gk_tokens_reserved_total k =
        (\<Sum>r\<leftarrow>filter (pending_of (gk_id k)) (db_reservations sample_reserved_db). qr_reserved_tokens r))"
proof -
  have "reserved_plus sample_key 4 100 1 \<in> set (db_keys sample_reserved_db)" by (simp add: sample_reserved_db_def)
  then show ?thesis using reserved_counters_exact[OF sample_fresh sample_reachable] sample_reachable by blast
qed

definition sample_pending :: quota_reservation where
  "sample_pending = request_reservation (Aware 1000) 7 10 sample_route sample_policy ''req1''
          ''/v1/chat/completions'' (Aware 900001000) 4 100"

lemma sample_reset:
  "\<exists>db' k'. reset_gateway_key_usage_counters (reserved_plus sample_key 4 100 1) False True (Aware 5) sample_reserved_db
     = Inr (db', k')"
  by (simp add: sample_reserved_db_def eval_simps Let_def)

theorem reset_reserved_strands_reservation_witness:
  "\<exists>db' k' c. reset_gateway_key_usage_counters (reserved_plus sample_key 4 100 1) False True (Aware 5) sample_reserved_db
       = Inr (db', k')
     \<and> release_reservation (Aware 6) 7 None db' = Inl (QuotaCounterInvariantError c)"
proof -
  obtain db' k' where run: "reset_gateway_key_usage_counters (reserved_plus sample_key 4 100 1) False True (Aware 5)
      sample_reserved_db = Inr (db', k')" using sample_reset by blast
  have "get_reservation_by_id 7 sample_reserved_db = Some sample_pending" "qr_status sample_pending = Pending"
    "get_gateway_key_by_id (qr_gateway_key_id sample_pending) sample_reserved_db = Some (reserved_plus sample_key 4 100 1)"
    "0 < qr_reserved_requests sample_pending" "0 \<le> qr_reserved_cost_eur sample_pending" "0 \<le> qr_reserved_tokens sample_pending"
    by (simp_all add: sample_pending_def sample_reserved_db_def) (simp_all add: eval_simps)
  from reset_reserved_strands_reservation[OF this run] run show ?thesis by blast
qed

end
