(* ===== verification/RateLimit.thy ===== *)
theory RateLimit
  imports Schemas
begin

text \<open>
  Temporary per-key rate limits: \<open>services/rate_limit_service.py\<close> with its three Lua scripts,
  \<open>services/rate_limit_policy.py\<close> and \<open>schemas/rate_limits.py\<close>.

  Redis is not part of the repository.  Its commands are the fields of an argument \<open>ops\<close>; the
  locale \<open>redis_store\<close> states what their documentation promises (in terms of the sorted sets and
  counters a state holds), and \<open>mem_redis\<close> is an in-memory store that meets it.  A script runs
  atomically.  \<open>redis_link\<close> is what the connection does to one call: the reply arrives, the call is
  never executed, or it is executed and the reply is lost; both failures raise in the client.  Keys
  also disappear when their EXPIRE time passes (step \<open>KeysExpire\<close>).  The texts of the keys
  (\<open>rate:<key>:requests:<window>\<close> and so on) are distinct for distinct arguments, so a key is its
  kind and arguments.  Lua numbers are integers here; \<open>int(timestamp * 1000)\<close> is the number of whole
  milliseconds.

  Shown: with fixed policies no interleaving of requests, heartbeats, releases, clean-ups, lost
  replies and expiries lets a key hold more concurrency slots, requests or tokens of a window than
  its policy allows; the announced retry time of a concurrency refusal suffices; the service fails
  closed; stored lazy-throttling policies are bounded and survive a round trip.
\<close>

section \<open>Policies\<close>

record rate_limit_policy =
  rl_requests_per_minute :: "int option"
  rl_tokens_per_minute :: "int option"
  rl_concurrent_requests :: "int option"
  rl_window_seconds :: int
  rl_concurrency_ttl_seconds :: "int option"
  rl_concurrency_heartbeat_seconds :: "int option"
  rl_concurrency_ttl_grace_seconds :: "int option"

definition positive_when_set :: "int option \<Rightarrow> bool" where
  "positive_when_set v = opt_all (\<lambda>x. 0 < x) v"

text \<open>The field validators run when the model object is built.\<close>

definition validated_policy :: "rate_limit_policy \<Rightarrow> rate_limit_policy result" where
  "validated_policy p =
     sbind (ensure (positive_when_set (rl_requests_per_minute p) \<and> positive_when_set (rl_tokens_per_minute p)
                    \<and> positive_when_set (rl_concurrent_requests p)) PyValueError) (\<lambda>_.
     sbind (ensure (0 < rl_window_seconds p) PyValueError) (\<lambda>_.
     sbind (ensure (positive_when_set (rl_concurrency_ttl_seconds p)
                    \<and> positive_when_set (rl_concurrency_heartbeat_seconds p)
                    \<and> positive_when_set (rl_concurrency_ttl_grace_seconds p)) PyValueError) (\<lambda>_.
     Inr p)))"

definition has_limits :: "rate_limit_policy \<Rightarrow> bool" where
  "has_limits p =
     (rl_requests_per_minute p \<noteq> None \<or> rl_tokens_per_minute p \<noteq> None \<or> rl_concurrent_requests p \<noteq> None)"

record rate_limit_settings =
  st_default_requests :: "int option"
  st_default_tokens :: "int option"
  st_default_concurrent :: "int option"
  st_concurrency_ttl_seconds :: int
  st_concurrency_heartbeat_seconds :: int
  st_concurrency_ttl_grace_seconds :: int

fun first_configured :: "int option list \<Rightarrow> int option" where
  "first_configured [] = None"
| "first_configured (v # vs) = (case v of Some x \<Rightarrow> Some x | None \<Rightarrow> first_configured vs)"

text \<open>An entry of the key's policy mapping.\<close>

definition policy_entry :: "(string \<times> int option) list \<Rightarrow> string \<Rightarrow> int option" where
  "policy_entry d k = (case map_of d k of Some v \<Rightarrow> v | None \<Rightarrow> None)"

definition build_rate_limit_policy :: "authenticated_key \<Rightarrow> rate_limit_settings \<Rightarrow> rate_limit_policy result" where
  "build_rate_limit_policy ak settings =
     (let key_policy = ak_rate_limit_policy ak in
     validated_policy
       \<lparr>rl_requests_per_minute = first_configured [policy_entry key_policy ''requests_per_minute'', st_default_requests settings],
        rl_tokens_per_minute = first_configured [policy_entry key_policy ''tokens_per_minute'', st_default_tokens settings],
        rl_concurrent_requests =
          first_configured [policy_entry key_policy ''max_concurrent_requests'',
                            policy_entry key_policy ''concurrent_requests'', st_default_concurrent settings],
        rl_window_seconds =
          (case first_configured [policy_entry key_policy ''window_seconds'', Some 60] of
             Some w \<Rightarrow> if w = 0 then 60 else w | None \<Rightarrow> 60),
        rl_concurrency_ttl_seconds = Some (st_concurrency_ttl_seconds settings),
        rl_concurrency_heartbeat_seconds = Some (st_concurrency_heartbeat_seconds settings),
        rl_concurrency_ttl_grace_seconds = Some (st_concurrency_ttl_grace_seconds settings)\<rparr>)"

text \<open>\<open>value or default\<close> on an optional integer: zero counts as missing.\<close>

definition or_int :: "int option \<Rightarrow> int \<Rightarrow> int" where
  "or_int v d = (case v of Some x \<Rightarrow> if x = 0 then d else x | None \<Rightarrow> d)"

definition policy_concurrency_ttl_seconds :: "rate_limit_policy \<Rightarrow> int" where
  "policy_concurrency_ttl_seconds p = or_int (rl_concurrency_ttl_seconds p) 300"

definition policy_concurrency_heartbeat_seconds :: "rate_limit_policy \<Rightarrow> int" where
  "policy_concurrency_heartbeat_seconds p = or_int (rl_concurrency_heartbeat_seconds p) 30"

definition policy_concurrency_ttl_grace_seconds :: "rate_limit_policy \<Rightarrow> int" where
  "policy_concurrency_ttl_grace_seconds p = or_int (rl_concurrency_ttl_grace_seconds p) 30"

definition validate_concurrency_timing :: "rate_limit_policy \<Rightarrow> unit result" where
  "validate_concurrency_timing p =
     sbind (ensure (0 < policy_concurrency_ttl_seconds p)
       (InvalidRateLimitPolicyError ''concurrency_ttl_seconds'')) (\<lambda>_.
     sbind (ensure (0 < policy_concurrency_heartbeat_seconds p)
       (InvalidRateLimitPolicyError ''concurrency_heartbeat_seconds'')) (\<lambda>_.
     sbind (ensure (policy_concurrency_heartbeat_seconds p < policy_concurrency_ttl_seconds p)
       (InvalidRateLimitPolicyError ''concurrency_heartbeat_seconds'')) (\<lambda>_.
     ensure (0 < policy_concurrency_ttl_grace_seconds p)
       (InvalidRateLimitPolicyError ''concurrency_ttl_grace_seconds''))))"

definition validate_inputs :: "string \<Rightarrow> int \<Rightarrow> rate_limit_policy \<Rightarrow> unit result" where
  "validate_inputs request_id estimated_tokens p =
     sbind (ensure (request_id \<noteq> []) (InvalidRateLimitPolicyError ''request_id'')) (\<lambda>_.
     sbind (ensure (0 \<le> estimated_tokens) (InvalidRateLimitPolicyError ''estimated_tokens'')) (\<lambda>_.
     sbind (ensure (0 < rl_window_seconds p) (InvalidRateLimitPolicyError ''window_seconds'')) (\<lambda>_.
     validate_concurrency_timing p)))"

section \<open>Redis\<close>

datatype rate_key = RequestsKey uuid int | TokensKey uuid int | ConcurrencyKey uuid
  | PerKeyWaitingKey uuid | GlobalWaitingKey

record 's redis =
  rd_time :: "'s \<Rightarrow> int \<times> int"
  rd_get :: "rate_key \<Rightarrow> 's \<Rightarrow> int option"
  rd_incrby :: "rate_key \<Rightarrow> int \<Rightarrow> 's \<Rightarrow> 's \<times> int"
  rd_expire :: "rate_key \<Rightarrow> int \<Rightarrow> 's \<Rightarrow> 's"
  rd_zremrangebyscore :: "rate_key \<Rightarrow> int \<Rightarrow> 's \<Rightarrow> 's \<times> int"
  rd_zscore :: "rate_key \<Rightarrow> string \<Rightarrow> 's \<Rightarrow> int option"
  rd_zcard :: "rate_key \<Rightarrow> 's \<Rightarrow> int"
  rd_zfirst :: "rate_key \<Rightarrow> 's \<Rightarrow> (string \<times> int) option"
  rd_zadd :: "rate_key \<Rightarrow> int \<Rightarrow> string \<Rightarrow> 's \<Rightarrow> 's"
  rd_zrem :: "rate_key \<Rightarrow> string \<Rightarrow> 's \<Rightarrow> 's"

datatype redis_link = Up | Down | ReplyLost

section \<open>The scripts\<close>

record script_reply =
  sr_allowed :: bool
  sr_kind :: string
  sr_remaining_requests :: int
  sr_remaining_tokens :: int
  sr_concurrency :: int
  sr_reset_ms :: int
  sr_retry_after :: int
  sr_slot_expiry_ms :: int

definition script_now_ms :: "'s redis \<Rightarrow> bool \<Rightarrow> int \<Rightarrow> 's \<Rightarrow> int" where
  "script_now_ms ops use_redis_time caller_now_ms s =
     (if use_redis_time then fst (rd_time ops s) * 1000 + snd (rd_time ops s) div 1000 else caller_now_ms)"

text \<open>\<open>math.ceil(x / 1000)\<close>\<close>

definition ceil_seconds :: "int \<Rightarrow> int" where
  "ceil_seconds x = - ((- x) div 1000)"

record reserve_args =
  ra_requests_key :: rate_key
  ra_tokens_key :: rate_key
  ra_concurrency_key :: rate_key
  ra_caller_now_ms :: int
  ra_window_seconds :: int
  ra_request_limit :: int
  ra_token_limit :: int
  ra_concurrency_limit :: int
  ra_estimated_tokens :: int
  ra_request_id :: string
  ra_ttl_seconds :: int
  ra_grace_seconds :: int
  ra_use_redis_time :: bool

text \<open>The concurrency refusal: the earliest slot says when to retry.\<close>

definition concurrency_refusal :: "'s redis \<Rightarrow> reserve_args \<Rightarrow> int \<Rightarrow> 's \<Rightarrow> script_reply" where
  "concurrency_refusal ops a now_ms s =
     (let reset0 = ra_caller_now_ms a + ra_window_seconds a * 1000;
          earliest = rd_zfirst ops (ra_concurrency_key a) s
      in \<lparr>sr_allowed = False, sr_kind = ''concurrency'', sr_remaining_requests = 0, sr_remaining_tokens = 0,
          sr_concurrency = rd_zcard ops (ra_concurrency_key a) s,
          sr_reset_ms = (case earliest of Some (_, score) \<Rightarrow> score | None \<Rightarrow> reset0),
          sr_retry_after = (case earliest of
             Some (_, score) \<Rightarrow> max (ceil_seconds (score - now_ms)) 1 | None \<Rightarrow> ra_ttl_seconds a),
          sr_slot_expiry_ms = 0\<rparr>)"

text \<open>One of the two window counters: incremented and given a new lifetime when it has a limit.\<close>

definition bump :: "'s redis \<Rightarrow> rate_key \<Rightarrow> int \<Rightarrow> int \<Rightarrow> int \<Rightarrow> int \<Rightarrow> 's \<Rightarrow> 's \<times> int" where
  "bump ops key limit amount window current s =
     (if 0 < limit
      then (let (t, n) = rd_incrby ops key amount s in (rd_expire ops key window t, n))
      else (s, current))"

text \<open>The part after the concurrency check: windows, then the three writes.\<close>

definition reserve_windows :: "'s redis \<Rightarrow> reserve_args \<Rightarrow> int \<Rightarrow> 's \<Rightarrow> 's \<times> script_reply" where
  "reserve_windows ops a now_ms s =
     (let reset_ms = ra_caller_now_ms a + ra_window_seconds a * 1000;
          current_requests = (case rd_get ops (ra_requests_key a) s of Some n \<Rightarrow> n | None \<Rightarrow> 0);
          current_tokens = (case rd_get ops (ra_tokens_key a) s of Some n \<Rightarrow> n | None \<Rightarrow> 0)
      in
      if 0 < ra_request_limit a \<and> ra_request_limit a < current_requests + 1
      then (s, \<lparr>sr_allowed = False, sr_kind = ''requests'',
                sr_remaining_requests = max (ra_request_limit a - current_requests) 0, sr_remaining_tokens = 0,
                sr_concurrency = 0, sr_reset_ms = reset_ms, sr_retry_after = ra_window_seconds a, sr_slot_expiry_ms = 0\<rparr>)
      else if 0 < ra_token_limit a \<and> ra_token_limit a < current_tokens + ra_estimated_tokens a
      then (s, \<lparr>sr_allowed = False, sr_kind = ''tokens'', sr_remaining_requests = 0,
                sr_remaining_tokens = max (ra_token_limit a - current_tokens) 0,
                sr_concurrency = 0, sr_reset_ms = reset_ms, sr_retry_after = ra_window_seconds a, sr_slot_expiry_ms = 0\<rparr>)
      else
        let (s1, requests) = bump ops (ra_requests_key a) (ra_request_limit a) 1 (ra_window_seconds a) current_requests s;
            (s2, tokens) = bump ops (ra_tokens_key a) (ra_token_limit a) (ra_estimated_tokens a) (ra_window_seconds a)
                             current_tokens s1;
            expiry = now_ms + ra_ttl_seconds a * 1000;
            s3 = (if 0 < ra_concurrency_limit a
                  then rd_expire ops (ra_concurrency_key a) (ra_ttl_seconds a + ra_grace_seconds a)
                         (rd_zadd ops (ra_concurrency_key a) expiry (ra_request_id a) s2)
                  else s2)
        in (s3, \<lparr>sr_allowed = True, sr_kind = ''allowed'',
                 sr_remaining_requests = (if 0 < ra_request_limit a then max (ra_request_limit a - requests) 0 else 0),
                 sr_remaining_tokens = (if 0 < ra_token_limit a then max (ra_token_limit a - tokens) 0 else 0),
                 sr_concurrency = (if 0 < ra_concurrency_limit a then rd_zcard ops (ra_concurrency_key a) s3 else 0),
                 sr_reset_ms = reset_ms, sr_retry_after = 0,
                 sr_slot_expiry_ms = (if 0 < ra_concurrency_limit a then expiry else 0)\<rparr>))"

definition reserve_script :: "'s redis \<Rightarrow> reserve_args \<Rightarrow> 's \<Rightarrow> 's \<times> script_reply" where
  "reserve_script ops a s =
     (if 0 < ra_concurrency_limit a
      then
        let now_ms = script_now_ms ops (ra_use_redis_time a) (ra_caller_now_ms a) s;
            s1 = fst (rd_zremrangebyscore ops (ra_concurrency_key a) now_ms s)
        in if rd_zscore ops (ra_concurrency_key a) (ra_request_id a) s1 = None
              \<and> ra_concurrency_limit a \<le> rd_zcard ops (ra_concurrency_key a) s1
           then (s1, concurrency_refusal ops a now_ms s1)
           else reserve_windows ops a now_ms s1
      else reserve_windows ops a (ra_caller_now_ms a) s)"

definition heartbeat_script ::
  "'s redis \<Rightarrow> rate_key \<Rightarrow> int \<Rightarrow> string \<Rightarrow> int \<Rightarrow> int \<Rightarrow> bool \<Rightarrow> 's \<Rightarrow> 's \<times> int option" where
  "heartbeat_script ops key caller_now_ms request_id ttl grace use_redis_time s =
     (let now_ms = script_now_ms ops use_redis_time caller_now_ms s;
          s1 = fst (rd_zremrangebyscore ops key now_ms s)
      in if rd_zscore ops key request_id s1 = None then (s1, None)
         else (rd_expire ops key (ttl + grace) (rd_zadd ops key (now_ms + ttl * 1000) request_id s1),
               Some (now_ms + ttl * 1000)))"

definition cleanup_concurrency_script :: "'s redis \<Rightarrow> rate_key \<Rightarrow> int \<Rightarrow> bool \<Rightarrow> 's \<Rightarrow> 's \<times> int" where
  "cleanup_concurrency_script ops key caller_now_ms use_redis_time s =
     rd_zremrangebyscore ops key (script_now_ms ops use_redis_time caller_now_ms s) s"

section \<open>The service\<close>

record rate_limit_result =
  rr_allowed :: bool
  rr_limit_type :: "string option"
  rr_remaining_requests :: "int option"
  rr_remaining_tokens :: "int option"
  rr_concurrent_in_use :: "int option"
  rr_reset_at :: "pydatetime option"
  rr_concurrency_slot_expires_at :: "pydatetime option"
  rr_retry_after_seconds :: "int option"
  rr_degraded :: bool

definition plain_result :: "bool \<Rightarrow> rate_limit_result" where
  "plain_result degraded =
     \<lparr>rr_allowed = True, rr_limit_type = None, rr_remaining_requests = None, rr_remaining_tokens = None, rr_concurrent_in_use = None,
      rr_reset_at = None, rr_concurrency_slot_expires_at = None, rr_retry_after_seconds = None, rr_degraded = degraded\<rparr>"

definition handle_unavailable :: "bool \<Rightarrow> rate_limit_result result" where
  "handle_unavailable fail_closed =
     (if fail_closed then Inl RedisRateLimitUnavailableError else Inr (plain_result True))"

definition datetime_from_millis :: "int \<Rightarrow> pydatetime" where
  "datetime_from_millis ms = Aware (ms * 1000)"

definition int_or_none :: "int \<Rightarrow> int option \<Rightarrow> int option" where
  "int_or_none value configured_limit = (case configured_limit of None \<Rightarrow> None | Some _ \<Rightarrow> Some value)"

definition reserve_arguments ::
  "pydatetime \<Rightarrow> uuid \<Rightarrow> string \<Rightarrow> int \<Rightarrow> rate_limit_policy \<Rightarrow> pydatetime option \<Rightarrow> reserve_args" where
  "reserve_arguments clock kid request_id estimated_tokens p now =
     (let t = micros (case now of Some d \<Rightarrow> d | None \<Rightarrow> clock);
          window_start = t div 1000000 div rl_window_seconds p
      in \<lparr>ra_requests_key = RequestsKey kid window_start, ra_tokens_key = TokensKey kid window_start,
          ra_concurrency_key = ConcurrencyKey kid, ra_caller_now_ms = t div 1000,
          ra_window_seconds = rl_window_seconds p,
          ra_request_limit = or_int (rl_requests_per_minute p) 0,
          ra_token_limit = or_int (rl_tokens_per_minute p) 0,
          ra_concurrency_limit = or_int (rl_concurrent_requests p) 0,
          ra_estimated_tokens = estimated_tokens, ra_request_id = request_id,
          ra_ttl_seconds = policy_concurrency_ttl_seconds p, ra_grace_seconds = policy_concurrency_ttl_grace_seconds p,
          ra_use_redis_time = (now = None)\<rparr>)"

definition reserve_outcome :: "rate_limit_policy \<Rightarrow> script_reply \<Rightarrow> rate_limit_result result" where
  "reserve_outcome p reply =
     (let retry_after = (if sr_retry_after reply = 0 then None else Some (sr_retry_after reply)) in
     if sr_allowed reply
     then Inr \<lparr>rr_allowed = True, rr_limit_type = None,
               rr_remaining_requests = int_or_none (sr_remaining_requests reply) (rl_requests_per_minute p),
               rr_remaining_tokens = int_or_none (sr_remaining_tokens reply) (rl_tokens_per_minute p),
               rr_concurrent_in_use = int_or_none (sr_concurrency reply) (rl_concurrent_requests p),
               rr_reset_at = Some (datetime_from_millis (sr_reset_ms reply)),
               rr_concurrency_slot_expires_at =
                 (if sr_slot_expiry_ms reply = 0 then None else Some (datetime_from_millis (sr_slot_expiry_ms reply))),
               rr_retry_after_seconds = None, rr_degraded = False\<rparr>
     else if sr_kind reply = ''requests'' then Inl (RequestRateLimitExceededError retry_after)
     else if sr_kind reply = ''tokens'' then Inl (TokenRateLimitExceededError retry_after)
     else if sr_kind reply = ''concurrency'' then Inl (ConcurrencyRateLimitExceededError retry_after)
     else Inl (InvalidRateLimitPolicyError ''Unknown rate-limit result''))"

definition check_and_reserve ::
  "'s redis \<Rightarrow> bool \<Rightarrow> redis_link \<Rightarrow> pydatetime \<Rightarrow> uuid \<Rightarrow> string \<Rightarrow> int \<Rightarrow> rate_limit_policy
     \<Rightarrow> pydatetime option \<Rightarrow> 's \<Rightarrow> 's \<times> rate_limit_result result" where
  "check_and_reserve ops fail_closed link clock kid request_id estimated_tokens p now s =
     (case validate_inputs request_id estimated_tokens p of
        Inl e \<Rightarrow> (s, Inl e)
      | Inr _ \<Rightarrow>
          if \<not> has_limits p then (s, Inr (plain_result False))
          else
            let (s1, reply) = reserve_script ops (reserve_arguments clock kid request_id estimated_tokens p now) s
            in case link of
                 Up \<Rightarrow> (s1, reserve_outcome p reply)
               | Down \<Rightarrow> (s, handle_unavailable fail_closed)
               | ReplyLost \<Rightarrow> (s1, handle_unavailable fail_closed))"

definition release_concurrency ::
  "'s redis \<Rightarrow> redis_link \<Rightarrow> uuid \<Rightarrow> string \<Rightarrow> 's \<Rightarrow> 's \<times> unit result" where
  "release_concurrency ops link kid request_id s =
     (if request_id = [] then (s, Inl (InvalidRateLimitPolicyError ''request_id''))
      else
        let s1 = rd_zrem ops (ConcurrencyKey kid) request_id s
        in case link of
             Up \<Rightarrow> (s1, Inr ())
           | Down \<Rightarrow> (s, Inl RateLimitReleaseError)
           | ReplyLost \<Rightarrow> (s1, Inl RateLimitReleaseError))"

definition heartbeat_concurrency ::
  "'s redis \<Rightarrow> redis_link \<Rightarrow> pydatetime \<Rightarrow> uuid \<Rightarrow> string \<Rightarrow> rate_limit_policy \<Rightarrow> pydatetime option \<Rightarrow> 's
     \<Rightarrow> 's \<times> rate_limit_result result" where
  "heartbeat_concurrency ops link clock kid request_id p now s =
     (if request_id = [] then (s, Inl (InvalidRateLimitPolicyError ''request_id''))
      else case validate_concurrency_timing p of
        Inl e \<Rightarrow> (s, Inl e)
      | Inr _ \<Rightarrow>
          if rl_concurrent_requests p = None then (s, Inr (plain_result False))
          else
            let now_ms = micros (case now of Some d \<Rightarrow> d | None \<Rightarrow> clock) div 1000;
                (s1, expiry) = heartbeat_script ops (ConcurrencyKey kid) now_ms request_id
                   (policy_concurrency_ttl_seconds p) (policy_concurrency_ttl_grace_seconds p) (now = None) s
            in case link of
                 Up \<Rightarrow> (s1, (case expiry of
                    None \<Rightarrow> Inl RateLimitReleaseError
                  | Some ms \<Rightarrow> Inr ((plain_result False)\<lparr>rr_concurrency_slot_expires_at := Some (datetime_from_millis ms)\<rparr>)))
               | Down \<Rightarrow> (s, Inl RateLimitReleaseError)
               | ReplyLost \<Rightarrow> (s1, Inl RateLimitReleaseError))"

definition cleanup_expired_concurrency ::
  "'s redis \<Rightarrow> redis_link \<Rightarrow> pydatetime \<Rightarrow> uuid \<Rightarrow> int \<Rightarrow> pydatetime option \<Rightarrow> 's \<Rightarrow> 's \<times> int result" where
  "cleanup_expired_concurrency ops link clock kid window_seconds now s =
     (if window_seconds \<le> 0 then (s, Inl (InvalidRateLimitPolicyError ''window_seconds''))
      else
        let cutoff_ms = micros (case now of Some d \<Rightarrow> d | None \<Rightarrow> clock) div 1000;
            (s1, removed) = cleanup_concurrency_script ops (ConcurrencyKey kid) cutoff_ms (now = None) s
        in case link of
             Up \<Rightarrow> (s1, Inr removed)
           | Down \<Rightarrow> (s, Inl RateLimitReleaseError)
           | ReplyLost \<Rightarrow> (s1, Inl RateLimitReleaseError))"

section \<open>Lazy throttling policies\<close>

definition default_lazy_policy :: lazy_throttling_policy where
  "default_lazy_policy = \<lparr>lt_mode = ''reject'', lt_max_wait_seconds = 30, lt_max_waiting_requests = 2\<rparr>"

definition is_wait_mode :: "lazy_throttling_policy \<Rightarrow> bool" where
  "is_wait_mode p = (lt_mode p = ''wait'')"

definition lazy_to_metadata :: "lazy_throttling_policy \<Rightarrow> pydict" where
  "lazy_to_metadata p =
     [(''mode'', PStr (lt_mode p)),
      (''max_wait_seconds'', PInt (lt_max_wait_seconds p)),
      (''max_waiting_requests'', PInt (lt_max_waiting_requests p))]"

text \<open>\<open>raw.get(key, default)\<close>\<close>

definition dget_default :: "pydict \<Rightarrow> string \<Rightarrow> pyval \<Rightarrow> pyval" where
  "dget_default d k v = (case map_of d k of Some x \<Rightarrow> x | None \<Rightarrow> v)"

definition parse_lazy_throttling_policy_metadata :: "pyval \<Rightarrow> int \<Rightarrow> int \<Rightarrow> lazy_throttling_policy option" where
  "parse_lazy_throttling_policy_metadata raw wait_ceiling waiting_ceiling =
     (case raw of
        PDict d \<Rightarrow>
          if \<not> set (map fst d) \<subseteq> {''mode'', ''max_wait_seconds'', ''max_waiting_requests''} then None
          else (case (dget_default d ''mode'' (PStr ''reject''), dget_default d ''max_wait_seconds'' (PInt 30),
                      dget_default d ''max_waiting_requests'' (PInt 2)) of
                  (PStr mode, PInt max_wait, PInt max_waiting) \<Rightarrow>
                    if mode \<notin> {''reject'', ''wait''} then None
                    else if max_wait \<le> 0 \<or> max_waiting \<le> 0 then None
                    else if wait_ceiling < max_wait \<or> waiting_ceiling < max_waiting then None
                    else Some \<lparr>lt_mode = mode, lt_max_wait_seconds = max_wait,
                               lt_max_waiting_requests = max_waiting\<rparr>
                | _ \<Rightarrow> None)
      | _ \<Rightarrow> None)"

definition effective_lazy_throttling_policy :: "authenticated_key \<Rightarrow> lazy_throttling_policy" where
  "effective_lazy_throttling_policy ak = (case ak_lazy_throttling ak of Some p \<Rightarrow> p | None \<Rightarrow> default_lazy_policy)"

section \<open>What Redis promises\<close>

text \<open>\<open>zs k s\<close> is the sorted set at a key (members and scores), \<open>cnt k s\<close> the counter.\<close>

definition purged :: "int \<Rightarrow> (string \<Rightarrow> int option) \<Rightarrow> string \<Rightarrow> int option" where
  "purged t z m = (case z m of Some x \<Rightarrow> if x \<le> t then None else Some x | None \<Rightarrow> None)"

text \<open>The slots a key holds, the value of a counter, and that both stay within the policies.\<close>

definition slots :: "(rate_key \<Rightarrow> 's \<Rightarrow> string \<Rightarrow> int option) \<Rightarrow> uuid \<Rightarrow> 's \<Rightarrow> nat" where
  "slots zs kid s = card (dom (zs (ConcurrencyKey kid) s))"

definition value_of :: "(rate_key \<Rightarrow> 's \<Rightarrow> int option) \<Rightarrow> rate_key \<Rightarrow> 's \<Rightarrow> int" where
  "value_of cnt k s = (case cnt k s of Some n \<Rightarrow> n | None \<Rightarrow> 0)"

definition within_policy ::
  "(rate_key \<Rightarrow> 's \<Rightarrow> string \<Rightarrow> int option) \<Rightarrow> (rate_key \<Rightarrow> 's \<Rightarrow> int option) \<Rightarrow> (uuid \<Rightarrow> rate_limit_policy) \<Rightarrow> 's \<Rightarrow> bool" where
  "within_policy zs cnt pol s =
     (\<forall>kid. (\<forall>n. rl_concurrent_requests (pol kid) = Some n \<longrightarrow> int (slots zs kid s) \<le> n)
       \<and> (\<forall>n w. rl_requests_per_minute (pol kid) = Some n \<longrightarrow> value_of cnt (RequestsKey kid w) s \<le> n)
       \<and> (\<forall>n w. rl_tokens_per_minute (pol kid) = Some n \<longrightarrow> value_of cnt (TokensKey kid w) s \<le> n))"

definition valid_policies :: "(uuid \<Rightarrow> rate_limit_policy) \<Rightarrow> bool" where
  "valid_policies pol = (\<forall>kid. validated_policy (pol kid) = Inr (pol kid))"

section \<open>Every order of calls\<close>

text \<open>
  One step: any call of the service, under any state of the connection, or the passing of time with
  the expiry of some keys.
\<close>

inductive rate_step ::
  "'s redis \<Rightarrow> (rate_key \<Rightarrow> 's \<Rightarrow> string \<Rightarrow> int option) \<Rightarrow> (rate_key \<Rightarrow> 's \<Rightarrow> int option) \<Rightarrow> (uuid \<Rightarrow> rate_limit_policy)
     \<Rightarrow> bool \<Rightarrow> 's \<Rightarrow> 's \<Rightarrow> bool"
  for ops zs cnt pol fail_closed where
  Reserve: "check_and_reserve ops fail_closed link clock kid req est (pol kid) now s = (s', r)
    \<Longrightarrow> rate_step ops zs cnt pol fail_closed s s'"
| Release: "release_concurrency ops link kid req s = (s', u) \<Longrightarrow> rate_step ops zs cnt pol fail_closed s s'"
| Heartbeat: "heartbeat_concurrency ops link clock kid req (pol kid) now s = (s', r)
    \<Longrightarrow> rate_step ops zs cnt pol fail_closed s s'"
| Cleanup: "cleanup_expired_concurrency ops link clock kid w now s = (s', n)
    \<Longrightarrow> rate_step ops zs cnt pol fail_closed s s'"
| KeysExpire: "(\<And>k. zs k s' = zs k s \<or> zs k s' = Map.empty) \<Longrightarrow> (\<And>k. cnt k s' = cnt k s \<or> cnt k s' = None)
    \<Longrightarrow> rate_step ops zs cnt pol fail_closed s s'"

locale redis_store =
  fixes ops :: "'s redis" and zs :: "rate_key \<Rightarrow> 's \<Rightarrow> string \<Rightarrow> int option" and cnt :: "rate_key \<Rightarrow> 's \<Rightarrow> int option"
  assumes finite_zset: "finite (dom (zs k s))"
    and get: "rd_get ops k s = cnt k s"
    and incrby_value: "snd (rd_incrby ops k n s) = (case cnt k s of Some x \<Rightarrow> x | None \<Rightarrow> 0) + n"
    and incrby_cnt: "cnt k' (fst (rd_incrby ops k n s)) =
       (if k' = k then Some ((case cnt k s of Some x \<Rightarrow> x | None \<Rightarrow> 0) + n) else cnt k' s)"
    and incrby_zs: "zs k' (fst (rd_incrby ops k n s)) = zs k' s"
    and expire: "0 < n \<Longrightarrow> zs k' (rd_expire ops k n s) = zs k' s" "0 < n \<Longrightarrow> cnt k' (rd_expire ops k n s) = cnt k' s"
    and zrem_range: "zs k' (fst (rd_zremrangebyscore ops k t s)) = (if k' = k then purged t (zs k s) else zs k' s)"
      "cnt k' (fst (rd_zremrangebyscore ops k t s)) = cnt k' s"
    and zscore: "rd_zscore ops k m s = zs k s m"
    and zcard: "rd_zcard ops k s = int (card (dom (zs k s)))"
    and zfirst_empty: "rd_zfirst ops k s = None \<longleftrightarrow> zs k s = Map.empty"
    and zfirst: "rd_zfirst ops k s = Some (m, x) \<Longrightarrow> zs k s m = Some x \<and> (\<forall>m' x'. zs k s m' = Some x' \<longrightarrow> x \<le> x')"
    and zadd: "zs k' (rd_zadd ops k x m s) = (if k' = k then (zs k s)(m \<mapsto> x) else zs k' s)"
      "cnt k' (rd_zadd ops k x m s) = cnt k' s"
    and zrem: "zs k' (rd_zrem ops k m s) = (if k' = k then (zs k s)(m := None) else zs k' s)"
      "cnt k' (rd_zrem ops k m s) = cnt k' s"
begin

lemmas commands = get incrby_value incrby_cnt incrby_zs expire zrem_range zscore zcard zadd zrem

lemma dom_purged: "dom (purged t z) \<subseteq> dom z"
  by (auto simp: purged_def split: option.splits)

lemma card_purged: "finite (dom z) \<Longrightarrow> card (dom (purged t z)) \<le> card (dom z)"
  by (rule card_mono[OF _ dom_purged])

lemma bump_zs: "0 < window \<Longrightarrow> zs k (fst (bump ops key limit amount window current s)) = zs k s"
  by (simp add: bump_def case_prod_beta Let_def commands)

lemma bump_cnt: "0 < window \<Longrightarrow> cnt k (fst (bump ops key limit amount window current s)) =
    (if 0 < limit \<and> k = key then Some (value_of cnt key s + amount) else cnt k s)"
  by (simp add: bump_def case_prod_beta Let_def commands value_of_def)

text \<open>What the second half of the script writes.\<close>

definition admitted_state :: "reserve_args \<Rightarrow> int \<Rightarrow> 's \<Rightarrow> 's" where
  "admitted_state a now s =
     (let s1 = fst (bump ops (ra_requests_key a) (ra_request_limit a) 1 (ra_window_seconds a) (value_of cnt (ra_requests_key a) s) s);
          s2 = fst (bump ops (ra_tokens_key a) (ra_token_limit a) (ra_estimated_tokens a) (ra_window_seconds a)
                      (value_of cnt (ra_tokens_key a) s) s1)
      in if 0 < ra_concurrency_limit a
         then rd_expire ops (ra_concurrency_key a) (ra_ttl_seconds a + ra_grace_seconds a)
                (rd_zadd ops (ra_concurrency_key a) (now + ra_ttl_seconds a * 1000) (ra_request_id a) s2)
         else s2)"

lemma reserve_windows_cases:
  assumes "reserve_windows ops a now s = (s', reply)"
  obtains (refused) "s' = s" "\<not> sr_allowed reply" "sr_kind reply \<noteq> ''concurrency''"
  | (admitted) "s' = admitted_state a now s" "sr_allowed reply" "sr_kind reply = ''allowed''"
      "0 < ra_request_limit a \<longrightarrow> value_of cnt (ra_requests_key a) s + 1 \<le> ra_request_limit a"
      "0 < ra_token_limit a \<longrightarrow> value_of cnt (ra_tokens_key a) s + ra_estimated_tokens a \<le> ra_token_limit a"
      "0 < ra_concurrency_limit a \<longrightarrow> sr_concurrency reply = rd_zcard ops (ra_concurrency_key a) s'"
proof (cases "sr_allowed reply")
  case False
  with assms have "s' = s" "sr_kind reply \<noteq> ''concurrency''"
    unfolding reserve_windows_def by (auto simp: Let_def case_prod_beta split: if_splits)
  then show ?thesis using False by (intro refused)
next
  case True
  with assms show ?thesis
    unfolding reserve_windows_def get
    by (intro admitted) (auto simp: Let_def case_prod_beta admitted_state_def value_of_def split: if_splits)
qed

lemma admitted_zs:
  assumes "0 < ra_window_seconds a" "0 < ra_ttl_seconds a" "0 < ra_grace_seconds a"
  shows "zs k (admitted_state a now s) =
    (if 0 < ra_concurrency_limit a \<and> k = ra_concurrency_key a
     then (zs k s)(ra_request_id a \<mapsto> now + ra_ttl_seconds a * 1000) else zs k s)"
  using assms by (simp add: admitted_state_def Let_def commands bump_zs)

lemma admitted_cnt:
  assumes "0 < ra_window_seconds a" "0 < ra_ttl_seconds a" "0 < ra_grace_seconds a" "ra_requests_key a \<noteq> ra_tokens_key a"
  shows "cnt k (admitted_state a now s) =
    (if 0 < ra_token_limit a \<and> k = ra_tokens_key a then Some (value_of cnt k s + ra_estimated_tokens a)
     else if 0 < ra_request_limit a \<and> k = ra_requests_key a then Some (value_of cnt k s + 1) else cnt k s)"
  using assms by (auto simp: admitted_state_def Let_def commands bump_cnt value_of_def)

lemma reserve_script_cases:
  assumes "reserve_script ops a s = (s', reply)"
  obtains (full) now where "0 < ra_concurrency_limit a" "now = script_now_ms ops (ra_use_redis_time a) (ra_caller_now_ms a) s"
      "s' = fst (rd_zremrangebyscore ops (ra_concurrency_key a) now s)"
      "zs (ra_concurrency_key a) s' (ra_request_id a) = None" "ra_concurrency_limit a \<le> rd_zcard ops (ra_concurrency_key a) s'"
      "reply = concurrency_refusal ops a now s'"
  | (windows) now s1 where "reserve_windows ops a now s1 = (s', reply)"
      "now = (if 0 < ra_concurrency_limit a then script_now_ms ops (ra_use_redis_time a) (ra_caller_now_ms a) s else ra_caller_now_ms a)"
      "s1 = (if 0 < ra_concurrency_limit a then fst (rd_zremrangebyscore ops (ra_concurrency_key a) now s) else s)"
      "0 < ra_concurrency_limit a \<longrightarrow> zs (ra_concurrency_key a) s1 (ra_request_id a) \<noteq> None
         \<or> rd_zcard ops (ra_concurrency_key a) s1 < ra_concurrency_limit a"
  using assms unfolding reserve_script_def Let_def zscore
  by (auto split: if_splits)

lemma within_policy_mono:
  assumes "within_policy zs cnt pol s" "\<And>kid. slots zs kid s' \<le> slots zs kid s" "\<And>k. value_of cnt k s' \<le> value_of cnt k s"
  shows "within_policy zs cnt pol s'"
  unfolding within_policy_def
proof (intro allI conjI impI)
  fix kid n assume "rl_concurrent_requests (pol kid) = Some n"
  then have "int (slots zs kid s) \<le> n" using assms(1) by (simp add: within_policy_def)
  then show "int (slots zs kid s') \<le> n" using assms(2)[of kid] by linarith
next
  fix kid n w assume "rl_requests_per_minute (pol kid) = Some n"
  then have "value_of cnt (RequestsKey kid w) s \<le> n" using assms(1) by (simp add: within_policy_def)
  then show "value_of cnt (RequestsKey kid w) s' \<le> n" using assms(3)[of "RequestsKey kid w"] by linarith
next
  fix kid n w assume "rl_tokens_per_minute (pol kid) = Some n"
  then have "value_of cnt (TokensKey kid w) s \<le> n" using assms(1) by (simp add: within_policy_def)
  then show "value_of cnt (TokensKey kid w) s' \<le> n" using assms(3)[of "TokensKey kid w"] by linarith
qed

lemma within_policy_zrem_range: "within_policy zs cnt pol s \<Longrightarrow> within_policy zs cnt pol (fst (rd_zremrangebyscore ops k t s))"
  by (erule within_policy_mono) (simp_all add: slots_def value_of_def zrem_range card_purged[OF finite_zset])

lemma within_policy_zrem: "within_policy zs cnt pol s \<Longrightarrow> within_policy zs cnt pol (rd_zrem ops k m s)"
proof -
  have "card (dom ((zs k s)(m := None))) \<le> card (dom (zs k s))" by (rule card_mono[OF finite_zset]) auto
  then show "within_policy zs cnt pol s \<Longrightarrow> within_policy zs cnt pol (rd_zrem ops k m s)"
    by (erule_tac within_policy_mono) (simp_all add: slots_def value_of_def zrem)
qed

text \<open>Refreshing a slot that exists, or adding one below the limit.\<close>

lemma slots_zadd:
  assumes "zs (ConcurrencyKey kid) s m \<noteq> None \<or> int (slots zs kid s) < n" "int (slots zs kid s) \<le> n"
    "zs (ConcurrencyKey kid) s' = (zs (ConcurrencyKey kid) s)(m \<mapsto> x)"
  shows "int (slots zs kid s') \<le> n"
proof (cases "m \<in> dom (zs (ConcurrencyKey kid) s)")
  case True
  then have "slots zs kid s' = slots zs kid s" by (simp add: slots_def assms(3) insert_absorb)
  with assms(2) show ?thesis by simp
next
  case False
  then have "slots zs kid s' = slots zs kid s + 1" by (simp add: slots_def assms(3) finite_zset)
  moreover have "int (slots zs kid s) < n" using False assms(1) by auto
  ultimately show ?thesis by simp
qed

lemma valid_policies_limits:
  assumes "valid_policies pol"
  shows "0 < rl_window_seconds (pol kid)" "0 < policy_concurrency_ttl_seconds (pol kid)"
    "0 < policy_concurrency_ttl_grace_seconds (pol kid)"
    "rl_requests_per_minute (pol kid) = Some n \<Longrightarrow> 0 < n" "rl_tokens_per_minute (pol kid) = Some n \<Longrightarrow> 0 < n"
    "rl_concurrent_requests (pol kid) = Some n \<Longrightarrow> 0 < n"
proof -
  have v: "validated_policy (pol kid) = Inr (pol kid)" using assms by (simp add: valid_policies_def)
  then show "0 < rl_window_seconds (pol kid)" by (simp add: validated_policy_def)
  from v have p: "positive_when_set (rl_requests_per_minute (pol kid))" "positive_when_set (rl_tokens_per_minute (pol kid))"
    "positive_when_set (rl_concurrent_requests (pol kid))" "positive_when_set (rl_concurrency_ttl_seconds (pol kid))"
    "positive_when_set (rl_concurrency_ttl_grace_seconds (pol kid))" by (simp_all add: validated_policy_def)
  then show "rl_requests_per_minute (pol kid) = Some n \<Longrightarrow> 0 < n" "rl_tokens_per_minute (pol kid) = Some n \<Longrightarrow> 0 < n"
    "rl_concurrent_requests (pol kid) = Some n \<Longrightarrow> 0 < n" by (simp_all add: positive_when_set_def opt_all_def)
  show "0 < policy_concurrency_ttl_seconds (pol kid)" "0 < policy_concurrency_ttl_grace_seconds (pol kid)"
    using p(4,5) by (auto simp: policy_concurrency_ttl_seconds_def policy_concurrency_ttl_grace_seconds_def or_int_def
        positive_when_set_def opt_all_def split: option.splits)
qed

lemma within_policy_or_zero:
  assumes pol: "valid_policies pol" and w: "within_policy zs cnt pol s"
    and le: "\<And>kid. slots zs kid s' \<le> slots zs kid s"
    and v: "\<And>k. value_of cnt k s' = value_of cnt k s \<or> value_of cnt k s' = 0"
  shows "within_policy zs cnt pol s'"
  unfolding within_policy_def
proof (intro allI conjI impI)
  fix kid n assume "rl_concurrent_requests (pol kid) = Some n"
  then have "int (slots zs kid s) \<le> n" using w by (simp add: within_policy_def)
  then show "int (slots zs kid s') \<le> n" using le[of kid] by linarith
next
  fix kid n w' assume "rl_requests_per_minute (pol kid) = Some n"
  then have "value_of cnt (RequestsKey kid w') s \<le> n" "0 < n"
    using w valid_policies_limits(4)[OF pol] by (auto simp: within_policy_def)
  then show "value_of cnt (RequestsKey kid w') s' \<le> n" using v[of "RequestsKey kid w'"] by auto
next
  fix kid n w' assume "rl_tokens_per_minute (pol kid) = Some n"
  then have "value_of cnt (TokensKey kid w') s \<le> n" "0 < n"
    using w valid_policies_limits(5)[OF pol] by (auto simp: within_policy_def)
  then show "value_of cnt (TokensKey kid w') s' \<le> n" using v[of "TokensKey kid w'"] by auto
qed

lemma reserve_arguments_sels [simp]:
  fixes clock kid req est p now
  defines "a \<equiv> reserve_arguments clock kid req est p now"
  shows "ra_concurrency_key a = ConcurrencyKey kid" "ra_request_id a = req" "ra_estimated_tokens a = est"
    "ra_window_seconds a = rl_window_seconds p" "ra_ttl_seconds a = policy_concurrency_ttl_seconds p"
    "ra_grace_seconds a = policy_concurrency_ttl_grace_seconds p"
    "ra_request_limit a = or_int (rl_requests_per_minute p) 0" "ra_token_limit a = or_int (rl_tokens_per_minute p) 0"
    "ra_concurrency_limit a = or_int (rl_concurrent_requests p) 0"
    "\<exists>w. ra_requests_key a = RequestsKey kid w \<and> ra_tokens_key a = TokensKey kid w"
    "ra_requests_key a \<noteq> ra_tokens_key a"
  by (simp_all add: a_def reserve_arguments_def Let_def)

lemma admitted_within:
  assumes pol: "valid_policies pol" and w: "within_policy zs cnt pol s"
    and a: "a = reserve_arguments clock kid req est (pol kid) now"
    and c: "0 < ra_concurrency_limit a \<longrightarrow> zs (ConcurrencyKey kid) s req \<noteq> None
         \<or> rd_zcard ops (ConcurrencyKey kid) s < ra_concurrency_limit a"
    and q: "0 < ra_request_limit a \<longrightarrow> value_of cnt (ra_requests_key a) s + 1 \<le> ra_request_limit a"
    and t: "0 < ra_token_limit a \<longrightarrow> value_of cnt (ra_tokens_key a) s + ra_estimated_tokens a \<le> ra_token_limit a"
  shows "within_policy zs cnt pol (admitted_state a t0 s)"
proof -
  note v = valid_policies_limits[OF pol]
  have pos: "0 < ra_window_seconds a" "0 < ra_ttl_seconds a" "0 < ra_grace_seconds a" using v(1-3) by (simp_all add: a)
  note zs' = admitted_zs[OF pos] and cnt' = admitted_cnt[OF pos]
  obtain win where keys: "ra_requests_key a = RequestsKey kid win" "ra_tokens_key a = TokensKey kid win"
    using reserve_arguments_sels(10) unfolding a by blast
  have ne: "ra_requests_key a \<noteq> ra_tokens_key a" by (simp add: keys)
  let ?s = "admitted_state a t0 s"
  show ?thesis
    unfolding within_policy_def
  proof (intro allI conjI impI)
    fix kid' n assume n: "rl_concurrent_requests (pol kid') = Some n"
    have le: "int (slots zs kid' s) \<le> n" using w n by (simp add: within_policy_def)
    show "int (slots zs kid' ?s) \<le> n"
    proof (cases "kid' = kid")
      case True
      have lim: "ra_concurrency_limit a = n" "0 < n" using v(6)[of kid n] n True by (simp_all add: a or_int_def)
      show ?thesis
        using slots_zadd[of kid s req n ?s] c le lim True zs'[of "ConcurrencyKey kid" t0 s]
        by (simp add: a zcard slots_def)
    next
      case False
      then show ?thesis using le zs'[of "ConcurrencyKey kid'" t0 s] by (simp add: slots_def a)
    qed
  next
    fix kid' n w' assume n: "rl_requests_per_minute (pol kid') = Some n"
    have "value_of cnt (RequestsKey kid' w') s \<le> n" using w n by (simp add: within_policy_def)
    moreover have "kid' = kid \<Longrightarrow> ra_request_limit a = n \<and> 0 < n" using v(4)[of kid n] n by (simp add: a or_int_def)
    ultimately show "value_of cnt (RequestsKey kid' w') ?s \<le> n"
      using q cnt'[OF ne, of "RequestsKey kid' w'" t0 s] by (auto simp: value_of_def keys split: if_splits)
  next
    fix kid' n w' assume n: "rl_tokens_per_minute (pol kid') = Some n"
    have "value_of cnt (TokensKey kid' w') s \<le> n" using w n by (simp add: within_policy_def)
    moreover have "kid' = kid \<Longrightarrow> ra_token_limit a = n \<and> 0 < n" using v(5)[of kid n] n by (simp add: a or_int_def)
    ultimately show "value_of cnt (TokensKey kid' w') ?s \<le> n"
      using t cnt'[OF ne, of "TokensKey kid' w'" t0 s] by (auto simp: value_of_def keys split: if_splits)
  qed
qed

lemma reserve_script_within:
  assumes pol: "valid_policies pol" and w: "within_policy zs cnt pol s"
    and a: "a = reserve_arguments clock kid req est (pol kid) now"
    and run: "reserve_script ops a s = (s', reply)"
  shows "within_policy zs cnt pol s'"
  using run
proof (cases rule: reserve_script_cases)
  case (full now)
  then show ?thesis using w by (simp add: within_policy_zrem_range)
next
  case (windows now s1)
  have w1: "within_policy zs cnt pol s1" using w windows(3) by (simp add: within_policy_zrem_range)
  from windows(1) show ?thesis
  proof (cases rule: reserve_windows_cases)
    case refused
    then show ?thesis using w1 by simp
  next
    case admitted
    show ?thesis
      unfolding admitted(1) by (rule admitted_within[OF pol w1 a]) (use windows(4) admitted a in auto)
  qed
qed

lemma check_and_reserve_cases:
  assumes "check_and_reserve ops fail_closed link clock kid req est p now s = (s', r)"
  obtains (unchanged) "s' = s" "\<forall>x. r \<noteq> Inl (ConcurrencyRateLimitExceededError x)"
  | (ran) reply where "validate_inputs req est p = Inr ()" "has_limits p"
      "reserve_script ops (reserve_arguments clock kid req est p now) s = (s', reply)"
      "r = (if link = Up then reserve_outcome p reply else handle_unavailable fail_closed)"
proof (cases "validate_inputs req est p")
  case (Inl e)
  then have "e \<noteq> ConcurrencyRateLimitExceededError x" for x
    unfolding validate_inputs_def validate_concurrency_timing_def by (auto simp: ensure_def split: if_splits)
  with Inl assms show ?thesis by (intro unchanged) (auto simp: check_and_reserve_def)
next
  case (Inr u)
  show ?thesis
  proof (cases "has_limits p")
    case False
    with Inr assms show ?thesis by (intro unchanged) (auto simp: check_and_reserve_def)
  next
    case True
    obtain s1 reply where run: "reserve_script ops (reserve_arguments clock kid req est p now) s = (s1, reply)"
      by (cases "reserve_script ops (reserve_arguments clock kid req est p now) s")
    show ?thesis
    proof (cases "link = Down")
      case True
      with Inr \<open>has_limits p\<close> assms run show ?thesis
        by (intro unchanged) (auto simp: check_and_reserve_def handle_unavailable_def split: if_splits)
    next
      case False
      with Inr True assms run show ?thesis
        by (intro ran) (auto simp: check_and_reserve_def split: redis_link.splits)
    qed
  qed
qed

lemma heartbeat_within:
  assumes "within_policy zs cnt pol s" "0 < ttl + grace"
    "heartbeat_script ops (ConcurrencyKey kid) now req ttl grace b s = (s', reply)"
  shows "within_policy zs cnt pol s'"
proof -
  let ?t = "script_now_ms ops b now s"
  let ?s = "fst (rd_zremrangebyscore ops (ConcurrencyKey kid) ?t s)"
  have w: "within_policy zs cnt pol ?s" by (rule within_policy_zrem_range[OF assms(1)])
  show ?thesis
  proof (cases "zs (ConcurrencyKey kid) ?s req")
    case None
    then show ?thesis using assms(3) w by (simp add: heartbeat_script_def zscore Let_def)
  next
    case (Some x)
    then have s': "s' = rd_expire ops (ConcurrencyKey kid) (ttl + grace) (rd_zadd ops (ConcurrencyKey kid) (?t + ttl * 1000) req ?s)"
      using assms(3) by (simp add: heartbeat_script_def zscore Let_def)
    have "slots zs kid' s' = slots zs kid' ?s" for kid'
      using Some assms(2) by (auto simp: s' slots_def commands insert_absorb domI)
    moreover have "value_of cnt k s' = value_of cnt k ?s" for k using assms(2) by (simp add: s' value_of_def commands)
    ultimately show ?thesis by (intro within_policy_mono[OF w]) simp_all
  qed
qed

lemma rate_step_within:
  assumes "rate_step ops zs cnt pol fail_closed s s'" and pol: "valid_policies pol" and w: "within_policy zs cnt pol s"
  shows "within_policy zs cnt pol s'"
  using assms(1)
proof cases
  case (Reserve link clock kid req est now r)
  then show ?thesis
    by (cases rule: check_and_reserve_cases) (use w reserve_script_within[OF pol w refl] in auto)
next
  case (Release link kid req u)
  then show ?thesis using w within_policy_zrem[OF w]
    by (auto simp: release_concurrency_def Let_def split: if_splits redis_link.splits)
next
  case (Heartbeat link clock kid req now r)
  have "0 < policy_concurrency_ttl_seconds (pol kid) + policy_concurrency_ttl_grace_seconds (pol kid)"
    using valid_policies_limits(2,3)[OF pol, of kid] by simp
  with Heartbeat heartbeat_within[OF w this] w show ?thesis
    by (auto simp: heartbeat_concurrency_def Let_def case_prod_beta prod_eq_iff split: if_splits redis_link.splits sum.splits)
next
  case (Cleanup link clock kid w' now n)
  then show ?thesis using w within_policy_zrem_range[OF w]
    by (auto simp: cleanup_expired_concurrency_def cleanup_concurrency_script_def Let_def case_prod_beta
        split: if_splits redis_link.splits)
next
  case KeysExpire
  have "slots zs kid s' \<le> slots zs kid s" for kid using KeysExpire(1)[of "ConcurrencyKey kid"] by (auto simp: slots_def)
  moreover have "value_of cnt k s' = value_of cnt k s \<or> value_of cnt k s' = 0" for k
    using KeysExpire(2)[of k] by (auto simp: value_of_def)
  ultimately show ?thesis by (intro within_policy_or_zero[OF pol w])
qed

lemma rate_steps_within:
  assumes "(rate_step ops zs cnt pol fail_closed)\<^sup>*\<^sup>* s0 s" "valid_policies pol" "within_policy zs cnt pol s0"
  shows "within_policy zs cnt pol s"
  using assms by (induction rule: rtranclp_induct) (auto intro: rate_step_within)

lemma empty_within:
  assumes "valid_policies pol" "\<And>k. zs k s = Map.empty" "\<And>k. cnt k s = None"
  shows "within_policy zs cnt pol s"
  using valid_policies_limits(4-6)[OF assms(1)]
  by (auto simp: within_policy_def slots_def value_of_def assms(2,3) intro: less_imp_le)

text \<open>A refusal tells when to come back: by then the earliest slot has expired.\<close>

lemma purged_shrinks:
  assumes "finite (dom z)" "z m = Some x" "x \<le> t"
  shows "card (dom (purged t z)) < card (dom z)"
proof (rule psubset_card_mono[OF assms(1)])
  have "m \<notin> dom (purged t z)" "m \<in> dom z" using assms(2,3) by (auto simp: purged_def)
  then show "dom (purged t z) \<subset> dom z" using dom_purged[of t z] by blast
qed

lemma concurrency_refusal_needs_full:
  assumes "check_and_reserve ops fc Up clock kid req est p now s = (s', Inl (ConcurrencyRateLimitExceededError ra))"
    "rl_concurrent_requests p = Some n" "0 < n"
  shows "let t = script_now_ms ops (now = None) (micros (case now of Some d \<Rightarrow> d | None \<Rightarrow> clock) div 1000) s
    in zs (ConcurrencyKey kid) s' = purged t (zs (ConcurrencyKey kid) s) \<and> n \<le> int (slots zs kid s')
       \<and> (\<exists>m x. zs (ConcurrencyKey kid) s' m = Some x \<and> ra = Some (max (ceil_seconds (x - t)) 1))"
  using assms(1)
proof (cases rule: check_and_reserve_cases)
  case unchanged
  then show ?thesis by simp
next
  case (ran reply)
  let ?a = "reserve_arguments clock kid req est p now"
  have lim: "ra_concurrency_limit ?a = n" using assms(2,3) by (simp add: or_int_def)
  have kind: "sr_kind reply = ''concurrency''" "\<not> sr_allowed reply"
    using ran(4) by (auto simp: reserve_outcome_def Let_def split: if_splits)
  from ran(3) show ?thesis
  proof (cases rule: reserve_script_cases)
    case (full t)
    have k: "ra_concurrency_key ?a = ConcurrencyKey kid" by simp
    have t: "t = script_now_ms ops (now = None) (micros (case now of Some d \<Rightarrow> d | None \<Rightarrow> clock) div 1000) s"
      using full(2) by (simp add: reserve_arguments_def Let_def)
    have card: "n \<le> int (slots zs kid s')" using full(5) lim by (simp add: zcard slots_def)
    then have "zs (ConcurrencyKey kid) s' \<noteq> Map.empty" using assms(3) by (auto simp: slots_def)
    then obtain m x where e: "rd_zfirst ops (ConcurrencyKey kid) s' = Some (m, x)"
      using zfirst_empty[of "ConcurrencyKey kid" s'] by auto
    have "sr_retry_after reply = max (ceil_seconds (x - t)) 1"
      using full(6) e by (simp add: concurrency_refusal_def Let_def)
    then have "ra = Some (max (ceil_seconds (x - t)) 1)"
      using ran(4) kind by (auto simp: reserve_outcome_def Let_def split: if_splits)
    moreover have "zs (ConcurrencyKey kid) s' = purged t (zs (ConcurrencyKey kid) s)"
      using full(3) by (simp add: zrem_range)
    ultimately show ?thesis using card zfirst[OF e] unfolding t[symmetric] Let_def by blast
  next
    case (windows t s1)
    from windows(1) kind show ?thesis by (cases rule: reserve_windows_cases) auto
  qed
qed

lemma ceil_seconds_covers: "x \<le> 1000 * ceil_seconds x"
  unfolding ceil_seconds_def by linarith

text \<open>The time the script goes by: Redis's own unless the caller passes one.\<close>

lemma retry_after_suffices:
  fixes t t' :: int
  assumes first: "check_and_reserve ops fc Up clock kid req est p now s
       = (s1, Inl (ConcurrencyRateLimitExceededError (Some wait)))"
    and p: "rl_concurrent_requests p = Some n" "0 < n" and full: "int (slots zs kid s1) \<le> n"
    and t: "t = script_now_ms ops (now = None) (micros (case now of Some d \<Rightarrow> d | None \<Rightarrow> clock) div 1000) s"
    and between: "zs (ConcurrencyKey kid) s2 \<subseteq>\<^sub>m zs (ConcurrencyKey kid) s1"
    and t': "t' = script_now_ms ops (now' = None) (micros (case now' of Some d \<Rightarrow> d | None \<Rightarrow> clock') div 1000) s2"
    and later: "t + wait * 1000 \<le> t'"
  shows "snd (check_and_reserve ops fc Up clock' kid req' est' p now' s2) \<noteq> Inl (ConcurrencyRateLimitExceededError ra)"
proof
  assume "snd (check_and_reserve ops fc Up clock' kid req' est' p now' s2) = Inl (ConcurrencyRateLimitExceededError ra)"
  then obtain s3 where second: "check_and_reserve ops fc Up clock' kid req' est' p now' s2
      = (s3, Inl (ConcurrencyRateLimitExceededError ra))" by (metis prod.collapse)
  let ?k = "ConcurrencyKey kid"
  obtain m x where m: "zs ?k s1 m = Some x" and wait: "wait = max (ceil_seconds (x - t)) 1"
    using concurrency_refusal_needs_full[OF first p] by (auto simp: Let_def t)
  have s3: "zs ?k s3 = purged t' (zs ?k s2)" "n \<le> int (slots zs kid s3)"
    using concurrency_refusal_needs_full[OF second p] by (simp_all add: Let_def t')
  have "x \<le> t'" using ceil_seconds_covers[of "x - t"] wait later by linarith
  then have "zs ?k s3 m = None"
    using between m by (cases "zs ?k s2 m") (auto simp: s3(1) purged_def map_le_def dom_def)
  moreover have "dom (zs ?k s3) \<subseteq> dom (zs ?k s1)"
    using dom_purged[of t' "zs ?k s2"] map_le_implies_dom_le[OF between] by (auto simp: s3(1))
  ultimately have "dom (zs ?k s3) \<subset> dom (zs ?k s1)" using m by auto
  from psubset_card_mono[OF finite_zset this] have "slots zs kid s3 < slots zs kid s1" by (simp add: slots_def)
  then show False using s3(2) full by linarith
qed

text \<open>A refusal writes nothing but the removal of expired slots.\<close>

lemma reserve_refusal_frame:
  assumes "reserve_script ops a s = (s', reply)" "\<not> sr_allowed reply"
  shows "cnt k s' = cnt k s \<and> (zs k s' = zs k s \<or> (\<exists>t. zs k s' = purged t (zs k s)))"
  using assms(1)
proof (cases rule: reserve_script_cases)
  case (full t)
  then show ?thesis by (auto simp: zrem_range)
next
  case (windows t s1)
  from windows(1) assms(2) have "s' = s1" by (cases rule: reserve_windows_cases) auto
  then show ?thesis using windows(3) by (auto simp: zrem_range)
qed

lemma refusal_frame:
  assumes "check_and_reserve ops fc Up clock kid req est p now s = (s', Inl e)"
  shows "cnt k s' = cnt k s \<and> (zs k s' = zs k s \<or> (\<exists>t. zs k s' = purged t (zs k s)))"
  using assms
proof (cases rule: check_and_reserve_cases)
  case unchanged
  then show ?thesis by simp
next
  case (ran reply)
  then have "\<not> sr_allowed reply" by (auto simp: reserve_outcome_def Let_def split: if_splits)
  with reserve_refusal_frame[OF ran(3) this] show ?thesis by blast
qed

end

section \<open>An in-memory store\<close>

record mem_store =
  ms_time :: "int \<times> int"
  ms_counters :: "rate_key \<Rightarrow> int option"
  ms_sets :: "rate_key \<Rightarrow> (string \<times> int) list"

definition entries :: "(string \<times> int) list \<Rightarrow> (string \<times> int) list" where
  "entries l = map (\<lambda>m. (m, the (map_of l m))) (remdups (map fst l))"

fun earliest_entry :: "(string \<times> int) list \<Rightarrow> (string \<times> int) option" where
  "earliest_entry [] = None"
| "earliest_entry ((m, x) # r) =
     (case earliest_entry r of None \<Rightarrow> Some (m, x) | Some (m', x') \<Rightarrow> if x \<le> x' then Some (m, x) else Some (m', x'))"

definition mem_redis :: "mem_store redis" where
  "mem_redis =
     \<lparr>rd_time = ms_time,
      rd_get = (\<lambda>k s. ms_counters s k),
      rd_incrby = (\<lambda>k n s. let v = (case ms_counters s k of Some x \<Rightarrow> x | None \<Rightarrow> 0) + n
                            in (s\<lparr>ms_counters := (ms_counters s)(k \<mapsto> v)\<rparr>, v)),
      rd_expire = (\<lambda>k n s. if 0 < n then s
                            else s\<lparr>ms_counters := (ms_counters s)(k := None), ms_sets := (ms_sets s)(k := [])\<rparr>),
      rd_zremrangebyscore = (\<lambda>k t s. (s\<lparr>ms_sets := (ms_sets s)(k := filter (\<lambda>(m, x). t < x) (entries (ms_sets s k)))\<rparr>,
                                      int (length (filter (\<lambda>(m, x). x \<le> t) (entries (ms_sets s k)))))),
      rd_zscore = (\<lambda>k m s. map_of (ms_sets s k) m),
      rd_zcard = (\<lambda>k s. int (length (remdups (map fst (ms_sets s k))))),
      rd_zfirst = (\<lambda>k s. earliest_entry (entries (ms_sets s k))),
      rd_zadd = (\<lambda>k x m s. s\<lparr>ms_sets := (ms_sets s)(k := (m, x) # ms_sets s k)\<rparr>),
      rd_zrem = (\<lambda>k m s. s\<lparr>ms_sets := (ms_sets s)(k := filter (\<lambda>(m', x). m' \<noteq> m) (ms_sets s k))\<rparr>)\<rparr>"

definition mem_set :: "rate_key \<Rightarrow> mem_store \<Rightarrow> string \<Rightarrow> int option" where
  "mem_set k s = map_of (ms_sets s k)"

definition mem_counter :: "rate_key \<Rightarrow> mem_store \<Rightarrow> int option" where
  "mem_counter k s = ms_counters s k"

definition empty_store :: mem_store where
  "empty_store = \<lparr>ms_time = (0, 0), ms_counters = (\<lambda>_. None), ms_sets = (\<lambda>_. [])\<rparr>"

lemma distinct_entries: "distinct (map fst (entries l))"
  by (simp add: entries_def comp_def)

lemma entries_mem: "(m, x) \<in> set (entries l) \<longleftrightarrow> map_of l m = Some x"
proof (cases "map_of l m")
  case None
  then have "m \<notin> fst ` set l" by (simp add: map_of_eq_None_iff)
  with None show ?thesis by (auto simp: entries_def)
next
  case (Some y)
  then have "m \<in> fst ` set l" by (metis map_of_eq_None_iff option.distinct(1))
  with Some show ?thesis by (auto simp: entries_def)
qed

lemma map_of_entries: "map_of (entries l) = map_of l"
proof
  fix m
  show "map_of (entries l) m = map_of l m"
  proof (cases "map_of l m")
    case None
    then show ?thesis using map_of_SomeD[of "entries l" m] by (cases "map_of (entries l) m") (auto simp: entries_mem)
  next
    case (Some x)
    then show ?thesis by (simp add: map_of_is_SomeI[OF distinct_entries] entries_mem)
  qed
qed

lemma map_of_entries_filter: "map_of (filter (\<lambda>(m, x). t < x) (entries l)) = purged t (map_of l)"
proof -
  have "map_of (filter (\<lambda>(m, x). t < x) e) = purged t (map_of e)" if "distinct (map fst e)" for e :: "(string \<times> int) list"
    using that by (induction e) (auto simp: purged_def fun_eq_iff split: option.splits dest: map_of_SomeD, force+)
  from this[OF distinct_entries] show ?thesis by (simp add: map_of_entries)
qed

lemma map_of_filter_ne: "map_of (filter (\<lambda>(m', x). m' \<noteq> m) l) = (map_of l)(m := None)"
  by (induction l) auto

lemma earliest_entry_None: "earliest_entry l = None \<longleftrightarrow> l = []"
  by (cases l rule: earliest_entry.cases) (auto split: option.splits)

lemma earliest_entry_Some: "earliest_entry l = Some (m, x) \<Longrightarrow> (m, x) \<in> set l \<and> (\<forall>(m', x') \<in> set l. x \<le> x')"
  by (induction l arbitrary: m x rule: earliest_entry.induct)
     (fastforce simp: earliest_entry_None split: option.splits if_splits)+

interpretation mem: redis_store mem_redis mem_set mem_counter
proof
  fix k m x s
  assume "rd_zfirst mem_redis k s = Some (m, x)"
  then show "mem_set k s m = Some x \<and> (\<forall>m' x'. mem_set k s m' = Some x' \<longrightarrow> x \<le> x')"
    using earliest_entry_Some[of "entries (ms_sets s k)" m x] by (auto simp: mem_redis_def mem_set_def entries_mem)
next
  fix k s
  show "(rd_zfirst mem_redis k s = None) = (mem_set k s = Map.empty)"
    by (simp add: mem_redis_def mem_set_def earliest_entry_None entries_def)
  show "rd_zcard mem_redis k s = int (card (dom (mem_set k s)))"
    by (simp add: mem_redis_def mem_set_def dom_map_of_conv_image_fst length_remdups_card_conv)
qed (auto simp: mem_redis_def mem_set_def mem_counter_def finite_dom_map_of map_of_entries_filter map_of_filter_ne Let_def)

section \<open>Properties\<close>

text \<open>Sample policy: two requests and fifty tokens a minute, one request at a time.\<close>

definition sample_rate_policy :: rate_limit_policy where
  "sample_rate_policy =
     \<lparr>rl_requests_per_minute = Some 2, rl_tokens_per_minute = Some 50, rl_concurrent_requests = Some 1,
      rl_window_seconds = 60, rl_concurrency_ttl_seconds = Some 300, rl_concurrency_heartbeat_seconds = Some 30,
      rl_concurrency_ttl_grace_seconds = Some 30\<rparr>"

lemmas rate_eval = sample_rate_policy_def check_and_reserve_def validate_inputs_def validate_concurrency_timing_def ensure_def
  policy_concurrency_ttl_seconds_def policy_concurrency_heartbeat_seconds_def policy_concurrency_ttl_grace_seconds_def
  or_int_def has_limits_def reserve_arguments_def reserve_script_def reserve_windows_def bump_def concurrency_refusal_def
  reserve_outcome_def ceil_seconds_def script_now_ms_def mem_redis_def empty_store_def entries_def int_or_none_def
  mem_set_def mem_counter_def purged_def datetime_from_millis_def

lemma sample_rate_policy_valid: "valid_policies (\<lambda>_. sample_rate_policy)"
  by (simp add: valid_policies_def validated_policy_def sample_rate_policy_def positive_when_set_def opt_all_def ensure_def)

definition sample_admitted :: mem_store where
  "sample_admitted = fst (check_and_reserve mem_redis True Up (Aware 0) 7 ''r1'' 20 sample_rate_policy (Some (Aware 0)) empty_store)"

lemma sample_admitted_runs:
  "snd (check_and_reserve mem_redis True Up (Aware 0) 7 ''r1'' 20 sample_rate_policy (Some (Aware 0)) empty_store)
     = Inr \<lparr>rr_allowed = True, rr_limit_type = None, rr_remaining_requests = Some 1, rr_remaining_tokens = Some 30,
            rr_concurrent_in_use = Some 1, rr_reset_at = Some (Aware 60000000),
            rr_concurrency_slot_expires_at = Some (Aware 300000000), rr_retry_after_seconds = None, rr_degraded = False\<rparr>"
  by (simp add: rate_eval Let_def)

lemma sample_admitted_slots: "slots mem_set 7 sample_admitted = 1" "value_of mem_counter (TokensKey 7 0) sample_admitted = 20"
  by (simp_all add: sample_admitted_def slots_def value_of_def rate_eval Let_def)

lemma sample_refused:
  "check_and_reserve mem_redis True Up (Aware 0) 7 ''r2'' 5 sample_rate_policy (Some (Aware 1500000)) sample_admitted
     = (sample_admitted, Inl (ConcurrencyRateLimitExceededError (Some 299)))"
  by (simp add: sample_admitted_def rate_eval Let_def fun_eq_iff)

text \<open>C4: Starting from an empty Redis and with fixed policies, no sequence of reservations, releases,
  heartbeats and clean-ups (from any number of clients, with lost calls and lost replies, and with
  keys expiring at any moment) lets a gateway key hold more concurrency slots, or count more requests
  or more estimated tokens in any window, than its policy allows.
\<close>

theorem rate_limits_never_exceeded:
  assumes "redis_store ops zs cnt" "valid_policies pol" "\<And>k. zs k s0 = Map.empty" "\<And>k. cnt k s0 = None"
    "(rate_step ops zs cnt pol fail_closed)\<^sup>*\<^sup>* s0 s"
  shows "within_policy zs cnt pol s"
  by (rule redis_store.rate_steps_within[OF assms(1,5,2) redis_store.empty_within[OF assms(1-4)]])

theorem rate_limits_never_exceeded_witness:
  "within_policy mem_set mem_counter (\<lambda>_. sample_rate_policy) sample_admitted \<and> slots mem_set 7 sample_admitted = 1"
proof -
  have "rate_step mem_redis mem_set mem_counter (\<lambda>_. sample_rate_policy) True empty_store sample_admitted"
    by (rule rate_step.Reserve) (auto simp: sample_admitted_def prod_eq_iff)
  then have "(rate_step mem_redis mem_set mem_counter (\<lambda>_. sample_rate_policy) True)\<^sup>*\<^sup>* empty_store sample_admitted" by blast
  from rate_limits_never_exceeded[OF mem.redis_store_axioms sample_rate_policy_valid _ _ this]
  show ?thesis by (simp add: sample_admitted_slots empty_store_def mem_set_def mem_counter_def)
qed

text \<open>C28: The retry time announced by a concurrency refusal is honest: a client that comes back when it
  has passed by the clock the limiter goes by (Redis's own clock, as in the gateway, or a time passed by
  the caller), with any request id, is not refused for concurrency again, because the slot that expires
  first is gone by then.  This needs that nobody took or renewed a slot in between, and that not more
  slots were taken than the limit, as can happen when the limit has been lowered.
\<close>

theorem refusal_retry_after_suffices:
  assumes "redis_store ops zs cnt"
    "check_and_reserve ops fc Up clock kid req est p now s = (s1, Inl (ConcurrencyRateLimitExceededError (Some wait)))"
    "rl_concurrent_requests p = Some n" "0 < n" "int (slots zs kid s1) \<le> n"
    "t = script_now_ms ops (now = None) (micros (case now of Some d \<Rightarrow> d | None \<Rightarrow> clock) div 1000) s"
    "zs (ConcurrencyKey kid) s2 \<subseteq>\<^sub>m zs (ConcurrencyKey kid) s1"
    "t' = script_now_ms ops (now' = None) (micros (case now' of Some d \<Rightarrow> d | None \<Rightarrow> clock') div 1000) s2"
    "t + wait * 1000 \<le> t'"
  shows "snd (check_and_reserve ops fc Up clock' kid req' est' p now' s2) \<noteq> Inl (ConcurrencyRateLimitExceededError ra)"
  by (rule redis_store.retry_after_suffices[OF assms])

text \<open>The sample store when Redis's clock shows the given second.\<close>

definition sample_at :: "int \<Rightarrow> mem_store" where
  "sample_at seconds = sample_admitted\<lparr>ms_time := (seconds, 0)\<rparr>"

lemma sample_refused_by_redis_time:
  "check_and_reserve mem_redis True Up (Aware 0) 7 ''r2'' 5 sample_rate_policy None (sample_at 2)
     = (sample_at 2, Inl (ConcurrencyRateLimitExceededError (Some 298)))"
  by (simp add: sample_at_def sample_admitted_def rate_eval Let_def fun_eq_iff)

theorem refusal_retry_after_suffices_witness:
  "snd (check_and_reserve mem_redis True Up (Aware 0) 7 ''r2'' 5 sample_rate_policy None (sample_at 300))
     \<noteq> Inl (ConcurrencyRateLimitExceededError (Some 1))"
proof -
  have s: "slots mem_set 7 (sample_at 2) = 1"
    using sample_admitted_slots by (simp add: sample_at_def slots_def mem_set_def)
  show ?thesis
    by (rule refusal_retry_after_suffices[OF mem.redis_store_axioms sample_refused_by_redis_time, where n = 1, OF _ _ _ refl _ refl])
       (simp_all add: s[unfolded sample_at_def] sample_rate_policy_def script_now_ms_def mem_redis_def sample_at_def mem_set_def)
qed

text \<open>A reservation that Redis refuses (for requests, tokens or concurrency, or an invalid input)
  consumes nothing: every counter is as before and every set has at most lost members that had
  expired.
\<close>

theorem refused_reserves_nothing:
  assumes "redis_store ops zs cnt" "check_and_reserve ops fc Up clock kid req est p now s = (s', Inl e)"
  shows "cnt k s' = cnt k s \<and> (zs k s' = zs k s \<or> (\<exists>t. zs k s' = purged t (zs k s)))"
  by (rule redis_store.refusal_frame[OF assms])

theorem refused_reserves_nothing_witness: "mem_counter (TokensKey 7 0) sample_admitted = Some 20"
  using refused_reserves_nothing[OF mem.redis_store_axioms sample_refused, of "TokensKey 7 0"]
  by (simp add: sample_admitted_def rate_eval Let_def)

text \<open>A stored lazy-throttling policy is read back exactly when its mode is one of the two known
  ones and both numbers are positive and within the deployment's ceilings; in every other case the
  reader gets none, which means immediate rejection.
\<close>

theorem lazy_policy_roundtrip:
  "parse_lazy_throttling_policy_metadata (PDict (lazy_to_metadata p)) wait_ceiling waiting_ceiling =
     (if lt_mode p \<in> {''reject'', ''wait''} \<and> 0 < lt_max_wait_seconds p \<and> lt_max_wait_seconds p \<le> wait_ceiling
         \<and> 0 < lt_max_waiting_requests p \<and> lt_max_waiting_requests p \<le> waiting_ceiling
      then Some p else None)"
  by (auto simp: parse_lazy_throttling_policy_metadata_def lazy_to_metadata_def dget_default_def)

end
