(* ===== verification/LazyThrottling.thy ===== *)
theory LazyThrottling
  imports RateLimit
begin

text \<open>
  Bounded waiting for rate-limit capacity: \<open>services/lazy_throttling.py\<close>.

  The two Lua scripts of the waiting lease run on the Redis interface of \<open>RateLimit\<close>.  The wait loop
  is asynchronous: an \<open>await_event\<close> says, for the n-th await of a run, how long it takes, what other
  clients did to Redis before it, how the connection behaved, and whether it completed, hit its time
  bound or was cancelled (in the last two cases the call may or may not have been executed).  All
  runs are covered by quantifying over the event sequence.  Times are whole microseconds, so the
  delays 0.05, 0.1 and 1.0 are 50000, 100000 and 1000000.

  The loop is recursion on a number of passes; \<open>wait_ends\<close> shows that five passes per second of
  waiting plus one always suffice.  Also shown: an admission is taken only before the deadline and
  under the context that was validated last, waiting leases never exceed the caps, and the lease is
  gone on every exit.  \<open>late_probe_leaks_slot\<close> says when the code does not do what its
  documentation says.

  The disconnect probe has its own bound of 0.05 seconds, so the wait budget can run out in it only when
  no more than that is left of it.
\<close>

section \<open>The waiting lease\<close>

definition waiter_member :: "uuid \<Rightarrow> string \<Rightarrow> string" where
  "waiter_member kid request_id = uuid_str kid @ '':'' @ request_id"

record waiting_args =
  wa_per_key :: rate_key
  wa_now_ms :: int
  wa_deadline_ms :: int
  wa_member :: string
  wa_max_per_key :: int
  wa_max_total :: int
  wa_ttl :: int

definition acquire_waiting_script :: "'s redis \<Rightarrow> waiting_args \<Rightarrow> 's \<Rightarrow> 's \<times> bool" where
  "acquire_waiting_script ops a s =
     (let s1 = fst (rd_zremrangebyscore ops (wa_per_key a) (wa_now_ms a) s);
          s2 = fst (rd_zremrangebyscore ops GlobalWaitingKey (wa_now_ms a) s1)
      in if wa_max_per_key a \<le> rd_zcard ops (wa_per_key a) s2 then (s2, False)
         else if wa_max_total a \<le> rd_zcard ops GlobalWaitingKey s2 then (s2, False)
         else
           let s3 = rd_zadd ops (wa_per_key a) (wa_deadline_ms a) (wa_member a) s2;
               s4 = rd_zadd ops GlobalWaitingKey (wa_deadline_ms a) (wa_member a) s3;
               s5 = rd_expire ops (wa_per_key a) (wa_ttl a) s4
           in (rd_expire ops GlobalWaitingKey (wa_ttl a) s5, True))"

definition release_waiting_script :: "'s redis \<Rightarrow> rate_key \<Rightarrow> string \<Rightarrow> 's \<Rightarrow> 's" where
  "release_waiting_script ops key member s = rd_zrem ops GlobalWaitingKey member (rd_zrem ops key member s)"

definition acquire_waiting_lease ::
  "'s redis \<Rightarrow> bool \<Rightarrow> redis_link \<Rightarrow> pydatetime \<Rightarrow> uuid \<Rightarrow> string \<Rightarrow> pydatetime \<Rightarrow> int \<Rightarrow> int \<Rightarrow> int
     \<Rightarrow> pydatetime option \<Rightarrow> 's \<Rightarrow> 's \<times> bool result" where
  "acquire_waiting_lease ops fail_closed link clock kid request_id lease_deadline max_per_key max_total ttl now s =
     (let args = \<lparr>wa_per_key = PerKeyWaitingKey kid,
                  wa_now_ms = micros (case now of Some d \<Rightarrow> d | None \<Rightarrow> clock) div 1000,
                  wa_deadline_ms = micros lease_deadline div 1000,
                  wa_member = waiter_member kid request_id,
                  wa_max_per_key = max_per_key, wa_max_total = max_total, wa_ttl = ttl\<rparr>;
          (s1, granted) = acquire_waiting_script ops args s;
          unavailable = (if fail_closed then Inl RedisRateLimitUnavailableError else Inr True)
      in case link of
           Up \<Rightarrow> (s1, Inr granted)
         | Down \<Rightarrow> (s, unavailable)
         | ReplyLost \<Rightarrow> (s1, unavailable))"

definition release_waiting_lease :: "'s redis \<Rightarrow> redis_link \<Rightarrow> uuid \<Rightarrow> string \<Rightarrow> 's \<Rightarrow> 's \<times> unit result" where
  "release_waiting_lease ops link kid request_id s =
     (let s1 = release_waiting_script ops (PerKeyWaitingKey kid) (waiter_member kid request_id) s
      in case link of
           Up \<Rightarrow> (s1, Inr ())
         | Down \<Rightarrow> (s, Inl RedisError)
         | ReplyLost \<Rightarrow> (s1, Inl RedisError))"

text \<open>The diagnostic counts: two commands per key; \<open>links i\<close> is the connection at the i-th of them.\<close>

fun count_waiting_keys ::
  "'s redis \<Rightarrow> (nat \<Rightarrow> redis_link) \<Rightarrow> nat \<Rightarrow> int \<Rightarrow> rate_key list \<Rightarrow> 's \<Rightarrow> 's \<times> (rate_key \<times> int) list result" where
  "count_waiting_keys ops links i now_ms [] s = (s, Inr [])"
| "count_waiting_keys ops links i now_ms (k # ks) s =
     (let s1 = (if links i = Down then s else fst (rd_zremrangebyscore ops k now_ms s))
      in if links i \<noteq> Up \<or> links (i + 1) \<noteq> Up then (s1, Inl RedisError)
         else let n = rd_zcard ops k s1;
                  (s2, r) = count_waiting_keys ops links (i + 2) now_ms ks s1
              in (s2, map_sum id (\<lambda>l. (k, n) # l) r))"

definition count_waiting ::
  "'s redis \<Rightarrow> (nat \<Rightarrow> redis_link) \<Rightarrow> pydatetime \<Rightarrow> uuid option \<Rightarrow> pydatetime option \<Rightarrow> 's
     \<Rightarrow> 's \<times> (rate_key \<times> int) list result" where
  "count_waiting ops links clock kid now s =
     count_waiting_keys ops links 0 (micros (case now of Some d \<Rightarrow> d | None \<Rightarrow> clock) div 1000)
       (GlobalWaitingKey # (case kid of Some k \<Rightarrow> [PerKeyWaitingKey k] | None \<Rightarrow> [])) s"

section \<open>Awaits\<close>

datatype await_end = Completes | TimesOut bool | IsCancelled bool

record 's await_event =
  ev_elapsed :: nat
  ev_others :: "'s \<Rightarrow> 's"
  ev_end :: await_end
  ev_link :: redis_link
  ev_clock :: pydatetime
  ev_gone :: bool

datatype wait_exn = Raised gateway_error | CancelledError | WaitBudgetExhausted

datatype wait_outcome = ADMITTED | DEADLINE | CAPACITY_FULL | CANCELLED | REVALIDATION_FAILED | NEVER_FIT

record 's wait_world =
  ww_mono :: int
  ww_step :: nat
  ww_store :: 's
  ww_outcome :: "wait_outcome option"

definition with_outcome :: "wait_outcome \<Rightarrow> 's wait_world \<Rightarrow> 's wait_world" where
  "with_outcome x w = w\<lparr>ww_outcome := Some x\<rparr>"

text \<open>The state after an await that took \<open>t\<close> microseconds and left \<open>s\<close>.\<close>

definition after_await :: "int \<Rightarrow> 's \<Rightarrow> 's wait_world \<Rightarrow> 's wait_world" where
  "after_await t s w = w\<lparr>ww_mono := t, ww_step := ww_step w + 1, ww_store := s\<rparr>"

definition within_budget ::
  "(nat \<Rightarrow> 's await_event) \<Rightarrow> int \<Rightarrow> ('s await_event \<Rightarrow> 's \<Rightarrow> 's \<times> 'a result) \<Rightarrow> 's wait_world
     \<Rightarrow> 's wait_world \<times> (wait_exn + 'a)" where
  "within_budget env deadline coro w =
     (if deadline - ww_mono w \<le> 0 then (w, Inl WaitBudgetExhausted)
      else
        let ev = env (ww_step w);
            s0 = ev_others ev (ww_store w);
            (s1, r) = coro ev s0;
            t = ww_mono w + int (ev_elapsed ev)
        in case ev_end ev of
             Completes \<Rightarrow> (after_await t s1 w, map_sum Raised id r)
           | TimesOut sent \<Rightarrow> (after_await (max t deadline) (if sent then s1 else s0) w, Inl WaitBudgetExhausted)
           | IsCancelled sent \<Rightarrow> (after_await t (if sent then s1 else s0) w, Inl CancelledError))"

text \<open>Clean-up has its own bound; its failures are swallowed, a cancellation is not.\<close>

definition bookkeeping ::
  "(nat \<Rightarrow> 's await_event) \<Rightarrow> ('s await_event \<Rightarrow> 's \<Rightarrow> 's \<times> unit result) \<Rightarrow> 's wait_world
     \<Rightarrow> 's wait_world \<times> (wait_exn + unit)" where
  "bookkeeping env coro w =
     (let ev = env (ww_step w);
          s0 = ev_others ev (ww_store w);
          s1 = fst (coro ev s0);
          t = ww_mono w + int (ev_elapsed ev)
      in case ev_end ev of
           Completes \<Rightarrow> (after_await t s1 w, Inr ())
         | TimesOut sent \<Rightarrow> (after_await t (if sent then s1 else s0) w, Inr ())
         | IsCancelled sent \<Rightarrow> (after_await t (if sent then s1 else s0) w, Inl CancelledError))"

definition sleep_for :: "(nat \<Rightarrow> 's await_event) \<Rightarrow> int \<Rightarrow> 's wait_world \<Rightarrow> 's wait_world \<times> (wait_exn + unit)" where
  "sleep_for env d w =
     (let ev = env (ww_step w);
          s0 = ev_others ev (ww_store w);
          t = ww_mono w + int (ev_elapsed ev)
      in case ev_end ev of
           IsCancelled _ \<Rightarrow> (after_await t s0 w, Inl CancelledError)
         | _ \<Rightarrow> (after_await (t + d) s0 w, Inr ()))"

section \<open>The wait loop\<close>

record 'x lazy_context =
  lc_gateway_key_id :: uuid
  lc_limiter_policy :: rate_limit_policy
  lc_estimated_tokens :: int
  lc_payload :: 'x

text \<open>
  The caller's hooks: the limiter, the slot release, the re-validation (n-th call) and whether a
  disconnect probe is supplied.
\<close>

record ('s, 'x) wait_hooks =
  wh_check_and_reserve :: "uuid \<Rightarrow> string \<Rightarrow> int \<Rightarrow> rate_limit_policy \<Rightarrow> 's await_event \<Rightarrow> 's \<Rightarrow> 's \<times> rate_limit_result result"
  wh_release_admission_slot :: "('s await_event \<Rightarrow> 's \<Rightarrow> 's \<times> unit result) option"
  wh_revalidate :: "(nat \<Rightarrow> 'x lazy_context \<Rightarrow> 'x lazy_context result) option"
  wh_is_disconnected :: bool

definition deadline_error :: gateway_error where
  "deadline_error = LazyThrottlingDeadlineExceededError (Some 1)"

fun is_rate_limit_error :: "gateway_error \<Rightarrow> bool" where
  "is_rate_limit_error (RequestRateLimitExceededError _) = True"
| "is_rate_limit_error (TokenRateLimitExceededError _) = True"
| "is_rate_limit_error (ConcurrencyRateLimitExceededError _) = True"
| "is_rate_limit_error (InvalidRateLimitPolicyError _) = True"
| "is_rate_limit_error RedisRateLimitUnavailableError = True"
| "is_rate_limit_error RateLimitReleaseError = True"
| "is_rate_limit_error ClientDisconnectedError = True"
| "is_rate_limit_error (LazyThrottlingDeadlineExceededError _) = True"
| "is_rate_limit_error (LazyThrottlingWaitingCapacityFullError _) = True"
| "is_rate_limit_error _ = False"

text \<open>The three refusals after which the loop tries again.\<close>

fun is_temporary :: "gateway_error \<Rightarrow> bool" where
  "is_temporary (RequestRateLimitExceededError _) = True"
| "is_temporary (TokenRateLimitExceededError _) = True"
| "is_temporary (ConcurrencyRateLimitExceededError _) = True"
| "is_temporary _ = False"

text \<open>
  The transport probe waits at most 0.05 seconds for a message and then reports that the client is there;
  only when the wait budget has no more than that left can it end the probe.
\<close>

definition disconnect_probe :: "int \<Rightarrow> 's await_event \<Rightarrow> 's await_event" where
  "disconnect_probe remaining ev =
     (let timeout = ev\<lparr>ev_elapsed := max 50000 (ev_elapsed ev), ev_end := Completes, ev_gone := False\<rparr>
      in case ev_end ev of
           Completes \<Rightarrow> if ev_elapsed ev \<le> 50000 then ev else timeout
         | TimesOut _ \<Rightarrow> if remaining \<le> 50000 then ev else timeout
         | IsCancelled _ \<Rightarrow> ev)"

definition client_gone ::
  "('s, 'x) wait_hooks \<Rightarrow> (nat \<Rightarrow> 's await_event) \<Rightarrow> int \<Rightarrow> 's wait_world \<Rightarrow> 's wait_world \<times> (wait_exn + bool)" where
  "client_gone h env deadline w =
     (if \<not> wh_is_disconnected h then (w, Inr False)
      else case within_budget (\<lambda>i. disconnect_probe (deadline - ww_mono w) (env i)) deadline (\<lambda>ev s. (s, Inr (ev_gone ev))) w of
             (w1, Inl WaitBudgetExhausted) \<Rightarrow> (with_outcome DEADLINE w1, Inl (Raised deadline_error))
           | r \<Rightarrow> r)"

definition release_admitted_slot_quietly ::
  "('s, 'x) wait_hooks \<Rightarrow> (nat \<Rightarrow> 's await_event) \<Rightarrow> 's wait_world \<Rightarrow> 's wait_world \<times> (wait_exn + unit)" where
  "release_admitted_slot_quietly h env w =
     (case wh_release_admission_slot h of None \<Rightarrow> (w, Inr ()) | Some release \<Rightarrow> bookkeeping env release w)"

datatype 'r pass_end = Returns 'r | Raises wait_exn | TryAgain

text \<open>Release the slot, then leave with \<open>x\<close> (a cancelled release leaves with the cancellation).\<close>

definition release_then_raise ::
  "('s, 'x) wait_hooks \<Rightarrow> (nat \<Rightarrow> 's await_event) \<Rightarrow> wait_outcome option \<Rightarrow> wait_exn \<Rightarrow> 's wait_world
     \<Rightarrow> 's wait_world \<times> 'r pass_end" where
  "release_then_raise h env out x w =
     (case release_admitted_slot_quietly h env w of
        (w1, Inl e) \<Rightarrow> (w1, Raises e)
      | (w1, Inr _) \<Rightarrow> ((case out of Some y \<Rightarrow> with_outcome y w1 | None \<Rightarrow> w1), Raises x))"

definition revalidate_step ::
  "('s, 'x) wait_hooks \<Rightarrow> (nat \<Rightarrow> 's await_event) \<Rightarrow> int \<Rightarrow> 'x lazy_context \<Rightarrow> 's wait_world
     \<Rightarrow> 's wait_world \<times> (wait_exn + 'x lazy_context)" where
  "revalidate_step h env deadline c w =
     (case wh_revalidate h of
        None \<Rightarrow> (w, Inr c)
      | Some f \<Rightarrow>
          (case within_budget env deadline (\<lambda>ev s. (s, f (ww_step w) c)) w of
             (w1, Inl WaitBudgetExhausted) \<Rightarrow> (with_outcome DEADLINE w1, Inl (Raised deadline_error))
           | (w1, Inl (Raised e)) \<Rightarrow>
               ((if is_rate_limit_error e then w1 else with_outcome REVALIDATION_FAILED w1), Inl (Raised e))
           | r \<Rightarrow> r))"

definition admit_step ::
  "('s, 'x) wait_hooks \<Rightarrow> (nat \<Rightarrow> 's await_event) \<Rightarrow> int \<Rightarrow> string \<Rightarrow> 'x lazy_context \<Rightarrow> 's wait_world
     \<Rightarrow> 's wait_world \<times> rate_limit_result pass_end" where
  "admit_step h env deadline request_id c w =
     (case within_budget env deadline
             (wh_check_and_reserve h (lc_gateway_key_id c) request_id (lc_estimated_tokens c) (lc_limiter_policy c)) w of
        (w1, Inl WaitBudgetExhausted) \<Rightarrow> release_then_raise h env (Some DEADLINE) (Raised deadline_error) w1
      | (w1, Inl CancelledError) \<Rightarrow> release_then_raise h env None CancelledError w1
      | (w1, Inl (Raised e)) \<Rightarrow> (w1, if is_temporary e then TryAgain else Raises (Raised e))
      | (w1, Inr result) \<Rightarrow>
          (case client_gone h env deadline w1 of
             (w2, Inl CancelledError) \<Rightarrow> release_then_raise h env None CancelledError w2
           | (w2, Inl e) \<Rightarrow> (w2, Raises e)
           | (w2, Inr gone) \<Rightarrow>
               if gone then release_then_raise h env (Some CANCELLED) (Raised ClientDisconnectedError) w2
               else if deadline \<le> ww_mono w2 then release_then_raise h env (Some DEADLINE) (Raised deadline_error) w2
               else (with_outcome ADMITTED w2, Returns result)))"

definition never_fits :: "int \<Rightarrow> rate_limit_policy \<Rightarrow> bool" where
  "never_fits estimated_tokens p = (case rl_tokens_per_minute p of Some n \<Rightarrow> n < estimated_tokens | None \<Rightarrow> False)"

text \<open>One pass of the loop up to the sleep, with the context it leaves.\<close>

definition wait_pass ::
  "('s, 'x) wait_hooks \<Rightarrow> (nat \<Rightarrow> 's await_event) \<Rightarrow> int \<Rightarrow> string \<Rightarrow> 'x lazy_context \<Rightarrow> 's wait_world
     \<Rightarrow> 's wait_world \<times> 'x lazy_context \<times> rate_limit_result pass_end" where
  "wait_pass h env deadline request_id c w =
     (case client_gone h env deadline w of
        (w1, Inl e) \<Rightarrow> (w1, c, Raises e)
      | (w1, Inr gone) \<Rightarrow>
          if gone then (with_outcome CANCELLED w1, c, Raises (Raised ClientDisconnectedError))
          else if deadline \<le> ww_mono w1 then (with_outcome DEADLINE w1, c, Raises (Raised deadline_error))
          else
            (case revalidate_step h env deadline c w1 of
               (w2, Inl e) \<Rightarrow> (w2, c, Raises e)
             | (w2, Inr c1) \<Rightarrow>
                 if deadline \<le> ww_mono w2 then (with_outcome DEADLINE w2, c1, Raises (Raised deadline_error))
                 else if never_fits (lc_estimated_tokens c1) (lc_limiter_policy c1)
                 then (with_outcome NEVER_FIT w2, c1,
                       Raises (Raised (TokenRateLimitExceededError (Some (rl_window_seconds (lc_limiter_policy c1))))))
                 else (let (w3, e) = admit_step h env deadline request_id c1 w2 in (w3, c1, e))))"

primrec wait_loop ::
  "('s, 'x) wait_hooks \<Rightarrow> (nat \<Rightarrow> 's await_event) \<Rightarrow> int \<Rightarrow> string \<Rightarrow> nat \<Rightarrow> int \<Rightarrow> 'x lazy_context \<Rightarrow> 's wait_world
     \<Rightarrow> ('s wait_world \<times> (wait_exn + rate_limit_result \<times> 'x lazy_context)) option" where
  "wait_loop h env deadline request_id 0 delay c w = None"
| "wait_loop h env deadline request_id (Suc n) delay c w =
     (case wait_pass h env deadline request_id c w of
        (w1, c1, Returns r) \<Rightarrow> Some (w1, Inr (r, c1))
      | (w1, c1, Raises e) \<Rightarrow> Some (w1, Inl e)
      | (w1, c1, TryAgain) \<Rightarrow>
          (let remaining = deadline - ww_mono w1;
               next_delay = min (delay * 2) 1000000
           in case sleep_for env (min (max next_delay 50000) (max remaining 0)) w1 of
                (w2, Inl e) \<Rightarrow> Some (w2, Inl e)
              | (w2, Inr _) \<Rightarrow> wait_loop h env deadline request_id n next_delay c1 w2))"

text \<open>The \<open>except CancelledError\<close> and \<open>finally\<close> clauses.\<close>

definition leave_wait ::
  "('s, 'x) wait_hooks \<Rightarrow> 's redis \<Rightarrow> (nat \<Rightarrow> 's await_event) \<Rightarrow> uuid \<Rightarrow> string
     \<Rightarrow> 's wait_world \<times> (wait_exn + 'r) \<Rightarrow> 's wait_world \<times> (wait_exn + 'r)" where
  "leave_wait h ops env kid request_id wr =
     (let (w, r) = wr;
          w0 = (if r = Inl CancelledError then with_outcome CANCELLED w else w)
      in case bookkeeping env (\<lambda>ev s. release_waiting_lease ops (ev_link ev) kid request_id s) w0 of
           (w1, Inr _) \<Rightarrow> (w1, r)
         | (w1, Inl _) \<Rightarrow> (fst (release_admitted_slot_quietly h env (with_outcome CANCELLED w1)), Inl CancelledError))"

definition wait_for_rate_limit_admission ::
  "nat \<Rightarrow> ('s, 'x) wait_hooks \<Rightarrow> 's redis \<Rightarrow> bool \<Rightarrow> (nat \<Rightarrow> 's await_event) \<Rightarrow> pydatetime \<Rightarrow> 'x lazy_context \<Rightarrow> int
     \<Rightarrow> lazy_throttling_policy \<Rightarrow> string \<Rightarrow> int \<Rightarrow> int \<Rightarrow> 's wait_world
     \<Rightarrow> ('s wait_world \<times> (wait_exn + rate_limit_result \<times> 'x lazy_context)) option" where
  "wait_for_rate_limit_admission passes h ops fail_closed env started_wall initial estimated_tokens lazy request_id
     max_waiting_total lease_ttl_seconds w =
     (let deadline = ww_mono w + lt_max_wait_seconds lazy * 1000000;
          p = lc_limiter_policy initial;
          lease_ttl = max lease_ttl_seconds (lt_max_wait_seconds lazy + 30);
          lease_deadline = Aware (micros started_wall + lease_ttl * 1000000);
          kid = lc_gateway_key_id initial
      in
      if never_fits estimated_tokens p
      then Some (with_outcome NEVER_FIT w, Inl (Raised (TokenRateLimitExceededError (Some (rl_window_seconds p)))))
      else
        map_option (leave_wait h ops env kid request_id)
          (case within_budget env deadline
                  (\<lambda>ev. acquire_waiting_lease ops fail_closed (ev_link ev) (ev_clock ev) kid request_id lease_deadline
                          (lt_max_waiting_requests lazy) max_waiting_total lease_ttl None) w of
             (w1, Inl WaitBudgetExhausted) \<Rightarrow> Some (with_outcome DEADLINE w1, Inl (Raised deadline_error))
           | (w1, Inl e) \<Rightarrow> Some (w1, Inl e)
           | (w1, Inr acquired) \<Rightarrow>
               if \<not> acquired
               then Some (with_outcome CAPACITY_FULL w1, Inl (Raised (LazyThrottlingWaitingCapacityFullError (Some 1))))
               else wait_loop h env deadline request_id passes 100000 initial w1))"

text \<open>The hooks the chat completions gateway passes (its re-validation stays a parameter).\<close>

definition gateway_hooks ::
  "'s redis \<Rightarrow> bool \<Rightarrow> uuid \<Rightarrow> string \<Rightarrow> (nat \<Rightarrow> 'x lazy_context \<Rightarrow> 'x lazy_context result) option \<Rightarrow> bool
     \<Rightarrow> ('s, 'x) wait_hooks" where
  "gateway_hooks ops fail_closed kid request_id revalidate probe =
     \<lparr>wh_check_and_reserve = (\<lambda>k r est p ev s. check_and_reserve ops fail_closed (ev_link ev) (ev_clock ev) k r est p None s),
      wh_release_admission_slot = Some (\<lambda>ev s. release_concurrency ops (ev_link ev) kid request_id s),
      wh_revalidate = revalidate, wh_is_disconnected = probe\<rparr>"

section \<open>Time\<close>

lemma after_await_simps [simp]:
  "ww_mono (after_await t s w) = t" "ww_store (after_await t s w) = s" "ww_step (after_await t s w) = ww_step w + 1"
  "ww_outcome (after_await t s w) = ww_outcome w"
  by (simp_all add: after_await_def)

lemma with_outcome_simps [simp]:
  "ww_mono (with_outcome x w) = ww_mono w" "ww_store (with_outcome x w) = ww_store w"
  "ww_step (with_outcome x w) = ww_step w" "ww_outcome (with_outcome x w) = Some x"
  by (simp_all add: with_outcome_def)

lemma within_budget_cases:
  assumes "within_budget env deadline coro w = (w1, r)"
  obtains (exhausted) "deadline \<le> ww_mono w" "w1 = w" "r = Inl WaitBudgetExhausted"
  | (completed) s1 x where "ww_mono w < deadline" "ev_end (env (ww_step w)) = Completes"
      "coro (env (ww_step w)) (ev_others (env (ww_step w)) (ww_store w)) = (s1, x)" "r = map_sum Raised id x"
      "w1 = after_await (ww_mono w + int (ev_elapsed (env (ww_step w)))) s1 w"
  | (timed_out) sent where "ww_mono w < deadline" "ev_end (env (ww_step w)) = TimesOut sent" "r = Inl WaitBudgetExhausted"
      "w1 = after_await (max (ww_mono w + int (ev_elapsed (env (ww_step w)))) deadline)
         (if sent then fst (coro (env (ww_step w)) (ev_others (env (ww_step w)) (ww_store w)))
          else ev_others (env (ww_step w)) (ww_store w)) w"
  | (cancelled) sent where "ww_mono w < deadline" "ev_end (env (ww_step w)) = IsCancelled sent" "r = Inl CancelledError"
      "w1 = after_await (ww_mono w + int (ev_elapsed (env (ww_step w))))
         (if sent then fst (coro (env (ww_step w)) (ev_others (env (ww_step w)) (ww_store w)))
          else ev_others (env (ww_step w)) (ww_store w)) w"
proof (cases "deadline \<le> ww_mono w")
  case True
  with assms show ?thesis by (intro exhausted) (auto simp: within_budget_def)
next
  case False
  obtain s1 x where c: "coro (env (ww_step w)) (ev_others (env (ww_step w)) (ww_store w)) = (s1, x)" by fastforce
  show ?thesis
  proof (cases "ev_end (env (ww_step w))")
    case Completes
    with False assms c show ?thesis by (intro completed) (auto simp: within_budget_def Let_def)
  next
    case (TimesOut sent)
    with False assms c show ?thesis by (intro timed_out) (auto simp: within_budget_def Let_def)
  next
    case (IsCancelled sent)
    with False assms c show ?thesis by (intro cancelled) (auto simp: within_budget_def Let_def)
  qed
qed

lemma within_budget_Inr:
  assumes "within_budget env deadline coro w = (w1, Inr y)"
  obtains s1 where "ww_mono w < deadline" "ww_mono w \<le> ww_mono w1" "ww_store w1 = s1" "ww_step w1 = ww_step w + 1"
    "coro (env (ww_step w)) (ev_others (env (ww_step w)) (ww_store w)) = (s1, Inr y)"
  using assms
proof (cases rule: within_budget_cases)
  case (completed s1 x)
  then show ?thesis by (cases x) (auto intro: that)
qed auto

lemma within_budget_Raised:
  assumes "within_budget env deadline coro w = (w1, Inl (Raised e))"
  obtains s1 where "ww_mono w < deadline" "ww_mono w \<le> ww_mono w1" "ww_store w1 = s1" "ww_step w1 = ww_step w + 1"
    "coro (env (ww_step w)) (ev_others (env (ww_step w)) (ww_store w)) = (s1, Inl e)"
  using assms
proof (cases rule: within_budget_cases)
  case (completed s1 x)
  then show ?thesis by (cases x) (auto intro: that)
qed auto

lemma client_gone_Inr:
  assumes "client_gone h env deadline w = (w1, Inr g)"
  shows "ww_mono w \<le> ww_mono w1"
proof (cases "wh_is_disconnected h")
  case True
  then have "within_budget (\<lambda>i. disconnect_probe (deadline - ww_mono w) (env i)) deadline (\<lambda>ev s. (s, Inr (ev_gone ev))) w = (w1, Inr g)"
    using assms by (auto simp: client_gone_def split: prod.splits sum.splits wait_exn.splits)
  then show ?thesis by (elim within_budget_Inr)
next
  case False
  then show ?thesis using assms by (simp add: client_gone_def)
qed

lemma revalidate_step_Inr:
  assumes "revalidate_step h env deadline c w = (w1, Inr c1)"
  shows "ww_mono w \<le> ww_mono w1" "wh_revalidate h = Some f \<Longrightarrow> f (ww_step w) c = Inr c1"
    "wh_revalidate h = None \<Longrightarrow> c1 = c"
proof -
  have "within_budget env deadline (\<lambda>ev s. (s, f (ww_step w) c)) w = (w1, Inr c1)" if "wh_revalidate h = Some f" for f
    using assms that by (auto simp: revalidate_step_def split: prod.splits sum.splits wait_exn.splits if_splits)
  then have r: "ww_mono w \<le> ww_mono w1 \<and> f (ww_step w) c = Inr c1" if "wh_revalidate h = Some f" for f
    using that by (metis (no_types, lifting) Pair_inject within_budget_Inr)
  from r show "wh_revalidate h = Some f \<Longrightarrow> f (ww_step w) c = Inr c1" by simp
  from assms show "wh_revalidate h = None \<Longrightarrow> c1 = c" by (simp add: revalidate_step_def)
  show "ww_mono w \<le> ww_mono w1"
    using r assms by (cases "wh_revalidate h") (auto simp: revalidate_step_def)
qed

lemma release_then_raise_neq [simp]:
  "release_then_raise h env out x w \<noteq> (w1, TryAgain)" "release_then_raise h env out x w \<noteq> (w1, Returns r)"
  by (auto simp: release_then_raise_def split: prod.splits sum.splits)

text \<open>A pass that lets the loop go on ran before the deadline, and the limiter refused for now.\<close>

lemma admit_step_again:
  assumes "admit_step h env deadline req c w = (w1, TryAgain)"
  obtains e s1 where "ww_mono w \<le> ww_mono w1" "is_temporary e" "ww_store w1 = s1"
    "wh_check_and_reserve h (lc_gateway_key_id c) req (lc_estimated_tokens c) (lc_limiter_policy c) (env (ww_step w))
       (ev_others (env (ww_step w)) (ww_store w)) = (s1, Inl e)"
proof -
  let ?check = "wh_check_and_reserve h (lc_gateway_key_id c) req (lc_estimated_tokens c) (lc_limiter_policy c)"
  obtain e where "within_budget env deadline ?check w = (w1, Inl (Raised e))" "is_temporary e"
    using assms unfolding admit_step_def
    by (auto split: prod.splits sum.splits wait_exn.splits if_splits)
  then show ?thesis by (elim within_budget_Raised) (rule that)
qed

lemma admit_step_returns:
  assumes "admit_step h env deadline req c w = (w1, Returns r)"
  obtains ev s s1 where "ww_mono w1 < deadline" "ww_outcome w1 = Some ADMITTED"
    "wh_check_and_reserve h (lc_gateway_key_id c) req (lc_estimated_tokens c) (lc_limiter_policy c) ev s = (s1, Inr r)"
proof -
  let ?check = "wh_check_and_reserve h (lc_gateway_key_id c) req (lc_estimated_tokens c) (lc_limiter_policy c)"
  obtain w2 where "within_budget env deadline ?check w = (w2, Inr r)" "ww_mono w1 < deadline" "ww_outcome w1 = Some ADMITTED"
    using assms unfolding admit_step_def
    by (auto split: prod.splits sum.splits wait_exn.splits if_splits)
  then show ?thesis by (elim within_budget_Inr) (rule that)
qed

lemma wait_pass_runs:
  assumes "wait_pass h env deadline req c w = (w1, c1, e)" "e = TryAgain \<or> (\<exists>r. e = Returns r)"
  obtains w2 w3 where "client_gone h env deadline w = (w2, Inr False)" "ww_mono w2 < deadline"
    "revalidate_step h env deadline c w2 = (w3, Inr c1)" "ww_mono w3 < deadline"
    "\<not> never_fits (lc_estimated_tokens c1) (lc_limiter_policy c1)"
    "admit_step h env deadline req c1 w3 = (w1, e)" "ww_mono w \<le> ww_mono w2" "ww_mono w2 \<le> ww_mono w3"
proof -
  have "\<exists>w2 w3. client_gone h env deadline w = (w2, Inr False) \<and> ww_mono w2 < deadline
    \<and> revalidate_step h env deadline c w2 = (w3, Inr c1) \<and> ww_mono w3 < deadline
    \<and> \<not> never_fits (lc_estimated_tokens c1) (lc_limiter_policy c1) \<and> admit_step h env deadline req c1 w3 = (w1, e)"
    using assms unfolding wait_pass_def by (auto split: prod.splits sum.splits if_splits)
  then show ?thesis using client_gone_Inr revalidate_step_Inr(1) that by blast
qed

lemma sleep_for_Inr: "sleep_for env d w = (w1, Inr u) \<Longrightarrow> ww_mono w + d \<le> ww_mono w1"
  by (auto simp: sleep_for_def Let_def split: await_end.splits)

lemma wait_loop_ends:
  "100000 \<le> delay \<Longrightarrow> deadline - ww_mono w \<le> 200000 * int n \<Longrightarrow> wait_loop h env deadline req (Suc n) delay c w \<noteq> None"
proof (induction n arbitrary: delay c w)
  case 0
  have "snd (snd (wait_pass h env deadline req c w)) \<noteq> TryAgain"
  proof
    assume "snd (snd (wait_pass h env deadline req c w)) = TryAgain"
    then obtain w1 c1 where "wait_pass h env deadline req c w = (w1, c1, TryAgain)" by (metis prod.collapse)
    then obtain w2 where "client_gone h env deadline w = (w2, Inr False)" "ww_mono w \<le> ww_mono w2" "ww_mono w2 < deadline"
      by (elim wait_pass_runs) auto
    with 0 show False by simp
  qed
  then show ?case by (auto split: prod.splits pass_end.splits)
next
  case (Suc n)
  show ?case
  proof (cases "\<exists>w1 c1. wait_pass h env deadline req c w = (w1, c1, TryAgain)")
    case False
    then show ?thesis by (auto simp del: wait_loop.simps(2) simp: wait_loop.simps(2)[of _ _ _ _ "Suc n"] split: prod.splits pass_end.splits)
  next
    case True
    then obtain w1 c1 where p: "wait_pass h env deadline req c w = (w1, c1, TryAgain)" by blast
    then obtain w2 w3 where "client_gone h env deadline w = (w2, Inr False)" "ww_mono w \<le> ww_mono w2" "ww_mono w2 \<le> ww_mono w3"
        "admit_step h env deadline req c1 w3 = (w1, TryAgain)" by (elim wait_pass_runs) auto
    then have le: "ww_mono w \<le> ww_mono w1" by (meson admit_step_again order_trans)
    let ?next = "min (delay * 2) 1000000" and ?rem = "deadline - ww_mono w1"
    let ?d = "min (max ?next 50000) (max ?rem 0)"
    obtain w4 r where sl: "sleep_for env ?d w1 = (w4, r)" by fastforce
    show ?thesis
    proof (cases r)
      case (Inl e)
      then show ?thesis using p sl by (simp add: Let_def)
    next
      case (Inr u)
      have "200000 \<le> ?next" using Suc.prems(1) by simp
      moreover have "ww_mono w1 + ?d \<le> ww_mono w4" using sleep_for_Inr sl Inr by blast
      ultimately have "deadline - ww_mono w4 \<le> 200000 * int n" "100000 \<le> ?next"
        using le Suc.prems(2) by (auto simp: min_def max_def split: if_splits)
      from Suc.IH[OF this(2,1)] show ?thesis using p sl Inr by (simp add: Let_def)
    qed
  qed
qed

lemma wait_loop_admits:
  "wait_loop h env deadline req n delay c w = Some (w1, Inr (r, c1)) \<Longrightarrow>
   ww_mono w1 < deadline \<and> ww_outcome w1 = Some ADMITTED \<and> \<not> never_fits (lc_estimated_tokens c1) (lc_limiter_policy c1)
   \<and> (\<exists>ev s s1. wh_check_and_reserve h (lc_gateway_key_id c1) req (lc_estimated_tokens c1) (lc_limiter_policy c1) ev s = (s1, Inr r))
   \<and> (\<forall>f. wh_revalidate h = Some f \<longrightarrow> (\<exists>i c0. f i c0 = Inr c1))"
proof (induction n arbitrary: delay c w)
  case (Suc n)
  obtain w2 c2 e where p: "wait_pass h env deadline req c w = (w2, c2, e)" using prod_cases3 by blast
  show ?case
  proof (cases e)
    case (Returns r')
    with Suc.prems p have eq: "w2 = w1" "c2 = c1" "r' = r" by (simp_all add: Let_def)
    from p Returns obtain w3 w4 where "revalidate_step h env deadline c w3 = (w4, Inr c1)"
      "\<not> never_fits (lc_estimated_tokens c1) (lc_limiter_policy c1)" "admit_step h env deadline req c1 w4 = (w1, Returns r)"
      unfolding eq by (elim wait_pass_runs) auto
    then show ?thesis using revalidate_step_Inr(2) by (elim admit_step_returns) blast
  next
    case (Raises x)
    with Suc.prems p show ?thesis by simp
  next
    case TryAgain
    with Suc.prems p show ?thesis by (auto simp: Let_def split: prod.splits sum.splits intro!: Suc.IH)
  qed
qed simp

section \<open>Re-validation\<close>

text \<open>
  Every field of the key is compared except the usage counters and the rate-limit configuration:
  the two keys are equal once those five fields of the first are taken over from the second.
\<close>

definition key_admission_policy_unchanged :: "authenticated_key \<Rightarrow> authenticated_key \<Rightarrow> bool" where
  "key_admission_policy_unchanged original_key current_key =
     (original_key\<lparr>ak_cost_used_eur := ak_cost_used_eur current_key,
                    ak_tokens_used_total := ak_tokens_used_total current_key,
                    ak_cost_reserved_eur := ak_cost_reserved_eur current_key,
                    ak_tokens_reserved_total := ak_tokens_reserved_total current_key,
                    ak_rate_limit_policy := ak_rate_limit_policy current_key\<rparr> = current_key)"

section \<open>The waiting caps\<close>

definition waiters :: "(rate_key \<Rightarrow> 's \<Rightarrow> string \<Rightarrow> int option) \<Rightarrow> rate_key \<Rightarrow> 's \<Rightarrow> int" where
  "waiters zs k s = int (card (dom (zs k s)))"

definition within_caps :: "(rate_key \<Rightarrow> 's \<Rightarrow> string \<Rightarrow> int option) \<Rightarrow> (uuid \<Rightarrow> int) \<Rightarrow> int \<Rightarrow> 's \<Rightarrow> bool" where
  "within_caps zs caps total_cap s =
     ((\<forall>kid. waiters zs (PerKeyWaitingKey kid) s \<le> caps kid) \<and> waiters zs GlobalWaitingKey s \<le> total_cap)"

text \<open>
  One step on the waiting sets: a call of the admission object over any connection, or anything that
  leaves each waiting set as it is or makes it expire (the limiter's own calls among them).
\<close>

inductive waiting_step ::
  "'s redis \<Rightarrow> (rate_key \<Rightarrow> 's \<Rightarrow> string \<Rightarrow> int option) \<Rightarrow> (uuid \<Rightarrow> int) \<Rightarrow> int \<Rightarrow> 's \<Rightarrow> 's \<Rightarrow> bool"
  for ops zs caps total_cap where
  AcquireLease: "acquire_waiting_lease ops fail_closed link clock kid req lease_deadline (caps kid) total_cap ttl now s = (s', r)
    \<Longrightarrow> 0 < ttl \<Longrightarrow> waiting_step ops zs caps total_cap s s'"
| ReleaseLease: "release_waiting_lease ops link kid req s = (s', u) \<Longrightarrow> waiting_step ops zs caps total_cap s s'"
| CountWaiting: "count_waiting ops links clock kid_opt now s = (s', counts) \<Longrightarrow> waiting_step ops zs caps total_cap s s'"
| Elsewhere: "(\<And>k. k = GlobalWaitingKey \<or> (\<exists>kid. k = PerKeyWaitingKey kid) \<Longrightarrow> zs k s' = zs k s \<or> zs k s' = Map.empty)
    \<Longrightarrow> waiting_step ops zs caps total_cap s s'"

context redis_store
begin

lemma waiters_purged: "waiters zs k (fst (rd_zremrangebyscore ops k' t s)) \<le> waiters zs k s"
  by (simp add: waiters_def zrem_range card_purged[OF finite_zset])

lemma waiters_zrem: "waiters zs k (rd_zrem ops k' m s) \<le> waiters zs k s"
proof -
  have "card (dom ((zs k s)(m := None))) \<le> card (dom (zs k s))" by (rule card_mono[OF finite_zset]) auto
  then show ?thesis by (auto simp: waiters_def zrem)
qed

lemma waiters_zadd: "waiters zs k (rd_zadd ops k' x m s) \<le> waiters zs k s + (if k = k' then 1 else 0)"
  by (simp add: waiters_def zadd card_insert_if finite_zset)

lemma within_caps_mono: "within_caps zs caps total_cap s \<Longrightarrow> (\<And>k. waiters zs k s' \<le> waiters zs k s) \<Longrightarrow> within_caps zs caps total_cap s'"
  unfolding within_caps_def by (meson order_trans)

lemma acquire_script_within:
  assumes w: "within_caps zs caps total_cap s" and run: "acquire_waiting_script ops a s = (s', granted)"
    and a: "wa_per_key a = PerKeyWaitingKey kid" "wa_max_per_key a = caps kid" "wa_max_total a = total_cap" "0 < wa_ttl a"
  shows "within_caps zs caps total_cap s'"
proof -
  define s2 where "s2 = fst (rd_zremrangebyscore ops GlobalWaitingKey (wa_now_ms a) (fst (rd_zremrangebyscore ops (wa_per_key a) (wa_now_ms a) s)))"
  have w2: "within_caps zs caps total_cap s2" unfolding s2_def
    by (rule within_caps_mono[OF within_caps_mono[OF w]]) (rule waiters_purged)+
  show ?thesis
  proof (cases granted)
    case False
    then have "s' = s2" using run by (auto simp: acquire_waiting_script_def Let_def s2_def split: if_splits)
    with w2 show ?thesis by simp
  next
    case True
    then have free: "waiters zs (PerKeyWaitingKey kid) s2 < caps kid" "waiters zs GlobalWaitingKey s2 < total_cap"
      and s': "s' = rd_expire ops GlobalWaitingKey (wa_ttl a) (rd_expire ops (PerKeyWaitingKey kid) (wa_ttl a)
          (rd_zadd ops GlobalWaitingKey (wa_deadline_ms a) (wa_member a) (rd_zadd ops (PerKeyWaitingKey kid) (wa_deadline_ms a) (wa_member a) s2)))"
      using run a by (auto simp: acquire_waiting_script_def Let_def s2_def waiters_def zcard split: if_splits)
    have "waiters zs k s' \<le> waiters zs k s2 + (if k = GlobalWaitingKey \<or> k = PerKeyWaitingKey kid then 1 else 0)" for k
      using waiters_zadd[of k GlobalWaitingKey "wa_deadline_ms a" "wa_member a" "rd_zadd ops (PerKeyWaitingKey kid) (wa_deadline_ms a) (wa_member a) s2"]
        waiters_zadd[of k "PerKeyWaitingKey kid" "wa_deadline_ms a" "wa_member a" s2] a(4)
      by (auto simp: s' waiters_def expire split: if_splits)
    note le = this
    have "waiters zs (PerKeyWaitingKey kid') s' \<le> caps kid'" for kid'
      using le[of "PerKeyWaitingKey kid'"] free(1) w2 by (cases "kid' = kid") (auto simp: within_caps_def intro: order_trans)
    moreover have "waiters zs GlobalWaitingKey s' \<le> total_cap" using le[of GlobalWaitingKey] free(2) by simp
    ultimately show ?thesis by (simp add: within_caps_def)
  qed
qed

lemma count_waiting_keys_mono: "count_waiting_keys ops links i now_ms ks s = (s', r) \<Longrightarrow> waiters zs k s' \<le> waiters zs k s"
proof (induction ks arbitrary: i s r)
  case (Cons a ks)
  let ?s1 = "if links i = Down then s else fst (rd_zremrangebyscore ops a now_ms s)"
  have "waiters zs k ?s1 \<le> waiters zs k s" by (simp add: waiters_purged)
  then show ?case using Cons.prems Cons.IH[of "i + 2" ?s1]
    by (auto simp: Let_def split: if_splits prod.splits)
qed simp

lemma waiting_step_within:
  assumes "waiting_step ops zs caps total_cap s s'" "within_caps zs caps total_cap s" "\<And>kid. 0 \<le> caps kid" "0 \<le> total_cap"
  shows "within_caps zs caps total_cap s'"
  using assms(1)
proof cases
  case (AcquireLease fail_closed link clock kid req lease_deadline ttl now r)
  then show ?thesis using acquire_script_within[OF assms(2), of _ s'] assms(2)
    by (auto simp: acquire_waiting_lease_def Let_def split: prod.splits redis_link.splits)
next
  case (ReleaseLease link kid req u)
  have "within_caps zs caps total_cap (release_waiting_script ops (PerKeyWaitingKey kid) (waiter_member kid req) s)"
    unfolding release_waiting_script_def by (rule within_caps_mono[OF within_caps_mono[OF assms(2)]]) (rule waiters_zrem)+
  with ReleaseLease assms(2) show ?thesis by (auto simp: release_waiting_lease_def Let_def split: redis_link.splits)
next
  case (CountWaiting links clock kid_opt now counts)
  then show ?thesis unfolding count_waiting_def using within_caps_mono[OF assms(2)] count_waiting_keys_mono by blast
next
  case Elsewhere
  show ?thesis unfolding within_caps_def
  proof (intro conjI allI)
    fix kid
    show "waiters zs (PerKeyWaitingKey kid) s' \<le> caps kid"
      using Elsewhere[of "PerKeyWaitingKey kid"] assms(2,3) by (auto simp: within_caps_def waiters_def)
    show "waiters zs GlobalWaitingKey s' \<le> total_cap"
      using Elsewhere[of GlobalWaitingKey] assms(2,4) by (auto simp: within_caps_def waiters_def)
  qed
qed

lemma waiting_steps_within:
  assumes "(waiting_step ops zs caps total_cap)\<^sup>*\<^sup>* s0 s" "within_caps zs caps total_cap s0" "\<And>kid. 0 \<le> caps kid" "0 \<le> total_cap"
  shows "within_caps zs caps total_cap s"
  using assms by (induction rule: rtranclp_induct) (auto intro: waiting_step_within)

text \<open>The lease on the way in, unless the service failed open, and on the way out.\<close>

lemma granted_lease:
  assumes "acquire_waiting_lease ops fail_closed link clock kid req lease_deadline max_per_key max_total ttl now s = (s', Inr True)"
    "fail_closed \<or> link = Up" "0 < ttl"
  shows "zs (PerKeyWaitingKey kid) s' (waiter_member kid req) = Some (micros lease_deadline div 1000)
    \<and> zs GlobalWaitingKey s' (waiter_member kid req) = Some (micros lease_deadline div 1000)"
  using assms
  by (cases link)
     (auto simp: acquire_waiting_lease_def acquire_waiting_script_def Let_def commands split: prod.splits if_splits)

lemma release_script_gone:
  "zs (PerKeyWaitingKey kid) (release_waiting_script ops (PerKeyWaitingKey kid) m s) m = None"
  "zs GlobalWaitingKey (release_waiting_script ops (PerKeyWaitingKey kid) m s) m = None"
  by (simp_all add: release_waiting_script_def zrem)

lemma leave_wait_gone:
  assumes "leave_wait h ops env kid req (w, r) = (w1, r1)"
    "ev_end (env (ww_step w)) = Completes \<or> ev_end (env (ww_step w)) = TimesOut True" "ev_link (env (ww_step w)) \<noteq> Down"
  shows "zs (PerKeyWaitingKey kid) (ww_store w1) (waiter_member kid req) = None
    \<and> zs GlobalWaitingKey (ww_store w1) (waiter_member kid req) = None \<and> r1 = r"
proof -
  have e: "ev_link (env (ww_step w)) = Up \<or> ev_link (env (ww_step w)) = ReplyLost" using assms(3) by (cases "ev_link (env (ww_step w))") auto
  show ?thesis
    using assms(1,2) e
    by (auto simp: leave_wait_def bookkeeping_def Let_def release_waiting_lease_def release_script_gone
        split: prod.splits sum.splits if_splits await_end.splits)
qed

end

section \<open>No slot is left behind\<close>

text \<open>
  Without a disconnect probe the deadline error leaves no slot behind.  \<open>no_slot\<close> is the state in
  which the request holds none; \<open>served\<close> a run whose calls reach Redis and in which nobody else
  takes a slot under the request's id.
\<close>

definition no_slot :: "(rate_key \<Rightarrow> 's \<Rightarrow> string \<Rightarrow> int option) \<Rightarrow> uuid \<Rightarrow> string \<Rightarrow> 's \<Rightarrow> bool" where
  "no_slot zs kid req s = (zs (ConcurrencyKey kid) s req = None)"

definition served :: "(rate_key \<Rightarrow> 's \<Rightarrow> string \<Rightarrow> int option) \<Rightarrow> uuid \<Rightarrow> string \<Rightarrow> (nat \<Rightarrow> 's await_event) \<Rightarrow> bool" where
  "served zs kid req env =
     (\<forall>i. (ev_end (env i) = Completes \<or> ev_end (env i) = TimesOut True) \<and> ev_link (env i) \<noteq> Down
        \<and> (\<forall>s. no_slot zs kid req s \<longrightarrow> no_slot zs kid req (ev_others (env i) s)))"

definition keeps_key :: "uuid \<Rightarrow> (nat \<Rightarrow> 'x lazy_context \<Rightarrow> 'x lazy_context result) option \<Rightarrow> bool" where
  "keeps_key kid reval = (case reval of None \<Rightarrow> True
     | Some f \<Rightarrow> \<forall>i c c1. f i c = Inr c1 \<longrightarrow> lc_gateway_key_id c1 = kid)"

lemma gateway_hooks_simps [simp]:
  "wh_check_and_reserve (gateway_hooks ops fc kid req reval probe) =
     (\<lambda>k r est p ev s. check_and_reserve ops fc (ev_link ev) (ev_clock ev) k r est p None s)"
  "wh_release_admission_slot (gateway_hooks ops fc kid req reval probe) = Some (\<lambda>ev s. release_concurrency ops (ev_link ev) kid req s)"
  "wh_revalidate (gateway_hooks ops fc kid req reval probe) = reval"
  "wh_is_disconnected (gateway_hooks ops fc kid req reval probe) = probe"
  by (simp_all add: gateway_hooks_def)

lemma client_gone_no_probe: "client_gone (gateway_hooks ops fc kid req reval False) env deadline w = (w, Inr False)"
  by (simp add: client_gone_def)

text \<open>With a probe, the budget can run out between the admission and the release.\<close>

lemma late_probe_raises:
  assumes "wh_is_disconnected h" "ww_mono w < deadline" "deadline - ww_mono w \<le> 50000" "ev_end (env (ww_step w)) = TimesOut sent"
  obtains w1 where "client_gone h env deadline w = (w1, Inl (Raised deadline_error))"
    "ww_store w1 = ev_others (env (ww_step w)) (ww_store w)" "ww_step w1 = ww_step w + 1"
  using assms by (auto simp: client_gone_def within_budget_def disconnect_probe_def Let_def split: prod.splits)

lemma check_and_reserve_errors:
  assumes "check_and_reserve ops fc link clock kid req est p now s = (s', Inl e)"
  shows "is_temporary e \<Longrightarrow> link = Up" "e \<noteq> LazyThrottlingDeadlineExceededError x"
proof -
  have v: "\<not> is_temporary e' \<and> e' \<noteq> LazyThrottlingDeadlineExceededError x" if "validate_inputs req est p = Inl e'" for e'
    using that unfolding validate_inputs_def validate_concurrency_timing_def by (auto simp: ensure_def split: if_splits)
  have o: "e' \<noteq> LazyThrottlingDeadlineExceededError x" if "reserve_outcome p reply = Inl e'" for e' reply
    using that by (auto simp: reserve_outcome_def Let_def split: if_splits)
  show "is_temporary e \<Longrightarrow> link = Up" "e \<noteq> LazyThrottlingDeadlineExceededError x"
    using assms v o by (auto simp: check_and_reserve_def handle_unavailable_def split: sum.splits if_splits prod.splits redis_link.splits)
qed

context redis_store
begin

lemma release_concurrency_no_slot:
  "link \<noteq> Down \<Longrightarrow> req \<noteq> [] \<Longrightarrow> no_slot zs kid req (fst (release_concurrency ops link kid req s))"
  by (cases link) (auto simp: release_concurrency_def no_slot_def zrem Let_def)

lemma admitted_slot:
  assumes "check_and_reserve ops fc Up clock kid req est p now s = (s', Inr r)"
    "rl_concurrent_requests p = Some n" "0 < n"
  shows "zs (ConcurrencyKey kid) s' req \<noteq> None"
proof -
  let ?a = "reserve_arguments clock kid req est p now"
  have lim: "0 < ra_concurrency_limit ?a" using assms(2,3) by (simp add: or_int_def)
  have "has_limits p" using assms(2) by (simp add: has_limits_def)
  then obtain reply where ran: "validate_inputs req est p = Inr ()" "reserve_script ops ?a s = (s', reply)"
    "reserve_outcome p reply = Inr r"
    using assms(1) by (auto simp: check_and_reserve_def split: sum.splits prod.splits)
  have pos: "0 < rl_window_seconds p" "0 < policy_concurrency_ttl_seconds p" "0 < policy_concurrency_ttl_grace_seconds p"
    using ran(1) by (auto simp: validate_inputs_def validate_concurrency_timing_def)
  have ok: "sr_allowed reply" using ran(3) by (auto simp: reserve_outcome_def Let_def split: if_splits)
  from ran(2) show ?thesis
  proof (cases rule: reserve_script_cases)
    case (full t)
    then show ?thesis using ok by (simp add: concurrency_refusal_def Let_def)
  next
    case (windows t s1)
    from windows(1) show ?thesis
      by (cases rule: reserve_windows_cases) (use ok lim pos in \<open>auto simp: admitted_zs\<close>)
  qed
qed

lemma refused_no_slot:
  assumes "check_and_reserve ops fc link clock kid req est p now s = (s', Inl e)" "is_temporary e" "no_slot zs kid req s"
  shows "no_slot zs kid req s'"
proof -
  have "link = Up" by (rule check_and_reserve_errors(1)[OF assms(1,2)])
  from refusal_frame[OF assms(1)[unfolded this], of "ConcurrencyKey kid"] assms(3) show ?thesis
    by (auto simp: no_slot_def purged_def)
qed

lemma released_no_slot:
  assumes "served zs kid req env" "req \<noteq> []"
    "release_then_raise (gateway_hooks ops fc kid req reval False) env out x w = (w1, e)"
  shows "no_slot zs kid req (ww_store w1)"
proof -
  let ?ev = "env (ww_step w)"
  have ev: "ev_end ?ev = Completes \<or> ev_end ?ev = TimesOut True" "ev_link ?ev \<noteq> Down"
    using assms(1) by (simp_all add: served_def)
  show ?thesis
    using assms(3) ev(1) release_concurrency_no_slot[OF ev(2) assms(2)]
    by (auto simp: release_then_raise_def release_admitted_slot_quietly_def bookkeeping_def Let_def
        split: prod.splits option.splits await_end.splits)
qed

lemma revalidate_no_slot:
  assumes "served zs kid req env" "no_slot zs kid req (ww_store w)"
    "revalidate_step h env deadline c w = (w1, r)"
  shows "no_slot zs kid req (ww_store w1)"
proof (cases "wh_revalidate h")
  case None
  then show ?thesis using assms(2,3) by (auto simp: revalidate_step_def)
next
  case (Some f)
  obtain w2 r2 where b: "within_budget env deadline (\<lambda>ev s. (s, f (ww_step w) c)) w = (w2, r2)" by fastforce
  then have "no_slot zs kid req (ww_store w2)"
    using assms(1,2) by (cases rule: within_budget_cases) (auto simp: served_def)
  then show ?thesis using assms(3) Some b
    by (auto simp: revalidate_step_def split: sum.splits wait_exn.splits if_splits)
qed

lemma admit_no_slot:
  assumes env: "served zs kid req env" and req: "req \<noteq> []" and w: "no_slot zs kid req (ww_store w)" and c: "lc_gateway_key_id c = kid"
    and run: "admit_step (gateway_hooks ops fc kid req reval False) env deadline req c w = (w1, e)"
    and e: "e = TryAgain \<or> e = Raises (Raised (LazyThrottlingDeadlineExceededError x))"
  shows "no_slot zs kid req (ww_store w1)"
proof -
  let ?h = "gateway_hooks ops fc kid req reval False"
  let ?check = "wh_check_and_reserve ?h (lc_gateway_key_id c) req (lc_estimated_tokens c) (lc_limiter_policy c)"
  obtain w2 r where b: "within_budget env deadline ?check w = (w2, r)" by fastforce
  note released = released_no_slot[OF env req]
  show ?thesis
  proof (cases r)
    case (Inr result)
    then show ?thesis using run e b released
      by (auto simp: admit_step_def client_gone_no_probe split: if_splits)
  next
    case (Inl y)
    show ?thesis
    proof (cases y)
      case (Raised g)
      with b Inl have "within_budget env deadline ?check w = (w2, Inl (Raised g))" by simp
      then obtain s1 where s1: "ww_store w2 = s1" "check_and_reserve ops fc (ev_link (env (ww_step w))) (ev_clock (env (ww_step w)))
          kid req (lc_estimated_tokens c) (lc_limiter_policy c) None (ev_others (env (ww_step w)) (ww_store w)) = (s1, Inl g)"
        using c by (elim within_budget_Raised) auto
      have "is_temporary g" using run e b Inl Raised check_and_reserve_errors(2)[OF s1(2), of x]
        by (auto simp: admit_step_def split: if_splits)
      moreover have "no_slot zs kid req (ev_others (env (ww_step w)) (ww_store w))" using env w by (simp add: served_def)
      ultimately have "no_slot zs kid req (ww_store w2)" using refused_no_slot[OF s1(2)] s1(1) by simp
      moreover have "w1 = w2" using run b Inl Raised by (auto simp: admit_step_def split: if_splits)
      ultimately show ?thesis by simp
    qed (use run b Inl released in \<open>auto simp: admit_step_def\<close>)
  qed
qed

lemma pass_no_slot:
  assumes env: "served zs kid req env" and req: "req \<noteq> []" and w: "no_slot zs kid req (ww_store w)"
    and c: "lc_gateway_key_id c = kid" and k: "keeps_key kid reval"
    and run: "wait_pass (gateway_hooks ops fc kid req reval False) env deadline req c w = (w1, c1, e)"
    and e: "e = TryAgain \<or> e = Raises (Raised (LazyThrottlingDeadlineExceededError x))"
  shows "no_slot zs kid req (ww_store w1) \<and> (e = TryAgain \<longrightarrow> lc_gateway_key_id c1 = kid)"
proof (cases "deadline \<le> ww_mono w")
  case True
  then show ?thesis using run w by (auto simp: wait_pass_def client_gone_no_probe)
next
  case False
  let ?h = "gateway_hooks ops fc kid req reval False"
  obtain w2 r where rv: "revalidate_step ?h env deadline c w = (w2, r)" by fastforce
  have w2: "no_slot zs kid req (ww_store w2)" by (rule revalidate_no_slot[OF env w rv])
  show ?thesis
  proof (cases r)
    case (Inl y)
    then show ?thesis using run False rv w2 by (auto simp: wait_pass_def client_gone_no_probe)
  next
    case (Inr c2)
    have c2: "lc_gateway_key_id c2 = kid"
      using revalidate_step_Inr(2,3)[OF rv[unfolded Inr]] k c by (cases reval) (auto simp: keeps_key_def)
    obtain w3 e3 where ad: "admit_step ?h env deadline req c2 w2 = (w3, e3)" by fastforce
    show ?thesis
      using run False rv Inr w2 c2 ad e admit_no_slot[OF env req w2 c2 ad]
      by (auto simp: wait_pass_def client_gone_no_probe split: if_splits)
  qed
qed

lemma loop_no_slot:
  assumes env: "served zs kid req env" and req: "req \<noteq> []" and k: "keeps_key kid reval"
  shows "no_slot zs kid req (ww_store w) \<Longrightarrow> lc_gateway_key_id c = kid \<Longrightarrow>
    wait_loop (gateway_hooks ops fc kid req reval False) env deadline req n delay c w
      = Some (w1, Inl (Raised (LazyThrottlingDeadlineExceededError x))) \<Longrightarrow> no_slot zs kid req (ww_store w1)"
proof (induction n arbitrary: delay c w)
  case (Suc n)
  let ?h = "gateway_hooks ops fc kid req reval False"
  obtain w2 c2 e where p: "wait_pass ?h env deadline req c w = (w2, c2, e)" using prod_cases3 by blast
  note pass = pass_no_slot[OF env req Suc.prems(1,2) k p]
  show ?case
  proof (cases e)
    case TryAgain
    let ?next = "min (delay * 2) 1000000"
    let ?d = "min (max ?next 50000) (max (deadline - ww_mono w2) 0)"
    have w2: "no_slot zs kid req (ww_store w2)" "lc_gateway_key_id c2 = kid" using pass TryAgain by simp_all
    obtain w3 r where sl: "sleep_for env ?d w2 = (w3, r)" by fastforce
    have "no_slot zs kid req (ww_store w3)"
      using sl w2(1) env by (auto simp: sleep_for_def Let_def served_def split: await_end.splits)
    moreover have "r = Inr ()"
      using sl env by (auto simp: sleep_for_def Let_def served_def split: await_end.splits) (metis await_end.distinct)+
    ultimately show ?thesis using Suc.prems(3) p TryAgain sl Suc.IH[OF _ w2(2)] by (simp add: Let_def)
  qed (use Suc.prems(3) p pass in auto)
qed simp

lemma acquire_no_slot:
  assumes "no_slot zs kid req s" "0 < ttl"
  shows "no_slot zs kid req (fst (acquire_waiting_lease ops fc link clock k r dl m1 m2 ttl now s))"
  using assms by (cases link) (auto simp: acquire_waiting_lease_def acquire_waiting_script_def Let_def no_slot_def commands split: prod.splits)

lemma leave_no_slot:
  assumes "served zs kid req env" "no_slot zs kid req (ww_store w)" "leave_wait h ops env k r (w, x) = (w1, y)"
  shows "no_slot zs kid req (ww_store w1) \<and> y = x"
proof -
  let ?ev = "env (ww_step w)"
  have ev: "ev_end ?ev = Completes \<or> ev_end ?ev = TimesOut True" "no_slot zs kid req (ev_others ?ev (ww_store w))"
    using assms(1,2) by (simp_all add: served_def)
  then have "no_slot zs kid req (fst (release_waiting_lease ops (ev_link ?ev) k r (ev_others ?ev (ww_store w))))"
    by (cases "ev_link ?ev") (auto simp: release_waiting_lease_def release_waiting_script_def no_slot_def commands Let_def)
  with assms(3) ev(1) show ?thesis
    by (auto simp: leave_wait_def bookkeeping_def Let_def split: if_splits prod.splits await_end.splits)
qed

lemma leave_wait_slot:
  assumes "zs (ConcurrencyKey kid) (ev_others (env (ww_step w)) (ww_store w)) req \<noteq> None" "ev_end (env (ww_step w)) = Completes"
    "r \<noteq> Inl CancelledError"
  obtains w1 where "leave_wait h ops env k q (w, r) = (w1, r)" "zs (ConcurrencyKey kid) (ww_store w1) req \<noteq> None"
proof -
  let ?s = "fst (release_waiting_lease ops (ev_link (env (ww_step w))) k q (ev_others (env (ww_step w)) (ww_store w)))"
  have "zs (ConcurrencyKey kid) ?s req \<noteq> None"
    using assms(1) by (cases "ev_link (env (ww_step w))")
      (auto simp: release_waiting_lease_def release_waiting_script_def commands Let_def)
  with assms(2,3) show ?thesis
    by (intro that) (auto simp: leave_wait_def bookkeeping_def Let_def)
qed

lemma deadline_no_slot:
  assumes run: "wait_for_rate_limit_admission passes (gateway_hooks ops fc kid req reval False) ops fc env wall c est lazy req max_total ttl w
      = Some (w1, Inl (Raised (LazyThrottlingDeadlineExceededError x)))"
    and env: "served zs kid req env" and req: "req \<noteq> []" and k: "keeps_key kid reval" and c: "lc_gateway_key_id c = kid"
    and wait: "0 < lt_max_wait_seconds lazy" and w: "no_slot zs kid req (ww_store w)"
  shows "no_slot zs kid req (ww_store w1)"
proof -
  let ?h = "gateway_hooks ops fc kid req reval False"
  let ?deadline = "ww_mono w + lt_max_wait_seconds lazy * 1000000" and ?lease = "max ttl (lt_max_wait_seconds lazy + 30)"
  let ?acquire = "\<lambda>ev. acquire_waiting_lease ops fc (ev_link ev) (ev_clock ev) kid req
      (Aware (micros wall + ?lease * 1000000)) (lt_max_waiting_requests lazy) max_total ?lease None"
  obtain w2 r where acq: "within_budget env ?deadline ?acquire w = (w2, r)" by fastforce
  have o: "no_slot zs kid req (ev_others (env (ww_step w)) (ww_store w))" using env w by (simp add: served_def)
  have "0 < ?lease" using wait by simp
  from acquire_no_slot[OF o this]
  have a: "no_slot zs kid req (fst (?acquire (env (ww_step w)) (ev_others (env (ww_step w)) (ww_store w))))" .
  have w2: "no_slot zs kid req (ww_store w2)"
    using acq by (cases rule: within_budget_cases) (use w o a in auto)
  let ?inner = "case within_budget env ?deadline ?acquire w of
      (w1, Inl WaitBudgetExhausted) \<Rightarrow> Some (with_outcome DEADLINE w1, Inl (Raised deadline_error))
    | (w1, Inl e) \<Rightarrow> Some (w1, Inl e)
    | (w1, Inr acquired) \<Rightarrow>
        if \<not> acquired then Some (with_outcome CAPACITY_FULL w1, Inl (Raised (LazyThrottlingWaitingCapacityFullError (Some 1))))
        else wait_loop ?h env ?deadline req passes 100000 c w1"
  have nf: "\<not> never_fits est (lc_limiter_policy c)" using run by (auto simp: wait_for_rate_limit_admission_def Let_def)
  then have "map_option (leave_wait ?h ops env kid req) ?inner = Some (w1, Inl (Raised (LazyThrottlingDeadlineExceededError x)))"
    using run c by (simp add: wait_for_rate_limit_admission_def Let_def)
  then obtain z where z: "?inner = Some z" "leave_wait ?h ops env kid req z = (w1, Inl (Raised (LazyThrottlingDeadlineExceededError x)))"
    unfolding map_option_eq_Some by blast
  obtain w3 r3 where z3: "z = (w3, r3)" by (cases z)
  note inner = z(1)[unfolded z3] and leave = z(2)[unfolded z3]
  show ?thesis
  proof (cases "r3 = Inl (Raised (LazyThrottlingDeadlineExceededError x))")
    case True
    have "no_slot zs kid req (ww_store w3)"
    proof (cases r)
      case (Inl y)
      then show ?thesis using inner acq w2 by (cases y) auto
    next
      case (Inr g)
      then show ?thesis using inner acq w2 True loop_no_slot[OF env req k w2 c] by (auto split: if_splits)
    qed
    from leave_no_slot[OF env this leave] show ?thesis by blast
  next
    case False
    then show ?thesis using leave env
      by (auto simp: leave_wait_def bookkeeping_def Let_def served_def split: if_splits prod.splits await_end.splits)
  qed
qed

end

section \<open>Properties\<close>

text \<open>An await during which nothing goes wrong: it takes a microsecond and reaches Redis.\<close>

definition calm_event :: "mem_store await_event" where
  "calm_event = \<lparr>ev_elapsed = 1, ev_others = (\<lambda>s. s), ev_end = Completes, ev_link = Up, ev_clock = Aware 1500000, ev_gone = False\<rparr>"

definition sample_lazy :: lazy_throttling_policy where
  "sample_lazy = \<lparr>lt_mode = ''wait'', lt_max_wait_seconds = 1, lt_max_waiting_requests = 2\<rparr>"

definition sample_context :: "unit lazy_context" where
  "sample_context = \<lparr>lc_gateway_key_id = 7, lc_limiter_policy = sample_rate_policy, lc_estimated_tokens = 5, lc_payload = ()\<rparr>"

definition sample_world :: "mem_store \<Rightarrow> mem_store wait_world" where
  "sample_world s = \<lparr>ww_mono = 0, ww_step = 0, ww_store = s, ww_outcome = None\<rparr>"

definition sample_hooks :: "(mem_store, unit) wait_hooks" where
  "sample_hooks = gateway_hooks mem_redis True 7 ''r2'' None True"

lemmas wait_eval = rate_eval calm_event_def sample_lazy_def sample_context_def sample_world_def sample_hooks_def disconnect_probe_def
  gateway_hooks_def wait_for_rate_limit_admission_def within_budget_def acquire_waiting_lease_def acquire_waiting_script_def
  after_await_def with_outcome_def never_fits_def wait_pass_def client_gone_def revalidate_step_def admit_step_def
  leave_wait_def bookkeeping_def release_waiting_lease_def release_waiting_script_def release_then_raise_def
  release_admitted_slot_quietly_def sleep_for_def deadline_error_def

lemma wait_returns:
  assumes "nat (5 * lt_max_wait_seconds lazy) < passes"
  shows "wait_for_rate_limit_admission passes h ops fail_closed env wall c est lazy req max_total ttl w \<noteq> None"
proof -
  obtain n where n: "passes = Suc n" using assms by (cases passes) auto
  let ?deadline = "ww_mono w + lt_max_wait_seconds lazy * 1000000"
  have loop: "wait_loop h env ?deadline req passes 100000 c w1 \<noteq> None" if "ww_mono w \<le> ww_mono w1" for w1
    unfolding n by (rule wait_loop_ends) (use that assms n in linarith)+
  let ?lease = "max ttl (lt_max_wait_seconds lazy + 30)" and ?kid = "lc_gateway_key_id c"
  obtain w1 r where acq: "within_budget env ?deadline (\<lambda>ev. acquire_waiting_lease ops fail_closed (ev_link ev) (ev_clock ev) ?kid req
      (Aware (micros wall + ?lease * 1000000)) (lt_max_waiting_requests lazy) max_total ?lease None) w = (w1, r)" by fastforce
  show ?thesis
  proof (cases r)
    case (Inl e)
    then show ?thesis using acq by (cases e) (simp_all add: wait_for_rate_limit_admission_def Let_def)
  next
    case (Inr acquired)
    then have "ww_mono w \<le> ww_mono w1" using acq by (auto elim: within_budget_Inr)
    from loop[OF this] show ?thesis using acq Inr by (auto simp: wait_for_rate_limit_admission_def Let_def simp del: not_None_eq)
  qed
qed

text \<open>C15: The wait always ends: whatever the awaits do (however long they take, fail, time out or are
  cancelled, and whatever other clients do in between), five passes of the loop per second of the
  configured maximum wait plus one are enough for it to return or raise.
\<close>

theorem wait_ends:
  assumes "nat (5 * lt_max_wait_seconds lazy) < passes"
  shows "\<exists>w1 r. wait_for_rate_limit_admission passes h ops fail_closed env wall c est lazy req max_total ttl w = Some (w1, r)"
  using wait_returns[OF assms, of h ops fail_closed env wall c est req max_total ttl w] by auto

theorem wait_ends_witness:
  "\<exists>w1 r. wait_for_rate_limit_admission 6 sample_hooks mem_redis True (\<lambda>_. calm_event) (Aware 0) sample_context 5 sample_lazy
     ''r2'' 10 60 (sample_world sample_admitted) = Some (w1, r)"
  by (rule wait_ends) (simp add: sample_lazy_def)

text \<open>C16: A wait that ends with an admission was admitted before the deadline, by the limiter itself,
  under the context it returns: the limiter accepted exactly that key, estimate and policy, the
  estimate fits an empty window of that policy, and when a re-validation hook is supplied the
  context is one that hook has approved.
\<close>

theorem admission_is_current:
  assumes "wait_loop h env deadline req passes delay c w = Some (w1, Inr (r, c1))"
  shows "ww_mono w1 < deadline \<and> ww_outcome w1 = Some ADMITTED \<and> \<not> never_fits (lc_estimated_tokens c1) (lc_limiter_policy c1)
   \<and> (\<exists>ev s s1. wh_check_and_reserve h (lc_gateway_key_id c1) req (lc_estimated_tokens c1) (lc_limiter_policy c1) ev s = (s1, Inr r))
   \<and> (\<forall>f. wh_revalidate h = Some f \<longrightarrow> (\<exists>i c0. f i c0 = Inr c1))"
  by (rule wait_loop_admits[OF assms])

lemma sample_wait_admitted:
  "\<exists>w1 r c1. wait_loop sample_hooks (\<lambda>_. calm_event) 1000000 ''r2'' (Suc n) 100000 sample_context (sample_world empty_store)
     = Some (w1, Inr (r, c1))"
  by (simp add: wait_eval Let_def)

theorem admission_is_current_witness:
  "\<exists>w1 :: mem_store wait_world. ww_mono w1 < 1000000 \<and> ww_outcome w1 = Some ADMITTED"
  using sample_wait_admitted[of 0] admission_is_current by (fastforce simp del: wait_loop.simps)

text \<open>C22: Starting with no leases, no sequence of acquisitions, releases, counts, limiter calls and
  expiries, from any number of clients and with lost calls or replies, makes a waiting set hold more
  leases than the per-key cap of its key and the deployment-wide cap allow; and a request that may wait
  holds a lease in both sets, until the lease deadline it asked for, when the reply of Redis arrived or the
  service fails closed.  (When it fails open, a request whose call or reply is lost waits without a lease,
  as the limits themselves are then bypassed.)
\<close>

theorem waiting_caps_hold:
  assumes "redis_store ops zs cnt" "\<And>kid. 0 \<le> caps kid" "0 \<le> total_cap" "\<And>k. zs k s0 = Map.empty"
    "(waiting_step ops zs caps total_cap)\<^sup>*\<^sup>* s0 s"
  shows "waiters zs (PerKeyWaitingKey kid) s \<le> caps kid \<and> waiters zs GlobalWaitingKey s \<le> total_cap
    \<and> (\<forall>fail_closed link clock req lease_deadline ttl now s'.
         acquire_waiting_lease ops fail_closed link clock kid req lease_deadline (caps kid) total_cap ttl now s = (s', Inr True)
         \<and> (fail_closed \<or> link = Up) \<and> 0 < ttl \<longrightarrow>
         zs (PerKeyWaitingKey kid) s' (waiter_member kid req) = Some (micros lease_deadline div 1000)
         \<and> zs GlobalWaitingKey s' (waiter_member kid req) = Some (micros lease_deadline div 1000)
         \<and> waiters zs (PerKeyWaitingKey kid) s' \<le> caps kid \<and> waiters zs GlobalWaitingKey s' \<le> total_cap)"
proof (intro conjI allI impI)
  have "within_caps zs caps total_cap s0" using assms(2-4) by (simp add: within_caps_def waiters_def)
  from redis_store.waiting_steps_within[OF assms(1,5) this assms(2,3)]
  have w: "within_caps zs caps total_cap s" .
  then show "waiters zs (PerKeyWaitingKey kid) s \<le> caps kid" "waiters zs GlobalWaitingKey s \<le> total_cap"
    by (simp_all add: within_caps_def)
  fix fail_closed link clock req lease_deadline ttl now s'
  assume a: "acquire_waiting_lease ops fail_closed link clock kid req lease_deadline (caps kid) total_cap ttl now s = (s', Inr True)
    \<and> (fail_closed \<or> link = Up) \<and> 0 < ttl"
  then show "zs (PerKeyWaitingKey kid) s' (waiter_member kid req) = Some (micros lease_deadline div 1000)"
    "zs GlobalWaitingKey s' (waiter_member kid req) = Some (micros lease_deadline div 1000)"
    using redis_store.granted_lease[OF assms(1)] by blast+
  from a have "waiting_step ops zs caps total_cap s s'" by (blast intro: AcquireLease)
  from redis_store.waiting_step_within[OF assms(1) this w assms(2,3)]
  show "waiters zs (PerKeyWaitingKey kid) s' \<le> caps kid" "waiters zs GlobalWaitingKey s' \<le> total_cap"
    by (simp_all add: within_caps_def)
qed

definition sample_waiting :: mem_store where
  "sample_waiting = fst (acquire_waiting_lease mem_redis True Up (Aware 0) 7 ''r2'' (Aware 60000000) 2 10 60 None empty_store)"

theorem waiting_caps_hold_witness:
  "waiters mem_set (PerKeyWaitingKey 7) sample_waiting \<le> 2 \<and> waiters mem_set (PerKeyWaitingKey 7) sample_waiting = 1
     \<and> (\<exists>s'. acquire_waiting_lease mem_redis True Up (Aware 0) 7 ''r3'' (Aware 60000000) 2 10 60 None sample_waiting = (s', Inr True)
          \<and> mem_set GlobalWaitingKey s' (waiter_member 7 ''r3'') = Some 60000)"
proof -
  have "waiting_step mem_redis mem_set (\<lambda>_. 2) 10 empty_store sample_waiting"
    by (rule waiting_step.AcquireLease[where fail_closed = True and link = Up and clock = "Aware 0" and kid = 7 and req = "''r2''"
          and lease_deadline = "Aware 60000000" and ttl = 60 and now = None]) (auto simp: sample_waiting_def prod_eq_iff)
  then have "(waiting_step mem_redis mem_set (\<lambda>_. 2) 10)\<^sup>*\<^sup>* empty_store sample_waiting" by blast
  from waiting_caps_hold[OF mem.redis_store_axioms _ _ _ this, of 7]
  have caps: "waiters mem_set (PerKeyWaitingKey 7) sample_waiting \<le> 2"
    and lease: "acquire_waiting_lease mem_redis True Up (Aware 0) 7 ''r3'' (Aware 60000000) 2 10 60 None sample_waiting = (s', Inr True)
      \<Longrightarrow> mem_set GlobalWaitingKey s' (waiter_member 7 ''r3'') = Some (60000000 div 1000)" for s'
    by (fastforce simp: empty_store_def mem_set_def)+
  have "snd (acquire_waiting_lease mem_redis True Up (Aware 0) 7 ''r3'' (Aware 60000000) 2 10 60 None sample_waiting) = Inr True"
    by (simp add: sample_waiting_def rate_eval acquire_waiting_lease_def acquire_waiting_script_def waiter_member_def Let_def)
  then obtain s' where "acquire_waiting_lease mem_redis True Up (Aware 0) 7 ''r3'' (Aware 60000000) 2 10 60 None sample_waiting
      = (s', Inr True)" by (metis prod.collapse)
  note run = this lease[OF this]
  note caps
  moreover have "waiters mem_set (PerKeyWaitingKey 7) sample_waiting = 1"
    by (simp add: sample_waiting_def waiters_def rate_eval acquire_waiting_lease_def acquire_waiting_script_def Let_def)
  ultimately show ?thesis using run by simp
qed

text \<open>However the wait ends (admitted, timed out, refused, disconnected, re-validation failed),
  its waiting lease is in neither waiting set afterwards, in every run in which no task is cancelled
  and the calls reach Redis, even if replies are lost or come too late.
\<close>

theorem lease_released_on_exit:
  assumes "redis_store ops zs cnt"
    "wait_for_rate_limit_admission passes h ops fail_closed env wall c est lazy req max_total ttl w = Some (w1, r)"
    "\<not> never_fits est (lc_limiter_policy c)"
    "\<And>i. ev_end (env i) = Completes \<or> ev_end (env i) = TimesOut True" "\<And>i. ev_link (env i) \<noteq> Down"
  shows "zs (PerKeyWaitingKey (lc_gateway_key_id c)) (ww_store w1) (waiter_member (lc_gateway_key_id c) req) = None
    \<and> zs GlobalWaitingKey (ww_store w1) (waiter_member (lc_gateway_key_id c) req) = None"
proof -
  obtain w0 r0 where "leave_wait h ops env (lc_gateway_key_id c) req (w0, r0) = (w1, r)"
    using assms(2,3) unfolding wait_for_rate_limit_admission_def Let_def by auto
  from redis_store.leave_wait_gone[OF assms(1) this assms(4,5)] show ?thesis by blast
qed

theorem lease_released_on_exit_witness:
  "\<exists>w1 r. wait_for_rate_limit_admission 6 sample_hooks mem_redis True (\<lambda>_. calm_event) (Aware 0) sample_context 5 sample_lazy
     ''r2'' 10 60 (sample_world empty_store) = Some (w1, r)
     \<and> mem_set GlobalWaitingKey (ww_store w1) (waiter_member 7 ''r2'') = None"
proof -
  obtain w1 r where run: "wait_for_rate_limit_admission 6 sample_hooks mem_redis True (\<lambda>_. calm_event) (Aware 0) sample_context 5
      sample_lazy ''r2'' 10 60 (sample_world empty_store) = Some (w1, r)"
    using wait_returns[of sample_lazy 6] by (fastforce simp: sample_lazy_def)
  from lease_released_on_exit[OF mem.redis_store_axioms run] show ?thesis
    using run by (auto simp: sample_context_def sample_rate_policy_def never_fits_def calm_event_def)
qed

text \<open>When the gateway supplies no disconnect probe, a wait that ends with the deadline error leaves
  no concurrency slot of the request behind, whatever was admitted late: in every run whose calls
  reach Redis, in which nobody else uses the request's id and re-validation keeps the key.
\<close>

theorem deadline_leaves_no_slot:
  assumes "redis_store ops zs cnt"
    "wait_for_rate_limit_admission passes (gateway_hooks ops fc kid req reval False) ops fc env wall c est lazy req max_total ttl w
      = Some (w1, Inl (Raised (LazyThrottlingDeadlineExceededError x)))"
    "served zs kid req env" "req \<noteq> []" "keeps_key kid reval" "lc_gateway_key_id c = kid" "0 < lt_max_wait_seconds lazy"
    "no_slot zs kid req (ww_store w)"
  shows "no_slot zs kid req (ww_store w1)"
  by (rule redis_store.deadline_no_slot[OF assms])

text \<open>The second await, the limiter call, is executed but outlasts the budget.\<close>

definition late_check :: "nat \<Rightarrow> mem_store await_event" where
  "late_check i = (if i = 1 then calm_event\<lparr>ev_end := TimesOut True\<rparr> else calm_event)"

lemma late_check_served: "served mem_set 7 ''r2'' late_check"
  by (simp add: served_def late_check_def calm_event_def)

lemma late_check_run:
  "\<exists>w1. wait_for_rate_limit_admission (Suc n) (gateway_hooks mem_redis True 7 ''r2'' None False) mem_redis True late_check
     (Aware 0) sample_context 5 sample_lazy ''r2'' 10 60 (sample_world empty_store)
     = Some (w1, Inl (Raised (LazyThrottlingDeadlineExceededError (Some 1))))"
  by (simp add: wait_eval late_check_def release_concurrency_def Let_def)

theorem deadline_leaves_no_slot_witness:
  "\<exists>w1. wait_for_rate_limit_admission (Suc 0) (gateway_hooks mem_redis True 7 ''r2'' None False) mem_redis True late_check
     (Aware 0) sample_context 5 sample_lazy ''r2'' 10 60 (sample_world empty_store)
     = Some (w1, Inl (Raised (LazyThrottlingDeadlineExceededError (Some 1)))) \<and> no_slot mem_set 7 ''r2'' (ww_store w1)"
proof -
  obtain w1 where run: "wait_for_rate_limit_admission (Suc 0) (gateway_hooks mem_redis True 7 ''r2'' None False) mem_redis True
     late_check (Aware 0) sample_context 5 sample_lazy ''r2'' 10 60 (sample_world empty_store)
     = Some (w1, Inl (Raised (LazyThrottlingDeadlineExceededError (Some 1))))" using late_check_run by blast
  from deadline_leaves_no_slot[OF mem.redis_store_axioms run late_check_served]
  have "no_slot mem_set 7 ''r2'' (ww_store w1)"
    by (simp add: keeps_key_def sample_context_def sample_lazy_def sample_world_def no_slot_def mem_set_def empty_store_def)
  with run show ?thesis by blast
qed

text \<open>C34: A slot can be left behind.  When the limiter admits a request (and Redis answered) while at most 0.05
  seconds of the wait budget are left, and the disconnect probe that follows sees no message before the
  budget is used up, then the wait ends with the deadline error, and the concurrency slot of the request
  is still taken afterwards, also after the clean-up of the wait: it is left to expire.
\<close>

theorem late_probe_leaks_slot:
  fixes h :: "('s, 'x) wait_hooks"
  assumes "redis_store ops zs cnt" "h = gateway_hooks ops fc kid req reval True"
    and "client_gone h env deadline w0 = (w1, Inr False)" "ww_mono w1 < deadline"
    and "revalidate_step h env deadline c0 w1 = (w2, Inr c)" "ww_mono w2 < deadline" "lc_gateway_key_id c = kid"
    and "\<not> never_fits (lc_estimated_tokens c) (lc_limiter_policy c)"
    and "within_budget env deadline (wh_check_and_reserve h kid req (lc_estimated_tokens c) (lc_limiter_policy c)) w2 = (w3, Inr r)"
    and "ev_link (env (ww_step w2)) = Up" "rl_concurrent_requests (lc_limiter_policy c) = Some n" "0 < n"
    and "ww_mono w3 < deadline" "deadline - ww_mono w3 \<le> 50000" "ev_end (env (ww_step w3)) = TimesOut sent"
    and "ev_end (env (ww_step w3 + 1)) = Completes"
    and "\<And>i s. zs (ConcurrencyKey kid) s req \<noteq> None \<Longrightarrow> zs (ConcurrencyKey kid) (ev_others (env i) s) req \<noteq> None"
  shows "\<exists>w4 w5. wait_loop h env deadline req (Suc passes) delay c0 w0 = Some (w4, Inl (Raised deadline_error))
    \<and> leave_wait h ops env kid req (w4, Inl (Raised deadline_error) :: wait_exn + rate_limit_result \<times> 'x lazy_context)
        = (w5, Inl (Raised deadline_error))
    \<and> zs (ConcurrencyKey kid) (ww_store w4) req \<noteq> None \<and> zs (ConcurrencyKey kid) (ww_store w5) req \<noteq> None"
proof -
  let ?k = "ConcurrencyKey kid" and ?p = "lc_limiter_policy c"
  obtain s3 where "ww_store w3 = s3" "check_and_reserve ops fc Up (ev_clock (env (ww_step w2))) kid req (lc_estimated_tokens c) ?p None
      (ev_others (env (ww_step w2)) (ww_store w2)) = (s3, Inr r)"
    using assms(9,10) unfolding assms(2) gateway_hooks_simps by (elim within_budget_Inr) simp
  then have s3: "zs ?k (ww_store w3) req \<noteq> None" using redis_store.admitted_slot[OF assms(1) _ assms(11,12)] by blast
  obtain w4 where w4: "client_gone h env deadline w3 = (w4, Inl (Raised deadline_error))"
    "ww_store w4 = ev_others (env (ww_step w3)) (ww_store w3)" "ww_step w4 = ww_step w3 + 1"
    using late_probe_raises[OF _ assms(13,14), of h env sent] assms(15) by (auto simp: assms(2))
  have s4: "zs ?k (ww_store w4) req \<noteq> None" unfolding w4(2) by (rule assms(17)[OF s3])
  have "admit_step h env deadline req c w2 = (w4, Raises (Raised deadline_error))"
    using assms(9) w4(1) by (simp add: admit_step_def assms(7))
  then have loop: "wait_loop h env deadline req (Suc passes) delay c0 w0 = Some (w4, Inl (Raised deadline_error))"
    using assms(3-8) by (simp add: wait_pass_def)
  obtain w5 where "leave_wait h ops env kid req (w4, Inl (Raised deadline_error) :: wait_exn + rate_limit_result \<times> 'x lazy_context)
      = (w5, Inl (Raised deadline_error))" "zs ?k (ww_store w5) req \<noteq> None"
    by (rule redis_store.leave_wait_slot[OF assms(1), where w = w4 and env = env and kid = kid and req = req and h = h
          and k = kid and q = req and r = "Inl (Raised deadline_error)"])
       (use assms(16,17) s4 w4(3) in auto)
  then show ?thesis using loop s4 by blast
qed

text \<open>The last 40 milliseconds of a wait: the limiter answers at once, the probe after it outlasts the budget.\<close>

definition late_probe :: "nat \<Rightarrow> mem_store await_event" where
  "late_probe i = (if i = 2 then calm_event\<lparr>ev_end := TimesOut True\<rparr> else calm_event)"

lemma late_probe_run:
  "client_gone sample_hooks late_probe 40000 (sample_world empty_store) = (after_await 1 empty_store (sample_world empty_store), Inr False)"
  "\<exists>w3 r. within_budget late_probe 40000 (wh_check_and_reserve sample_hooks 7 ''r2'' 5 sample_rate_policy)
      (after_await 1 empty_store (sample_world empty_store)) = (w3, Inr r) \<and> ww_mono w3 = 2 \<and> ww_step w3 = 2"
  by (simp_all add: wait_eval late_probe_def Let_def)

theorem late_probe_leaks_slot_witness:
  "\<exists>w4. wait_loop sample_hooks late_probe 40000 ''r2'' 1 100000 sample_context (sample_world empty_store)
       = Some (w4, Inl (Raised deadline_error)) \<and> mem_set (ConcurrencyKey 7) (ww_store w4) ''r2'' \<noteq> None"
proof -
  let ?w = "after_await 1 empty_store (sample_world empty_store)"
  obtain w3 r where run: "within_budget late_probe 40000 (wh_check_and_reserve sample_hooks 7 ''r2'' 5 sample_rate_policy) ?w = (w3, Inr r)"
    "ww_mono w3 = 2" "ww_step w3 = 2" using late_probe_run(2) by blast
  have c: "lc_gateway_key_id sample_context = 7" "lc_estimated_tokens sample_context = 5"
    "lc_limiter_policy sample_context = sample_rate_policy" "rl_concurrent_requests sample_rate_policy = Some 1"
    "\<not> never_fits 5 sample_rate_policy"
    by (simp_all add: sample_context_def sample_rate_policy_def never_fits_def)
  have ev: "ev_link (late_probe i) = Up" "ev_others (late_probe i) = (\<lambda>s. s)" "ev_end (late_probe 2) = TimesOut True"
    "ev_end (late_probe 3) = Completes" for i
    by (simp_all add: late_probe_def calm_event_def)
  have rv: "revalidate_step sample_hooks late_probe 40000 sample_context ?w = (?w, Inr sample_context)"
    by (simp add: revalidate_step_def sample_hooks_def)
  show ?thesis
    using late_probe_leaks_slot[OF mem.redis_store_axioms sample_hooks_def late_probe_run(1) _ rv, of w3 r 1 True 0 100000] run c ev
    by (auto simp del: wait_loop.simps)
qed

end
