(* ===== verification/Routing.thy ===== *)
theory Routing
  imports Schemas Sample_Data "HOL-Library.Char_ord" "HOL-Library.List_Lexorder" "HOL-Library.Product_Lexorder"
begin

text \<open>
  Which upstream a request goes to and what a key may call: \<open>services/route_resolution.py\<close>,
  \<open>services/model_catalog.py\<close>, \<open>services/endpoint_policy.py\<close>, \<open>services/key_modes.py\<close>, the tables
  \<open>model_routes\<close> and \<open>provider_configs\<close> of \<open>db/models.py\<close> and the repositories over them.

  \<open>fnmatch.fnmatchcase\<close> of the standard library is \<open>glob_match\<close> on the parsed pattern.  Text columns
  are ordered by code point.  Python's \<open>list.sort\<close> with a key is \<open>sort_key\<close> (both stable); the tuple
  key compares lexicographically.

  Shown: a resolved route is one the key may use and is the first in the documented order among all
  usable ones; the ambiguity error cannot occur; a model listed for a key by an exact route resolves;
  a glob ending in a star is a prefix route; endpoint grants are decided by the alias table alone.
\<close>

section \<open>Tables\<close>

record provider_config =
  pc_id :: uuid
  pc_provider :: string
  pc_display_name :: string
  pc_kind :: string
  pc_base_url :: string
  pc_api_key_env_var :: string
  pc_enabled :: bool
  pc_timeout_seconds :: int
  pc_max_retries :: int
  pc_notes :: "string option"
  pc_created_at :: pydatetime

record model_route =
  mr_id :: uuid
  mr_requested_model :: string
  mr_match_type :: string
  mr_endpoint :: string
  mr_provider :: string
  mr_upstream_model :: string
  mr_priority :: int
  mr_enabled :: bool
  mr_visible_in_models :: bool
  mr_supports_streaming :: bool
  mr_capabilities :: pydict
  mr_notes :: "string option"
  mr_created_at :: pydatetime

record catalog_db =
  cd_routes :: "model_route list"
  cd_providers :: "provider_config list"

definition provider_config_checks :: "provider_config \<Rightarrow> bool" where
  "provider_config_checks c = (pc_kind c \<in> {''openai_compatible'', ''module''})"

definition model_route_checks :: "model_route \<Rightarrow> bool" where
  "model_route_checks r = (mr_match_type r \<in> {''exact'', ''prefix'', ''glob''})"

text \<open>What the constraints of the two tables promise of every stored state.\<close>

definition catalog_ok :: "catalog_db \<Rightarrow> bool" where
  "catalog_ok db =
     (distinct (map mr_id (cd_routes db)) \<and> list_all model_route_checks (cd_routes db)
      \<and> list_all (\<lambda>r. mr_id r < 2 ^ 128) (cd_routes db)
      \<and> distinct (map pc_id (cd_providers db)) \<and> distinct (map pc_provider (cd_providers db))
      \<and> list_all provider_config_checks (cd_providers db))"

section \<open>Repositories\<close>

text \<open>\<open>LIMIT\<close> and \<open>OFFSET\<close>\<close>

definition page :: "nat \<Rightarrow> nat \<Rightarrow> 'a list \<Rightarrow> 'a list" where
  "page limit offset xs = take limit (drop offset xs)"

definition list_provider_configs :: "bool option \<Rightarrow> nat \<Rightarrow> nat \<Rightarrow> catalog_db \<Rightarrow> provider_config list" where
  "list_provider_configs enabled limit offset db =
     page limit offset
       (sort_key pc_provider (filter (\<lambda>c. case enabled of None \<Rightarrow> True | Some b \<Rightarrow> pc_enabled c = b) (cd_providers db)))"

definition get_provider_config_by_provider :: "string \<Rightarrow> catalog_db \<Rightarrow> provider_config option result" where
  "get_provider_config_by_provider provider db =
     (case filter (\<lambda>c. pc_provider c = provider) (cd_providers db) of
        [] \<Rightarrow> Inr None | [c] \<Rightarrow> Inr (Some c) | _ \<Rightarrow> Inl MultipleResultsFound)"

definition create_provider_config :: "provider_config \<Rightarrow> catalog_db \<Rightarrow> catalog_db result" where
  "create_provider_config row db =
     (if \<not> provider_config_checks row then Inl (IntegrityError ''provider_configs_kind_allowed_values'')
      else if \<exists>c \<in> set (cd_providers db). pc_provider c = pc_provider row \<or> pc_id c = pc_id row
      then Inl (IntegrityError ''provider_configs'')
      else Inr (db\<lparr>cd_providers := cd_providers db @ [row]\<rparr>))"

definition list_model_routes :: "string option \<Rightarrow> string option \<Rightarrow> nat \<Rightarrow> nat \<Rightarrow> catalog_db \<Rightarrow> model_route list" where
  "list_model_routes endpoint provider limit offset db =
     page limit offset
       (sort_key (\<lambda>r. (mr_priority r, micros (mr_created_at r)))
         (filter (\<lambda>r. (case endpoint of None \<Rightarrow> True | Some e \<Rightarrow> mr_endpoint r = e)
                    \<and> (case provider of None \<Rightarrow> True | Some p \<Rightarrow> mr_provider r = p)) (cd_routes db)))"

definition list_enabled_model_routes :: "string option \<Rightarrow> catalog_db \<Rightarrow> model_route list" where
  "list_enabled_model_routes endpoint db =
     sort_key (\<lambda>r. (mr_priority r, micros (mr_created_at r)))
       (filter (\<lambda>r. mr_enabled r \<and> (case endpoint of None \<Rightarrow> True | Some e \<Rightarrow> mr_endpoint r = e)) (cd_routes db))"

definition list_visible_model_routes :: "string option \<Rightarrow> catalog_db \<Rightarrow> model_route list" where
  "list_visible_model_routes endpoint db =
     sort_key (\<lambda>r. (mr_priority r, micros (mr_created_at r)))
       (filter (\<lambda>r. mr_enabled r \<and> mr_visible_in_models r
                  \<and> (case endpoint of None \<Rightarrow> True | Some e \<Rightarrow> mr_endpoint r = e)) (cd_routes db))"

definition flush_route :: "model_route \<Rightarrow> catalog_db \<Rightarrow> catalog_db result" where
  "flush_route row db =
     (if \<not> model_route_checks row then Inl (IntegrityError ''model_routes_match_type_allowed_values'')
      else Inr (db\<lparr>cd_routes := put_row mr_id row (cd_routes db)\<rparr>))"

definition create_model_route :: "model_route \<Rightarrow> catalog_db \<Rightarrow> catalog_db result" where
  "create_model_route row db =
     (if \<not> model_route_checks row then Inl (IntegrityError ''model_routes_match_type_allowed_values'')
      else if \<exists>r \<in> set (cd_routes db). mr_id r = mr_id row then Inl (IntegrityError ''model_routes'')
      else Inr (db\<lparr>cd_routes := cd_routes db @ [row]\<rparr>))"

definition set_model_route_enabled :: "uuid \<Rightarrow> bool \<Rightarrow> catalog_db \<Rightarrow> (catalog_db \<times> bool) result" where
  "set_model_route_enabled route_id enabled db =
     (case get_row mr_id route_id (cd_routes db) of
        None \<Rightarrow> Inr (db, False)
      | Some row \<Rightarrow> sbind (flush_route (row\<lparr>mr_enabled := enabled\<rparr>) db) (\<lambda>db1. Inr (db1, True)))"

definition update_model_route_priority :: "uuid \<Rightarrow> int \<Rightarrow> catalog_db \<Rightarrow> (catalog_db \<times> bool) result" where
  "update_model_route_priority route_id priority db =
     (case get_row mr_id route_id (cd_routes db) of
        None \<Rightarrow> Inr (db, False)
      | Some row \<Rightarrow> sbind (flush_route (row\<lparr>mr_priority := priority\<rparr>) db) (\<lambda>db1. Inr (db1, True)))"

record route_changes =
  rc_requested_model :: "string option"
  rc_match_type :: "string option"
  rc_endpoint :: "string option"
  rc_provider :: "string option"
  rc_upstream_model :: "string option"
  rc_priority :: "int option"
  rc_enabled :: "bool option"
  rc_visible_in_models :: "bool option"
  rc_supports_streaming :: "bool option"
  rc_capabilities :: "pydict option"
  rc_notes :: "string option"
  rc_clear_notes :: bool

definition or_keep :: "'a option \<Rightarrow> 'a \<Rightarrow> 'a" where
  "or_keep v old = (case v of Some x \<Rightarrow> x | None \<Rightarrow> old)"

definition update_model_route_metadata :: "uuid \<Rightarrow> route_changes \<Rightarrow> catalog_db \<Rightarrow> (catalog_db \<times> bool) result" where
  "update_model_route_metadata route_id c db =
     (case get_row mr_id route_id (cd_routes db) of
        None \<Rightarrow> Inr (db, False)
      | Some row \<Rightarrow>
          sbind (flush_route
            (row\<lparr>mr_requested_model := or_keep (rc_requested_model c) (mr_requested_model row),
                 mr_match_type := or_keep (rc_match_type c) (mr_match_type row),
                 mr_endpoint := or_keep (rc_endpoint c) (mr_endpoint row),
                 mr_provider := or_keep (rc_provider c) (mr_provider row),
                 mr_upstream_model := or_keep (rc_upstream_model c) (mr_upstream_model row),
                 mr_priority := or_keep (rc_priority c) (mr_priority row),
                 mr_enabled := or_keep (rc_enabled c) (mr_enabled row),
                 mr_visible_in_models := or_keep (rc_visible_in_models c) (mr_visible_in_models row),
                 mr_supports_streaming := or_keep (rc_supports_streaming c) (mr_supports_streaming row),
                 mr_capabilities := or_keep (rc_capabilities c) (mr_capabilities row),
                 mr_notes := (if rc_clear_notes c then None
                              else case rc_notes c of Some n \<Rightarrow> Some n | None \<Rightarrow> mr_notes row)\<rparr>) db) (\<lambda>db1.
          Inr (db1, True)))"

section \<open>Patterns\<close>

datatype glob = GStar | GAny | GLit char | GClass bool "(char \<times> char) list"

text \<open>The contents of a bracket: ranges and single characters; a range that runs backwards is empty.\<close>

fun class_ranges :: "string \<Rightarrow> (char \<times> char) list" where
  "class_ranges (a # b # c # r) = (if b = CHR ''-'' then (a, c) # class_ranges r else (a, a) # class_ranges (b # c # r))"
| "class_ranges (a # r) = (a, a) # class_ranges r"
| "class_ranges [] = []"

text \<open>What follows an opening bracket: negation, contents, rest; none when it is never closed.\<close>

definition split_class :: "string \<Rightarrow> (bool \<times> string \<times> string) option" where
  "split_class p =
     (let (neg, q) = (case p of c # r \<Rightarrow> if c = CHR ''!'' then (True, r) else (False, p) | [] \<Rightarrow> (False, p));
          (first, t) = (case q of c # r \<Rightarrow> if c = CHR '']'' then ([c], r) else ([], q) | [] \<Rightarrow> ([], q))
      in case dropWhile (\<lambda>c. c \<noteq> CHR '']'') t of
           [] \<Rightarrow> None
         | _ # after \<Rightarrow> Some (neg, first @ takeWhile (\<lambda>c. c \<noteq> CHR '']'') t, after))"

lemma split_class_shorter:
  assumes "split_class p = Some (n, b, r)"
  shows "length r < length p"
proof -
  have len: "length (dropWhile P t) \<le> length t" for P and t :: string by (simp add: length_dropWhile_le)
  have "length r < length t" if "dropWhile (\<lambda>c. c \<noteq> CHR '']'') t = c # r" for c and t :: string
    using len[of "\<lambda>c. c \<noteq> CHR '']''" t] that by simp
  then show ?thesis using assms
    by (fastforce simp: split_class_def Let_def split: list.splits if_splits)
qed

function glob_of :: "string \<Rightarrow> glob list" where
  "glob_of [] = []"
| "glob_of (c # p) =
     (if c = CHR ''*'' then GStar # glob_of p
      else if c = CHR ''?'' then GAny # glob_of p
      else if c = CHR ''['' then
        (case split_class p of
           None \<Rightarrow> GLit c # glob_of p
         | Some (n, b, r) \<Rightarrow> GClass n (class_ranges b) # glob_of r)
      else GLit c # glob_of p)"
  by pat_completeness auto
termination
  by (relation "measure length") (auto dest: split_class_shorter)

fun glob_match :: "glob list \<Rightarrow> string \<Rightarrow> bool" where
  "glob_match [] s = (s = [])"
| "glob_match (GStar # g) s = (glob_match g s \<or> (case s of [] \<Rightarrow> False | _ # t \<Rightarrow> glob_match (GStar # g) t))"
| "glob_match (GAny # g) s = (case s of [] \<Rightarrow> False | _ # t \<Rightarrow> glob_match g t)"
| "glob_match (GLit c # g) s = (case s of [] \<Rightarrow> False | d # t \<Rightarrow> d = c \<and> glob_match g t)"
| "glob_match (GClass neg rs # g) s =
     (case s of [] \<Rightarrow> False
      | d # t \<Rightarrow> (list_ex (\<lambda>(a, b). char_code a \<le> char_code d \<and> char_code d \<le> char_code b) rs \<noteq> neg) \<and> glob_match g t)"

definition fnmatchcase :: "string \<Rightarrow> string \<Rightarrow> bool" where
  "fnmatchcase name pat = glob_match (glob_of pat) name"

section \<open>Route resolution\<close>

definition is_trusted_calibration_key :: "key_purpose \<Rightarrow> capability_policy_mode \<Rightarrow> bool" where
  "is_trusted_calibration_key purpose mode = (purpose = TrustedCalibration \<and> mode = TrustedCalibrationDiscovery)"

definition default_capability_policy_mode_for_purpose :: "key_purpose \<Rightarrow> capability_policy_mode" where
  "default_capability_policy_mode_for_purpose purpose =
     (if purpose = TrustedCalibration then TrustedCalibrationDiscovery else StandardMode)"

abbreviation trusted_key :: "authenticated_key \<Rightarrow> bool" where
  "trusted_key ak \<equiv> is_trusted_calibration_key (ak_key_purpose ak) (ak_capability_policy_mode ak)"

definition specificity_rank :: "string \<Rightarrow> int" where
  "specificity_rank match_type =
     (if match_type = ''exact'' then 0 else if match_type = ''prefix'' then 1 else if match_type = ''glob'' then 2 else 99)"

definition matches_model_route :: "string \<Rightarrow> model_route \<Rightarrow> bool result" where
  "matches_model_route m r =
     (if mr_match_type r = ''exact'' then Inr (m = mr_requested_model r)
      else if mr_match_type r = ''prefix'' then Inr (starts_with m (mr_requested_model r))
      else if mr_match_type r = ''glob'' then Inr (fnmatchcase m (mr_requested_model r))
      else Inl UnsupportedRouteMatchTypeError)"

record ranked_match =
  rm_route :: model_route
  rm_provider_config :: provider_config

definition match_sort_key :: "ranked_match \<Rightarrow> int \<times> int \<times> int \<times> string" where
  "match_sort_key x =
     (mr_priority (rm_route x), specificity_rank (mr_match_type (rm_route x)),
      - int (length (mr_requested_model (rm_route x))), uuid_str (mr_id (rm_route x)))"

text \<open>The first loop: the enabled routes that match, and whether a disabled one did.\<close>

fun matching_routes :: "string \<Rightarrow> model_route list \<Rightarrow> (model_route list \<times> bool) result" where
  "matching_routes m [] = Inr ([], False)"
| "matching_routes m (r # rs) =
     sbind (matches_model_route m r) (\<lambda>hit.
     sbind (matching_routes m rs) (\<lambda>(found, disabled).
     Inr (if \<not> hit then (found, disabled) else if \<not> mr_enabled r then (found, True) else (r # found, disabled))))"

definition provider_by_name :: "provider_config list \<Rightarrow> string \<Rightarrow> provider_config option" where
  "provider_by_name configs name = map_of (rev (map (\<lambda>c. (pc_provider c, c)) configs)) name"

text \<open>The second loop: routes whose provider is configured and enabled, and whether one was dropped.\<close>

fun rank_matches :: "provider_config list \<Rightarrow> model_route list \<Rightarrow> ranked_match list \<times> bool" where
  "rank_matches configs [] = ([], False)"
| "rank_matches configs (r # rs) =
     (let (ranked, dropped) = rank_matches configs rs
      in case provider_by_name configs (mr_provider r) of
           None \<Rightarrow> (ranked, True)
         | Some c \<Rightarrow> if pc_enabled c then (\<lparr>rm_route = r, rm_provider_config = c\<rparr> # ranked, dropped) else (ranked, True))"

definition resolution_of :: "string \<Rightarrow> ranked_match \<Rightarrow> route_resolution" where
  "resolution_of m best =
     (let r = rm_route best; c = rm_provider_config best
      in \<lparr>rt_requested_model = m,
          rt_resolved_model = (if mr_upstream_model r = [] then m else mr_upstream_model r),
          rt_provider = mr_provider r, rt_route_id = mr_id r, rt_route_match_type = mr_match_type r,
          rt_route_pattern = mr_requested_model r, rt_priority = mr_priority r, rt_provider_kind = Some (pc_kind c),
          rt_provider_base_url = Some (pc_base_url c), rt_provider_api_key_env_var = Some (pc_api_key_env_var c),
          rt_provider_timeout_seconds = Some (pc_timeout_seconds c), rt_provider_max_retries = Some (pc_max_retries c),
          rt_visible_model_id = Some (mr_requested_model r), rt_supports_streaming = mr_supports_streaming r,
          rt_capabilities = Some (mr_capabilities r)\<rparr>)"

definition pick_route :: "string \<Rightarrow> ranked_match list \<Rightarrow> route_resolution result" where
  "pick_route m ranked =
     (case sort_key match_sort_key ranked of
        [] \<Rightarrow> Inl ModelNotFoundError
      | [best] \<Rightarrow> Inr (resolution_of m best)
      | best # second # _ \<Rightarrow>
          if match_sort_key best = match_sort_key second then Inl AmbiguousRouteError else Inr (resolution_of m best))"

definition resolve_model :: "string \<Rightarrow> authenticated_key \<Rightarrow> string \<Rightarrow> catalog_db \<Rightarrow> route_resolution result" where
  "resolve_model m ak endpoint db =
     (if m = [] then Inl ModelNotFoundError
      else if \<not> trusted_key ak \<and> \<not> ak_allow_all_models ak \<and> m \<notin> set (ak_allowed_models ak)
      then Inl ModelNotAllowedForKeyError
      else
        let configs = list_provider_configs None 100 0 db;
            routes = list_model_routes (Some endpoint) None 1000 0 db
        in sbind (matching_routes m routes) (\<lambda>(found, disabled).
           if found = [] then Inl (if disabled then ModelRouteDisabledError else ModelNotFoundError)
           else
             let (ranked, dropped) = rank_matches configs found in
             case ak_allowed_providers ak of
               Some allowed \<Rightarrow>
                 if trusted_key ak then
                   (if ranked = [] then Inl (if dropped then ProviderDisabledError else ModelNotFoundError)
                    else pick_route m ranked)
                 else
                   let permitted = filter (\<lambda>x. mr_provider (rm_route x) \<in> set allowed) ranked
                   in if permitted = [] then Inl ProviderNotAllowedForKeyError else pick_route m permitted
             | None \<Rightarrow>
                 if ranked = [] then Inl (if dropped then ProviderDisabledError else ModelNotFoundError)
                 else pick_route m ranked))"

section \<open>Model catalog\<close>

record openai_model =
  om_id :: string
  om_owned_by :: string

text \<open>The loop with the ids it has seen.\<close>

fun visible_models_loop ::
  "string list \<Rightarrow> bool \<Rightarrow> string list \<Rightarrow> bool \<Rightarrow> string list \<Rightarrow> string list \<Rightarrow> model_route list \<Rightarrow> openai_model list" where
  "visible_models_loop enabled restrict_providers providers restrict_models models seen [] = []"
| "visible_models_loop enabled restrict_providers providers restrict_models models seen (r # rs) =
     (if mr_provider r \<notin> set enabled \<or> (restrict_providers \<and> mr_provider r \<notin> set providers)
         \<or> (restrict_models \<and> mr_requested_model r \<notin> set models) \<or> mr_requested_model r \<in> set seen
      then visible_models_loop enabled restrict_providers providers restrict_models models seen rs
      else \<lparr>om_id = mr_requested_model r, om_owned_by = mr_provider r\<rparr>
           # visible_models_loop enabled restrict_providers providers restrict_models models (mr_requested_model r # seen) rs)"

definition list_visible_models :: "authenticated_key \<Rightarrow> catalog_db \<Rightarrow> openai_model list" where
  "list_visible_models ak db =
     (if \<not> trusted_key ak \<and> \<not> ak_allow_all_models ak \<and> ak_allowed_models ak = [] then []
      else visible_models_loop
             (map pc_provider (filter pc_enabled (list_provider_configs None 100 0 db)))
             (\<not> trusted_key ak \<and> ak_allowed_providers ak \<noteq> None)
             (case ak_allowed_providers ak of Some ps \<Rightarrow> ps | None \<Rightarrow> [])
             (\<not> trusted_key ak \<and> \<not> ak_allow_all_models ak) (ak_allowed_models ak) []
             (list_visible_model_routes None db))"

section \<open>Endpoint policy\<close>

definition endpoint_aliases :: "(string \<times> string list) list" where
  "endpoint_aliases =
    [(''models.list'', [''models.list'', ''get /v1/models'', ''/v1/models'']),
     (''chat.completions'', [''chat.completions'', ''post /v1/chat/completions'', ''/v1/chat/completions'']),
     (''audio.speech'', [''audio.speech'', ''post /v1/audio/speech'', ''/v1/audio/speech'']),
     (''audio.transcriptions'', [''audio.transcriptions'', ''post /v1/audio/transcriptions'', ''/v1/audio/transcriptions'']),
     (''audio.translations'', [''audio.translations'', ''post /v1/audio/translations'', ''/v1/audio/translations'']),
     (''embeddings'', [''embeddings'', ''post /v1/embeddings'', ''/v1/embeddings'']),
     (''realtime.client_secrets'',
        [''realtime.client_secrets'', ''post /v1/realtime/client_secrets'', ''/v1/realtime/client_secrets'']),
     (''responses'', [''responses'', ''post /v1/responses'', ''/v1/responses'']),
     (''responses.input_tokens'',
        [''responses.input_tokens'', ''post /v1/responses/input_tokens'', ''/v1/responses/input_tokens'']),
     (''responses.retrieve'', [''responses.retrieve'', ''get /v1/responses/{response_id}'']),
     (''responses.delete'', [''responses.delete'', ''delete /v1/responses/{response_id}'']),
     (''responses.input_items'', [''responses.input_items'', ''get /v1/responses/{response_id}/input_items'']),
     (''responses.compact'', [''responses.compact'', ''post /v1/responses/compact'', ''/v1/responses/compact'']),
     (''conversations.create'', [''conversations.create'', ''post /v1/conversations'', ''/v1/conversations'']),
     (''conversations.update'', [''conversations.update'', ''post /v1/conversations/{conversation_id}'']),
     (''conversations.retrieve'', [''conversations.retrieve'', ''get /v1/conversations/{conversation_id}'']),
     (''conversations.delete'', [''conversations.delete'', ''delete /v1/conversations/{conversation_id}'']),
     (''conversations.items.create'', [''conversations.items.create'', ''post /v1/conversations/{conversation_id}/items'']),
     (''conversations.items.list'', [''conversations.items.list'', ''get /v1/conversations/{conversation_id}/items'']),
     (''conversations.items.retrieve'',
        [''conversations.items.retrieve'', ''get /v1/conversations/{conversation_id}/items/{item_id}'']),
     (''conversations.items.delete'',
        [''conversations.items.delete'', ''delete /v1/conversations/{conversation_id}/items/{item_id}''])]"

text \<open>\<open>normalized.split(maxsplit=1)\<close> of a stripped non-empty string.\<close>

definition split_once :: "string \<Rightarrow> string list" where
  "split_once s =
     (let a = takeWhile (\<lambda>c. \<not> py_isspace c) s; b = dropWhile py_isspace (dropWhile (\<lambda>c. \<not> py_isspace c) s)
      in if b = [] then [a] else [a, b])"

definition is_alpha :: "string \<Rightarrow> bool" where
  "is_alpha s = (s \<noteq> [] \<and> list_all (\<lambda>c. is_lower c \<or> is_upper c) s)"

definition normalize_endpoint_entry :: "string \<Rightarrow> string" where
  "normalize_endpoint_entry value =
     (let normalized = py_strip value in
      if normalized = [] then []
      else case split_once normalized of
        [a, b] \<Rightarrow> if is_alpha a \<and> starts_with b ''/'' then py_lower a @ '' '' @ py_lower b else py_lower normalized
      | _ \<Rightarrow> py_lower normalized)"

definition ensure_endpoint_allowed :: "authenticated_key \<Rightarrow> string \<Rightarrow> unit result" where
  "ensure_endpoint_allowed ak endpoint =
     (if ak_allow_all_endpoints ak \<or> trusted_key ak then Inr ()
      else
        let allowed = map normalize_endpoint_entry (ak_allowed_endpoints ak);
            requested = (case map_of endpoint_aliases endpoint of
                           Some as \<Rightarrow> as | None \<Rightarrow> [normalize_endpoint_entry endpoint])
        in if allowed = [] then Inl EndpointNotAllowedError
           else if list_ex (\<lambda>x. x \<in> set requested) allowed then Inr () else Inl EndpointNotAllowedError)"

definition alias_to_canonical_endpoint :: "(string \<times> string) list" where
  "alias_to_canonical_endpoint =
     rev (concat (map (\<lambda>(stable_id, as). map (\<lambda>a. (normalize_endpoint_entry a, stable_id)) as) endpoint_aliases))"

definition canonical_endpoint_id :: "string \<Rightarrow> string option" where
  "canonical_endpoint_id value = map_of alias_to_canonical_endpoint (normalize_endpoint_entry value)"

section \<open>Identifiers\<close>

lemma hex_digit_inj: "a < 16 \<Longrightarrow> b < 16 \<Longrightarrow> hex_digit a = hex_digit b \<Longrightarrow> a = b"
  by (auto simp: hex_digit_def char_of_eq_iff take_bit_nat_eq_self split: if_splits)

lemma hex_digits_inj: "a < 16 ^ w \<Longrightarrow> b < 16 ^ w \<Longrightarrow> hex_digits w a = hex_digits w b \<Longrightarrow> a = b"
proof (induction w arbitrary: a b)
  case (Suc w)
  have "a div 16 < 16 ^ w" "b div 16 < 16 ^ w" using Suc.prems(1,2) by (simp_all add: less_mult_imp_div_less mult.commute)
  moreover have "hex_digits w (a div 16) = hex_digits w (b div 16)" "hex_digit (a mod 16) = hex_digit (b mod 16)"
    using Suc.prems(3) by simp_all
  ultimately have "a div 16 = b div 16" "a mod 16 = b mod 16"
    using Suc.IH hex_digit_inj[of "a mod 16" "b mod 16"] by simp_all
  then show ?case by (metis div_mult_mod_eq)
qed simp

lemma uuid_str_inj: "a < 2 ^ 128 \<Longrightarrow> b < 2 ^ 128 \<Longrightarrow> uuid_str a = uuid_str b \<Longrightarrow> a = b"
proof -
  assume lt: "a < 2 ^ 128" "b < 2 ^ 128" and eq: "uuid_str a = uuid_str b"
  let ?h = "hex_digits 32 a" and ?k = "hex_digits 32 b"
  have split: "h = take 8 h @ take 4 (drop 8 h) @ take 4 (drop 12 h) @ take 4 (drop 16 h) @ drop 20 h" for h :: string
    using append_take_drop_id[of 8 h] append_take_drop_id[of 4 "drop 8 h"] append_take_drop_id[of 4 "drop 12 h"]
      append_take_drop_id[of 4 "drop 16 h"] by simp
  have "take 8 ?h = take 8 ?k \<and> take 4 (drop 8 ?h) = take 4 (drop 8 ?k) \<and> take 4 (drop 12 ?h) = take 4 (drop 12 ?k)
      \<and> take 4 (drop 16 ?h) = take 4 (drop 16 ?k) \<and> drop 20 ?h = drop 20 ?k"
    using eq by (simp add: uuid_str_def Let_def)
  then have "?h = ?k" using split[of ?h] split[of ?k] by metis
  moreover have "(16::nat) ^ 32 = 2 ^ 128" by simp
  ultimately show ?thesis using hex_digits_inj[of a 32 b] lt by simp
qed

section \<open>Resolution against its specification\<close>

text \<open>A route with its provider that the key may use for the model at the endpoint.\<close>

definition usable_match :: "string \<Rightarrow> authenticated_key \<Rightarrow> string \<Rightarrow> catalog_db \<Rightarrow> ranked_match \<Rightarrow> bool" where
  "usable_match m ak endpoint db x =
     (rm_route x \<in> set (cd_routes db) \<and> mr_endpoint (rm_route x) = endpoint \<and> mr_enabled (rm_route x)
      \<and> matches_model_route m (rm_route x) = Inr True
      \<and> rm_provider_config x \<in> set (cd_providers db) \<and> pc_provider (rm_provider_config x) = mr_provider (rm_route x)
      \<and> pc_enabled (rm_provider_config x)
      \<and> (trusted_key ak \<or> (case ak_allowed_providers ak of None \<Rightarrow> True | Some ps \<Rightarrow> mr_provider (rm_route x) \<in> set ps)))"

definition model_permitted :: "string \<Rightarrow> authenticated_key \<Rightarrow> bool" where
  "model_permitted m ak = (trusted_key ak \<or> ak_allow_all_models ak \<or> m \<in> set (ak_allowed_models ak))"

lemma matching_routes_Inr:
  "matching_routes m rs = Inr (found, d) \<Longrightarrow> found = filter (\<lambda>r. matches_model_route m r = Inr True \<and> mr_enabled r) rs"
  by (induction rs arbitrary: found d) (auto split: if_splits)

lemma matches_checked: "model_route_checks r \<Longrightarrow> \<exists>b. matches_model_route m r = Inr b"
  by (auto simp: model_route_checks_def matches_model_route_def)

lemma matching_routes_checked: "list_all model_route_checks rs \<Longrightarrow> \<exists>p. matching_routes m rs = Inr p"
proof (induction rs)
  case (Cons r rs)
  then obtain b p where "matches_model_route m r = Inr b" "matching_routes m rs = Inr p"
    using matches_checked[of r m] by auto
  then show ?case by (cases p) auto
qed auto

lemma provider_by_name_iff:
  assumes "distinct (map pc_provider configs)"
  shows "provider_by_name configs n = Some c \<longleftrightarrow> c \<in> set configs \<and> pc_provider c = n"
proof -
  have "distinct (map fst (rev (map (\<lambda>c. (pc_provider c, c)) configs)))"
    using assms by (simp add: rev_map[symmetric] comp_def)
  from map_of_eq_Some_iff[OF this, of n c] show ?thesis by (auto simp: provider_by_name_def)
qed

lemma rank_matches_set:
  "x \<in> set (fst (rank_matches configs rs)) \<longleftrightarrow>
     rm_route x \<in> set rs \<and> provider_by_name configs (mr_provider (rm_route x)) = Some (rm_provider_config x)
     \<and> pc_enabled (rm_provider_config x)"
  by (induction rs) (auto simp: Let_def case_prod_beta split: option.splits if_splits)

lemma rank_matches_routes: "map rm_route (fst (rank_matches configs rs)) =
    filter (\<lambda>r. case provider_by_name configs (mr_provider r) of None \<Rightarrow> False | Some c \<Rightarrow> pc_enabled c) rs"
  by (induction rs) (auto simp: Let_def case_prod_beta split: option.splits)

lemma all_listed:
  assumes "length (filter (\<lambda>r. mr_endpoint r = ep) (cd_routes db)) \<le> 1000"
  shows "set (list_model_routes (Some ep) None 1000 0 db) = {r \<in> set (cd_routes db). mr_endpoint r = ep}"
    "distinct (map mr_id (cd_routes db)) \<Longrightarrow> distinct (map mr_id (list_model_routes (Some ep) None 1000 0 db))"
proof -
  let ?l = "sort_key (\<lambda>r. (mr_priority r, micros (mr_created_at r))) (filter (\<lambda>r. mr_endpoint r = ep) (cd_routes db))"
  have eq: "list_model_routes (Some ep) None 1000 0 db = ?l"
    using assms by (simp add: list_model_routes_def page_def)
  show "set (list_model_routes (Some ep) None 1000 0 db) = {r \<in> set (cd_routes db). mr_endpoint r = ep}"
    unfolding eq by auto
  assume "distinct (map mr_id (cd_routes db))"
  then have "distinct (map mr_id (filter (\<lambda>r. mr_endpoint r = ep) (cd_routes db)))" by (rule distinct_map_filter)
  then show "distinct (map mr_id (list_model_routes (Some ep) None 1000 0 db))"
    unfolding eq by (simp add: distinct_map inj_on_def)
qed

lemma all_providers:
  assumes "length (cd_providers db) \<le> 100"
  shows "set (list_provider_configs None 100 0 db) = set (cd_providers db)"
    "distinct (map pc_provider (cd_providers db)) \<Longrightarrow> distinct (map pc_provider (list_provider_configs None 100 0 db))"
  using assms by (simp_all add: list_provider_configs_def page_def distinct_map)

text \<open>Choosing the best of a list whose keys are distinct.\<close>

lemma pick_route_iff:
  assumes inj: "inj_on match_sort_key (set xs)" and d: "distinct xs" and ne: "xs \<noteq> []"
  shows "pick_route m xs = Inr rt \<longleftrightarrow>
    (\<exists>x \<in> set xs. (\<forall>y \<in> set xs. match_sort_key x \<le> match_sort_key y) \<and> rt = resolution_of m x)"
proof -
  obtain b ys where b: "sort_key match_sort_key xs = b # ys"
    using ne by (metis list.exhaust sort_key_simps(1) length_0_conv length_sort)
  have set_b: "set xs = insert b (set ys)" using b by (metis list.simps(15) set_sort)
  have srt: "sorted (map match_sort_key (b # ys))" and dst: "distinct (b # ys)"
    using b d by (metis sorted_sort_key, metis distinct_sort)
  have least: "\<forall>y \<in> set xs. match_sort_key b \<le> match_sort_key y" using srt set_b by auto
  have ne2: "match_sort_key b \<noteq> match_sort_key c" if "ys = c # zs" for c zs
    using inj dst that set_b by (auto simp: inj_on_def)
  have pick: "pick_route m xs = Inr (resolution_of m b)"
    using b ne2 by (auto simp: pick_route_def split: list.splits)
  have only: "x = b" if "x \<in> set xs" "\<forall>y \<in> set xs. match_sort_key x \<le> match_sort_key y" for x
  proof -
    have "match_sort_key x = match_sort_key b" by (rule antisym) (use that least set_b in auto)
    from inj_onD[OF inj this that(1)] show ?thesis using set_b by simp
  qed
  have mem: "b \<in> set xs" using set_b by simp
  show ?thesis
  proof
    assume "pick_route m xs = Inr rt"
    with pick have "rt = resolution_of m b" by simp
    with least mem show "\<exists>x \<in> set xs. (\<forall>y \<in> set xs. match_sort_key x \<le> match_sort_key y) \<and> rt = resolution_of m x" by blast
  next
    assume "\<exists>x \<in> set xs. (\<forall>y \<in> set xs. match_sort_key x \<le> match_sort_key y) \<and> rt = resolution_of m x"
    with only have "rt = resolution_of m b" by blast
    with pick show "pick_route m xs = Inr rt" by simp
  qed
qed

lemma match_sort_key_inj:
  assumes "\<And>x. x \<in> set xs \<Longrightarrow> mr_id (rm_route x) < 2 ^ 128" "distinct (map (mr_id \<circ> rm_route) xs)"
  shows "inj_on match_sort_key (set xs)"
proof (rule inj_onI)
  fix x y assume xy: "x \<in> set xs" "y \<in> set xs" "match_sort_key x = match_sort_key y"
  then have "mr_id (rm_route x) = mr_id (rm_route y)"
    using uuid_str_inj assms(1) by (simp add: match_sort_key_def)
  then show "x = y" using xy assms(2) by (auto simp: distinct_map inj_on_def)
qed


lemma resolve_model_iff:
  assumes ok: "catalog_ok db" and few: "length (filter (\<lambda>r. mr_endpoint r = ep) (cd_routes db)) \<le> 1000" "length (cd_providers db) \<le> 100"
    and m: "m \<noteq> []" "model_permitted m ak"
  shows "resolve_model m ak ep db = Inr rt \<longleftrightarrow>
    (\<exists>x. usable_match m ak ep db x \<and> (\<forall>y. usable_match m ak ep db y \<longrightarrow> match_sort_key x \<le> match_sort_key y)
       \<and> rt = resolution_of m x)"
proof -
  let ?configs = "list_provider_configs None 100 0 db" and ?routes = "list_model_routes (Some ep) None 1000 0 db"
  have dr: "distinct (map mr_id (cd_routes db))" and dp: "distinct (map pc_provider (cd_providers db))"
    and chk: "list_all model_route_checks (cd_routes db)" and ids: "list_all (\<lambda>r. mr_id r < 2 ^ 128) (cd_routes db)"
    using ok by (simp_all add: catalog_ok_def)
  note routes = all_listed[OF few(1)] and provs = all_providers[OF few(2)]
  have "list_all model_route_checks ?routes" using chk routes(1) by (auto simp: list_all_iff)
  then obtain found disabled where fd: "matching_routes m ?routes = Inr (found, disabled)"
    using matching_routes_checked[of ?routes m] by auto
  have found: "found = filter (\<lambda>r. matches_model_route m r = Inr True \<and> mr_enabled r) ?routes"
    by (rule matching_routes_Inr[OF fd])
  define ranked where "ranked = fst (rank_matches ?configs found)"
  define permitted where "permitted = (if trusted_key ak then ranked else
      case ak_allowed_providers ak of None \<Rightarrow> ranked | Some ps \<Rightarrow> filter (\<lambda>x. mr_provider (rm_route x) \<in> set ps) ranked)"
  have ranked_iff: "x \<in> set ranked \<longleftrightarrow> rm_route x \<in> set found \<and> rm_provider_config x \<in> set (cd_providers db)
      \<and> pc_provider (rm_provider_config x) = mr_provider (rm_route x) \<and> pc_enabled (rm_provider_config x)" for x
    unfolding ranked_def rank_matches_set provider_by_name_iff[OF provs(2)[OF dp]] provs(1) by blast
  have usable: "x \<in> set permitted \<longleftrightarrow> usable_match m ak ep db x" for x
    unfolding permitted_def usable_match_def
    by (auto simp: ranked_iff found routes(1) split: option.splits if_splits)
  have "distinct (map mr_id found)" unfolding found by (rule distinct_map_filter[OF routes(2)[OF dr]])
  then have dk: "distinct (map (mr_id \<circ> rm_route) ranked)"
    using rank_matches_routes[of ?configs found] distinct_map_filter unfolding ranked_def
    by (metis list.map_comp)
  then have dperm: "distinct (map (mr_id \<circ> rm_route) permitted)"
    by (auto simp: permitted_def distinct_map_filter split: option.splits)
  have inj: "inj_on match_sort_key (set permitted)"
    by (rule match_sort_key_inj[OF _ dperm]) (use usable ids in \<open>auto simp: usable_match_def list_all_iff\<close>)
  have dist: "distinct permitted" using dperm by (auto simp: distinct_map)
  have empty: "found = [] \<Longrightarrow> ranked = []" by (simp add: ranked_def)
  have "resolve_model m ak ep db = Inr rt \<longleftrightarrow> permitted \<noteq> [] \<and> pick_route m permitted = Inr rt"
    using m fd empty unfolding resolve_model_def model_permitted_def permitted_def ranked_def
    by (auto simp: Let_def case_prod_beta split: option.splits if_splits)
  also have "\<dots> \<longleftrightarrow> (\<exists>x \<in> set permitted. (\<forall>y \<in> set permitted. match_sort_key x \<le> match_sort_key y) \<and> rt = resolution_of m x)"
    using pick_route_iff[OF inj dist] by (cases "permitted = []") auto
  finally show ?thesis by (simp add: usable Bex_def Ball_def)
qed

lemma least_match_exists:
  assumes "finite (Collect P)" "P x"
  shows "\<exists>x. P x \<and> (\<forall>y. P y \<longrightarrow> match_sort_key x \<le> match_sort_key y)"
proof -
  have "Min (match_sort_key ` Collect P) \<in> match_sort_key ` Collect P" using assms by (intro Min_in) auto
  then obtain z where "P z" "match_sort_key z = Min (match_sort_key ` Collect P)" by auto
  then show ?thesis using assms(1) by (metis (mono_tags, lifting) Min_le finite_imageI imageI mem_Collect_eq)
qed

lemma usable_finite: "finite (Collect (usable_match m ak ep db))"
proof (rule finite_subset)
  let ?f = "\<lambda>(r, c). \<lparr>rm_route = r, rm_provider_config = c\<rparr>"
  show "Collect (usable_match m ak ep db) \<subseteq> ?f ` (set (cd_routes db) \<times> set (cd_providers db))"
  proof
    fix x :: ranked_match assume "x \<in> Collect (usable_match m ak ep db)"
    then have "(rm_route x, rm_provider_config x) \<in> set (cd_routes db) \<times> set (cd_providers db)" by (simp add: usable_match_def)
    moreover have "x = ?f (rm_route x, rm_provider_config x)" by simp
    ultimately show "x \<in> ?f ` (set (cd_routes db) \<times> set (cd_providers db))" by (rule image_eqI[rotated])
  qed
qed simp

section \<open>Catalog, patterns and endpoints\<close>

lemma visible_models_loop_mem:
  "om \<in> set (visible_models_loop en rp ps rm ms seen rs) \<Longrightarrow>
   \<exists>r \<in> set rs. om = \<lparr>om_id = mr_requested_model r, om_owned_by = mr_provider r\<rparr> \<and> mr_provider r \<in> set en
     \<and> (rp \<longrightarrow> mr_provider r \<in> set ps) \<and> (rm \<longrightarrow> mr_requested_model r \<in> set ms)"
  by (induction en rp ps rm ms seen rs rule: visible_models_loop.induct) (auto split: if_splits)

definition plain_char :: "char \<Rightarrow> bool" where
  "plain_char c = (c \<notin> {CHR ''*'', CHR ''?'', CHR ''[''})"

lemma glob_of_plain: "list_all plain_char p \<Longrightarrow> glob_of (p @ q) = map GLit p @ glob_of q"
  by (induction p) (auto simp: plain_char_def)

lemma glob_match_lits: "glob_match (map GLit p @ g) s \<longleftrightarrow> (\<exists>t. s = p @ t \<and> glob_match g t)"
proof (induction p arbitrary: s)
  case (Cons c p)
  then show ?case by (cases s) auto
qed simp

lemma glob_match_star: "glob_match [GStar] s"
  by (induction s) auto


text \<open>The alias table is its own normal form, so the derived table lists the same pairs.\<close>

definition entry_char :: "char \<Rightarrow> bool" where
  "entry_char c = (let n = (of_char c :: int) in 33 \<le> n \<and> n < 127 \<and> \<not> (65 \<le> n \<and> n \<le> 90))"

definition method_char :: "char \<Rightarrow> bool" where
  "method_char c = (let n = (of_char c :: int) in 97 \<le> n \<and> n \<le> 122)"

definition entry_shape :: "string \<Rightarrow> bool" where
  "entry_shape a =
     (a \<noteq> [] \<and> (list_all entry_char a
       \<or> (let m = takeWhile (\<lambda>c. c \<noteq> CHR '' '') a; p = tl (dropWhile (\<lambda>c. c \<noteq> CHR '' '') a)
          in a = m @ '' '' @ p \<and> m \<noteq> [] \<and> list_all method_char m \<and> starts_with p ''/'' \<and> list_all entry_char p)))"

lemma entry_char_facts: "entry_char c \<Longrightarrow> \<not> py_isspace c \<and> lower_char c = c"
proof -
  assume e: "entry_char c"
  have i: "(of_char c :: int) = int (of_char c)" by (simp only: of_nat_of_char)
  have n: "33 \<le> (of_char c :: nat)" "(of_char c :: nat) < 127" "\<not> (65 \<le> (of_char c :: nat) \<and> (of_char c :: nat) \<le> 90)"
    using e unfolding entry_char_def Let_def i by simp_all
  then show ?thesis by (auto simp: py_isspace_def lower_char_def is_upper_def char_code_def)
qed

lemma method_char_facts: "method_char c \<Longrightarrow> entry_char c \<and> is_lower c"
proof -
  assume m: "method_char c"
  have i: "(of_char c :: int) = int (of_char c)" by (simp only: of_nat_of_char)
  show ?thesis using m unfolding method_char_def entry_char_def Let_def i by (auto simp: is_lower_def char_code_def)
qed

lemma strip_entry: "a \<noteq> [] \<Longrightarrow> \<not> py_isspace (hd a) \<Longrightarrow> \<not> py_isspace (last a) \<Longrightarrow> py_strip a = a"
proof -
  assume a: "a \<noteq> []" "\<not> py_isspace (hd a)" "\<not> py_isspace (last a)"
  then have "dropWhile py_isspace a = a" "dropWhile py_isspace (rev a) = rev a"
    by (auto simp: dropWhile_eq_self_iff hd_rev)
  then show "py_strip a = a" by (simp only: py_strip_def rev_rev_ident)
qed

lemma lower_entry: "list_all entry_char a \<Longrightarrow> py_lower a = a"
  by (induction a) (auto simp: py_lower_def dest: entry_char_facts)

lemma normalize_entry:
  assumes "entry_shape a"
  shows "normalize_endpoint_entry a = a"
proof (cases "list_all entry_char a")
  case True
  have ne: "a \<noteq> []" using assms by (simp add: entry_shape_def)
  then have "py_strip a = a" using True by (intro strip_entry) (auto simp: list_all_iff dest: entry_char_facts)
  moreover have "takeWhile (\<lambda>c. \<not> py_isspace c) a = a"
    using True by (auto simp: takeWhile_eq_all_conv list_all_iff dest: entry_char_facts)
  moreover from this have "dropWhile (\<lambda>c. \<not> py_isspace c) a = []" by (simp add: takeWhile_eq_all_conv)
  ultimately have "py_strip a = a" "split_once a = [a]" by (simp_all only: split_once_def Let_def dropWhile.simps if_True simp_thms)
  then show ?thesis using ne lower_entry[OF True] by (simp add: normalize_endpoint_entry_def)
next
  case False
  then obtain m p where a: "a = m @ '' '' @ p" "m \<noteq> []" "list_all method_char m" "starts_with p ''/''" "list_all entry_char p"
    using assms unfolding entry_shape_def Let_def by blast
  have mm: "list_all entry_char m" using a(3) by (auto simp: list_all_iff dest: method_char_facts)
  have pne: "p \<noteq> []" using a(4) by (cases p) auto
  have nsp: "\<not> py_isspace c" if "c \<in> set m \<union> set p" for c
    using that mm a(5) by (auto simp: list_all_iff dest: entry_char_facts)
  have "py_strip a = a" using a(2) pne nsp by (intro strip_entry) (auto simp: a(1))
  moreover have "takeWhile (\<lambda>c. \<not> py_isspace c) a = m" "dropWhile (\<lambda>c. \<not> py_isspace c) a = '' '' @ p"
    using nsp by (auto simp: a(1) takeWhile_append dropWhile_append py_isspace_def char_code_def)
  moreover have "dropWhile py_isspace ('' '' @ p) = p"
    using pne nsp by (auto simp: py_isspace_def char_code_def dropWhile_eq_self_iff)
  ultimately have "split_once a = [m, p]" using pne by (simp add: split_once_def Let_def)
  moreover have "is_alpha m" using a(2,3) by (auto simp: is_alpha_def list_all_iff dest: method_char_facts)
  ultimately show ?thesis
    using \<open>py_strip a = a\<close> a(1,4) lower_entry[OF mm] lower_entry[OF a(5)] by (simp add: normalize_endpoint_entry_def)
qed

lemma alias_shapes: "list_all (\<lambda>(e, as). list_all entry_shape as) endpoint_aliases"
  by code_simp

lemma alias_normal: "\<forall>(e, as) \<in> set endpoint_aliases. \<forall>a \<in> set as. normalize_endpoint_entry a = a"
  using alias_shapes by (fastforce simp: list_all_iff intro: normalize_entry)

lemma alias_table: "alias_to_canonical_endpoint =
    rev (concat (map (\<lambda>(stable_id, as). map (\<lambda>a. (a, stable_id)) as) endpoint_aliases))"
  unfolding alias_to_canonical_endpoint_def using alias_normal
  by (auto intro!: arg_cong[where f = concat] map_cong)

lemma alias_table_distinct: "distinct (map fst (concat (map (\<lambda>(stable_id, as). map (\<lambda>a. (a, stable_id)) as) endpoint_aliases)))"
  by (simp add: endpoint_aliases_def)

lemma endpoint_ids_distinct: "distinct (map fst endpoint_aliases)"
  by (simp add: endpoint_aliases_def)

lemma canonical_endpoint_iff:
  "canonical_endpoint_id v = Some e \<longleftrightarrow> (\<exists>as. map_of endpoint_aliases e = Some as \<and> normalize_endpoint_entry v \<in> set as)"
proof -
  let ?t = "concat (map (\<lambda>(stable_id, as). map (\<lambda>a. (a, stable_id)) as) endpoint_aliases)"
  have "distinct (map fst (rev ?t))" using alias_table_distinct by (simp only: rev_map[symmetric] distinct_rev)
  then have "canonical_endpoint_id v = Some e \<longleftrightarrow> (normalize_endpoint_entry v, e) \<in> set ?t"
    unfolding canonical_endpoint_id_def alias_table by (simp only: map_of_eq_Some_iff set_rev)
  also have "\<dots> \<longleftrightarrow> (\<exists>as. (e, as) \<in> set endpoint_aliases \<and> normalize_endpoint_entry v \<in> set as)" by auto
  finally show ?thesis by (simp only: map_of_eq_Some_iff[OF endpoint_ids_distinct])
qed

section \<open>Properties\<close>

definition sample_provider :: provider_config where
  "sample_provider =
     \<lparr>pc_id = 1, pc_provider = ''openai'', pc_display_name = ''OpenAI'', pc_kind = ''openai_compatible'',
      pc_base_url = ''https://api.openai.com/v1'', pc_api_key_env_var = ''OPENAI_API_KEY'', pc_enabled = True,
      pc_timeout_seconds = 300, pc_max_retries = 2, pc_notes = None, pc_created_at = Aware 0\<rparr>"

definition sample_model_route :: model_route where
  "sample_model_route =
     \<lparr>mr_id = 3, mr_requested_model = ''m'', mr_match_type = ''exact'', mr_endpoint = ''/v1/chat/completions'',
      mr_provider = ''openai'', mr_upstream_model = ''m'', mr_priority = 1, mr_enabled = True, mr_visible_in_models = True,
      mr_supports_streaming = True, mr_capabilities = [], mr_notes = None, mr_created_at = Aware 0\<rparr>"

definition sample_catalog :: catalog_db where
  "sample_catalog = \<lparr>cd_routes = [sample_model_route\<lparr>mr_id := 4, mr_requested_model := ''*'', mr_match_type := ''glob''\<rparr>, sample_model_route],
     cd_providers = [sample_provider]\<rparr>"

definition sample_match :: ranked_match where
  "sample_match = \<lparr>rm_route = sample_model_route, rm_provider_config = sample_provider\<rparr>"

lemmas catalog_eval = sample_provider_def sample_model_route_def sample_catalog_def sample_match_def sample_ak_def

lemma sample_catalog_ok: "catalog_ok sample_catalog"
  by (simp add: catalog_ok_def catalog_eval model_route_checks_def provider_config_checks_def)

lemma sample_resolves: "resolve_model ''m'' sample_ak ''/v1/chat/completions'' sample_catalog = Inr (resolution_of ''m'' sample_match)"
  by (simp add: resolve_model_def list_provider_configs_def list_model_routes_def page_def catalog_eval matches_model_route_def
      fnmatchcase_def provider_by_name_def pick_route_def match_sort_key_def specificity_rank_def is_trusted_calibration_key_def
      insort_key_def sort_key_def Let_def)

text \<open>C14: Route resolution returns exactly the best usable route: for a model the key may request, the
  result is the route that is first by priority, then exact before prefix before glob, then the
  longer pattern, then the id, among the enabled routes of the endpoint that match, have a
  configured and enabled provider and are with a provider the key may use; it fails only when there
  is none, and never because of a tie.  (The catalogue holds at most 100 providers and 1000 routes
  for the endpoint, the numbers the service reads.)
\<close>

theorem resolve_model_exact:
  assumes "catalog_ok db" "length (filter (\<lambda>r. mr_endpoint r = endpoint) (cd_routes db)) \<le> 1000" "length (cd_providers db) \<le> 100"
    "m \<noteq> []" "model_permitted m ak"
  shows "resolve_model m ak endpoint db = Inr rt \<longleftrightarrow>
    (\<exists>x. usable_match m ak endpoint db x \<and> (\<forall>y. usable_match m ak endpoint db y \<longrightarrow> match_sort_key x \<le> match_sort_key y)
       \<and> rt = resolution_of m x)"
  by (rule resolve_model_iff[OF assms])

theorem resolve_model_exact_witness:
  "\<exists>x. usable_match ''m'' sample_ak ''/v1/chat/completions'' sample_catalog x \<and> resolution_of ''m'' sample_match = resolution_of ''m'' x"
proof -
  have "model_permitted ''m'' sample_ak" by (simp add: model_permitted_def sample_ak_def)
  from resolve_model_exact[OF sample_catalog_ok _ _ _ this, of "''/v1/chat/completions''" "resolution_of ''m'' sample_match"]
  show ?thesis using sample_resolves by (simp add: sample_catalog_def) blast
qed

text \<open>The model list and the router agree: a model that /v1/models shows to a key because of an
  exact route on an endpoint resolves for that key on that endpoint.
\<close>

theorem catalog_models_resolve:
  assumes "catalog_ok db" "length (filter (\<lambda>r. mr_endpoint r = endpoint) (cd_routes db)) \<le> 1000" "length (cd_providers db) \<le> 100"
    "om \<in> set (list_visible_models ak db)" "om_id om \<noteq> []"
    "r \<in> set (cd_routes db)" "mr_requested_model r = om_id om" "mr_provider r = om_owned_by om"
    "mr_match_type r = ''exact''" "mr_endpoint r = endpoint" "mr_enabled r"
  shows "\<exists>rt. resolve_model (om_id om) ak endpoint db = Inr rt"
proof -
  have "om \<in> set (visible_models_loop (map pc_provider (filter pc_enabled (list_provider_configs None 100 0 db)))
      (\<not> trusted_key ak \<and> ak_allowed_providers ak \<noteq> None) (case ak_allowed_providers ak of Some ps \<Rightarrow> ps | None \<Rightarrow> [])
      (\<not> trusted_key ak \<and> \<not> ak_allow_all_models ak) (ak_allowed_models ak) [] (list_visible_model_routes None db))"
    using assms(4) by (simp add: list_visible_models_def split: if_splits)
  from visible_models_loop_mem[OF this] obtain r' :: model_route where r': "om = \<lparr>om_id = mr_requested_model r', om_owned_by = mr_provider r'\<rparr>"
      "mr_provider r' \<in> set (map pc_provider (filter pc_enabled (list_provider_configs None 100 0 db)))"
      "\<not> trusted_key ak \<and> ak_allowed_providers ak \<noteq> None \<longrightarrow> mr_provider r' \<in> set (case ak_allowed_providers ak of Some ps \<Rightarrow> ps | None \<Rightarrow> [])"
      "\<not> trusted_key ak \<and> \<not> ak_allow_all_models ak \<longrightarrow> mr_requested_model r' \<in> set (ak_allowed_models ak)"
    by blast
  obtain c where c: "c \<in> set (cd_providers db)" "pc_enabled c" "pc_provider c = mr_provider r"
    using r'(1,2) assms(3,8) by (auto simp: all_providers(1))
  have perm: "model_permitted (om_id om) ak" using r'(1,4) by (auto simp: model_permitted_def)
  have "usable_match (om_id om) ak endpoint db \<lparr>rm_route = r, rm_provider_config = c\<rparr>"
    using assms c r'(1,3) by (auto simp: usable_match_def matches_model_route_def split: option.splits)
  from least_match_exists[OF usable_finite this] show ?thesis
    using resolve_model_iff[OF assms(1-3,5) perm] by blast
qed

theorem catalog_models_resolve_witness: "\<exists>rt. resolve_model ''m'' sample_ak ''/v1/chat/completions'' sample_catalog = Inr rt"
proof -
  have "\<lparr>om_id = ''m'', om_owned_by = ''openai''\<rparr> \<in> set (list_visible_models sample_ak sample_catalog)"
    by (simp add: list_visible_models_def list_provider_configs_def list_visible_model_routes_def page_def catalog_eval
        is_trusted_calibration_key_def insort_key_def sort_key_def)
  from catalog_models_resolve[OF sample_catalog_ok _ _ this, of "''/v1/chat/completions''" sample_model_route]
  show ?thesis by (simp add: catalog_eval)
qed

text \<open>A glob route whose pattern is plain text followed by one star accepts the same models as the
  prefix route with that text, and a glob route without special characters the same as the exact
  route.
\<close>

theorem glob_star_is_prefix:
  assumes "list_all plain_char p"
  shows "matches_model_route m (r\<lparr>mr_match_type := ''glob'', mr_requested_model := p @ ''*''\<rparr>)
           = matches_model_route m (r\<lparr>mr_match_type := ''prefix'', mr_requested_model := p\<rparr>)
    \<and> matches_model_route m (r\<lparr>mr_match_type := ''glob'', mr_requested_model := p\<rparr>)
           = matches_model_route m (r\<lparr>mr_match_type := ''exact'', mr_requested_model := p\<rparr>)"
  using glob_of_plain[OF assms, of "''*''"] glob_of_plain[OF assms, of "[]"] glob_match_lits[of p "[]" m]
    glob_match_lits[of p "[GStar]" m] glob_match_star
  by (simp add: matches_model_route_def fnmatchcase_def starts_with_iff del: glob_match.simps(2))

theorem glob_star_is_prefix_witness:
  "matches_model_route ''gpt-4o'' (sample_model_route\<lparr>mr_match_type := ''glob'', mr_requested_model := ''gpt-'' @ ''*''\<rparr>) = Inr True"
  using glob_star_is_prefix[of "''gpt-''" "''gpt-4o''" sample_model_route]
  by (simp add: plain_char_def matches_model_route_def)

text \<open>For every endpoint of the alias table, a key may call it exactly when the key is unrestricted,
  a trusted calibration key, or one of its allow-list entries names that endpoint under any of the
  endpoint's spellings (canonical id, path, or method and path, in any case and with outer blanks).
\<close>

theorem endpoint_grant_exact:
  assumes "endpoint \<in> fst ` set endpoint_aliases"
  shows "ensure_endpoint_allowed ak endpoint = Inr () \<longleftrightarrow>
    ak_allow_all_endpoints ak \<or> trusted_key ak
    \<or> (\<exists>entry \<in> set (ak_allowed_endpoints ak). canonical_endpoint_id entry = Some endpoint)"
proof -
  obtain as where "map_of endpoint_aliases endpoint = Some as"
    using assms by (metis map_of_eq_None_iff not_None_eq)
  then show ?thesis
    by (auto simp: ensure_endpoint_allowed_def canonical_endpoint_iff Let_def list_ex_iff)
qed

theorem endpoint_grant_exact_witness:
  "ensure_endpoint_allowed (sample_ak\<lparr>ak_allow_all_endpoints := False, ak_allowed_endpoints := [''POST  /v1/Responses'']\<rparr>) ''responses'' = Inr ()"
proof -
  have "canonical_endpoint_id ''POST  /v1/Responses'' = Some ''responses''"
    by (simp add: canonical_endpoint_iff endpoint_aliases_def normalize_endpoint_entry_def split_once_def is_alpha_def string_eval char_of_eq_iff)
  moreover have "''responses'' \<in> fst ` set endpoint_aliases" by (simp add: endpoint_aliases_def)
  ultimately show ?thesis
    using endpoint_grant_exact[of "''responses''" "sample_ak\<lparr>ak_allow_all_endpoints := False, ak_allowed_endpoints := [''POST  /v1/Responses'']\<rparr>"]
    by simp
qed

end
