(* ===== verification/Pricing.thy ===== *)
theory Pricing
  imports AccountingCost
begin

text \<open>
  What a request may cost: \<open>services/pricing.py\<close>, \<open>schemas/pricing.py\<close>, the tables \<open>pricing_rules\<close>
  and \<open>fx_rates\<close> of \<open>db/models.py\<close> and the repository reads the service makes.

  \<open>Decimal(str(v))\<close> is \<open>decimal_of_value\<close>: the grammar of decimal literals, with infinities and NaN
  as \<open>NonFinite\<close>.  Comparing NaN raises \<open>InvalidOperation\<close>; an infinite price in metadata has no
  counterpart among the finite Decimals of this development and is reported the same way.  The row
  that \<open>find_active_pricing_rule_with_fx\<close> returns carries the columns of the two tables that the
  service reads.

  Shown: the lookup returns the latest enabled rule valid at the time; the one-statement capture
  gives what the two separate lookups give; the estimate covers, up to the rounding of Decimal, every
  cost the accounting service later computes when cached tokens are not dearer than input and, outside Codex
  limits, reasoning not dearer than output, and by how much it falls short otherwise.
\<close>

section \<open>Tables\<close>

record pricing_rule =
  pl_id :: uuid
  pl_provider :: string
  pl_upstream_model :: string
  pl_endpoint :: string
  pl_currency :: string
  pl_input_price_per_1m :: "decimal option"
  pl_cached_input_price_per_1m :: "decimal option"
  pl_output_price_per_1m :: "decimal option"
  pl_reasoning_price_per_1m :: "decimal option"
  pl_request_price :: "decimal option"
  pl_pricing_metadata :: pyval
  pl_valid_from :: pydatetime
  pl_valid_until :: "pydatetime option"
  pl_enabled :: bool

record fx_rate =
  fx_id :: uuid
  fx_base_currency :: string
  fx_quote_currency :: string
  fx_rate_value :: decimal
  fx_valid_from :: pydatetime
  fx_valid_until :: "pydatetime option"
  fx_created_at :: pydatetime

record pricing_db =
  pd_rules :: "pricing_rule list"
  pd_fx :: "fx_rate list"

definition pricing_rule_checks :: "pricing_rule \<Rightarrow> bool" where
  "pricing_rule_checks r =
     (opt_all (\<lambda>x. 0 \<le> x) (pl_input_price_per_1m r) \<and> opt_all (\<lambda>x. 0 \<le> x) (pl_cached_input_price_per_1m r)
      \<and> opt_all (\<lambda>x. 0 \<le> x) (pl_output_price_per_1m r) \<and> opt_all (\<lambda>x. 0 \<le> x) (pl_reasoning_price_per_1m r)
      \<and> opt_all (\<lambda>x. 0 \<le> x) (pl_request_price r))"

definition fx_rate_checks :: "fx_rate \<Rightarrow> bool" where
  "fx_rate_checks f = (0 < fx_rate_value f)"

section \<open>Repositories\<close>

definition valid_at :: "pydatetime \<Rightarrow> pydatetime option \<Rightarrow> pydatetime \<Rightarrow> bool" where
  "valid_at from until t =
     (micros from \<le> micros t \<and> (case until of None \<Rightarrow> True | Some u \<Rightarrow> micros t < micros u))"

text \<open>\<open>ORDER BY ... LIMIT 1\<close>\<close>

definition first_row :: "'a list \<Rightarrow> 'a option" where
  "first_row xs = (case xs of [] \<Rightarrow> None | x # _ \<Rightarrow> Some x)"

definition active_rules :: "string \<Rightarrow> string \<Rightarrow> string \<Rightarrow> pydatetime \<Rightarrow> pricing_db \<Rightarrow> pricing_rule list" where
  "active_rules provider model endpoint t db =
     filter (\<lambda>r. pl_provider r = provider \<and> pl_upstream_model r = model \<and> pl_endpoint r = endpoint \<and> pl_enabled r
               \<and> valid_at (pl_valid_from r) (pl_valid_until r) t) (pd_rules db)"

definition repo_find_active_pricing_rule ::
  "string \<Rightarrow> string \<Rightarrow> string \<Rightarrow> pydatetime \<Rightarrow> pricing_db \<Rightarrow> pricing_rule option" where
  "repo_find_active_pricing_rule provider model endpoint t db =
     first_row (sort_key (\<lambda>r. - micros (pl_valid_from r)) (active_rules provider model endpoint t db))"

text \<open>\<open>ORDER BY valid_from DESC, created_at DESC\<close>: sorted by the second key, then stably by the first.\<close>

definition find_latest_rate :: "string \<Rightarrow> string \<Rightarrow> pydatetime option \<Rightarrow> pricing_db \<Rightarrow> fx_rate option" where
  "find_latest_rate base quote t db =
     first_row (sort_key (\<lambda>f. - micros (fx_valid_from f)) (sort_key (\<lambda>f. - micros (fx_created_at f))
       (filter (\<lambda>f. fx_base_currency f = base \<and> fx_quote_currency f = quote
                  \<and> (case t of None \<Rightarrow> True | Some d \<Rightarrow> valid_at (fx_valid_from f) (fx_valid_until f) d)) (pd_fx db))))"

text \<open>The one statement: the rule's subquery joined laterally with the rate's.\<close>

definition find_active_pricing_rule_with_fx ::
  "string \<Rightarrow> string \<Rightarrow> string \<Rightarrow> pydatetime \<Rightarrow> pricing_db \<Rightarrow> pricing_rule option \<times> fx_rate option" where
  "find_active_pricing_rule_with_fx provider model endpoint t db =
     (case first_row (sort_key (\<lambda>r. - micros (pl_valid_from r)) (active_rules provider model endpoint t db)) of
        None \<Rightarrow> (None, None)
      | Some p \<Rightarrow>
          (Some p,
           first_row (sort_key (\<lambda>f. - micros (fx_valid_from f)) (sort_key (\<lambda>f. - micros (fx_created_at f))
             (filter (\<lambda>f. fx_base_currency f = pl_currency p \<and> fx_quote_currency f = ''EUR'' \<and> pl_currency p \<noteq> ''EUR''
                        \<and> valid_at (fx_valid_from f) (fx_valid_until f) t) (pd_fx db))))))"

section \<open>Decimal literals\<close>

datatype parsed_decimal = Finite decimal | NonFinite bool

definition digits_value :: "string \<Rightarrow> nat" where
  "digits_value s = foldl (\<lambda>n c. 10 * n + (char_code c - 48)) 0 s"

text \<open>Sign and rest; \<open>True\<close> for minus.\<close>

definition split_sign :: "string \<Rightarrow> bool \<times> string" where
  "split_sign s = (case s of c # r \<Rightarrow> if c = CHR ''-'' then (True, r) else if c = CHR ''+'' then (False, r) else (False, s)
                   | [] \<Rightarrow> (False, s))"

definition parse_exponent :: "string \<Rightarrow> int option" where
  "parse_exponent s =
     (case s of
        [] \<Rightarrow> Some 0
      | c # r \<Rightarrow>
          if lower_char c \<noteq> CHR ''e'' then None
          else let (neg, d) = split_sign r
               in if d = [] \<or> \<not> list_all is_digit d then None
                  else Some (if neg then - int (digits_value d) else int (digits_value d)))"

definition parse_finite :: "bool \<Rightarrow> string \<Rightarrow> decimal option" where
  "parse_finite neg s =
     (let whole = takeWhile is_digit s; rest = dropWhile is_digit s;
          (frac, rest2) = (case rest of c # r \<Rightarrow> if c = CHR ''.'' then (takeWhile is_digit r, dropWhile is_digit r) else ([], rest)
                           | [] \<Rightarrow> ([], rest))
      in if whole @ frac = [] then None
         else case parse_exponent rest2 of
                None \<Rightarrow> None
              | Some e \<Rightarrow>
                  let v = of_nat (digits_value (whole @ frac)) * 10 powi (e - int (length frac))
                  in Some (if neg then - v else v))"

definition decimal_of_string :: "string \<Rightarrow> parsed_decimal option" where
  "decimal_of_string text =
     (let (neg, s) = split_sign (filter (\<lambda>c. c \<noteq> CHR ''_'') (py_strip text)); l = py_lower s
      in if l = ''inf'' \<or> l = ''infinity'' then Some (NonFinite neg)
         else if starts_with l ''nan'' \<and> list_all is_digit (drop 3 l) \<or> starts_with l ''snan'' \<and> list_all is_digit (drop 4 l)
         then Some (NonFinite False)
         else map_option Finite (parse_finite neg s))"

fun decimal_of_value :: "pyval \<Rightarrow> parsed_decimal option" where
  "decimal_of_value (PInt i) = Some (Finite (of_int i))"
| "decimal_of_value (PFloat s) = decimal_of_string s"
| "decimal_of_value (PDec d) = Some (Finite d)"
| "decimal_of_value (PDecStr d) = Some (Finite d)"
| "decimal_of_value (PStr s) = decimal_of_string s"
| "decimal_of_value _ = None"

section \<open>Reading a pricing rule\<close>

record external_tool_pricing =
  etp_currency :: string
  etp_unit_price_native :: decimal
  etp_source :: string

record pricing_lookup_result =
  pq_provider :: string
  pq_model :: string
  pq_endpoint :: string
  pq_currency :: string
  pq_input_price_per_1m :: decimal
  pq_cached_input_price_per_1m :: "decimal option"
  pq_output_price_per_1m :: decimal
  pq_reasoning_price_per_1m :: "decimal option"
  pq_audio_output_price_per_1m :: "decimal option"
  pq_request_price :: "decimal option"
  pq_cache_write_input_price_per_1m :: "decimal option"
  pq_cache_write_input_multiplier :: "decimal option"
  pq_long_context_threshold_tokens :: "int option"
  pq_long_context_input_multiplier :: "decimal option"
  pq_long_context_output_multiplier :: "decimal option"
  pq_pricing_rule_id :: "uuid option"
  pq_valid_from :: pydatetime
  pq_valid_until :: "pydatetime option"
  pq_external_tool_pricing :: "external_tool_pricing option"

record fx_conversion_result =
  fc_from_currency :: string
  fc_to_currency :: string
  fc_rate :: decimal
  fc_fx_rate_id :: "uuid option"

definition pricing_normalize_currency :: "string \<Rightarrow> string result" where
  "pricing_normalize_currency value =
     (let currency = py_upper (py_strip value) in if currency = [] then Inl UnsupportedCurrencyError else Inr currency)"

definition pricing_normalize_endpoint :: "string \<Rightarrow> string" where
  "pricing_normalize_endpoint value =
     (let endpoint = py_strip value in
      if endpoint = ''chat.completions'' then ''/v1/chat/completions''
      else if endpoint = ''audio.speech'' then ''/v1/audio/speech''
      else if endpoint = ''audio.transcriptions'' then ''/v1/audio/transcriptions''
      else if endpoint = ''audio.translations'' then ''/v1/audio/translations''
      else if endpoint = ''embeddings'' then ''/v1/embeddings''
      else if endpoint = ''realtime.client_secrets'' then ''/v1/realtime/client_secrets''
      else if endpoint = ''responses'' then ''/v1/responses''
      else endpoint)"

definition optional_non_negative_decimal :: "decimal option \<Rightarrow> string \<Rightarrow> decimal option result" where
  "optional_non_negative_decimal value field_name =
     (case value of None \<Rightarrow> Inr None
      | Some x \<Rightarrow> if x < 0 then Inl (InvalidPricingDataError field_name) else Inr (Some x))"

definition required_non_negative_decimal :: "decimal option \<Rightarrow> string \<Rightarrow> decimal result" where
  "required_non_negative_decimal value field_name =
     (case value of None \<Rightarrow> Inl (InvalidPricingDataError field_name)
      | Some x \<Rightarrow> if x < 0 then Inl (InvalidPricingDataError field_name) else Inr x)"

definition required_positive_decimal :: "decimal \<Rightarrow> decimal result" where
  "required_positive_decimal value = (if value \<le> 0 then Inl InvalidFxRateError else Inr value)"

definition optional_metadata_price_per_1m :: "pyval \<Rightarrow> string \<Rightarrow> decimal option result" where
  "optional_metadata_price_per_1m metadata field_name =
     (case metadata of
        PDict d \<Rightarrow>
          (case dget d field_name of
             PNone \<Rightarrow> Inr None
           | PBool _ \<Rightarrow> Inl (InvalidPricingDataError field_name)
           | PList _ \<Rightarrow> Inl (InvalidPricingDataError field_name)
           | PDict _ \<Rightarrow> Inl (InvalidPricingDataError field_name)
           | v \<Rightarrow>
               (case decimal_of_value v of
                  None \<Rightarrow> Inl (InvalidPricingDataError field_name)
                | Some (NonFinite neg) \<Rightarrow> Inl (if neg then InvalidPricingDataError field_name else DataError field_name)
                | Some (Finite x) \<Rightarrow> optional_non_negative_decimal (Some x) field_name))
      | _ \<Rightarrow> Inr None)"

definition strict_non_negative_decimal_string :: "pyval \<Rightarrow> string \<Rightarrow> decimal result" where
  "strict_non_negative_decimal_string value field_name =
     (case value of
        PStr s \<Rightarrow>
          if py_strip s = [] then Inl (InvalidPricingDataError field_name)
          else (case decimal_of_string s of
                  Some (Finite x) \<Rightarrow> if x < 0 then Inl (InvalidPricingDataError field_name) else Inr x
                | _ \<Rightarrow> Inl (InvalidPricingDataError field_name))
      | PDecStr x \<Rightarrow> if x < 0 then Inl (InvalidPricingDataError field_name) else Inr x
      | _ \<Rightarrow> Inl (InvalidPricingDataError field_name))"

definition strict_positive_decimal_string :: "pyval \<Rightarrow> string \<Rightarrow> decimal result" where
  "strict_positive_decimal_string value field_name =
     sbind (strict_non_negative_decimal_string value field_name) (\<lambda>x.
     if x \<le> 0 then Inl (InvalidPricingDataError field_name) else Inr x)"

type_synonym codex_price_fields = "decimal option \<times> decimal option \<times> int option \<times> decimal option \<times> decimal option"

definition codex_accounting_metadata :: "pyval \<Rightarrow> decimal \<Rightarrow> codex_price_fields result" where
  "codex_accounting_metadata metadata input_price =
     (case metadata of
        PDict m \<Rightarrow>
          (case map_of m ''codex_accounting'' of
             None \<Rightarrow> Inr (None, None, None, None, None)
           | Some (PDict raw) \<Rightarrow>
               (let fields = set (map fst raw);
                    cache = fields \<inter> {''cache_write_input_price_per_1m'', ''cache_write_input_multiplier''}
                in
                sbind (ensure (card cache = 1 \<and> fields = {''long_context_threshold_tokens'', ''long_context_input_multiplier'',
                                                          ''long_context_output_multiplier''} \<union> cache)
                         (InvalidPricingDataError ''codex_accounting'')) (\<lambda>_.
                sbind (case dget raw ''long_context_threshold_tokens'' of
                         PInt t \<Rightarrow> if t \<le> 0 then Inl (InvalidPricingDataError ''long_context_threshold_tokens'') else Inr t
                       | _ \<Rightarrow> Inl (InvalidPricingDataError ''long_context_threshold_tokens'')) (\<lambda>threshold.
                sbind (strict_positive_decimal_string (dget raw ''long_context_input_multiplier'') ''long_context_input_multiplier'') (\<lambda>long_input.
                sbind (strict_positive_decimal_string (dget raw ''long_context_output_multiplier'') ''long_context_output_multiplier'') (\<lambda>long_output.
                if ''cache_write_input_price_per_1m'' \<in> fields
                then sbind (strict_non_negative_decimal_string (dget raw ''cache_write_input_price_per_1m'')
                              ''cache_write_input_price_per_1m'') (\<lambda>p.
                     Inr (Some p, None, Some threshold, Some long_input, Some long_output))
                else sbind (strict_positive_decimal_string (dget raw ''cache_write_input_multiplier'')
                              ''cache_write_input_multiplier'') (\<lambda>x.
                     Inr (Some (dec_mul input_price x), Some x, Some threshold, Some long_input, Some long_output)))))))
           | Some _ \<Rightarrow> Inl (InvalidPricingDataError ''codex_accounting''))
      | _ \<Rightarrow> Inr (None, None, None, None, None))"

text \<open>The checks of \<open>ExternalToolPricing.__post_init__\<close>\<close>

definition make_external_tool_pricing :: "string \<Rightarrow> decimal \<Rightarrow> string \<Rightarrow> external_tool_pricing result" where
  "make_external_tool_pricing currency amount source =
     sbind (ensure (length currency = 3 \<and> list_all is_upper currency) PyValueError) (\<lambda>_.
     sbind (ensure (0 \<le> amount) PyValueError) (\<lambda>_.
     sbind (ensure (source = ''openai_published_per_call'') PyValueError) (\<lambda>_.
     Inr \<lparr>etp_currency = currency, etp_unit_price_native = amount, etp_source = source\<rparr>)))"

definition parse_external_tool_pricing :: "pyval \<Rightarrow> string \<Rightarrow> external_tool_pricing option result" where
  "parse_external_tool_pricing metadata currency =
     (case metadata of
        PDict m \<Rightarrow>
          (case map_of m ''external_tool_pricing'' of
             None \<Rightarrow> Inr None
           | Some (PDict raw) \<Rightarrow>
               if set (map fst raw) \<noteq> {''openai_web_search_call_price_native'', ''source''}
               then Inl (InvalidPricingDataError ''External-tool pricing metadata is malformed.'')
               else if dget raw ''source'' \<noteq> PStr ''openai_published_per_call''
               then Inl (InvalidPricingDataError ''External-tool pricing source is not approved.'')
               else (case decimal_of_value (dget raw ''openai_web_search_call_price_native'') of
                       Some (Finite x) \<Rightarrow>
                         if x < 0 then Inl (InvalidPricingDataError ''External-tool pricing amount is invalid.'')
                         else sbind (make_external_tool_pricing currency x ''openai_published_per_call'') (\<lambda>p. Inr (Some p))
                     | _ \<Rightarrow> Inl (InvalidPricingDataError ''External-tool pricing amount is invalid.''))
           | Some _ \<Rightarrow> Inl (InvalidPricingDataError ''External-tool pricing metadata is malformed.''))
      | _ \<Rightarrow> Inr None)"

definition optional_external_tool_pricing :: "pyval \<Rightarrow> string \<Rightarrow> external_tool_pricing option result" where
  "optional_external_tool_pricing metadata currency =
     (case metadata of
        PDict m \<Rightarrow>
          (case map_of m ''external_tool_pricing'' of
             Some (PDict raw) \<Rightarrow>
               if set (map fst raw) \<noteq> {''openai_web_search_call_price_native'', ''source''} then Inr None
               else if dget raw ''source'' \<noteq> PStr ''openai_published_per_call'' then Inr None
               else (case decimal_of_value (dget raw ''openai_web_search_call_price_native'') of
                       Some (Finite x) \<Rightarrow>
                         if x < 0 then Inr None
                         else sbind (make_external_tool_pricing currency x ''openai_published_per_call'') (\<lambda>p. Inr (Some p))
                     | _ \<Rightarrow> Inr None)
           | _ \<Rightarrow> Inr None)
      | _ \<Rightarrow> Inr None)"

definition pricing_lookup :: "pricing_rule \<Rightarrow> pricing_lookup_result result" where
  "pricing_lookup row =
     sbind (pricing_normalize_currency (pl_currency row)) (\<lambda>currency.
     sbind (required_non_negative_decimal (pl_input_price_per_1m row) ''input_price_per_1m'') (\<lambda>input_price.
     sbind (required_non_negative_decimal (pl_output_price_per_1m row) ''output_price_per_1m'') (\<lambda>output_price.
     sbind (optional_non_negative_decimal (pl_cached_input_price_per_1m row) ''cached_input_price_per_1m'') (\<lambda>cached.
     sbind (optional_non_negative_decimal (pl_reasoning_price_per_1m row) ''reasoning_price_per_1m'') (\<lambda>reasoning.
     sbind (optional_metadata_price_per_1m (pl_pricing_metadata row) ''audio_output_price_per_1m'') (\<lambda>audio.
     sbind (codex_accounting_metadata (pl_pricing_metadata row) input_price) (\<lambda>(cw_price, cw_mult, threshold, long_in, long_out).
     sbind (optional_non_negative_decimal (pl_request_price row) ''request_price'') (\<lambda>request_price.
     sbind (optional_external_tool_pricing (pl_pricing_metadata row) currency) (\<lambda>tool.
     Inr \<lparr>pq_provider = pl_provider row, pq_model = pl_upstream_model row, pq_endpoint = pl_endpoint row,
          pq_currency = currency, pq_input_price_per_1m = input_price, pq_cached_input_price_per_1m = cached,
          pq_output_price_per_1m = output_price, pq_reasoning_price_per_1m = reasoning,
          pq_audio_output_price_per_1m = audio, pq_request_price = request_price,
          pq_cache_write_input_price_per_1m = cw_price, pq_cache_write_input_multiplier = cw_mult,
          pq_long_context_threshold_tokens = threshold, pq_long_context_input_multiplier = long_in,
          pq_long_context_output_multiplier = long_out, pq_pricing_rule_id = Some (pl_id row),
          pq_valid_from = pl_valid_from row, pq_valid_until = pl_valid_until row, pq_external_tool_pricing = tool\<rparr>)))))))))"

definition fx_conversion :: "fx_rate \<Rightarrow> fx_conversion_result result" where
  "fx_conversion row =
     sbind (required_positive_decimal (fx_rate_value row)) (\<lambda>rate.
     sbind (pricing_normalize_currency (fx_base_currency row)) (\<lambda>base.
     sbind (pricing_normalize_currency (fx_quote_currency row)) (\<lambda>quote.
     Inr \<lparr>fc_from_currency = base, fc_to_currency = quote, fc_rate = rate, fc_fx_rate_id = Some (fx_id row)\<rparr>)))"

section \<open>The service\<close>

definition find_active_pricing_rule ::
  "pydatetime \<Rightarrow> string \<Rightarrow> string \<Rightarrow> string \<Rightarrow> pydatetime option \<Rightarrow> pricing_db \<Rightarrow> pricing_lookup_result result" where
  "find_active_pricing_rule clock provider model endpoint at_opt db =
     sbind (the_or_raise (repo_find_active_pricing_rule provider model (pricing_normalize_endpoint endpoint)
              (aware_now clock at_opt) db) PricingRuleNotFoundError) (\<lambda>row.
     pricing_lookup row)"

definition identity_conversion :: fx_conversion_result where
  "identity_conversion = \<lparr>fc_from_currency = ''EUR'', fc_to_currency = ''EUR'', fc_rate = 1, fc_fx_rate_id = None\<rparr>"

definition convert_to_eur ::
  "pydatetime \<Rightarrow> decimal \<Rightarrow> string \<Rightarrow> pydatetime option \<Rightarrow> pricing_db \<Rightarrow> (decimal \<times> fx_conversion_result) result" where
  "convert_to_eur clock amount native_currency at_opt db =
     sbind (pricing_normalize_currency native_currency) (\<lambda>currency.
     if currency = ''EUR'' then Inr (amount, identity_conversion)
     else
       sbind (the_or_raise (find_latest_rate currency ''EUR'' (Some (aware_now clock at_opt)) db) FxRateNotFoundError) (\<lambda>row.
       sbind (fx_conversion row) (\<lambda>conversion.
       Inr (dec_mul amount (fc_rate conversion), conversion))))"

definition capture_pricing_and_fx ::
  "pydatetime \<Rightarrow> string \<Rightarrow> string \<Rightarrow> string \<Rightarrow> pydatetime option \<Rightarrow> pricing_db
     \<Rightarrow> (pricing_lookup_result \<times> fx_conversion_result) result" where
  "capture_pricing_and_fx clock provider model endpoint at_opt db =
     (let (price_row, fx_row) = find_active_pricing_rule_with_fx provider model (pricing_normalize_endpoint endpoint)
                                  (aware_now clock at_opt) db
      in
     sbind (the_or_raise price_row PricingRuleNotFoundError) (\<lambda>row.
     sbind (pricing_lookup row) (\<lambda>pricing.
     case fx_row of
       None \<Rightarrow> if pq_currency pricing = ''EUR'' then Inr (pricing, identity_conversion) else Inl FxRateNotFoundError
     | Some f \<Rightarrow>
         sbind (pricing_normalize_currency (fx_base_currency f)) (\<lambda>base.
         sbind (if base \<noteq> pq_currency pricing then Inl InvalidFxRateError
                else sbind (pricing_normalize_currency (fx_quote_currency f)) (\<lambda>quote.
                     ensure (quote = ''EUR'') InvalidFxRateError)) (\<lambda>_.
         sbind (fx_conversion f) (\<lambda>fx. Inr (pricing, fx)))))))"

text \<open>The optional arguments \<open>pricing\<close> and \<open>fx\<close>: looked up when the caller did not capture them.\<close>

definition pricing_or_lookup ::
  "pydatetime \<Rightarrow> route_resolution \<Rightarrow> string \<Rightarrow> pydatetime option \<Rightarrow> pricing_lookup_result option \<Rightarrow> pricing_db
     \<Rightarrow> pricing_lookup_result result" where
  "pricing_or_lookup clock route endpoint at_opt pricing db =
     (case pricing of Some p \<Rightarrow> Inr p
      | None \<Rightarrow> find_active_pricing_rule clock (rt_provider route) (rt_resolved_model route) endpoint at_opt db)"

definition to_eur ::
  "pydatetime \<Rightarrow> decimal \<Rightarrow> string \<Rightarrow> pydatetime option \<Rightarrow> fx_conversion_result option \<Rightarrow> pricing_db
     \<Rightarrow> (decimal \<times> fx_conversion_result) result" where
  "to_eur clock total_native currency at_opt fx db =
     (case fx of None \<Rightarrow> convert_to_eur clock total_native currency at_opt db
      | Some f \<Rightarrow> Inr (dec_mul total_native (fc_rate f), f))"

text \<open>The fields every estimate takes over from route, prices and conversion.\<close>

definition base_estimate ::
  "route_resolution \<Rightarrow> pricing_lookup_result \<Rightarrow> fx_conversion_result \<Rightarrow> int \<Rightarrow> int \<Rightarrow> decimal \<Rightarrow> decimal \<Rightarrow> decimal \<Rightarrow> decimal
     \<Rightarrow> cost_estimate" where
  "base_estimate route pricing fx input_tokens output_tokens input_cost output_cost total_native total_eur =
     \<lparr>ce_provider = rt_provider route, ce_requested_model = rt_requested_model route,
      ce_resolved_model = rt_resolved_model route, ce_native_currency = pq_currency pricing,
      ce_estimated_input_tokens = input_tokens, ce_estimated_output_tokens = output_tokens,
      ce_estimated_input_cost_native = input_cost, ce_estimated_output_cost_native = output_cost,
      ce_estimated_total_cost_native = total_native, ce_estimated_total_cost_eur = total_eur,
      ce_pricing_rule_id = pq_pricing_rule_id pricing, ce_fx_rate_id = fc_fx_rate_id fx,
      ce_input_price_per_1m = Some (pq_input_price_per_1m pricing),
      ce_cached_input_price_per_1m = pq_cached_input_price_per_1m pricing,
      ce_output_price_per_1m = Some (pq_output_price_per_1m pricing),
      ce_reasoning_price_per_1m = pq_reasoning_price_per_1m pricing,
      ce_audio_output_price_per_1m = None, ce_request_price = pq_request_price pricing, ce_fx_rate = Some (fc_rate fx),
      ce_cache_write_input_price_per_1m = None, ce_cache_write_input_multiplier = None,
      ce_long_context_threshold_tokens = None, ce_long_context_input_multiplier = None,
      ce_long_context_output_multiplier = None, ce_codex_accounting = False\<rparr>"

definition uses_audio_output :: "pyval \<Rightarrow> bool" where
  "uses_audio_output payload =
     (case dget (as_dict payload) ''modalities'' of PList items \<Rightarrow> PStr ''audio'' \<in> set items | _ \<Rightarrow> False)"

text \<open>The Codex prices: the dearer of the kinds of tokens, at the long-context rate.\<close>

definition codex_prices :: "pricing_lookup_result \<Rightarrow> (decimal \<times> decimal) result" where
  "codex_prices p =
     (case (pq_cache_write_input_price_per_1m p, pq_long_context_threshold_tokens p, pq_long_context_input_multiplier p,
            pq_long_context_output_multiplier p, pq_reasoning_price_per_1m p, pq_cached_input_price_per_1m p) of
        (Some cw, Some _, Some li, Some lo, Some rp, Some _) \<Rightarrow>
          Inr (dec_mul (max (pq_input_price_per_1m p) cw) (max 1 li), dec_mul (max (pq_output_price_per_1m p) rp) (max 1 lo))
      | _ \<Rightarrow> Inl (InvalidPricingDataError ''Complete Codex cache, reasoning, and long-context pricing is required.''))"

definition estimate_chat_completion_cost ::
  "pydatetime \<Rightarrow> route_resolution \<Rightarrow> policy_result \<Rightarrow> string \<Rightarrow> pydatetime option \<Rightarrow> pricing_lookup_result option
     \<Rightarrow> fx_conversion_result option \<Rightarrow> pricing_db \<Rightarrow> cost_estimate result" where
  "estimate_chat_completion_cost clock route policy endpoint at_opt pricing_opt fx_opt db =
     sbind (pricing_or_lookup clock route endpoint at_opt pricing_opt db) (\<lambda>pricing.
     if is_fixed_request_module_billing (rt_provider_kind route) endpoint then
       sbind (required_non_negative_decimal (pq_request_price pricing) ''request_price'') (\<lambda>request_price.
       sbind (to_eur clock request_price (pq_currency pricing) at_opt fx_opt db) (\<lambda>(total_eur, fx).
       Inr ((base_estimate route pricing fx 0 0 0 0 request_price total_eur)
              \<lparr>ce_audio_output_price_per_1m := pq_audio_output_price_per_1m pricing, ce_request_price := Some request_price\<rparr>)))
     else
       let audio = uses_audio_output (pr_effective_body policy) in
       sbind (ensure (\<not> (audio \<and> pq_audio_output_price_per_1m pricing = None)) AudioOutputPricingNotSupportedError) (\<lambda>_.
       sbind (if pr_codex_limits_applied policy then codex_prices pricing
              else Inr (pq_input_price_per_1m pricing, pq_output_price_per_1m pricing)) (\<lambda>(input_price, output_price0).
       let output_price = (case pq_audio_output_price_per_1m pricing of
                             Some a \<Rightarrow> if audio then max output_price0 a else output_price0 | None \<Rightarrow> output_price0);
           input_cost = tokens_to_cost (pr_estimated_input_tokens policy) input_price;
           output_cost = tokens_to_cost (pr_effective_output_tokens policy) output_price;
           total_native = dec_add input_cost output_cost
       in
       sbind (to_eur clock total_native (pq_currency pricing) at_opt fx_opt db) (\<lambda>(total_eur, fx).
       Inr ((base_estimate route pricing fx (pr_estimated_input_tokens policy) (pr_effective_output_tokens policy)
               input_cost output_cost total_native total_eur)
              \<lparr>ce_audio_output_price_per_1m := pq_audio_output_price_per_1m pricing,
               ce_cache_write_input_price_per_1m := pq_cache_write_input_price_per_1m pricing,
               ce_cache_write_input_multiplier := pq_cache_write_input_multiplier pricing,
               ce_long_context_threshold_tokens := pq_long_context_threshold_tokens pricing,
               ce_long_context_input_multiplier := pq_long_context_input_multiplier pricing,
               ce_long_context_output_multiplier := pq_long_context_output_multiplier pricing,
               ce_codex_accounting := pr_codex_limits_applied policy\<rparr>)))))"

definition estimate_audio_operation_cost ::
  "pydatetime \<Rightarrow> route_resolution \<Rightarrow> int \<Rightarrow> string \<Rightarrow> pydatetime option \<Rightarrow> pricing_lookup_result option
     \<Rightarrow> fx_conversion_result option \<Rightarrow> pricing_db \<Rightarrow> cost_estimate result" where
  "estimate_audio_operation_cost clock route estimated_input_tokens endpoint at_opt pricing_opt fx_opt db =
     sbind (pricing_or_lookup clock route endpoint at_opt pricing_opt db) (\<lambda>pricing.
     sbind (case pq_request_price pricing of
              Some p \<Rightarrow> Inr p
            | None \<Rightarrow> if endpoint \<in> {''/v1/audio/transcriptions'', ''/v1/audio/translations''}
                      then Inl AudioRequestPricingNotSupportedError
                      else Inr (tokens_to_cost estimated_input_tokens (pq_input_price_per_1m pricing))) (\<lambda>total_native.
     sbind (to_eur clock total_native (pq_currency pricing) at_opt fx_opt db) (\<lambda>(total_eur, fx).
     Inr (base_estimate route pricing fx estimated_input_tokens 0 total_native 0 total_native total_eur))))"

definition estimate_embeddings_cost ::
  "pydatetime \<Rightarrow> route_resolution \<Rightarrow> int \<Rightarrow> string \<Rightarrow> pydatetime option \<Rightarrow> pricing_lookup_result option
     \<Rightarrow> fx_conversion_result option \<Rightarrow> pricing_db \<Rightarrow> cost_estimate result" where
  "estimate_embeddings_cost clock route estimated_input_tokens endpoint at_opt pricing_opt fx_opt db =
     sbind (pricing_or_lookup clock route endpoint at_opt pricing_opt db) (\<lambda>pricing.
     let input_cost = tokens_to_cost estimated_input_tokens (pq_input_price_per_1m pricing) in
     sbind (to_eur clock input_cost (pq_currency pricing) at_opt fx_opt db) (\<lambda>(total_eur, fx).
     Inr ((base_estimate route pricing fx estimated_input_tokens 0 input_cost 0 input_cost total_eur)\<lparr>ce_request_price := None\<rparr>)))"

definition estimate_realtime_client_secret_cost ::
  "pydatetime \<Rightarrow> route_resolution \<Rightarrow> int \<Rightarrow> int \<Rightarrow> string \<Rightarrow> bool \<Rightarrow> pydatetime option \<Rightarrow> pricing_lookup_result option
     \<Rightarrow> fx_conversion_result option \<Rightarrow> pricing_db \<Rightarrow> cost_estimate result" where
  "estimate_realtime_client_secret_cost clock route input_tokens output_tokens endpoint admission_pricing_only at_opt pricing_opt fx_opt db =
     sbind (pricing_or_lookup clock route endpoint at_opt pricing_opt db) (\<lambda>pricing.
     sbind (if admission_pricing_only
            then (case pq_request_price pricing of
                    None \<Rightarrow> Inl RealtimeClientSecretPricingNotSupportedError | Some p \<Rightarrow> Inr (0, 0, p))
            else let input_cost = tokens_to_cost input_tokens (pq_input_price_per_1m pricing);
                     output_cost = tokens_to_cost output_tokens (pq_output_price_per_1m pricing);
                     both = dec_add input_cost output_cost
                 in Inr (input_cost, output_cost, (case pq_request_price pricing of Some p \<Rightarrow> max both p | None \<Rightarrow> both)))
       (\<lambda>(input_cost, output_cost, total_native).
     sbind (to_eur clock total_native (pq_currency pricing) at_opt fx_opt db) (\<lambda>(total_eur, fx).
     Inr (base_estimate route pricing fx input_tokens output_tokens input_cost output_cost total_native total_eur))))"

section \<open>Lookups\<close>

text \<open>The first row of a list sorted by a descending instant.\<close>

lemma first_row_None: "first_row (sort_key k xs) = None \<longleftrightarrow> xs = []"
proof -
  have "sort_key k xs = [] \<longleftrightarrow> xs = []" by (metis length_0_conv length_sort)
  then show ?thesis by (auto simp: first_row_def split: list.splits)
qed

lemma first_row_least:
  assumes "first_row (sort_key k xs) = Some x"
  shows "x \<in> set xs" "y \<in> set xs \<Longrightarrow> k x \<le> k y"
proof -
  obtain ys where ys: "sort_key k xs = x # ys" using assms by (auto simp: first_row_def split: list.splits)
  have set: "set xs = insert x (set ys)" using ys by (metis list.simps(15) set_sort)
  have "sorted (map k (x # ys))" using ys by (metis sorted_sort_key)
  then show "x \<in> set xs" "y \<in> set xs \<Longrightarrow> k x \<le> k y" using set by auto
qed

lemma first_row_unique:
  assumes "x \<in> set xs" "\<And>y. y \<in> set xs \<Longrightarrow> k x \<le> k y" "inj_on k (set xs)"
  shows "first_row (sort_key k xs) = Some x"
proof -
  obtain z where z: "first_row (sort_key k xs) = Some z"
    using assms(1) first_row_None[of k xs] by (cases "first_row (sort_key k xs)") auto
  note l = first_row_least[OF z]
  have "k z = k x" using l(2)[OF assms(1)] assms(2)[OF l(1)] by simp
  then have "z = x" using assms(1,3) l(1) by (meson inj_onD)
  with z show ?thesis by simp
qed

text \<open>The constraint \<open>uq_pricing_rules_identity\<close> and the check constraints.\<close>

definition pricing_ok :: "pricing_db \<Rightarrow> bool" where
  "pricing_ok db =
     (distinct (map (\<lambda>r. (pl_provider r, pl_upstream_model r, pl_endpoint r, micros (pl_valid_from r))) (pd_rules db))
      \<and> list_all pricing_rule_checks (pd_rules db) \<and> list_all fx_rate_checks (pd_fx db))"

definition rule_applies :: "string \<Rightarrow> string \<Rightarrow> string \<Rightarrow> pydatetime \<Rightarrow> pricing_db \<Rightarrow> pricing_rule \<Rightarrow> bool" where
  "rule_applies provider model endpoint t db r =
     (r \<in> set (pd_rules db) \<and> pl_provider r = provider \<and> pl_upstream_model r = model \<and> pl_endpoint r = endpoint
      \<and> pl_enabled r \<and> valid_at (pl_valid_from r) (pl_valid_until r) t)"

lemma active_rules_set: "set (active_rules provider model endpoint t db) = {r. rule_applies provider model endpoint t db r}"
  by (auto simp: active_rules_def rule_applies_def)

lemma repo_find_iff:
  assumes "pricing_ok db"
  shows "repo_find_active_pricing_rule provider model endpoint t db = Some r \<longleftrightarrow>
    rule_applies provider model endpoint t db r
    \<and> (\<forall>r'. rule_applies provider model endpoint t db r' \<longrightarrow> micros (pl_valid_from r') \<le> micros (pl_valid_from r))"
proof -
  let ?xs = "active_rules provider model endpoint t db" and ?k = "\<lambda>r. - micros (pl_valid_from r)"
  have "inj_on (\<lambda>r. (pl_provider r, pl_upstream_model r, pl_endpoint r, micros (pl_valid_from r))) (set (pd_rules db))"
    using assms by (simp add: pricing_ok_def distinct_map)
  then have inj: "inj_on ?k (set ?xs)" by (auto simp: inj_on_def active_rules_def)
  show ?thesis
  proof
    assume f: "repo_find_active_pricing_rule provider model endpoint t db = Some r"
    note l = first_row_least[OF f[unfolded repo_find_active_pricing_rule_def]]
    show "rule_applies provider model endpoint t db r
      \<and> (\<forall>r'. rule_applies provider model endpoint t db r' \<longrightarrow> micros (pl_valid_from r') \<le> micros (pl_valid_from r))"
      using l unfolding active_rules_set by auto
  next
    assume r: "rule_applies provider model endpoint t db r
      \<and> (\<forall>r'. rule_applies provider model endpoint t db r' \<longrightarrow> micros (pl_valid_from r') \<le> micros (pl_valid_from r))"
    show "repo_find_active_pricing_rule provider model endpoint t db = Some r"
      unfolding repo_find_active_pricing_rule_def
      by (rule first_row_unique[OF _ _ inj]) (use r active_rules_set in auto)
  qed
qed

lemma pricing_lookup_Inr:
  assumes "pricing_lookup row = Inr q"
  shows "pricing_normalize_currency (pl_currency row) = Inr (pq_currency q)"
    "pl_input_price_per_1m row = Some (pq_input_price_per_1m q)" "pl_output_price_per_1m row = Some (pq_output_price_per_1m q)"
    "0 \<le> pq_input_price_per_1m q" "0 \<le> pq_output_price_per_1m q"
  using assms unfolding pricing_lookup_def required_non_negative_decimal_def
  by (auto simp: case_prod_beta split: option.splits if_splits)

lemma fx_conversion_Inr: "fx_conversion row = Inr f \<Longrightarrow> 0 < fc_rate f \<and> fc_rate f = fx_rate_value row \<and> fc_fx_rate_id f = Some (fx_id row)"
  by (auto simp: fx_conversion_def required_positive_decimal_def split: if_splits)

lemma normalize_EUR [simp]: "pricing_normalize_currency ''EUR'' = Inr ''EUR''"
  by (simp add: pricing_normalize_currency_def string_eval)

text \<open>The joined query reads what the two queries read.\<close>

lemma joined_fx:
  assumes "repo_find_active_pricing_rule provider model endpoint t db = Some p"
  shows "find_active_pricing_rule_with_fx provider model endpoint t db =
    (Some p, if pl_currency p = ''EUR'' then None else find_latest_rate (pl_currency p) ''EUR'' (Some t) db)"
  using assms
  by (auto simp: find_active_pricing_rule_with_fx_def repo_find_active_pricing_rule_def find_latest_rate_def first_row_def)

lemma find_latest_rate_mem:
  "find_latest_rate base quote t db = Some f \<Longrightarrow> f \<in> set (pd_fx db) \<and> fx_base_currency f = base \<and> fx_quote_currency f = quote"
  unfolding find_latest_rate_def by (drule first_row_least(1)) auto

lemma capture_iff:
  assumes canonical: "\<And>r. r \<in> set (pd_rules db) \<Longrightarrow> pricing_normalize_currency (pl_currency r) = Inr (pl_currency r)"
    and ok: "pricing_ok db"
  shows "capture_pricing_and_fx clock provider model endpoint at_opt db = Inr (q, f) \<longleftrightarrow>
    find_active_pricing_rule clock provider model endpoint at_opt db = Inr q
    \<and> (\<exists>x. convert_to_eur clock amount (pq_currency q) at_opt db = Inr (x, f))"
proof (cases "repo_find_active_pricing_rule provider model (pricing_normalize_endpoint endpoint) (aware_now clock at_opt) db")
  case None
  then have "fst (find_active_pricing_rule_with_fx provider model (pricing_normalize_endpoint endpoint) (aware_now clock at_opt) db) = None"
    by (auto simp: repo_find_active_pricing_rule_def find_active_pricing_rule_with_fx_def split: option.splits)
  with None show ?thesis
    by (auto simp: capture_pricing_and_fx_def find_active_pricing_rule_def the_or_raise_def case_prod_beta Let_def)
next
  case (Some p)
  have mem: "p \<in> set (pd_rules db)" using repo_find_iff[OF ok] Some by (simp add: rule_applies_def)
  show ?thesis
  proof (cases "pricing_lookup p")
    case (Inl e)
    then show ?thesis using Some joined_fx[OF Some]
      by (auto simp: capture_pricing_and_fx_def find_active_pricing_rule_def the_or_raise_def)
  next
    case (Inr q')
    have cur: "pl_currency p = pq_currency q'" using pricing_lookup_Inr(1)[OF Inr] canonical[OF mem] by simp
    then have n: "pricing_normalize_currency (pq_currency q') = Inr (pq_currency q')" using canonical[OF mem] by simp
    have find: "find_active_pricing_rule clock provider model endpoint at_opt db = Inr q \<longleftrightarrow> q' = q"
      using Some Inr by (auto simp: find_active_pricing_rule_def the_or_raise_def)
    let ?fx = "find_latest_rate (pq_currency q') ''EUR'' (Some (aware_now clock at_opt)) db"
    show ?thesis
    proof (cases "pq_currency q' = ''EUR''")
      case True
      have "find_active_pricing_rule_with_fx provider model (pricing_normalize_endpoint endpoint) (aware_now clock at_opt) db = (Some p, None)"
        using joined_fx[OF Some] cur True by simp
      then have "capture_pricing_and_fx clock provider model endpoint at_opt db = Inr (q', identity_conversion)"
        using Inr True by (simp add: capture_pricing_and_fx_def the_or_raise_def)
      moreover have "convert_to_eur clock amount (pq_currency q') at_opt db = Inr (amount, identity_conversion)"
        using True by (simp add: convert_to_eur_def)
      ultimately show ?thesis unfolding find by auto
    next
      case False
      have j: "find_active_pricing_rule_with_fx provider model (pricing_normalize_endpoint endpoint) (aware_now clock at_opt) db = (Some p, ?fx)"
        using joined_fx[OF Some] cur False by simp
      note base = Inr j n False
      show ?thesis
      proof (cases ?fx)
        case None
        then show ?thesis unfolding find using base
          by (auto simp: capture_pricing_and_fx_def the_or_raise_def convert_to_eur_def)
      next
        case (Some g)
        have g: "fx_base_currency g = pq_currency q'" "fx_quote_currency g = ''EUR''" using find_latest_rate_mem[OF Some] by simp_all
        have cap: "capture_pricing_and_fx clock provider model endpoint at_opt db = sbind (fx_conversion g) (\<lambda>f. Inr (q', f))"
          unfolding capture_pricing_and_fx_def j Some using Inr n g by (simp add: the_or_raise_def ensure_def)
        have conv: "convert_to_eur clock amount (pq_currency q') at_opt db
            = sbind (fx_conversion g) (\<lambda>c. Inr (dec_mul amount (fc_rate c), c))"
          unfolding convert_to_eur_def using n False Some by (simp add: the_or_raise_def)
        show ?thesis unfolding find cap using conv
          by (cases "fx_conversion g"; cases "q' = q") auto
      qed
    qed
  qed
qed

section \<open>The estimate and the later cost\<close>

text \<open>The prices an estimate is made with: for ordinary requests those of the rule, under Codex limits the dearest kind of
  tokens at the long-context rate; audio output raises the output price where the request asks for it.\<close>

definition audio_price :: "policy_result \<Rightarrow> decimal option \<Rightarrow> decimal \<Rightarrow> decimal" where
  "audio_price policy audio op =
     (case audio of Some a \<Rightarrow> if uses_audio_output (pr_effective_body policy) then max op a else op | None \<Rightarrow> op)"

lemma estimate_chat_Inr:
  assumes "estimate_chat_completion_cost clock route policy endpoint at_opt pricing_opt fx_opt db = Inr e"
    "\<not> is_fixed_request_module_billing (rt_provider_kind route) endpoint"
  obtains P Q where
    "ce_estimated_total_cost_native e = dec_add (tokens_to_cost (pr_estimated_input_tokens policy) P)
       (tokens_to_cost (pr_effective_output_tokens policy) (audio_price policy (ce_audio_output_price_per_1m e) Q))"
    "ce_codex_accounting e = pr_codex_limits_applied policy"
    "uses_audio_output (pr_effective_body policy) \<Longrightarrow> ce_audio_output_price_per_1m e \<noteq> None"
    "\<not> pr_codex_limits_applied policy \<Longrightarrow> ce_input_price_per_1m e = Some P \<and> ce_output_price_per_1m e = Some Q"
    "pr_codex_limits_applied policy \<Longrightarrow> \<exists>ip cw li op rp lo. ce_input_price_per_1m e = Some ip
       \<and> ce_cache_write_input_price_per_1m e = Some cw \<and> ce_long_context_input_multiplier e = Some li
       \<and> ce_output_price_per_1m e = Some op \<and> ce_reasoning_price_per_1m e = Some rp
       \<and> ce_long_context_output_multiplier e = Some lo
       \<and> P = dec_mul (max ip cw) (max 1 li) \<and> Q = dec_mul (max op rp) (max 1 lo)"
    "ce_native_currency e = ''EUR'' \<Longrightarrow> fx_opt \<in> {None, Some identity_conversion} \<Longrightarrow>
       ce_estimated_total_cost_eur e = ce_estimated_total_cost_native e"
proof -
  obtain q P Q total_eur fx where q: "pricing_or_lookup clock route endpoint at_opt pricing_opt db = Inr q"
    and au: "uses_audio_output (pr_effective_body policy) \<longrightarrow> pq_audio_output_price_per_1m q \<noteq> None"
    and pr: "(if pr_codex_limits_applied policy then codex_prices q else Inr (pq_input_price_per_1m q, pq_output_price_per_1m q)) = Inr (P, Q)"
    and fx: "to_eur clock (dec_add (tokens_to_cost (pr_estimated_input_tokens policy) P)
        (tokens_to_cost (pr_effective_output_tokens policy) (audio_price policy (pq_audio_output_price_per_1m q) Q)))
        (pq_currency q) at_opt fx_opt db = Inr (total_eur, fx)"
    and e: "ce_estimated_total_cost_native e = dec_add (tokens_to_cost (pr_estimated_input_tokens policy) P)
        (tokens_to_cost (pr_effective_output_tokens policy) (audio_price policy (pq_audio_output_price_per_1m q) Q))"
      "ce_estimated_total_cost_eur e = total_eur" "ce_native_currency e = pq_currency q"
      "ce_audio_output_price_per_1m e = pq_audio_output_price_per_1m q" "ce_codex_accounting e = pr_codex_limits_applied policy"
      "ce_input_price_per_1m e = Some (pq_input_price_per_1m q)" "ce_output_price_per_1m e = Some (pq_output_price_per_1m q)"
      "ce_cache_write_input_price_per_1m e = pq_cache_write_input_price_per_1m q"
      "ce_reasoning_price_per_1m e = pq_reasoning_price_per_1m q"
      "ce_long_context_input_multiplier e = pq_long_context_input_multiplier q"
      "ce_long_context_output_multiplier e = pq_long_context_output_multiplier q"
    using assms by (auto simp: estimate_chat_completion_cost_def base_estimate_def audio_price_def Let_def split del: if_split)
  have eur: "total_eur = ce_estimated_total_cost_native e"
    if "pq_currency q = ''EUR''" "fx_opt \<in> {None, Some identity_conversion}"
    using that fx e(1)
    by (auto simp: to_eur_def convert_to_eur_def pricing_normalize_currency_def identity_conversion_def string_eval
        dec_mul_def dec_add_def dround_idem)
  show ?thesis
    by (rule that[of P Q]) (use e au pr eur in \<open>auto simp: codex_prices_def split: option.splits if_splits\<close>)
qed

text \<open>The cost of components of two groups, each within the tokens and the price of the estimate, up to rounding: a
  Decimal operation is off by at most five parts in \<open>10^28\<close>.\<close>

definition eps :: rat where
  "eps = 1 / (2 * 10 ^ 27)"

lemma dround_le: "0 \<le> x \<Longrightarrow> dround x \<le> x * (1 + eps)"
  using dround_error[of x] unfolding abs_le_iff by (simp add: eps_def algebra_simps)

lemma dround_ge: "0 \<le> x \<Longrightarrow> x * (1 - eps) \<le> dround x"
  using dround_error[of x] unfolding abs_le_iff by (simp add: eps_def algebra_simps)

lemma eps_bounds: "0 \<le> eps" "0 \<le> 1 - eps"
  by (simp_all add: eps_def)

lemma tokens_cost_le:
  assumes "0 \<le> t" "0 \<le> p"
  shows "tokens_to_cost t p \<le> of_int t * p / 10 ^ 6 * (1 + eps) ^ 2"
proof -
  have "dec_div (of_int t) one_million \<le> of_int t / 10 ^ 6 * (1 + eps)"
    unfolding dec_div_def one_million_def using dround_le[of "of_int t / 10 ^ 6"] assms by simp
  then have "dec_div (of_int t) one_million * p \<le> of_int t / 10 ^ 6 * (1 + eps) * p" by (rule mult_right_mono[OF _ assms(2)])
  moreover have "tokens_to_cost t p \<le> dec_div (of_int t) one_million * p * (1 + eps)"
    unfolding tokens_to_cost_def dec_mul_def
    by (rule dround_le) (use assms in \<open>auto simp: one_million_def intro!: mult_nonneg_nonneg dec_div_nonneg\<close>)
  moreover have "0 \<le> 1 + eps" using eps_bounds by simp
  ultimately have "tokens_to_cost t p \<le> of_int t / 10 ^ 6 * (1 + eps) * p * (1 + eps)"
    using mult_right_mono order_trans by blast
  then show ?thesis by (simp add: power2_eq_square mult.commute mult.left_commute)
qed

lemma tokens_cost_ge:
  assumes "0 \<le> t" "0 \<le> p"
  shows "of_int t * p / 10 ^ 6 * (1 - eps) ^ 2 \<le> tokens_to_cost t p"
proof -
  have "of_int t / 10 ^ 6 * (1 - eps) \<le> dec_div (of_int t) one_million"
    unfolding dec_div_def one_million_def using dround_ge[of "of_int t / 10 ^ 6"] assms by simp
  then have "of_int t / 10 ^ 6 * (1 - eps) * p \<le> dec_div (of_int t) one_million * p" by (rule mult_right_mono[OF _ assms(2)])
  moreover have "dec_div (of_int t) one_million * p * (1 - eps) \<le> tokens_to_cost t p"
    unfolding tokens_to_cost_def dec_mul_def
    by (rule dround_ge) (use assms in \<open>auto simp: one_million_def intro!: mult_nonneg_nonneg dec_div_nonneg\<close>)
  ultimately have "of_int t / 10 ^ 6 * (1 - eps) * p * (1 - eps) \<le> tokens_to_cost t p"
    using mult_right_mono order_trans eps_bounds(2) by blast
  then show ?thesis by (simp add: power2_eq_square mult.commute mult.left_commute)
qed

lemma foldl_dec_add_le:
  "0 \<le> a \<Longrightarrow> \<forall>x \<in> set xs. 0 \<le> x \<Longrightarrow> foldl dec_add a xs \<le> (a + sum_list xs) * (1 + eps) ^ length xs"
proof (induction xs arbitrary: a)
  case (Cons x xs)
  have nn: "0 \<le> dec_add a x" "0 \<le> a + x" "0 \<le> sum_list xs" using Cons.prems by (auto simp: dec_add_nonneg sum_list_nonneg)
  have "foldl dec_add (dec_add a x) xs \<le> (dec_add a x + sum_list xs) * (1 + eps) ^ length xs"
    using Cons nn(1) by simp
  also have "\<dots> \<le> ((a + x) * (1 + eps) + sum_list xs * (1 + eps)) * (1 + eps) ^ length xs"
  proof (rule mult_right_mono)
    have "sum_list xs \<le> sum_list xs * (1 + eps)" using nn(3) eps_bounds(1) by (simp add: algebra_simps)
    then show "dec_add a x + sum_list xs \<le> (a + x) * (1 + eps) + sum_list xs * (1 + eps)"
      using dround_le[OF nn(2)] by (simp add: dec_add_def)
  qed (use eps_bounds in simp)
  finally show ?case by (simp add: algebra_simps)
qed simp

lemma components_le:
  assumes "list_all2 (\<lambda>x w. 0 \<le> x \<and> x \<le> w / 10 ^ 6 * (1 + eps) ^ 2) xs ws" "length xs \<le> 6" "sum_list ws \<le> W"
  shows "dec_sum xs \<le> W / 10 ^ 6 * (1 + eps) ^ 8"
proof -
  have nn: "\<forall>x \<in> set xs. 0 \<le> x" using assms(1) by (auto simp: list_all2_conv_all_nth in_set_conv_nth)
  have "sum_list xs \<le> sum_list ws / 10 ^ 6 * (1 + eps) ^ 2"
    using assms(1) by (induction rule: list_all2_induct) (auto simp: algebra_simps add_divide_distrib)
  also have "\<dots> \<le> W / 10 ^ 6 * (1 + eps) ^ 2" using assms(3) eps_bounds by (intro mult_right_mono divide_right_mono) auto
  finally have s: "sum_list xs \<le> W / 10 ^ 6 * (1 + eps) ^ 2" .
  have "dec_sum xs \<le> sum_list xs * (1 + eps) ^ length xs" unfolding dec_sum_def using foldl_dec_add_le[of 0 xs] nn by simp
  also have "\<dots> \<le> sum_list xs * (1 + eps) ^ 6"
    using assms(2) eps_bounds(1) nn by (intro mult_left_mono power_increasing) (auto simp: sum_list_nonneg)
  also have "\<dots> \<le> W / 10 ^ 6 * (1 + eps) ^ 2 * (1 + eps) ^ 6" using s eps_bounds by (intro mult_right_mono) auto
  finally show ?thesis by (simp add: mult.assoc flip: power_add)
qed

lemma estimate_ge:
  assumes "0 \<le> I" "0 \<le> P" "0 \<le> O'" "0 \<le> Q"
  shows "(of_int I * P + of_int O' * Q) / 10 ^ 6 * (1 - eps) ^ 3 \<le> dec_add (tokens_to_cost I P) (tokens_to_cost O' Q)"
proof -
  let ?s = "tokens_to_cost I P + tokens_to_cost O' Q"
  have "(of_int I * P + of_int O' * Q) / 10 ^ 6 * (1 - eps) ^ 2 \<le> ?s"
    using tokens_cost_ge[OF assms(1,2)] tokens_cost_ge[OF assms(3,4)] by (simp add: add_divide_distrib distrib_right)
  then have "(of_int I * P + of_int O' * Q) / 10 ^ 6 * (1 - eps) ^ 2 * (1 - eps) \<le> ?s * (1 - eps)"
    by (rule mult_right_mono) (rule eps_bounds)
  also have "\<dots> \<le> dround ?s" using assms by (intro dround_ge add_nonneg_nonneg tokens_to_cost_nonneg)
  finally show ?thesis by (simp add: dec_add_def power3_eq_cube power2_eq_square mult.assoc)
qed

lemma up_to_rounding:
  assumes "A \<le> W * (1 + eps) ^ 8" "W * (1 - eps) ^ 3 \<le> E" "0 \<le> W"
  shows "A * (1 + eps) ^ 2 \<le> E * (1 + 1 / 10 ^ 26)"
proof -
  have "A * (1 + eps) ^ 2 \<le> W * (1 + eps) ^ 8 * (1 + eps) ^ 2" using assms(1) by (rule mult_right_mono) simp
  also have "\<dots> = W * (1 + eps) ^ 10" by (simp add: mult.assoc flip: power_add)
  also have "\<dots> \<le> W * ((1 - eps) ^ 3 * (1 + 1 / 10 ^ 26))" using assms(3) by (intro mult_left_mono) (simp_all add: eps_def power_divide)
  also have "\<dots> \<le> E * (1 + 1 / 10 ^ 26)" using mult_right_mono[OF assms(2), of "1 + 1 / 10 ^ 26"] by (simp add: mult.assoc)
  finally show ?thesis .
qed

lemma weighted_le:
  fixes p c ip cp :: rat
  assumes "0 \<le> c" "c \<le> p" "cp \<le> ip"
  shows "(p - c) * ip + c * cp \<le> p * ip"
proof -
  have "c * cp \<le> c * ip" using assms by (intro mult_left_mono) auto
  then show ?thesis by (simp add: algebra_simps)
qed

lemma usage_cost_le:
  fixes P C c r a I O' ip op cp rp ap op' :: rat
  assumes "0 \<le> c" "c \<le> P" "P \<le> I" "0 \<le> r" "0 \<le> a" "r + a \<le> C" "C \<le> O'" "0 \<le> ip" "cp \<le> ip" "0 \<le> op'" "op \<le> op'" "rp \<le> op'"
    "a = 0 \<or> ap \<le> op'"
  shows "(P - c) * ip + c * cp + (C - r - a) * op + r * rp + a * ap \<le> I * ip + O' * op'"
proof -
  have "(P - c) * ip + c * cp \<le> P * ip" by (rule weighted_le) (use assms in auto)
  also have "\<dots> \<le> I * ip" using assms by (intro mult_right_mono) auto
  finally have i: "(P - c) * ip + c * cp \<le> I * ip" .
  have "(C - r - a) * op \<le> (C - r - a) * op'" "r * rp \<le> r * op'" "a * ap \<le> a * op'"
    using assms by (auto intro: mult_left_mono)
  then have "(C - r - a) * op + r * rp + a * ap \<le> C * op'" by (simp add: algebra_simps)
  also have "\<dots> \<le> O' * op'" using assms by (intro mult_right_mono) auto
  finally show ?thesis using i by simp
qed

lemma weighted3_le:
  fixes a b c pa pb pc I P :: rat
  assumes "0 \<le> a" "0 \<le> b" "0 \<le> c" "a + b + c \<le> I" "pa \<le> P" "pb \<le> P" "pc \<le> P" "0 \<le> P"
  shows "a * pa + b * pb + c * pc \<le> I * P"
proof -
  have "a * pa \<le> a * P" "b * pb \<le> b * P" "c * pc \<le> c * P" using assms by (auto intro: mult_left_mono)
  then have "a * pa + b * pb + c * pc \<le> (a + b + c) * P" by (simp add: distrib_right)
  also have "\<dots> \<le> I * P" using assms by (intro mult_right_mono) auto
  finally show ?thesis .
qed

text \<open>Both kinds of accounting stay within an estimate up to rounding.\<close>

lemma standard_cost_le:
  assumes actual: "component_slaif_costs usage e allow = Inr (costs, tokens, ws)" "\<not> ce_codex_accounting e"
    and ok: "usage_ok usage" "au_prompt_tokens usage \<le> I" "au_completion_tokens usage \<le> O'"
    and p: "ce_input_price_per_1m e = Some ip" "ce_output_price_per_1m e = Some op"
    and prices: "opt_all (\<lambda>x. x \<le> ip) (ce_cached_input_price_per_1m e)" "opt_all (\<lambda>x. x \<le> op) (ce_reasoning_price_per_1m e)"
      "op \<le> Q" "audio_part usage = 0 \<or> price_or (ce_audio_output_price_per_1m e) op \<le> Q"
  shows "dec_sum (map snd costs) \<le> (of_int I * ip + of_int O' * Q) / 10 ^ 6 * (1 + eps) ^ 8 \<and> 0 \<le> ip \<and> 0 \<le> Q"
  using actual
proof (cases rule: component_slaif_costs_Inr)
  case (1 ip' op')
  have eq: "ip' = ip" "op' = op" using 1(1,2) p by (auto simp: price_per_1m_def validate_price_def)
  have pos: "0 \<le> ip" "0 \<le> op" using 1(1,2) price_per_1m_nonneg eq by auto
  note b = parts_bounds[OF ok(1) refl]
  have cp: "price_or (ce_cached_input_price_per_1m e) ip \<le> ip" and rp: "price_or (ce_reasoning_price_per_1m e) op \<le> Q"
    using prices by (auto simp: price_or_def opt_all_def split: option.splits)
  let ?ws = "[of_int (au_prompt_tokens usage - cached_part usage) * ip,
      of_int (cached_part usage) * price_or (ce_cached_input_price_per_1m e) ip,
      of_int (au_completion_tokens usage - reasoning_part usage - audio_part usage) * op,
      of_int (reasoning_part usage) * price_or (ce_reasoning_price_per_1m e) op,
      of_int (audio_part usage) * price_or (ce_audio_output_price_per_1m e) op]"
  have t: "0 \<le> au_prompt_tokens usage - cached_part usage"
    "0 \<le> au_completion_tokens usage - reasoning_part usage - audio_part usage" using b by linarith+
  have "sum_list ?ws \<le> of_int I * ip + of_int O' * Q"
    unfolding of_int_diff sum_list.Cons sum_list.Nil add_0_right add.assoc[symmetric]
    by (rule usage_cost_le)
       (use b ok(2,3) pos prices(3,4) cp rp in \<open>auto simp flip: of_int_add simp: of_int_le_iff\<close>)
  moreover have "list_all2 (\<lambda>x w. 0 \<le> x \<and> x \<le> w / 10 ^ 6 * (1 + eps) ^ 2) (map snd costs) ?ws"
    unfolding 1(6) eq list.map snd_conv list_all2_Cons
    using t b pos 1(3-5) eq by (intro conjI tokens_cost_le tokens_to_cost_nonneg) auto
  ultimately show ?thesis using components_le[of "map snd costs" ?ws] pos prices(3) by (simp add: 1(6))
qed

lemma codex_price_le:
  assumes "0 \<le> p" "p \<le> P" "0 \<le> m" "m = 1 \<or> m = l"
  shows "0 \<le> dec_mul p m \<and> dec_mul p m \<le> dec_mul P (max 1 l)"
  unfolding dec_mul_def using assms py28.rnd_mult_mono[of p P m "max 1 l"] py28.rnd_nonneg[of "p * m"] by (auto simp: max_def)

lemma codex_cost_le:
  assumes actual: "component_slaif_costs usage e allow = Inr (costs, tokens, ws)" "ce_codex_accounting e"
    and ok: "usage_ok usage" "au_prompt_tokens usage \<le> I" "au_completion_tokens usage \<le> O'"
    and p: "ce_input_price_per_1m e = Some ip" "ce_cache_write_input_price_per_1m e = Some cw"
      "ce_long_context_input_multiplier e = Some li" "ce_output_price_per_1m e = Some op" "ce_reasoning_price_per_1m e = Some rp"
      "ce_long_context_output_multiplier e = Some lo" "opt_all (\<lambda>x. x \<le> ip) (ce_cached_input_price_per_1m e)"
    and Q: "dec_mul (max op rp) (max 1 lo) \<le> Q"
  shows "dec_sum (map snd costs) \<le> (of_int I * dec_mul (max ip cw) (max 1 li) + of_int O' * Q) / 10 ^ 6 * (1 + eps) ^ 8
    \<and> 0 \<le> dec_mul (max ip cw) (max 1 li) \<and> 0 \<le> Q"
proof -
  have "codex_component_slaif_costs usage e = Inr (costs, tokens, ws)" using actual by (simp add: component_slaif_costs_def)
  then show ?thesis
  proof (cases rule: codex_Inr)
    case (1 ip' cp wp op' rp' im om cached cwrite reasoning)
    have eq: "ip' = ip" "wp = cw" "op' = op" "rp' = rp" using 1(15-19) p by simp_all
    have nn: "0 \<le> ip" "0 \<le> cw" "0 \<le> op" "0 \<le> rp" using 1(1,3,4,5) eq by simp_all
    let ?P = "dec_mul (max ip cw) (max 1 li)" and ?R = "dec_mul (max op rp) (max 1 lo)"
    have m: "im = 1 \<or> im = li" "om = 1 \<or> om = lo" using 1(20,21) p by auto
    have cp: "cp \<le> ip" using p(7) 1(16) by (simp add: opt_all_def)
    have i: "0 \<le> dec_mul ip im \<and> dec_mul ip im \<le> ?P" "0 \<le> dec_mul cp im \<and> dec_mul cp im \<le> ?P" "0 \<le> dec_mul cw im \<and> dec_mul cw im \<le> ?P"
      using codex_price_le[of ip "max ip cw" im li] codex_price_le[of cp "max ip cw" im li] codex_price_le[of cw "max ip cw" im li]
        nn cp 1(2,6) m by (simp_all add: le_max_iff_disj)
    have o: "0 \<le> dec_mul op om \<and> dec_mul op om \<le> ?R" "0 \<le> dec_mul rp om \<and> dec_mul rp om \<le> ?R"
      using codex_price_le[of op "max op rp" om lo] codex_price_le[of rp "max op rp" om lo] nn 1(7) m by simp_all
    have P0: "0 \<le> ?P" "0 \<le> Q" using i(1) o(1) Q by linarith+
    have t: "0 \<le> cached" "0 \<le> cwrite" "0 \<le> reasoning" "0 \<le> au_prompt_tokens usage - cached - cwrite"
      "0 \<le> au_completion_tokens usage - reasoning"
      using ok(1) 1(8-12) by (auto simp: usage_ok_def or_zero_nonneg)
    let ?ws = "[of_int (au_prompt_tokens usage - cached - cwrite) * dec_mul ip im, of_int cached * dec_mul cp im,
      of_int cwrite * dec_mul cw im, of_int (au_completion_tokens usage - reasoning) * dec_mul op om,
      of_int reasoning * dec_mul rp om, 0]"
    have "of_int (au_prompt_tokens usage - cached - cwrite) * dec_mul ip im + of_int cached * dec_mul cp im
        + of_int cwrite * dec_mul cw im \<le> of_int I * ?P"
      by (rule weighted3_le) (use t ok(2) i P0 in \<open>auto simp flip: of_int_add simp: of_int_le_iff\<close>)
    moreover have "of_int (au_completion_tokens usage - reasoning) * dec_mul op om + of_int reasoning * dec_mul rp om + 0 * 0
        \<le> of_int O' * Q"
      by (rule weighted3_le) (use t ok(3) o P0 Q in \<open>auto simp flip: of_int_add simp: of_int_le_iff\<close>)
    ultimately have "sum_list ?ws \<le> of_int I * ?P + of_int O' * Q" by simp
    moreover have "list_all2 (\<lambda>x w. 0 \<le> x \<and> x \<le> w / 10 ^ 6 * (1 + eps) ^ 2) (map snd costs) ?ws"
      unfolding 1(13) eq list_all2_Cons using t i o by (intro conjI tokens_cost_le tokens_to_cost_nonneg) auto
    ultimately show ?thesis using components_le[of "map snd costs" ?ws] P0 by (simp add: 1(13))
  qed
qed

text \<open>The conversion to euro rounds twice.\<close>

lemma convert_le:
  assumes "convert_estimate_native_to_eur a cur n e = Inr x" "0 \<le> a" "a * (1 + eps) ^ 2 \<le> n * (1 + 1 / 10 ^ 26)"
  shows "x \<le> e * (1 + 1 / 10 ^ 26) \<and> 0 \<le> e \<and> 0 \<le> n"
proof -
  have ne: "0 \<le> n" "0 \<le> e" using assms(1) by (auto simp: convert_estimate_native_to_eur_def split: if_splits)
  have a1: "a \<le> a * (1 + eps) ^ 2" using assms(2) eps_bounds(1) by (simp add: algebra_simps power2_eq_square)
  consider "x = 0" | "n = e" "x = a" | "0 < n" "x = dec_mul a (dec_div e n)"
    using assms(1) ne by (auto simp: convert_estimate_native_to_eur_def split: if_splits)
  then have "x \<le> e * (1 + 1 / 10 ^ 26)"
  proof cases
    case 3
    have "dec_div e n \<le> e / n * (1 + eps)" unfolding dec_div_def by (rule dround_le) (use ne in simp)
    then have "a * dec_div e n \<le> a * (e / n * (1 + eps))" using assms(2) by (rule mult_left_mono)
    moreover have "x \<le> a * dec_div e n * (1 + eps)" unfolding 3(2) dec_mul_def
      by (rule dround_le) (use assms(2) ne in \<open>auto intro!: mult_nonneg_nonneg dec_div_nonneg\<close>)
    ultimately have "x \<le> a * (e / n * (1 + eps)) * (1 + eps)" using mult_right_mono[of "a * dec_div e n" _ "1 + eps"] eps_bounds by fastforce
    also have "\<dots> = a * (1 + eps) ^ 2 * (e / n)" by (simp add: power2_eq_square)
    also have "\<dots> \<le> n * (1 + 1 / 10 ^ 26) * (e / n)" using assms(3) ne by (intro mult_right_mono) auto
    also have "\<dots> = e * (1 + 1 / 10 ^ 26)" using 3(1) by simp
    finally show ?thesis .
  qed (use ne assms(3) a1 in auto)
  then show ?thesis using ne by blast
qed

text \<open>The bound the next property states, on the accounting side.\<close>

lemma two_costs_exact:
  assumes "0 \<le> I" "I \<le> 10 ^ 9" "column_value ip" "0 \<le> ip" "0 \<le> O'" "O' \<le> 10 ^ 9" "column_value op" "0 \<le> op"
  shows "dec_add (tokens_to_cost I ip) (tokens_to_cost O' op) = (of_int I * ip + of_int O' * op) / 10 ^ 6"
proof -
  note i = tokens_to_cost_exact[OF assms(1-4)] and o = tokens_to_cost_exact[OF assms(5-8)]
  have "dec_add (tokens_to_cost I ip) (tokens_to_cost O' op) = tokens_to_cost I ip + tokens_to_cost O' op"
    unfolding dec_add_def by (rule dround_fifteen) (use i(2) o(2) in \<open>auto intro: fifteen_places_add\<close>)
  then show ?thesis by (simp only: i(1) o(1) add_divide_distrib)
qed

lemma calculated_cost_le:
  assumes actual: "component_slaif_costs usage e allow = Inr (costs, tokens, ws)" and codex: "\<not> ce_codex_accounting e"
    and ok: "usage_ok usage" and few: "au_total_tokens usage \<le> 10 ^ 9" "0 \<le> I" "I \<le> 10 ^ 9" "0 \<le> O'" "O' \<le> 10 ^ 9"
    and le: "au_prompt_tokens usage \<le> I" "au_completion_tokens usage \<le> O'"
    and ip: "ce_input_price_per_1m e = Some ip" "column_value ip" "0 \<le> ip"
    and op: "ce_output_price_per_1m e = Some op" "column_value op" "0 \<le> op"
    and cols: "opt_all column_value (ce_cached_input_price_per_1m e)" "opt_all column_value (ce_reasoning_price_per_1m e)"
      "opt_all column_value (ce_audio_output_price_per_1m e)"
    and op': "column_value op'" "op \<le> op'"
    and prices: "opt_all (\<lambda>x. x \<le> ip) (ce_cached_input_price_per_1m e)" "opt_all (\<lambda>x. x \<le> op) (ce_reasoning_price_per_1m e)"
      "audio_part usage = 0 \<or> price_or (ce_audio_output_price_per_1m e) op \<le> op'"
  shows "dec_sum (map snd costs) \<le> dec_add (tokens_to_cost I ip) (tokens_to_cost O' op')"
proof -
  have op'0: "0 \<le> op'" using op(3) op'(2) by simp
  note cost = slaif_cost_formula[OF actual codex ok few(1) ip(1,2) op(1,2) cols]
  note total_eq = two_costs_exact[OF few(2,3) ip(2,3) few(4,5) op'(1) op'0]
  note b = parts_bounds[OF ok refl]
  have cp: "price_or (ce_cached_input_price_per_1m e) ip \<le> ip" and rp: "price_or (ce_reasoning_price_per_1m e) op \<le> op'"
    using prices(1,2) op'(2) by (auto simp: price_or_def opt_all_def split: option.splits)
  have "of_int (au_prompt_tokens usage - cached_part usage) * ip
     + of_int (cached_part usage) * price_or (ce_cached_input_price_per_1m e) ip
     + of_int (au_completion_tokens usage - reasoning_part usage - audio_part usage) * op
     + of_int (reasoning_part usage) * price_or (ce_reasoning_price_per_1m e) op
     + of_int (audio_part usage) * price_or (ce_audio_output_price_per_1m e) op \<le> of_int I * ip + of_int O' * op'"
    unfolding of_int_diff
    by (rule usage_cost_le)
       (use b le ip op'0 op'(2) cp rp prices(3) in \<open>auto simp flip: of_int_add simp: of_int_le_iff\<close>)
  then show ?thesis unfolding cost total_eq by (rule divide_right_mono) simp
qed

lemma estimate_covers_rounded:
  assumes est: "estimate_chat_completion_cost clock route policy endpoint at_opt pricing_opt fx_opt db = Inr e"
    and plain: "\<not> is_fixed_request_module_billing (rt_provider_kind route) endpoint"
    and actual: "compute_actual_cost response route usage e endpoint = Inr c" and ok: "usage_ok usage"
    and within: "au_prompt_tokens usage \<le> pr_estimated_input_tokens policy"
      "au_completion_tokens usage \<le> pr_effective_output_tokens policy"
    and p: "ce_input_price_per_1m e = Some ip" "ce_output_price_per_1m e = Some op"
    and prices: "opt_all (\<lambda>x. x \<le> ip) (ce_cached_input_price_per_1m e)"
      "pr_codex_limits_applied policy \<or> opt_all (\<lambda>x. x \<le> op) (ce_reasoning_price_per_1m e)"
      "audio_part usage = 0 \<or> uses_audio_output (pr_effective_body policy)"
  shows "ac_slaif_calculated_cost_native c \<le> ce_estimated_total_cost_native e * (1 + 1 / 10 ^ 26)
    \<and> ac_slaif_calculated_cost_eur c \<le> ce_estimated_total_cost_eur e * (1 + 1 / 10 ^ 26)
    \<and> 0 \<le> ce_estimated_total_cost_native e \<and> 0 \<le> ce_estimated_total_cost_eur e"
  using est plain
proof (cases rule: estimate_chat_Inr)
  case (1 P Q)
  let ?Q = "audio_price policy (ce_audio_output_price_per_1m e) Q"
  let ?W = "of_int (pr_estimated_input_tokens policy) * P + of_int (pr_effective_output_tokens policy) * ?Q"
  have Q: "Q \<le> ?Q" by (simp add: audio_price_def split: option.splits)
  from actual plain show ?thesis
  proof (cases rule: compute_actual_cost_Inr)
    case a: (1 ncur allow costs tokens ws eur)
    have cost: "dec_sum (map snd costs) \<le> ?W / 10 ^ 6 * (1 + eps) ^ 8 \<and> 0 \<le> P \<and> 0 \<le> ?Q"
    proof (cases "pr_codex_limits_applied policy")
      case True
      then obtain cw li rp lo where "ce_cache_write_input_price_per_1m e = Some cw" "ce_long_context_input_multiplier e = Some li"
        "ce_reasoning_price_per_1m e = Some rp" "ce_long_context_output_multiplier e = Some lo"
        "P = dec_mul (max ip cw) (max 1 li)" "Q = dec_mul (max op rp) (max 1 lo)" using 1(5) p by auto
      with codex_cost_le[OF a(1) _ ok within p(1) _ _ p(2) _ _ prices(1)] True 1(2) Q show ?thesis by simp
    next
      case False
      then have PQ: "P = ip" "Q = op" using 1(4) p by auto
      have "audio_part usage = 0 \<or> price_or (ce_audio_output_price_per_1m e) op \<le> ?Q"
        using prices(3) 1(3) by (auto simp: audio_price_def price_or_def PQ split: option.splits)
      with standard_cost_le[OF a(1) _ ok within p prices(1)] False 1(2) prices(2) Q PQ show ?thesis by simp
    qed
    have nn: "0 \<le> pr_estimated_input_tokens policy" "0 \<le> pr_effective_output_tokens policy" "0 \<le> dec_sum (map snd costs)"
      using ok within dec_sum_nonneg[OF component_costs_nonneg[OF a(1) ok]] by (auto simp: usage_ok_def)
    have "?W / 10 ^ 6 * (1 - eps) ^ 3 \<le> ce_estimated_total_cost_native e"
      unfolding 1(1) by (rule estimate_ge) (use nn cost in auto)
    from up_to_rounding[OF _ this] cost nn
    have n: "dec_sum (map snd costs) * (1 + eps) ^ 2 \<le> ce_estimated_total_cost_native e * (1 + 1 / 10 ^ 26)" by simp
    note convert_le[OF a(5) nn(3) n]
    moreover have "dec_sum (map snd costs) \<le> dec_sum (map snd costs) * (1 + eps) ^ 2"
      using nn(3) eps_bounds(1) by (simp add: algebra_simps power2_eq_square)
    ultimately show ?thesis using n a(4,6) by auto
  qed
qed

lemma estimate_covers_exact:
  assumes est: "estimate_chat_completion_cost clock route policy endpoint at_opt pricing_opt fx_opt db = Inr e"
    and plain: "\<not> is_fixed_request_module_billing (rt_provider_kind route) endpoint" "\<not> pr_codex_limits_applied policy"
    and actual: "compute_actual_cost response route usage e endpoint = Inr c"
    and ok: "usage_ok usage" "au_total_tokens usage \<le> 10 ^ 9"
    and within_est: "au_prompt_tokens usage \<le> pr_estimated_input_tokens policy" "pr_estimated_input_tokens policy \<le> 10 ^ 9"
      "au_completion_tokens usage \<le> pr_effective_output_tokens policy" "pr_effective_output_tokens policy \<le> 10 ^ 9"
    and ip: "ce_input_price_per_1m e = Some ip" "column_value ip"
    and op: "ce_output_price_per_1m e = Some op" "column_value op"
    and cols: "opt_all column_value (ce_cached_input_price_per_1m e)" "opt_all column_value (ce_reasoning_price_per_1m e)"
      "opt_all column_value (ce_audio_output_price_per_1m e)"
    and prices: "opt_all (\<lambda>x. x \<le> ip) (ce_cached_input_price_per_1m e)" "opt_all (\<lambda>x. x \<le> op) (ce_reasoning_price_per_1m e)"
      "audio_part usage = 0 \<or> uses_audio_output (pr_effective_body policy)"
  shows "ac_slaif_calculated_cost_native c \<le> ce_estimated_total_cost_native e
    \<and> (ce_native_currency e = ''EUR'' \<and> fx_opt \<in> {None, Some identity_conversion}
       \<longrightarrow> ac_slaif_calculated_cost_eur c \<le> ce_estimated_total_cost_eur e)"
  using est plain(1)
proof (cases rule: estimate_chat_Inr)
  case (1 P Q)
  have eq: "P = ip" "Q = op" using 1(4) plain(2) ip(1) op(1) by auto
  let ?op = "audio_price policy (ce_audio_output_price_per_1m e) op"
  have codex: "\<not> ce_codex_accounting e" using 1(2) plain(2) by simp
  from actual plain(1) show ?thesis
  proof (cases rule: compute_actual_cost_Inr)
    case c: (1 ncur allow costs tokens ws eur)
    from c(1) codex have pos: "0 \<le> ip" "0 \<le> op"
      by (cases rule: component_slaif_costs_Inr; use ip(1) op(1) in \<open>auto simp: price_per_1m_def validate_price_def\<close>)+
    have op': "column_value ?op" "op \<le> ?op" "audio_part usage = 0 \<or> price_or (ce_audio_output_price_per_1m e) op \<le> ?op"
      using 1(3) op(2) cols(3) prices(3) by (auto simp: audio_price_def opt_all_def price_or_def max_def split: option.splits)
    have nn: "0 \<le> pr_estimated_input_tokens policy" "0 \<le> pr_effective_output_tokens policy"
      using ok(1) within_est by (auto simp: usage_ok_def)
    have native: "dec_sum (map snd costs) \<le> ce_estimated_total_cost_native e"
      unfolding 1(1) eq
      by (rule calculated_cost_le[OF c(1) codex ok nn(1) within_est(2) nn(2) within_est(4) within_est(1,3) ip pos(1) op pos(2)
            cols op'(1,2) prices(1,2) op'(3)])
    moreover have "0 \<le> dec_sum (map snd costs)"
      by (rule dec_sum_nonneg, rule component_costs_nonneg[OF c(1) ok(1)])
    ultimately have "eur \<le> ce_estimated_total_cost_eur e"
      if "ncur = ''EUR''" "ce_estimated_total_cost_eur e = ce_estimated_total_cost_native e"
      using c(5) that by (auto simp: convert_estimate_native_to_eur_def split: if_splits)
    moreover have "ncur = ''EUR''" if "ce_native_currency e = ''EUR''"
      using c(8) that by (simp add: normalize_currency_def string_eval)
    ultimately show ?thesis using native c(4,6) 1(6) by simp
  qed
qed

text \<open>A module billed per request is charged what was estimated.\<close>

lemma fixed_estimate_charged:
  assumes "estimate_chat_completion_cost clock route policy endpoint at_opt pricing_opt fx_opt db = Inr e"
    "is_fixed_request_module_billing (rt_provider_kind route) endpoint"
    "compute_actual_cost response route usage e endpoint = Inr c"
  shows "ac_slaif_calculated_cost_native c = ce_estimated_total_cost_native e
    \<and> ac_slaif_calculated_cost_eur c = ce_estimated_total_cost_eur e"
proof -
  have "ce_request_price e = Some (ce_estimated_total_cost_native e)"
    using assms(1,2) by (auto simp: estimate_chat_completion_cost_def base_estimate_def)
  then show ?thesis using assms(2,3) by (auto simp: compute_actual_cost_def fixed_request_actual_cost_def split: if_splits)
qed

text \<open>Without audio and cached input, a response that uses the whole estimate costs what was estimated, plus what its
  reasoning tokens cost above the output price.\<close>

lemma full_usage_cost:
  assumes est: "estimate_chat_completion_cost clock route policy endpoint at_opt pricing_opt fx_opt db = Inr e"
    and plain: "\<not> is_fixed_request_module_billing (rt_provider_kind route) endpoint" "\<not> pr_codex_limits_applied policy"
      "\<not> uses_audio_output (pr_effective_body policy)"
    and actual: "compute_actual_cost response route usage e endpoint = Inr c"
    and ok: "usage_ok usage" "au_total_tokens usage \<le> 10 ^ 9" "cached_part usage = 0" "audio_part usage = 0"
    and used: "au_prompt_tokens usage = pr_estimated_input_tokens policy" "au_completion_tokens usage = pr_effective_output_tokens policy"
    and ip: "ce_input_price_per_1m e = Some ip" "column_value ip"
    and op: "ce_output_price_per_1m e = Some op" "column_value op" and rp: "ce_reasoning_price_per_1m e = Some rp" "column_value rp"
    and cols: "opt_all column_value (ce_cached_input_price_per_1m e)" "opt_all column_value (ce_audio_output_price_per_1m e)"
  shows "ac_slaif_calculated_cost_native c = ce_estimated_total_cost_native e + of_int (reasoning_part usage) * (rp - op) / 10 ^ 6"
  using est plain(1)
proof (cases rule: estimate_chat_Inr)
  case (1 P Q)
  have eq: "P = ip" "Q = op" using 1(4) plain(2) ip(1) op(1) by auto
  have codex: "\<not> ce_codex_accounting e" using 1(2) plain(2) by simp
  have "opt_all column_value (ce_reasoning_price_per_1m e)" using rp by (simp add: opt_all_def)
  from actual plain(1) show ?thesis
  proof (cases rule: compute_actual_cost_Inr)
    case c: (1 ncur allow costs tokens ws eur)
    from c(1) codex have pos: "0 \<le> ip" "0 \<le> op"
      by (cases rule: component_slaif_costs_Inr; use ip(1) op(1) in \<open>auto simp: price_per_1m_def validate_price_def\<close>)+
    have few: "0 \<le> pr_estimated_input_tokens policy" "pr_estimated_input_tokens policy \<le> 10 ^ 9"
      "0 \<le> pr_effective_output_tokens policy" "pr_effective_output_tokens policy \<le> 10 ^ 9"
      using ok(1,2) used by (auto simp: usage_ok_def)
    have "audio_price policy (ce_audio_output_price_per_1m e) op = op" using plain(3) by (simp add: audio_price_def split: option.splits)
    then have e: "ce_estimated_total_cost_native e =
        (of_int (pr_estimated_input_tokens policy) * ip + of_int (pr_effective_output_tokens policy) * op) / 10 ^ 6"
      unfolding 1(1) eq using two_costs_exact[OF few(1,2) ip(2) pos(1) few(3,4) op(2) pos(2)] by simp
    have "ac_slaif_calculated_cost_native c =
        (of_int (pr_estimated_input_tokens policy) * ip
         + of_int (pr_effective_output_tokens policy - reasoning_part usage) * op + of_int (reasoning_part usage) * rp) / 10 ^ 6"
      unfolding c(4)
      using slaif_cost_formula[OF c(1) codex ok(1,2) ip op cols(1) \<open>opt_all column_value (ce_reasoning_price_per_1m e)\<close> cols(2)] ok(3,4) used rp(1)
      by (simp add: price_or_def)
    then show ?thesis unfolding e by (simp add: algebra_simps add_divide_distrib diff_divide_distrib)
  qed
qed

section \<open>A sample price list\<close>

text \<open>Two rules for the same model; the later one is in dollars, with reasoning dearer than output.\<close>

definition sample_rule :: pricing_rule where
  "sample_rule =
     \<lparr>pl_id = 71, pl_provider = ''openai'', pl_upstream_model = ''m'', pl_endpoint = ''/v1/chat/completions'',
      pl_currency = ''EUR'', pl_input_price_per_1m = Some 100000, pl_cached_input_price_per_1m = None,
      pl_output_price_per_1m = Some 1000000, pl_reasoning_price_per_1m = None, pl_request_price = None,
      pl_pricing_metadata = PDict [], pl_valid_from = Aware 0, pl_valid_until = None, pl_enabled = True\<rparr>"

definition sample_dollar_rule :: pricing_rule where
  "sample_dollar_rule = sample_rule\<lparr>pl_id := 72, pl_currency := ''USD'', pl_valid_from := Aware 500,
     pl_reasoning_price_per_1m := Some 4000000\<rparr>"

definition sample_rate :: fx_rate where
  "sample_rate =
     \<lparr>fx_id = 81, fx_base_currency = ''USD'', fx_quote_currency = ''EUR'', fx_rate_value = 1 / 2,
      fx_valid_from = Aware 0, fx_valid_until = None, fx_created_at = Aware 0\<rparr>"

definition sample_prices :: pricing_db where
  "sample_prices = \<lparr>pd_rules = [sample_rule, sample_dollar_rule], pd_fx = [sample_rate]\<rparr>"

lemmas sample_price_defs = sample_rule_def sample_dollar_rule_def sample_rate_def sample_prices_def

lemmas pricing_eval [eval_simps] =
  sample_price_defs valid_at_def active_rules_def first_row_def repo_find_active_pricing_rule_def find_latest_rate_def
  find_active_pricing_rule_with_fx_def pricing_normalize_currency_def pricing_normalize_endpoint_def
  optional_non_negative_decimal_def required_non_negative_decimal_def required_positive_decimal_def
  optional_metadata_price_per_1m_def codex_accounting_metadata_def optional_external_tool_pricing_def
  pricing_lookup_def fx_conversion_def find_active_pricing_rule_def identity_conversion_def convert_to_eur_def
  capture_pricing_and_fx_def pricing_or_lookup_def to_eur_def base_estimate_def uses_audio_output_def
  estimate_chat_completion_cost_def sort_key_def aware_now_def

lemma sample_prices_ok: "pricing_ok sample_prices"
  by (simp add: pricing_ok_def pricing_rule_checks_def fx_rate_checks_def sample_price_defs opt_all_def)

text \<open>What the dollar rule reads as.\<close>

definition sample_dollar_pricing :: pricing_lookup_result where
  "sample_dollar_pricing =
     \<lparr>pq_provider = ''openai'', pq_model = ''m'', pq_endpoint = ''/v1/chat/completions'', pq_currency = ''USD'',
      pq_input_price_per_1m = 100000, pq_cached_input_price_per_1m = None, pq_output_price_per_1m = 1000000,
      pq_reasoning_price_per_1m = Some 4000000, pq_audio_output_price_per_1m = None, pq_request_price = None,
      pq_cache_write_input_price_per_1m = None, pq_cache_write_input_multiplier = None,
      pq_long_context_threshold_tokens = None, pq_long_context_input_multiplier = None,
      pq_long_context_output_multiplier = None, pq_pricing_rule_id = Some 72, pq_valid_from = Aware 500,
      pq_valid_until = None, pq_external_tool_pricing = None\<rparr>"

lemma sample_dollar_lookup: "pricing_lookup sample_dollar_rule = Inr sample_dollar_pricing"
  by (simp add: eval_simps sample_dollar_pricing_def string_eval del: sbind_eq_Inr)

lemma sample_applies:
  "rule_applies ''openai'' ''m'' ''/v1/chat/completions'' (Aware 900) sample_prices r \<longleftrightarrow>
     r = sample_rule \<or> r = sample_dollar_rule"
  by (auto simp: rule_applies_def sample_price_defs valid_at_def)

section \<open>Properties\<close>

text \<open>A price lookup answers with the rule in force: among the enabled rules of the provider, the
  upstream model and the normalized endpoint whose validity covers the requested time (the clock's when
  none is given), it reads the one that became valid last, and it answers that no rule exists only when
  no rule applies.\<close>

theorem pricing_lookup_latest:
  assumes "pricing_ok db"
  shows "(find_active_pricing_rule clock provider model endpoint at_opt db = Inr q \<longleftrightarrow>
      (\<exists>r. rule_applies provider model (pricing_normalize_endpoint endpoint) (aware_now clock at_opt) db r
         \<and> (\<forall>r'. rule_applies provider model (pricing_normalize_endpoint endpoint) (aware_now clock at_opt) db r'
                \<longrightarrow> micros (pl_valid_from r') \<le> micros (pl_valid_from r))
         \<and> pricing_lookup r = Inr q))
    \<and> ((\<nexists>r. rule_applies provider model (pricing_normalize_endpoint endpoint) (aware_now clock at_opt) db r) \<longrightarrow>
      find_active_pricing_rule clock provider model endpoint at_opt db = Inl PricingRuleNotFoundError)"
proof (intro conjI impI)
  let ?repo = "repo_find_active_pricing_rule provider model (pricing_normalize_endpoint endpoint) (aware_now clock at_opt) db"
  have "find_active_pricing_rule clock provider model endpoint at_opt db = Inr q \<longleftrightarrow>
      (\<exists>r. ?repo = Some r \<and> pricing_lookup r = Inr q)"
    by (cases ?repo) (simp_all add: find_active_pricing_rule_def the_or_raise_def)
  then show "find_active_pricing_rule clock provider model endpoint at_opt db = Inr q \<longleftrightarrow>
      (\<exists>r. rule_applies provider model (pricing_normalize_endpoint endpoint) (aware_now clock at_opt) db r
         \<and> (\<forall>r'. rule_applies provider model (pricing_normalize_endpoint endpoint) (aware_now clock at_opt) db r'
                \<longrightarrow> micros (pl_valid_from r') \<le> micros (pl_valid_from r))
         \<and> pricing_lookup r = Inr q)"
    unfolding repo_find_iff[OF assms] by blast
  assume "\<nexists>r. rule_applies provider model (pricing_normalize_endpoint endpoint) (aware_now clock at_opt) db r"
  then have "?repo \<noteq> Some r" for r using repo_find_iff[OF assms] by simp
  then have "?repo = None" by blast
  then show "find_active_pricing_rule clock provider model endpoint at_opt db = Inl PricingRuleNotFoundError"
    by (simp add: find_active_pricing_rule_def the_or_raise_def)
qed

theorem pricing_lookup_latest_witness:
  "find_active_pricing_rule (Aware 900) ''openai'' ''m'' ''chat.completions'' None sample_prices = Inr sample_dollar_pricing"
proof -
  have n: "pricing_normalize_endpoint ''chat.completions'' = ''/v1/chat/completions''" "aware_now (Aware 900) None = Aware 900"
    by (simp_all add: eval_simps)
  have "sample_rule \<noteq> sample_dollar_rule" by (simp add: sample_price_defs)
  then show ?thesis
    unfolding pricing_lookup_latest[OF sample_prices_ok, THEN conjunct1] n sample_applies
    by (intro exI[of _ sample_dollar_rule]) (auto simp: sample_dollar_lookup, simp_all add: sample_price_defs)
qed

text \<open>C29: Capturing price and exchange rate in one statement gives exactly what the two separate lookups
  give at the same time: it returns a pair if and only if the price lookup returns that price and the
  conversion of any amount in the price's currency uses that rate.  (The currencies of the stored rules are
  upper case without surrounding blanks.)\<close>

theorem capture_matches_lookups:
  assumes "\<And>r. r \<in> set (pd_rules db) \<Longrightarrow> pricing_normalize_currency (pl_currency r) = Inr (pl_currency r)"
    and "pricing_ok db"
  shows "capture_pricing_and_fx clock provider model endpoint at_opt db = Inr (q, f) \<longleftrightarrow>
    find_active_pricing_rule clock provider model endpoint at_opt db = Inr q
    \<and> (\<exists>x. convert_to_eur clock amount (pq_currency q) at_opt db = Inr (x, f))"
  by (rule capture_iff[OF assms])

theorem capture_matches_lookups_witness:
  "\<exists>f. capture_pricing_and_fx (Aware 900) ''openai'' ''m'' ''responses'' None
         (sample_prices\<lparr>pd_rules := [sample_dollar_rule\<lparr>pl_endpoint := ''/v1/responses''\<rparr>]\<rparr>) =
           Inr (sample_dollar_pricing\<lparr>pq_endpoint := ''/v1/responses''\<rparr>, f) \<and> fc_rate f = 1 / 2"
proof -
  let ?db = "sample_prices\<lparr>pd_rules := [sample_dollar_rule\<lparr>pl_endpoint := ''/v1/responses''\<rparr>]\<rparr>"
  have canonical: "pricing_normalize_currency (pl_currency r) = Inr (pl_currency r)" if "r \<in> set (pd_rules ?db)" for r
    using that by (simp add: eval_simps)
  have ok: "pricing_ok ?db"
    by (simp add: pricing_ok_def pricing_rule_checks_def fx_rate_checks_def sample_price_defs opt_all_def)
  have find: "find_active_pricing_rule (Aware 900) ''openai'' ''m'' ''responses'' None ?db =
      Inr (sample_dollar_pricing\<lparr>pq_endpoint := ''/v1/responses''\<rparr>)"
    by (simp add: eval_simps sample_dollar_pricing_def del: sbind_eq_Inr)
  let ?fx = "\<lparr>fc_from_currency = ''USD'', fc_to_currency = ''EUR'', fc_rate = 1 / 2, fc_fx_rate_id = Some 81\<rparr>"
  have conv: "convert_to_eur (Aware 900) 1 (pq_currency (sample_dollar_pricing\<lparr>pq_endpoint := ''/v1/responses''\<rparr>)) None ?db =
      Inr (1 / 2, ?fx)"
    by (simp add: eval_simps sample_dollar_pricing_def del: sbind_eq_Inr)
  have "capture_pricing_and_fx (Aware 900) ''openai'' ''m'' ''responses'' None ?db =
      Inr (sample_dollar_pricing\<lparr>pq_endpoint := ''/v1/responses''\<rparr>, ?fx)"
    by (rule iffD2[OF capture_matches_lookups[where amount = 1]], erule canonical, rule ok, intro conjI exI, rule find, rule conv)
  then show ?thesis by auto
qed

text \<open>C17: The estimate that admission reserves covers the cost that accounting later calculates.  If the response used no
  more input and output tokens than the policy allowed for (its counts being as extraction accepts them), the cached
  price is not above the input price, outside Codex limits the reasoning price is not above the output price, and audio
  was billed only where the request asked for it, then the calculated cost exceeds the estimate, in the price's currency
  and in euro, by at most one part in \<open>10^26\<close>, the rounding of Python's Decimal.  Outside Codex limits, with prices as the
  pricing table stores them (nine decimal places, below a thousand million) and at most a thousand million tokens, the
  native cost does not exceed the estimate at all, and neither does the euro cost when the prices are in euro and the
  conversion, where one was captured, is the identity.\<close>

theorem estimate_covers_usage:
  assumes "estimate_chat_completion_cost clock route policy endpoint at_opt pricing_opt fx_opt db = Inr e"
    and "compute_actual_cost response route usage e endpoint = Inr c" and "usage_ok usage"
    and "au_prompt_tokens usage \<le> pr_estimated_input_tokens policy"
      "au_completion_tokens usage \<le> pr_effective_output_tokens policy"
    and "ce_input_price_per_1m e = Some ip" "ce_output_price_per_1m e = Some op"
    and "opt_all (\<lambda>x. x \<le> ip) (ce_cached_input_price_per_1m e)"
      "pr_codex_limits_applied policy \<or> opt_all (\<lambda>x. x \<le> op) (ce_reasoning_price_per_1m e)"
      "audio_part usage = 0 \<or> uses_audio_output (pr_effective_body policy)"
  shows "ac_slaif_calculated_cost_native c \<le> ce_estimated_total_cost_native e + \<bar>ce_estimated_total_cost_native e\<bar> / 10 ^ 26
    \<and> ac_slaif_calculated_cost_eur c \<le> ce_estimated_total_cost_eur e + \<bar>ce_estimated_total_cost_eur e\<bar> / 10 ^ 26
    \<and> (\<not> pr_codex_limits_applied policy \<and> column_value ip \<and> column_value op
       \<and> opt_all column_value (ce_cached_input_price_per_1m e) \<and> opt_all column_value (ce_reasoning_price_per_1m e)
       \<and> opt_all column_value (ce_audio_output_price_per_1m e)
       \<and> au_total_tokens usage \<le> 10 ^ 9 \<and> pr_estimated_input_tokens policy \<le> 10 ^ 9 \<and> pr_effective_output_tokens policy \<le> 10 ^ 9
       \<longrightarrow> ac_slaif_calculated_cost_native c \<le> ce_estimated_total_cost_native e
         \<and> (ce_native_currency e = ''EUR'' \<and> fx_opt \<in> {None, Some identity_conversion}
            \<longrightarrow> ac_slaif_calculated_cost_eur c \<le> ce_estimated_total_cost_eur e))"
proof (cases "is_fixed_request_module_billing (rt_provider_kind route) endpoint")
  case True
  then show ?thesis using fixed_estimate_charged[OF assms(1) _ assms(2)] by simp
next
  case False
  have "ac_slaif_calculated_cost_native c \<le> ce_estimated_total_cost_native e
      \<and> (ce_native_currency e = ''EUR'' \<and> fx_opt \<in> {None, Some identity_conversion}
         \<longrightarrow> ac_slaif_calculated_cost_eur c \<le> ce_estimated_total_cost_eur e)"
    if "\<not> pr_codex_limits_applied policy" "column_value ip" "column_value op" "opt_all column_value (ce_cached_input_price_per_1m e)"
      "opt_all column_value (ce_reasoning_price_per_1m e)" "opt_all column_value (ce_audio_output_price_per_1m e)"
      "au_total_tokens usage \<le> 10 ^ 9" "pr_estimated_input_tokens policy \<le> 10 ^ 9" "pr_effective_output_tokens policy \<le> 10 ^ 9"
    using assms(9) that(1)
    by (intro estimate_covers_exact[OF assms(1) False that(1) assms(2,3) that(7) assms(4) that(8) assms(5) that(9) assms(6) that(2)
          assms(7) that(3-6) assms(8) _ assms(10)]) blast
  moreover note estimate_covers_rounded[OF assms(1) False assms(2-10)]
  ultimately show ?thesis by (simp add: distrib_left)
qed

definition sample_priced_estimate :: cost_estimate where
  "sample_priced_estimate = sample_estimate\<lparr>ce_estimated_output_cost_native := 70, ce_estimated_total_cost_native := 73,
     ce_estimated_total_cost_eur := 73, ce_pricing_rule_id := Some 71, ce_fx_rate := Some 1\<rparr>"

lemma sample_priced_estimate_eq:
  "estimate_chat_completion_cost (Aware 100) sample_route sample_policy ''/v1/chat/completions'' None None None sample_prices =
     Inr sample_priced_estimate"
  by (simp add: eval_simps Let_def sample_priced_estimate_def is_fixed_request_module_billing_def del: sbind_eq_Inr)

lemma sample_priced_actual:
  "\<exists>c. compute_actual_cost sample_response sample_route sample_actual sample_priced_estimate ''/v1/chat/completions'' = Inr c"
  by (simp add: eval_simps Let_def sample_priced_estimate_def sample_actual_def is_fixed_request_module_billing_def
      del: sbind_eq_Inr)

theorem estimate_covers_usage_witness:
  "\<exists>c. compute_actual_cost sample_response sample_route sample_actual sample_priced_estimate ''/v1/chat/completions'' = Inr c
     \<and> ac_slaif_calculated_cost_native c \<le> 73"
proof -
  have cv: "column_value 100000" "column_value 1000000" by (simp_all add: column_value_def)
  obtain c where c: "compute_actual_cost sample_response sample_route sample_actual sample_priced_estimate ''/v1/chat/completions'' = Inr c"
    using sample_priced_actual by blast
  show ?thesis
    using estimate_covers_usage[OF sample_priced_estimate_eq c extract_usage_ok[OF sample_usage_eq], of 100000 1000000] c cv
    by (auto simp: sample_priced_estimate_def sample_estimate_def sample_actual_def sample_route_def sample_policy_def opt_all_def
        audio_part_def or_zero_def audio_output_tokens_def)
qed

text \<open>C40: Outside Codex limits the estimate is not the largest cost a request can have: it prices every output token at the
  output price and leaves the reasoning price out.  When a response uses all the input and output tokens it was admitted
  for (at most a thousand million, none cached, no audio, prices as the pricing table stores them), its calculated cost is
  the estimate plus the reasoning tokens times the difference between the reasoning and the output price; so it exceeds
  the estimate whenever reasoning is dearer than output and the response has reasoning tokens.\<close>

theorem reasoning_cost_exceeds_estimate:
  assumes "estimate_chat_completion_cost clock route policy endpoint at_opt pricing_opt fx_opt db = Inr e"
    and "\<not> is_fixed_request_module_billing (rt_provider_kind route) endpoint" "\<not> pr_codex_limits_applied policy"
      "\<not> uses_audio_output (pr_effective_body policy)"
    and "compute_actual_cost response route usage e endpoint = Inr c"
    and "usage_ok usage" "au_total_tokens usage \<le> 10 ^ 9" "cached_part usage = 0" "audio_part usage = 0"
    and "au_prompt_tokens usage = pr_estimated_input_tokens policy" "au_completion_tokens usage = pr_effective_output_tokens policy"
    and "ce_input_price_per_1m e = Some ip" "column_value ip" "ce_output_price_per_1m e = Some op" "column_value op"
    and "ce_reasoning_price_per_1m e = Some rp" "column_value rp"
    and "opt_all column_value (ce_cached_input_price_per_1m e)" "opt_all column_value (ce_audio_output_price_per_1m e)"
  shows "ac_slaif_calculated_cost_native c = ce_estimated_total_cost_native e + of_int (reasoning_part usage) * (rp - op) / 10 ^ 6
    \<and> (op < rp \<and> 0 < reasoning_part usage \<longrightarrow> ce_estimated_total_cost_native e < ac_slaif_calculated_cost_native c)"
  unfolding full_usage_cost[OF assms] by simp

text \<open>A response that uses all admitted tokens, the seventy completion tokens for reasoning, at the dollar prices.\<close>

definition sample_reasoning_usage :: actual_usage where
  "sample_reasoning_usage = sample_actual\<lparr>au_prompt_tokens := 30, au_completion_tokens := 70, au_total_tokens := 100,
     au_reasoning_tokens := Some 70\<rparr>"

definition sample_dollar_estimate :: cost_estimate where
  "sample_dollar_estimate = sample_priced_estimate\<lparr>ce_native_currency := ''USD'', ce_estimated_total_cost_eur := 73 / 2,
     ce_pricing_rule_id := Some 72, ce_fx_rate_id := Some 81, ce_reasoning_price_per_1m := Some 4000000, ce_fx_rate := Some (1 / 2)\<rparr>"

lemma sample_dollar_estimate_eq:
  "estimate_chat_completion_cost (Aware 900) sample_route sample_policy ''/v1/chat/completions'' None None None sample_prices =
     Inr sample_dollar_estimate"
  by (simp add: eval_simps Let_def sample_dollar_estimate_def sample_priced_estimate_def is_fixed_request_module_billing_def
      del: sbind_eq_Inr)

lemma sample_reasoning_actual:
  "\<exists>c. compute_actual_cost sample_response sample_route sample_reasoning_usage sample_dollar_estimate ''/v1/chat/completions'' = Inr c"
  by (simp add: eval_simps Let_def sample_dollar_estimate_def sample_priced_estimate_def sample_reasoning_usage_def sample_actual_def
      is_fixed_request_module_billing_def del: sbind_eq_Inr)

theorem reasoning_cost_exceeds_estimate_witness:
  "\<exists>c. compute_actual_cost sample_response sample_route sample_reasoning_usage sample_dollar_estimate ''/v1/chat/completions'' = Inr c
     \<and> ac_slaif_calculated_cost_native c = 73 + 70 * 3"
proof -
  have cv: "column_value 100000" "column_value 1000000" "column_value 4000000" by (simp_all add: column_value_def)
  obtain c where c: "compute_actual_cost sample_response sample_route sample_reasoning_usage sample_dollar_estimate
      ''/v1/chat/completions'' = Inr c" using sample_reasoning_actual by blast
  have u: "usage_ok sample_reasoning_usage" "au_total_tokens sample_reasoning_usage \<le> 10 ^ 9" "cached_part sample_reasoning_usage = 0"
    "audio_part sample_reasoning_usage = 0" "au_prompt_tokens sample_reasoning_usage = pr_estimated_input_tokens sample_policy"
    "au_completion_tokens sample_reasoning_usage = pr_effective_output_tokens sample_policy" "reasoning_part sample_reasoning_usage = 70"
    by (simp_all add: sample_reasoning_usage_def sample_actual_def sample_policy_def usage_ok_def cached_part_def audio_part_def
        reasoning_part_def or_zero_def audio_output_tokens_def opt_all_def)
  have p: "\<not> is_fixed_request_module_billing (rt_provider_kind sample_route) ''/v1/chat/completions''"
    "\<not> pr_codex_limits_applied sample_policy" "\<not> uses_audio_output (pr_effective_body sample_policy)"
    by (simp_all add: sample_route_def sample_policy_def is_fixed_request_module_billing_def uses_audio_output_def dget_def)
  show ?thesis
    using reasoning_cost_exceeds_estimate[OF sample_dollar_estimate_eq p c u(1-6) _ cv(1) _ cv(2) _ cv(3)] c u(7)
    by (auto simp: sample_dollar_estimate_def sample_priced_estimate_def sample_estimate_def opt_all_def)
qed

end
