(* ===== verification/LiveBurn.thy ===== *)
theory LiveBurn
  imports Pricing RateLimit Accounting ToolPolicy
begin

text \<open>
  Watching a stream's estimated usage against the key's limits: \<open>services/chat_streaming_live_burn.py\<close>,
  \<open>services/responses_streaming_live_burn.py\<close>, \<open>services/chat_live_burn_telemetry.py\<close>, the functions of
  \<open>services/chat_completion_gateway.py\<close> that build the budget from the key row, and the part of
  \<open>services/key_service.py\<close> that stores the policies when a key is created.

  A chunk is the provider's JSON (\<open>PNone\<close> when there is none).  The text that \<open>format(d, "f")\<close> gives for a
  Decimal is \<open>PDecStr d\<close>, as for \<open>str(d)\<close>: both read back as \<open>d\<close>.  A token margin is an int or a text
  typed by an operator; a Decimal there, whose text would depend on its exponent, counts as no integer.

  Shown: a stream that the monitor lets continue stays below the limits by the margin, one that stays within
  its reservation is not stopped, a policy read back from metadata is the policy that was stored there, text
  that already arrived as deltas is not counted again, and two places where the metadata sanitizer removes
  the token figures that are read back later.
\<close>

section \<open>Policy\<close>

record live_burn_policy =
  lb_enabled :: bool
  lb_cost_margin_eur :: decimal
  lb_token_margin :: int
  lb_version :: int

definition default_live_burn_policy :: live_burn_policy where
  "default_live_burn_policy = \<lparr>lb_enabled = True, lb_cost_margin_eur = 0, lb_token_margin = 0, lb_version = 1\<rparr>"

text \<open>\<open>value.quantize(Decimal("0.000000001"))\<close>: nine places, half even, at most 28 digits.\<close>

definition quantize_eur :: "decimal \<Rightarrow> decimal result" where
  "quantize_eur x =
     (let c = half_even (x * 10 ^ 9) in if 10 ^ 28 \<le> \<bar>c\<bar> then Inl InvalidOperation else Inr (of_int c / 10 ^ 9))"

definition format_eur :: "decimal \<Rightarrow> pyval result" where
  "format_eur x = sbind (quantize_eur x) (\<lambda>q. Inr (PDecStr q))"

definition live_burn_to_metadata :: "live_burn_policy \<Rightarrow> pydict result" where
  "live_burn_to_metadata p =
     sbind (format_eur (lb_cost_margin_eur p)) (\<lambda>margin.
     Inr [(''version'', PInt (lb_version p)), (''enabled'', PBool (lb_enabled p)),
          (''cost_margin_eur'', margin), (''token_margin'', PInt (lb_token_margin p))])"

definition live_burn_error :: "string \<Rightarrow> gateway_error" where
  "live_burn_error param = ChatStreamingLiveBurnPolicyError param"

definition parse_cost_margin :: "pyval \<Rightarrow> decimal result" where
  "parse_cost_margin value =
     (case decimal_of_value value of
        Some (Finite x) \<Rightarrow> quantize_eur x
      | _ \<Rightarrow> Inl (live_burn_error ''cost_margin_eur''))"

text \<open>\<open>str.isdigit\<close> also accepts the superscript digits, which \<open>int\<close> refuses; \<open>int\<close> reads at most 4300 digits.\<close>

definition py_isdigit :: "string \<Rightarrow> bool" where
  "py_isdigit s = (s \<noteq> [] \<and> list_all (\<lambda>c. is_digit c \<or> char_code c \<in> {178, 179, 185}) s)"

definition re_decimal_integer :: "string \<Rightarrow> bool" where
  "re_decimal_integer s = py_isdigit (snd (split_sign s))"

definition int_of_digits :: "bool \<Rightarrow> string \<Rightarrow> int result" where
  "int_of_digits neg d =
     (if list_all is_digit d \<and> length d \<le> 4300
      then Inr (if neg then - int (digits_value d) else int (digits_value d)) else Inl PyValueError)"

definition parse_token_margin_text :: "string \<Rightarrow> int result" where
  "parse_token_margin_text s =
     (let t = py_strip s in
      if \<not> re_decimal_integer t then Inl (live_burn_error ''token_margin'')
      else int_of_digits (fst (split_sign t)) (snd (split_sign t)))"

fun parse_token_margin :: "pyval \<Rightarrow> int result" where
  "parse_token_margin (PInt i) = Inr i"
| "parse_token_margin (PStr s) = parse_token_margin_text s"
| "parse_token_margin (PFloat s) = parse_token_margin_text s"
| "parse_token_margin _ = Inl (live_burn_error ''token_margin'')"

definition validate_policy_bounds :: "live_burn_policy \<Rightarrow> decimal \<Rightarrow> int \<Rightarrow> unit result" where
  "validate_policy_bounds p max_cost max_tokens =
     sbind (ensure (0 \<le> max_cost) (live_burn_error ''max_abs_cost_margin_eur'')) (\<lambda>_.
     sbind (ensure (0 \<le> max_tokens) (live_burn_error ''max_abs_token_margin'')) (\<lambda>_.
     sbind (ensure (\<bar>lb_cost_margin_eur p\<bar> \<le> max_cost) (live_burn_error ''cost_margin_eur'')) (\<lambda>_.
     ensure (\<bar>lb_token_margin p\<bar> \<le> max_tokens) (live_burn_error ''token_margin''))))"

text \<open>\<open>version != 1\<close> for a JSON value that is no bool.\<close>

fun is_one :: "pyval \<Rightarrow> bool" where
  "is_one (PInt i) = (i = 1)"
| "is_one (PDec d) = (d = 1)"
| "is_one (PFloat s) = (decimal_of_string s = Some (Finite 1))"
| "is_one _ = False"

definition parse_live_burn_mapping :: "pydict \<Rightarrow> live_burn_policy result" where
  "parse_live_burn_mapping d =
     sbind (ensure (is_one (dget_default d ''version'' (PInt 1))) (live_burn_error ''version'')) (\<lambda>_.
     sbind (case dget_default d ''enabled'' (PBool True) of
              PBool b \<Rightarrow> Inr b | _ \<Rightarrow> Inl (live_burn_error ''enabled'')) (\<lambda>enabled.
     sbind (parse_cost_margin (dget_default d ''cost_margin_eur'' (PDec 0))) (\<lambda>cost.
     sbind (parse_token_margin (dget_default d ''token_margin'' (PInt 0))) (\<lambda>tokens.
     Inr (default_live_burn_policy\<lparr>lb_enabled := enabled, lb_cost_margin_eur := cost, lb_token_margin := tokens\<rparr>)))))"

datatype live_burn_value = PolicyObject live_burn_policy | RawPolicy pyval

definition normalize_chat_streaming_live_burn_policy ::
  "live_burn_value \<Rightarrow> decimal \<Rightarrow> int \<Rightarrow> live_burn_policy result" where
  "normalize_chat_streaming_live_burn_policy value max_cost max_tokens =
     sbind (case value of
              PolicyObject p \<Rightarrow> Inr p
            | RawPolicy PNone \<Rightarrow> Inr default_live_burn_policy
            | RawPolicy (PDict d) \<Rightarrow> parse_live_burn_mapping d
            | RawPolicy _ \<Rightarrow> Inl (live_burn_error ''chat_streaming_live_burn'')) (\<lambda>policy.
     sbind (validate_policy_bounds policy max_cost max_tokens) (\<lambda>_. Inr policy))"

text \<open>The two endpoints share the code and differ in the metadata key.\<close>

definition live_burn_policy_under :: "string \<Rightarrow> pyval \<Rightarrow> decimal \<Rightarrow> int \<Rightarrow> live_burn_policy result" where
  "live_burn_policy_under key metadata max_cost max_tokens =
     (case metadata of
        PDict d \<Rightarrow>
          (case dget d key of
             PNone \<Rightarrow> Inr default_live_burn_policy
           | PDict raw \<Rightarrow> normalize_chat_streaming_live_burn_policy (RawPolicy (PDict raw)) max_cost max_tokens
           | _ \<Rightarrow> Inl (live_burn_error key))
      | _ \<Rightarrow> Inr default_live_burn_policy)"

definition chat_streaming_live_burn_policy_from_metadata :: "pyval \<Rightarrow> decimal \<Rightarrow> int \<Rightarrow> live_burn_policy result" where
  "chat_streaming_live_burn_policy_from_metadata = live_burn_policy_under ''chat_streaming_live_burn''"

definition responses_streaming_live_burn_policy_from_metadata :: "pyval \<Rightarrow> decimal \<Rightarrow> int \<Rightarrow> live_burn_policy result" where
  "responses_streaming_live_burn_policy_from_metadata = live_burn_policy_under ''responses_streaming_live_burn''"

definition metadata_with_policy_under ::
  "string \<Rightarrow> pydict \<Rightarrow> live_burn_value \<Rightarrow> decimal \<Rightarrow> int \<Rightarrow> pydict result" where
  "metadata_with_policy_under key metadata policy max_cost max_tokens =
     (let result = sanitize_metadata_mapping True None (Some metadata) in
      sbind (normalize_chat_streaming_live_burn_policy policy max_cost max_tokens) (\<lambda>normalized.
      sbind (live_burn_to_metadata normalized) (\<lambda>m.
      Inr (dset key (PDict m) result))))"

definition metadata_with_chat_streaming_live_burn_policy ::
  "pydict \<Rightarrow> live_burn_value \<Rightarrow> decimal \<Rightarrow> int \<Rightarrow> pydict result" where
  "metadata_with_chat_streaming_live_burn_policy = metadata_with_policy_under ''chat_streaming_live_burn''"

definition metadata_with_responses_streaming_live_burn_policy ::
  "pydict \<Rightarrow> live_burn_value \<Rightarrow> decimal \<Rightarrow> int \<Rightarrow> pydict result" where
  "metadata_with_responses_streaming_live_burn_policy = metadata_with_policy_under ''responses_streaming_live_burn''"

definition is_blank :: "pyval \<Rightarrow> bool" where
  "is_blank value = (case value of PNone \<Rightarrow> True | PStr s \<Rightarrow> py_strip s = [] | _ \<Rightarrow> False)"

definition parse_chat_streaming_live_burn_form_policy ::
  "bool \<Rightarrow> pyval \<Rightarrow> pyval \<Rightarrow> live_burn_policy option \<Rightarrow> decimal \<Rightarrow> int \<Rightarrow> live_burn_policy result" where
  "parse_chat_streaming_live_burn_form_policy enabled cost_margin token_margin existing max_cost max_tokens =
     (let base = (case existing of Some p \<Rightarrow> p | None \<Rightarrow> default_live_burn_policy)
      in normalize_chat_streaming_live_burn_policy
           (RawPolicy (PDict
              [(''version'', PInt 1), (''enabled'', PBool enabled),
               (''cost_margin_eur'', if \<not> enabled \<and> is_blank cost_margin then PDec (lb_cost_margin_eur base)
                                     else if is_blank cost_margin then PDec 0 else cost_margin),
               (''token_margin'', if \<not> enabled \<and> is_blank token_margin then PInt (lb_token_margin base)
                                  else if is_blank token_margin then PInt 0 else token_margin)]))
           max_cost max_tokens)"

section \<open>Budget\<close>

record live_burn_budget =
  bg_policy :: live_burn_policy
  bg_cost_cutoff_eur :: "decimal option"
  bg_token_cutoff :: "int option"
  bg_admission_input_tokens :: int
  bg_admission_input_cost_eur :: decimal
  bg_output_price_per_1m_eur :: decimal
  bg_estimate_multiplier :: decimal

definition live_burn_fx_rate :: "cost_estimate \<Rightarrow> decimal" where
  "live_burn_fx_rate est =
     (case ce_fx_rate est of
        Some r \<Rightarrow> r
      | None \<Rightarrow> if ce_estimated_total_cost_native est = 0 then 0
                else dec_div (ce_estimated_total_cost_eur est) (ce_estimated_total_cost_native est))"

definition input_cost_eur :: "cost_estimate \<Rightarrow> decimal" where
  "input_cost_eur est = dec_mul (ce_estimated_input_cost_native est) (live_burn_fx_rate est)"

definition output_price_per_1m_eur :: "cost_estimate \<Rightarrow> decimal" where
  "output_price_per_1m_eur est =
     (case ce_output_price_per_1m est of
        Some native \<Rightarrow> dec_mul native (live_burn_fx_rate est)
      | None \<Rightarrow>
          if ce_estimated_output_tokens est \<le> 0 then 0
          else dec_mul (dec_div (dec_mul (ce_estimated_output_cost_native est) one_million)
                                (of_int (ce_estimated_output_tokens est))) (live_burn_fx_rate est))"

definition build_chat_streaming_live_burn_budget ::
  "live_burn_policy \<Rightarrow> decimal option \<Rightarrow> int option \<Rightarrow> decimal \<Rightarrow> int \<Rightarrow> decimal \<Rightarrow> int \<Rightarrow> decimal \<Rightarrow> int
     \<Rightarrow> cost_estimate \<Rightarrow> decimal \<Rightarrow> live_burn_budget option" where
  "build_chat_streaming_live_burn_budget policy cost_limit token_limit cost_used tokens_used cost_reserved tokens_reserved
       current_cost current_tokens est multiplier =
     (if \<not> lb_enabled policy then None
      else
        let cost_cutoff = map_option (\<lambda>limit.
              dec_sub (dec_sub (dec_sub limit cost_used) (max (dec_sub cost_reserved current_cost) 0))
                      (lb_cost_margin_eur policy)) cost_limit;
            token_cutoff = map_option (\<lambda>limit.
              limit - tokens_used - max (tokens_reserved - current_tokens) 0 - lb_token_margin policy) token_limit
        in if cost_cutoff = None \<and> token_cutoff = None then None
           else Some \<lparr>bg_policy = policy, bg_cost_cutoff_eur = cost_cutoff, bg_token_cutoff = token_cutoff,
                      bg_admission_input_tokens = ce_estimated_input_tokens est,
                      bg_admission_input_cost_eur = input_cost_eur est,
                      bg_output_price_per_1m_eur = output_price_per_1m_eur est, bg_estimate_multiplier = multiplier\<rparr>)"

text \<open>The settings the gateway passes on.\<close>

record live_burn_settings =
  ls_max_abs_cost_margin_eur :: decimal
  ls_max_abs_token_margin :: int
  ls_estimate_multiplier :: decimal

definition or_default_policy :: "live_burn_policy result \<Rightarrow> live_burn_policy result" where
  "or_default_policy r =
     (case r of
        Inl (ChatStreamingLiveBurnPolicyError _) \<Rightarrow> Inr default_live_burn_policy
      | _ \<Rightarrow> r)"

definition chat_policy_from_key ::
  "authenticated_key \<Rightarrow> gateway_key option \<Rightarrow> live_burn_settings \<Rightarrow> live_burn_policy result" where
  "chat_policy_from_key ak gk s =
     (case gk of
        Some k \<Rightarrow>
          or_default_policy (chat_streaming_live_burn_policy_from_metadata (PDict (gk_metadata_json k))
            (ls_max_abs_cost_margin_eur s) (ls_max_abs_token_margin s))
      | None \<Rightarrow>
          (case ak_chat_streaming_live_burn_policy ak of
             Some p \<Rightarrow>
               or_default_policy (chat_streaming_live_burn_policy_from_metadata
                 (PDict [(''chat_streaming_live_burn'', PDict p)])
                 (ls_max_abs_cost_margin_eur s) (ls_max_abs_token_margin s))
           | None \<Rightarrow> Inr default_live_burn_policy))"

definition chat_budget_from_key ::
  "authenticated_key \<Rightarrow> gateway_key option \<Rightarrow> quota_reservation_result \<Rightarrow> cost_estimate \<Rightarrow> live_burn_settings
     \<Rightarrow> live_burn_budget option result" where
  "chat_budget_from_key ak gk r est s =
     sbind (chat_policy_from_key ak gk s) (\<lambda>policy.
     Inr (case gk of
            Some k \<Rightarrow>
              build_chat_streaming_live_burn_budget policy (gk_cost_limit_eur k) (gk_token_limit_total k)
                (gk_cost_used_eur k) (gk_tokens_used_total k) (gk_cost_reserved_eur k) (gk_tokens_reserved_total k)
                (qrr_reserved_cost_eur r) (qrr_reserved_tokens r) est (ls_estimate_multiplier s)
          | None \<Rightarrow>
              build_chat_streaming_live_burn_budget policy (ak_cost_limit_eur ak) (ak_token_limit_total ak)
                (ak_cost_used_eur ak) (ak_tokens_used_total ak)
                (dec_add (ak_cost_reserved_eur ak) (qrr_reserved_cost_eur r))
                (ak_tokens_reserved_total ak + qrr_reserved_tokens r)
                (qrr_reserved_cost_eur r) (qrr_reserved_tokens r) est (ls_estimate_multiplier s)))"

section \<open>Counting streamed text\<close>

definition utf8_length :: "string \<Rightarrow> int" where
  "utf8_length s = sum_list (map (\<lambda>c. if char_code c < 128 then 1 else 2) s)"

definition estimate_text_tokens :: "string \<Rightarrow> int" where
  "estimate_text_tokens text = max 1 ((utf8_length text + 2) div 3)"

definition estimate_chat_streaming_output_delta_tokens :: "string \<Rightarrow> decimal \<Rightarrow> int" where
  "estimate_chat_streaming_output_delta_tokens text multiplier =
     (if text = [] then 0
      else let base = max (estimate_text_tokens text) \<lceil>of_int (utf8_length text) / (3 :: rat)\<rceil>
           in max 1 \<lceil>dec_mul (of_int base) multiplier\<rceil>)"

fun str_or_empty :: "pyval \<Rightarrow> string" where
  "str_or_empty (PStr s) = s"
| "str_or_empty _ = []"

fun items_of :: "pyval \<Rightarrow> pyval list" where
  "items_of (PList xs) = xs"
| "items_of _ = []"

definition tool_call_text :: "pyval \<Rightarrow> string" where
  "tool_call_text tool_call =
     (let function = as_dict (dget (as_dict tool_call) ''function'')
      in str_or_empty (dget function ''name'') @ str_or_empty (dget function ''arguments''))"

definition choice_text :: "pyval \<Rightarrow> string" where
  "choice_text choice =
     (let delta = as_dict (dget (as_dict choice) ''delta'')
      in str_or_empty (dget delta ''content'') @ concat (map tool_call_text (items_of (dget delta ''tool_calls''))))"

definition generated_chat_streaming_delta_text :: "pyval \<Rightarrow> string" where
  "generated_chat_streaming_delta_text chunk = concat (map choice_text (items_of (dget (as_dict chunk) ''choices'')))"

section \<open>The chat monitor\<close>

record chat_monitor =
  cm_budget :: live_burn_budget
  cm_estimated_output_tokens :: int

record live_burn_estimate =
  le_estimated_output_tokens :: int
  le_estimated_request_tokens :: int
  le_estimated_cost_eur :: decimal
  le_stop_reason :: string
  le_metadata :: pydict

definition estimated_request_tokens :: "live_burn_budget \<Rightarrow> int \<Rightarrow> int" where
  "estimated_request_tokens b out = bg_admission_input_tokens b + out"

definition estimated_cost_eur :: "live_burn_budget \<Rightarrow> int \<Rightarrow> decimal" where
  "estimated_cost_eur b out =
     dec_add (bg_admission_input_cost_eur b) (dec_mul (dec_div (of_int out) one_million) (bg_output_price_per_1m_eur b))"

definition stop_metadata :: "int \<Rightarrow> decimal \<Rightarrow> string \<Rightarrow> live_burn_policy \<Rightarrow> bool \<Rightarrow> pydict result" where
  "stop_metadata tokens cost stop_reason policy final_usage =
     sbind (format_eur cost) (\<lambda>cost_text.
     sbind (format_eur (lb_cost_margin_eur policy)) (\<lambda>margin_text.
     Inr [(''streaming_live_burn_enabled'', PBool (lb_enabled policy)), (''streaming_live_burn_triggered'', PBool True),
          (''streaming_live_burn_stop_reason'', PStr stop_reason), (''estimated_tokens_at_stop'', PInt tokens),
          (''estimated_cost_eur_at_stop'', cost_text), (''cost_margin_eur'', margin_text),
          (''token_margin'', PInt (lb_token_margin policy)), (''final_provider_usage_available'', PBool final_usage),
          (''estimate_is_invoice_grade'', PBool False)]))"

definition cost_crossed :: "live_burn_budget \<Rightarrow> int \<Rightarrow> bool" where
  "cost_crossed b out = (case bg_cost_cutoff_eur b of None \<Rightarrow> False | Some c \<Rightarrow> c \<le> estimated_cost_eur b out)"

definition token_crossed :: "live_burn_budget \<Rightarrow> int \<Rightarrow> bool" where
  "token_crossed b out = (case bg_token_cutoff b of None \<Rightarrow> False | Some c \<Rightarrow> c \<le> estimated_request_tokens b out)"

definition live_burn_check :: "live_burn_budget \<Rightarrow> int \<Rightarrow> live_burn_estimate option result" where
  "live_burn_check b out =
     (if \<not> cost_crossed b out \<and> \<not> token_crossed b out then Inr None
      else
        let stop_reason = (if cost_crossed b out \<and> token_crossed b out then ''both''
                           else if cost_crossed b out then ''cost'' else ''tokens'') in
        sbind (stop_metadata (estimated_request_tokens b out) (estimated_cost_eur b out) stop_reason (bg_policy b) False) (\<lambda>m.
        Inr (Some \<lparr>le_estimated_output_tokens = out, le_estimated_request_tokens = estimated_request_tokens b out,
                   le_estimated_cost_eur = estimated_cost_eur b out, le_stop_reason = stop_reason, le_metadata = m\<rparr>)))"

definition chat_observe_chunk :: "pyval \<Rightarrow> chat_monitor \<Rightarrow> chat_monitor \<times> live_burn_estimate option result" where
  "chat_observe_chunk chunk m =
     (let text = generated_chat_streaming_delta_text chunk;
          m1 = (if text = [] then m
                else m\<lparr>cm_estimated_output_tokens := cm_estimated_output_tokens m
                        + estimate_chat_streaming_output_delta_tokens text (bg_estimate_multiplier (cm_budget m))\<rparr>)
      in (m1, live_burn_check (cm_budget m1) (cm_estimated_output_tokens m1)))"

definition pre_provider_chat_streaming_live_burn_error :: "live_burn_budget option \<Rightarrow> live_burn_estimate option result" where
  "pre_provider_chat_streaming_live_burn_error budget =
     (case budget of None \<Rightarrow> Inr None | Some b \<Rightarrow> live_burn_check b 0)"

definition build_chat_streaming_estimate_monitor ::
  "cost_estimate \<Rightarrow> decimal \<Rightarrow> live_burn_budget option \<Rightarrow> chat_monitor" where
  "build_chat_streaming_estimate_monitor est multiplier budget =
     \<lparr>cm_budget =
        (case budget of
           Some b \<Rightarrow> b
         | None \<Rightarrow> \<lparr>bg_policy = default_live_burn_policy, bg_cost_cutoff_eur = None, bg_token_cutoff = None,
                    bg_admission_input_tokens = max (ce_estimated_input_tokens est) 0,
                    bg_admission_input_cost_eur = input_cost_eur est,
                    bg_output_price_per_1m_eur = output_price_per_1m_eur est, bg_estimate_multiplier = multiplier\<rparr>),
      cm_estimated_output_tokens = 0\<rparr>"

definition interrupted_estimate_metadata :: "int \<Rightarrow> int \<Rightarrow> int \<Rightarrow> decimal \<Rightarrow> string \<Rightarrow> bool \<Rightarrow> pydict result" where
  "interrupted_estimate_metadata input_tokens output_tokens total_tokens cost reason final_usage =
     sbind (format_eur cost) (\<lambda>cost_text.
     Inr [(''stream_interruption_reason'', PStr reason), (''estimated_input_tokens_at_stop'', PInt input_tokens),
          (''estimated_output_tokens_at_stop'', PInt output_tokens), (''estimated_tokens_at_stop'', PInt total_tokens),
          (''estimated_cost_eur_at_stop'', cost_text), (''final_provider_usage_available'', PBool final_usage),
          (''estimate_is_invoice_grade'', PBool False)])"

section \<open>The Responses monitor\<close>

type_synonym text_key = "string \<times> string \<times> int"

record responses_monitor =
  rm_budget :: live_burn_budget
  rm_estimated_output_tokens :: int
  rm_delta_keys :: "text_key set"
  rm_done_keys :: "text_key set"

definition stream_index :: "pyval \<Rightarrow> int" where
  "stream_index v = (case v of PInt i \<Rightarrow> if i < 0 then 0 else i | _ \<Rightarrow> 0)"

definition responses_stream_generated_key :: "pydict \<Rightarrow> string \<Rightarrow> text_key" where
  "responses_stream_generated_key chunk category =
     (category, str_or_empty (dget chunk ''item_id''),
      if category = ''reasoning_summary'' then stream_index (dget chunk ''summary_index'')
      else if category \<in> {''output_text'', ''reasoning_text''} then stream_index (dget chunk ''content_index'')
      else 0)"

definition count_done_text :: "text_key \<Rightarrow> pyval \<Rightarrow> responses_monitor \<Rightarrow> responses_monitor \<times> string list" where
  "count_done_text key value m =
     (if key \<in> rm_done_keys m then (m, [])
      else
        let m1 = m\<lparr>rm_done_keys := insert key (rm_done_keys m)\<rparr>; (category, item_id, index) = key
        in if key \<in> rm_delta_keys m \<or> item_id \<noteq> [] \<and> (category, [], index) \<in> rm_delta_keys m then (m1, [])
           else (m1, if str_or_empty value = [] then [] else [str_or_empty value]))"

fun count_done_parts ::
  "string \<Rightarrow> string \<Rightarrow> string \<Rightarrow> int \<Rightarrow> pyval list \<Rightarrow> responses_monitor \<Rightarrow> responses_monitor \<times> string list" where
  "count_done_parts category item_id part_type i [] m = (m, [])"
| "count_done_parts category item_id part_type i (part # parts) m =
     (if is_dict part \<and> dget (as_dict part) ''type'' = PStr part_type
      then let (m1, s1) = count_done_text (category, item_id, i) (dget (as_dict part) ''text'') m;
               (m2, s2) = count_done_parts category item_id part_type (i + 1) parts m1
           in (m2, s1 @ s2)
      else count_done_parts category item_id part_type (i + 1) parts m)"

definition delta_category :: "string \<Rightarrow> string option" where
  "delta_category event_type =
     map_of [(''response.output_text.delta'', ''output_text''),
             (''response.function_call_arguments.delta'', ''function_arguments''),
             (''response.custom_tool_call_input.delta'', ''custom_input''),
             (''response.reasoning_summary_text.delta'', ''reasoning_summary''),
             (''response.reasoning_text.delta'', ''reasoning_text'')] event_type"

definition count_done_item :: "pydict \<Rightarrow> responses_monitor \<Rightarrow> responses_monitor \<times> string list" where
  "count_done_item item m =
     (let item_id = str_or_empty (dget item ''id'') in
      if dget item ''type'' = PStr ''function_call''
      then count_done_text (''function_arguments'', item_id, 0) (dget item ''arguments'') m
      else if dget item ''type'' = PStr ''custom_tool_call''
      then count_done_text (''custom_input'', item_id, 0) (dget item ''input'') m
      else if dget item ''type'' = PStr ''message''
      then count_done_parts ''output_text'' item_id ''output_text'' 0 (items_of (dget item ''content'')) m
      else if dget item ''type'' = PStr ''reasoning''
      then let (m1, s1) = count_done_parts ''reasoning_summary'' item_id ''summary_text'' 0 (items_of (dget item ''summary'')) m;
               (m2, s2) = count_done_parts ''reasoning_text'' item_id ''reasoning_text'' 0 (items_of (dget item ''content'')) m1
           in (m2, s1 @ s2)
      else (m, []))"

text \<open>An event type that is a list or an object cannot be looked up in the table of categories.\<close>

definition generated_text_segments :: "pyval \<Rightarrow> responses_monitor \<Rightarrow> (responses_monitor \<times> string list) result" where
  "generated_text_segments chunk m =
     (case chunk of
        PDict c \<Rightarrow>
          (case dget c ''type'' of
             PList _ \<Rightarrow> Inl PyTypeError
           | PDict _ \<Rightarrow> Inl PyTypeError
           | PStr event_type \<Rightarrow>
               (case delta_category event_type of
                  Some category \<Rightarrow>
                    let delta = str_or_empty (dget c ''delta'') in
                    if delta = [] then Inr (m, [])
                    else Inr (m\<lparr>rm_delta_keys := insert (responses_stream_generated_key c category) (rm_delta_keys m)\<rparr>, [delta])
                | None \<Rightarrow>
                    if event_type = ''response.reasoning_summary_text.done''
                    then Inr (count_done_text (responses_stream_generated_key c ''reasoning_summary'') (dget c ''text'') m)
                    else if event_type = ''response.output_item.done'' \<and> is_dict (dget c ''item'')
                    then Inr (count_done_item (as_dict (dget c ''item'')) m)
                    else Inr (m, []))
           | _ \<Rightarrow> Inr (m, []))
      | _ \<Rightarrow> Inr (m, []))"

definition responses_observe_chunk ::
  "pyval \<Rightarrow> responses_monitor \<Rightarrow> (responses_monitor \<times> live_burn_estimate option result) result" where
  "responses_observe_chunk chunk m =
     sbind (generated_text_segments chunk m) (\<lambda>(m1, segments).
     let m2 = m1\<lparr>rm_estimated_output_tokens := rm_estimated_output_tokens m1
                   + sum_list (map (\<lambda>s. estimate_chat_streaming_output_delta_tokens s (bg_estimate_multiplier (rm_budget m1))) segments)\<rparr>
     in Inr (m2, live_burn_check (rm_budget m2) (rm_estimated_output_tokens m2)))"

definition build_responses_streaming_estimate_monitor ::
  "cost_estimate \<Rightarrow> decimal \<Rightarrow> live_burn_budget option \<Rightarrow> responses_monitor" where
  "build_responses_streaming_estimate_monitor est multiplier budget =
     (let chat = build_chat_streaming_estimate_monitor est multiplier budget
      in \<lparr>rm_budget = cm_budget chat, rm_estimated_output_tokens = cm_estimated_output_tokens chat,
          rm_delta_keys = {}, rm_done_keys = {}\<rparr>)"

section \<open>Telemetry\<close>

record live_burn_usage_detail =
  ud_monitoring_enabled :: "bool option"
  ud_triggered :: bool
  ud_stop_reason :: "string option"
  ud_estimated_tokens_at_stop :: "int option"
  ud_estimated_cost_eur_at_stop :: "decimal option"
  ud_cost_margin_eur :: "decimal option"
  ud_token_margin :: "int option"
  ud_final_provider_usage_available :: "bool option"
  ud_estimate_is_invoice_grade :: bool

definition safe_stop_reason :: "pyval \<Rightarrow> string option" where
  "safe_stop_reason value =
     (case value of
        PStr s \<Rightarrow> let n = py_lower (py_strip s) in Some (if n \<in> {''cost'', ''tokens'', ''both''} then n else ''unknown'')
      | _ \<Rightarrow> None)"

definition optional_bool :: "pyval \<Rightarrow> bool option" where
  "optional_bool value = (case value of PBool b \<Rightarrow> Some b | _ \<Rightarrow> None)"

text \<open>\<open>int(text)\<close>: an optional sign and digits, single underscores between digits allowed.\<close>

fun underscores_ok :: "string \<Rightarrow> bool" where
  "underscores_ok [] = False"
| "underscores_ok [c] = is_digit c"
| "underscores_ok (c # d # s) =
     (if is_digit c then (if d = CHR ''_'' then underscores_ok s else underscores_ok (d # s)) else False)"

definition int_of_text :: "string \<Rightarrow> int option" where
  "int_of_text text =
     (let (neg, s) = split_sign (py_strip text); d = filter (\<lambda>c. c \<noteq> CHR ''_'') s
      in if underscores_ok s \<and> length d \<le> 4300
         then Some (if neg then - int (digits_value d) else int (digits_value d)) else None)"

definition optional_int :: "pyval \<Rightarrow> int option" where
  "optional_int value = (case value of PInt i \<Rightarrow> Some i | PStr s \<Rightarrow> int_of_text s | _ \<Rightarrow> None)"

definition optional_non_negative_int :: "pyval \<Rightarrow> int option" where
  "optional_non_negative_int value =
     (case optional_int value of None \<Rightarrow> None | Some i \<Rightarrow> if i < 0 then None else Some i)"

definition optional_decimal :: "pyval \<Rightarrow> decimal option" where
  "optional_decimal value = (case decimal_of_value value of Some (Finite x) \<Rightarrow> Some x | _ \<Rightarrow> None)"

definition telemetry_non_negative_decimal :: "pyval \<Rightarrow> decimal option" where
  "telemetry_non_negative_decimal value =
     (case optional_decimal value of None \<Rightarrow> None | Some x \<Rightarrow> if x < 0 then None else Some x)"

definition telemetry_keys :: "string list" where
  "telemetry_keys =
     [''streaming_live_burn_enabled'', ''streaming_live_burn_triggered'', ''streaming_live_burn_stop_reason'',
      ''estimated_tokens_at_stop'', ''estimated_cost_eur_at_stop'', ''cost_margin_eur'', ''token_margin'',
      ''final_provider_usage_available'', ''estimate_is_invoice_grade'']"

definition parse_chat_live_burn_usage_detail ::
  "string option \<Rightarrow> bool \<Rightarrow> pydict option \<Rightarrow> live_burn_usage_detail option" where
  "parse_chat_live_burn_usage_detail endpoint streaming metadata =
     (case metadata of
        Some d \<Rightarrow>
          if endpoint \<noteq> Some ''/v1/chat/completions'' \<or> \<not> streaming \<or> \<not> list_ex (\<lambda>k. map_of d k \<noteq> None) telemetry_keys then None
          else Some
            \<lparr>ud_monitoring_enabled = optional_bool (dget d ''streaming_live_burn_enabled''),
             ud_triggered = (optional_bool (dget d ''streaming_live_burn_triggered'') = Some True),
             ud_stop_reason = safe_stop_reason (dget d ''streaming_live_burn_stop_reason''),
             ud_estimated_tokens_at_stop = optional_non_negative_int (dget d ''estimated_tokens_at_stop''),
             ud_estimated_cost_eur_at_stop = telemetry_non_negative_decimal (dget d ''estimated_cost_eur_at_stop''),
             ud_cost_margin_eur = optional_decimal (dget d ''cost_margin_eur''),
             ud_token_margin = optional_int (dget d ''token_margin''),
             ud_final_provider_usage_available = optional_bool (dget d ''final_provider_usage_available''),
             ud_estimate_is_invoice_grade = False\<rparr>
      | None \<Rightarrow> None)"

record live_burn_aggregate =
  ag_triggered_total :: nat
  ag_stop_reason_tokens :: nat
  ag_stop_reason_cost :: nat
  ag_stop_reason_both :: nat
  ag_stop_reason_unknown :: nat
  ag_final_provider_usage_available :: nat
  ag_final_provider_usage_missing :: nat
  ag_estimated_tokens_at_stop_sum :: int
  ag_estimated_cost_eur_at_stop_sum :: decimal

definition aggregate_chat_live_burn_usage :: "live_burn_usage_detail option list \<Rightarrow> live_burn_aggregate" where
  "aggregate_chat_live_burn_usage rows =
     (let triggered = filter ud_triggered (concat (map (\<lambda>r. case r of None \<Rightarrow> [] | Some d \<Rightarrow> [d]) rows));
          count = (\<lambda>P. length (filter P triggered))
      in \<lparr>ag_triggered_total = length triggered,
          ag_stop_reason_tokens = count (\<lambda>d. ud_stop_reason d = Some ''tokens''),
          ag_stop_reason_cost = count (\<lambda>d. ud_stop_reason d = Some ''cost''),
          ag_stop_reason_both = count (\<lambda>d. ud_stop_reason d = Some ''both''),
          ag_stop_reason_unknown = count (\<lambda>d. ud_stop_reason d \<notin> {Some ''tokens'', Some ''cost'', Some ''both''}),
          ag_final_provider_usage_available = count (\<lambda>d. ud_final_provider_usage_available d = Some True),
          ag_final_provider_usage_missing = count (\<lambda>d. ud_final_provider_usage_available d = Some False),
          ag_estimated_tokens_at_stop_sum =
            sum_list (map (\<lambda>d. case ud_estimated_tokens_at_stop d of Some i \<Rightarrow> i | None \<Rightarrow> 0) triggered),
          ag_estimated_cost_eur_at_stop_sum =
            dec_sum (map (\<lambda>d. case ud_estimated_cost_eur_at_stop d of Some x \<Rightarrow> x | None \<Rightarrow> 0) triggered)\<rparr>)"

section \<open>Storing the policies of a new key\<close>

definition dpop :: "string \<Rightarrow> pydict \<Rightarrow> pydict" where
  "dpop k d = AList.delete k d"

definition metadata_with_provider_policy :: "pydict \<Rightarrow> string list option \<Rightarrow> pydict" where
  "metadata_with_provider_policy metadata allowed =
     (case allowed of
        None \<Rightarrow> dpop ''allowed_providers'' metadata
      | Some ps \<Rightarrow> dset ''allowed_providers'' (PList (map PStr (filter (\<lambda>p. p \<noteq> []) (map py_strip ps)))) metadata)"

definition metadata_with_rate_limit_window :: "pydict \<Rightarrow> int option \<Rightarrow> pydict" where
  "metadata_with_rate_limit_window metadata window =
     (let existing = as_dict (dget metadata ''rate_limit_policy'');
          policy = (case window of None \<Rightarrow> dpop ''window_seconds'' existing | Some w \<Rightarrow> dset ''window_seconds'' (PInt w) existing)
      in if policy = [] then dpop ''rate_limit_policy'' metadata else dset ''rate_limit_policy'' (PDict policy) metadata)"

definition metadata_with_lazy_throttling_policy :: "pydict \<Rightarrow> pydict option \<Rightarrow> pydict" where
  "metadata_with_lazy_throttling_policy metadata policy =
     (case policy of
        Some p \<Rightarrow> if p = [] then dpop ''lazy_throttling_policy'' metadata else dset ''lazy_throttling_policy'' (PDict p) metadata
      | None \<Rightarrow> dpop ''lazy_throttling_policy'' metadata)"

definition metadata_with_responses_policy :: "pydict \<Rightarrow> pydict option \<Rightarrow> pydict" where
  "metadata_with_responses_policy metadata policy =
     (case policy of
        None \<Rightarrow> dpop ''responses_policy'' metadata
      | Some p \<Rightarrow> dset ''responses_policy'' (PDict (sanitize_metadata_mapping True None (Some p))) metadata)"

definition as_key_policy_error :: "'a result \<Rightarrow> 'a result" where
  "as_key_policy_error r =
     (case r of Inl (ChatStreamingLiveBurnPolicyError p) \<Rightarrow> Inl (InvalidGatewayKeyPolicyError p) | _ \<Rightarrow> r)"

text \<open>The metadata column of a new key, layer by layer as \<open>create_gateway_key\<close> applies them.  The external-tool
  policy is given when its mode is fenced.\<close>

definition created_key_metadata ::
  "string list option \<Rightarrow> pydict option \<Rightarrow> live_burn_policy \<Rightarrow> int option \<Rightarrow> pydict option \<Rightarrow> key_policy option
     \<Rightarrow> live_burn_settings \<Rightarrow> live_burn_settings \<Rightarrow> pydict result" where
  "created_key_metadata providers responses_policy chat_policy window lazy fenced chat_settings responses_settings =
     sbind (as_key_policy_error (metadata_with_chat_streaming_live_burn_policy
              (metadata_with_responses_policy (metadata_with_provider_policy [] providers) responses_policy)
              (PolicyObject chat_policy) (ls_max_abs_cost_margin_eur chat_settings) (ls_max_abs_token_margin chat_settings))) (\<lambda>m1.
     sbind (as_key_policy_error (metadata_with_responses_streaming_live_burn_policy m1 (PolicyObject default_live_burn_policy)
              (ls_max_abs_cost_margin_eur responses_settings) (ls_max_abs_token_margin responses_settings))) (\<lambda>m2.
     (let m3 = metadata_with_lazy_throttling_policy (metadata_with_rate_limit_window m2 window) lazy
      in Inr (case fenced of
                None \<Rightarrow> m3
              | Some p \<Rightarrow> dset ''external_tool_policy'' (PDict (key_policy_to_metadata p)) m3))))"

section \<open>Policies read back\<close>

lemma half_even_frac: "half_even (of_int n / 10 ^ 9 * 10 ^ 9) = n"
  by simp

lemma quantize_idem: "quantize_eur x = Inr q \<Longrightarrow> quantize_eur q = Inr q"
proof -
  assume "quantize_eur x = Inr q"
  then have c: "\<not> 10 ^ 28 \<le> \<bar>half_even (x * 10 ^ 9)\<bar>" and q: "q = of_int (half_even (x * 10 ^ 9)) / 10 ^ 9"
    by (auto simp: quantize_eur_def Let_def split: if_splits)
  have "half_even (q * 10 ^ 9) = half_even (x * 10 ^ 9)" unfolding q by (rule half_even_frac)
  then show ?thesis using c q by (simp add: quantize_eur_def Let_def)
qed

lemma parse_cost_margin_quantized: "parse_cost_margin v = Inr q \<Longrightarrow> quantize_eur q = Inr q"
  by (auto simp: parse_cost_margin_def split: option.splits parsed_decimal.splits intro: quantize_idem)

text \<open>A policy as normalization of metadata leaves it.\<close>

definition stored_form :: "live_burn_policy \<Rightarrow> bool" where
  "stored_form p = (lb_version p = 1 \<and> quantize_eur (lb_cost_margin_eur p) = Inr (lb_cost_margin_eur p))"

lemma quantize_zero [simp]: "quantize_eur 0 = Inr 0"
  by (simp add: quantize_eur_def half_even_def)

lemma default_stored_form [simp]: "stored_form default_live_burn_policy"
  by (simp add: stored_form_def default_live_burn_policy_def)

lemma mapping_stored_form: "parse_live_burn_mapping d = Inr p \<Longrightarrow> stored_form p"
  by (auto simp: parse_live_burn_mapping_def stored_form_def default_live_burn_policy_def dest: parse_cost_margin_quantized)

lemma normalize_raw_stored_form:
  "normalize_chat_streaming_live_burn_policy (RawPolicy v) mc mt = Inr p \<Longrightarrow> stored_form p"
  by (auto simp: normalize_chat_streaming_live_burn_policy_def dest: mapping_stored_form split: pyval.splits)

lemma normalize_idem:
  "normalize_chat_streaming_live_burn_policy v mc mt = Inr p \<Longrightarrow>
   validate_policy_bounds p mc mt = Inr ()"
  by (auto simp: normalize_chat_streaming_live_burn_policy_def)

lemma to_metadata_stored:
  assumes "stored_form p"
  shows "live_burn_to_metadata p =
    Inr [(''version'', PInt 1), (''enabled'', PBool (lb_enabled p)), (''cost_margin_eur'', PDecStr (lb_cost_margin_eur p)),
         (''token_margin'', PInt (lb_token_margin p))]"
  using assms by (simp add: live_burn_to_metadata_def format_eur_def stored_form_def)

text \<open>Reading a mapping that has the stored figures, with or without the token margin.\<close>

lemma parse_stored_mapping:
  assumes "map_of d ''version'' = Some (PInt 1)" "map_of d ''enabled'' = Some (PBool (lb_enabled p))"
    "map_of d ''cost_margin_eur'' = Some (PDecStr (lb_cost_margin_eur p))" "stored_form p"
  shows "map_of d ''token_margin'' = Some (PInt t) \<Longrightarrow> parse_live_burn_mapping d = Inr (p\<lparr>lb_token_margin := t\<rparr>)"
    and "map_of d ''token_margin'' = None \<Longrightarrow> parse_live_burn_mapping d = Inr (p\<lparr>lb_token_margin := 0\<rparr>)"
  using assms
  by (auto simp: parse_live_burn_mapping_def dget_default_def parse_cost_margin_def stored_form_def
      default_live_burn_policy_def simp del: sbind_eq_Inr)

lemma bounds_zero_margin:
  "validate_policy_bounds p mc mt = Inr () \<Longrightarrow> validate_policy_bounds (p\<lparr>lb_token_margin := 0\<rparr>) mc mt = Inr ()"
  by (auto simp: validate_policy_bounds_def)

lemma policy_under_stored:
  assumes "dget m key = PDict d" "stored_form p" "validate_policy_bounds p mc mt = Inr ()"
    "map_of d ''version'' = Some (PInt 1)" "map_of d ''enabled'' = Some (PBool (lb_enabled p))"
    "map_of d ''cost_margin_eur'' = Some (PDecStr (lb_cost_margin_eur p))"
  shows "map_of d ''token_margin'' = Some (PInt (lb_token_margin p)) \<Longrightarrow> live_burn_policy_under key (PDict m) mc mt = Inr p"
    and "map_of d ''token_margin'' = None \<Longrightarrow> live_burn_policy_under key (PDict m) mc mt = Inr (p\<lparr>lb_token_margin := 0\<rparr>)"
  using assms parse_stored_mapping[OF assms(4,5,6,2)] bounds_zero_margin[OF assms(3)]
  by (simp_all add: live_burn_policy_under_def normalize_chat_streaming_live_burn_policy_def)

lemma metadata_with_policy_Inr:
  assumes "metadata_with_policy_under key m v mc mt = Inr d"
  obtains p pm where "normalize_chat_streaming_live_burn_policy v mc mt = Inr p" "live_burn_to_metadata p = Inr pm"
    "d = dset key (PDict pm) (sanitize_mapping True None m)"
  using assms by (auto simp: metadata_with_policy_under_def sanitize_metadata_mapping_def)

lemma policy_roundtrip:
  assumes "metadata_with_policy_under key m v mc mt = Inr d" "normalize_chat_streaming_live_burn_policy v mc mt = Inr p"
    and "stored_form p"
  shows "live_burn_policy_under key (PDict d) mc mt = Inr p"
proof -
  from assms(1) obtain pm where pm: "live_burn_to_metadata p = Inr pm"
    and d: "d = dset key (PDict pm) (sanitize_mapping True None m)"
    by (rule metadata_with_policy_Inr) (use assms(2) in auto)
  have "dget d key = PDict pm" by (simp add: d)
  then show ?thesis
    by (rule policy_under_stored(1)[OF _ assms(3) normalize_idem[OF assms(2)]])
       (use pm to_metadata_stored[OF assms(3)] in auto)
qed

section \<open>What key creation stores\<close>

lemma token_margin_not_durable: "\<not> durable_key ''token_margin''" "\<not> durable_key ''estimated_tokens_at_stop''"
  by code_simp+

lemma policy_keys_durable:
  "durable_key ''version''" "durable_key ''enabled''" "durable_key ''cost_margin_eur''"
  "durable_key ''chat_streaming_live_burn''"
  by code_simp+

lemma dget_dpop: "dget (dpop k d) k' = (if k' = k then PNone else dget d k')"
  by (simp add: dpop_def dget_def delete_conv')

lemma dget_layers [simp]:
  "k \<noteq> ''rate_limit_policy'' \<Longrightarrow> dget (metadata_with_rate_limit_window m w) k = dget m k"
  "k \<noteq> ''lazy_throttling_policy'' \<Longrightarrow> dget (metadata_with_lazy_throttling_policy m lz) k = dget m k"
  by (auto simp: metadata_with_rate_limit_window_def metadata_with_lazy_throttling_policy_def Let_def dget_dpop dget_dset
      split: option.splits)

lemma as_key_policy_error_Inr [simp]: "as_key_policy_error r = Inr x \<longleftrightarrow> r = Inr x"
  by (auto simp: as_key_policy_error_def split: sum.splits gateway_error.splits)

text \<open>Sanitizing a stored policy removes its token margin and nothing else.\<close>

lemma sanitized_policy:
  assumes "stored_form p" "live_burn_to_metadata p = Inr pm"
  shows "sanitize_mapping True None pm =
    [(''version'', PInt 1), (''enabled'', PBool (lb_enabled p)), (''cost_margin_eur'', PDecStr (lb_cost_margin_eur p))]"
  using assms to_metadata_stored[OF assms(1)] token_margin_not_durable policy_keys_durable
  by (auto simp: durable_key_def)

lemma created_chat_entry:
  assumes "created_key_metadata providers rpol p window lazy fenced cs rs = Inr d" "stored_form p"
  shows "dget d ''chat_streaming_live_burn'' =
      PDict [(''version'', PInt 1), (''enabled'', PBool (lb_enabled p)), (''cost_margin_eur'', PDecStr (lb_cost_margin_eur p))]"
    and "validate_policy_bounds p (ls_max_abs_cost_margin_eur cs) (ls_max_abs_token_margin cs) = Inr ()"
proof -
  from assms(1) obtain m1 m2 where
    m1: "metadata_with_policy_under ''chat_streaming_live_burn''
      (metadata_with_responses_policy (metadata_with_provider_policy [] providers) rpol) (PolicyObject p)
      (ls_max_abs_cost_margin_eur cs) (ls_max_abs_token_margin cs) = Inr m1"
    and m2: "metadata_with_policy_under ''responses_streaming_live_burn'' m1 (PolicyObject default_live_burn_policy)
      (ls_max_abs_cost_margin_eur rs) (ls_max_abs_token_margin rs) = Inr m2"
    and d: "d = (case fenced of None \<Rightarrow> metadata_with_lazy_throttling_policy (metadata_with_rate_limit_window m2 window) lazy
       | Some q \<Rightarrow> dset ''external_tool_policy'' (PDict (key_policy_to_metadata q))
                    (metadata_with_lazy_throttling_policy (metadata_with_rate_limit_window m2 window) lazy))"
    by (auto simp: created_key_metadata_def metadata_with_chat_streaming_live_burn_policy_def
        metadata_with_responses_streaming_live_burn_policy_def Let_def)
  from m1 obtain pm where n: "validate_policy_bounds p (ls_max_abs_cost_margin_eur cs) (ls_max_abs_token_margin cs) = Inr ()"
    and pm: "live_burn_to_metadata p = Inr pm" and e: "dget m1 ''chat_streaming_live_burn'' = PDict pm"
    by (cases rule: metadata_with_policy_Inr)
       (auto simp: normalize_chat_streaming_live_burn_policy_def dget_dset)
  show "validate_policy_bounds p (ls_max_abs_cost_margin_eur cs) (ls_max_abs_token_margin cs) = Inr ()" by (rule n)
  have "dget m2 ''chat_streaming_live_burn'' = sanitize_value True None (PDict pm)"
    using m2 by (cases rule: metadata_with_policy_Inr)
      (auto simp: dget_dset dget_sanitize_mapping policy_keys_durable e)
  then have "dget m2 ''chat_streaming_live_burn'' = PDict (sanitize_mapping True None pm)" by simp
  then show "dget d ''chat_streaming_live_burn'' =
      PDict [(''version'', PInt 1), (''enabled'', PBool (lb_enabled p)), (''cost_margin_eur'', PDecStr (lb_cost_margin_eur p))]"
    unfolding sanitized_policy[OF assms(2) pm] d by (auto simp: dget_dset split: option.splits)
qed

lemma created_policy_read_back:
  assumes "created_key_metadata providers rpol p window lazy fenced cs rs = Inr d" "stored_form p"
  shows "chat_streaming_live_burn_policy_from_metadata (PDict d) (ls_max_abs_cost_margin_eur cs) (ls_max_abs_token_margin cs) =
    Inr (p\<lparr>lb_token_margin := 0\<rparr>)"
  unfolding chat_streaming_live_burn_policy_from_metadata_def
  by (rule policy_under_stored(2)[OF created_chat_entry(1)[OF assms] assms(2) created_chat_entry(2)[OF assms]]) simp_all

section \<open>Text counted once\<close>

text \<open>Counting finished texts changes only the set of finished texts, and doing it again, any time later,
  counts nothing.\<close>

definition counted_once :: "(responses_monitor \<Rightarrow> responses_monitor \<times> string list) \<Rightarrow> responses_monitor \<Rightarrow> responses_monitor \<Rightarrow> bool" where
  "counted_once f m m1 =
     (rm_done_keys m \<subseteq> rm_done_keys m1 \<and> rm_budget m1 = rm_budget m
      \<and> rm_estimated_output_tokens m1 = rm_estimated_output_tokens m
      \<and> (\<forall>m'. rm_done_keys m1 \<subseteq> rm_done_keys m' \<longrightarrow> f m' = (m', [])))"

lemma counted_once_nothing: "counted_once (\<lambda>m. (m, [])) m m"
  by (simp add: counted_once_def)

lemma counted_once_both:
  assumes "counted_once f m a" "counted_once g a b"
  shows "counted_once (\<lambda>m. let (m1, s1) = f m; (m2, s2) = g m1 in (m2, s1 @ s2)) m b"
  unfolding counted_once_def
proof (intro conjI allI impI)
  show "rm_done_keys m \<subseteq> rm_done_keys b" "rm_budget b = rm_budget m"
    "rm_estimated_output_tokens b = rm_estimated_output_tokens m"
    using assms by (auto simp: counted_once_def)
  fix m' :: responses_monitor
  assume sub: "rm_done_keys b \<subseteq> rm_done_keys m'"
  then have "rm_done_keys a \<subseteq> rm_done_keys m'" using assms(2) unfolding counted_once_def by blast
  then have "f m' = (m', [])" "g m' = (m', [])" using assms sub unfolding counted_once_def by blast+
  then show "(let (m1, s1) = f m'; (m2, s2) = g m1 in (m2, s1 @ s2)) = (m', [])" by simp
qed

lemma count_done_text_once:
  assumes "count_done_text key v m = (m1, s)"
  shows "counted_once (count_done_text key v) m m1"
proof -
  have "key \<in> rm_done_keys m1" "rm_done_keys m \<subseteq> rm_done_keys m1" "rm_budget m1 = rm_budget m"
    "rm_estimated_output_tokens m1 = rm_estimated_output_tokens m"
    using assms by (auto simp: count_done_text_def Let_def case_prod_beta split: if_splits)
  moreover have "count_done_text key v m' = (m', [])" if "key \<in> rm_done_keys m'" for m'
    using that by (simp add: count_done_text_def)
  ultimately show ?thesis unfolding counted_once_def by blast
qed

lemma count_done_parts_once:
  "count_done_parts c i p n parts m = (m1, s) \<Longrightarrow> counted_once (count_done_parts c i p n parts) m m1"
proof (induction c i p n parts m arbitrary: m1 s rule: count_done_parts.induct)
  case (1 category item_id part_type i m)
  then show ?case by (simp add: counted_once_def)
next
  case (2 category item_id part_type i part parts m)
  show ?case
  proof (cases "is_dict part \<and> dget (as_dict part) ''type'' = PStr part_type")
    case True
    obtain a sa where a: "count_done_text (category, item_id, i) (dget (as_dict part) ''text'') m = (a, sa)" by fastforce
    obtain b sb where b: "count_done_parts category item_id part_type (i + 1) parts a = (b, sb)" by fastforce
    have m1: "m1 = b" using "2.prems" True a b by simp
    have f: "count_done_parts category item_id part_type i (part # parts) =
      (\<lambda>m. let (m1, s1) = count_done_text (category, item_id, i) (dget (as_dict part) ''text'') m;
               (m2, s2) = count_done_parts category item_id part_type (i + 1) parts m1 in (m2, s1 @ s2))"
      using True by (intro ext) simp
    show ?thesis unfolding f m1
      by (rule counted_once_both[OF count_done_text_once[OF a] "2.IH"(1)[OF True a[symmetric] refl b]])
  next
    case False
    have f: "count_done_parts category item_id part_type i (part # parts) =
      count_done_parts category item_id part_type (i + 1) parts"
      using False by (intro ext) auto
    show ?thesis unfolding f using "2.IH"(2)[OF False] "2.prems" False by auto
  qed
qed

lemma count_done_item_once:
  assumes "count_done_item item m = (m1, s)"
  shows "counted_once (count_done_item item) m m1"
proof -
  let ?id = "str_or_empty (dget item ''id'')" and ?t = "dget item ''type''"
  consider "?t = PStr ''function_call''" | "?t = PStr ''custom_tool_call''" | "?t = PStr ''message''"
    | "?t = PStr ''reasoning''"
    | "?t \<notin> {PStr ''function_call'', PStr ''custom_tool_call'', PStr ''message'', PStr ''reasoning''}" by blast
  then show ?thesis
  proof cases
    case 1
    then have f: "count_done_item item = count_done_text (''function_arguments'', ?id, 0) (dget item ''arguments'')"
      by (intro ext) (simp add: count_done_item_def)
    show ?thesis using assms unfolding f by (rule count_done_text_once)
  next
    case 2
    then have f: "count_done_item item = count_done_text (''custom_input'', ?id, 0) (dget item ''input'')"
      by (intro ext) (simp add: count_done_item_def)
    show ?thesis using assms unfolding f by (rule count_done_text_once)
  next
    case 3
    then have f: "count_done_item item = count_done_parts ''output_text'' ?id ''output_text'' 0 (items_of (dget item ''content''))"
      by (intro ext) (simp add: count_done_item_def)
    show ?thesis using assms unfolding f by (rule count_done_parts_once)
  next
    case 4
    let ?f = "count_done_parts ''reasoning_summary'' ?id ''summary_text'' 0 (items_of (dget item ''summary''))"
    let ?g = "count_done_parts ''reasoning_text'' ?id ''reasoning_text'' 0 (items_of (dget item ''content''))"
    have f: "count_done_item item = (\<lambda>m. let (m1, s1) = ?f m; (m2, s2) = ?g m1 in (m2, s1 @ s2))"
      using 4 by (intro ext) (simp add: count_done_item_def Let_def)
    obtain a sa where a: "?f m = (a, sa)" by fastforce
    obtain b sb where b: "?g a = (b, sb)" by fastforce
    have "m1 = b" using assms unfolding f by (simp add: a b)
    then show ?thesis unfolding f
      using counted_once_both[OF count_done_parts_once[OF a] count_done_parts_once[OF b]] by simp
  next
    case 5
    then have f: "count_done_item item = (\<lambda>m. (m, []))" by (intro ext) (simp add: count_done_item_def)
    show ?thesis using assms unfolding f by (auto simp: counted_once_nothing)
  qed
qed

text \<open>The events that report a finished text.\<close>

definition is_done_event :: "pyval \<Rightarrow> bool" where
  "is_done_event chunk =
     (dget (as_dict chunk) ''type'' \<in> {PStr ''response.reasoning_summary_text.done'', PStr ''response.output_item.done''})"

lemma done_event_once:
  assumes "is_done_event chunk"
  obtains f where "\<And>m. generated_text_segments chunk m = Inr (f m)" "\<And>m m1 s. f m = (m1, s) \<Longrightarrow> counted_once f m m1"
proof -
  from assms obtain c where c: "chunk = PDict c" by (cases chunk) (auto simp: is_done_event_def)
  show ?thesis
  proof (cases "dget c ''type'' = PStr ''response.reasoning_summary_text.done''")
    case True
    show ?thesis
      by (rule that[of "count_done_text (responses_stream_generated_key c ''reasoning_summary'') (dget c ''text'')"])
         (simp add: c True generated_text_segments_def delta_category_def, rule count_done_text_once)
  next
    case False
    then have t: "dget c ''type'' = PStr ''response.output_item.done''" using assms by (simp add: c is_done_event_def)
    show ?thesis
    proof (cases "is_dict (dget c ''item'')")
      case True
      show ?thesis
        by (rule that[of "count_done_item (as_dict (dget c ''item''))"])
           (simp add: c t True generated_text_segments_def delta_category_def, rule count_done_item_once)
    next
      case False
      show ?thesis
        by (rule that[of "\<lambda>m. (m, [])"])
           (simp_all add: c t False generated_text_segments_def delta_category_def counted_once_nothing)
    qed
  qed
qed

section \<open>Budgets\<close>

lemma live_burn_check_None [simp]: "live_burn_check b out = Inr None \<longleftrightarrow> \<not> cost_crossed b out \<and> \<not> token_crossed b out"
  by (auto simp: live_burn_check_def Let_def)

lemma check_Some:
  assumes "live_burn_check b out = Inr (Some e)"
  shows "cost_crossed b out \<or> token_crossed b out" "le_estimated_output_tokens e = out"
    "le_estimated_request_tokens e = estimated_request_tokens b out" "le_estimated_cost_eur e = estimated_cost_eur b out"
    "stop_metadata (estimated_request_tokens b out) (estimated_cost_eur b out) (le_stop_reason e) (bg_policy b) False = Inr (le_metadata e)"
  using assms by (auto simp: live_burn_check_def Let_def split: if_splits)

text \<open>The cutoffs leave room for the reservation just made.\<close>

lemma column_value_iff: "column_value x \<longleftrightarrow> nine_places x \<and> \<bar>x\<bar> < 10 ^ 9"
  by (simp add: column_value_def nine_places_def)

text \<open>What may be lost of a reservation to rounding: nothing when its cost has nine decimal places, otherwise less than
  a thousand-millionth of a euro, because the stored counter has nine.\<close>

definition rounding_slack :: "decimal \<Rightarrow> decimal" where
  "rounding_slack c = (if nine_places c then 0 else 1 / 10 ^ 9)"

lemma dec_sub_nonpos_margin: "margin \<le> 0 \<Longrightarrow> dround z \<le> dec_sub (dround z) margin"
  using dround_mono[of "dround z" "dround z - margin"] by (simp add: dec_sub_def dround_idem)

lemma rounded_up_to: "0 \<le> x \<Longrightarrow> dround x \<le> l \<Longrightarrow> l < 10 ^ 9 \<Longrightarrow> x \<le> 2 * 10 ^ 9 \<and> x \<le> l + 1 / 10 ^ 18"
proof -
  assume a: "0 \<le> x" "dround x \<le> l" "l < 10 ^ 9"
  have "x - dround x \<le> x / (2 * 10 ^ 27)" using dround_error[of x] a(1) unfolding abs_le_iff by simp
  then show ?thesis using a by simp
qed

lemma rounded_near: "\<bar>x\<bar> \<le> 4 * 10 ^ 9 \<Longrightarrow> \<bar>dround x - x\<bar> \<le> 2 / 10 ^ 18"
  using dround_error[of x] by simp

lemma cost_cutoff_exact:
  assumes k: "key_ok k" "gk_cost_limit_eur k = Some l" and c: "nine_places c" "0 \<le> c"
    and room: "dec_add (dec_add (gk_cost_used_eur k) (gk_cost_reserved_eur k)) c \<le> l" and margin: "margin \<le> 0"
  shows "c \<le> dec_sub (dec_sub (dec_sub l (gk_cost_used_eur k))
                     (max (dec_sub (pg9 (dec_add (gk_cost_reserved_eur k) c)) c) 0)) margin"
proof -
  let ?u = "gk_cost_used_eur k" and ?g = "gk_cost_reserved_eur k"
  have u: "nine_places ?u" "0 \<le> ?u" "column_value ?u" and g: "nine_places ?g" "0 \<le> ?g" "column_value ?g"
    using key_okD[OF k(1)] by auto
  have l: "column_value l" "l < 10 ^ 9" "nine_places l" "fits_numeric l"
    using key_ok_limit[OF k] column_value_stored[of l] by (auto simp: column_value_iff)
  have sum: "?u + (?g + c) \<le> l"
    using projected_cost_bound[OF k(1) c(2) nine_places_nineteen[OF c(1)] l(3,4) room] c(1) by (simp add: pg9_nine_places)
  have col: "column_value x" if "nine_places x" "0 \<le> x" "x \<le> l" for x
    using that l(2) by (simp add: column_value_iff)
  have lu: "column_value (l - ?u)" and gc: "column_value (?g + c)" "column_value c" and rest: "column_value (l - ?u - ?g)"
    by (rule col; use l u g c sum in \<open>auto intro!: nine_places_diff nine_places_add\<close>)+
  have "pg9 (dec_add ?g c) = ?g + c"
    using dec_add_column[OF g(3) gc(2)] pg9_nine_places[of "?g + c"] gc(1) by (simp add: column_value_iff)
  then have "dec_sub (dec_sub l ?u) (max (dec_sub (pg9 (dec_add ?g c)) c) 0) = l - ?u - ?g"
    using g(2) dec_sub_column[OF l(1) u(3)] dec_sub_column[OF gc] dec_sub_column[OF lu g(3)] by (simp add: max_def)
  moreover have "dround (l - ?u - ?g) = l - ?u - ?g" using dec_sub_column[OF rest column_value_zero] by (simp add: dec_sub_def)
  ultimately show ?thesis using dec_sub_nonpos_margin[OF margin, of "l - ?u - ?g"] sum by simp
qed

lemma cost_cutoff_near:
  assumes k: "key_ok k" "gk_cost_limit_eur k = Some l" and c: "0 \<le> c"
    and room: "dec_add (dec_add (gk_cost_used_eur k) (gk_cost_reserved_eur k)) c \<le> l" and margin: "margin \<le> 0"
  shows "c - 1 / 10 ^ 9 \<le> dec_sub (dec_sub (dec_sub l (gk_cost_used_eur k))
                     (max (dec_sub (pg9 (dec_add (gk_cost_reserved_eur k) c)) c) 0)) margin"
proof -
  let ?u = "gk_cost_used_eur k" and ?g = "gk_cost_reserved_eur k"
  define d x y m where "d = dec_add ?g c" "x = pg9 d" "y = dec_sub x c" "m = max y 0"
  note defs = this
  have u: "0 \<le> ?u" "column_value ?u" and g: "0 \<le> ?g" "column_value ?g" using key_okD[OF k(1)] by auto
  have l: "column_value l" "l < 10 ^ 9" using key_ok_limit[OF k] column_value_stored[of l] by (auto simp: column_value_iff)
  have "dround (?u + ?g + c) \<le> l" using room dec_add_column[OF u(2) g(2)] by (simp add: dec_add_def)
  then have sum: "?u + ?g + c \<le> 2 * 10 ^ 9" "?u + ?g + c \<le> l + 1 / 10 ^ 18"
    using rounded_up_to[of "?u + ?g + c" l] u(1) g(1) c l(2) by auto
  have d: "\<bar>d - (?g + c)\<bar> \<le> 2 / 10 ^ 18" unfolding defs(1) dec_add_def by (rule rounded_near) (use sum(1) u g c in simp)
  have "0 \<le> d" unfolding defs(1) using g(1) c by (rule dec_add_nonneg)
  then have x: "\<bar>x - d\<bar> \<le> 1 / (2 * 10 ^ 9)" unfolding defs(2) by (rule pg9_error)
  have y: "\<bar>y - (x - c)\<bar> \<le> 2 / 10 ^ 18" unfolding defs(3) dec_sub_def
    by (rule rounded_near) (use sum(1) u(1) g(1) c d x in \<open>unfold abs_le_iff, simp\<close>)
  have "y \<le> ?g + 1 / (2 * 10 ^ 9) + 4 / 10 ^ 18" using y x d unfolding abs_le_iff by simp
  then have m: "0 \<le> m" "m \<le> ?g + 1 / (2 * 10 ^ 9) + 4 / 10 ^ 18" using g(1) by (auto simp: defs(4))
  have "\<bar>dround (l - ?u - m) - (l - ?u - m)\<bar> \<le> 2 / 10 ^ 18"
    by (rule rounded_near) (use sum u(1) g(1) c l(2) m in \<open>unfold abs_le_iff, simp\<close>)
  then have "c - 1 / 10 ^ 9 \<le> dround (l - ?u - m)" using m sum(2) unfolding abs_le_iff by simp
  also have "\<dots> \<le> dec_sub (dround (l - ?u - m)) margin" by (rule dec_sub_nonpos_margin[OF margin])
  finally show ?thesis using dec_sub_column[OF l(1) u(2)] by (simp add: defs dec_sub_def)
qed

lemma cost_cutoff_covers:
  assumes "key_ok k" "gk_cost_limit_eur k = Some l" "0 \<le> c"
    "dec_add (dec_add (gk_cost_used_eur k) (gk_cost_reserved_eur k)) c \<le> l" "margin \<le> 0"
  shows "c - rounding_slack c \<le> dec_sub (dec_sub (dec_sub l (gk_cost_used_eur k))
                     (max (dec_sub (pg9 (dec_add (gk_cost_reserved_eur k) c)) c) 0)) margin"
  using cost_cutoff_exact[OF assms(1,2) _ assms(3-5)] cost_cutoff_near[OF assms] by (simp add: rounding_slack_def)

text \<open>The row that the gateway reads after the reservation.\<close>

lemma reserved_row:
  assumes "reserve_for_chat_completion clock rid ak route policy est req ep now db = Inr (db', res)" and "wf_quota db"
  obtains k where "key_ok k" "0 \<le> ce_estimated_total_cost_eur est"
    "get_gateway_key_by_id (ak_gateway_key_id ak) db' =
       Some (stored_key (reserved_plus k (ce_estimated_total_cost_eur est) (qrr_reserved_tokens res) 1))"
    "qrr_reserved_cost_eur res = ce_estimated_total_cost_eur est"
    "opt_all (\<lambda>l. gk_tokens_used_total k + gk_tokens_reserved_total k + qrr_reserved_tokens res \<le> l) (gk_token_limit_total k)"
    "opt_all (\<lambda>l. dec_add (dec_add (gk_cost_used_eur k) (gk_cost_reserved_eur k)) (ce_estimated_total_cost_eur est) \<le> l)
       (gk_cost_limit_eur k)"
    "gk_cost_used_eur (stored_key (reserved_plus k (ce_estimated_total_cost_eur est) (qrr_reserved_tokens res) 1)) = gk_cost_used_eur k"
    "gk_cost_limit_eur (stored_key (reserved_plus k (ce_estimated_total_cost_eur est) (qrr_reserved_tokens res) 1)) = gk_cost_limit_eur k"
  using assms(1)
proof (cases rule: reserve_elim)
  case e: (1 k0 r0 db1)
  from assms(1,2) show ?thesis
  proof (cases rule: reserve_post)
    case (1 k r)
    let ?c = "ce_estimated_total_cost_eur est"
    have t: "qrr_reserved_tokens res = reserved_tokens_for route ep policy" "qrr_reserved_cost_eur res = ?c"
      using e(2,10) by (simp_all add: reservation_result_def request_reservation_def)
    have lim: "gk_cost_used_eur (stored_key (reserved_plus k ?c (qrr_reserved_tokens res) 1)) = gk_cost_used_eur k"
      "gk_cost_limit_eur (stored_key (reserved_plus k ?c (qrr_reserved_tokens res) 1)) = gk_cost_limit_eur k"
      using key_okD[OF 1(2)] key_ok_limit[OF 1(2)]
      by (auto simp: stored_key_def reserved_plus_def pg9_nine_places intro!: option.map_ident_strong)
    show ?thesis
      by (rule that[of k]) (use 1(2,3,10,11) t lim in \<open>simp_all add: validate_limits_Inr\<close>)
  qed
qed

section \<open>Properties\<close>

text \<open>C18: A stream within its reservation is not stopped.  When a request was admitted on a well-formed database and
  the key's live-burn margins are not positive, then for the budget that the gateway builds from the key row read
  back after the reservation, the monitor lets the stream continue as long as its estimated tokens stay below the
  reserved ones and its estimated cost below the reserved cost, whatever else the key has in flight.  (A reserved
  cost with more than nine decimal places is rounded when the counter is stored; there the estimated cost has to
  stay below the reserved cost by a thousand-millionth of a euro.)\<close>

theorem reserved_stream_continues:
  assumes "reserve_for_chat_completion clock rid ak route policy est req ep now db = Inr (db', res)"
    and "wf_quota db"
    and "get_gateway_key_by_id (ak_gateway_key_id ak) db' = Some k"
    and "chat_budget_from_key ak (Some k) res est s = Inr (Some b)"
    and "lb_token_margin (bg_policy b) \<le> 0" "lb_cost_margin_eur (bg_policy b) \<le> 0"
    and "estimated_request_tokens b out < qrr_reserved_tokens res"
    and "estimated_cost_eur b out < qrr_reserved_cost_eur res - rounding_slack (qrr_reserved_cost_eur res)"
  shows "live_burn_check b out = Inr None"
  using assms(1,2)
proof (cases rule: reserved_row)
  case (1 k0)
  let ?c = "ce_estimated_total_cost_eur est"
  have k: "k = stored_key (reserved_plus k0 ?c (qrr_reserved_tokens res) 1)" using 1(3) assms(3) by simp
  have t: "gk_tokens_used_total k = gk_tokens_used_total k0" "gk_token_limit_total k = gk_token_limit_total k0"
    "gk_tokens_reserved_total k = gk_tokens_reserved_total k0 + qrr_reserved_tokens res"
    "gk_cost_reserved_eur k = pg9 (dec_add (gk_cost_reserved_eur k0) ?c)"
    unfolding k by (simp_all add: stored_key_def reserved_plus_def)
  have b: "bg_token_cutoff b = map_option (\<lambda>l. l - gk_tokens_used_total k
        - max (gk_tokens_reserved_total k - qrr_reserved_tokens res) 0 - lb_token_margin (bg_policy b)) (gk_token_limit_total k)"
    "bg_cost_cutoff_eur b = map_option (\<lambda>l. dec_sub (dec_sub (dec_sub l (gk_cost_used_eur k))
        (max (dec_sub (gk_cost_reserved_eur k) (qrr_reserved_cost_eur res)) 0)) (lb_cost_margin_eur (bg_policy b))) (gk_cost_limit_eur k)"
    using assms(4) by (auto simp: chat_budget_from_key_def build_chat_streaming_live_burn_budget_def Let_def split: if_splits)
  have nn: "0 \<le> gk_tokens_reserved_total k0" using 1(1) by (simp add: key_ok_def gateway_key_checks_def)
  have "\<not> token_crossed b out"
    using assms(5,7) 1(5) nn unfolding token_crossed_def b(1) t by (auto simp: opt_all_def split: option.splits)
  moreover have "\<not> cost_crossed b out"
  proof (cases "gk_cost_limit_eur k0")
    case None
    then show ?thesis using 1(8) by (simp add: cost_crossed_def b(2) k)
  next
    case (Some l)
    have room: "dec_add (dec_add (gk_cost_used_eur k0) (gk_cost_reserved_eur k0)) ?c \<le> l" using 1(6) Some by (simp add: opt_all_def)
    note cost_cutoff_covers[OF 1(1) Some 1(2) room assms(6)]
    then show ?thesis using assms(8) 1(4,7,8) t(4) Some unfolding cost_crossed_def b(2) by (auto simp flip: k)
  qed
  ultimately show ?thesis by simp
qed

text \<open>A live-burn policy survives storage: what is read from metadata into which a policy was written is the
  policy that normalization accepted, for the Chat and the Responses entry alike.\<close>

theorem live_burn_policy_roundtrip:
  assumes "normalize_chat_streaming_live_burn_policy (RawPolicy v) max_cost max_tokens = Inr p"
  shows "(metadata_with_chat_streaming_live_burn_policy m (RawPolicy v) max_cost max_tokens = Inr d \<longrightarrow>
      chat_streaming_live_burn_policy_from_metadata (PDict d) max_cost max_tokens = Inr p)
    \<and> (metadata_with_responses_streaming_live_burn_policy m (RawPolicy v) max_cost max_tokens = Inr d' \<longrightarrow>
      responses_streaming_live_burn_policy_from_metadata (PDict d') max_cost max_tokens = Inr p)"
  unfolding metadata_with_chat_streaming_live_burn_policy_def chat_streaming_live_burn_policy_from_metadata_def
    metadata_with_responses_streaming_live_burn_policy_def responses_streaming_live_burn_policy_from_metadata_def
  using policy_roundtrip[OF _ assms normalize_raw_stored_form[OF assms]] by blast

text \<open>Finished texts are counted once: an event that reports a finished text or item leaves the estimate of a
  Responses stream as it is when the same event was observed before, no matter what was observed in between.\<close>

theorem responses_text_counted_once:
  assumes "is_done_event chunk" and "generated_text_segments chunk m = Inr (m1, segments)"
    and "rm_done_keys m1 \<subseteq> rm_done_keys m2"
  shows "responses_observe_chunk chunk m2 = Inr (m2, live_burn_check (rm_budget m2) (rm_estimated_output_tokens m2))"
proof -
  obtain f where f: "\<And>m. generated_text_segments chunk m = Inr (f m)" "\<And>m m1 s. f m = (m1, s) \<Longrightarrow> counted_once f m m1"
    using done_event_once[OF assms(1)] by blast
  have "f m = (m1, segments)" using assms(2) f(1) by simp
  then have "f m2 = (m2, [])" using f(2) assms(3) unfolding counted_once_def by blast
  then show ?thesis by (simp add: responses_observe_chunk_def f(1))
qed

text \<open>C37: A new key does not keep the token margin of its Chat live-burn policy.  Key creation writes the Chat
  policy first and the Responses policy over the result, which passes the metadata through the sanitizer; the
  sanitizer drops the entry \<open>token_margin\<close>, whose name holds the word \<open>token\<close>.  Whatever margin the
  operator chose, the key's policy reads back with margin zero.\<close>

theorem created_key_loses_token_margin:
  assumes "created_key_metadata providers responses_policy p window lazy fenced cs rs = Inr d" and "stored_form p"
  shows "chat_streaming_live_burn_policy_from_metadata (PDict d) (ls_max_abs_cost_margin_eur cs) (ls_max_abs_token_margin cs) =
    Inr (p\<lparr>lb_token_margin := 0\<rparr>)"
  by (rule created_policy_read_back[OF assms])

section \<open>Samples\<close>

definition sample_live_burn_settings :: live_burn_settings where
  "sample_live_burn_settings = \<lparr>ls_max_abs_cost_margin_eur = 100, ls_max_abs_token_margin = 1000, ls_estimate_multiplier = 1\<rparr>"

definition sample_margins :: live_burn_policy where
  "sample_margins = default_live_burn_policy\<lparr>lb_cost_margin_eur := 1 / 4, lb_token_margin := 250\<rparr>"

lemma sample_margins_stored: "stored_form sample_margins"
  by (simp add: stored_form_def sample_margins_def default_live_burn_policy_def quantize_eur_def Let_def half_even_def)

theorem live_burn_policy_roundtrip_witness:
  "\<exists>d. metadata_with_chat_streaming_live_burn_policy [] (RawPolicy (PDict [(''token_margin'', PStr ''250'')])) 100 1000 = Inr d
     \<and> chat_streaming_live_burn_policy_from_metadata (PDict d) 100 1000 = Inr (default_live_burn_policy\<lparr>lb_token_margin := 250\<rparr>)"
proof -
  let ?v = "RawPolicy (PDict [(''token_margin'', PStr ''250'')])"
  have n: "normalize_chat_streaming_live_burn_policy ?v 100 1000 = Inr (default_live_burn_policy\<lparr>lb_token_margin := 250\<rparr>)"
    by (simp add: normalize_chat_streaming_live_burn_policy_def parse_live_burn_mapping_def dget_default_def
        parse_cost_margin_def parse_token_margin_text_def re_decimal_integer_def py_isdigit_def int_of_digits_def split_sign_def
        digits_value_def validate_policy_bounds_def default_live_burn_policy_def string_eval Let_def del: sbind_eq_Inr)
  have "\<exists>d. metadata_with_chat_streaming_live_burn_policy [] ?v 100 1000 = Inr d"
    by (simp add: metadata_with_chat_streaming_live_burn_policy_def metadata_with_policy_under_def n
        live_burn_to_metadata_def format_eur_def default_live_burn_policy_def)
  then show ?thesis using live_burn_policy_roundtrip[OF n, THEN conjunct1] by blast
qed

theorem created_key_loses_token_margin_witness:
  "\<exists>d. created_key_metadata None None sample_margins None None None sample_live_burn_settings sample_live_burn_settings = Inr d
     \<and> chat_streaming_live_burn_policy_from_metadata (PDict d) 100 1000 = Inr (sample_margins\<lparr>lb_token_margin := 0\<rparr>)
     \<and> lb_token_margin sample_margins = 250"
proof -
  have b: "validate_policy_bounds sample_margins 100 1000 = Inr ()" "validate_policy_bounds default_live_burn_policy 100 1000 = Inr ()"
    by (simp_all add: validate_policy_bounds_def sample_margins_def default_live_burn_policy_def)
  have "\<exists>d. created_key_metadata None None sample_margins None None None sample_live_burn_settings sample_live_burn_settings = Inr d"
    using to_metadata_stored[OF sample_margins_stored] to_metadata_stored[OF default_stored_form] b
    by (simp add: created_key_metadata_def metadata_with_chat_streaming_live_burn_policy_def
        metadata_with_responses_streaming_live_burn_policy_def metadata_with_policy_under_def
        normalize_chat_streaming_live_burn_policy_def sample_live_burn_settings_def as_key_policy_error_def Let_def)
  then obtain d where d: "created_key_metadata None None sample_margins None None None
      sample_live_burn_settings sample_live_burn_settings = Inr d" by blast
  show ?thesis
    using created_key_loses_token_margin[OF d sample_margins_stored] d
    by (simp add: sample_live_burn_settings_def sample_margins_def)
qed

text \<open>A Responses monitor and the event that reports a finished message.\<close>

definition sample_budget :: live_burn_budget where
  "sample_budget = \<lparr>bg_policy = default_live_burn_policy, bg_cost_cutoff_eur = Some 10, bg_token_cutoff = Some 1000,
     bg_admission_input_tokens = 30, bg_admission_input_cost_eur = 3, bg_output_price_per_1m_eur = 10000, bg_estimate_multiplier = 1\<rparr>"

definition sample_done :: pyval where
  "sample_done = PDict [(''type'', PStr ''response.output_item.done''),
     (''item'', PDict [(''type'', PStr ''message''), (''id'', PStr ''a''),
        (''content'', PList [PDict [(''type'', PStr ''output_text''), (''text'', PStr ''hello world'')]])])]"

definition sample_responses_monitor :: responses_monitor where
  "sample_responses_monitor =
     \<lparr>rm_budget = sample_budget, rm_estimated_output_tokens = 4, rm_delta_keys = {}, rm_done_keys = {(''output_text'', ''a'', 0)}\<rparr>"

theorem responses_text_counted_once_witness:
  "\<exists>m1 s. generated_text_segments sample_done (sample_responses_monitor\<lparr>rm_done_keys := {}\<rparr>) = Inr (m1, s) \<and> s = [''hello world'']
     \<and> responses_observe_chunk sample_done sample_responses_monitor =
         Inr (sample_responses_monitor, live_burn_check sample_budget 4)"
proof -
  have d: "is_done_event sample_done" by (simp add: is_done_event_def sample_done_def)
  have s: "generated_text_segments sample_done (sample_responses_monitor\<lparr>rm_done_keys := {}\<rparr>) =
      Inr (sample_responses_monitor, [''hello world''])"
    by (simp add: generated_text_segments_def delta_category_def sample_done_def count_done_item_def count_done_text_def
        sample_responses_monitor_def)
  show ?thesis
    using responses_text_counted_once[OF d s order_refl] s by (simp add: sample_responses_monitor_def)
qed

text \<open>The sample request in flight.\<close>

lemma sample_budget_eq:
  "chat_budget_from_key sample_ak (Some (reserved_plus sample_key 4 100 1)) res sample_estimate sample_live_burn_settings =
     Inr (Some (sample_budget\<lparr>bg_cost_cutoff_eur := Some (dec_sub (dec_sub 10 (max (dec_sub 4 (qrr_reserved_cost_eur res)) 0)) 0),
       bg_token_cutoff := Some (1000 - max (100 - qrr_reserved_tokens res) 0), bg_output_price_per_1m_eur := 1000000\<rparr>))"
  by (simp add: chat_budget_from_key_def chat_policy_from_key_def or_default_policy_def
      chat_streaming_live_burn_policy_from_metadata_def live_burn_policy_under_def build_chat_streaming_live_burn_budget_def
      default_live_burn_policy_def sample_budget_def sample_live_burn_settings_def input_cost_eur_def output_price_per_1m_eur_def
      live_burn_fx_rate_def sample_key_def sample_estimate_def reserved_plus_def eval_simps del: sbind_eq_Inr)

lemma sample_reserved_amounts:
  assumes "sample_reserved = Inr (sample_reserved_db, res)"
  shows "qrr_reserved_tokens res = 100" "qrr_reserved_cost_eur res = 4"
  using assms unfolding sample_reserved_def reserve_for_chat_completion_def
  by (simp_all add: eval_simps Let_def del: sbind_eq_Inr) (auto simp: eval_simps)

theorem reserved_stream_continues_witness:
  "\<exists>res b. sample_reserved = Inr (sample_reserved_db, res)
     \<and> chat_budget_from_key sample_ak (Some (reserved_plus sample_key 4 100 1)) res sample_estimate sample_live_burn_settings = Inr (Some b)
     \<and> live_burn_check b 0 = Inr None"
proof -
  obtain res where r: "sample_reserved = Inr (sample_reserved_db, res)" using sample_reserved_eq by blast
  note q = sample_reserved_amounts[OF r]
  have k: "get_gateway_key_by_id (ak_gateway_key_id sample_ak) sample_reserved_db = Some (reserved_plus sample_key 4 100 1)"
    by (simp add: get_gateway_key_by_id_def sample_reserved_db_def sample_ak_def reserved_plus_def sample_key_def)
  have n: "rounding_slack 4 = 0" by (simp add: rounding_slack_def nine_places_def)
  show ?thesis
    using reserved_stream_continues[OF r[unfolded sample_reserved_def] sample_wf k sample_budget_eq, of 0] r q n sample_budget_eq[of res]
    by (auto simp: sample_budget_def default_live_burn_policy_def estimated_request_tokens_def estimated_cost_eur_def eval_simps)
qed

section \<open>Telemetry of a stopped stream\<close>

lemma overrun_keys:
  "map fst (reservation_overrun_metadata a b c d e) =
     [''reserved_tokens'', ''actual_tokens'', ''reserved_cost_eur'', ''actual_cost_eur'', ''token_reservation_overrun'',
      ''cost_reservation_overrun'', ''reservation_overrun'', ''overrun_policy'']"
  by (simp add: reservation_overrun_metadata_def Let_def)

lemma dget_stored_metadata:
  assumes "k \<notin> set (map fst over) \<union> {''accounting_estimate_reason''}"
  shows "dget (sanitize_mapping True None
      (dmerge (dmerge (sanitize_metadata_mapping True None (Some md)) over) [(''accounting_estimate_reason'', PStr reason)])) k =
    (if durable_key k then sanitize_value True None (sanitize_value True None (dget md k)) else PNone)"
  using assms by (simp add: dget_sanitize_mapping dget_dset dget_dmerge_other sanitize_metadata_mapping_def)

lemma stop_metadata_triggered:
  "stop_metadata tokens cost reason p final = Inr m \<Longrightarrow> dget m ''streaming_live_burn_triggered'' = PBool True"
  by (auto simp: stop_metadata_def)

text \<open>The tokens at which a stream was stopped never reach the reports: the ledger row that records the stop shows
  a triggered live-burn stop, but the sanitizer has removed the entries \<open>estimated_tokens_at_stop\<close> and
  \<open>token_margin\<close>, so the usage detail has neither and the row adds nothing to the reported sum of tokens.\<close>

theorem stop_tokens_not_reported:
  assumes "live_burn_check b out = Inr (Some e)"
    and "record_streaming_live_burn_interrupted_estimate clock uid rid ak route est req inp outp tot cost (le_metadata e)
      ''chat.completions'' reason started_at finished_at db = Inr (db', res)"
  shows "\<exists>row detail. db_ledger db' = db_ledger db @ [row]
    \<and> parse_chat_live_burn_usage_detail (Some (ul_endpoint row)) (ul_streaming row) (Some (ul_response_metadata row)) = Some detail
    \<and> ud_triggered detail \<and> ud_estimated_tokens_at_stop detail = None \<and> ud_token_margin detail = None
    \<and> ag_estimated_tokens_at_stop_sum (aggregate_chat_live_burn_usage [Some detail]) = 0"
proof -
  obtain row rc rt where row: "db_ledger db' = db_ledger db @ [row]" "ul_streaming row"
    "ul_endpoint row = ''/v1/chat/completions''"
    "ul_response_metadata row = sanitize_mapping True None
       (dmerge (dmerge (sanitize_metadata_mapping True None (Some (le_metadata e)))
         (reservation_overrun_metadata cost tot rc rt ''/v1/chat/completions'')) [(''accounting_estimate_reason'', PStr reason)])"
    using interrupted_ledger[OF assms(2)[unfolded record_streaming_live_burn_interrupted_estimate_def]]
    by (auto simp: acc_normalize_endpoint_def string_eval)
  have t: "dget (le_metadata e) ''streaming_live_burn_triggered'' = PBool True"
    by (rule stop_metadata_triggered[OF check_Some(5)[OF assms(1)]])
  have d: "durable_key ''streaming_live_burn_triggered''" by code_simp
  let ?md = "ul_response_metadata row"
  have trig: "dget ?md ''streaming_live_burn_triggered'' = PBool True"
    unfolding row(4) by (subst dget_stored_metadata) (simp_all add: overrun_keys t d)
  have none: "dget ?md ''estimated_tokens_at_stop'' = PNone" "dget ?md ''token_margin'' = PNone"
    unfolding row(4) by (subst dget_stored_metadata; simp add: overrun_keys token_margin_not_durable)+
  have "map_of ?md ''streaming_live_burn_triggered'' \<noteq> None" using trig by (auto simp: dget_def split: option.splits)
  then have ex: "list_ex (\<lambda>k. map_of ?md k \<noteq> None) telemetry_keys" by (simp add: telemetry_keys_def)
  then obtain detail where p: "parse_chat_live_burn_usage_detail (Some (ul_endpoint row)) (ul_streaming row) (Some ?md) = Some detail"
    and detail: "ud_triggered detail" "ud_estimated_tokens_at_stop detail = None" "ud_token_margin detail = None"
    using row(2,3) trig none
    by (auto simp: parse_chat_live_burn_usage_detail_def optional_bool_def optional_non_negative_int_def optional_int_def)
  then show ?thesis using row(1) by (auto simp: aggregate_chat_live_burn_usage_def)
qed

end
