(* ===== verification/ChatStream.thy ===== *)
theory ChatStream
  imports LiveBurn Reconciliation "HOL-Library.Sublist"
begin

text \<open>
  One streamed chat completion after its reservation: the generator \<open>_events\<close> inside
  \<open>_streaming_chat_completion_response\<close> of \<open>services/chat_completion_gateway.py\<close> with the functions it calls,
  on top of the live-burn monitor and the accounting service.

  The provider's stream is the list of chunks it delivers and how it ends: exhausted, with a provider error, with a
  cancellation while the generator awaits the next chunk (the client is gone), or because the generator is closed
  at a \<open>yield\<close> (the consumer was cancelled while it sent the chunk; Python then raises \<open>GeneratorExit\<close>
  in the generator, which no handler names).  Being closed at a later \<open>yield\<close>, that of the final or of an error
  event, changes no state and is not distinguished.  Each accounting call
  opens its own session; the \<open>n\<close>-th call of the run finds the database as other requests have left it
  (\<open>sv_other n\<close>), takes its time and the id of a new ledger row from the world, and may be hit by a
  cancellation before or after its commit.  Inside a shielded scope no cancellation arrives.  Forwarded events
  are collected; the release of the rate-limit slot, the heartbeat task, metrics and the advisory usage profile
  are not part of the model.

  Shown: whatever the provider and the client do, a run that ends without reporting an error has settled its
  reservation, the final event is sent only after the usage was charged, and the forwarded part of the stream
  stays below the cutoffs of the live-burn budget.  A cancellation during finalization leaves the reservation
  pending.
\<close>

section \<open>The world of a run\<close>

record stream_chunk =
  sc_provider :: string
  sc_upstream_model :: string
  sc_raw_sse_event :: string
  sc_json_body :: pyval
  sc_is_done :: bool
  sc_usage :: "provider_usage option"
  sc_upstream_request_id :: "string option"
  sc_raw_cost_native :: pyval
  sc_native_currency :: "string option"

record provider_failure =
  pf_error_code :: string
  pf_upstream_status_code :: "int option"
  pf_diagnostic :: "pydict option"

datatype stream_end = Exhausted | ProviderFails provider_failure | ClientGone | GeneratorClosed

datatype call_fate = CallCompletes | CancelledBefore | CancelledAfter

record stream_env =
  sv_clock :: "nat \<Rightarrow> pydatetime"
  sv_ledger_id :: "nat \<Rightarrow> uuid"
  sv_fate :: "nat \<Rightarrow> call_fate"
  sv_other :: "nat \<Rightarrow> db \<Rightarrow> db"

text \<open>What the closure \<open>_events\<close> captures.\<close>

record stream_request =
  sq_reservation_id :: uuid
  sq_authenticated_key :: authenticated_key
  sq_route :: route_resolution
  sq_cost_estimate :: cost_estimate
  sq_request_id :: string
  sq_estimate_multiplier :: decimal
  sq_live_burn_budget :: "live_burn_budget option"

datatype sse_event = Forwarded string | FinalEvent string | ErrorEvent string

record stream_state =
  ss_db :: db
  ss_calls :: nat
  ss_events :: "sse_event list"

datatype stream_exn = SRaised gateway_error | SCancelled | SClosed

text \<open>One accounting call in a session of its own.\<close>

definition session_call ::
  "stream_env \<Rightarrow> bool \<Rightarrow> (pydatetime \<Rightarrow> uuid \<Rightarrow> db \<Rightarrow> (db \<times> 'a) result) \<Rightarrow> stream_state \<Rightarrow> stream_state \<times> (stream_exn + 'a)" where
  "session_call env shielded f st =
     (let n = ss_calls st; db0 = sv_other env n (ss_db st); st0 = st\<lparr>ss_db := db0, ss_calls := Suc n\<rparr>;
          fate = (if shielded then CallCompletes else sv_fate env n)
      in if fate = CancelledBefore then (st0, Inl SCancelled)
         else (case f (sv_clock env n) (sv_ledger_id env n) db0 of
                 Inl e \<Rightarrow> (st0, Inl (SRaised e))
               | Inr (db1, x) \<Rightarrow> (st0\<lparr>ss_db := db1\<rparr>, if fate = CancelledAfter then Inl SCancelled else Inr x)))"

definition emit :: "sse_event \<Rightarrow> stream_state \<Rightarrow> stream_state" where
  "emit e st = st\<lparr>ss_events := ss_events st @ [e]\<rparr>"

definition is_accounting_error :: "gateway_error \<Rightarrow> bool" where
  "is_accounting_error e =
     (case e of
        UsageMissingError \<Rightarrow> True
      | InvalidUsageError _ \<Rightarrow> True
      | ReservationFinalizationError \<Rightarrow> True
      | ReservationAlreadyFinalizedError \<Rightarrow> True
      | LedgerWriteError \<Rightarrow> True
      | ProviderCompletionRecordError \<Rightarrow> True
      | AccountingFinalizationRecoveryError \<Rightarrow> True
      | FinalizationRecoveryNotSupportedError \<Rightarrow> True
      | UnsupportedProviderCostError _ \<Rightarrow> True
      | _ \<Rightarrow> False)"

definition is_quota_error :: "gateway_error \<Rightarrow> bool" where
  "is_quota_error e =
     (case e of
        QuotaLimitExceededError _ \<Rightarrow> True
      | QuotaReservationNotFoundError \<Rightarrow> True
      | InvalidQuotaEstimateError _ \<Rightarrow> True
      | QuotaConcurrencyError \<Rightarrow> True
      | QuotaCounterInvariantError _ \<Rightarrow> True
      | KeyNotReservableError \<Rightarrow> True
      | ExternalToolFenceActiveError \<Rightarrow> True
      | _ \<Rightarrow> False)"

definition error_code_of :: "gateway_error \<Rightarrow> string" where
  "error_code_of e =
     (case e of
        UsageMissingError \<Rightarrow> ''usage_missing''
      | InvalidUsageError _ \<Rightarrow> ''invalid_usage''
      | ReservationFinalizationError \<Rightarrow> ''reservation_finalization_error''
      | ReservationAlreadyFinalizedError \<Rightarrow> ''reservation_already_finalized''
      | LedgerWriteError \<Rightarrow> ''ledger_write_error''
      | ProviderCompletionRecordError \<Rightarrow> ''provider_completion_record_error''
      | AccountingFinalizationRecoveryError \<Rightarrow> ''accounting_finalization_recovery_error''
      | FinalizationRecoveryNotSupportedError \<Rightarrow> ''finalization_recovery_not_supported''
      | UnsupportedProviderCostError _ \<Rightarrow> ''unsupported_provider_cost''
      | QuotaLimitExceededError _ \<Rightarrow> ''quota_limit_exceeded''
      | QuotaReservationNotFoundError \<Rightarrow> ''quota_reservation_not_found''
      | InvalidQuotaEstimateError _ \<Rightarrow> ''invalid_quota_estimate''
      | QuotaConcurrencyError \<Rightarrow> ''quota_concurrency_error''
      | QuotaCounterInvariantError _ \<Rightarrow> ''quota_counter_invariant_error''
      | KeyNotReservableError \<Rightarrow> ''key_not_reservable''
      | ExternalToolFenceActiveError \<Rightarrow> ''external_tool_fence_active''
      | _ \<Rightarrow> ''accounting_finalization_failed'')"

section \<open>The accounting calls of the gateway\<close>

definition record_live_burn_abort ::
  "stream_request \<Rightarrow> live_burn_estimate \<Rightarrow> pydatetime \<Rightarrow> uuid \<Rightarrow> db \<Rightarrow> (db \<times> finalized_accounting_result) result" where
  "record_live_burn_abort q e clock uid db =
     record_streaming_live_burn_interrupted_estimate clock uid (sq_reservation_id q) (sq_authenticated_key q) (sq_route q)
       (sq_cost_estimate q) (sq_request_id q) (ce_estimated_input_tokens (sq_cost_estimate q)) (le_estimated_output_tokens e)
       (le_estimated_request_tokens e) (le_estimated_cost_eur e) (le_metadata e) ''chat.completions''
       ''chat_streaming_live_burn_interrupted'' None None db"

definition record_provider_failure ::
  "stream_request \<Rightarrow> provider_failure \<Rightarrow> pydatetime \<Rightarrow> uuid \<Rightarrow> db \<Rightarrow> (db \<times> unit) result" where
  "record_provider_failure q pf clock uid db =
     sbind (record_provider_failure_and_release clock uid (sq_reservation_id q) (sq_authenticated_key q) (sq_route q)
              (sq_cost_estimate q) (sq_request_id q) (pf_error_code pf) ''chat.completions'' (Some (pf_error_code pf))
              (pf_upstream_status_code pf) (pf_diagnostic pf) True None None db) (\<lambda>(db', _). Inr (db', ()))"

definition record_interrupted ::
  "stream_request \<Rightarrow> provider_failure \<Rightarrow> string \<Rightarrow> chat_monitor \<Rightarrow> pydatetime \<Rightarrow> uuid \<Rightarrow> db \<Rightarrow> (db \<times> unit) result" where
  "record_interrupted q pf reason m clock uid db =
     (let out = cm_estimated_output_tokens m; tokens = estimated_request_tokens (cm_budget m) out;
          cost = estimated_cost_eur (cm_budget m) out; code = or_default (pf_error_code pf) ''stream_interrupted''
      in
     sbind (interrupted_estimate_metadata (ce_estimated_input_tokens (sq_cost_estimate q)) out tokens cost reason False) (\<lambda>md.
     sbind (record_streaming_interrupted_estimate clock uid (sq_reservation_id q) (sq_authenticated_key q) (sq_route q)
              (sq_cost_estimate q) (sq_request_id q) (ce_estimated_input_tokens (sq_cost_estimate q)) out tokens cost md
              ''chat.completions'' reason code (Some code) (pf_upstream_status_code pf) None None db) (\<lambda>(db', _).
     Inr (db', ()))))"

definition finalize_interruption ::
  "stream_request \<Rightarrow> provider_failure \<Rightarrow> string \<Rightarrow> chat_monitor \<Rightarrow> pydatetime \<Rightarrow> uuid \<Rightarrow> db \<Rightarrow> (db \<times> unit) result" where
  "finalize_interruption q pf reason m clock uid db =
     (if 0 < cm_estimated_output_tokens m then record_interrupted q pf reason m clock uid db
      else record_provider_failure q pf clock uid db)"

definition record_provider_completed ::
  "stream_request \<Rightarrow> provider_response \<Rightarrow> pydatetime \<Rightarrow> uuid \<Rightarrow> db \<Rightarrow> (db \<times> provider_completed_record) result" where
  "record_provider_completed q response clock uid db =
     record_provider_completed_before_finalization clock uid (sq_reservation_id q) (sq_authenticated_key q) (sq_route q)
       (sq_cost_estimate q) response (sq_request_id q) ''chat.completions'' True None db"

definition finalize_chat_completion ::
  "stream_request \<Rightarrow> provider_response \<Rightarrow> uuid \<Rightarrow> pydatetime \<Rightarrow> uuid \<Rightarrow> db \<Rightarrow> (db \<times> finalized_accounting_result) result" where
  "finalize_chat_completion q response completed_id clock uid db =
     finalize_successful_response clock uid (sq_reservation_id q) (sq_authenticated_key q) (sq_route q) (sq_cost_estimate q)
       response (sq_request_id q) ''chat.completions'' True None None (Some completed_id) db"

text \<open>The message of the error goes into a result that the gateway drops.\<close>

definition mark_finalization_failed ::
  "stream_request \<Rightarrow> uuid \<Rightarrow> gateway_error \<Rightarrow> pydatetime \<Rightarrow> uuid \<Rightarrow> db \<Rightarrow> (db \<times> unit) result" where
  "mark_finalization_failed q completed_id e clock uid db =
     sbind (mark_provider_completed_finalization_failed clock completed_id (sq_reservation_id q) (error_code_of e) [] None db)
       (\<lambda>(db', _). Inr (db', ()))"

section \<open>Forwarding\<close>

record forwarding =
  fw_usage_chunk :: "stream_chunk option"
  fw_upstream_request_id :: "string option"
  fw_done_event :: "string option"
  fw_completed :: bool
  fw_monitor :: chat_monitor

text \<open>Falsy request ids are not taken over.\<close>

definition note_chunk :: "stream_chunk \<Rightarrow> forwarding \<Rightarrow> forwarding" where
  "note_chunk c fw =
     fw\<lparr>fw_upstream_request_id := (case sc_upstream_request_id c of Some i \<Rightarrow> if i = [] then fw_upstream_request_id fw else Some i
                                  | None \<Rightarrow> fw_upstream_request_id fw),
        fw_usage_chunk := (if sc_usage c = None then fw_usage_chunk fw else Some c)\<rparr>"

datatype forward_end = AllForwarded | Stopped live_burn_estimate | MonitorFails gateway_error

fun forward_chunks :: "stream_chunk list \<Rightarrow> forwarding \<Rightarrow> forwarding \<times> stream_chunk list \<times> forward_end" where
  "forward_chunks [] fw = (fw, [], AllForwarded)"
| "forward_chunks (c # cs) fw =
     (let fw1 = note_chunk c fw in
      if sc_is_done c
      then forward_chunks cs (fw1\<lparr>fw_completed := True, fw_done_event := Some (sc_raw_sse_event c)\<rparr>)
      else case chat_observe_chunk (sc_json_body c) (fw_monitor fw1) of
             (m, Inl e) \<Rightarrow> (fw1\<lparr>fw_monitor := m\<rparr>, [], MonitorFails e)
           | (m, Inr (Some est)) \<Rightarrow> (fw1\<lparr>fw_monitor := m\<rparr>, [], Stopped est)
           | (m, Inr None) \<Rightarrow>
               (case forward_chunks cs (fw1\<lparr>fw_monitor := m\<rparr>) of (fw2, sent, r) \<Rightarrow> (fw2, c # sent, r)))"

definition provider_response_from_stream :: "stream_chunk \<Rightarrow> string option \<Rightarrow> provider_response" where
  "provider_response_from_stream c upstream_request_id =
     \<lparr>rs_provider = sc_provider c, rs_upstream_model = sc_upstream_model c, rs_status_code = 200,
      rs_upstream_request_id = (case upstream_request_id of Some i \<Rightarrow> Some i | None \<Rightarrow> sc_upstream_request_id c),
      rs_usage = sc_usage c, rs_raw_cost_native = sc_raw_cost_native c, rs_native_currency = sc_native_currency c\<rparr>"

section \<open>The generator\<close>

text \<open>How the body of the \<open>try\<close> leaves.\<close>

datatype body_exn = BodyRaised gateway_error | BodyCancelled | BodyClosed | BodyProvider provider_failure

definition body_exn_of :: "stream_exn \<Rightarrow> body_exn" where
  "body_exn_of x = (case x of SRaised e \<Rightarrow> BodyRaised e | SCancelled \<Rightarrow> BodyCancelled | SClosed \<Rightarrow> BodyClosed)"

definition usage_missing :: "bool \<Rightarrow> provider_failure" where
  "usage_missing completed = \<lparr>pf_error_code = ''stream_usage_missing'',
     pf_upstream_status_code = (if completed then Some 200 else None), pf_diagnostic = None\<rparr>"

definition client_disconnected :: provider_failure where
  "client_disconnected = \<lparr>pf_error_code = ''client_disconnected'', pf_upstream_status_code = None, pf_diagnostic = None\<rparr>"

text \<open>The completed stream: the provider's completion is recorded, then finalized; a failed finalization is marked
  for repair and raised again.\<close>

definition settle_completed ::
  "stream_env \<Rightarrow> stream_request \<Rightarrow> provider_response \<Rightarrow> string option \<Rightarrow> stream_state \<Rightarrow> stream_state \<times> (body_exn + unit)" where
  "settle_completed env q response done_event st =
     (case session_call env False (record_provider_completed q response) st of
        (st1, Inl x) \<Rightarrow> (st1, Inl (body_exn_of x))
      | (st1, Inr rec) \<Rightarrow>
          (case session_call env False (finalize_chat_completion q response (pcr_usage_ledger_id rec)) st1 of
             (st2, Inl (SRaised e)) \<Rightarrow>
               if is_accounting_error e \<or> is_quota_error e
               then (case session_call env False (mark_finalization_failed q (pcr_usage_ledger_id rec) e) st2 of
                       (st3, Inl x) \<Rightarrow> (st3, Inl (body_exn_of x))
                     | (st3, Inr _) \<Rightarrow> (st3, Inl (BodyRaised e)))
               else (st2, Inl (BodyRaised e))
           | (st2, Inl x) \<Rightarrow> (st2, Inl (body_exn_of x))
           | (st2, Inr _) \<Rightarrow>
               (case done_event of
                  None \<Rightarrow> (st2, Inr ())
                | Some d \<Rightarrow> (emit (FinalEvent d) st2, Inr ()))))"

definition forwarding_start :: "stream_request \<Rightarrow> forwarding" where
  "forwarding_start q =
     \<lparr>fw_usage_chunk = None, fw_upstream_request_id = None, fw_done_event = None, fw_completed = False,
      fw_monitor = build_chat_streaming_estimate_monitor (sq_cost_estimate q) (sq_estimate_multiplier q) (sq_live_burn_budget q)\<rparr>"

definition stream_body ::
  "stream_env \<Rightarrow> stream_request \<Rightarrow> stream_chunk list \<Rightarrow> stream_end \<Rightarrow> stream_state
     \<Rightarrow> chat_monitor \<times> stream_state \<times> (body_exn + unit)" where
  "stream_body env q chunks end st =
     (let (fw, sent, r) = forward_chunks chunks (forwarding_start q);
          st1 = st\<lparr>ss_events := ss_events st @ map (\<lambda>c. Forwarded (sc_raw_sse_event c)) sent\<rparr>
      in (fw_monitor fw,
          case r of
            MonitorFails e \<Rightarrow> (st1, Inl (BodyRaised e))
          | Stopped est \<Rightarrow>
              (case session_call env False (record_live_burn_abort q est) st1 of
                 (st2, Inl x) \<Rightarrow> (st2, Inl (body_exn_of x))
               | (st2, Inr _) \<Rightarrow> (emit (ErrorEvent ''streaming_live_burn_limit_exceeded'') st2, Inr ()))
          | AllForwarded \<Rightarrow>
              (case end of
                 ProviderFails pf \<Rightarrow> (st1, Inl (BodyProvider pf))
               | ClientGone \<Rightarrow> (st1, Inl BodyCancelled)
               | GeneratorClosed \<Rightarrow> (st1, Inl BodyClosed)
               | Exhausted \<Rightarrow>
                   (case fw_usage_chunk fw of
                      Some c \<Rightarrow>
                        if fw_completed fw
                        then settle_completed env q (provider_response_from_stream c (fw_upstream_request_id fw)) (fw_done_event fw) st1
                        else (case session_call env False (finalize_interruption q (usage_missing False)
                                     ''chat_streaming_usage_missing_estimated'' (fw_monitor fw)) st1 of
                                (st2, Inl x) \<Rightarrow> (st2, Inl (body_exn_of x))
                              | (st2, Inr _) \<Rightarrow> (emit (ErrorEvent ''stream_usage_missing'') st2, Inr ()))
                    | None \<Rightarrow>
                        (case session_call env False (finalize_interruption q (usage_missing (fw_completed fw))
                                ''chat_streaming_usage_missing_estimated'' (fw_monitor fw)) st1 of
                           (st2, Inl x) \<Rightarrow> (st2, Inl (body_exn_of x))
                         | (st2, Inr _) \<Rightarrow> (emit (ErrorEvent ''stream_usage_missing'') st2, Inr ()))))))"

text \<open>How the generator ends: normally, after an error event for an accounting or quota error, or with an
  exception that leaves it.\<close>

datatype stream_result = EndedNormally | ErrorReported gateway_error | Escaped stream_exn

definition stream_events ::
  "stream_env \<Rightarrow> stream_request \<Rightarrow> stream_chunk list \<Rightarrow> stream_end \<Rightarrow> stream_state \<Rightarrow> stream_state \<times> stream_result" where
  "stream_events env q chunks end st =
     (case stream_body env q chunks end st of
        (m, st1, Inr _) \<Rightarrow> (st1, EndedNormally)
      | (m, st1, Inl BodyCancelled) \<Rightarrow>
          (case session_call env True (finalize_interruption q client_disconnected
                  ''chat_streaming_client_disconnected_estimated'' m) st1 of
             (st2, Inl x) \<Rightarrow> (st2, Escaped x)
           | (st2, Inr _) \<Rightarrow> (st2, Escaped SCancelled))
      | (m, st1, Inl (BodyProvider pf)) \<Rightarrow>
          (case session_call env False (finalize_interruption q pf ''chat_streaming_provider_error_estimated'' m) st1 of
             (st2, Inl x) \<Rightarrow> (st2, Escaped x)
           | (st2, Inr _) \<Rightarrow> (emit (ErrorEvent (pf_error_code pf)) st2, EndedNormally))
      | (m, st1, Inl BodyClosed) \<Rightarrow> (st1, Escaped SClosed)
      | (m, st1, Inl (BodyRaised e)) \<Rightarrow>
          if is_accounting_error e \<or> is_quota_error e
          then (emit (ErrorEvent (error_code_of e)) st1, ErrorReported e)
          else (st1, Escaped (SRaised e)))"

section \<open>Settled reservations\<close>

definition is_settled :: "uuid \<Rightarrow> db \<Rightarrow> bool" where
  "is_settled rid db = (\<exists>r. get_reservation_by_id rid db = Some r \<and> qr_status r \<noteq> Pending)"

lemma put_closes:
  assumes "get_reservation_by_id rid db = Some r" "qr_id q = rid" "qr_status q \<noteq> Pending"
    "db_reservations db' = put_row qr_id q (db_reservations db)"
  shows "is_settled rid db'"
proof -
  have "qr_id q \<in> qr_id ` set (db_reservations db)" using get_reservation_in[OF assms(1)] assms(2) by (metis image_eqI)
  then show ?thesis using assms by (simp add: is_settled_def get_reservation_by_id_def get_put_row)
qed

lemma settles_closed:
  assumes "settles rid kid cost tokens db db'"
  shows "is_settled rid db'"
proof -
  from assms obtain r k t db1 k1 db2 r2 where r: "get_reservation_by_id rid db = Some r"
    and f: "finalize_reserved_counters k (qr_reserved_cost_eur r) (qr_reserved_tokens r) (qr_reserved_requests r)
            cost tokens 1 t db = Inr (db1, k1)"
    and m: "mark_pending_reservation_finalized r t db1 = Inr (db2, r2)" and same: "same_quota db2 db'"
    by (auto simp: settles_def)
  have rs: "db_reservations db' = put_row qr_id (stored_reservation
      (r\<lparr>qr_status := Finalized, qr_finalized_at := Some t, qr_released_at := None\<rparr>)) (db_reservations db)"
    using f m same by (auto simp: finalize_reserved_counters_def mark_pending_reservation_finalized_def flush_simps same_quota_def)
  show ?thesis
    by (rule put_closes[OF r _ _ rs]) (use get_reservation_in[OF r] in \<open>simp_all add: stored_reservation_def\<close>)
qed

lemma failure_closes:
  assumes "record_provider_failure_and_release clock uid rid ak route est req error_type endpoint error_code
      status_code diagnostic streaming started_at finished_at db = Inr (db', res)"
  shows "is_settled rid db'" "req \<notin> ul_request_id ` set (db_ledger db)"
proof -
  from assms obtain r k db2 r2 released ledger started where
    r: "get_reservation_by_id rid db = Some r"
    and rel: "(if qr_status r = Pending
            then sbind (subtract_reserved_counters k (qr_reserved_cost_eur r) (qr_reserved_tokens r)
                          (qr_reserved_requests r) db) (\<lambda>(db1, _).
                 sbind (mark_pending_reservation_released r (aware_now clock finished_at) db1) (\<lambda>(db2, r2).
                 Inr (db2, r2, True)))
            else Inr (db, r, False)) = Inr (db2, r2, released)"
    and led: "create_failure_ledger uid clock req (qr_id r2) ak route (acc_normalize_endpoint endpoint)
              est error_type error_code status_code diagnostic streaming started (aware_now clock finished_at) db2
              = Inr (db', ledger)"
    unfolding record_provider_failure_and_release_def Let_def
    by (auto simp del: sbind_eq_Inr simp: sbind_eq_Inr[of "the_or_raise _ _"] sbind_eq_Inr[of "ensure _ _"]
        sbind_eq_Inr[of "if _ then _ else _"] sbind_eq_Inr[of "create_failure_ledger _ _ _ _ _ _ _ _ _ _ _ _ _ _ _ _"])
  have q: "is_settled rid db2 \<and> db_ledger db2 = db_ledger db"
  proof (cases "qr_status r = Pending")
    case True
    then obtain db1 k1 where "subtract_reserved_counters k (qr_reserved_cost_eur r) (qr_reserved_tokens r)
        (qr_reserved_requests r) db = Inr (db1, k1)"
      and m: "mark_pending_reservation_released r (aware_now clock finished_at) db1 = Inr (db2, r2)"
      using rel by auto
    then have "db_reservations db1 = db_reservations db" "db_ledger db1 = db_ledger db"
      by (auto simp: subtract_reserved_counters_def flush_simps)
    with m have "db_reservations db2 = put_row qr_id (stored_reservation
          (r\<lparr>qr_status := Released, qr_released_at := Some (aware_now clock finished_at)\<rparr>)) (db_reservations db)"
      and "db_ledger db2 = db_ledger db"
      by (auto simp: mark_pending_reservation_released_def flush_simps)
    then show ?thesis
      using put_closes[OF r, of "stored_reservation (r\<lparr>qr_status := Released, qr_released_at := Some (aware_now clock finished_at)\<rparr>)" db2]
        get_reservation_in[OF r] by (simp add: stored_reservation_def)
  next
    case False
    then show ?thesis using rel r by (auto simp: is_settled_def)
  qed
  have "same_quota db2 db'" using failure_ledger_row[OF led] by blast
  then show "is_settled rid db'" using q by (auto simp: is_settled_def same_quota_def get_reservation_by_id_def)
  show "req \<notin> ul_request_id ` set (db_ledger db)"
    using led q by (auto simp: create_failure_ledger_def create_failure_record_def create_usage_record_Inr new_usage_record_def flush_simps)
qed

lemma interrupted_fresh:
  assumes "record_streaming_interrupted_estimate clock uid rid ak route est req inp outp tot cost metadata endpoint
      reason error_type error_message status started_at finished_at db = Inr (db', res)"
  shows "req \<notin> ul_request_id ` set (db_ledger db)"
  using assms unfolding record_streaming_interrupted_estimate_def Let_def
  by (auto simp: create_usage_record_Inr new_usage_record_def flush_simps finalize_reserved_counters_def
      mark_pending_reservation_finalized_def split: prod.splits)

lemma finalize_interruption_Inr:
  assumes "finalize_interruption q pf reason m clock uid db = Inr (db', u)"
  shows "is_settled (sq_reservation_id q) db'" "sq_request_id q \<notin> ul_request_id ` set (db_ledger db)"
  using assms
  by (auto simp: finalize_interruption_def record_interrupted_def record_provider_failure_def Let_def
      dest: failure_closes settles_closed[OF interrupted.run_settles] interrupted_fresh split: if_splits)

lemma abort_closes: "record_live_burn_abort q e clock uid db = Inr (db', res) \<Longrightarrow> is_settled (sq_reservation_id q) db'"
  unfolding record_live_burn_abort_def record_streaming_live_burn_interrupted_estimate_def
  by (rule settles_closed[OF interrupted.run_settles])

lemma finalize_closes: "finalize_chat_completion q response pc clock uid db = Inr (db', res) \<Longrightarrow> is_settled (sq_reservation_id q) db'"
  unfolding finalize_chat_completion_def by (rule settles_closed[OF fin.run_settles])

section \<open>Calls\<close>

lemma session_call_Inr:
  assumes "session_call env sh f st = (st', Inr x)"
  obtains clock uid db0 where "f clock uid db0 = Inr (ss_db st', x)" "ss_events st' = ss_events st"
  using assms by (auto simp: session_call_def Let_def split: sum.splits if_splits prod.splits)

lemma session_call_db:
  assumes "session_call env sh f st = (st', r)"
  obtains (kept) "ss_db st' = sv_other env (ss_calls st) (ss_db st)" "ss_events st' = ss_events st"
  | (changed) clock uid db0 x where "f clock uid db0 = Inr (ss_db st', x)" "ss_events st' = ss_events st"
  using assms by (auto simp: session_call_def Let_def split: sum.splits if_splits prod.splits)

lemma shielded_not_cancelled: "session_call env True f st \<noteq> (st', Inl SCancelled)"
  by (auto simp: session_call_def Let_def split: sum.splits prod.splits)

lemma emit_db [simp]: "ss_db (emit e st) = ss_db st" "ss_events (emit e st) = ss_events st @ [e]" "ss_calls (emit e st) = ss_calls st"
  by (simp_all add: emit_def)

lemma session_call_events: "session_call env sh f st = (st', r) \<Longrightarrow> ss_events st' = ss_events st"
  by (erule session_call_db) auto

section \<open>What a run emits\<close>

text \<open>The final event is sent only by a run whose last call charged the usage of a delivered chunk.\<close>

definition charged_usage :: "stream_request \<Rightarrow> stream_chunk list \<Rightarrow> db \<Rightarrow> bool" where
  "charged_usage q chunks db =
     (\<exists>c \<in> set chunks. sc_usage c \<noteq> None \<and>
        (\<exists>upstream completed_id clock uid db0 res.
           finalize_chat_completion q (provider_response_from_stream c upstream) completed_id clock uid db0 = Inr (db, res)))"

lemma forward_chunks_Cons:
  assumes "forward_chunks (d # cs) fw = (fw', sent, r)"
  obtains (done_chunk) "sc_is_done d"
      "forward_chunks cs ((note_chunk d fw)\<lparr>fw_completed := True, fw_done_event := Some (sc_raw_sse_event d)\<rparr>) = (fw', sent, r)"
  | (halted) "\<not> sc_is_done d" "sent = []" "fw_usage_chunk fw' = fw_usage_chunk (note_chunk d fw)"
  | (passed) m sent' where "\<not> sc_is_done d" "chat_observe_chunk (sc_json_body d) (fw_monitor fw) = (m, Inr None)"
      "forward_chunks cs ((note_chunk d fw)\<lparr>fw_monitor := m\<rparr>) = (fw', sent', r)" "sent = d # sent'"
proof (cases "sc_is_done d")
  case True
  then show ?thesis using assms done_chunk by (simp add: Let_def)
next
  case False
  obtain m seen where seen: "chat_observe_chunk (sc_json_body d) (fw_monitor fw) = (m, seen)" by fastforce
  have n: "fw_monitor (note_chunk d fw) = fw_monitor fw" by (simp add: note_chunk_def)
  show ?thesis
  proof (cases "seen = Inr None")
    case True
    then show ?thesis using assms False seen passed by (auto simp: Let_def n split: prod.splits)
  next
    case stop: False
    then show ?thesis using assms False seen halted by (auto simp: Let_def n split: sum.splits option.splits)
  qed
qed

lemma forward_usage:
  assumes "forward_chunks chunks fw = (fw', sent, r)" "fw_usage_chunk fw' = Some c"
  shows "fw_usage_chunk fw = Some c \<or> c \<in> set chunks \<and> sc_usage c \<noteq> None"
  using assms
proof (induction chunks arbitrary: fw sent)
  case (Cons d cs)
  from Cons.prems(1) show ?case
  proof (cases rule: forward_chunks_Cons)
    case done_chunk
    show ?thesis using Cons.IH[OF done_chunk(2) Cons.prems(2)] by (auto simp: note_chunk_def split: if_splits)
  next
    case halted
    then show ?thesis using Cons.prems(2) by (auto simp: note_chunk_def split: if_splits)
  next
    case (passed m sent')
    show ?thesis using Cons.IH[OF passed(3) Cons.prems(2)] by (auto simp: note_chunk_def split: if_splits)
  qed
qed simp

lemma session_call_not_closed [simp]: "session_call env sh f st \<noteq> (st', Inl SClosed)"
  by (auto simp: session_call_def Let_def split: sum.splits prod.splits if_splits)

lemma body_exn_of_not_provider [simp]: "body_exn_of x \<noteq> BodyProvider pf"
  by (simp add: body_exn_of_def split: stream_exn.splits)

lemma body_exn_of_session:
  "session_call env sh f st = (st', Inl x) \<Longrightarrow> body_exn_of x \<noteq> BodyProvider pf \<and> body_exn_of x \<noteq> BodyClosed"
  using session_call_not_closed by (auto simp: body_exn_of_def split: stream_exn.splits)

definition settled_run :: "stream_request \<Rightarrow> provider_response \<Rightarrow> stream_state \<Rightarrow> stream_state \<Rightarrow> body_exn + unit \<Rightarrow> bool" where
  "settled_run q response st st' r =
     (case r of
        Inr _ \<Rightarrow> (\<exists>pc clock uid db0 res. finalize_chat_completion q response pc clock uid db0 = Inr (ss_db st', res))
                 \<and> (ss_events st' = ss_events st \<or> (\<exists>d. ss_events st' = ss_events st @ [FinalEvent d]))
      | Inl x \<Rightarrow> ss_events st' = ss_events st \<and> (\<forall>pf. x \<noteq> BodyProvider pf) \<and> x \<noteq> BodyClosed)"

lemma settle_completed_cases:
  assumes "settle_completed env q response done_event st = (st', r)"
  shows "settled_run q response st st' r"
proof -
  obtain st1 r1 where c1: "session_call env False (record_provider_completed q response) st = (st1, r1)" by fastforce
  show ?thesis
  proof (cases r1)
    case (Inl x)
    have b: "body_exn_of x \<noteq> BodyProvider pf" "body_exn_of x \<noteq> BodyClosed" for pf
      using body_exn_of_session c1 Inl by blast+
    then show ?thesis
      using assms c1 Inl session_call_events[OF c1] by (auto simp: settle_completed_def settled_run_def)
  next
    case (Inr rec)
    obtain st2 r2 where c2: "session_call env False (finalize_chat_completion q response (pcr_usage_ledger_id rec)) st1 = (st2, r2)"
      by fastforce
    have e: "ss_events st2 = ss_events st" using session_call_events[OF c1] session_call_events[OF c2] by simp
    show ?thesis
    proof (cases r2)
      case (Inr res)
      obtain clock uid db0 where f: "finalize_chat_completion q response (pcr_usage_ledger_id rec) clock uid db0 = Inr (ss_db st2, res)"
        using c2 Inr by (auto elim: session_call_Inr)
      show ?thesis
        using assms c1 c2 Inr \<open>r1 = Inr rec\<close> e f
        by (auto simp: settle_completed_def settled_run_def split: option.splits) metis+
    next
      case (Inl x)
      have b: "body_exn_of x \<noteq> BodyProvider pf" "body_exn_of x \<noteq> BodyClosed" for pf
        using body_exn_of_session c2 Inl by blast+
      show ?thesis
      proof (cases x)
        case (SRaised err)
        obtain st3 r3 where c3: "session_call env False (mark_finalization_failed q (pcr_usage_ledger_id rec) err) st2 = (st3, r3)"
          by fastforce
        have b3: "r3 = Inl y \<Longrightarrow> body_exn_of y \<noteq> BodyProvider pf \<and> body_exn_of y \<noteq> BodyClosed" for y pf
          using body_exn_of_session c3 by blast
        show ?thesis
          using assms c1 c2 c3 Inl \<open>r1 = Inr rec\<close> SRaised e session_call_events[OF c3] b3
          by (auto simp: settle_completed_def settled_run_def split: sum.splits if_splits)
      qed (use assms c1 c2 Inl \<open>r1 = Inr rec\<close> e b in \<open>auto simp: settle_completed_def settled_run_def\<close>)
    qed
  qed
qed

definition terminal_events :: "sse_event list \<Rightarrow> bool" where
  "terminal_events es = list_all (\<lambda>e. case e of Forwarded _ \<Rightarrow> False | _ \<Rightarrow> True) es"

text \<open>What is known of a body that has left: after a normal end the reservation is settled, the events after the
  forwarded chunks are no chunks, and a final event comes with a charge.\<close>

definition body_post :: "stream_request \<Rightarrow> stream_chunk list \<Rightarrow> stream_state \<Rightarrow> stream_chunk list \<Rightarrow> stream_state \<Rightarrow> body_exn + unit \<Rightarrow> bool" where
  "body_post q chunks st sent st' r =
     ((r = Inr () \<longrightarrow> is_settled (sq_reservation_id q) (ss_db st'))
      \<and> (\<exists>es. ss_events st' = ss_events st @ map (\<lambda>c. Forwarded (sc_raw_sse_event c)) sent @ es \<and> terminal_events es
           \<and> (\<forall>d. FinalEvent d \<in> set es \<longrightarrow> r = Inr () \<and> charged_usage q chunks (ss_db st'))))"

lemma body_postI:
  assumes "ss_events st' = ss_events st @ map (\<lambda>c. Forwarded (sc_raw_sse_event c)) sent @ es"
    "es = [] \<or> (\<exists>c. es = [ErrorEvent c])" "r = Inr () \<Longrightarrow> is_settled (sq_reservation_id q) (ss_db st')"
  shows "body_post q chunks st sent st' r"
  using assms unfolding body_post_def by (intro conjI exI[of _ es]) (auto simp: terminal_events_def)

lemma interruption_post:
  assumes "session_call env sh (finalize_interruption q pf reason m) st1 = (st2, r)"
    "ss_events st1 = ss_events st @ map (\<lambda>c. Forwarded (sc_raw_sse_event c)) sent"
  shows "r = Inl x \<Longrightarrow> body_post q chunks st sent st2 (Inl (body_exn_of x))"
    and "r = Inr u \<Longrightarrow> body_post q chunks st sent (emit (ErrorEvent code) st2) (Inr ())"
    and "r = Inr u \<Longrightarrow> is_settled (sq_reservation_id q) (ss_db st2)"
proof -
  have e: "ss_events st2 = ss_events st @ map (\<lambda>c. Forwarded (sc_raw_sse_event c)) sent" using session_call_events[OF assms(1)] assms(2) by simp
  show "r = Inl x \<Longrightarrow> body_post q chunks st sent st2 (Inl (body_exn_of x))" by (rule body_postI[of _ _ _ "[]"]) (simp_all add: e)
  show s: "r = Inr u \<Longrightarrow> is_settled (sq_reservation_id q) (ss_db st2)"
    using assms(1) by (auto elim!: session_call_Inr dest: finalize_interruption_Inr)
  show "r = Inr u \<Longrightarrow> body_post q chunks st sent (emit (ErrorEvent code) st2) (Inr ())"
    by (rule body_postI[of _ _ _ "[ErrorEvent code]"]) (simp_all add: e s)
qed

lemma settle_post:
  assumes "settle_completed env q (provider_response_from_stream c upstream) done_event st1 = (st2, r)"
    "ss_events st1 = ss_events st @ map (\<lambda>c. Forwarded (sc_raw_sse_event c)) sent" "c \<in> set chunks" "sc_usage c \<noteq> None"
  shows "body_post q chunks st sent st2 r"
proof (cases r)
  case (Inl x)
  then show ?thesis using settle_completed_cases[OF assms(1)] assms(2)
    by (intro body_postI[of _ _ _ "[]"]) (auto simp: settled_run_def)
next
  case (Inr u)
  have p: "\<exists>pc clock uid db0 res. finalize_chat_completion q (provider_response_from_stream c upstream) pc clock uid db0 = Inr (ss_db st2, res)"
    and ev: "ss_events st2 = ss_events st1 \<or> (\<exists>d. ss_events st2 = ss_events st1 @ [FinalEvent d])"
    using settle_completed_cases[OF assms(1)] Inr by (auto simp: settled_run_def)
  have ch: "charged_usage q chunks (ss_db st2)" unfolding charged_usage_def using p assms(3,4) by blast
  have st: "is_settled (sq_reservation_id q) (ss_db st2)" using p by (auto dest: finalize_closes)
  obtain es where es: "ss_events st2 = ss_events st1 @ es" "terminal_events es" using ev by (auto simp: terminal_events_def)
  show ?thesis unfolding body_post_def using es ch st Inr assms(2)
    by (intro conjI exI[of _ es]) auto
qed

lemma stream_body_post:
  assumes "stream_body env q chunks end st = (m, st', r)" "forward_chunks chunks (forwarding_start q) = (fw, sent, how)"
  shows "body_post q chunks st sent st' r"
proof -
  let ?st1 = "st\<lparr>ss_events := ss_events st @ map (\<lambda>c. Forwarded (sc_raw_sse_event c)) sent\<rparr>"
  have ev: "ss_events ?st1 = ss_events st @ map (\<lambda>c. Forwarded (sc_raw_sse_event c)) sent" by simp
  have u: "fw_usage_chunk fw = Some c \<Longrightarrow> c \<in> set chunks \<and> sc_usage c \<noteq> None" for c
    using forward_usage[OF assms(2)] by (auto simp: forwarding_start_def)
  show ?thesis
  proof (cases how)
    case (Stopped est)
    obtain st2 r2 where c: "session_call env False (record_live_burn_abort q est) ?st1 = (st2, r2)" by fastforce
    have e2: "ss_events st2 = ss_events st @ map (\<lambda>c. Forwarded (sc_raw_sse_event c)) sent" using session_call_events[OF c] by simp
    show ?thesis
    proof (cases r2)
      case (Inl x)
      then show ?thesis using assms c Stopped e2 by (intro body_postI[of _ _ _ "[]"]) (auto simp: stream_body_def)
    next
      case (Inr res)
      then have "is_settled (sq_reservation_id q) (ss_db st2)" using c by (auto elim!: session_call_Inr dest: abort_closes)
      then show ?thesis using assms c Stopped Inr e2
        by (intro body_postI[of _ _ _ "[ErrorEvent ''streaming_live_burn_limit_exceeded'']"]) (auto simp: stream_body_def)
    qed
  next
    case (MonitorFails err)
    then show ?thesis using assms by (intro body_postI[of _ _ _ "[]"]) (auto simp: stream_body_def)
  next
    case AllForwarded
    note run = assms AllForwarded
    show ?thesis
    proof (cases "end = Exhausted")
      case False
      then have "ss_events st' = ss_events ?st1 \<and> r \<noteq> Inr ()" using run by (cases "end") (auto simp: stream_body_def Let_def)
      then show ?thesis by (intro body_postI[of _ _ _ "[]"]) auto
    next
      case True
      show ?thesis
      proof (cases "\<exists>c. fw_usage_chunk fw = Some c \<and> fw_completed fw")
        case True
        then obtain c where c: "fw_usage_chunk fw = Some c" "fw_completed fw" by blast
        then have "settle_completed env q (provider_response_from_stream c (fw_upstream_request_id fw)) (fw_done_event fw) ?st1 = (st', r)"
          using run \<open>end = Exhausted\<close> by (simp add: stream_body_def)
        then show ?thesis using u[OF c(1)] settle_post[OF _ ev] by blast
      next
        case False
        obtain st2 r2 where s: "session_call env False (finalize_interruption q (usage_missing (fw_completed fw))
            ''chat_streaming_usage_missing_estimated'' (fw_monitor fw)) ?st1 = (st2, r2)" by fastforce
        have "(st', r) = (case r2 of Inl x \<Rightarrow> (st2, Inl (body_exn_of x)) | Inr _ \<Rightarrow> (emit (ErrorEvent ''stream_usage_missing'') st2, Inr ()))"
          using run \<open>end = Exhausted\<close> s False by (auto simp: stream_body_def Let_def split: option.splits sum.splits)
        then show ?thesis using interruption_post[OF s ev] by (auto split: sum.splits)
      qed
    qed
  qed
qed

section \<open>What is forwarded\<close>

text \<open>The estimated tokens of a chunk.\<close>

definition chunk_tokens :: "live_burn_budget \<Rightarrow> stream_chunk \<Rightarrow> int" where
  "chunk_tokens b c =
     estimate_chat_streaming_output_delta_tokens (generated_chat_streaming_delta_text (sc_json_body c)) (bg_estimate_multiplier b)"

definition tokens_of :: "live_burn_budget \<Rightarrow> stream_chunk list \<Rightarrow> int" where
  "tokens_of b cs = sum_list (map (chunk_tokens b) cs)"

lemma tokens_of_simps [simp]: "tokens_of b [] = 0" "tokens_of b (c # cs) = chunk_tokens b c + tokens_of b cs"
  by (simp_all add: tokens_of_def)

lemma observe_counts:
  assumes "chat_observe_chunk (sc_json_body c) m = (m', r)"
  shows "cm_budget m' = cm_budget m"
    "cm_estimated_output_tokens m' = cm_estimated_output_tokens m + chunk_tokens (cm_budget m) c"
    "r = live_burn_check (cm_budget m) (cm_estimated_output_tokens m')"
  using assms by (auto simp: chat_observe_chunk_def chunk_tokens_def estimate_chat_streaming_output_delta_tokens_def Let_def split: if_splits)

lemma forwarded_below:
  assumes "forward_chunks chunks fw = (fw', sent, r)" "sent \<noteq> []" "b = cm_budget (fw_monitor fw)"
  shows "live_burn_check b (cm_estimated_output_tokens (fw_monitor fw) + tokens_of b sent) = Inr None"
  using assms
proof (induction chunks arbitrary: fw sent)
  case (Cons d cs)
  from Cons.prems(1) show ?case
  proof (cases rule: forward_chunks_Cons)
    case done_chunk
    show ?thesis using Cons.IH[OF done_chunk(2)] Cons.prems(2,3) by (simp add: note_chunk_def)
  next
    case (passed m sent')
    note obs = observe_counts[OF passed(2)]
    show ?thesis
    proof (cases "sent' = []")
      case True
      then show ?thesis using passed(4) obs Cons.prems(3) by simp
    next
      case False
      then show ?thesis using Cons.IH[OF passed(3) False] obs(1,2) passed(4) Cons.prems(3) by (simp add: add.assoc)
    qed
  qed (use Cons.prems in simp)
qed simp

lemma sent_from_chunks:
  assumes "forward_chunks chunks fw = (fw', sent, r)"
  shows "prefix sent (filter (\<lambda>c. \<not> sc_is_done c) chunks)"
  using assms
proof (induction chunks arbitrary: fw sent)
  case (Cons d cs)
  from Cons.prems show ?case
    by (cases rule: forward_chunks_Cons) (auto dest: Cons.IH)
qed simp

lemma completed_keeps:
  assumes "record_provider_completed q response clock uid db = Inr (db', rec)"
  shows "\<exists>r. get_reservation_by_id (sq_reservation_id q) db' = Some r \<and> qr_status r = Pending"
    "sq_request_id q \<in> ul_request_id ` set (db_ledger db')"
proof -
  note run = assms[unfolded record_provider_completed_def]
  have "\<exists>r. get_reservation_by_id (sq_reservation_id q) db = Some r \<and> qr_status r = Pending"
    using run by (auto simp: record_provider_completed_before_finalization_def)
  then show "\<exists>r. get_reservation_by_id (sq_reservation_id q) db' = Some r \<and> qr_status r = Pending"
    using record_completed_same[OF run] by (simp add: same_quota_def get_reservation_by_id_def)
  show "sq_request_id q \<in> ul_request_id ` set (db_ledger db')"
  proof (cases "get_usage_record_by_request_id (sq_request_id q) db")
    case None
    from record_completed_row[OF run this] obtain row where
      "db_ledger db' = db_ledger db @ [row]" "ul_request_id row = sq_request_id q" by blast
    then show ?thesis by simp
  next
    case (Some l)
    then have "db' = db" using run
      by (auto simp: record_provider_completed_before_finalization_def Let_def split: prod.splits)
    moreover have "l \<in> set (db_ledger db)" "ul_request_id l = sq_request_id q"
      using Some by (auto simp: get_usage_record_by_request_id_def find_Some_iff)
    ultimately show ?thesis by (metis image_eqI)
  qed
qed

section \<open>Properties\<close>

lemma stream_events_cases:
  assumes "stream_events env q chunks end st = (st', res)"
    and "stream_body env q chunks end st = (m, st1, r)" "forward_chunks chunks (forwarding_start q) = (fw, sent, how)"
  shows "(res = EndedNormally \<longrightarrow> is_settled (sq_reservation_id q) (ss_db st'))
    \<and> (res = Escaped SCancelled \<longrightarrow> is_settled (sq_reservation_id q) (ss_db st') \<or> (\<exists>pf. r = Inl (BodyProvider pf)))
    \<and> (r = Inr () \<longrightarrow> st' = st1)
    \<and> (\<exists>es. ss_events st' = ss_events st1 @ es \<and> terminal_events es \<and> (\<forall>d. FinalEvent d \<notin> set es))"
proof (cases r)
  case (Inr u)
  then show ?thesis using assms(1,2) stream_body_post[OF assms(2,3)]
    by (auto simp: stream_events_def body_post_def terminal_events_def)
next
  case (Inl x)
  show ?thesis
  proof (cases x)
    case (BodyProvider pf)
    obtain st2 r2 where c: "session_call env False (finalize_interruption q pf ''chat_streaming_provider_error_estimated'' m) st1 = (st2, r2)"
      by fastforce
    then show ?thesis using assms(1,2) Inl BodyProvider session_call_events[OF c]
      by (cases r2) (auto simp: stream_events_def terminal_events_def elim!: session_call_Inr dest: finalize_interruption_Inr)
  next
    case BodyCancelled
    obtain st2 r2 where c: "session_call env True (finalize_interruption q client_disconnected
          ''chat_streaming_client_disconnected_estimated'' m) st1 = (st2, r2)"
      by fastforce
    then show ?thesis using assms(1,2) Inl BodyCancelled session_call_events[OF c] shielded_not_cancelled
      by (cases r2) (auto simp: stream_events_def terminal_events_def elim!: session_call_Inr dest: finalize_interruption_Inr)
  qed (use assms(1,2) Inl in \<open>auto simp: stream_events_def terminal_events_def split: if_splits\<close>)
qed

lemma provider_end:
  assumes "stream_body env q chunks end st = (m, st1, Inl (BodyProvider pf))"
    and f: "forward_chunks chunks (forwarding_start q) = (fw, sent, how)"
  shows "end = ProviderFails pf"
proof -
  let ?st1 = "st\<lparr>ss_events := ss_events st @ map (\<lambda>c. Forwarded (sc_raw_sse_event c)) sent\<rparr>"
  have s: "settle_completed env q response d ?st1 \<noteq> (st1, Inl (BodyProvider pf))" for response d
    using settle_completed_cases by (fastforce simp: settled_run_def)
  show ?thesis using assms s
    by (cases "end"; cases how)
      (auto simp: stream_body_def Let_def split: prod.splits sum.splits option.splits if_splits)
qed

text \<open>C11: A streamed completion settles its reservation.  Whatever the provider sends and however other requests
  interleave, when the generator ends normally its reservation is no longer pending; when it ends by cancellation
  the reservation is settled too, unless the provider had failed and the cancellation hit the handler of that
  failure; and the provider's final event reaches the client only after the usage of a delivered chunk was
  charged.\<close>

theorem stream_settles:
  assumes "stream_events env q chunks end st = (st', res)"
  shows "(res = EndedNormally \<longrightarrow> is_settled (sq_reservation_id q) (ss_db st'))
    \<and> (res = Escaped SCancelled \<longrightarrow> is_settled (sq_reservation_id q) (ss_db st') \<or> (\<exists>pf. end = ProviderFails pf))
    \<and> (\<exists>es. ss_events st' = ss_events st @ es \<and> (\<forall>d. FinalEvent d \<in> set es \<longrightarrow> charged_usage q chunks (ss_db st')))"
proof -
  obtain m st1 r where b: "stream_body env q chunks end st = (m, st1, r)" using prod_cases3 by blast
  obtain fw sent how where f: "forward_chunks chunks (forwarding_start q) = (fw, sent, how)" using prod_cases3 by blast
  note c = stream_events_cases[OF assms b f]
  from stream_body_post[OF b f] obtain es1 where
    e1: "ss_events st1 = ss_events st @ map (\<lambda>c. Forwarded (sc_raw_sse_event c)) sent @ es1"
    and f1: "\<forall>d. FinalEvent d \<in> set es1 \<longrightarrow> r = Inr () \<and> charged_usage q chunks (ss_db st1)" by (auto simp: body_post_def)
  from c obtain es2 where e2: "ss_events st' = ss_events st1 @ es2" "\<forall>d. FinalEvent d \<notin> set es2" by blast
  have "\<exists>es. ss_events st' = ss_events st @ es \<and> (\<forall>d. FinalEvent d \<in> set es \<longrightarrow> charged_usage q chunks (ss_db st'))"
    using e1 e2 f1 c by (intro exI[of _ "map (\<lambda>c. Forwarded (sc_raw_sse_event c)) sent @ es1 @ es2"]) auto
  then show ?thesis using c provider_end[of env q chunks "end" st m st1] b f by blast
qed

text \<open>C19: What a stream forwards stays below the key's limits.  With the budget that the gateway builds from the key
  row, the forwarded chunks are a prefix of the provider's chunks, and once one was forwarded the key's used tokens,
  the tokens other requests have reserved, the estimated input and the estimated tokens of everything forwarded
  stay below the token limit less the margin; the estimated cost stays below the cost cutoff.\<close>

theorem forwarded_below_limits:
  assumes "chat_budget_from_key ak (Some k) r est s = Inr (Some b)" and "sq_live_burn_budget q = Some b"
    and "stream_events env q chunks end st = (st', res)"
  shows "\<exists>sent es. ss_events st' = ss_events st @ map (\<lambda>c. Forwarded (sc_raw_sse_event c)) sent @ es \<and> terminal_events es
    \<and> prefix sent (filter (\<lambda>c. \<not> sc_is_done c) chunks)
    \<and> (sent \<noteq> [] \<longrightarrow>
         opt_all (\<lambda>l. gk_tokens_used_total k + max (gk_tokens_reserved_total k - qrr_reserved_tokens r) 0
           + ce_estimated_input_tokens est + tokens_of b sent < l - lb_token_margin (bg_policy b)) (gk_token_limit_total k)
         \<and> opt_all (\<lambda>cut. estimated_cost_eur b (tokens_of b sent) < cut) (bg_cost_cutoff_eur b))"
proof -
  obtain m st1 x where bd: "stream_body env q chunks end st = (m, st1, x)" using prod_cases3 by blast
  obtain fw sent how where f: "forward_chunks chunks (forwarding_start q) = (fw, sent, how)" using prod_cases3 by blast
  from stream_body_post[OF bd f] stream_events_cases[OF assms(3) bd f] obtain es where
    e: "ss_events st' = ss_events st @ map (\<lambda>c. Forwarded (sc_raw_sse_event c)) sent @ es" "terminal_events es"
    by (auto simp: body_post_def terminal_events_def)
  have bound: "opt_all (\<lambda>l. gk_tokens_used_total k + max (gk_tokens_reserved_total k - qrr_reserved_tokens r) 0
           + ce_estimated_input_tokens est + tokens_of b sent < l - lb_token_margin (bg_policy b)) (gk_token_limit_total k)
         \<and> opt_all (\<lambda>cut. estimated_cost_eur b (tokens_of b sent) < cut) (bg_cost_cutoff_eur b)" if "sent \<noteq> []"
  proof -
    have mon: "fw_monitor (forwarding_start q) = \<lparr>cm_budget = b, cm_estimated_output_tokens = 0\<rparr>"
      by (simp add: forwarding_start_def build_chat_streaming_estimate_monitor_def assms(2))
    have "live_burn_check b (tokens_of b sent) = Inr None" using forwarded_below[OF f that, of b] by (simp add: mon)
    then have n: "\<not> cost_crossed b (tokens_of b sent)" "\<not> token_crossed b (tokens_of b sent)"
      by (auto simp: live_burn_check_def Let_def split: if_splits)
    have b: "bg_token_cutoff b = map_option (\<lambda>l. l - gk_tokens_used_total k
        - max (gk_tokens_reserved_total k - qrr_reserved_tokens r) 0 - lb_token_margin (bg_policy b)) (gk_token_limit_total k)"
      "bg_admission_input_tokens b = ce_estimated_input_tokens est"
      using assms(1) by (auto simp: chat_budget_from_key_def build_chat_streaming_live_burn_budget_def Let_def split: if_splits)
    show ?thesis using n b
      by (auto simp: opt_all_def cost_crossed_def token_crossed_def estimated_request_tokens_def split: option.splits)
  qed
  show ?thesis by (intro exI[of _ sent] exI[of _ es]) (use e sent_from_chunks[OF f] bound in blast)
qed

text \<open>C38: A client that disconnects during finalization leaves the request unsettled.  When a complete stream was
  recorded and the cancellation arrives before the finalization commits, the shielded handler tries to write a
  second ledger row for the same request, which the unique request id refuses: the error leaves the generator, the
  reservation is still pending and nothing has been charged or marked for repair since the record was written.\<close>

theorem disconnect_during_finalization:
  assumes "forward_chunks chunks (forwarding_start q) = (fw, sent, AllForwarded)" "fw_completed fw" "fw_usage_chunk fw = Some c"
    and "session_call env False (record_provider_completed q (provider_response_from_stream c (fw_upstream_request_id fw)))
           (st\<lparr>ss_events := ss_events st @ map (\<lambda>c. Forwarded (sc_raw_sse_event c)) sent\<rparr>) = (st1, Inr rec)"
    and "sv_fate env (ss_calls st1) = CancelledBefore" and "\<forall>n. ss_calls st1 \<le> n \<longrightarrow> sv_other env n = (\<lambda>db. db)"
  shows "\<exists>st' err r. stream_events env q chunks Exhausted st = (st', Escaped (SRaised err)) \<and> ss_db st' = ss_db st1
    \<and> get_reservation_by_id (sq_reservation_id q) (ss_db st') = Some r \<and> qr_status r = Pending"
proof -
  from assms(4) obtain clock uid db0 where
    c: "record_provider_completed q (provider_response_from_stream c (fw_upstream_request_id fw)) clock uid db0 = Inr (ss_db st1, rec)"
    by (rule session_call_Inr)
  obtain r where r: "get_reservation_by_id (sq_reservation_id q) (ss_db st1) = Some r" "qr_status r = Pending"
    and l: "sq_request_id q \<in> ul_request_id ` set (db_ledger (ss_db st1))"
    using completed_keeps[OF c] by blast
  let ?stop = "finalize_interruption q client_disconnected ''chat_streaming_client_disconnected_estimated'' (fw_monitor fw)"
  let ?st2 = "st1\<lparr>ss_calls := Suc (ss_calls st1)\<rparr>"
  have c2: "session_call env False (finalize_chat_completion q response pc) st1 = (?st2, Inl SCancelled)" for response pc
    using assms(5,6) by (simp add: session_call_def Let_def)
  have body: "stream_body env q chunks Exhausted st = (fw_monitor fw, ?st2, Inl BodyCancelled)"
    using assms(1-4) by (simp add: stream_body_def settle_completed_def c2 body_exn_of_def Let_def)
  obtain err where err: "?stop (sv_clock env (Suc (ss_calls st1))) (sv_ledger_id env (Suc (ss_calls st1))) (ss_db st1) = Inl err"
    using finalize_interruption_Inr(2) l by (metis old.prod.exhaust sumE)
  have "session_call env True ?stop ?st2 = (?st2\<lparr>ss_calls := Suc (Suc (ss_calls st1))\<rparr>, Inl (SRaised err))"
    using assms(6) err by (simp add: session_call_def Let_def)
  then show ?thesis using r by (simp add: stream_events_def body)
qed

section \<open>Samples\<close>

definition sample_chunk :: stream_chunk where
  "sample_chunk =
     \<lparr>sc_provider = ''openai'', sc_upstream_model = ''m'', sc_raw_sse_event = ''data: 1'',
      sc_json_body = PDict [(''choices'', PList [PDict [(''delta'', PDict [(''content'', PStr ''hello'')])]])],
      sc_is_done = False, sc_usage = None, sc_upstream_request_id = None, sc_raw_cost_native = PNone, sc_native_currency = None\<rparr>"

definition sample_usage_chunk :: stream_chunk where
  "sample_usage_chunk = sample_chunk\<lparr>sc_raw_sse_event := ''data: 2'', sc_json_body := PDict [], sc_usage := Some sample_usage\<rparr>"

definition sample_done_chunk :: stream_chunk where
  "sample_done_chunk = sample_chunk\<lparr>sc_raw_sse_event := ''data: [DONE]'', sc_json_body := PNone, sc_is_done := True\<rparr>"

definition sample_chunks :: "stream_chunk list" where
  "sample_chunks = [sample_chunk, sample_usage_chunk, sample_done_chunk]"

definition sample_stream_request :: stream_request where
  "sample_stream_request =
     \<lparr>sq_reservation_id = 7, sq_authenticated_key = sample_ak, sq_route = sample_route, sq_cost_estimate = sample_estimate,
      sq_request_id = ''req1'', sq_estimate_multiplier = 1,
      sq_live_burn_budget = Some (sample_budget\<lparr>bg_output_price_per_1m_eur := 1000000\<rparr>)\<rparr>"

definition sample_env :: "(nat \<Rightarrow> call_fate) \<Rightarrow> stream_env" where
  "sample_env fate = \<lparr>sv_clock = (\<lambda>n. Aware (2000 + int n)), sv_ledger_id = (\<lambda>n. 8 + n), sv_fate = fate, sv_other = (\<lambda>n db. db)\<rparr>"

definition sample_stream_state :: stream_state where
  "sample_stream_state = \<lparr>ss_db = sample_reserved_db, ss_calls = 0, ss_events = []\<rparr>"

lemma sample_raw_events: "sc_raw_sse_event sample_chunk = ''data: 1''" "sc_raw_sse_event sample_usage_chunk = ''data: 2''"
  by (simp_all add: sample_chunk_def sample_usage_chunk_def)

lemma sample_response_from_stream: "provider_response_from_stream sample_usage_chunk None = sample_response"
  by (simp add: provider_response_from_stream_def sample_usage_chunk_def sample_chunk_def sample_response_def)

definition sample_forwarding :: forwarding where
  "sample_forwarding =
     \<lparr>fw_usage_chunk = Some sample_usage_chunk, fw_upstream_request_id = None, fw_done_event = Some ''data: [DONE]'', fw_completed = True,
      fw_monitor = \<lparr>cm_budget = sample_budget\<lparr>bg_output_price_per_1m_eur := 1000000\<rparr>, cm_estimated_output_tokens = 2\<rparr>\<rparr>"

lemma sample_forward:
  "forward_chunks sample_chunks (forwarding_start sample_stream_request) = (sample_forwarding, [sample_chunk, sample_usage_chunk], AllForwarded)"
  by (simp add: sample_chunks_def forwarding_start_def sample_stream_request_def note_chunk_def sample_chunk_def
      sample_usage_chunk_def sample_done_chunk_def sample_forwarding_def build_chat_streaming_estimate_monitor_def
      chat_observe_chunk_def generated_chat_streaming_delta_text_def choice_text_def estimate_chat_streaming_output_delta_tokens_def
      estimate_text_tokens_def utf8_length_def live_burn_check_def cost_crossed_def token_crossed_def estimated_cost_eur_def
      estimated_request_tokens_def sample_budget_def eval_simps Let_def)

lemma sample_stream_calls:
  "\<exists>db1 pcr db2 res.
     record_provider_completed sample_stream_request sample_response (Aware 2000) 8 sample_reserved_db = Inr (db1, pcr)
     \<and> finalize_chat_completion sample_stream_request sample_response (pcr_usage_ledger_id pcr) (Aware 2001) 9 db1 = Inr (db2, res)"
  unfolding record_provider_completed_def finalize_chat_completion_def sample_stream_request_def stream_request.simps
    finalize_successful_response_def record_provider_completed_before_finalization_def
    sample_usage_and_cost sbind_Inr prod.case sample_reserved_db_def
  by (simp add: eval_simps Let_def sample_actual_def sample_cost_def del: sbind_eq_Inr)

theorem stream_settles_witness:
  "\<exists>st'. stream_events (sample_env (\<lambda>_. CallCompletes)) sample_stream_request sample_chunks Exhausted sample_stream_state = (st', EndedNormally)
     \<and> ss_events st' = [Forwarded ''data: 1'', Forwarded ''data: 2'', FinalEvent ''data: [DONE]'']
     \<and> is_settled 7 (ss_db st') \<and> charged_usage sample_stream_request sample_chunks (ss_db st')"
proof -
  obtain db1 pcr db2 res where
    c: "record_provider_completed sample_stream_request sample_response (Aware 2000) 8 sample_reserved_db = Inr (db1, pcr)"
      "finalize_chat_completion sample_stream_request sample_response (pcr_usage_ledger_id pcr) (Aware 2001) 9 db1 = Inr (db2, res)"
    using sample_stream_calls by blast
  have run: "stream_events (sample_env (\<lambda>_. CallCompletes)) sample_stream_request sample_chunks Exhausted sample_stream_state =
      (\<lparr>ss_db = db2, ss_calls = 2, ss_events = [Forwarded ''data: 1'', Forwarded ''data: 2'', FinalEvent ''data: [DONE]'']\<rparr>, EndedNormally)"
    using c by (simp add: stream_events_def stream_body_def sample_forward sample_forwarding_def sample_response_from_stream
        settle_completed_def session_call_def sample_env_def sample_stream_state_def emit_def Let_def numeral_2_eq_2
        sample_raw_events)
  show ?thesis using stream_settles[OF run] run by (simp add: sample_stream_request_def sample_stream_state_def)
qed

theorem disconnect_during_finalization_witness:
  "\<exists>st' err r. stream_events (sample_env (\<lambda>n. if n = 1 then CancelledBefore else CallCompletes)) sample_stream_request sample_chunks
       Exhausted sample_stream_state = (st', Escaped (SRaised err))
     \<and> get_reservation_by_id 7 (ss_db st') = Some r \<and> qr_status r = Pending"
proof -
  let ?env = "sample_env (\<lambda>n. if n = 1 then CancelledBefore else CallCompletes)"
  obtain db1 pcr where
    c: "record_provider_completed sample_stream_request sample_response (Aware 2000) 8 sample_reserved_db = Inr (db1, pcr)"
    using sample_stream_calls by blast
  let ?st1 = "\<lparr>ss_db = db1, ss_calls = 1, ss_events = [Forwarded ''data: 1'', Forwarded ''data: 2'']\<rparr>"
  have s: "session_call ?env False (record_provider_completed sample_stream_request
      (provider_response_from_stream sample_usage_chunk (fw_upstream_request_id sample_forwarding)))
      (sample_stream_state\<lparr>ss_events := ss_events sample_stream_state @ map (\<lambda>c. Forwarded (sc_raw_sse_event c)) [sample_chunk, sample_usage_chunk]\<rparr>)
      = (?st1, Inr pcr)"
    using c by (simp add: session_call_def sample_env_def sample_stream_state_def sample_forwarding_def sample_response_from_stream
        sample_raw_events Let_def)
  show ?thesis
    using disconnect_during_finalization[OF sample_forward _ _ s]
    by (auto simp: sample_forwarding_def sample_env_def sample_stream_request_def)
qed

theorem forwarded_below_limits_witness:
  "\<exists>res b st' r sent es.
     chat_budget_from_key sample_ak (Some (reserved_plus sample_key 4 100 1)) res sample_estimate sample_live_burn_settings = Inr (Some b)
     \<and> stream_events (sample_env (\<lambda>_. CallCompletes)) sample_stream_request sample_chunks Exhausted sample_stream_state = (st', r)
     \<and> ss_events st' = map (\<lambda>c. Forwarded (sc_raw_sse_event c)) sent @ es \<and> terminal_events es
     \<and> prefix sent [sample_chunk, sample_usage_chunk]
     \<and> (sent \<noteq> [] \<longrightarrow> 30 + tokens_of b sent < 1000)"
proof -
  obtain res where r: "sample_reserved = Inr (sample_reserved_db, res)" using sample_reserved_eq by blast
  note q = sample_reserved_amounts[OF r]
  have b: "chat_budget_from_key sample_ak (Some (reserved_plus sample_key 4 100 1)) res sample_estimate sample_live_burn_settings =
      Inr (sq_live_burn_budget sample_stream_request)"
    unfolding sample_budget_eq by (simp add: q sample_stream_request_def sample_budget_def eval_simps)
  obtain st' x where run: "stream_events (sample_env (\<lambda>_. CallCompletes)) sample_stream_request sample_chunks Exhausted
      sample_stream_state = (st', x)" by fastforce
  let ?b = "sample_budget\<lparr>bg_output_price_per_1m_eur := 1000000\<rparr>"
  have f: "filter (\<lambda>c. \<not> sc_is_done c) sample_chunks = [sample_chunk, sample_usage_chunk]"
    by (simp add: sample_chunks_def sample_chunk_def sample_usage_chunk_def sample_done_chunk_def)
  have bb: "chat_budget_from_key sample_ak (Some (reserved_plus sample_key 4 100 1)) res sample_estimate sample_live_burn_settings =
      Inr (Some ?b)" "sq_live_burn_budget sample_stream_request = Some ?b"
    using b by (simp_all add: sample_stream_request_def)
  show ?thesis
    using forwarded_below_limits[OF bb run] bb run f
    by (auto simp: sample_stream_state_def opt_all_def sample_key_def reserved_plus_def q sample_estimate_def sample_budget_def
        default_live_burn_policy_def)
qed

end
