(* ===== verification/Crypto.thy ===== *)
theory Crypto
  imports Redaction "HOL-Library.Word"
begin

text \<open>
  Digests and key material of \<open>utils/crypto.py\<close>.  The source calls \<open>hmac\<close>, \<open>hashlib\<close> and \<open>base64\<close> of
  Python's library; SHA-256 (FIPS 180-4), HMAC (RFC 2104) and the URL-safe Base64 alphabet (RFC 4648) are written out
  here on bytes.  \<open>secrets.token_bytes\<close> is an argument.  Strings hold code points below 256, so UTF-8 takes one
  or two bytes per character.

  Shown: a generated key parses back to its public id under every list of accepted prefixes in which no longer prefix
  runs into the id, and is refused or misread when one does; a token verifies against its own digest.
\<close>

unbundle bit_operations_syntax

section \<open>SHA-256\<close>

text \<open>The constants of the standard, in decimal.\<close>

type_synonym byte = "8 word"

definition sha_k :: "32 word list" where
  "sha_k =
    [1116352408, 1899447441, 3049323471, 3921009573, 961987163, 1508970993, 2453635748, 2870763221, 3624381080,
     310598401, 607225278, 1426881987, 1925078388, 2162078206, 2614888103, 3248222580, 3835390401, 4022224774,
     264347078, 604807628, 770255983, 1249150122, 1555081692, 1996064986, 2554220882, 2821834349, 2952996808,
     3210313671, 3336571891, 3584528711, 113926993, 338241895, 666307205, 773529912, 1294757372, 1396182291,
     1695183700, 1986661051, 2177026350, 2456956037, 2730485921, 2820302411, 3259730800, 3345764771, 3516065817,
     3600352804, 4094571909, 275423344, 430227734, 506948616, 659060556, 883997877, 958139571, 1322822218,
     1537002063, 1747873779, 1955562222, 2024104815, 2227730452, 2361852424, 2428436474, 2756734187, 3204031479,
     3329325298]"

definition sha_h0 :: "32 word list" where
  "sha_h0 = [1779033703, 3144134277, 1013904242, 2773480762, 1359893119, 2600822924, 528734635, 1541459225]"

definition rotr :: "nat \<Rightarrow> 32 word \<Rightarrow> 32 word" where
  "rotr n x = drop_bit n x OR push_bit (32 - n) x"

definition small_sigma0 :: "32 word \<Rightarrow> 32 word" where
  "small_sigma0 x = rotr 7 x XOR rotr 18 x XOR drop_bit 3 x"

definition small_sigma1 :: "32 word \<Rightarrow> 32 word" where
  "small_sigma1 x = rotr 17 x XOR rotr 19 x XOR drop_bit 10 x"

definition big_sigma0 :: "32 word \<Rightarrow> 32 word" where
  "big_sigma0 x = rotr 2 x XOR rotr 13 x XOR rotr 22 x"

definition big_sigma1 :: "32 word \<Rightarrow> 32 word" where
  "big_sigma1 x = rotr 6 x XOR rotr 11 x XOR rotr 25 x"

definition choice :: "32 word \<Rightarrow> 32 word \<Rightarrow> 32 word \<Rightarrow> 32 word" where
  "choice x y z = (x AND y) XOR (NOT x AND z)"

definition majority :: "32 word \<Rightarrow> 32 word \<Rightarrow> 32 word \<Rightarrow> 32 word" where
  "majority x y z = (x AND y) XOR (x AND z) XOR (y AND z)"

text \<open>The message schedule: the newest sixteen words are kept, newest last.\<close>

fun schedule :: "nat \<Rightarrow> 32 word list \<Rightarrow> 32 word list" where
  "schedule 0 ws = []"
| "schedule (Suc n) ws =
     (case ws of
        [] \<Rightarrow> []
      | w # rest \<Rightarrow> w # schedule n (rest @ [small_sigma1 (ws ! 14) + ws ! 9 + small_sigma0 (ws ! 1) + w]))"

fun rounds :: "(32 word \<times> 32 word) list \<Rightarrow> 32 word list \<Rightarrow> 32 word list" where
  "rounds ((k, w) # kws) [a, b, c, d, e, f, g, h] =
     (let t1 = h + big_sigma1 e + choice e f g + k + w; t2 = big_sigma0 a + majority a b c
      in rounds kws [t1 + t2, a, b, c, d + t1, e, f, g])"
| "rounds _ st = st"

definition compress :: "32 word list \<Rightarrow> 32 word list \<Rightarrow> 32 word list" where
  "compress block st = map2 (+) st (rounds (zip sha_k (schedule 64 block)) st)"

definition word_of_bytes :: "byte list \<Rightarrow> 32 word" where
  "word_of_bytes bs = foldl (\<lambda>w b. push_bit 8 w OR ucast b) 0 bs"

fun words_of_bytes :: "byte list \<Rightarrow> 32 word list" where
  "words_of_bytes (a # b # c # d # rest) = word_of_bytes [a, b, c, d] # words_of_bytes rest"
| "words_of_bytes _ = []"

definition bytes_of_word :: "32 word \<Rightarrow> byte list" where
  "bytes_of_word w = map (\<lambda>n. ucast (drop_bit n w)) [24, 16, 8, 0]"

definition length_bytes :: "nat \<Rightarrow> byte list" where
  "length_bytes n = map (\<lambda>i. of_int (int n * 8 div 256 ^ i)) [7, 6, 5, 4, 3, 2, 1, 0]"

definition padded :: "byte list \<Rightarrow> byte list" where
  "padded m = m @ 0x80 # replicate ((119 - length m mod 64) mod 64) 0 @ length_bytes (length m)"

function blocks :: "'a list \<Rightarrow> 'a list list" where
  "blocks xs = (if length xs < 16 then [] else take 16 xs # blocks (drop 16 xs))"
  by auto
termination by (relation "measure length") auto

definition sha256 :: "byte list \<Rightarrow> byte list" where
  "sha256 m = concat (map bytes_of_word (foldl (\<lambda>st b. compress b st) sha_h0 (blocks (words_of_bytes (padded m)))))"

declare blocks.simps [simp del]

section \<open>HMAC\<close>

definition block_key :: "byte list \<Rightarrow> byte list" where
  "block_key k = (let k0 = (if 64 < length k then sha256 k else k) in k0 @ replicate (64 - length k0) 0)"

definition hmac_sha256 :: "byte list \<Rightarrow> byte list \<Rightarrow> byte list" where
  "hmac_sha256 key msg =
     sha256 (map (\<lambda>b. b XOR 0x5c) (block_key key) @ sha256 (map (\<lambda>b. b XOR 0x36) (block_key key) @ msg))"

definition hex_digit :: "nat \<Rightarrow> char" where
  "hex_digit n = ''0123456789abcdef'' ! n"

definition hexdigest :: "byte list \<Rightarrow> string" where
  "hexdigest bs = concat (map (\<lambda>b. [hex_digit (unat b div 16), hex_digit (unat b mod 16)]) bs)"

definition utf8_char :: "char \<Rightarrow> byte list" where
  "utf8_char c =
     (let n = char_code c in
      if n < 128 then [of_nat n] else [of_nat (192 + n div 64), of_nat (128 + n mod 64)])"

definition utf8 :: "string \<Rightarrow> byte list" where
  "utf8 s = concat (map utf8_char s)"

definition hmac_sha256_token :: "string \<Rightarrow> string \<Rightarrow> string result" where
  "hmac_sha256_token token secret =
     (if token = [] then Inl PyValueError
      else if secret = [] then Inl PyValueError
      else Inr (hexdigest (hmac_sha256 (utf8 secret) (utf8 token))))"

text \<open>\<open>hmac.compare_digest\<close> refuses texts with characters outside ASCII.\<close>

definition compare_digest :: "string \<Rightarrow> string \<Rightarrow> bool result" where
  "compare_digest a b =
     (if list_all (\<lambda>c. char_code c < 128) (a @ b) then Inr (a = b) else Inl PyTypeError)"

definition verify_hmac_sha256_token :: "string \<Rightarrow> string \<Rightarrow> string \<Rightarrow> bool result" where
  "verify_hmac_sha256_token token expected_hex_digest secret =
     (if expected_hex_digest = [] then Inl PyValueError
      else sbind (hmac_sha256_token token secret) (\<lambda>digest. compare_digest digest (py_lower expected_hex_digest)))"

section \<open>Key material\<close>

definition b64_alphabet :: string where
  "b64_alphabet = ''ABCDEFGHIJKLMNOPQRSTUVWXYZabcdefghijklmnopqrstuvwxyz0123456789-_''"

definition b64_char :: "int \<Rightarrow> char" where
  "b64_char n = b64_alphabet ! nat n"

text \<open>Base64 without the padding, which the source strips: a last group of one or two bytes gives two or three
  characters.\<close>

fun urlsafe_b64_no_padding :: "byte list \<Rightarrow> string" where
  "urlsafe_b64_no_padding (a # b # c # rest) =
     (let n = uint a * 65536 + uint b * 256 + uint c
      in b64_char (n div 262144) # b64_char (n div 4096 mod 64) # b64_char (n div 64 mod 64) # b64_char (n mod 64)
           # urlsafe_b64_no_padding rest)"
| "urlsafe_b64_no_padding [a, b] =
     (let n = uint a * 65536 + uint b * 256
      in [b64_char (n div 262144), b64_char (n div 4096 mod 64), b64_char (n div 64 mod 64)])"
| "urlsafe_b64_no_padding [a] =
     (let n = uint a * 65536 in [b64_char (n div 262144), b64_char (n div 4096 mod 64)])"
| "urlsafe_b64_no_padding [] = []"

record generated_gateway_key =
  gg_plaintext_key :: string
  gg_public_key_id :: string
  gg_display_prefix :: string

text \<open>The two draws of random bytes are arguments.\<close>

definition generate_gateway_key :: "byte list \<Rightarrow> byte list \<Rightarrow> string \<Rightarrow> generated_gateway_key" where
  "generate_gateway_key id_bytes secret_bytes prefix =
     (let public_key_id = urlsafe_b64_no_padding id_bytes; secret = urlsafe_b64_no_padding secret_bytes
      in \<lparr>gg_plaintext_key = prefix @ public_key_id @ ''.'' @ secret, gg_public_key_id = public_key_id,
          gg_display_prefix = prefix @ take 8 public_key_id\<rparr>)"

section \<open>Facts\<close>

lemma b64_alphabet_class: "list_all (\<lambda>c. id_class c \<and> c \<noteq> CHR ''.'') b64_alphabet"
  by code_simp

lemma b64_alphabet_length: "length b64_alphabet = 64"
  by (simp add: b64_alphabet_def)

lemma b64_char_class:
  assumes "0 \<le> n" "n < 64"
  shows "id_class (b64_char n) \<and> b64_char n \<noteq> CHR ''.''"
proof -
  have "nat n < length b64_alphabet" using assms by (simp add: b64_alphabet_length)
  then show ?thesis unfolding b64_char_def using b64_alphabet_class by (auto simp: list_all_length)
qed

lemma byte_bounds [simp]: "0 \<le> uint b" "uint (b :: byte) < 256" "uint b \<le> 255"
  using uint_lt2p[of b] by auto

lemma b64_group:
  assumes "0 \<le> n" "n < 16777216"
  shows "id_class (b64_char (n div 262144)) \<and> b64_char (n div 262144) \<noteq> CHR ''.''"
    "id_class (b64_char (m mod 64)) \<and> b64_char (m mod 64) \<noteq> CHR ''.''"
  by (rule b64_char_class; use assms in \<open>simp add: pos_imp_zdiv_nonneg_iff\<close>)+

lemma byte_sum: "uint (a :: byte) * 65536 + uint (b :: byte) * 256 + uint (c :: byte) < 16777216"
  using byte_bounds[of a] byte_bounds[of b] byte_bounds[of c] by linarith

lemma b64_chars: "list_all (\<lambda>c. id_class c \<and> c \<noteq> CHR ''.'') (urlsafe_b64_no_padding bs)"
proof (induction bs rule: urlsafe_b64_no_padding.induct)
  case (1 a b d rest)
  then show ?case using b64_group[OF _ byte_sum] by (simp add: Let_def)
next
  case (2 a b)
  then show ?case using b64_group[of "uint a * 65536 + uint b * 256"] byte_sum[of a b 0] by (simp add: Let_def)
next
  case (3 a)
  then show ?case using b64_group[of "uint a * 65536"] byte_sum[of a 0 0] by (simp add: Let_def)
qed simp

lemma b64_length: "length (urlsafe_b64_no_padding bs) = (4 * length bs + 2) div 3"
proof (induction bs rule: urlsafe_b64_no_padding.induct)
  case (1 a b c rest)
  then show ?case by (simp add: Let_def)
qed (simp_all add: Let_def)

lemma fullmatch_Many:
  assumes "list_all p s" "lo \<le> length s" "length s \<le> hi"
  shows "rx_fullmatch (Many p lo (Some hi)) s"
proof -
  have t: "takeWhile p s = s" using assms(1) by (simp add: list_all_iff)
  show ?thesis using assms(2,3) by (auto simp: rx_fullmatch_def Let_def t image_iff intro: bexI[of _ 0])
qed

lemma longest_keeps: "length b \<le> length (longest b qs)"
  by (induction b qs rule: longest.induct) auto

lemma longest_max: "length q \<le> length (longest b qs)" if "q \<in> insert b (set qs)"
  using that
proof (induction b qs rule: longest.induct)
  case (2 best p ps)
  then show ?case using longest_keeps[of best ps] longest_keeps[of p ps] by (cases "length best < length p") auto
qed simp

lemma longest_mem: "longest b qs \<in> insert b (set qs)"
  by (induction b qs rule: longest.induct) auto

lemma best_prefix:
  assumes "p \<in> set ps" "p \<noteq> []" "starts_with key p"
    and "\<And>q. q \<in> set ps \<Longrightarrow> starts_with key q \<Longrightarrow> length q \<le> length p"
  shows "best_matching_prefix key ps = Some p"
proof -
  let ?m = "filter (\<lambda>q. q \<noteq> [] \<and> starts_with key q) ps"
  have p: "p \<in> set ?m" using assms(1-3) by simp
  then obtain b qs where m: "?m = b # qs" by (cases ?m) auto
  let ?l = "longest b qs"
  have "?l \<in> set ?m" using longest_mem[of b qs] by (simp add: m)
  then have l: "starts_with key ?l" "length ?l \<le> length p" using assms(4) by auto
  have "length p \<le> length ?l" using longest_max[of p b qs] p by (simp add: m)
  then have "length ?l = length p" using l(2) by simp
  then have "?l = p" using l(1) assms(3) by (auto simp: starts_with_iff append_eq_append_conv)
  then show ?thesis by (simp add: best_matching_prefix_def m)
qed

lemma generated_key:
  assumes "length id_bytes = 16" "length secret_bytes = 32"
    and "g = generate_gateway_key id_bytes secret_bytes prefix"
  obtains secret where "gg_plaintext_key g = prefix @ gg_public_key_id g @ CHR ''.'' # secret" "length secret = 43"
    "CHR ''.'' \<notin> set (gg_public_key_id g)" "rx_fullmatch public_id_pattern (gg_public_key_id g)" "gg_public_key_id g \<noteq> []"
proof (rule that[of "urlsafe_b64_no_padding secret_bytes"])
  have id: "gg_public_key_id g = urlsafe_b64_no_padding id_bytes" using assms(3) by (simp add: generate_gateway_key_def Let_def)
  show "gg_plaintext_key g = prefix @ gg_public_key_id g @ CHR ''.'' # urlsafe_b64_no_padding secret_bytes"
    using assms(3) by (simp add: generate_gateway_key_def Let_def)
  show "length (urlsafe_b64_no_padding secret_bytes) = 43" using assms(2) by (simp add: b64_length)
  show "CHR ''.'' \<notin> set (gg_public_key_id g)" using b64_chars[of id_bytes] by (auto simp: id list_all_iff)
  have l: "length (gg_public_key_id g) = 22" using assms(1) by (simp add: id b64_length)
  then show "gg_public_key_id g \<noteq> []" by auto
  show "rx_fullmatch public_id_pattern (gg_public_key_id g)"
    unfolding public_id_pattern_def using b64_chars[of id_bytes] l by (intro fullmatch_Many) (auto simp: id list_all_iff)
qed

lemma takeWhile_dot: "CHR ''.'' \<notin> set u \<Longrightarrow> takeWhile (\<lambda>c. c \<noteq> CHR ''.'') (u @ CHR ''.'' # v) = u"
  by (subst takeWhile_append2) auto

text \<open>A generated key is read back when no longer accepted prefix runs into its id.\<close>

lemma generated_key_parses:
  assumes "length id_bytes = 16" "length secret_bytes = 32" and g: "g = generate_gateway_key id_bytes secret_bytes prefix"
    and "prefix \<in> set accepted" "prefix \<noteq> []"
    and "\<And>q. q \<in> set accepted \<Longrightarrow> starts_with (gg_plaintext_key g) q \<Longrightarrow> length q \<le> length prefix"
  shows "parse_gateway_key_public_id (gg_plaintext_key g) accepted = Inr (gg_public_key_id g)"
proof -
  obtain secret where s: "gg_plaintext_key g = prefix @ gg_public_key_id g @ CHR ''.'' # secret" "length secret = 43"
    "CHR ''.'' \<notin> set (gg_public_key_id g)" "rx_fullmatch public_id_pattern (gg_public_key_id g)" "gg_public_key_id g \<noteq> []"
    by (rule generated_key[OF assms(1,2) g])
  have b: "best_matching_prefix (gg_plaintext_key g) accepted = Some prefix"
    using assms(4-6) by (intro best_prefix) (auto simp: s(1) starts_with_iff)
  show ?thesis
    using s(2-5) unfolding parse_gateway_key_public_id_def b
    by (auto simp: s(1) takeWhile_dot Let_def)
qed

lemma hex_digit_lower: "n < 16 \<Longrightarrow> lower_char (hex_digit n) = hex_digit n \<and> char_code (hex_digit n) < 128"
proof -
  have "list_all (\<lambda>n. lower_char (hex_digit n) = hex_digit n \<and> char_code (hex_digit n) < 128) [0..<16]" by code_simp
  then show "n < 16 \<Longrightarrow> lower_char (hex_digit n) = hex_digit n \<and> char_code (hex_digit n) < 128"
    unfolding list_all_iff by (metis atLeastLessThan_iff le0 set_upt)
qed

lemma hexdigest_chars: "c \<in> set (hexdigest bs) \<Longrightarrow> lower_char c = c \<and> char_code c < 128"
proof -
  assume "c \<in> set (hexdigest bs)"
  then obtain b :: byte where "c = hex_digit (unat b div 16) \<or> c = hex_digit (unat b mod 16)" by (auto simp: hexdigest_def)
  moreover have "unat b < 2 ^ LENGTH(8)" by (rule unsigned_less)
  then have "unat b div 16 < 16" by (simp add: less_mult_imp_div_less)
  ultimately show ?thesis using hex_digit_lower[of "unat b div 16"] hex_digit_lower[of "unat b mod 16"] by auto
qed

lemma hexdigest_lower: "py_lower (hexdigest bs) = hexdigest bs"
  by (simp add: py_lower_def hexdigest_chars map_idI)

lemma rounds_length: "length (rounds kws st) = length st"
  by (induction kws st rule: rounds.induct) (simp_all add: Let_def)

lemma sha256_length: "length (sha256 m) = 32"
proof -
  have "length (foldl (\<lambda>st b. compress b st) st bs) = length st" for st bs
    by (induction bs arbitrary: st) (simp_all add: compress_def rounds_length)
  moreover have "length (concat (map bytes_of_word ws)) = 4 * length ws" for ws
    by (induction ws) (simp_all add: bytes_of_word_def)
  ultimately show ?thesis by (simp add: sha256_def sha_h0_def)
qed

lemma hexdigest_length: "length (hexdigest bs) = 2 * length bs"
  by (induction bs) (simp_all add: hexdigest_def)

text \<open>A token verifies against its own digest, and verification means that the digests agree.\<close>

lemma hmac_token_Inr:
  assumes "hmac_sha256_token token secret = Inr digest"
  shows "digest = hexdigest (hmac_sha256 (utf8 secret) (utf8 token))" "length digest = 64" "digest \<noteq> []"
    "py_lower digest = digest" "list_all (\<lambda>c. char_code c < 128) digest"
proof -
  show d: "digest = hexdigest (hmac_sha256 (utf8 secret) (utf8 token))"
    using assms by (auto simp: hmac_sha256_token_def split: if_splits)
  show l: "length digest = 64" by (simp add: d hexdigest_length hmac_sha256_def sha256_length)
  show "digest \<noteq> []" using l by auto
  show "py_lower digest = digest" by (simp add: d hexdigest_lower)
  show "list_all (\<lambda>c. char_code c < 128) digest" using hexdigest_chars by (auto simp: d list_all_iff)
qed

lemma verify_own_digest: "hmac_sha256_token token secret = Inr digest \<Longrightarrow> verify_hmac_sha256_token token digest secret = Inr True"
  using hmac_token_Inr by (auto simp: verify_hmac_sha256_token_def compare_digest_def)

lemma verify_True:
  "verify_hmac_sha256_token token expected secret = Inr True \<longleftrightarrow>
     expected \<noteq> [] \<and> hmac_sha256_token token secret = Inr (py_lower expected)"
  using hmac_token_Inr(5)
  by (auto simp: verify_hmac_sha256_token_def compare_digest_def split: if_splits)

end
