(* ===== verification/Auth.thy ===== *)
theory Auth
  imports Crypto LiveBurn Routing
begin

text \<open>
  Authentication of a bearer key (\<open>services/auth_service.py\<close>) with the settings it reads (\<open>config.py\<close>).

  The settings object is a record; environment variables are part of it (\<open>st_versioned_secret\<close> is
  \<open>os.getenv(name) or getattr(self, name, None)\<close> by version).  Gateway keys are the rows of the model's database.
  The text of a Decimal or of a datetime inside JSON is abstract (\<open>PyValue\<close>), so \<open>str\<close> of such a value is an
  argument.

  Shown: a header authenticates only with a token whose HMAC is the stored one of an active, unfenced key inside its
  validity window, and then the returned limits are those of the row; a key whose token was generated and hashed by
  the gateway authenticates while those conditions hold.
\<close>

section \<open>Python texts\<close>

function nat_digits :: "nat \<Rightarrow> string" where
  "nat_digits n = (if n < 10 then [char_of (48 + n)] else nat_digits (n div 10) @ [char_of (48 + n mod 10)])"
  by auto
termination by (relation "measure id") auto

declare nat_digits.simps [simp del]

definition string_of_int :: "int \<Rightarrow> string" where
  "string_of_int i = (if i < 0 then CHR ''-'' # nat_digits (nat (- i)) else nat_digits (nat i))"

definition printable :: "nat \<Rightarrow> bool" where
  "printable n = (32 \<le> n \<and> n < 127 \<or> 161 \<le> n \<and> n \<noteq> 173)"

definition repr_char :: "char \<Rightarrow> char \<Rightarrow> string" where
  "repr_char quote c =
     (let n = char_code c in
      if c = quote \<or> n = 92 then [CHR 0x5C, c]
      else if n = 10 then [CHR 0x5C, CHR ''n''] else if n = 13 then [CHR 0x5C, CHR ''r'']
      else if n = 9 then [CHR 0x5C, CHR ''t'']
      else if printable n then [c]
      else [CHR 0x5C, CHR ''x'', hex_digit (n div 16), hex_digit (n mod 16)])"

definition repr_string :: "string \<Rightarrow> string" where
  "repr_string s =
     (let quote = (if CHR 0x27 \<in> set s \<and> CHR 0x22 \<notin> set s then CHR 0x22 else CHR 0x27)
      in quote # concat (map (repr_char quote) s) @ [quote])"

definition joined_by :: "string \<Rightarrow> string list \<Rightarrow> string" where
  "joined_by sep ws = (case ws of [] \<Rightarrow> [] | w # rest \<Rightarrow> w @ concat (map (\<lambda>v. sep @ v) rest))"

fun py_repr :: "(pyval \<Rightarrow> string) \<Rightarrow> pyval \<Rightarrow> string" where
  "py_repr txt PNone = ''None''"
| "py_repr txt (PBool b) = (if b then ''True'' else ''False'')"
| "py_repr txt (PInt i) = string_of_int i"
| "py_repr txt (PFloat s) = s"
| "py_repr txt (PStr s) = repr_string s"
| "py_repr txt (PList vs) = CHR ''['' # joined_by '', '' (map (py_repr txt) vs) @ '']''"
| "py_repr txt (PDict d) =
     CHR 0x7B # joined_by '', '' (map (\<lambda>kv. repr_string (fst kv) @ '': '' @ py_repr txt (snd kv)) d) @ [CHR 0x7D]"
| "py_repr txt v = txt v"

text \<open>\<open>str(value)\<close>\<close>

definition py_str :: "(pyval \<Rightarrow> string) \<Rightarrow> pyval \<Rightarrow> string" where
  "py_str txt v = (case v of PStr s \<Rightarrow> s | _ \<Rightarrow> py_repr txt v)"

text \<open>\<open>raw.split(",")\<close>\<close>

fun split_comma :: "string \<Rightarrow> string list" where
  "split_comma [] = [[]]"
| "split_comma (c # s) =
     (if c = CHR '','' then [] # split_comma s
      else case split_comma s of [] \<Rightarrow> [[c]] | w # ws \<Rightarrow> (c # w) # ws)"

section \<open>Settings (config.py)\<close>

record gateway_settings =
  st_gateway_key_prefix :: string
  st_gateway_key_accepted_prefixes :: "string option"
  st_versioned_secret :: "string \<Rightarrow> string option"
  st_app_env :: string
  st_token_hmac_secret :: "string option"
  st_active_hmac_key_version :: string
  st_lazy_max_wait_seconds :: int
  st_lazy_max_waiting_per_key :: int
  st_chat_live_burn :: live_burn_settings
  st_responses_live_burn :: live_burn_settings
  st_ceilings :: operator_ceilings
  st_text :: "pyval \<Rightarrow> string"
  st_one_time_secret_encryption_key :: "string option"
  st_one_time_secret_key_version :: string
  st_email_key_secret_max_age_seconds :: int
  st_calibration_keys_enabled :: bool
  st_trusted_calibration_max_requests :: int
  st_trusted_calibration_max_valid_days :: int

definition lower_dash :: "char \<Rightarrow> bool" where
  "lower_dash c = (is_lower c \<or> is_digit c \<or> c = CHR ''-'')"

definition gateway_prefix_pattern :: rx where
  "gateway_prefix_pattern = cat [rx_lit ''sk-'', Many lower_dash 1 None, rx_lit ''-'']"

text \<open>Every text the character checks refuse fails the pattern as well; all of them raise \<open>ValueError\<close>.\<close>

definition validate_gateway_key_prefix :: "string \<Rightarrow> unit result" where
  "validate_gateway_key_prefix prefix =
     ensure (prefix \<noteq> [] \<and> \<not> list_ex py_isspace prefix
             \<and> list_all (\<lambda>c. c \<notin> set ''./'' \<and> char_code c \<notin> {92, 34, 39, 127} \<and> 32 \<le> char_code c) prefix
             \<and> rx_fullmatch gateway_prefix_pattern prefix) PyValueError"

definition get_gateway_key_prefix :: "gateway_settings \<Rightarrow> string result" where
  "get_gateway_key_prefix s =
     (let prefix = py_strip (st_gateway_key_prefix s)
      in sbind (validate_gateway_key_prefix prefix) (\<lambda>_. Inr prefix))"

fun validate_prefixes :: "string list \<Rightarrow> unit result" where
  "validate_prefixes [] = Inr ()"
| "validate_prefixes (p # ps) = sbind (validate_gateway_key_prefix p) (\<lambda>_. validate_prefixes ps)"

definition get_gateway_key_accepted_prefixes :: "gateway_settings \<Rightarrow> string list result" where
  "get_gateway_key_accepted_prefixes s =
     sbind (case st_gateway_key_accepted_prefixes s of
              None \<Rightarrow> sbind (get_gateway_key_prefix s) (\<lambda>p. Inr [p])
            | Some raw \<Rightarrow>
                (let prefixes = filter (\<lambda>p. p \<noteq> []) (map py_strip (split_comma raw))
                 in if prefixes = [] then Inl PyValueError else Inr prefixes)) (\<lambda>prefixes.
     sbind (validate_prefixes prefixes) (\<lambda>_.
     sbind (get_gateway_key_prefix s) (\<lambda>active.
     if active \<in> set prefixes then Inr prefixes else Inl PyValueError)))"

definition non_empty :: "string option \<Rightarrow> string option" where
  "non_empty v = (if v = Some [] then None else v)"

definition get_hmac_secret :: "gateway_settings \<Rightarrow> string \<Rightarrow> string option" where
  "get_hmac_secret s version =
     (let normalized = py_strip version in
      if normalized = [] then None
      else case non_empty (st_versioned_secret s normalized) of
             Some secret \<Rightarrow> Some secret
           | None \<Rightarrow>
               if py_lower (st_app_env s) \<noteq> ''production'' \<and> normalized = ''1'' then non_empty (st_token_hmac_secret s)
               else None)"

definition get_active_hmac_secret :: "gateway_settings \<Rightarrow> (string \<times> string) result" where
  "get_active_hmac_secret s =
     (let version = py_strip (st_active_hmac_key_version s) in
      if version = [] then Inl PyValueError
      else case get_hmac_secret s version of None \<Rightarrow> Inl PyValueError | Some secret \<Rightarrow> Inr (version, secret))"

section \<open>Checks\<close>

definition extract_bearer_token :: "string option \<Rightarrow> string result" where
  "extract_bearer_token header =
     (case header of
        None \<Rightarrow> Inl MissingAuthorizationError
      | Some h \<Rightarrow>
          (let stripped = py_strip h;
               scheme = takeWhile (\<lambda>c. \<not> py_isspace c) stripped;
               rest = dropWhile py_isspace (drop (length scheme) stripped)
           in if stripped = [] then Inl MissingAuthorizationError
              else if py_lower scheme \<noteq> ''bearer'' then Inl InvalidAuthorizationSchemeError
              else if rest = [] then Inl MalformedGatewayKeyError
              else let token = py_strip rest in
                   if token = [] then Inl MalformedGatewayKeyError else Inr token))"

definition validate_status :: "key_status \<Rightarrow> unit result" where
  "validate_status st =
     (case st of
        KeyActive \<Rightarrow> Inr ()
      | KeySuspended \<Rightarrow> Inl GatewayKeySuspendedError
      | KeyRevoked \<Rightarrow> Inl GatewayKeyRevokedError)"

definition validate_fence_state :: "gateway_key \<Rightarrow> unit result" where
  "validate_fence_state k =
     ensure (gk_fence_state k \<notin> {FenceActive, FenceHeld}) GatewayKeyExternalToolFenceActiveError"

definition validate_time_window :: "gateway_key \<Rightarrow> pydatetime \<Rightarrow> unit result" where
  "validate_time_window k now =
     sbind (ensure (is_aware now) GatewayAuthError) (\<lambda>_.
     sbind (ensure (is_aware (gk_valid_from k) \<and> is_aware (gk_valid_until k)) GatewayAuthError) (\<lambda>_.
     sbind (ensure (micros (gk_valid_from k) \<le> micros now) GatewayKeyNotYetValidError) (\<lambda>_.
     ensure (micros now < micros (gk_valid_until k)) GatewayKeyExpiredError)))"

definition get_gateway_key_by_public_key_id :: "string \<Rightarrow> db \<Rightarrow> gateway_key option result" where
  "get_gateway_key_by_public_key_id pid db = scalar_one_or_none (filter (\<lambda>k. gk_public_key_id k = pid) (db_keys db))"

section \<open>The authenticated key\<close>

definition allowed_providers_of :: "gateway_settings \<Rightarrow> pydict \<Rightarrow> string list option" where
  "allowed_providers_of s md =
     (case dget md ''allowed_providers'' of PList vs \<Rightarrow> Some (map (py_str (st_text s)) vs) | _ \<Rightarrow> None)"

definition window_seconds_of :: "pydict \<Rightarrow> int option" where
  "window_seconds_of md =
     (case dget (as_dict (dget md ''rate_limit_policy'')) ''window_seconds'' of PInt i \<Rightarrow> Some i | _ \<Rightarrow> None)"

definition responses_policy_of :: "pydict \<Rightarrow> pydict option" where
  "responses_policy_of md =
     (case dget md ''responses_policy'' of
        PDict d \<Rightarrow> Some (sanitize_metadata_mapping True None (Some d))
      | _ \<Rightarrow> None)"

definition external_tool_policy_of :: "gateway_settings \<Rightarrow> pydict \<Rightarrow> key_policy" where
  "external_tool_policy_of s md =
     (let parsed = parse_key_external_tool_policy (dget md ''external_tool_policy'') (st_ceilings s)
      in if pp_valid parsed then (case pp_policy parsed of Some p \<Rightarrow> p | None \<Rightarrow> strict_key_policy) else strict_key_policy)"

definition live_burn_of ::
  "(pyval \<Rightarrow> decimal \<Rightarrow> int \<Rightarrow> live_burn_policy result) \<Rightarrow> live_burn_settings \<Rightarrow> pydict \<Rightarrow> live_burn_policy result" where
  "live_burn_of read ls md =
     or_default_policy (read (PDict md) (ls_max_abs_cost_margin_eur ls) (ls_max_abs_token_margin ls))"

definition authenticated_key_of ::
  "gateway_settings \<Rightarrow> gateway_key \<Rightarrow> pydict \<Rightarrow> pydict \<Rightarrow> authenticated_key" where
  "authenticated_key_of s k chat responses =
     (let md = gk_metadata_json k; trusted = is_trusted_calibration_key (gk_key_purpose k) (gk_capability_policy_mode k)
      in \<lparr>ak_gateway_key_id = gk_id k, ak_owner_id = gk_owner_id k, ak_cohort_id = gk_cohort_id k,
          ak_public_key_id = gk_public_key_id k, ak_status = gk_status k, ak_valid_from = gk_valid_from k,
          ak_valid_until = gk_valid_until k, ak_allow_all_models = (gk_allow_all_models k \<or> trusted),
          ak_allowed_models = gk_allowed_models k, ak_allow_all_endpoints = (gk_allow_all_endpoints k \<or> trusted),
          ak_allowed_endpoints = gk_allowed_endpoints k, ak_allowed_providers = allowed_providers_of s md,
          ak_cost_limit_eur = gk_cost_limit_eur k, ak_token_limit_total = gk_token_limit_total k,
          ak_request_limit_total = gk_request_limit_total k,
          ak_rate_limit_policy =
            [(''requests_per_minute'', gk_rate_limit_requests_per_minute k),
             (''tokens_per_minute'', gk_rate_limit_tokens_per_minute k),
             (''max_concurrent_requests'', gk_max_concurrent_requests k), (''window_seconds'', window_seconds_of md)],
          ak_lazy_throttling = parse_lazy_throttling_policy_metadata (dget md ''lazy_throttling_policy'')
            (st_lazy_max_wait_seconds s) (st_lazy_max_waiting_per_key s),
          ak_cost_used_eur = gk_cost_used_eur k, ak_tokens_used_total = gk_tokens_used_total k,
          ak_cost_reserved_eur = gk_cost_reserved_eur k, ak_tokens_reserved_total = gk_tokens_reserved_total k,
          ak_responses_policy = responses_policy_of md,
          ak_chat_streaming_live_burn_policy = Some chat, ak_responses_streaming_live_burn_policy = Some responses,
          ak_key_purpose = gk_key_purpose k, ak_capability_policy_mode = gk_capability_policy_mode k,
          ak_external_tool_policy = Some (key_policy_to_metadata (external_tool_policy_of s md))\<rparr>)"

definition authenticate_authorization_header ::
  "gateway_settings \<Rightarrow> pydatetime \<Rightarrow> string option \<Rightarrow> pydatetime option \<Rightarrow> db \<Rightarrow> authenticated_key result" where
  "authenticate_authorization_header s clock header now db =
     sbind (extract_bearer_token header) (\<lambda>token.
     sbind (get_gateway_key_accepted_prefixes s) (\<lambda>accepted.
     sbind (as_error MalformedGatewayKeyError (parse_gateway_key_public_id token accepted)) (\<lambda>pid.
     sbind (get_gateway_key_by_public_key_id pid db) (\<lambda>found.
     sbind (the_or_raise found GatewayKeyNotFoundError) (\<lambda>k.
     sbind (the_or_raise (get_hmac_secret s (string_of_int (gk_hmac_key_version k))) MissingTokenHmacSecretError) (\<lambda>secret.
     sbind (verify_hmac_sha256_token token (gk_token_hash k) secret) (\<lambda>matches.
     sbind (ensure matches GatewayKeyDigestMismatchError) (\<lambda>_.
     sbind (validate_status (gk_status k)) (\<lambda>_.
     sbind (validate_fence_state k) (\<lambda>_.
     sbind (validate_time_window k (case now of Some t \<Rightarrow> t | None \<Rightarrow> aware clock)) (\<lambda>_.
     sbind (live_burn_of chat_streaming_live_burn_policy_from_metadata (st_chat_live_burn s) (gk_metadata_json k)) (\<lambda>chat.
     sbind (live_burn_of responses_streaming_live_burn_policy_from_metadata (st_responses_live_burn s) (gk_metadata_json k)) (\<lambda>responses.
     sbind (live_burn_to_metadata chat) (\<lambda>chat_metadata.
     sbind (live_burn_to_metadata responses) (\<lambda>responses_metadata.
     Inr (authenticated_key_of s k chat_metadata responses_metadata))))))))))))))))"

section \<open>Facts\<close>

lemma scalar_one_filter:
  assumes "scalar_one_or_none (filter P rows) = Inr (Some r)"
  shows "r \<in> set rows" "P r"
proof -
  have "filter P rows = [r]" using assms by (auto simp: scalar_one_or_none_def split: list.splits)
  then show "r \<in> set rows" "P r" by (metis list.set_intros(1) mem_Collect_eq set_filter)+
qed

lemma scalar_one_unique:
  assumes "distinct (map f rows)" "r \<in> set rows"
  shows "scalar_one_or_none (filter (\<lambda>q. f q = f r) rows) = Inr (Some r)"
proof -
  have "filter (\<lambda>q. f q = f r) rows = [r]" using assms
  proof (induction rows)
    case (Cons q qs)
    show ?case
    proof (cases "q = r")
      case True
      then have "filter (\<lambda>q. f q = f r) qs = []" using Cons.prems(1) by (auto simp: filter_empty_conv) (metis image_eqI)
      then show ?thesis using True by simp
    next
      case False
      then have "r \<in> set qs" using Cons.prems(2) by simp
      then have "f q \<noteq> f r" using Cons.prems(1) by auto
      then show ?thesis using Cons \<open>r \<in> set qs\<close> by simp
    qed
  qed simp
  then show ?thesis by (simp add: scalar_one_or_none_def)
qed

text \<open>The conditions under which a key row admits a token at a time.\<close>

definition admits :: "gateway_settings \<Rightarrow> gateway_key \<Rightarrow> string \<Rightarrow> pydatetime \<Rightarrow> bool" where
  "admits s k token now =
     ((\<exists>secret. get_hmac_secret s (string_of_int (gk_hmac_key_version k)) = Some secret
         \<and> hmac_sha256_token token secret = Inr (py_lower (gk_token_hash k)) \<and> gk_token_hash k \<noteq> [])
      \<and> gk_status k = KeyActive \<and> gk_fence_state k = FenceNone
      \<and> is_aware now \<and> is_aware (gk_valid_from k) \<and> is_aware (gk_valid_until k)
      \<and> micros (gk_valid_from k) \<le> micros now \<and> micros now < micros (gk_valid_until k))"

lemma the_or_raise_eq: "the_or_raise v e = Inr x \<longleftrightarrow> v = Some x"
  by (cases v) (auto simp: the_or_raise_def)

lemma validate_window_Inr:
  "validate_time_window k now = Inr u \<longleftrightarrow>
     is_aware now \<and> is_aware (gk_valid_from k) \<and> is_aware (gk_valid_until k)
     \<and> micros (gk_valid_from k) \<le> micros now \<and> micros now < micros (gk_valid_until k)"
  by (auto simp: validate_time_window_def)

lemma validate_status_Inr: "validate_status st = Inr u \<longleftrightarrow> st = KeyActive"
  by (cases st) (auto simp: validate_status_def)

lemma validate_fence_Inr: "validate_fence_state k = Inr u \<longleftrightarrow> gk_fence_state k = FenceNone"
  by (cases "gk_fence_state k") (auto simp: validate_fence_state_def)

lemma authenticate_cases:
  assumes "authenticate_authorization_header s clock header now db = Inr ak"
  obtains token accepted k chat responses where "extract_bearer_token header = Inr token"
    "get_gateway_key_accepted_prefixes s = Inr accepted" "parse_gateway_key_public_id token accepted = Inr (gk_public_key_id k)"
    "k \<in> set (db_keys db)" "admits s k token (case now of Some t \<Rightarrow> t | None \<Rightarrow> aware clock)"
    "ak = authenticated_key_of s k chat responses"
proof -
  from assms obtain token accepted pid k secret chat responses where
    a: "extract_bearer_token header = Inr token" "get_gateway_key_accepted_prefixes s = Inr accepted"
      "parse_gateway_key_public_id token accepted = Inr pid" "get_gateway_key_by_public_key_id pid db = Inr (Some k)"
      "get_hmac_secret s (string_of_int (gk_hmac_key_version k)) = Some secret"
      "verify_hmac_sha256_token token (gk_token_hash k) secret = Inr True"
      "validate_status (gk_status k) = Inr ()" "validate_fence_state k = Inr ()"
      "validate_time_window k (case now of Some t \<Rightarrow> t | None \<Rightarrow> aware clock) = Inr ()"
      "ak = authenticated_key_of s k chat responses"
    unfolding authenticate_authorization_header_def by (auto simp: the_or_raise_eq)
  have k: "k \<in> set (db_keys db)" "gk_public_key_id k = pid"
    using scalar_one_filter[OF a(4)[unfolded get_gateway_key_by_public_key_id_def]] by simp_all
  show ?thesis
    by (rule that[OF a(1,2) _ k(1) _ a(10)])
      (use a k(2) in \<open>auto simp: admits_def verify_True validate_status_Inr validate_fence_Inr validate_window_Inr\<close>)
qed

lemma authenticate_complete:
  assumes "extract_bearer_token header = Inr token" "get_gateway_key_accepted_prefixes s = Inr accepted"
    "parse_gateway_key_public_id token accepted = Inr (gk_public_key_id k)" "k \<in> set (db_keys db)"
    "distinct (map gk_public_key_id (db_keys db))" "admits s k token (case now of Some t \<Rightarrow> t | None \<Rightarrow> aware clock)"
    "live_burn_of chat_streaming_live_burn_policy_from_metadata (st_chat_live_burn s) (gk_metadata_json k) = Inr chat"
    "live_burn_of responses_streaming_live_burn_policy_from_metadata (st_responses_live_burn s) (gk_metadata_json k) = Inr responses"
    "live_burn_to_metadata chat = Inr cm" "live_burn_to_metadata responses = Inr rm"
  shows "authenticate_authorization_header s clock header now db = Inr (authenticated_key_of s k cm rm)"
proof -
  have f: "get_gateway_key_by_public_key_id (gk_public_key_id k) db = Inr (Some k)"
    unfolding get_gateway_key_by_public_key_id_def by (rule scalar_one_unique[OF assms(5,4)])
  obtain secret where "get_hmac_secret s (string_of_int (gk_hmac_key_version k)) = Some secret"
    "verify_hmac_sha256_token token (gk_token_hash k) secret = Inr True"
    using assms(6) by (auto simp: admits_def verify_True)
  moreover have "validate_status (gk_status k) = Inr ()" "validate_fence_state k = Inr ()"
    "validate_time_window k (case now of Some t \<Rightarrow> t | None \<Rightarrow> aware clock) = Inr ()"
    using assms(6) by (simp_all add: admits_def validate_status_Inr validate_fence_Inr validate_window_Inr)
  ultimately show ?thesis
    using assms(1-3,7-10) f
    by (simp add: authenticate_authorization_header_def the_or_raise_def as_error_def del: sbind_eq_Inr)
qed

lemma drop_no_space: "\<forall>c \<in> set s. \<not> py_isspace c \<Longrightarrow> s \<noteq> [] \<Longrightarrow> dropWhile py_isspace (s @ v) = s @ v"
  by (cases s) auto

lemma py_strip_no_space: "\<forall>c \<in> set s. \<not> py_isspace c \<Longrightarrow> py_strip s = s"
  using drop_no_space[of s "[]"] drop_no_space[of "rev s" "[]"] by (cases "s = []") (simp_all add: py_strip_def)

lemma bearer_header:
  assumes "\<forall>c \<in> set token. \<not> py_isspace c" "token \<noteq> []"
  shows "extract_bearer_token (Some (''Bearer '' @ token)) = Inr token"
proof -
  have sp: "py_isspace (CHR '' '')" "list_all (\<lambda>c. \<not> py_isspace c) ''Bearer''" by code_simp+
  have rv: "dropWhile py_isspace (rev token @ v) = rev token @ v" for v using drop_no_space[of "rev token" v] assms by simp
  have strip: "py_strip (''Bearer '' @ token) = ''Bearer '' @ token"
    using sp(2) rv[of "rev ''Bearer ''"] by (simp add: py_strip_def)
  have scheme: "takeWhile (\<lambda>c. \<not> py_isspace c) (''Bearer '' @ token) = ''Bearer''" using sp by simp
  have low: "py_lower ''Bearer'' = ''bearer''" by code_simp
  have "dropWhile py_isspace (CHR '' '' # token) = token" using sp(1) drop_no_space[OF assms, of "[]"] by simp
  then show ?thesis
    using assms low py_strip_no_space[OF assms(1)]
    by (simp add: extract_bearer_token_def strip[simplified] scheme[simplified] Let_def)
qed

section \<open>Properties\<close>

text \<open>C9: Only the holder of a key is let in.  When a request authenticates, its header carries a token made of an
  accepted prefix, the public id of a stored key and a secret of at least 43 characters; the HMAC-SHA-256 of that
  token under the key's secret version is the stored digest; the key is active, has no external-tool fence and the
  time lies in its validity window; and identity, validity, limits, counters, rate limits and permissions handed on are
  those of that row, except that a trusted calibration key in discovery mode may use every model and endpoint.\<close>

theorem authenticate_sound:
  assumes "authenticate_authorization_header s clock header now db = Inr ak"
  shows "\<exists>token k accepted prefix rest secret. extract_bearer_token header = Inr token \<and> k \<in> set (db_keys db)
    \<and> get_gateway_key_accepted_prefixes s = Inr accepted \<and> prefix \<in> set accepted
    \<and> token = prefix @ gk_public_key_id k @ CHR ''.'' # rest \<and> 43 \<le> length rest
    \<and> get_hmac_secret s (string_of_int (gk_hmac_key_version k)) = Some secret
    \<and> py_lower (gk_token_hash k) = hexdigest (hmac_sha256 (utf8 secret) (utf8 token))
    \<and> gk_status k = KeyActive \<and> gk_fence_state k = FenceNone
    \<and> micros (gk_valid_from k) \<le> micros (case now of Some t \<Rightarrow> t | None \<Rightarrow> clock)
    \<and> micros (case now of Some t \<Rightarrow> t | None \<Rightarrow> clock) < micros (gk_valid_until k)
    \<and> ak_gateway_key_id ak = gk_id k \<and> ak_owner_id ak = gk_owner_id k \<and> ak_cohort_id ak = gk_cohort_id k
    \<and> ak_public_key_id ak = gk_public_key_id k \<and> ak_status ak = gk_status k
    \<and> ak_valid_from ak = gk_valid_from k \<and> ak_valid_until ak = gk_valid_until k
    \<and> ak_key_purpose ak = gk_key_purpose k \<and> ak_capability_policy_mode ak = gk_capability_policy_mode k
    \<and> ak_cost_limit_eur ak = gk_cost_limit_eur k \<and> ak_token_limit_total ak = gk_token_limit_total k
    \<and> ak_request_limit_total ak = gk_request_limit_total k
    \<and> ak_cost_used_eur ak = gk_cost_used_eur k \<and> ak_cost_reserved_eur ak = gk_cost_reserved_eur k
    \<and> ak_tokens_used_total ak = gk_tokens_used_total k \<and> ak_tokens_reserved_total ak = gk_tokens_reserved_total k
    \<and> map_of (ak_rate_limit_policy ak) ''requests_per_minute'' = Some (gk_rate_limit_requests_per_minute k)
    \<and> map_of (ak_rate_limit_policy ak) ''tokens_per_minute'' = Some (gk_rate_limit_tokens_per_minute k)
    \<and> map_of (ak_rate_limit_policy ak) ''max_concurrent_requests'' = Some (gk_max_concurrent_requests k)
    \<and> ak_allowed_models ak = gk_allowed_models k \<and> ak_allowed_endpoints ak = gk_allowed_endpoints k
    \<and> ak_allowed_providers ak = allowed_providers_of s (gk_metadata_json k)
    \<and> (ak_allow_all_models ak \<longleftrightarrow>
         gk_allow_all_models k \<or> is_trusted_calibration_key (gk_key_purpose k) (gk_capability_policy_mode k))
    \<and> (ak_allow_all_endpoints ak \<longleftrightarrow>
         gk_allow_all_endpoints k \<or> is_trusted_calibration_key (gk_key_purpose k) (gk_capability_policy_mode k))"
  using assms
proof (cases rule: authenticate_cases)
  case (1 token accepted k chat responses)
  from parse_gateway_key_public_id_Inr[OF 1(3)] obtain prefix rest where
    p: "token = prefix @ gk_public_key_id k @ CHR ''.'' # rest" "prefix \<in> set accepted" "43 \<le> length rest" by blast
  obtain secret where sec: "get_hmac_secret s (string_of_int (gk_hmac_key_version k)) = Some secret"
    "hmac_sha256_token token secret = Inr (py_lower (gk_token_hash k))" using 1(5) by (auto simp: admits_def)
  have t: "micros (case now of Some t \<Rightarrow> t | None \<Rightarrow> aware clock) = micros (case now of Some t \<Rightarrow> t | None \<Rightarrow> clock)"
    by (simp split: option.splits)
  show ?thesis
    using 1(1,2,4,5) p sec hmac_token_Inr(1)[OF sec(2)] t
    by (intro exI[of _ token] exI[of _ k] exI[of _ accepted] exI[of _ prefix] exI[of _ rest] exI[of _ secret])
      (simp add: 1(6) admits_def authenticated_key_of_def Let_def)
qed

section \<open>Samples\<close>

definition sample_settings :: gateway_settings where
  "sample_settings =
     \<lparr>st_gateway_key_prefix = ''sk-slaif-'', st_gateway_key_accepted_prefixes = None,
      st_versioned_secret = (\<lambda>v. if v = ''1'' then Some ''hmac-secret'' else None), st_app_env = ''production'',
      st_token_hmac_secret = None, st_active_hmac_key_version = ''1'', st_lazy_max_wait_seconds = 60,
      st_lazy_max_waiting_per_key = 5, st_chat_live_burn = sample_live_burn_settings,
      st_responses_live_burn = sample_live_burn_settings,
      st_ceilings = \<lparr>oc_max_distinct_capabilities = 4, oc_max_approved_destinations = 4, oc_max_provider_tool_declarations_per_request = 4,
        oc_max_provider_tool_calls_per_request = 8\<rparr>,
      st_text = (\<lambda>_. []), st_one_time_secret_encryption_key = Some ''k'', st_one_time_secret_key_version = ''v1'',
      st_email_key_secret_max_age_seconds = 86400, st_calibration_keys_enabled = False,
      st_trusted_calibration_max_requests = 10, st_trusted_calibration_max_valid_days = 7\<rparr>"

definition sample_generated :: generated_gateway_key where
  "sample_generated = generate_gateway_key (replicate 16 7) (replicate 32 9) ''sk-slaif-''"

lemma sample_accepted: "get_gateway_key_accepted_prefixes sample_settings = Inr [''sk-slaif-'']"
  by code_simp

lemma sample_parses: "parse_gateway_key_public_id (gg_plaintext_key sample_generated) [''sk-slaif-''] = Inr (gg_public_key_id sample_generated)"
  by (rule generated_key_parses[OF _ _ sample_generated_def]) auto

lemma sample_secret: "get_hmac_secret sample_settings (string_of_int 1) = Some ''hmac-secret''"
  by code_simp

lemma id_class_no_space: "id_class c \<Longrightarrow> \<not> py_isspace c"
  by (auto simp: id_class_def is_alnum_def is_lower_def is_upper_def is_digit_def py_isspace_def char_code_def)

lemma generated_no_space:
  assumes "\<forall>c \<in> set prefix. \<not> py_isspace c"
  shows "\<forall>c \<in> set (gg_plaintext_key (generate_gateway_key i t prefix)). \<not> py_isspace c"
proof -
  have dot: "\<not> py_isspace (CHR ''.'')" by code_simp
  have l: "list_all (\<lambda>c. \<not> py_isspace c) (urlsafe_b64_no_padding x)" for x
    using b64_chars[of x] by (rule list.pred_mono_strong) (simp add: id_class_no_space)
  have "list_all (\<lambda>c. \<not> py_isspace c) (gg_plaintext_key (generate_gateway_key i t prefix))"
    using assms l[of i] l[of t] dot by (simp add: generate_gateway_key_def Let_def flip: list_all_iff)
  then show ?thesis by (simp add: list_all_iff)
qed

lemma generated_nonempty: "gg_plaintext_key (generate_gateway_key i t prefix) \<noteq> []"
  by (simp add: generate_gateway_key_def Let_def)

definition sample_token_key :: gateway_key where
  "sample_token_key = sample_key\<lparr>gk_public_key_id := gg_public_key_id sample_generated,
     gk_token_hash := hexdigest (hmac_sha256 (utf8 ''hmac-secret'') (utf8 (gg_plaintext_key sample_generated)))\<rparr>"

lemma sample_admits: "admits sample_settings sample_token_key (gg_plaintext_key sample_generated) (Aware 5)"
proof -
  have h: "hmac_sha256_token (gg_plaintext_key sample_generated) ''hmac-secret'' = Inr (gk_token_hash sample_token_key)"
    by (simp add: hmac_sha256_token_def sample_token_key_def sample_generated_def generated_nonempty)
  have "gk_hmac_key_version sample_token_key = 1" by (simp add: sample_token_key_def sample_key_def)
  moreover have "gk_status sample_token_key = KeyActive" "gk_fence_state sample_token_key = FenceNone"
    "gk_valid_from sample_token_key = Aware 0" "gk_valid_until sample_token_key = Aware 1000000000000"
    by (simp_all add: sample_token_key_def sample_key_def)
  ultimately show ?thesis
    using h hmac_token_Inr(3,4)[OF h] sample_secret by (simp add: admits_def)
qed

lemma sample_policies:
  "live_burn_of chat_streaming_live_burn_policy_from_metadata ls [] = Inr default_live_burn_policy"
  "live_burn_of responses_streaming_live_burn_policy_from_metadata ls [] = Inr default_live_burn_policy"
  by (simp_all add: live_burn_of_def or_default_policy_def chat_streaming_live_burn_policy_from_metadata_def
      responses_streaming_live_burn_policy_from_metadata_def live_burn_policy_under_def dget_def)

lemma sample_authenticates:
  assumes "sample_token_key \<in> set (db_keys db)" "distinct (map gk_public_key_id (db_keys db))"
  shows "\<exists>m. authenticate_authorization_header sample_settings (Aware 5) (Some (''Bearer '' @ gg_plaintext_key sample_generated))
    None db = Inr (authenticated_key_of sample_settings sample_token_key m m)"
proof -
  have sp: "\<forall>c \<in> set ''sk-slaif-''. \<not> py_isspace c" by code_simp
  have b: "extract_bearer_token (Some (''Bearer '' @ gg_plaintext_key sample_generated)) = Inr (gg_plaintext_key sample_generated)"
    by (rule bearer_header) (use generated_no_space[OF sp] in \<open>auto simp: sample_generated_def generated_nonempty\<close>)
  obtain m where m: "live_burn_to_metadata default_live_burn_policy = Inr m"
    by (auto simp: live_burn_to_metadata_def format_eur_def default_live_burn_policy_def quantize_eur_def half_even_def Let_def)
  have md: "gk_metadata_json sample_token_key = []" by (simp add: sample_token_key_def sample_key_def)
  have "gk_public_key_id sample_token_key = gg_public_key_id sample_generated" by (simp add: sample_token_key_def)
  then show ?thesis
    by (intro exI[of _ m] authenticate_complete[OF b sample_accepted])
       (use assms sample_parses sample_admits m in \<open>simp_all add: md sample_policies aware_def\<close>)
qed

theorem authenticate_sound_witness:
  "\<exists>ak. authenticate_authorization_header sample_settings (Aware 5) (Some (''Bearer '' @ gg_plaintext_key sample_generated)) None
       (sample_db\<lparr>db_keys := [sample_token_key]\<rparr>) = Inr ak
     \<and> ak_gateway_key_id ak = 10 \<and> ak_token_limit_total ak = Some 1000"
proof -
  obtain m where run: "authenticate_authorization_header sample_settings (Aware 5)
      (Some (''Bearer '' @ gg_plaintext_key sample_generated)) None (sample_db\<lparr>db_keys := [sample_token_key]\<rparr>)
      = Inr (authenticated_key_of sample_settings sample_token_key m m)"
    using sample_authenticates[of "sample_db\<lparr>db_keys := [sample_token_key]\<rparr>"] by auto
  show ?thesis using authenticate_sound[OF run] run by (auto simp: sample_token_key_def sample_key_def)
qed

end
