(* ===== verification/KeyPolicy.thy ===== *)
theory KeyPolicy
  imports Auth
begin

text \<open>
  What administration checks before it stores a gateway key: \<open>services/key_policy_validation.py\<close>, the validators of
  \<open>services/key_service.py\<close> and the row updates of \<open>db/repositories/keys.py\<close>.  Calibration metadata, template ids and
  \<open>updated_at\<close> are columns outside the model.

  Shown: a stored policy names only implemented endpoints, and every model it names has an enabled route at an endpoint
  the key may call; but the check never looks at embeddings routes, so a key for embeddings alone that names a model is
  always refused.
\<close>

section \<open>Rows (db/repositories/keys.py)\<close>

definition policy_columns_fit :: "gateway_key \<Rightarrow> bool" where
  "policy_columns_fit k =
     (opt_all fits_integer (gk_rate_limit_requests_per_minute k) \<and> opt_all fits_bigint (gk_rate_limit_tokens_per_minute k)
      \<and> opt_all fits_integer (gk_max_concurrent_requests k) \<and> fits_integer (gk_hmac_key_version k))"

text \<open>A naive datetime is refused by the driver for a column with a time zone.\<close>

definition times_aware :: "gateway_key \<Rightarrow> bool" where
  "times_aware k = (is_aware (gk_valid_from k) \<and> is_aware (gk_valid_until k))"

definition new_key ::
  "uuid \<Rightarrow> string \<Rightarrow> string \<Rightarrow> string \<Rightarrow> string \<Rightarrow> uuid \<Rightarrow> uuid option \<Rightarrow> pydatetime \<Rightarrow> pydatetime
     \<Rightarrow> decimal option \<Rightarrow> int option \<Rightarrow> int option \<Rightarrow> pydict \<Rightarrow> int \<Rightarrow> gateway_key" where
  "new_key kid pid prefix hint token_hash owner cohort valid_from valid_until cost_limit token_limit request_limit
       metadata hmac_version =
     \<lparr>gk_id = kid, gk_public_key_id = pid, gk_key_prefix = prefix, gk_key_hint = Some hint, gk_token_hash = token_hash,
      gk_hash_algorithm = ''hmac-sha256'', gk_hmac_key_version = hmac_version, gk_owner_id = owner, gk_cohort_id = cohort,
      gk_status = KeyActive, gk_valid_from = valid_from, gk_valid_until = valid_until, gk_cost_limit_eur = cost_limit,
      gk_token_limit_total = token_limit, gk_request_limit_total = request_limit, gk_cost_used_eur = 0,
      gk_tokens_used_total = 0, gk_requests_used_total = 0, gk_cost_reserved_eur = 0, gk_tokens_reserved_total = 0,
      gk_requests_reserved_total = 0, gk_rate_limit_requests_per_minute = None, gk_rate_limit_tokens_per_minute = None,
      gk_max_concurrent_requests = None, gk_allow_all_models = False, gk_allowed_models = [],
      gk_allow_all_endpoints = False, gk_allowed_endpoints = [], gk_key_purpose = StandardPurpose,
      gk_capability_policy_mode = StandardMode, gk_metadata_json = metadata, gk_fence_state = FenceNone,
      gk_fence_reservation_id = None, gk_fence_request_id = None, gk_fence_acquired_at = None,
      gk_fence_expires_at = None, gk_last_used_at = None, gk_last_quota_reset_at = None, gk_quota_reset_count = 0,
      gk_revoked_at = None, gk_revoked_reason = None\<rparr>"

definition create_gateway_key_record :: "gateway_key \<Rightarrow> db \<Rightarrow> (db \<times> gateway_key) result" where
  "create_gateway_key_record k db =
     sbind (ensure (gateway_key_fits k \<and> policy_columns_fit k \<and> times_aware k) (DataError ''gateway_keys'')) (\<lambda>_.
     sbind (ensure (gateway_key_checks (stored_key k)) (IntegrityError ''gateway_keys'')) (\<lambda>_.
     sbind (ensure (\<not> list_ex (\<lambda>q. gk_id q = gk_id k \<or> gk_public_key_id q = gk_public_key_id k
                      \<or> gk_token_hash q = gk_token_hash k) (db_keys db)) (IntegrityError ''gateway_keys'')) (\<lambda>_.
     Inr (db\<lparr>db_keys := db_keys db @ [stored_key k]\<rparr>, k))))"

text \<open>The update methods reload the row by id, change attributes and flush; they return whether the row exists.\<close>

definition update_row :: "uuid \<Rightarrow> (gateway_key \<Rightarrow> gateway_key) \<Rightarrow> db \<Rightarrow> (db \<times> bool) result" where
  "update_row kid f db =
     (case get_gateway_key_by_id kid db of
        None \<Rightarrow> Inr (db, False)
      | Some k \<Rightarrow>
          sbind (ensure (policy_columns_fit (f k) \<and> times_aware (f k)) (DataError ''gateway_keys'')) (\<lambda>_.
          sbind (flush_key (f k) db) (\<lambda>db'. Inr (db', True))))"

definition with_status :: "key_status \<Rightarrow> pydatetime option \<Rightarrow> string option \<Rightarrow> gateway_key \<Rightarrow> gateway_key" where
  "with_status st revoked_at reason k = k\<lparr>gk_status := st, gk_revoked_at := revoked_at, gk_revoked_reason := reason\<rparr>"

definition update_gateway_key_status ::
  "uuid \<Rightarrow> key_status \<Rightarrow> pydatetime option \<Rightarrow> string option \<Rightarrow> db \<Rightarrow> (db \<times> bool) result" where
  "update_gateway_key_status kid st revoked_at reason db = update_row kid (with_status st revoked_at reason) db"

definition with_limits :: "decimal option \<Rightarrow> int option \<Rightarrow> int option \<Rightarrow> gateway_key \<Rightarrow> gateway_key" where
  "with_limits cost tokens requests k =
     k\<lparr>gk_cost_limit_eur := cost, gk_token_limit_total := tokens, gk_request_limit_total := requests\<rparr>"

definition update_gateway_key_limits_row ::
  "uuid \<Rightarrow> decimal option \<Rightarrow> int option \<Rightarrow> int option \<Rightarrow> db \<Rightarrow> (db \<times> bool) result" where
  "update_gateway_key_limits_row kid cost tokens requests db = update_row kid (with_limits cost tokens requests) db"

definition with_rate_limits ::
  "int option \<Rightarrow> int option \<Rightarrow> int option \<Rightarrow> int option \<Rightarrow> gateway_key \<Rightarrow> gateway_key" where
  "with_rate_limits requests tokens concurrent window k =
     k\<lparr>gk_rate_limit_requests_per_minute := requests, gk_rate_limit_tokens_per_minute := tokens,
       gk_max_concurrent_requests := concurrent,
       gk_metadata_json := metadata_with_rate_limit_window (gk_metadata_json k) window\<rparr>"

definition update_gateway_key_rate_limit_policy ::
  "uuid \<Rightarrow> int option \<Rightarrow> int option \<Rightarrow> int option \<Rightarrow> int option \<Rightarrow> db \<Rightarrow> (db \<times> bool) result" where
  "update_gateway_key_rate_limit_policy kid requests tokens concurrent window db =
     update_row kid (with_rate_limits requests tokens concurrent window) db"

definition with_metadata :: "pydict \<Rightarrow> gateway_key \<Rightarrow> gateway_key" where
  "with_metadata md k = k\<lparr>gk_metadata_json := md\<rparr>"

definition update_gateway_key_metadata :: "uuid \<Rightarrow> pydict \<Rightarrow> db \<Rightarrow> (db \<times> bool) result" where
  "update_gateway_key_metadata kid md db = update_row kid (with_metadata md) db"

record request_policy =
  rq_allowed_models :: "string list"
  rq_allowed_endpoints :: "string list"
  rq_allow_all_models :: bool
  rq_allow_all_endpoints :: bool

definition with_request_policy :: "request_policy \<Rightarrow> gateway_key \<Rightarrow> gateway_key" where
  "with_request_policy p k =
     k\<lparr>gk_allowed_models := rq_allowed_models p, gk_allowed_endpoints := rq_allowed_endpoints p,
       gk_allow_all_models := rq_allow_all_models p, gk_allow_all_endpoints := rq_allow_all_endpoints p\<rparr>"

definition update_gateway_key_request_policy :: "uuid \<Rightarrow> request_policy \<Rightarrow> db \<Rightarrow> (db \<times> bool) result" where
  "update_gateway_key_request_policy kid p db = update_row kid (with_request_policy p) db"

definition with_validity :: "pydatetime option \<Rightarrow> pydatetime option \<Rightarrow> gateway_key \<Rightarrow> gateway_key" where
  "with_validity valid_from valid_until k =
     k\<lparr>gk_valid_from := (case valid_from of Some t \<Rightarrow> t | None \<Rightarrow> gk_valid_from k),
       gk_valid_until := (case valid_until of Some t \<Rightarrow> t | None \<Rightarrow> gk_valid_until k)\<rparr>"

definition update_gateway_key_validity_row ::
  "uuid \<Rightarrow> pydatetime option \<Rightarrow> pydatetime option \<Rightarrow> db \<Rightarrow> (db \<times> bool) result" where
  "update_gateway_key_validity_row kid valid_from valid_until db = update_row kid (with_validity valid_from valid_until) db"

section \<open>Request policy (key_policy_validation.py)\<close>

definition implemented_client_endpoints :: "string list" where
  "implemented_client_endpoints =
     [''/v1/models'', ''/v1/chat/completions'', ''/v1/audio/speech'', ''/v1/audio/transcriptions'',
      ''/v1/audio/translations'', ''/v1/embeddings'', ''/v1/realtime/client_secrets'', ''/v1/responses'',
      ''/v1/responses/input_tokens'', ''GET /v1/responses/{response_id}'', ''DELETE /v1/responses/{response_id}'',
      ''GET /v1/responses/{response_id}/input_items'', ''/v1/responses/compact'', ''/v1/conversations'',
      ''POST /v1/conversations'', ''POST /v1/conversations/{conversation_id}'', ''GET /v1/conversations/{conversation_id}'',
      ''DELETE /v1/conversations/{conversation_id}'', ''POST /v1/conversations/{conversation_id}/items'',
      ''GET /v1/conversations/{conversation_id}/items'', ''GET /v1/conversations/{conversation_id}/items/{item_id}'',
      ''DELETE /v1/conversations/{conversation_id}/items/{item_id}'']"

definition model_backed_endpoints :: "string list" where
  "model_backed_endpoints =
     [''/v1/chat/completions'', ''/v1/audio/speech'', ''/v1/audio/transcriptions'', ''/v1/audio/translations'',
      ''/v1/embeddings'', ''/v1/realtime/client_secrets'', ''/v1/responses'', ''/v1/responses/input_tokens'',
      ''/v1/responses/compact'']"

fun dedupe_from :: "string set \<Rightarrow> string list \<Rightarrow> string list" where
  "dedupe_from seen [] = []"
| "dedupe_from seen (v # vs) =
     (let item = py_strip v in
      if item = [] \<or> item \<in> seen then dedupe_from seen vs else item # dedupe_from (insert item seen) vs)"

definition dedupe :: "string list \<Rightarrow> string list" where
  "dedupe vs = dedupe_from {} vs"

definition is_alpha_text :: "string \<Rightarrow> bool" where
  "is_alpha_text s =
     (s \<noteq> [] \<and> list_all (\<lambda>c. is_lower c \<or> is_upper c \<or> char_code c \<in> {170, 181, 186}
        \<or> 192 \<le> char_code c \<and> char_code c \<notin> {215, 247}) s)"

definition normalize_endpoint_value :: "string \<Rightarrow> string" where
  "normalize_endpoint_value endpoint =
     (let s = py_strip endpoint; first = takeWhile (\<lambda>c. \<not> py_isspace c) s; rest = dropWhile py_isspace (drop (length first) s)
      in if rest \<noteq> [] \<and> is_alpha_text first then rest else s)"

fun validate_endpoint_values :: "string list \<Rightarrow> unit result" where
  "validate_endpoint_values [] = Inr ()"
| "validate_endpoint_values (e # es) =
     sbind (ensure (starts_with (normalize_endpoint_value e) ''/v1/'' \<and> e \<in> set implemented_client_endpoints)
              (InvalidGatewayKeyPolicyError ''allowed_endpoints'')) (\<lambda>_. validate_endpoint_values es)"

definition validate_endpoints :: "request_policy \<Rightarrow> unit result" where
  "validate_endpoints p =
     sbind (ensure (rq_allow_all_endpoints p \<or> rq_allowed_endpoints p \<noteq> [])
              (InvalidGatewayKeyPolicyError ''allowed_endpoints'')) (\<lambda>_. validate_endpoint_values (rq_allowed_endpoints p))"

definition validate_gateway_key_policy_values :: "request_policy \<Rightarrow> request_policy result" where
  "validate_gateway_key_policy_values p =
     (let n = p\<lparr>rq_allowed_models := dedupe (rq_allowed_models p), rq_allowed_endpoints := dedupe (rq_allowed_endpoints p)\<rparr>
      in sbind (validate_endpoints n) (\<lambda>_.
         sbind (ensure (\<not> list_ex (\<lambda>m. starts_with m ''/v1/'') (rq_allowed_models n))
                  (InvalidGatewayKeyPolicyError ''allowed_models'')) (\<lambda>_. Inr n)))"

definition routed_endpoints :: "string list" where
  "routed_endpoints =
     [''/v1/chat/completions'', ''/v1/audio/speech'', ''/v1/audio/transcriptions'', ''/v1/audio/translations'',
      ''/v1/realtime/client_secrets'', ''/v1/responses'', ''/v1/responses/input_tokens'', ''/v1/responses/compact'']"

fun matching_of :: "string \<Rightarrow> model_route list \<Rightarrow> model_route list result" where
  "matching_of m [] = Inr []"
| "matching_of m (r # rs) =
     sbind (matches_model_route m r) (\<lambda>hit. sbind (matching_of m rs) (\<lambda>rest. Inr (if hit then r # rest else rest)))"

fun candidate_routes :: "string \<Rightarrow> string list \<Rightarrow> catalog_db \<Rightarrow> model_route list result" where
  "candidate_routes m [] catalog = Inr []"
| "candidate_routes m (e # es) catalog =
     sbind (matching_of m (list_enabled_model_routes (Some e) catalog)) (\<lambda>here.
     sbind (candidate_routes m es catalog) (\<lambda>rest. Inr (here @ rest)))"

fun models_have_routes :: "string list \<Rightarrow> string list \<Rightarrow> bool \<Rightarrow> catalog_db \<Rightarrow> unit result" where
  "models_have_routes [] endpoints require_visible catalog = Inr ()"
| "models_have_routes (m # ms) endpoints require_visible catalog =
     sbind (candidate_routes m endpoints catalog) (\<lambda>found.
     sbind (ensure (filter (\<lambda>r. require_visible \<longrightarrow> mr_visible_in_models r) found \<noteq> [])
              (InvalidGatewayKeyPolicyError ''allowed_models'')) (\<lambda>_.
     models_have_routes ms endpoints require_visible catalog))"

definition validate_models_have_routes :: "string list \<Rightarrow> string set \<Rightarrow> catalog_db \<Rightarrow> unit result" where
  "validate_models_have_routes models endpoints catalog =
     (let require_visible = (endpoints = {''/v1/models''});
          checked = (if endpoints \<noteq> {} \<and> \<not> require_visible then filter (\<lambda>e. e \<in> endpoints) routed_endpoints else routed_endpoints)
      in models_have_routes models checked require_visible catalog)"

text \<open>The route repository is optional.\<close>

definition validate_gateway_key_policy :: "request_policy \<Rightarrow> catalog_db option \<Rightarrow> request_policy result" where
  "validate_gateway_key_policy p routes =
     sbind (validate_gateway_key_policy_values p) (\<lambda>n.
     (let effective = (if rq_allow_all_endpoints n then set implemented_client_endpoints else set (rq_allowed_endpoints n))
      in
     sbind (ensure (rq_allow_all_models n \<or> rq_allowed_models n \<noteq> [] \<or> effective \<inter> set model_backed_endpoints = {})
              (InvalidGatewayKeyPolicyError ''allowed_models'')) (\<lambda>_.
     sbind (case routes of
              Some catalog \<Rightarrow> if rq_allowed_models n = [] then Inr () else validate_models_have_routes (rq_allowed_models n) effective catalog
            | None \<Rightarrow> Inr ()) (\<lambda>_. Inr n))))"

section \<open>Validators (key_service.py)\<close>

definition require_status :: "gateway_key \<Rightarrow> key_status list \<Rightarrow> string \<Rightarrow> unit result" where
  "require_status k allowed operation =
     (if gk_status k \<in> set allowed then Inr ()
      else if gk_status k = KeyRevoked then Inl GatewayKeyAlreadyRevokedError
      else if operation = ''suspend'' \<and> gk_status k = KeySuspended then Inl GatewayKeyAlreadySuspendedError
      else if operation = ''activate'' \<and> gk_status k = KeyActive then Inl GatewayKeyAlreadyActiveError
      else Inl InvalidGatewayKeyStatusTransitionError)"

definition require_not_external_tool_fenced :: "gateway_key \<Rightarrow> unit result" where
  "require_not_external_tool_fenced k =
     ensure (gk_fence_state k \<notin> {FenceActive, FenceHeld}) GatewayKeyExternalToolFenceActiveError"

definition validate_validity_window :: "pydatetime \<Rightarrow> pydatetime \<Rightarrow> unit result" where
  "validate_validity_window valid_from valid_until =
     ensure (is_aware valid_from \<and> is_aware valid_until \<and> micros valid_from < micros valid_until)
       InvalidGatewayKeyValidityError"

definition validate_optional_positive_decimal :: "decimal option \<Rightarrow> decimal option result" where
  "validate_optional_positive_decimal v = sbind (ensure (opt_all (\<lambda>x. 0 < x) v) InvalidGatewayKeyLimitsError) (\<lambda>_. Inr v)"

definition validate_optional_positive_int :: "int option \<Rightarrow> unit result" where
  "validate_optional_positive_int v = ensure (opt_all (\<lambda>x. 0 < x) v) InvalidGatewayKeyLimitsError"

definition rate_limit_keys :: "string list" where
  "rate_limit_keys = [''requests_per_minute'', ''tokens_per_minute'', ''max_concurrent_requests'', ''window_seconds'']"

type_synonym rate_policy = "(string \<times> int option) list"

text \<open>\<open>policy.get(key)\<close>\<close>

definition rate_get :: "rate_policy \<Rightarrow> string \<Rightarrow> int option" where
  "rate_get policy key = (case map_of policy key of Some v \<Rightarrow> v | None \<Rightarrow> None)"

fun normalized_rate_limits :: "string list \<Rightarrow> rate_policy \<Rightarrow> rate_policy result" where
  "normalized_rate_limits [] policy = Inr []"
| "normalized_rate_limits (key # keys) policy =
     (let first = rate_get policy key;
          v = (if key = ''max_concurrent_requests'' \<and> first = None then rate_get policy ''concurrent_requests'' else first)
      in if v = None then normalized_rate_limits keys policy
         else sbind (validate_optional_positive_int v) (\<lambda>_.
              sbind (normalized_rate_limits keys policy) (\<lambda>rest. Inr ((key, v) # rest))))"

definition validate_rate_limit_policy :: "rate_policy option \<Rightarrow> rate_policy result" where
  "validate_rate_limit_policy policy =
     (case policy of
        None \<Rightarrow> Inr []
      | Some p \<Rightarrow>
          if p = [] then Inr []
          else sbind (ensure (set (map fst p) \<subseteq> insert ''concurrent_requests'' (set rate_limit_keys)) InvalidGatewayKeyLimitsError)
                 (\<lambda>_. normalized_rate_limits rate_limit_keys p))"

definition strict_bounded_int :: "pyval \<Rightarrow> int \<Rightarrow> int result" where
  "strict_bounded_int v limit =
     (case v of
        PInt i \<Rightarrow> sbind (ensure (0 < i \<and> i \<le> limit) InvalidGatewayKeyLimitsError) (\<lambda>_. Inr i)
      | _ \<Rightarrow> Inl InvalidGatewayKeyLimitsError)"

text \<open>Keys of a dict are texts here, so the check that they are has no counterpart.\<close>

definition validate_lazy_throttling_policy :: "gateway_settings \<Rightarrow> pyval \<Rightarrow> pydict option result" where
  "validate_lazy_throttling_policy s policy =
     (case policy of
        PNone \<Rightarrow> Inr None
      | PDict d \<Rightarrow>
          sbind (ensure (set (map fst d) \<subseteq> {''mode'', ''max_wait_seconds'', ''max_waiting_requests''})
                   InvalidGatewayKeyLimitsError) (\<lambda>_.
          (let mode = dget d ''mode'' in
           if mode = PNone then
             sbind (ensure (map_of d ''max_wait_seconds'' = None \<and> map_of d ''max_waiting_requests'' = None)
                      InvalidGatewayKeyLimitsError) (\<lambda>_. Inr None)
           else if mode = PStr ''reject'' then Inr None
           else if mode = PStr ''wait'' then
             sbind (strict_bounded_int (dget_default d ''max_wait_seconds'' (PInt 30)) (st_lazy_max_wait_seconds s)) (\<lambda>wait.
             sbind (strict_bounded_int (dget_default d ''max_waiting_requests'' (PInt 2)) (st_lazy_max_waiting_per_key s)) (\<lambda>waiting.
             Inr (Some [(''mode'', PStr ''wait''), (''max_wait_seconds'', PInt wait), (''max_waiting_requests'', PInt waiting)])))
           else Inl InvalidGatewayKeyLimitsError))
      | _ \<Rightarrow> Inl InvalidGatewayKeyLimitsError)"

definition validate_chat_streaming_live_burn_policy :: "gateway_settings \<Rightarrow> live_burn_value \<Rightarrow> live_burn_policy result" where
  "validate_chat_streaming_live_burn_policy s policy =
     as_key_policy_error (normalize_chat_streaming_live_burn_policy policy
       (ls_max_abs_cost_margin_eur (st_chat_live_burn s)) (ls_max_abs_token_margin (st_chat_live_burn s)))"

definition key_purpose_str :: "key_purpose \<Rightarrow> string" where
  "key_purpose_str p = (case p of StandardPurpose \<Rightarrow> ''standard'' | TrustedCalibration \<Rightarrow> ''trusted_calibration'')"

definition policy_mode_str :: "capability_policy_mode \<Rightarrow> string" where
  "policy_mode_str m =
     (case m of StandardMode \<Rightarrow> ''standard'' | TrustedCalibrationDiscovery \<Rightarrow> ''trusted_calibration_discovery'')"

definition validate_key_purpose_and_policy_mode ::
  "string \<Rightarrow> string \<Rightarrow> (key_purpose \<times> capability_policy_mode) result" where
  "validate_key_purpose_and_policy_mode key_purpose mode =
     (let purpose = py_strip (if key_purpose = [] then ''standard'' else key_purpose);
          m = py_strip (if mode = [] then policy_mode_str (default_capability_policy_mode_for_purpose
                  (if purpose = ''trusted_calibration'' then TrustedCalibration else StandardPurpose)) else mode)
      in if purpose \<noteq> ''standard'' \<and> purpose \<noteq> ''trusted_calibration'' then Inl (InvalidGatewayKeyPolicyError ''key_purpose'')
         else if m \<noteq> ''standard'' \<and> m \<noteq> ''trusted_calibration_discovery''
         then Inl (InvalidGatewayKeyPolicyError ''capability_policy_mode'')
         else if purpose = ''standard'' \<and> m \<noteq> ''standard'' then Inl (InvalidGatewayKeyPolicyError ''capability_policy_mode'')
         else if purpose = ''trusted_calibration'' \<and> m \<noteq> ''trusted_calibration_discovery''
         then Inl (InvalidGatewayKeyPolicyError ''capability_policy_mode'')
         else Inr (if purpose = ''standard'' then (StandardPurpose, StandardMode)
                   else (TrustedCalibration, TrustedCalibrationDiscovery)))"

definition blank :: "string option \<Rightarrow> bool" where
  "blank reason = (case reason of None \<Rightarrow> True | Some r \<Rightarrow> py_strip r = [])"

text \<open>\<open>valid_until - valid_from\<close> of a naive and an aware datetime is a \<open>TypeError\<close>.\<close>

definition validate_trusted_calibration_create_policy ::
  "gateway_settings \<Rightarrow> key_purpose \<Rightarrow> capability_policy_mode \<Rightarrow> pydatetime \<Rightarrow> pydatetime \<Rightarrow> int option \<Rightarrow> bool \<Rightarrow> string option
     \<Rightarrow> unit result" where
  "validate_trusted_calibration_create_policy s purpose mode valid_from valid_until request_limit confirmed reason =
     (if \<not> is_trusted_calibration_key purpose mode then Inr ()
      else
        sbind (ensure (st_calibration_keys_enabled s) (InvalidGatewayKeyPolicyError ''key_purpose'')) (\<lambda>_.
        sbind (ensure confirmed (InvalidGatewayKeyPolicyError ''confirm_trusted_calibration'')) (\<lambda>_.
        sbind (ensure (\<not> blank reason) (InvalidGatewayKeyPolicyError ''reason'')) (\<lambda>_.
        sbind (the_or_raise request_limit InvalidGatewayKeyLimitsError) (\<lambda>n.
        sbind (ensure (n \<le> st_trusted_calibration_max_requests s) InvalidGatewayKeyLimitsError) (\<lambda>_.
        sbind (ensure (is_aware valid_from = is_aware valid_until) PyTypeError) (\<lambda>_.
        ensure (micros valid_until - micros valid_from \<le> st_trusted_calibration_max_valid_days s * 86400 * 1000000)
          InvalidGatewayKeyValidityError)))))))"

definition validate_external_tool_limits :: "int option \<Rightarrow> int option \<Rightarrow> decimal option \<Rightarrow> unit result" where
  "validate_external_tool_limits requests tokens cost =
     (case (requests, tokens, cost) of
        (Some r, Some t, Some c) \<Rightarrow> ensure (0 < r \<and> 0 < t \<and> 0 < c) (InvalidGatewayKeyPolicyError ''external_tool_policy'')
      | _ \<Rightarrow> Inl (InvalidGatewayKeyPolicyError ''external_tool_policy''))"

definition validate_external_tool_policy ::
  "gateway_settings \<Rightarrow> pyval \<Rightarrow> key_purpose \<Rightarrow> int option \<Rightarrow> int option \<Rightarrow> decimal option \<Rightarrow> bool \<Rightarrow> string option \<Rightarrow> bool
     \<Rightarrow> key_policy result" where
  "validate_external_tool_policy s v purpose requests tokens cost confirmed reason require_reason =
     (let parsed = parse_key_external_tool_policy v (st_ceilings s) in
      sbind (ensure (pp_valid parsed) (InvalidGatewayKeyPolicyError ''external_tool_policy'')) (\<lambda>_.
      sbind (the_or_raise (pp_policy parsed) (InvalidGatewayKeyPolicyError ''external_tool_policy'')) (\<lambda>policy.
      if kp_mode policy \<noteq> ExternalToolFenced then Inr policy
      else
        sbind (ensure (purpose = StandardPurpose) (InvalidGatewayKeyPolicyError ''external_tool_policy'')) (\<lambda>_.
        sbind (ensure confirmed (InvalidGatewayKeyPolicyError ''confirm_external_tool_fenced'')) (\<lambda>_.
        sbind (ensure (require_reason \<longrightarrow> \<not> blank reason) (InvalidGatewayKeyPolicyError ''reason'')) (\<lambda>_.
        sbind (validate_external_tool_limits requests tokens cost) (\<lambda>_. Inr policy)))))))"

section \<open>Policies read from a row\<close>

definition responses_policy_from_key :: "gateway_key \<Rightarrow> pydict option" where
  "responses_policy_from_key k = responses_policy_of (gk_metadata_json k)"

definition external_tool_policy_from_key :: "gateway_settings \<Rightarrow> gateway_key \<Rightarrow> key_policy" where
  "external_tool_policy_from_key s k = external_tool_policy_of s (gk_metadata_json k)"

definition limit_entry :: "string \<Rightarrow> int option \<Rightarrow> (string \<times> int) list" where
  "limit_entry key v = (case v of None \<Rightarrow> [] | Some i \<Rightarrow> [(key, i)])"

definition rate_limit_policy_from_key :: "gateway_key \<Rightarrow> (string \<times> int) list option" where
  "rate_limit_policy_from_key k =
     (let policy = limit_entry ''requests_per_minute'' (gk_rate_limit_requests_per_minute k)
                   @ limit_entry ''tokens_per_minute'' (gk_rate_limit_tokens_per_minute k)
                   @ limit_entry ''max_concurrent_requests'' (gk_max_concurrent_requests k)
                   @ limit_entry ''window_seconds'' (window_seconds_of (gk_metadata_json k))
      in if policy = [] then None else Some policy)"

definition lazy_throttling_policy_from_key :: "gateway_settings \<Rightarrow> gateway_key \<Rightarrow> pydict option" where
  "lazy_throttling_policy_from_key s k =
     (case parse_lazy_throttling_policy_metadata (dget (gk_metadata_json k) ''lazy_throttling_policy'')
             (st_lazy_max_wait_seconds s) (st_lazy_max_waiting_per_key s) of
        None \<Rightarrow> None
      | Some p \<Rightarrow> if is_wait_mode p then Some (lazy_to_metadata p) else None)"

definition chat_streaming_live_burn_policy_from_key :: "gateway_settings \<Rightarrow> gateway_key \<Rightarrow> live_burn_policy result" where
  "chat_streaming_live_burn_policy_from_key s k =
     live_burn_of chat_streaming_live_burn_policy_from_metadata (st_chat_live_burn s) (gk_metadata_json k)"

definition allowed_providers_from_key :: "gateway_settings \<Rightarrow> gateway_key \<Rightarrow> string list option" where
  "allowed_providers_from_key s k =
     (case dget (gk_metadata_json k) ''allowed_providers'' of
        PNone \<Rightarrow> None
      | PList vs \<Rightarrow> Some (filter (\<lambda>p. p \<noteq> []) (map (\<lambda>v. py_strip (py_str (st_text s) v)) vs))
      | _ \<Rightarrow> Some [])"

section \<open>Facts\<close>

lemma validate_endpoint_values_Inr:
  "validate_endpoint_values es = Inr u \<Longrightarrow> set es \<subseteq> set implemented_client_endpoints"
  by (induction es) auto

lemma matching_of_Inr: "matching_of m rs = Inr found \<Longrightarrow> r \<in> set found \<Longrightarrow> r \<in> set rs \<and> matches_model_route m r = Inr True"
  by (induction rs arbitrary: found) (auto split: if_splits)

lemma candidate_routes_Inr:
  "candidate_routes m es catalog = Inr found \<Longrightarrow> r \<in> set found \<Longrightarrow>
     \<exists>e \<in> set es. r \<in> set (list_enabled_model_routes (Some e) catalog) \<and> matches_model_route m r = Inr True"
proof (induction es arbitrary: found)
  case (Cons e es)
  then obtain here rest where h: "matching_of m (list_enabled_model_routes (Some e) catalog) = Inr here"
    "candidate_routes m es catalog = Inr rest" "found = here @ rest" by auto
  then show ?case using Cons matching_of_Inr[OF h(1)] by auto
qed simp

lemma models_have_routes_Inr:
  "models_have_routes ms es visible catalog = Inr u \<Longrightarrow> m \<in> set ms \<Longrightarrow>
     \<exists>e \<in> set es. \<exists>r \<in> set (list_enabled_model_routes (Some e) catalog).
        matches_model_route m r = Inr True \<and> (visible \<longrightarrow> mr_visible_in_models r)"
proof (induction ms)
  case (Cons m' ms)
  then obtain found where f: "candidate_routes m' es catalog = Inr found"
    "filter (\<lambda>r. visible \<longrightarrow> mr_visible_in_models r) found \<noteq> []" "models_have_routes ms es visible catalog = Inr u" by auto
  then obtain r where r: "r \<in> set found" "visible \<longrightarrow> mr_visible_in_models r" by (auto simp: filter_empty_conv)
  show ?case
  proof (cases "m = m'")
    case True
    then show ?thesis using candidate_routes_Inr[OF f(1) r(1)] r(2) by blast
  next
    case False
    then show ?thesis using Cons.IH[OF f(3)] Cons.prems(2) by simp
  qed
qed simp

text \<open>The endpoints that the route check looks at.\<close>

definition checked_endpoints :: "request_policy \<Rightarrow> string set" where
  "checked_endpoints p =
     (if rq_allow_all_endpoints p \<or> set (rq_allowed_endpoints p) = {''/v1/models''} then set routed_endpoints
      else set routed_endpoints \<inter> set (rq_allowed_endpoints p))"

lemma allowed_endpoints_not_models_only: "set implemented_client_endpoints \<noteq> {''/v1/models''}"
  by (auto simp: implemented_client_endpoints_def)

lemma routed_implemented: "set routed_endpoints \<subseteq> set implemented_client_endpoints"
  by (simp add: routed_endpoints_def implemented_client_endpoints_def)

lemma validate_policy_elim:
  assumes "validate_gateway_key_policy p (Some catalog) = Inr n"
  shows "set (rq_allowed_endpoints n) \<subseteq> set implemented_client_endpoints"
    and "rq_allow_all_endpoints n \<or> rq_allowed_endpoints n \<noteq> []"
    and "m \<in> set (rq_allowed_models n) \<Longrightarrow> \<exists>e \<in> checked_endpoints n. \<exists>r \<in> set (list_enabled_model_routes (Some e) catalog).
           matches_model_route m r = Inr True"
    and "\<not> rq_allow_all_models n \<Longrightarrow> rq_allowed_models n = [] \<Longrightarrow> \<not> rq_allow_all_endpoints n \<Longrightarrow>
           set (rq_allowed_endpoints n) \<inter> set model_backed_endpoints = {}"
proof -
  let ?eff = "if rq_allow_all_endpoints n then set implemented_client_endpoints else set (rq_allowed_endpoints n)"
  from assms have v: "validate_gateway_key_policy_values p = Inr n"
    and b: "rq_allow_all_models n \<or> rq_allowed_models n \<noteq> [] \<or> ?eff \<inter> set model_backed_endpoints = {}"
    and r: "rq_allowed_models n \<noteq> [] \<Longrightarrow> validate_models_have_routes (rq_allowed_models n) ?eff catalog = Inr ()"
    unfolding validate_gateway_key_policy_def Let_def by (auto split: if_splits)
  have e: "rq_allow_all_endpoints n \<or> rq_allowed_endpoints n \<noteq> []" "validate_endpoint_values (rq_allowed_endpoints n) = Inr ()"
    using v by (auto simp: validate_gateway_key_policy_values_def validate_endpoints_def Let_def)
  show "set (rq_allowed_endpoints n) \<subseteq> set implemented_client_endpoints" by (rule validate_endpoint_values_Inr[OF e(2)])
  show "rq_allow_all_endpoints n \<or> rq_allowed_endpoints n \<noteq> []" by (rule e(1))
  show "\<not> rq_allow_all_models n \<Longrightarrow> rq_allowed_models n = [] \<Longrightarrow> \<not> rq_allow_all_endpoints n \<Longrightarrow>
           set (rq_allowed_endpoints n) \<inter> set model_backed_endpoints = {}" using b by simp
  assume m: "m \<in> set (rq_allowed_models n)"
  then have "validate_models_have_routes (rq_allowed_models n) ?eff catalog = Inr ()" using r by fastforce
  then obtain es vis where mr: "models_have_routes (rq_allowed_models n) es vis catalog = Inr ()"
    and es: "es = (if ?eff \<noteq> {} \<and> ?eff \<noteq> {''/v1/models''} then filter (\<lambda>e. e \<in> ?eff) routed_endpoints else routed_endpoints)"
    unfolding validate_models_have_routes_def Let_def by auto
  have "set es = checked_endpoints n"
    using e(1) routed_implemented allowed_endpoints_not_models_only
    unfolding es checked_endpoints_def by (cases "rq_allow_all_endpoints n") auto
  then show "\<exists>e \<in> checked_endpoints n. \<exists>r \<in> set (list_enabled_model_routes (Some e) catalog).
      matches_model_route m r = Inr True"
    using models_have_routes_Inr[OF mr m] by auto
qed

section \<open>Properties\<close>

text \<open>A request policy that passes validation names only implemented endpoints and allows at least one; every
  model it lists matches an enabled route of an endpoint that the key may call (of any routed endpoint for a key of the
  model list alone); and without a model, and without every model, it has no endpoint that needs one.\<close>

theorem validated_policy_is_routable:
  assumes "validate_gateway_key_policy p (Some catalog) = Inr n"
  shows "set (rq_allowed_endpoints n) \<subseteq> set implemented_client_endpoints
    \<and> (rq_allow_all_endpoints n \<or> rq_allowed_endpoints n \<noteq> [])
    \<and> (\<forall>m \<in> set (rq_allowed_models n). \<exists>e \<in> checked_endpoints n.
         \<exists>r \<in> set (list_enabled_model_routes (Some e) catalog). matches_model_route m r = Inr True)
    \<and> (rq_allow_all_models n \<or> rq_allowed_models n \<noteq> [] \<or> rq_allow_all_endpoints n
       \<or> set (rq_allowed_endpoints n) \<inter> set model_backed_endpoints = {})"
  using validate_policy_elim[OF assms] by blast

text \<open>C39: Embeddings routes are never consulted.  A key whose only endpoint is \<open>/v1/embeddings\<close> passes validation only
  when it allows every model: with a list of models it is refused although \<open>/v1/embeddings\<close> is an implemented endpoint
  that needs a model, whatever embeddings routes the catalog has.\<close>

theorem embeddings_key_allows_every_model:
  assumes "validate_gateway_key_policy p (Some catalog) = Inr n"
    and "rq_allowed_endpoints n = [''/v1/embeddings'']" "\<not> rq_allow_all_endpoints n"
  shows "rq_allow_all_models n \<and> rq_allowed_models n = []"
proof -
  have "checked_endpoints n = {}" using assms(2,3) by (simp add: checked_endpoints_def routed_endpoints_def)
  then have "rq_allowed_models n = []" using validate_policy_elim(3)[OF assms(1)] by (cases "rq_allowed_models n") auto
  then show ?thesis using validate_policy_elim(4)[OF assms(1)] assms(2,3) by (auto simp: model_backed_endpoints_def)
qed

section \<open>Samples\<close>

definition sample_request_policy :: request_policy where
  "sample_request_policy = \<lparr>rq_allowed_models = ['' m '', ''m''], rq_allowed_endpoints = [''/v1/chat/completions''],
     rq_allow_all_models = False, rq_allow_all_endpoints = False\<rparr>"

definition sample_embeddings_policy :: request_policy where
  "sample_embeddings_policy = \<lparr>rq_allowed_models = [], rq_allowed_endpoints = [''/v1/embeddings''],
     rq_allow_all_models = True, rq_allow_all_endpoints = False\<rparr>"

lemma sample_request_policy_valid:
  "validate_gateway_key_policy sample_request_policy (Some sample_catalog) = Inr (sample_request_policy\<lparr>rq_allowed_models := [''m'']\<rparr>)"
  by code_simp

lemma sample_embeddings_valid:
  "validate_gateway_key_policy sample_embeddings_policy (Some sample_catalog) = Inr sample_embeddings_policy"
  by code_simp

theorem validated_policy_is_routable_witness:
  "\<exists>e \<in> checked_endpoints (sample_request_policy\<lparr>rq_allowed_models := [''m'']\<rparr>).
     \<exists>r \<in> set (list_enabled_model_routes (Some e) sample_catalog). matches_model_route ''m'' r = Inr True"
  using validated_policy_is_routable[OF sample_request_policy_valid] by simp

theorem embeddings_key_allows_every_model_witness:
  "rq_allow_all_models sample_embeddings_policy \<and> rq_allowed_models sample_embeddings_policy = []
   \<and> validate_gateway_key_policy (sample_embeddings_policy\<lparr>rq_allowed_models := [''m'']\<rparr>) (Some sample_catalog)
       = Inl (InvalidGatewayKeyPolicyError ''allowed_models'')"
proof -
  have "validate_gateway_key_policy (sample_embeddings_policy\<lparr>rq_allowed_models := [''m'']\<rparr>) (Some sample_catalog)
      = Inl (InvalidGatewayKeyPolicyError ''allowed_models'')" by code_simp
  then show ?thesis
    using embeddings_key_allows_every_model[OF sample_embeddings_valid] by (simp add: sample_embeddings_policy_def)
qed

end
