(* ===== verification/KeyLifecycle.thy ===== *)
theory KeyLifecycle
  imports KeyPolicy QuotaSystem
begin

text \<open>
  The operations of \<open>services/key_service.py\<close> on one key: creation, rotation, the status changes, and the updates of
  validity, limits, request policy, external-tool policy, rate limits, lazy throttling, Chat live burn and usage counters.
  The typed configuration documents of the same service are not modelled.

  Every operation is one transaction: it locks the row, checks, updates and writes an audit row.  One reading of the
  clock stands for the several that an operation makes.  The ids of new rows, the clock and the random bytes of a key are arguments, as is \<open>utils/secrets.py\<close> (AES-GCM of a third-party package), which
  encrypts the delivery payload of a new key; the payload is the dict whose JSON text is encrypted, and the one-time
  secret goes to a table outside the model, so its row is part of the result.  An operation returns the row that the
  management result copies; formatting that copy for display is not modelled.

  Shown: administration keeps the invariant of the quota machine unless reserved counters are reset; a revoked key stays
  revoked, whatever services and administrators do; a new key authenticates with the plaintext handed out; and
  a rotation moves the credentials to a fresh key with the limits of the old one and counters at zero.
\<close>

section \<open>Audit rows\<close>

definition key_status_str :: "key_status \<Rightarrow> string" where
  "key_status_str st = (case st of KeyActive \<Rightarrow> ''active'' | KeySuspended \<Rightarrow> ''suspended'' | KeyRevoked \<Rightarrow> ''revoked'')"

definition pytime :: "pydatetime option \<Rightarrow> pyval" where
  "pytime v = (case v of None \<Rightarrow> PNone | Some t \<Rightarrow> PTimeStr t)"

definition pyuuid :: "uuid option \<Rightarrow> pyval" where
  "pyuuid v = (case v of None \<Rightarrow> PNone | Some u \<Rightarrow> PStr (uuid_str u))"

definition pydictopt :: "pydict option \<Rightarrow> pyval" where
  "pydictopt v = (case v of None \<Rightarrow> PNone | Some d \<Rightarrow> PDict d)"

definition pystrs :: "string list \<Rightarrow> pyval" where
  "pystrs xs = PList (map PStr xs)"

definition pyrates :: "(string \<times> int) list option \<Rightarrow> pyval" where
  "pyrates v = pydictopt (map_option (map (\<lambda>(key, i). (key, PInt i))) v)"

definition key_identity_values :: "gateway_key \<Rightarrow> pydict" where
  "key_identity_values k = [(''gateway_key_id'', PStr (uuid_str (gk_id k))), (''public_key_id'', PStr (gk_public_key_id k))]"

definition status_audit_values :: "gateway_key \<Rightarrow> pydict" where
  "status_audit_values k =
     key_identity_values k @ [(''status'', PStr (key_status_str (gk_status k))), (''revoked_at'', pytime (gk_revoked_at k)),
       (''revoked_reason'', pystr (gk_revoked_reason k))]"

definition validity_audit_values :: "gateway_key \<Rightarrow> pydict" where
  "validity_audit_values k =
     key_identity_values k @ [(''valid_from'', PTimeStr (gk_valid_from k)), (''valid_until'', PTimeStr (gk_valid_until k))]"

definition limits_audit_values :: "gateway_key \<Rightarrow> pydict" where
  "limits_audit_values k =
     key_identity_values k @ [(''cost_limit_eur'', pydecstr (gk_cost_limit_eur k)),
       (''token_limit_total'', pyint (gk_token_limit_total k)), (''request_limit_total'', pyint (gk_request_limit_total k))]"

definition rate_limit_audit_values :: "gateway_key \<Rightarrow> pydict" where
  "rate_limit_audit_values k = key_identity_values k @ [(''rate_limit_policy'', pyrates (rate_limit_policy_from_key k))]"

definition lazy_throttling_audit_values :: "gateway_settings \<Rightarrow> gateway_key \<Rightarrow> pydict" where
  "lazy_throttling_audit_values s k =
     key_identity_values k @ [(''lazy_throttling_policy'', pydictopt (lazy_throttling_policy_from_key s k))]"

definition chat_streaming_live_burn_audit_values :: "gateway_settings \<Rightarrow> gateway_key \<Rightarrow> pydict result" where
  "chat_streaming_live_burn_audit_values s k =
     sbind (chat_streaming_live_burn_policy_from_key s k) (\<lambda>policy.
     sbind (live_burn_to_metadata policy) (\<lambda>metadata.
     Inr (key_identity_values k @ [(''chat_streaming_live_burn_policy'', PDict metadata)])))"

definition external_tool_policy_audit_values :: "gateway_settings \<Rightarrow> gateway_key \<Rightarrow> pydict" where
  "external_tool_policy_audit_values s k =
     key_identity_values k @ [(''external_tool_policy'', PDict (key_policy_to_metadata (external_tool_policy_from_key s k)))]"

definition policy_audit_values :: "gateway_settings \<Rightarrow> gateway_key \<Rightarrow> pydict" where
  "policy_audit_values s k =
     key_identity_values k @ [(''allowed_models'', pystrs (gk_allowed_models k)),
       (''allowed_endpoints'', pystrs (gk_allowed_endpoints k)),
       (''allowed_providers'', case allowed_providers_from_key s k of None \<Rightarrow> PNone | Some ps \<Rightarrow> pystrs ps),
       (''allow_all_models'', PBool (gk_allow_all_models k)), (''allow_all_endpoints'', PBool (gk_allow_all_endpoints k))]"

definition usage_audit_values :: "gateway_key \<Rightarrow> pydict" where
  "usage_audit_values k =
     key_identity_values k @ [(''cost_used_eur'', PDecStr (gk_cost_used_eur k)), (''tokens_used_total'', PInt (gk_tokens_used_total k)),
       (''requests_used_total'', PInt (gk_requests_used_total k)), (''cost_reserved_eur'', PDecStr (gk_cost_reserved_eur k)),
       (''tokens_reserved_total'', PInt (gk_tokens_reserved_total k)),
       (''requests_reserved_total'', PInt (gk_requests_reserved_total k)),
       (''last_quota_reset_at'', pytime (gk_last_quota_reset_at k)), (''quota_reset_count'', PInt (gk_quota_reset_count k))]"

definition audit_gateway_key_change ::
  "uuid \<Rightarrow> string \<Rightarrow> gateway_key \<Rightarrow> uuid option \<Rightarrow> string option \<Rightarrow> pydict option \<Rightarrow> pydict option \<Rightarrow> db \<Rightarrow> db result" where
  "audit_gateway_key_change aid action k actor reason old new db =
     sbind (add_audit_log aid action ''gateway_key'' actor (Some (gk_id k)) old new None reason db) (\<lambda>(db', _). Inr db')"

section \<open>Row access\<close>

definition get_gateway_key :: "uuid \<Rightarrow> db \<Rightarrow> gateway_key result" where
  "get_gateway_key kid db = the_or_raise (get_gateway_key_by_id kid db) GatewayKeyNotFoundError"

text \<open>An update that raises when the row is gone.\<close>

definition must_update :: "(db \<times> bool) result \<Rightarrow> db result" where
  "must_update m = sbind m (\<lambda>(db', updated). sbind (ensure updated GatewayKeyNotFoundError) (\<lambda>_. Inr db'))"

text \<open>\<open>reason.strip() if reason else ""\<close>, refused when empty.\<close>

definition cleaned_reason :: "string option \<Rightarrow> gateway_error \<Rightarrow> string result" where
  "cleaned_reason reason e =
     (let r = (case reason of None \<Rightarrow> [] | Some r \<Rightarrow> py_strip r) in sbind (ensure (r \<noteq> []) e) (\<lambda>_. Inr r))"

record key_change =
  kc_gateway_key_id :: uuid
  kc_actor_admin_id :: "uuid option"
  kc_reason :: "string option"

section \<open>Status\<close>

definition suspend_gateway_key :: "uuid \<Rightarrow> key_change \<Rightarrow> db \<Rightarrow> (db \<times> gateway_key) result" where
  "suspend_gateway_key aid c db =
     sbind (get_gateway_key (kc_gateway_key_id c) db) (\<lambda>k.
     sbind (require_status k [KeyActive] ''suspend'') (\<lambda>_.
     sbind (must_update (update_gateway_key_status (gk_id k) KeySuspended None None db)) (\<lambda>db1.
     (let k' = with_status KeySuspended None None k in
      sbind (audit_gateway_key_change aid ''suspend_key'' k' (kc_actor_admin_id c) (kc_reason c)
               (Some (status_audit_values k)) (Some (status_audit_values k')) db1) (\<lambda>db2. Inr (db2, k'))))))"

definition activate_gateway_key :: "uuid \<Rightarrow> key_change \<Rightarrow> db \<Rightarrow> (db \<times> gateway_key) result" where
  "activate_gateway_key aid c db =
     sbind (get_gateway_key (kc_gateway_key_id c) db) (\<lambda>k.
     sbind (require_status k [KeySuspended] ''activate'') (\<lambda>_.
     sbind (validate_validity_window (gk_valid_from k) (gk_valid_until k)) (\<lambda>_.
     sbind (must_update (update_gateway_key_status (gk_id k) KeyActive None None db)) (\<lambda>db1.
     (let k' = with_status KeyActive None None k in
      sbind (audit_gateway_key_change aid ''activate_key'' k' (kc_actor_admin_id c) (kc_reason c)
               (Some (status_audit_values k)) (Some (status_audit_values k')) db1) (\<lambda>db2. Inr (db2, k')))))))"

text \<open>\<open>reason or default\<close>\<close>

definition reason_or :: "string \<Rightarrow> string option \<Rightarrow> string" where
  "reason_or d reason = (case reason of None \<Rightarrow> d | Some r \<Rightarrow> if r = [] then d else r)"

definition revoke_gateway_key :: "uuid \<Rightarrow> key_change \<Rightarrow> pydatetime \<Rightarrow> db \<Rightarrow> (db \<times> gateway_key) result" where
  "revoke_gateway_key aid c now db =
     sbind (get_gateway_key (kc_gateway_key_id c) db) (\<lambda>k.
     sbind (require_status k [KeyActive, KeySuspended] ''revoke'') (\<lambda>_.
     (let why = reason_or ''revoked by administrator'' (kc_reason c); k' = with_status KeyRevoked (Some now) (Some why) k in
      sbind (must_update (update_gateway_key_status (gk_id k) KeyRevoked (Some now) (Some why) db)) (\<lambda>db1.
      sbind (audit_gateway_key_change aid ''revoke_key'' k' (kc_actor_admin_id c) (kc_reason c)
               (Some (status_audit_values k)) (Some (status_audit_values k')) db1) (\<lambda>db2. Inr (db2, k'))))))"

section \<open>Validity, limits and policies\<close>

definition update_gateway_key_validity ::
  "uuid \<Rightarrow> key_change \<Rightarrow> pydatetime \<Rightarrow> pydatetime option \<Rightarrow> pydatetime \<Rightarrow> db \<Rightarrow> (db \<times> gateway_key) result" where
  "update_gateway_key_validity aid c valid_until valid_from now db =
     sbind (get_gateway_key (kc_gateway_key_id c) db) (\<lambda>k.
     sbind (ensure (gk_status k \<noteq> KeyRevoked) InvalidGatewayKeyStatusTransitionError) (\<lambda>_.
     (let start = (case valid_from of Some t \<Rightarrow> t | None \<Rightarrow> gk_valid_from k);
          action = (if micros (gk_valid_until k) < micros valid_until then ''extend_key'' else ''shorten_key'');
          k' = with_validity valid_from (Some valid_until) k
      in
      sbind (validate_validity_window start valid_until) (\<lambda>_.
      sbind (if micros start \<le> micros now \<and> micros now < micros valid_until then Inr ()
             else require_not_external_tool_fenced k) (\<lambda>_.
      sbind (must_update (update_gateway_key_validity_row (gk_id k) valid_from (Some valid_until) db)) (\<lambda>db1.
      sbind (audit_gateway_key_change aid action k' (kc_actor_admin_id c) (kc_reason c)
               (Some (validity_audit_values k)) (Some (validity_audit_values k')) db1) (\<lambda>db2. Inr (db2, k'))))))))"

definition update_gateway_key_limits ::
  "gateway_settings \<Rightarrow> uuid \<Rightarrow> key_change \<Rightarrow> decimal option \<Rightarrow> int option \<Rightarrow> int option \<Rightarrow> db \<Rightarrow> (db \<times> gateway_key) result" where
  "update_gateway_key_limits s aid c cost tokens requests db =
     sbind (get_gateway_key (kc_gateway_key_id c) db) (\<lambda>k.
     sbind (require_not_external_tool_fenced k) (\<lambda>_.
     sbind (validate_optional_positive_decimal cost) (\<lambda>cost_limit.
     sbind (validate_optional_positive_int tokens) (\<lambda>_.
     sbind (validate_optional_positive_int requests) (\<lambda>_.
     sbind (if kp_mode (external_tool_policy_from_key s k) = ExternalToolFenced
            then validate_external_tool_limits requests tokens cost_limit else Inr ()) (\<lambda>_.
     sbind (must_update (update_gateway_key_limits_row (gk_id k) cost_limit tokens requests db)) (\<lambda>db1.
     (let k' = with_limits cost_limit tokens requests k in
      sbind (audit_gateway_key_change aid ''update_key_limits'' k' (kc_actor_admin_id c) (kc_reason c)
               (Some (limits_audit_values k)) (Some (limits_audit_values k')) db1) (\<lambda>db2. Inr (db2, k'))))))))))"

definition update_gateway_key_policy ::
  "gateway_settings \<Rightarrow> uuid \<Rightarrow> key_change \<Rightarrow> request_policy \<Rightarrow> bool \<Rightarrow> string list option \<Rightarrow> catalog_db option \<Rightarrow> db
     \<Rightarrow> (db \<times> gateway_key) result" where
  "update_gateway_key_policy s aid c policy update_providers providers routes db =
     sbind (cleaned_reason (kc_reason c) (InvalidGatewayKeyPolicyError ''reason'')) (\<lambda>why.
     sbind (get_gateway_key (kc_gateway_key_id c) db) (\<lambda>k.
     sbind (require_not_external_tool_fenced k) (\<lambda>_.
     sbind (validate_gateway_key_policy policy routes) (\<lambda>p.
     sbind (must_update (update_gateway_key_request_policy (gk_id k) p db)) (\<lambda>db1.
     (let k1 = with_request_policy p k;
          metadata = (if update_providers then metadata_with_provider_policy (gk_metadata_json k1) providers
                      else gk_metadata_json k1);
          k' = with_metadata metadata k1
      in
      sbind (if metadata \<noteq> gk_metadata_json k1 then must_update (update_gateway_key_metadata (gk_id k) metadata db1)
             else Inr db1) (\<lambda>db2.
      sbind (audit_gateway_key_change aid ''update_key_policy'' k' (kc_actor_admin_id c) (Some why)
               (Some (policy_audit_values s k)) (Some (policy_audit_values s k')) db2) (\<lambda>db3. Inr (db3, k')))))))))"

definition metadata_with_external_tool_policy :: "pydict \<Rightarrow> key_policy \<Rightarrow> pydict" where
  "metadata_with_external_tool_policy metadata p = dset ''external_tool_policy'' (PDict (key_policy_to_metadata p)) metadata"

definition update_gateway_key_external_tool_policy ::
  "gateway_settings \<Rightarrow> uuid \<Rightarrow> key_change \<Rightarrow> pyval \<Rightarrow> bool \<Rightarrow> db \<Rightarrow> (db \<times> gateway_key) result" where
  "update_gateway_key_external_tool_policy s aid c policy confirmed db =
     sbind (cleaned_reason (kc_reason c) (InvalidGatewayKeyPolicyError ''reason'')) (\<lambda>why.
     sbind (get_gateway_key (kc_gateway_key_id c) db) (\<lambda>k.
     sbind (require_not_external_tool_fenced k) (\<lambda>_.
     sbind (validate_external_tool_policy s policy (gk_key_purpose k) (gk_request_limit_total k) (gk_token_limit_total k)
              (gk_cost_limit_eur k) confirmed (Some why) True) (\<lambda>p.
     (let k' = with_metadata (metadata_with_external_tool_policy (gk_metadata_json k) p) k in
      sbind (must_update (update_gateway_key_metadata (gk_id k) (gk_metadata_json k') db)) (\<lambda>db1.
      sbind (audit_gateway_key_change aid ''update_external_tool_policy'' k' (kc_actor_admin_id c) (Some why)
               (Some (external_tool_policy_audit_values s k)) (Some (external_tool_policy_audit_values s k')) db1)
        (\<lambda>db2. Inr (db2, k'))))))))"

definition update_gateway_key_rate_limits ::
  "uuid \<Rightarrow> key_change \<Rightarrow> rate_policy option \<Rightarrow> db \<Rightarrow> (db \<times> gateway_key) result" where
  "update_gateway_key_rate_limits aid c policy db =
     sbind (get_gateway_key (kc_gateway_key_id c) db) (\<lambda>k.
     sbind (validate_rate_limit_policy policy) (\<lambda>p.
     (let requests = rate_get p ''requests_per_minute''; tokens = rate_get p ''tokens_per_minute'';
          concurrent = rate_get p ''max_concurrent_requests''; window = rate_get p ''window_seconds'';
          k' = with_rate_limits requests tokens concurrent window k
      in
      sbind (must_update (update_gateway_key_rate_limit_policy (gk_id k) requests tokens concurrent window db)) (\<lambda>db1.
      sbind (audit_gateway_key_change aid ''update_key_rate_limits'' k' (kc_actor_admin_id c) (kc_reason c)
               (Some (rate_limit_audit_values k)) (Some (rate_limit_audit_values k')) db1) (\<lambda>db2. Inr (db2, k'))))))"

definition update_gateway_key_lazy_throttling ::
  "gateway_settings \<Rightarrow> uuid \<Rightarrow> key_change \<Rightarrow> pyval \<Rightarrow> db \<Rightarrow> (db \<times> gateway_key) result" where
  "update_gateway_key_lazy_throttling s aid c policy db =
     sbind (cleaned_reason (kc_reason c) InvalidGatewayKeyLimitsError) (\<lambda>why.
     sbind (get_gateway_key (kc_gateway_key_id c) db) (\<lambda>k.
     sbind (validate_lazy_throttling_policy s policy) (\<lambda>p.
     (let k' = with_metadata (metadata_with_lazy_throttling_policy (gk_metadata_json k) p) k in
      sbind (must_update (update_gateway_key_metadata (gk_id k) (gk_metadata_json k') db)) (\<lambda>db1.
      sbind (audit_gateway_key_change aid ''update_key_lazy_throttling'' k' (kc_actor_admin_id c) (Some why)
               (Some (lazy_throttling_audit_values s k)) (Some (lazy_throttling_audit_values s k')) db1)
        (\<lambda>db2. Inr (db2, k')))))))"

definition metadata_with_chat_policy :: "gateway_settings \<Rightarrow> pydict \<Rightarrow> live_burn_policy \<Rightarrow> pydict result" where
  "metadata_with_chat_policy s metadata policy =
     as_key_policy_error (metadata_with_chat_streaming_live_burn_policy metadata (PolicyObject policy)
       (ls_max_abs_cost_margin_eur (st_chat_live_burn s)) (ls_max_abs_token_margin (st_chat_live_burn s)))"

definition update_gateway_key_chat_streaming_live_burn ::
  "gateway_settings \<Rightarrow> uuid \<Rightarrow> key_change \<Rightarrow> pyval \<Rightarrow> db \<Rightarrow> (db \<times> gateway_key) result" where
  "update_gateway_key_chat_streaming_live_burn s aid c policy db =
     sbind (cleaned_reason (kc_reason c) (InvalidGatewayKeyPolicyError ''reason'')) (\<lambda>why.
     sbind (get_gateway_key (kc_gateway_key_id c) db) (\<lambda>k.
     sbind (validate_chat_streaming_live_burn_policy s (RawPolicy policy)) (\<lambda>p.
     sbind (chat_streaming_live_burn_audit_values s k) (\<lambda>old.
     sbind (metadata_with_chat_policy s (gk_metadata_json k) p) (\<lambda>metadata.
     (let k' = with_metadata metadata k in
      sbind (must_update (update_gateway_key_metadata (gk_id k) metadata db)) (\<lambda>db1.
      sbind (chat_streaming_live_burn_audit_values s k') (\<lambda>new.
      sbind (audit_gateway_key_change aid ''update_chat_streaming_live_burn_policy'' k' (kc_actor_admin_id c) (Some why)
               (Some old) (Some new) db1) (\<lambda>db2. Inr (db2, k'))))))))))"

definition reset_gateway_key_usage ::
  "uuid \<Rightarrow> key_change \<Rightarrow> bool \<Rightarrow> bool \<Rightarrow> pydatetime \<Rightarrow> db \<Rightarrow> (db \<times> gateway_key) result" where
  "reset_gateway_key_usage aid c reset_used reset_reserved now db =
     sbind (ensure (reset_used \<or> reset_reserved) InvalidGatewayKeyUsageResetError) (\<lambda>_.
     sbind (get_gateway_key (kc_gateway_key_id c) db) (\<lambda>k.
     sbind (require_not_external_tool_fenced k) (\<lambda>_.
     sbind (reset_gateway_key_usage_counters k reset_used reset_reserved now db) (\<lambda>(db1, k').
     sbind (audit_gateway_key_change aid ''reset_quota'' k' (kc_actor_admin_id c) (kc_reason c) (Some (usage_audit_values k))
              (Some (usage_audit_values k' @ [(''reset_used_counters'', PBool reset_used),
                 (''reset_reserved_counters'', PBool reset_reserved)])) db1) (\<lambda>db2. Inr (db2, k'))))))"

section \<open>Creation and rotation\<close>

text \<open>\<open>int(text)\<close>: an optional sign and at most 4300 digits, single underscores between digits.\<close>

definition py_int :: "string \<Rightarrow> int result" where
  "py_int text =
     (let (neg, d) = split_sign (py_strip text); digits = filter (\<lambda>c. c \<noteq> CHR ''_'') d
      in if d = [] \<or> hd d = CHR ''_'' \<or> last d = CHR ''_''
            \<or> list_ex (\<lambda>(a, b). a = CHR ''_'' \<and> b = CHR ''_'') (zip d (tl d)) then Inl PyValueError
         else int_of_digits neg digits)"

definition extract_version_number :: "string \<Rightarrow> int result" where
  "extract_version_number version =
     (case py_lower (py_strip version) of
        c # d \<Rightarrow> if c = CHR ''v'' \<and> d \<noteq> [] then int_of_digits False d else Inl PyValueError
      | [] \<Rightarrow> Inl PyValueError)"

record one_time_secret =
  ots_id :: uuid
  ots_purpose :: string
  ots_owner_id :: uuid
  ots_gateway_key_id :: uuid
  ots_encrypted_payload :: string
  ots_nonce :: string
  ots_encryption_key_version :: int
  ots_expires_at :: pydatetime
  ots_status :: string

text \<open>The draws and ids of one call: row ids of key, one-time secret and audit rows, random bytes, and the encryption.\<close>

record key_draws =
  kd_key_id :: uuid
  kd_secret_id :: uuid
  kd_audit_id :: uuid
  kd_audit_id2 :: uuid
  kd_id_bytes :: "byte list"
  kd_secret_bytes :: "byte list"
  kd_encrypt :: "pydict \<Rightarrow> string \<Rightarrow> (string \<times> string) result"

definition create_one_time_secret ::
  "gateway_settings \<Rightarrow> key_draws \<Rightarrow> string \<Rightarrow> pydict \<Rightarrow> string \<Rightarrow> uuid \<Rightarrow> uuid \<Rightarrow> pydatetime \<Rightarrow> one_time_secret result" where
  "create_one_time_secret s d purpose payload master owner kid now =
     sbind (kd_encrypt d payload master) (\<lambda>(ciphertext, nonce).
     sbind (extract_version_number (st_one_time_secret_key_version s)) (\<lambda>version.
     sbind (ensure (fits_integer version) (DataError ''one_time_secrets'')) (\<lambda>_.
     Inr \<lparr>ots_id = kd_secret_id d, ots_purpose = purpose, ots_owner_id = owner, ots_gateway_key_id = kid,
          ots_encrypted_payload = ciphertext, ots_nonce = nonce, ots_encryption_key_version = version,
          ots_expires_at = later now (st_email_key_secret_max_age_seconds s * 1000000), ots_status = ''pending''\<rparr>)))"

record create_gateway_key_input =
  ci_owner_id :: uuid
  ci_valid_from :: pydatetime
  ci_valid_until :: pydatetime
  ci_cohort_id :: "uuid option"
  ci_created_by_admin_id :: "uuid option"
  ci_cost_limit_eur :: "decimal option"
  ci_token_limit_total :: "int option"
  ci_request_limit_total :: "int option"
  ci_request_policy :: request_policy
  ci_key_purpose :: string
  ci_capability_policy_mode :: string
  ci_calibration_metadata :: pydict
  ci_responses_policy :: "pydict option"
  ci_template_id :: "uuid option"
  ci_template_revision_id :: "uuid option"
  ci_allowed_providers :: "string list option"
  ci_confirm_trusted_calibration :: bool
  ci_rate_limit_policy :: "rate_policy option"
  ci_lazy_throttling_policy :: pyval
  ci_chat_streaming_live_burn_policy :: pyval
  ci_external_tool_policy :: pyval
  ci_confirm_external_tool_fenced :: bool
  ci_note :: "string option"

record issued_key =
  ik_row :: gateway_key
  ik_generated :: generated_gateway_key
  ik_one_time_secret :: one_time_secret

text \<open>The credentials of a new key: prefix, active version, key and digest.\<close>

definition new_credentials ::
  "gateway_settings \<Rightarrow> key_draws \<Rightarrow> string \<Rightarrow> (string \<times> generated_gateway_key \<times> string) result" where
  "new_credentials s d secret =
     sbind (get_gateway_key_prefix s) (\<lambda>prefix.
     (let g = generate_gateway_key (kd_id_bytes d) (kd_secret_bytes d) prefix in
      sbind (hmac_sha256_token (gg_plaintext_key g) secret) (\<lambda>digest. Inr (prefix, g, digest))))"

definition effective_request_policy :: "key_purpose \<Rightarrow> capability_policy_mode \<Rightarrow> request_policy \<Rightarrow> request_policy" where
  "effective_request_policy purpose mode p =
     (if is_trusted_calibration_key purpose mode
      then \<lparr>rq_allowed_models = [], rq_allowed_endpoints = [], rq_allow_all_models = True, rq_allow_all_endpoints = True\<rparr>
      else p)"

definition created_audit_values ::
  "create_gateway_key_input \<Rightarrow> gateway_key \<Rightarrow> pydict \<Rightarrow> pydict option \<Rightarrow> key_policy \<Rightarrow> pydict" where
  "created_audit_values i k live_burn lazy policy =
     [(''gateway_key_id'', PStr (uuid_str (gk_id k))), (''public_key_id'', PStr (gk_public_key_id k)),
      (''owner_id'', PStr (uuid_str (ci_owner_id i))), (''cohort_id'', pyuuid (ci_cohort_id i)),
      (''valid_from'', PTimeStr (ci_valid_from i)), (''valid_until'', PTimeStr (ci_valid_until i)),
      (''cost_limit_eur'', if ci_cost_limit_eur i = Some 0 then PNone else pydecstr (ci_cost_limit_eur i)),
      (''token_limit_total'', pyint (ci_token_limit_total i)), (''request_limit_total'', pyint (ci_request_limit_total i)),
      (''allowed_models'', pystrs (gk_allowed_models k)), (''allowed_endpoints'', pystrs (gk_allowed_endpoints k)),
      (''allow_all_models'', PBool (gk_allow_all_models k)), (''allow_all_endpoints'', PBool (gk_allow_all_endpoints k)),
      (''key_purpose'', PStr (key_purpose_str (gk_key_purpose k))),
      (''capability_policy_mode'', PStr (policy_mode_str (gk_capability_policy_mode k))),
      (''calibration_metadata'', PDict (sanitize_metadata_mapping True None (Some (ci_calibration_metadata i)))),
      (''template_id'', pyuuid (ci_template_id i)), (''template_revision_id'', pyuuid (ci_template_revision_id i)),
      (''allowed_providers'', case ci_allowed_providers i of None \<Rightarrow> PNone | Some ps \<Rightarrow> pystrs ps),
      (''responses_policy'',
         pydictopt (map_option (\<lambda>p. sanitize_metadata_mapping True None (Some p)) (ci_responses_policy i))),
      (''chat_streaming_live_burn_policy'', PDict live_burn), (''rate_limit_policy'', pyrates (rate_limit_policy_from_key k)),
      (''lazy_throttling_policy'', pydictopt lazy), (''external_tool_policy'', PDict (key_policy_to_metadata policy))]"

definition create_gateway_key ::
  "gateway_settings \<Rightarrow> key_draws \<Rightarrow> pydatetime \<Rightarrow> create_gateway_key_input \<Rightarrow> catalog_db option \<Rightarrow> db
     \<Rightarrow> (db \<times> issued_key) result" where
  "create_gateway_key s d now i routes db =
     sbind (get_active_hmac_secret s) (\<lambda>(version, secret).
     sbind (the_or_raise (non_empty (st_one_time_secret_encryption_key s)) PyValueError) (\<lambda>master.
     sbind (new_credentials s d secret) (\<lambda>(prefix, g, digest).
     sbind (validate_key_purpose_and_policy_mode (ci_key_purpose i) (ci_capability_policy_mode i)) (\<lambda>(purpose, mode).
     sbind (validate_trusted_calibration_create_policy s purpose mode (ci_valid_from i) (ci_valid_until i)
              (ci_request_limit_total i) (ci_confirm_trusted_calibration i) (ci_note i)) (\<lambda>_.
     sbind (validate_external_tool_policy s (ci_external_tool_policy i) purpose (ci_request_limit_total i)
              (ci_token_limit_total i) (ci_cost_limit_eur i) (ci_confirm_external_tool_fenced i) (ci_note i) True) (\<lambda>ext.
     sbind (validate_rate_limit_policy (ci_rate_limit_policy i)) (\<lambda>rates.
     sbind (validate_lazy_throttling_policy s (ci_lazy_throttling_policy i)) (\<lambda>lazy.
     sbind (validate_chat_streaming_live_burn_policy s (RawPolicy (ci_chat_streaming_live_burn_policy i))) (\<lambda>chat.
     sbind (validate_gateway_key_policy (effective_request_policy purpose mode (ci_request_policy i)) routes) (\<lambda>rp.
     sbind (created_key_metadata (ci_allowed_providers i) (ci_responses_policy i) chat (rate_get rates ''window_seconds'') lazy
              (if kp_mode ext = ExternalToolFenced then Some ext else None) (st_chat_live_burn s) (st_responses_live_burn s)) (\<lambda>metadata.
     sbind (py_int version) (\<lambda>hmac_version.
     (let k = with_request_policy rp
                ((new_key (kd_key_id d) (gg_public_key_id g) prefix (gg_display_prefix g) digest (ci_owner_id i) (ci_cohort_id i)
                   (ci_valid_from i) (ci_valid_until i) (ci_cost_limit_eur i) (ci_token_limit_total i)
                   (ci_request_limit_total i) metadata hmac_version)
                 \<lparr>gk_key_purpose := purpose, gk_capability_policy_mode := mode,
                   gk_rate_limit_requests_per_minute := rate_get rates ''requests_per_minute'',
                   gk_rate_limit_tokens_per_minute := rate_get rates ''tokens_per_minute'',
                   gk_max_concurrent_requests := rate_get rates ''max_concurrent_requests''\<rparr>)
      in
     sbind (create_gateway_key_record k db) (\<lambda>(db1, _).
     sbind (create_one_time_secret s d ''gateway_key_email''
              [(''plaintext_key'', PStr (gg_plaintext_key g)), (''public_key_id'', PStr (gg_public_key_id g)),
               (''gateway_key_id'', PStr (uuid_str (gk_id k))), (''owner_id'', PStr (uuid_str (ci_owner_id i))),
               (''purpose'', PStr ''gateway_key_email'')] master (ci_owner_id i) (gk_id k) now) (\<lambda>ots.
     sbind (live_burn_to_metadata chat) (\<lambda>live_burn.
     sbind (add_audit_log (kd_audit_id d) ''gateway_key_created'' ''gateway_key'' (ci_created_by_admin_id i) (Some (gk_id k))
              None (Some (created_audit_values i k live_burn lazy ext)) None (ci_note i) db1) (\<lambda>(db2, _).
     Inr (db2, \<lparr>ik_row = k, ik_generated = g, ik_one_time_secret = ots\<rparr>))))))))))))))))))"

record rotate_gateway_key_input =
  ri_change :: key_change
  ri_revoke_old_key :: bool
  ri_new_valid_from :: "pydatetime option"
  ri_new_valid_until :: "pydatetime option"
  ri_preserve_limits :: bool
  ri_preserve_allowed_models :: bool
  ri_preserve_allowed_endpoints :: bool
  ri_preserve_rate_limit_policy :: bool

definition rotated_metadata :: "gateway_settings \<Rightarrow> bool \<Rightarrow> gateway_key \<Rightarrow> pydict result" where
  "rotated_metadata s preserve_rates old =
     (let base = metadata_with_provider_policy (metadata_with_responses_policy [] (responses_policy_from_key old))
                   (allowed_providers_from_key s old);
          windowed = (if preserve_rates
                      then metadata_with_rate_limit_window base
                             (map_of (case rate_limit_policy_from_key old of Some p \<Rightarrow> p | None \<Rightarrow> []) ''window_seconds'')
                      else base);
          lazied = metadata_with_lazy_throttling_policy windowed
                     (if preserve_rates then lazy_throttling_policy_from_key s old else None)
      in
      sbind (as_key_policy_error (metadata_with_responses_streaming_live_burn_policy lazied (PolicyObject default_live_burn_policy)
               (ls_max_abs_cost_margin_eur (st_responses_live_burn s)) (ls_max_abs_token_margin (st_responses_live_burn s)))) (\<lambda>m1.
      sbind (chat_streaming_live_burn_policy_from_key s old) (\<lambda>chat.
      sbind (metadata_with_chat_policy s m1 chat) (\<lambda>m2.
      Inr (metadata_with_external_tool_policy m2 (external_tool_policy_from_key s old))))))"

definition rotated_key ::
  "rotate_gateway_key_input \<Rightarrow> key_draws \<Rightarrow> string \<Rightarrow> generated_gateway_key \<Rightarrow> string \<Rightarrow> int \<Rightarrow> pydict \<Rightarrow> pydatetime \<Rightarrow> pydatetime
     \<Rightarrow> gateway_key \<Rightarrow> gateway_key" where
  "rotated_key i d prefix g digest version metadata valid_from valid_until old =
     (let keep = (\<lambda>b v. if b then v else None) in
      (new_key (kd_key_id d) (gg_public_key_id g) prefix (gg_display_prefix g) digest (gk_owner_id old) (gk_cohort_id old)
         valid_from valid_until (if ri_preserve_limits i then gk_cost_limit_eur old else None)
         (keep (ri_preserve_limits i) (gk_token_limit_total old)) (keep (ri_preserve_limits i) (gk_request_limit_total old))
         metadata version)
      \<lparr>gk_allowed_models := if ri_preserve_allowed_models i then gk_allowed_models old else [],
        gk_allowed_endpoints := if ri_preserve_allowed_endpoints i then gk_allowed_endpoints old else [],
        gk_allow_all_models := ri_preserve_allowed_models i \<and> gk_allow_all_models old,
        gk_allow_all_endpoints := ri_preserve_allowed_endpoints i \<and> gk_allow_all_endpoints old,
        gk_key_purpose := gk_key_purpose old, gk_capability_policy_mode := gk_capability_policy_mode old,
        gk_rate_limit_requests_per_minute := keep (ri_preserve_rate_limit_policy i) (gk_rate_limit_requests_per_minute old),
        gk_rate_limit_tokens_per_minute := keep (ri_preserve_rate_limit_policy i) (gk_rate_limit_tokens_per_minute old),
        gk_max_concurrent_requests := keep (ri_preserve_rate_limit_policy i) (gk_max_concurrent_requests old)\<rparr>)"

definition rotate_gateway_key ::
  "gateway_settings \<Rightarrow> key_draws \<Rightarrow> pydatetime \<Rightarrow> rotate_gateway_key_input \<Rightarrow> db \<Rightarrow> (db \<times> gateway_key \<times> issued_key) result" where
  "rotate_gateway_key s d now i db =
     (let c = ri_change i in
     sbind (get_gateway_key (kc_gateway_key_id c) db) (\<lambda>old.
     sbind (ensure (gk_status old \<noteq> KeyRevoked) GatewayKeyRotationError) (\<lambda>_.
     sbind (require_not_external_tool_fenced old) (\<lambda>_.
     sbind (get_active_hmac_secret s) (\<lambda>(version, secret).
     sbind (the_or_raise (non_empty (st_one_time_secret_encryption_key s)) GatewayKeyRotationError) (\<lambda>master.
     (let valid_from = (case ri_new_valid_from i of Some t \<Rightarrow> t | None \<Rightarrow> gk_valid_from old);
          valid_until = (case ri_new_valid_until i of Some t \<Rightarrow> t | None \<Rightarrow> gk_valid_until old) in
     sbind (validate_validity_window valid_from valid_until) (\<lambda>_.
     sbind (ensure (kp_mode (external_tool_policy_from_key s old) = ExternalToolFenced \<longrightarrow> ri_preserve_limits i)
              GatewayKeyRotationError) (\<lambda>_.
     sbind (new_credentials s d secret) (\<lambda>(prefix, g, digest).
     sbind (rotated_metadata s (ri_preserve_rate_limit_policy i) old) (\<lambda>metadata.
     sbind (py_int version) (\<lambda>hmac_version.
     (let k = rotated_key i d prefix g digest hmac_version metadata valid_from valid_until old in
     sbind (create_gateway_key_record k db) (\<lambda>(db1, _).
     sbind (create_one_time_secret s d ''gateway_key_rotation_email''
              [(''plaintext_key'', PStr (gg_plaintext_key g)), (''public_key_id'', PStr (gg_public_key_id g)),
               (''gateway_key_id'', PStr (uuid_str (gk_id k))), (''old_gateway_key_id'', PStr (uuid_str (gk_id old))),
               (''owner_id'', PStr (uuid_str (gk_owner_id old))), (''purpose'', PStr ''gateway_key_rotation_email'')]
              master (gk_owner_id old) (gk_id k) now) (\<lambda>ots.
     (let why = reason_or ''rotated by administrator'' (kc_reason c);
          old' = (if ri_revoke_old_key i then with_status KeyRevoked (Some now) (Some why) old else old) in
     sbind (if ri_revoke_old_key i
            then must_update (update_gateway_key_status (gk_id old) KeyRevoked (Some now) (Some why) db1)
            else Inr db1) (\<lambda>db2.
     sbind (audit_gateway_key_change (kd_audit_id d) ''rotate_key'' old' (kc_actor_admin_id c) (kc_reason c)
              (Some (status_audit_values old))
              (Some (status_audit_values old' @ [(''new_gateway_key_id'', PStr (uuid_str (gk_id k))),
                 (''new_public_key_id'', PStr (gg_public_key_id g)), (''old_key_revoked'', PBool (ri_revoke_old_key i))])) db2) (\<lambda>db3.
     sbind (audit_gateway_key_change (kd_audit_id2 d) ''gateway_key_rotation_created'' k (kc_actor_admin_id c) (kc_reason c) None
              (Some [(''gateway_key_id'', PStr (uuid_str (gk_id k))), (''public_key_id'', PStr (gg_public_key_id g)),
                     (''owner_id'', PStr (uuid_str (gk_owner_id old))), (''cohort_id'', pyuuid (gk_cohort_id old)),
                     (''valid_from'', PTimeStr valid_from), (''valid_until'', PTimeStr valid_until),
                     (''old_gateway_key_id'', PStr (uuid_str (gk_id old))),
                     (''one_time_secret_id'', PStr (uuid_str (ots_id ots)))]) db3) (\<lambda>db4.
     Inr (db4, old', \<lparr>ik_row = k, ik_generated = g, ik_one_time_secret = ots\<rparr>))))))))))))))))))))"

section \<open>What administration does to the tables\<close>

text \<open>An administered row keeps id, credentials and fence; it leaves the revoked status never, and changes reserved
  counters only by a reset.\<close>

definition administered :: "bool \<Rightarrow> gateway_key \<Rightarrow> gateway_key \<Rightarrow> bool" where
  "administered z k k' =
     (gk_id k' = gk_id k \<and> gk_public_key_id k' = gk_public_key_id k \<and> gk_token_hash k' = gk_token_hash k
      \<and> gk_hmac_key_version k' = gk_hmac_key_version k
      \<and> gk_fence_state k' = gk_fence_state k \<and> gk_fence_reservation_id k' = gk_fence_reservation_id k
      \<and> (gk_status k = KeyRevoked \<longrightarrow> gk_status k' = KeyRevoked)
      \<and> (z \<or> gk_cost_reserved_eur k' = gk_cost_reserved_eur k \<and> gk_tokens_reserved_total k' = gk_tokens_reserved_total k
             \<and> gk_requests_reserved_total k' = gk_requests_reserved_total k))"

definition unused_key :: "gateway_key \<Rightarrow> bool" where
  "unused_key k =
     (gk_fence_state k = FenceNone \<and> gk_cost_used_eur k = 0 \<and> gk_tokens_used_total k = 0 \<and> gk_requests_used_total k = 0
      \<and> gk_cost_reserved_eur k = 0 \<and> gk_tokens_reserved_total k = 0 \<and> gk_requests_reserved_total k = 0)"

inductive row_step :: "bool \<Rightarrow> db \<Rightarrow> db \<Rightarrow> bool" for z :: bool where
  Unchanged: "same_quota db db' \<Longrightarrow> row_step z db db'"
| Changed: "\<lbrakk>get_gateway_key_by_id kid db = Some k; administered z k k'; key_ok (stored_key k');
     db_keys db' = put_row gk_id (stored_key k') (db_keys db); db_reservations db' = db_reservations db\<rbrakk>
   \<Longrightarrow> row_step z db db'"
| Added: "\<lbrakk>unused_key k; key_ok (stored_key k); gk_id k \<notin> gk_id ` set (db_keys db);
     db_keys db' = db_keys db @ [stored_key k]; db_reservations db' = db_reservations db\<rbrakk>
   \<Longrightarrow> row_step z db db'"

abbreviation row_steps :: "bool \<Rightarrow> db \<Rightarrow> db \<Rightarrow> bool" where
  "row_steps z \<equiv> (row_step z)\<^sup>*\<^sup>*"

lemma must_update_Inr [simp]: "must_update m = Inr db' \<longleftrightarrow> m = Inr (db', True)"
  by (auto simp: must_update_def)

lemma audit_change_same: "audit_gateway_key_change aid a k actor r old new db = Inr db' \<Longrightarrow> same_quota db db'"
  by (auto simp: audit_gateway_key_change_def dest: add_audit_log_same)

lemma audit_change_step: "audit_gateway_key_change aid a k actor r old new db = Inr db' \<Longrightarrow> row_step z db db'"
  by (rule Unchanged[OF audit_change_same])

lemma update_row_Inr:
  assumes "update_row kid f db = Inr (db', True)"
  obtains k where "get_gateway_key_by_id kid db = Some k" "gateway_key_fits (f k)" "gateway_key_checks (stored_key (f k))"
    "db' = db\<lparr>db_keys := put_row gk_id (stored_key (f k)) (db_keys db)\<rparr>" "times_aware (f k)"
  using assms by (auto simp: update_row_def flush_simps split: option.splits)

lemma update_row_step:
  assumes "update_row kid f db = Inr (db', True)" "get_gateway_key_by_id kid db = Some k" "administered z k (f k)"
  shows "row_step z db db'"
  using assms(1)
proof (cases rule: update_row_Inr)
  case (1 k0)
  then have k0: "k0 = k" using assms(2) by simp
  show ?thesis
    by (rule Changed[OF assms(2,3) key_ok_stored[OF 1(2,3)[unfolded k0]]]) (simp_all add: 1(4)[unfolded k0])
qed

lemma create_record_Inr:
  assumes "create_gateway_key_record k db = Inr (db', k')"
  shows "k' = k" "db' = db\<lparr>db_keys := db_keys db @ [stored_key k]\<rparr>" "gateway_key_fits k" "gateway_key_checks (stored_key k)"
    "times_aware k" "gk_id k \<notin> gk_id ` set (db_keys db)" "gk_public_key_id k \<notin> gk_public_key_id ` set (db_keys db)"
  using assms by (auto simp: create_gateway_key_record_def list_ex_iff)

lemma create_record_step:
  assumes "create_gateway_key_record k db = Inr (db', k')" "unused_key k"
  shows "row_step z db db'"
  using create_record_Inr[OF assms(1)] by (intro Added[OF assms(2) key_ok_stored]) auto

lemma get_gateway_key_Inr [simp]: "get_gateway_key kid db = Inr k \<longleftrightarrow> get_gateway_key_by_id kid db = Some k"
  by (simp add: get_gateway_key_def)

lemma get_key_id: "get_gateway_key_by_id kid db = Some k \<Longrightarrow> get_gateway_key_by_id (gk_id k) db = Some k"
  using get_key_in by (metis)

lemma administered_updates:
  "st = KeyRevoked \<or> gk_status k \<noteq> KeyRevoked \<Longrightarrow> administered z k (with_status st a r k)"
  "administered z k (with_limits cost tokens requests k)"
  "administered z k (with_rate_limits rq tk cc w k)"
  "administered z k (with_metadata md k)"
  "administered z k (with_request_policy p k)"
  "administered z k (with_validity vf vu k)"
  by (auto simp: administered_def with_status_def with_limits_def with_rate_limits_def with_metadata_def
      with_request_policy_def with_validity_def)

lemmas row_updates = update_gateway_key_status_def update_gateway_key_limits_row_def
  update_gateway_key_rate_limit_policy_def update_gateway_key_metadata_def update_gateway_key_request_policy_def
  update_gateway_key_validity_row_def

text \<open>One update and its audit row.\<close>

lemma updated_then_audited:
  assumes "update_row (gk_id k) f db = Inr (db1, True)" "get_gateway_key_by_id kid db = Some k" "administered z k (f k)"
    and "audit_gateway_key_change aid a k' actor r old new db1 = Inr db2"
  shows "row_steps z db db2"
  using update_row_step[OF assms(1) get_key_id[OF assms(2)] assms(3)] audit_change_step[OF assms(4)]
  by (meson rtranclp.simps)

lemma require_status_Inr: "require_status k allowed op = Inr u \<longleftrightarrow> gk_status k \<in> set allowed"
  by (auto simp: require_status_def)

lemma new_key_unused:
  "unused_key ((new_key kid pid prefix hint h owner cohort vf vu cl tk rq md v)
     \<lparr>gk_key_purpose := pu, gk_capability_policy_mode := mo, gk_rate_limit_requests_per_minute := a,
       gk_rate_limit_tokens_per_minute := b, gk_max_concurrent_requests := c\<rparr>)"
  by (simp add: unused_key_def new_key_def)

lemma request_policy_unused: "unused_key (with_request_policy p k) = unused_key k"
  by (simp add: unused_key_def with_request_policy_def)

lemma rotated_unused: "unused_key (rotated_key i d prefix g h v md vf vu old)"
  by (simp add: unused_key_def rotated_key_def new_key_def Let_def)

section \<open>The operations as steps\<close>

lemma suspend_steps: "suspend_gateway_key aid c db = Inr (db', k') \<Longrightarrow> row_steps z db db'"
  by (auto simp: suspend_gateway_key_def Let_def require_status_Inr row_updates
      intro!: updated_then_audited administered_updates)

lemma activate_steps: "activate_gateway_key aid c db = Inr (db', k') \<Longrightarrow> row_steps z db db'"
  by (auto simp: activate_gateway_key_def Let_def require_status_Inr row_updates
      intro!: updated_then_audited administered_updates)

lemma revoke_steps: "revoke_gateway_key aid c now db = Inr (db', k') \<Longrightarrow> row_steps z db db'"
  by (auto simp: revoke_gateway_key_def Let_def require_status_Inr row_updates
      intro!: updated_then_audited administered_updates)

lemma validity_steps: "update_gateway_key_validity aid c vu vf now db = Inr (db', k') \<Longrightarrow> row_steps z db db'"
  by (auto simp: update_gateway_key_validity_def Let_def row_updates intro!: updated_then_audited administered_updates)

lemma limits_steps: "update_gateway_key_limits s aid c cost tokens requests db = Inr (db', k') \<Longrightarrow> row_steps z db db'"
  by (auto simp: update_gateway_key_limits_def Let_def row_updates intro!: updated_then_audited administered_updates)

lemma external_policy_steps:
  "update_gateway_key_external_tool_policy s aid c p conf db = Inr (db', k') \<Longrightarrow> row_steps z db db'"
  by (auto simp: update_gateway_key_external_tool_policy_def Let_def row_updates
      intro!: updated_then_audited administered_updates)

lemma rate_limits_steps: "update_gateway_key_rate_limits aid c p db = Inr (db', k') \<Longrightarrow> row_steps z db db'"
  by (auto simp: update_gateway_key_rate_limits_def Let_def row_updates intro!: updated_then_audited administered_updates)

lemma lazy_steps: "update_gateway_key_lazy_throttling s aid c p db = Inr (db', k') \<Longrightarrow> row_steps z db db'"
  by (auto simp: update_gateway_key_lazy_throttling_def Let_def row_updates
      intro!: updated_then_audited administered_updates)

lemma live_burn_steps: "update_gateway_key_chat_streaming_live_burn s aid c p db = Inr (db', k') \<Longrightarrow> row_steps z db db'"
  by (auto simp: update_gateway_key_chat_streaming_live_burn_def Let_def row_updates
      intro!: updated_then_audited administered_updates)

lemma put_row_get:
  assumes "db1 = db\<lparr>db_keys := put_row gk_id (stored_key k') (db_keys db)\<rparr>" "get_gateway_key_by_id kid db = Some k"
    "gk_id k' = kid"
  shows "get_gateway_key_by_id kid db1 = Some (stored_key k')"
  using assms get_key_in[OF assms(2)] by (auto simp: get_gateway_key_by_id_def get_put_row image_iff)

lemma with_metadata_row: "get_gateway_key_by_id kid db = Some k \<Longrightarrow> update_gateway_key_metadata kid md db = Inr (db', True)
    \<Longrightarrow> row_step z db db'"
  by (auto simp: update_gateway_key_metadata_def intro!: update_row_step administered_updates)

lemma policy_steps:
  assumes "update_gateway_key_policy s aid c p upd ps routes db = Inr (db', k')"
  shows "row_steps z db db'"
proof -
  let ?md = "\<lambda>k q. if upd then metadata_with_provider_policy (gk_metadata_json (with_request_policy q k)) ps
    else gk_metadata_json (with_request_policy q k)"
  from assms obtain k q db1 db2 b r old new where g: "get_gateway_key_by_id (kc_gateway_key_id c) db = Some k"
    and u: "update_gateway_key_request_policy (gk_id k) q db = Inr (db1, True)"
    and m0: "(if ?md k q \<noteq> gk_metadata_json (with_request_policy q k)
        then must_update (update_gateway_key_metadata (gk_id k) (?md k q) db1) else Inr db1) = Inr db2"
    and au: "audit_gateway_key_change aid ''update_key_policy'' k' b r old new db2 = Inr db'"
    unfolding update_gateway_key_policy_def Let_def by (auto split del: if_split)
  have m: "db2 = db1 \<or> update_gateway_key_metadata (gk_id k) (?md k q) db1 = Inr (db2, True)"
    using m0 by (auto split: if_splits)
  note u = u[unfolded update_gateway_key_request_policy_def]
  have g': "get_gateway_key_by_id (gk_id k) db = Some k" by (rule get_key_id[OF g])
  have s1: "row_step z db db1" by (rule update_row_step[OF u g' administered_updates(5)])
  have "get_gateway_key_by_id (gk_id k) db1 = Some (stored_key (with_request_policy q k))"
    using u by (cases rule: update_row_Inr) (use g' in \<open>auto intro!: put_row_get simp: with_request_policy_def\<close>)
  then have "row_steps z db1 db2" using m by (auto intro: with_metadata_row)
  moreover have "row_step z db2 db'" by (rule audit_change_step[OF au])
  ultimately show ?thesis using s1 by (meson converse_rtranclp_into_rtranclp rtranclp.rtrancl_into_rtrancl)
qed

lemma reset_steps:
  assumes "reset_gateway_key_usage aid c used reserved now db = Inr (db', k')" "reserved \<longrightarrow> z"
  shows "row_steps z db db'"
proof -
  from assms(1) obtain k db1 a b r old new where g: "get_gateway_key_by_id (kc_gateway_key_id c) db = Some k"
    and u: "reset_gateway_key_usage_counters k used reserved now db = Inr (db1, k')"
    and au: "audit_gateway_key_change aid a k' b r old new db1 = Inr db'"
    by (auto simp: reset_gateway_key_usage_def)
  have ad: "administered z k k'" and fl: "flush_key k' db = Inr db1"
    using u assms(2) by (auto simp: reset_gateway_key_usage_counters_def Let_def flush_simps administered_def)
  have "row_step z db db1"
    by (rule Changed[OF g ad key_ok_stored]) (use fl in \<open>auto simp: flush_simps\<close>)
  then show ?thesis using audit_change_step[OF au] by (meson rtranclp.simps)
qed

lemma create_elim:
  assumes "create_gateway_key s d now i routes db = Inr (db', c)"
  obtains version secret prefix g digest chat md hv db1 where
    "get_active_hmac_secret s = Inr (version, secret)" "new_credentials s d secret = Inr (prefix, g, digest)"
    "validate_chat_streaming_live_burn_policy s (RawPolicy (ci_chat_streaming_live_burn_policy i)) = Inr chat"
    "\<exists>rpol ps w lz f. created_key_metadata ps rpol chat w lz f (st_chat_live_burn s) (st_responses_live_burn s) = Inr md"
    "py_int version = Inr hv" "create_gateway_key_record (ik_row c) db = Inr (db1, ik_row c)" "same_quota db1 db'"
    "ik_generated c = g" "unused_key (ik_row c)" "gk_status (ik_row c) = KeyActive" "gk_id (ik_row c) = kd_key_id d"
    "gk_public_key_id (ik_row c) = gg_public_key_id g" "gk_token_hash (ik_row c) = digest"
    "gk_hmac_key_version (ik_row c) = hv" "gk_metadata_json (ik_row c) = md" "gk_valid_from (ik_row c) = ci_valid_from i"
    "gk_valid_until (ik_row c) = ci_valid_until i"
proof -
  obtain version secret where a: "get_active_hmac_secret s = Inr (version, secret)"
    using assms by (auto simp: create_gateway_key_def)
  obtain prefix g digest where n: "new_credentials s d secret = Inr (prefix, g, digest)"
    using assms a by (auto simp: create_gateway_key_def)
  from assms a n obtain purpose mode ext rates lazy chat rp md hv db1 row where
    v: "validate_chat_streaming_live_burn_policy s (RawPolicy (ci_chat_streaming_live_burn_policy i)) = Inr chat"
      "created_key_metadata (ci_allowed_providers i) (ci_responses_policy i) chat (rate_get rates ''window_seconds'') lazy
         (if kp_mode ext = ExternalToolFenced then Some ext else None) (st_chat_live_burn s) (st_responses_live_burn s) = Inr md"
      "py_int version = Inr hv" "create_gateway_key_record (ik_row c) db = Inr (db1, row)" "same_quota db1 db'"
    and c: "ik_generated c = g" "ik_row c = with_request_policy rp
                ((new_key (kd_key_id d) (gg_public_key_id g) prefix (gg_display_prefix g) digest (ci_owner_id i) (ci_cohort_id i)
                   (ci_valid_from i) (ci_valid_until i) (ci_cost_limit_eur i) (ci_token_limit_total i)
                   (ci_request_limit_total i) md hv)
                 \<lparr>gk_key_purpose := purpose, gk_capability_policy_mode := mode,
                   gk_rate_limit_requests_per_minute := rate_get rates ''requests_per_minute'',
                   gk_rate_limit_tokens_per_minute := rate_get rates ''tokens_per_minute'',
                   gk_max_concurrent_requests := rate_get rates ''max_concurrent_requests''\<rparr>)"
    unfolding create_gateway_key_def Let_def
    by (auto dest!: add_audit_log_same)
  have un: "unused_key (ik_row c)" unfolding c(2) request_policy_unused by (rule new_key_unused)
  have md: "\<exists>rpol ps w lz f. created_key_metadata ps rpol chat w lz f (st_chat_live_burn s) (st_responses_live_burn s) = Inr md"
    using v(2) by blast
  have row: "row = ik_row c" by (rule create_record_Inr(1)[OF v(4)])
  show ?thesis
    by (rule that[OF a n v(1) md v(3) v(4)[unfolded row] v(5) c(1) un])
      (simp_all add: c(2) with_request_policy_def new_key_def)
qed

lemma create_steps: "create_gateway_key s d now i routes db = Inr (db', c) \<Longrightarrow> row_steps z db db'"
proof (erule create_elim)
  fix db1 version secret prefix g digest chat md hv
  assume "create_gateway_key_record (ik_row c) db = Inr (db1, ik_row c)" "same_quota db1 db'" "unused_key (ik_row c)"
  then have "row_step z db db1" "row_step z db1 db'" by (auto intro: create_record_step Unchanged)
  then show ?thesis by (meson rtranclp.simps)
qed

lemma rotate_elim:
  assumes "rotate_gateway_key s d now i db = Inr (db', old', c)"
  obtains old version secret prefix g digest md hv vf vu why db1 db2 where
    "get_gateway_key_by_id (kc_gateway_key_id (ri_change i)) db = Some old" "gk_status old \<noteq> KeyRevoked"
    "gk_fence_state old = FenceNone"
    "get_active_hmac_secret s = Inr (version, secret)" "new_credentials s d secret = Inr (prefix, g, digest)"
    "rotated_metadata s (ri_preserve_rate_limit_policy i) old = Inr md" "py_int version = Inr hv"
    "ik_row c = rotated_key i d prefix g digest hv md vf vu old" "ik_generated c = g"
    "create_gateway_key_record (ik_row c) db = Inr (db1, ik_row c)"
    "if ri_revoke_old_key i then update_gateway_key_status (gk_id old) KeyRevoked (Some now) (Some why) db1 = Inr (db2, True)
     else db2 = db1" "same_quota db2 db'"
    "vf = (case ri_new_valid_from i of Some t \<Rightarrow> t | None \<Rightarrow> gk_valid_from old)"
    "vu = (case ri_new_valid_until i of Some t \<Rightarrow> t | None \<Rightarrow> gk_valid_until old)"
proof -
  let ?vf = "\<lambda>old. case ri_new_valid_from i of Some t \<Rightarrow> t | None \<Rightarrow> gk_valid_from old"
  let ?vu = "\<lambda>old. case ri_new_valid_until i of Some t \<Rightarrow> t | None \<Rightarrow> gk_valid_until old"
  let ?why = "reason_or ''rotated by administrator'' (kc_reason (ri_change i))"
  from assms obtain old version secret where a:
    "get_gateway_key_by_id (kc_gateway_key_id (ri_change i)) db = Some old" "gk_status old \<noteq> KeyRevoked"
    "require_not_external_tool_fenced old = Inr ()" "get_active_hmac_secret s = Inr (version, secret)"
    by (auto simp: rotate_gateway_key_def Let_def)
  obtain prefix g digest where n: "new_credentials s d secret = Inr (prefix, g, digest)"
    using assms a by (auto simp: rotate_gateway_key_def Let_def)
  from assms a n obtain md hv db1 db2 db3 row b1 r1 o1 n1 b2 r2 o2 n2 k2 k3 where
    m: "rotated_metadata s (ri_preserve_rate_limit_policy i) old = Inr md" "py_int version = Inr hv"
    "ik_row c = rotated_key i d prefix g digest hv md (?vf old) (?vu old) old" "ik_generated c = g"
    "create_gateway_key_record (ik_row c) db = Inr (db1, row)"
    and u: "(if ri_revoke_old_key i then must_update (update_gateway_key_status (gk_id old) KeyRevoked (Some now) (Some ?why) db1)
       else Inr db1) = Inr db2"
    and au: "audit_gateway_key_change (kd_audit_id d) ''rotate_key'' k2 b1 r1 o1 n1 db2 = Inr db3"
      "audit_gateway_key_change (kd_audit_id2 d) ''gateway_key_rotation_created'' k3 b2 r2 o2 n2 db3 = Inr db'"
    unfolding rotate_gateway_key_def Let_def by (auto split del: if_split)
  have row: "row = ik_row c" by (rule create_record_Inr(1)[OF m(5)])
  have f: "gk_fence_state old = FenceNone"
    using a(3) by (cases "gk_fence_state old") (auto simp: require_not_external_tool_fenced_def)
  have sq: "same_quota db2 db'" by (rule same_quota_trans[OF audit_change_same[OF au(1)] audit_change_same[OF au(2)]])
  show ?thesis
    by (rule that[OF a(1,2) f a(4) n m(1,2,3,4) m(5)[unfolded row] _ sq refl refl, of ?why]) (use u in \<open>auto split: if_splits\<close>)
qed

lemma rotate_steps: "rotate_gateway_key s d now i db = Inr (db', old', c) \<Longrightarrow> row_steps z db db'"
proof (erule rotate_elim)
  fix old version secret prefix g digest md hv vf vu why db1 db2
  assume a: "get_gateway_key_by_id (kc_gateway_key_id (ri_change i)) db = Some old"
    "ik_row c = rotated_key i d prefix g digest hv md vf vu old" "create_gateway_key_record (ik_row c) db = Inr (db1, ik_row c)"
    and u: "if ri_revoke_old_key i then update_gateway_key_status (gk_id old) KeyRevoked (Some now) (Some why) db1 = Inr (db2, True)
     else db2 = db1" and sq: "same_quota db2 db'"
  have s1: "row_step z db db1" using create_record_step[OF a(3)] rotated_unused unfolding a(2) by blast
  have "get_gateway_key_by_id (gk_id old) db1 = Some old"
    using get_key_id[OF a(1)] create_record_Inr(2)[OF a(3)] by (simp add: get_gateway_key_by_id_def get_row_append)
  then have "row_steps z db1 db2"
    using u by (auto simp: update_gateway_key_status_def intro!: update_row_step administered_updates split: if_splits)
  moreover have "row_step z db2 db'" by (rule Unchanged[OF sq])
  ultimately show ?thesis using s1 by (meson converse_rtranclp_into_rtranclp rtranclp.rtrancl_into_rtrancl)
qed

section \<open>The system with administration\<close>

text \<open>One committed operation of a service or of an administrator.  The flag \<open>z\<close> permits resets of reserved counters.\<close>

inductive system_step :: "bool \<Rightarrow> bool \<Rightarrow> db \<Rightarrow> db \<Rightarrow> bool" for e z :: bool where
  Service: "service_step e db db' \<Longrightarrow> system_step e z db db'"
| Suspend: "suspend_gateway_key aid c db = Inr (db', k) \<Longrightarrow> system_step e z db db'"
| Activate: "activate_gateway_key aid c db = Inr (db', k) \<Longrightarrow> system_step e z db db'"
| Revoke: "revoke_gateway_key aid c now db = Inr (db', k) \<Longrightarrow> system_step e z db db'"
| Validity: "update_gateway_key_validity aid c vu vf now db = Inr (db', k) \<Longrightarrow> system_step e z db db'"
| Limits: "update_gateway_key_limits s aid c cost tokens requests db = Inr (db', k) \<Longrightarrow> system_step e z db db'"
| RequestPolicy: "update_gateway_key_policy s aid c policy upd ps routes db = Inr (db', k) \<Longrightarrow> system_step e z db db'"
| ExternalTools: "update_gateway_key_external_tool_policy s aid c v conf db = Inr (db', k) \<Longrightarrow> system_step e z db db'"
| RateLimits: "update_gateway_key_rate_limits aid c rates db = Inr (db', k) \<Longrightarrow> system_step e z db db'"
| LazyThrottling: "update_gateway_key_lazy_throttling s aid c v db = Inr (db', k) \<Longrightarrow> system_step e z db db'"
| ChatLiveBurn: "update_gateway_key_chat_streaming_live_burn s aid c v db = Inr (db', k) \<Longrightarrow> system_step e z db db'"
| Reset: "\<lbrakk>reset_gateway_key_usage aid c used reserved now db = Inr (db', k); reserved \<longrightarrow> z\<rbrakk> \<Longrightarrow> system_step e z db db'"
| Create: "create_gateway_key s d now i routes db = Inr (db', issued) \<Longrightarrow> system_step e z db db'"
| Rotate: "rotate_gateway_key s d now ri db = Inr (db', old, issued) \<Longrightarrow> system_step e z db db'"

lemmas administration_steps = suspend_steps activate_steps revoke_steps validity_steps limits_steps policy_steps
  external_policy_steps rate_limits_steps lazy_steps live_burn_steps reset_steps create_steps rotate_steps

lemma system_step_cases: "system_step e z db db' \<Longrightarrow> service_step e db db' \<or> row_steps z db db'"
  by (cases rule: system_step.cases) (auto intro: administration_steps)

section \<open>Invariants\<close>

lemma wf_quota_row_step:
  assumes "row_step z db db'" "wf_quota db"
  shows "wf_quota db'"
  using assms(1)
proof cases
  case Unchanged
  then show ?thesis using assms(2) by (simp add: wf_quota_def same_quota_def)
next
  case (Changed kid k k')
  have "gk_id (stored_key k') \<in> gk_id ` set (db_keys db)"
    using get_key_in[OF Changed(1)] Changed(2) by (auto simp: administered_def)
  then show ?thesis by (rule wf_quota_put_key[OF assms(2) Changed(3) _ Changed(4,5)])
next
  case (Added k)
  then show ?thesis using assms(2) unfolding wf_quota_def by auto
qed

context reserved_counter
begin

lemma balanced_row_step:
  assumes "row_step z db db'" and wf: "wf_quota db" and b: "balanced db"
    and same: "\<And>k k'. administered z k k' \<Longrightarrow> key_ok k \<Longrightarrow> reserved (stored_key k') = reserved k"
    and zero: "\<And>k. unused_key k \<Longrightarrow> reserved (stored_key k) = 0"
  shows "balanced db'"
  using assms(1)
proof cases
  case Unchanged
  then show ?thesis using b by (simp add: balanced_def same_quota_def)
next
  case (Changed kid k k')
  have "key_ok k" by (rule wf_quota_key_ok[OF wf Changed(1)])
  then show ?thesis
    using Changed by (intro balanced_key_only[OF b Changed(1) _ _ Changed(4,5)]) (auto simp: administered_def same)
next
  case (Added k)
  have "\<forall>r \<in> set (db_reservations db). \<not> pending_of (gk_id k) r"
    using wf Added(3) unfolding wf_quota_def pending_of_def by metis
  then show ?thesis using b zero[OF Added(1)] unfolding balanced_def Added(4,5) by (auto simp: exposure_no_pending)
qed

end

lemma fence_exclusive_row_step:
  assumes "row_step z db db'" and wf: "wf_quota db" and x: "fence_exclusive db"
  shows "fence_exclusive db'"
  using assms(1)
proof cases
  case Unchanged
  then show ?thesis using x by (simp add: fence_exclusive_def same_quota_def)
next
  case (Changed kid k k')
  have k: "k \<in> set (db_keys db)" using get_key_in[OF Changed(1)] by simp
  have k': "gk_id (stored_key k') = gk_id k" "gk_fence_state (stored_key k') = gk_fence_state k"
    "gk_fence_reservation_id (stored_key k') = gk_fence_reservation_id k" using Changed(2) by (auto simp: administered_def)
  show ?thesis using x k k' unfolding fence_exclusive_def Changed(4,5) by (auto dest!: set_put_row)
next
  case (Added k)
  then show ?thesis using x unfolding fence_exclusive_def Added(4,5) by (auto simp: unused_key_def)
qed

lemma quota_inv_row_step:
  assumes "row_step False db db'" "quota_inv e db"
  shows "quota_inv e db'"
proof -
  have wf: "wf_quota db" using assms(2) by (simp add: quota_inv_def)
  have "cost.balanced db \<Longrightarrow> cost.balanced db'"
    by (rule cost.balanced_row_step[OF assms(1) wf])
       (auto simp: administered_def unused_key_def key_okD(1) pg9_nine_places)
  moreover have "tok.balanced db \<Longrightarrow> tok.balanced db'" "reqs.balanced db \<Longrightarrow> reqs.balanced db'"
    by (rule tok.balanced_row_step[OF assms(1) wf] reqs.balanced_row_step[OF assms(1) wf];
        simp add: administered_def unused_key_def)+
  ultimately show ?thesis
    using assms(2) wf_quota_row_step[OF assms(1)] fence_exclusive_row_step[OF assms(1)] by (auto simp: quota_inv_def)
qed

text \<open>No operation brings a revoked key back.\<close>

definition revoked_in :: "uuid \<Rightarrow> db \<Rightarrow> bool" where
  "revoked_in kid db = (kid \<in> gk_id ` set (db_keys db) \<and> (\<forall>k \<in> set (db_keys db). gk_id k = kid \<longrightarrow> gk_status k = KeyRevoked))"

lemma revoked_in_put:
  assumes "revoked_in kid db" "get_gateway_key_by_id i db = Some k" "gk_id k' = gk_id k"
    "gk_status k = KeyRevoked \<longrightarrow> gk_status k' = KeyRevoked" "db_keys db' = put_row gk_id (stored_key k') (db_keys db)"
  shows "revoked_in kid db'"
  using assms get_key_in[OF assms(2)] by (auto simp: revoked_in_def stored_key_def dest!: set_put_row)

lemma revoked_in_row_step:
  assumes "row_step z db db'" "revoked_in kid db"
  shows "revoked_in kid db'"
  using assms(1)
proof cases
  case (Changed i k k')
  then show ?thesis using revoked_in_put[OF assms(2) Changed(1) _ _ Changed(4)] by (simp add: administered_def)
next
  case (Added k)
  then show ?thesis using assms(2) by (auto simp: revoked_in_def)
qed (use assms(2) in \<open>simp add: revoked_in_def same_quota_def\<close>)

lemma revoked_in_quota_step:
  assumes "quota_step e db db'" and r: "revoked_in kid db"
  shows "revoked_in kid db'"
  using assms(1)
proof cases
  case Idle
  then show ?thesis using r by (simp add: revoked_in_def same_quota_def)
next
  case (Reserve q k k')
  then show ?thesis by (intro revoked_in_put[OF r Reserve(1)]) (auto simp: row_mutations)
next
  case (Fence q k k' acq ex)
  then show ?thesis by (intro revoked_in_put[OF r Fence(1)]) (auto simp: row_mutations)
next
  case (Release q k s q' f y k')
  then show ?thesis by (intro revoked_in_put[OF r Release(3)]) (auto simp: row_mutations)
next
  case (Finalize q k s q' f y k')
  then show ?thesis by (intro revoked_in_put[OF r Finalize(3)]) (auto simp: row_mutations)
next
  case (Hold i k k')
  then show ?thesis by (intro revoked_in_put[OF r Hold(1)]) (auto simp: row_mutations)
next
  case (Clear i k k')
  then show ?thesis by (intro revoked_in_put[OF r Clear(1)]) (auto simp: row_mutations)
qed

lemma system_keeps:
  assumes "system_step e z db db'" "wf_quota db"
  shows "wf_quota db'" "revoked_in kid db \<Longrightarrow> revoked_in kid db'" "quota_inv e db \<Longrightarrow> \<not> z \<Longrightarrow> quota_inv e db'"
proof -
  have row: "row_steps z a b \<Longrightarrow> wf_quota a \<Longrightarrow> wf_quota b \<and> (revoked_in kid a \<longrightarrow> revoked_in kid b)
      \<and> (quota_inv e a \<longrightarrow> \<not> z \<longrightarrow> quota_inv e b)" for a b
    by (induction rule: rtranclp_induct)
       (auto intro: wf_quota_row_step revoked_in_row_step dest: quota_inv_row_step)
  have qu: "quota_steps e a b \<Longrightarrow> revoked_in kid a \<longrightarrow> revoked_in kid b" for a b
    by (induction rule: rtranclp_induct) (auto intro: revoked_in_quota_step)
  from system_step_cases[OF assms(1)] have *: "wf_quota db' \<and> (revoked_in kid db \<longrightarrow> revoked_in kid db')
      \<and> (quota_inv e db \<longrightarrow> \<not> z \<longrightarrow> quota_inv e db')"
  proof
    assume "service_step e db db'"
    then have q: "quota_steps e db db'" by (rule service_step_refines[OF _ assms(2)])
    show ?thesis using wf_quota_steps[OF q assms(2)] qu[OF q] quota_inv_steps[OF q] by blast
  qed (use row assms(2) in blast)
  then show "wf_quota db'" "revoked_in kid db \<Longrightarrow> revoked_in kid db'" "quota_inv e db \<Longrightarrow> \<not> z \<Longrightarrow> quota_inv e db'" by blast+
qed

lemma system_run_keeps:
  assumes "(system_step e z)\<^sup>*\<^sup>* db db'" "wf_quota db"
  shows "wf_quota db' \<and> (revoked_in kid db \<longrightarrow> revoked_in kid db') \<and> (quota_inv e db \<longrightarrow> \<not> z \<longrightarrow> quota_inv e db')"
  using assms by (induction rule: rtranclp_induct) (use system_keeps in blast)+

lemma revoked_in_reachable:
  assumes "wf_quota db" "k \<in> set (db_keys db)" "gk_status k = KeyRevoked" "(system_step e z)\<^sup>*\<^sup>* db db'"
  shows "revoked_in (gk_id k) db'"
proof -
  have "revoked_in (gk_id k) db"
    using assms(1-3) by (auto simp: revoked_in_def wf_quota_def) (metis distinct_get_row option.inject)
  then show ?thesis using system_run_keeps[OF assms(4,1)] by blast
qed

lemma revoked_not_authenticated:
  assumes "revoked_in kid db" "authenticate_authorization_header s clock header now db = Inr ak"
  shows "ak_gateway_key_id ak \<noteq> kid"
  using assms(2)
proof (cases rule: authenticate_cases)
  case (1 token accepted k chat responses)
  then have "gk_status k = KeyActive" "ak_gateway_key_id ak = gk_id k"
    by (simp_all add: admits_def authenticated_key_of_def Let_def)
  then show ?thesis using assms(1) 1(4) by (auto simp: revoked_in_def)
qed

lemma revoked_row: "revoked_in kid db \<Longrightarrow> get_gateway_key_by_id kid db = Some k \<Longrightarrow> gk_status k = KeyRevoked"
  by (auto simp: revoked_in_def dest: get_key_in)

section \<open>Issued keys\<close>

lemma active_secret: "get_active_hmac_secret s = Inr (version, secret) \<Longrightarrow>
    version = py_strip (st_active_hmac_key_version s) \<and> get_hmac_secret s version = Some secret"
  by (auto simp: get_active_hmac_secret_def Let_def split: if_splits option.splits)

lemma prefix_facts:
  assumes "get_gateway_key_prefix s = Inr prefix"
  shows "prefix \<noteq> []" "\<forall>c \<in> set prefix. \<not> py_isspace c"
  using assms by (auto simp: get_gateway_key_prefix_def validate_gateway_key_prefix_def Let_def list_ex_iff)

lemma active_prefix_accepted:
  assumes "get_gateway_key_accepted_prefixes s = Inr accepted" "get_gateway_key_prefix s = Inr prefix"
  shows "prefix \<in> set accepted"
  using assms by (auto simp: get_gateway_key_accepted_prefixes_def split: if_splits)

lemma live_burn_of_Inr: "read (PDict md) (ls_max_abs_cost_margin_eur ls) (ls_max_abs_token_margin ls) = Inr p \<Longrightarrow> live_burn_of read ls md = Inr p"
  by (simp add: live_burn_of_def or_default_policy_def)

text \<open>A row with the credentials of a new key lets their bearer in.\<close>

lemma credentials_authenticate:
  assumes c: "new_credentials s d secret = Inr (prefix, g, digest)" "get_active_hmac_secret s = Inr (version, secret)"
    and l: "length (kd_id_bytes d) = 16" "length (kd_secret_bytes d) = 32"
    and p: "get_gateway_key_accepted_prefixes s = Inr accepted"
      "\<And>q. q \<in> set accepted \<Longrightarrow> starts_with (gg_plaintext_key g) q \<Longrightarrow> length q \<le> length prefix"
    and k: "k \<in> set (db_keys db)" "distinct (map gk_public_key_id (db_keys db))" "gk_public_key_id k = gg_public_key_id g"
      "gk_token_hash k = digest" "string_of_int (gk_hmac_key_version k) = version" "gk_status k = KeyActive"
      "gk_fence_state k = FenceNone"
    and t: "is_aware now" "is_aware (gk_valid_from k)" "is_aware (gk_valid_until k)" "micros (gk_valid_from k) \<le> micros now"
      "micros now < micros (gk_valid_until k)"
    and b: "live_burn_of chat_streaming_live_burn_policy_from_metadata (st_chat_live_burn s) (gk_metadata_json k) = Inr chat"
      "live_burn_of responses_streaming_live_burn_policy_from_metadata (st_responses_live_burn s) (gk_metadata_json k) = Inr responses"
      "stored_form chat" "stored_form responses"
  shows "\<exists>cm rm. authenticate_authorization_header s clock (Some (''Bearer '' @ gg_plaintext_key g)) (Some now) db
    = Inr (authenticated_key_of s k cm rm)"
proof -
  have pr: "get_gateway_key_prefix s = Inr prefix" and g: "g = generate_gateway_key (kd_id_bytes d) (kd_secret_bytes d) prefix"
    and h: "hmac_sha256_token (gg_plaintext_key g) secret = Inr digest"
    using c(1) by (auto simp: new_credentials_def Let_def)
  note pf = prefix_facts[OF pr]
  have bear: "extract_bearer_token (Some (''Bearer '' @ gg_plaintext_key g)) = Inr (gg_plaintext_key g)"
    unfolding g by (rule bearer_header[OF generated_no_space[OF pf(2)] generated_nonempty])
  have parse: "parse_gateway_key_public_id (gg_plaintext_key g) accepted = Inr (gk_public_key_id k)"
    unfolding k(3) by (rule generated_key_parses[OF l g active_prefix_accepted[OF p(1) pr] pf(1) p(2)])
  have sec: "get_hmac_secret s (string_of_int (gk_hmac_key_version k)) = Some secret"
    using conjunct2[OF active_secret[OF c(2)]] by (simp add: k(5))
  have adm: "admits s k (gg_plaintext_key g) now"
    using sec h hmac_token_Inr(3,4)[OF h] k(4,6,7) t by (simp add: admits_def)
  show ?thesis
    using authenticate_complete[OF bear p(1) parse k(1,2), where now = "Some now" and clock = clock] adm b to_metadata_stored[OF b(3)] to_metadata_stored[OF b(4)]
    by fastforce
qed

lemma created_responses_read_back:
  assumes "created_key_metadata ps rpol p w lz f cs rs = Inr d"
  shows "responses_streaming_live_burn_policy_from_metadata (PDict d) (ls_max_abs_cost_margin_eur rs) (ls_max_abs_token_margin rs)
    = Inr default_live_burn_policy"
proof -
  from assms obtain m1 m2 where
    m2: "metadata_with_policy_under ''responses_streaming_live_burn'' m1 (PolicyObject default_live_burn_policy)
      (ls_max_abs_cost_margin_eur rs) (ls_max_abs_token_margin rs) = Inr m2"
    and d: "dget d ''responses_streaming_live_burn'' = dget m2 ''responses_streaming_live_burn''"
    by (auto simp: created_key_metadata_def metadata_with_responses_streaming_live_burn_policy_def Let_def dget_dset
        split: option.splits)
  have n: "normalize_chat_streaming_live_burn_policy (PolicyObject default_live_burn_policy)
      (ls_max_abs_cost_margin_eur rs) (ls_max_abs_token_margin rs) = Inr default_live_burn_policy"
    using m2 by (cases rule: metadata_with_policy_Inr) (auto simp: normalize_chat_streaming_live_burn_policy_def)
  have "live_burn_policy_under ''responses_streaming_live_burn'' (PDict d) (ls_max_abs_cost_margin_eur rs) (ls_max_abs_token_margin rs)
      = live_burn_policy_under ''responses_streaming_live_burn'' (PDict m2) (ls_max_abs_cost_margin_eur rs) (ls_max_abs_token_margin rs)"
    by (simp add: live_burn_policy_under_def d)
  then show ?thesis
    using policy_roundtrip[OF m2 n default_stored_form] by (simp add: responses_streaming_live_burn_policy_from_metadata_def)
qed

section \<open>Properties\<close>

text \<open>C12: Administration never unbalances quotas.  Creating, rotating, suspending, revoking and re-limiting keys, in any
  interleaving with the services and as long as reserved counters are not reset, keeps each key's reserved tokens and
  requests equal to the sums over its pending reservations, and its reserved cost too when the estimates of the requests
  and fences admitted meanwhile have at most nineteen decimal places; and a key with a fence has no pending reservation
  but the fence's own.\<close>

theorem administration_keeps_quota_inv:
  assumes "quota_inv e db" "(system_step e False)\<^sup>*\<^sup>* db db'" "k \<in> set (db_keys db')"
  shows "quota_inv e db'
    \<and> gk_tokens_reserved_total k = (\<Sum>r\<leftarrow>filter (pending_of (gk_id k)) (db_reservations db'). qr_reserved_tokens r)
    \<and> gk_requests_reserved_total k = (\<Sum>r\<leftarrow>filter (pending_of (gk_id k)) (db_reservations db'). qr_reserved_requests r)
    \<and> (e \<longrightarrow> gk_cost_reserved_eur k = (\<Sum>r\<leftarrow>filter (pending_of (gk_id k)) (db_reservations db'). qr_reserved_cost_eur r))
    \<and> (gk_fence_state k \<noteq> FenceNone \<longrightarrow>
         (\<forall>r \<in> set (db_reservations db'). pending_of (gk_id k) r \<longrightarrow> gk_fence_reservation_id k = Some (qr_id r)))"
proof -
  have inv: "quota_inv e db'" using system_run_keeps[OF assms(2)] assms(1) by (auto simp: quota_inv_def)
  then show ?thesis using assms(3) by (auto simp: quota_inv_def balance_defs fence_exclusive_def exposure_filter)
qed

text \<open>C13: A new key works.  The plaintext that creation hands out authenticates as the new key from then on, at every
  time in its validity window, with the limits and permissions of its row, provided that the configured HMAC version is
  in canonical decimal notation and that no longer accepted prefix runs into the random part of the key.\<close>

theorem issued_key_authenticates:
  assumes "create_gateway_key s d created i routes db = Inr (db', c)"
    and "length (kd_id_bytes d) = 16" "length (kd_secret_bytes d) = 32"
    and "distinct (map gk_public_key_id (db_keys db))" "get_gateway_key_accepted_prefixes s = Inr accepted"
    and "get_gateway_key_prefix s = Inr prefix"
    and "\<forall>q \<in> set accepted. starts_with (gg_plaintext_key (ik_generated c)) q \<longrightarrow> length q \<le> length prefix"
    and "string_of_int (gk_hmac_key_version (ik_row c)) = py_strip (st_active_hmac_key_version s)"
    and "is_aware now" "micros (ci_valid_from i) \<le> micros now" "micros now < micros (ci_valid_until i)"
  shows "\<exists>cm rm. authenticate_authorization_header s clock (Some (''Bearer '' @ gg_plaintext_key (ik_generated c))) (Some now) db'
      = Inr (authenticated_key_of s (stored_key (ik_row c)) cm rm)
    \<and> gk_id (stored_key (ik_row c)) = kd_key_id d"
  using assms(1)
proof (cases rule: create_elim)
  case (1 version secret prefix' g digest chat md hv db1)
  let ?k = "stored_key (ik_row c)"
  note rec = create_record_Inr[OF 1(6)]
  have pr: "prefix' = prefix" using 1(2) assms(6) by (auto simp: new_credentials_def Let_def)
  have keys: "db_keys db' = db_keys db @ [?k]" using 1(7) rec(2) by (simp add: same_quota_def)
  have ps: "normalize_chat_streaming_live_burn_policy (RawPolicy (ci_chat_streaming_live_burn_policy i))
      (ls_max_abs_cost_margin_eur (st_chat_live_burn s)) (ls_max_abs_token_margin (st_chat_live_burn s)) = Inr chat"
    using 1(3) by (simp add: validate_chat_streaming_live_burn_policy_def)
  have sf: "stored_form chat" by (rule normalize_raw_stored_form[OF ps])
  obtain rpol ps w lz f where m: "created_key_metadata ps rpol chat w lz f (st_chat_live_burn s) (st_responses_live_burn s) = Inr md"
    using 1(4) by blast
  have ver: "string_of_int (gk_hmac_key_version ?k) = version"
    using assms(8) active_secret[OF 1(1)] by (simp add: stored_key_def)
  have aw: "is_aware (ci_valid_from i)" "is_aware (ci_valid_until i)" using rec(5) 1(16,17) by (auto simp: times_aware_def)
  have b: "live_burn_of chat_streaming_live_burn_policy_from_metadata (st_chat_live_burn s) (gk_metadata_json ?k)
      = Inr (chat\<lparr>lb_token_margin := 0\<rparr>)"
    "live_burn_of responses_streaming_live_burn_policy_from_metadata (st_responses_live_burn s) (gk_metadata_json ?k)
      = Inr default_live_burn_policy"
    using created_policy_read_back[OF m sf] created_responses_read_back[OF m] 1(15)
    by (auto simp: stored_key_def intro!: live_burn_of_Inr)
  have "\<exists>cm rm. authenticate_authorization_header s clock (Some (''Bearer '' @ gg_plaintext_key g)) (Some now) db'
      = Inr (authenticated_key_of s ?k cm rm)"
  proof (rule credentials_authenticate[OF 1(2,1) assms(2,3,5) _ _ _ _ _ ver _ _ assms(9) _ _ _ _ b])
    show "q \<in> set accepted \<Longrightarrow> starts_with (gg_plaintext_key g) q \<Longrightarrow> length q \<le> length prefix'" for q
      using assms(7) 1(8) pr by simp
    show "distinct (map gk_public_key_id (db_keys db'))" using assms(4) rec(7) by (simp add: keys stored_key_def)
    show "stored_form (chat\<lparr>lb_token_margin := 0\<rparr>)" using sf by (simp add: stored_form_def)
  qed (use 1 keys aw assms(10,11) in \<open>auto simp: stored_key_def unused_key_def\<close>)
  then show ?thesis using 1(8,11) by (simp add: stored_key_def)
qed

text \<open>C26: Rotation replaces the credentials.  A rotated key gets a new active row, under an id and a public id that no stored
  key had, for the same owner, cohort and purpose; its plaintext is generated from the new random bytes and its stored digest is the
  HMAC-SHA-256 of that plaintext under the active secret; all its counters are zero (also when the old key was
  suspended); it is valid from and until the times asked for, or else those of the old key, and has the old limits, models,
  endpoints and rate limits where they are preserved and none otherwise.  The old key is revoked, and no longer
  authenticates, unless it is to be kept; every other key and all reservations stay as they are.\<close>

theorem rotation_replaces_credentials:
  assumes "rotate_gateway_key s d now i db = Inr (db', old', c)" "wf_quota db"
  shows "\<exists>old prefix secret. get_gateway_key_by_id (kc_gateway_key_id (ri_change i)) db = Some old \<and> gk_status old \<noteq> KeyRevoked
    \<and> get_gateway_key_prefix s = Inr prefix \<and> get_active_hmac_secret s = Inr (py_strip (st_active_hmac_key_version s), secret)
    \<and> ik_generated c = generate_gateway_key (kd_id_bytes d) (kd_secret_bytes d) prefix
    \<and> gk_public_key_id (ik_row c) = gg_public_key_id (ik_generated c)
    \<and> gk_token_hash (ik_row c) = hexdigest (hmac_sha256 (utf8 secret) (utf8 (gg_plaintext_key (ik_generated c))))
    \<and> py_int (py_strip (st_active_hmac_key_version s)) = Inr (gk_hmac_key_version (ik_row c))
    \<and> gk_id (ik_row c) \<notin> gk_id ` set (db_keys db) \<and> gk_public_key_id (ik_row c) \<notin> gk_public_key_id ` set (db_keys db)
    \<and> stored_key (ik_row c) \<in> set (db_keys db') \<and> gk_status (ik_row c) = KeyActive \<and> unused_key (ik_row c)
    \<and> gk_owner_id (ik_row c) = gk_owner_id old \<and> gk_cohort_id (ik_row c) = gk_cohort_id old
    \<and> gk_key_purpose (ik_row c) = gk_key_purpose old
    \<and> gk_valid_from (ik_row c) = (case ri_new_valid_from i of Some t \<Rightarrow> t | None \<Rightarrow> gk_valid_from old)
    \<and> gk_valid_until (ik_row c) = (case ri_new_valid_until i of Some t \<Rightarrow> t | None \<Rightarrow> gk_valid_until old)
    \<and> gk_cost_limit_eur (ik_row c) = (if ri_preserve_limits i then gk_cost_limit_eur old else None)
    \<and> gk_token_limit_total (ik_row c) = (if ri_preserve_limits i then gk_token_limit_total old else None)
    \<and> gk_request_limit_total (ik_row c) = (if ri_preserve_limits i then gk_request_limit_total old else None)
    \<and> gk_allowed_models (ik_row c) = (if ri_preserve_allowed_models i then gk_allowed_models old else [])
    \<and> (gk_allow_all_models (ik_row c) \<longleftrightarrow> ri_preserve_allowed_models i \<and> gk_allow_all_models old)
    \<and> gk_allowed_endpoints (ik_row c) = (if ri_preserve_allowed_endpoints i then gk_allowed_endpoints old else [])
    \<and> (gk_allow_all_endpoints (ik_row c) \<longleftrightarrow> ri_preserve_allowed_endpoints i \<and> gk_allow_all_endpoints old)
    \<and> gk_rate_limit_requests_per_minute (ik_row c) =
        (if ri_preserve_rate_limit_policy i then gk_rate_limit_requests_per_minute old else None)
    \<and> gk_rate_limit_tokens_per_minute (ik_row c) =
        (if ri_preserve_rate_limit_policy i then gk_rate_limit_tokens_per_minute old else None)
    \<and> gk_max_concurrent_requests (ik_row c) = (if ri_preserve_rate_limit_policy i then gk_max_concurrent_requests old else None)
    \<and> (if ri_revoke_old_key i
       then revoked_in (gk_id old) db' \<and> (\<forall>s' clock header t ak. authenticate_authorization_header s' clock header t db' = Inr ak
              \<longrightarrow> ak_gateway_key_id ak \<noteq> gk_id old)
       else old \<in> set (db_keys db'))
    \<and> (\<forall>k \<in> set (db_keys db). gk_id k \<noteq> gk_id old \<longrightarrow> k \<in> set (db_keys db'))
    \<and> db_reservations db' = db_reservations db"
  using assms(1)
proof (cases rule: rotate_elim)
  case (1 old version secret prefix g digest md hv vf vu why db1 db2)
  note rec = create_record_Inr[OF 1(10)]
  have o: "old \<in> set (db_keys db)" "gk_id old = kc_gateway_key_id (ri_change i)" using get_key_in[OF 1(1)] by auto
  have ne: "gk_id (ik_row c) \<noteq> gk_id old" using rec(6) o(1) by auto
  have keys1: "db_keys db1 = db_keys db @ [stored_key (ik_row c)]" using rec(2) by simp
  have old1: "get_gateway_key_by_id (gk_id old) db1 = Some old"
    using get_key_id[OF 1(1)] keys1 by (simp add: get_gateway_key_by_id_def get_row_append)
  have keys2: "db_keys db' = (if ri_revoke_old_key i
      then put_row gk_id (stored_key (with_status KeyRevoked (Some now) (Some why) old)) (db_keys db1) else db_keys db1)"
  proof (cases "ri_revoke_old_key i")
    case True
    then have "update_row (gk_id old) (with_status KeyRevoked (Some now) (Some why)) db1 = Inr (db2, True)"
      using 1(11) by (simp add: update_gateway_key_status_def)
    then show ?thesis
      by (cases rule: update_row_Inr) (use True old1 1(12) in \<open>auto simp: same_quota_def\<close>)
  qed (use 1(11,12) in \<open>simp add: same_quota_def\<close>)
  let ?r = "stored_key (with_status KeyRevoked (Some now) (Some why) old)"
  have r: "gk_id ?r = gk_id old" "gk_status ?r = KeyRevoked" by (simp_all add: with_status_def stored_key_def)
  have new: "stored_key (ik_row c) \<in> set (db_keys db')"
    using ne r by (simp add: keys2 keys1 put_row_def)
  have rest: "\<forall>k \<in> set (db_keys db). gk_id k \<noteq> gk_id old \<longrightarrow> k \<in> set (db_keys db')"
    using r by (auto simp: keys2 keys1 put_row_def)
  have status: "if ri_revoke_old_key i then revoked_in (gk_id old) db' else old \<in> set (db_keys db')"
  proof (cases "ri_revoke_old_key i")
    case True
    have "gk_id old \<in> gk_id ` set (db_keys db')" using o(1) True keys1 by (simp add: keys2)
    moreover have "k \<in> set (db_keys db') \<Longrightarrow> gk_id k = gk_id old \<Longrightarrow> gk_status k = KeyRevoked" for k
      using True r by (auto simp: keys2 dest!: set_put_row)
    ultimately show ?thesis using True by (auto simp: revoked_in_def)
  qed (use o(1) keys1 in \<open>simp add: keys2\<close>)
  have cred: "get_gateway_key_prefix s = Inr prefix" "ik_generated c = generate_gateway_key (kd_id_bytes d) (kd_secret_bytes d) prefix"
    "digest = hexdigest (hmac_sha256 (utf8 secret) (utf8 (gg_plaintext_key (ik_generated c))))"
    using 1(5,9) by (auto simp: new_credentials_def Let_def dest: hmac_token_Inr(1))
  have ver: "version = py_strip (st_active_hmac_key_version s)" using active_secret[OF 1(4)] by simp
  have row: "gk_status (ik_row c) = KeyActive" "unused_key (ik_row c)" unfolding 1(8)
    by (simp_all add: rotated_unused) (simp add: rotated_key_def new_key_def Let_def)
  have fields: "gk_public_key_id (ik_row c) = gg_public_key_id (ik_generated c)" "gk_token_hash (ik_row c) = digest"
    "gk_hmac_key_version (ik_row c) = hv" "gk_owner_id (ik_row c) = gk_owner_id old" "gk_cohort_id (ik_row c) = gk_cohort_id old"
    "gk_key_purpose (ik_row c) = gk_key_purpose old" "gk_valid_from (ik_row c) = vf" "gk_valid_until (ik_row c) = vu"
    "gk_cost_limit_eur (ik_row c) = (if ri_preserve_limits i then gk_cost_limit_eur old else None)"
    "gk_token_limit_total (ik_row c) = (if ri_preserve_limits i then gk_token_limit_total old else None)"
    "gk_request_limit_total (ik_row c) = (if ri_preserve_limits i then gk_request_limit_total old else None)"
    "gk_allowed_models (ik_row c) = (if ri_preserve_allowed_models i then gk_allowed_models old else [])"
    "gk_allow_all_models (ik_row c) \<longleftrightarrow> ri_preserve_allowed_models i \<and> gk_allow_all_models old"
    "gk_allowed_endpoints (ik_row c) = (if ri_preserve_allowed_endpoints i then gk_allowed_endpoints old else [])"
    "gk_allow_all_endpoints (ik_row c) \<longleftrightarrow> ri_preserve_allowed_endpoints i \<and> gk_allow_all_endpoints old"
    "gk_rate_limit_requests_per_minute (ik_row c) = (if ri_preserve_rate_limit_policy i then gk_rate_limit_requests_per_minute old else None)"
    "gk_rate_limit_tokens_per_minute (ik_row c) = (if ri_preserve_rate_limit_policy i then gk_rate_limit_tokens_per_minute old else None)"
    "gk_max_concurrent_requests (ik_row c) = (if ri_preserve_rate_limit_policy i then gk_max_concurrent_requests old else None)"
    by (simp_all add: 1(8,9) rotated_key_def new_key_def Let_def)
  have auth: "ri_revoke_old_key i \<Longrightarrow> authenticate_authorization_header s' clock header t db' = Inr ak \<Longrightarrow> ak_gateway_key_id ak \<noteq> gk_id old"
    for s' clock header t ak using status revoked_not_authenticated[of "gk_id old" db'] by auto
  have res: "db_reservations db' = db_reservations db"
  proof (cases "ri_revoke_old_key i")
    case True
    then have "update_row (gk_id old) (with_status KeyRevoked (Some now) (Some why)) db1 = Inr (db2, True)"
      using 1(11) by (simp add: update_gateway_key_status_def)
    then show ?thesis by (cases rule: update_row_Inr) (use rec(2) 1(12) in \<open>auto simp: same_quota_def\<close>)
  qed (use 1(11,12) rec(2) in \<open>simp add: same_quota_def\<close>)
  show ?thesis
    using 1(1,2,4,7) rec(6,7) new rest status cred ver row fields auth res 1(13,14)
    by (intro exI[of _ old] exI[of _ prefix] exI[of _ secret]) (simp split del: if_split, simp)
qed

section \<open>Samples\<close>

definition sample_change :: key_change where
  "sample_change = \<lparr>kc_gateway_key_id = 10, kc_actor_admin_id = None, kc_reason = Some ''why''\<rparr>"

definition sample_draws :: key_draws where
  "sample_draws = \<lparr>kd_key_id = 77, kd_secret_id = 78, kd_audit_id = 79, kd_audit_id2 = 80, kd_id_bytes = replicate 16 7,
     kd_secret_bytes = replicate 32 9, kd_encrypt = (\<lambda>payload master. Inr (''c'', ''n''))\<rparr>"

definition sample_input :: create_gateway_key_input where
  "sample_input =
     \<lparr>ci_owner_id = 3, ci_valid_from = Aware 0, ci_valid_until = Aware 100, ci_cohort_id = None, ci_created_by_admin_id = None,
      ci_cost_limit_eur = None, ci_token_limit_total = Some 5, ci_request_limit_total = None,
      ci_request_policy = sample_embeddings_policy, ci_key_purpose = ''standard'', ci_capability_policy_mode = ''standard'',
      ci_calibration_metadata = [], ci_responses_policy = None, ci_template_id = None, ci_template_revision_id = None,
      ci_allowed_providers = None, ci_confirm_trusted_calibration = False, ci_rate_limit_policy = None,
      ci_lazy_throttling_policy = PNone, ci_chat_streaming_live_burn_policy = PNone, ci_external_tool_policy = PNone,
      ci_confirm_external_tool_fenced = False, ci_note = None\<rparr>"

lemma runs: "case_sum (\<lambda>_. False) (\<lambda>_. True) r \<Longrightarrow> \<exists>x. r = Inr x"
  by (simp split: sum.splits)

lemma sample_metadata:
  "\<exists>md. created_key_metadata None None default_live_burn_policy None None None sample_live_burn_settings sample_live_burn_settings = Inr md"
  by (rule runs) code_simp

lemma sample_active: "get_active_hmac_secret sample_settings = Inr (''1'', ''hmac-secret'')"
  by code_simp

lemma sample_prefix: "get_gateway_key_prefix sample_settings = Inr ''sk-slaif-''"
  by code_simp

lemma sample_version: "py_int ''1'' = Inr 1" "extract_version_number ''v1'' = Inr 1" "string_of_int 1 = ''1''"
  by code_simp+

lemma sample_credentials:
  "\<exists>digest. new_credentials sample_settings sample_draws ''hmac-secret'' = Inr (''sk-slaif-'', sample_generated, digest)
     \<and> length digest = 64"
proof -
  have "gg_plaintext_key sample_generated \<noteq> []" by (simp add: sample_generated_def generated_nonempty)
  then obtain digest where h: "hmac_sha256_token (gg_plaintext_key sample_generated) ''hmac-secret'' = Inr digest"
    by (simp add: hmac_sha256_token_def)
  show ?thesis using h hmac_token_Inr(2)[OF h]
    by (simp add: new_credentials_def sample_prefix sample_draws_def flip: sample_generated_def)
qed

lemma sample_validated:
  "validate_key_purpose_and_policy_mode ''standard'' ''standard'' = Inr (StandardPurpose, StandardMode)"
  "validate_gateway_key_policy sample_embeddings_policy None = Inr sample_embeddings_policy"
  "validate_chat_streaming_live_burn_policy sample_settings (RawPolicy PNone) = Inr default_live_burn_policy"
  "kp_mode strict_key_policy \<noteq> ExternalToolFenced"
  "rate_get [] key = None"
  by (code_simp | simp add: rate_get_def)+

lemma sample_draw [simp]:
  "kd_key_id sample_draws = 77" "kd_secret_id sample_draws = 78" "kd_audit_id sample_draws = 79" "kd_audit_id2 sample_draws = 80"
  "kd_id_bytes sample_draws = replicate 16 7" "kd_secret_bytes sample_draws = replicate 32 9"
  "kd_encrypt sample_draws = (\<lambda>payload master. Inr (''c'', ''n''))"
  by (simp_all add: sample_draws_def)

lemma sample_numbers: "fits_numeric 0" "fits_bigint 0" "fits_bigint 5" "fits_bigint 1000" "fits_numeric 10" "pg9 10 = 10" "fits_integer 0" "fits_integer 1" "pg9 0 = 0"
  by code_simp+

lemmas row_eval = gateway_key_fits_def policy_columns_fit_def times_aware_def gateway_key_checks_def stored_key_def
  with_request_policy_def with_status_def fence_fields_null_def fence_fields_set_def sample_numbers opt_all_def

lemma sample_create:
  "\<exists>db' c. create_gateway_key sample_settings sample_draws (Aware 1) sample_input None (sample_db\<lparr>db_keys := []\<rparr>) = Inr (db', c)
     \<and> ik_generated c = sample_generated \<and> gk_hmac_key_version (ik_row c) = 1"
proof -
  obtain digest where cr: "new_credentials sample_settings sample_draws ''hmac-secret'' = Inr (''sk-slaif-'', sample_generated, digest)"
    using sample_credentials by blast
  obtain md where md: "created_key_metadata None None default_live_burn_policy None None None sample_live_burn_settings
    sample_live_burn_settings = Inr md" using sample_metadata by blast
  have st: "st_chat_live_burn sample_settings = sample_live_burn_settings" "st_responses_live_burn sample_settings = sample_live_burn_settings"
    "st_one_time_secret_encryption_key sample_settings = Some ''k''" "st_one_time_secret_key_version sample_settings = ''v1''"
    by (simp_all add: sample_settings_def)
  have ext: "validate_external_tool_policy sample_settings PNone p r t c b n q = Inr strict_key_policy" for p r t c b n q
    using sample_validated(4) by (simp add: validate_external_tool_policy_def parse_key_external_tool_policy_def)
  show ?thesis
    by (simp add: create_gateway_key_def sample_input_def sample_active cr st non_empty_def sample_validated ext md sample_version
        validate_trusted_calibration_create_policy_def is_trusted_calibration_key_def validate_rate_limit_policy_def
        validate_lazy_throttling_policy_def effective_request_policy_def create_gateway_key_record_def
        create_one_time_secret_def to_metadata_stored Let_def row_eval new_key_def add_audit_log_def
        sample_db_def del: sbind_eq_Inr)
qed

theorem issued_key_authenticates_witness:
  "\<exists>db' c cm rm. create_gateway_key sample_settings sample_draws (Aware 1) sample_input None (sample_db\<lparr>db_keys := []\<rparr>) = Inr (db', c)
     \<and> authenticate_authorization_header sample_settings (Aware 9) (Some (''Bearer '' @ gg_plaintext_key sample_generated))
         (Some (Aware 5)) db' = Inr (authenticated_key_of sample_settings (stored_key (ik_row c)) cm rm)
     \<and> gk_id (stored_key (ik_row c)) = 77"
proof -
  obtain db' c where run: "create_gateway_key sample_settings sample_draws (Aware 1) sample_input None (sample_db\<lparr>db_keys := []\<rparr>) = Inr (db', c)"
    and c: "ik_generated c = sample_generated" "gk_hmac_key_version (ik_row c) = 1" using sample_create by blast
  have v: "string_of_int (gk_hmac_key_version (ik_row c)) = py_strip (st_active_hmac_key_version sample_settings)"
    unfolding c(2) by code_simp
  have "\<exists>cm rm. authenticate_authorization_header sample_settings (Aware 9)
      (Some (''Bearer '' @ gg_plaintext_key (ik_generated c))) (Some (Aware 5)) db'
      = Inr (authenticated_key_of sample_settings (stored_key (ik_row c)) cm rm) \<and> gk_id (stored_key (ik_row c)) = kd_key_id sample_draws"
    by (rule issued_key_authenticates[OF run _ _ _ sample_accepted sample_prefix _ v])
       (simp_all add: sample_db_def sample_input_def)
  then show ?thesis using run unfolding c(1) sample_draw(1) by blast
qed

definition sample_rotation :: rotate_gateway_key_input where
  "sample_rotation = \<lparr>ri_change = sample_change, ri_revoke_old_key = True, ri_new_valid_from = None, ri_new_valid_until = None,
     ri_preserve_limits = True, ri_preserve_allowed_models = True, ri_preserve_allowed_endpoints = True,
     ri_preserve_rate_limit_policy = True\<rparr>"

lemma sample_rotation_sel:
  "kc_gateway_key_id (ri_change sample_rotation) = 10" "ri_revoke_old_key sample_rotation" "ri_new_valid_from sample_rotation = None"
  "ri_new_valid_until sample_rotation = None" "ri_preserve_limits sample_rotation" "ri_preserve_rate_limit_policy sample_rotation"
  by (simp_all add: sample_rotation_def sample_change_def)

lemma sample_rotated_metadata: "\<exists>md. rotated_metadata sample_settings True sample_key = Inr md"
  by (rule runs) code_simp

lemma sample_public_id: "length (gg_public_key_id sample_generated) = 22"
  by (simp add: sample_generated_def generate_gateway_key_def b64_length Let_def)

lemma sample_revokes:
  assumes "gk_id r = 77"
  shows "update_gateway_key_status 10 KeyRevoked t w (sample_db\<lparr>db_keys := [sample_key, r]\<rparr>)
    = Inr (sample_db\<lparr>db_keys := [with_status KeyRevoked t w sample_key, r]\<rparr>, True)"
  using assms by (simp add: update_gateway_key_status_def update_row_def get_gateway_key_by_id_def sample_key_def row_eval
      flush_key_def fence_reference_ok_def del: sbind_eq_Inr)

lemma sample_rotate:
  "\<exists>db' old' c. rotate_gateway_key sample_settings sample_draws (Aware 4) sample_rotation sample_db = Inr (db', old', c)"
proof -
  obtain digest where cr: "new_credentials sample_settings sample_draws ''hmac-secret'' = Inr (''sk-slaif-'', sample_generated, digest)"
    "length digest = 64" using sample_credentials by blast
  obtain md where md: "rotated_metadata sample_settings True sample_key = Inr md" using sample_rotated_metadata by blast
  have ne: "digest \<noteq> ''h''" "gg_public_key_id sample_generated \<noteq> ''pubid001''" using cr(2) sample_public_id by auto
  have st: "st_one_time_secret_encryption_key sample_settings = Some ''k''" "st_one_time_secret_key_version sample_settings = ''v1''"
    by (simp_all add: sample_settings_def)
  have ext: "external_tool_policy_from_key sample_settings sample_key = strict_key_policy" by code_simp
  have k: "get_gateway_key_by_id 10 sample_db = Some sample_key" by code_simp
  have f: "gk_status sample_key = KeyActive" "gk_fence_state sample_key = FenceNone" "gk_valid_from sample_key = Aware 0"
    "gk_valid_until sample_key = Aware 1000000000000" "gk_id sample_key = 10" by (simp_all add: sample_key_def)
  define r where "r = rotated_key sample_rotation sample_draws ''sk-slaif-'' sample_generated digest 1 md (Aware 0) (Aware 1000000000000) sample_key"
  have rec: "create_gateway_key_record r sample_db = Inr (sample_db\<lparr>db_keys := [sample_key, stored_key r]\<rparr>, r)" "gk_id r = 77"
    using ne by (simp_all add: r_def create_gateway_key_record_def rotated_key_def new_key_def sample_rotation_def sample_key_def
        sample_db_def row_eval Let_def)
  have sr: "gk_id (stored_key r) = 77" using rec(2) by simp
  have "db_audit sample_db = []" by (simp add: sample_db_def)
  then show ?thesis
    by (simp add: rotate_gateway_key_def sample_rotation_sel k f require_not_external_tool_fenced_def sample_active
        st non_empty_def validate_validity_window_def ext cr(1) md sample_validated(4) sample_version sample_numbers rec
        create_one_time_secret_def must_update_def audit_gateway_key_change_def add_audit_log_def sample_revokes[OF sr] get_gateway_key_def Let_def
        del: sbind_eq_Inr must_update_Inr flip: r_def)
qed

theorem rotation_replaces_credentials_witness:
  "\<exists>db' old' c. rotate_gateway_key sample_settings sample_draws (Aware 4) sample_rotation sample_db = Inr (db', old', c)
     \<and> gk_token_limit_total (ik_row c) = Some 1000 \<and> revoked_in 10 db'"
proof -
  obtain db' old' c where run: "rotate_gateway_key sample_settings sample_draws (Aware 4) sample_rotation sample_db = Inr (db', old', c)"
    using sample_rotate by blast
  have k: "get_gateway_key_by_id 10 sample_db = Some sample_key" by code_simp
  show ?thesis
    using rotation_replaces_credentials[OF run sample_wf] run k
    by (auto simp: sample_rotation_def sample_change_def sample_key_def)
qed

lemma sample_suspend: "\<exists>x. suspend_gateway_key 9 sample_change sample_reserved_db = Inr x"
  by (simp add: suspend_gateway_key_def sample_change_def sample_reserved_db_def sample_db_def sample_key_def eval_simps row_eval
      get_gateway_key_def get_gateway_key_by_id_def require_status_def must_update_def update_gateway_key_status_def update_row_def
      flush_key_def fence_reference_ok_def audit_gateway_key_change_def add_audit_log_def Let_def del: sbind_eq_Inr must_update_Inr)

theorem administration_keeps_quota_inv_witness:
  "\<exists>db' k. suspend_gateway_key 9 sample_change sample_reserved_db = Inr (db', k)
     \<and> (\<forall>k' \<in> set (db_keys db'). gk_cost_reserved_eur k' =
          (\<Sum>r\<leftarrow>filter (pending_of (gk_id k')) (db_reservations db'). qr_reserved_cost_eur r))"
proof -
  obtain db' k where s: "suspend_gateway_key 9 sample_change sample_reserved_db = Inr (db', k)" using sample_suspend by auto
  have "system_step True False sample_db sample_reserved_db" by (rule Service[OF sample_reserve_step])
  moreover have "system_step True False sample_reserved_db db'" by (rule Suspend[OF s])
  ultimately have "(system_step True False)\<^sup>*\<^sup>* sample_db db'" by (meson rtranclp.simps)
  then show ?thesis using administration_keeps_quota_inv[OF fresh_inv[OF sample_fresh]] s by blast
qed

definition sample_revoked_key :: gateway_key where
  "sample_revoked_key = with_status KeyRevoked (Some (Aware 2)) None (sample_key\<lparr>gk_id := 11\<rparr>)"

end
