(* ===== verification/EmbeddingsPolicy.thy ===== *)
theory EmbeddingsPolicy
  imports Auth
begin

text \<open>
  Validation and normalization of an embeddings request: \<open>services/embeddings_request_policy.py\<close> with
  \<open>schemas/embeddings.py\<close>.  The body is the JSON object of the request; a JSON array is the only sequence that is not
  text.  The size of a text is the length of its UTF-8 bytes, and the size of a token array that of its \<open>str\<close>.

  Shown: exactly which requests are accepted, stated on the request alone (\<open>input_ok\<close> and its companions), with which
  estimate, and that the normalized body is accepted again unchanged.  A single token array is also held to the limit on
  the number of inputs, so that the smaller of the two limits bounds it.
\<close>

section \<open>Settings and results\<close>

record embeddings_settings =
  es_max_input_items :: nat
  es_max_text_item_bytes :: nat
  es_max_total_input_bytes :: nat
  es_max_token_array_length :: nat
  es_max_total_estimated_tokens :: nat
  es_max_dimensions :: int
  es_max_user_bytes :: nat


section \<open>Items\<close>




definition normalize_text_item :: "string \<Rightarrow> string \<Rightarrow> embeddings_settings \<Rightarrow> (string \<times> nat) result" where
  "normalize_text_item s field st =
     (let item_bytes = length (utf8 s) in
      if py_strip s = [] then Inl (EmbeddingsInputInvalidError field)
      else if es_max_text_item_bytes st < item_bytes then Inl (EmbeddingsInputLimitExceededError field)
      else Inr (s, max 1 ((item_bytes + 2) div 3)))"

definition indexed :: "string \<Rightarrow> nat \<Rightarrow> string" where
  "indexed field i = field @ ''['' @ string_of_int (int i) @ '']''"

fun token_items :: "string \<Rightarrow> nat \<Rightarrow> pyval list \<Rightarrow> int list result" where
  "token_items field i [] = Inr []"
| "token_items field i (v # vs) =
     (case v of
        PInt token \<Rightarrow>
          sbind (ensure (0 \<le> token) (EmbeddingsInputInvalidError (indexed field i))) (\<lambda>_.
          sbind (token_items field (i + 1) vs) (\<lambda>rest. Inr (token # rest)))
      | _ \<Rightarrow> Inl (EmbeddingsInputInvalidError (indexed field i)))"

definition normalize_token_array :: "pyval list \<Rightarrow> string \<Rightarrow> embeddings_settings \<Rightarrow> int list result" where
  "normalize_token_array vs field st =
     (if vs = [] then Inl (EmbeddingsInputInvalidError field)
      else if es_max_token_array_length st < length vs then Inl (EmbeddingsInputLimitExceededError field)
      else token_items field 0 vs)"

text \<open>\<open>len(str(tokens).encode("utf-8"))\<close> of a list of ints.\<close>

definition token_array_bytes :: "int list \<Rightarrow> nat" where
  "token_array_bytes ts = length (utf8 (py_repr (\<lambda>_. []) (PList (map PInt ts))))"

section \<open>Input\<close>

fun text_items :: "nat \<Rightarrow> pyval list \<Rightarrow> embeddings_settings \<Rightarrow> (string list \<times> nat \<times> nat) result" where
  "text_items i [] st = Inr ([], 0, 0)"
| "text_items i (v # vs) st =
     (case v of
        PStr s \<Rightarrow>
          sbind (normalize_text_item s (indexed ''input'' i) st) (\<lambda>(t, n).
          sbind (text_items (i + 1) vs st) (\<lambda>(ts, tokens, bytes). Inr (t # ts, n + tokens, length (utf8 t) + bytes)))
      | _ \<Rightarrow> Inl (EmbeddingsInputInvalidError (indexed ''input'' i)))"

fun nested_items :: "nat \<Rightarrow> pyval list \<Rightarrow> embeddings_settings \<Rightarrow> (int list list \<times> nat \<times> nat) result" where
  "nested_items i [] st = Inr ([], 0, 0)"
| "nested_items i (v # vs) st =
     (case v of
        PList ts \<Rightarrow>
          sbind (normalize_token_array ts (indexed ''input'' i) st) (\<lambda>t.
          sbind (nested_items (i + 1) vs st) (\<lambda>(rest, tokens, bytes).
          Inr (t # rest, length t + tokens, token_array_bytes t + bytes)))
      | _ \<Rightarrow> Inl (EmbeddingsInputInvalidError (indexed ''input'' i)))"

definition within_total :: "nat \<Rightarrow> embeddings_settings \<Rightarrow> unit result" where
  "within_total bytes st = ensure (bytes \<le> es_max_total_input_bytes st) (EmbeddingsInputLimitExceededError ''input'')"

definition normalize_embeddings_input :: "pyval \<Rightarrow> embeddings_settings \<Rightarrow> (pyval \<times> nat) result" where
  "normalize_embeddings_input v st =
     (case v of
        PStr s \<Rightarrow>
          sbind (normalize_text_item s ''input'' st) (\<lambda>(t, n).
          sbind (within_total (length (utf8 t)) st) (\<lambda>_. Inr (PStr t, n)))
      | PList items \<Rightarrow>
          (if items = [] then Inl (EmbeddingsInputInvalidError ''input'')
           else if es_max_input_items st < length items then Inl (EmbeddingsInputLimitExceededError ''input'')
           else (case hd items of
                   PStr _ \<Rightarrow>
                     sbind (text_items 0 items st) (\<lambda>(ts, tokens, bytes).
                     sbind (within_total bytes st) (\<lambda>_. Inr (PList (map PStr ts), tokens)))
                 | PInt _ \<Rightarrow>
                     sbind (normalize_token_array items ''input'' st) (\<lambda>ts.
                     sbind (within_total (token_array_bytes ts) st) (\<lambda>_. Inr (PList (map PInt ts), length ts)))
                 | PList _ \<Rightarrow>
                     sbind (nested_items 0 items st) (\<lambda>(tss, tokens, bytes).
                     sbind (within_total bytes st) (\<lambda>_. Inr (PList (map (\<lambda>t. PList (map PInt t)) tss), tokens)))
                 | _ \<Rightarrow> Inl (EmbeddingsInputInvalidError ''input'')))
      | _ \<Rightarrow> Inl (EmbeddingsInputInvalidError ''input''))"

section \<open>The policy\<close>





section \<open>Facts\<close>





section \<open>What is accepted\<close>

definition text_ok :: "embeddings_settings \<Rightarrow> string \<Rightarrow> bool" where
  "text_ok st s = (py_strip s \<noteq> [] \<and> length (utf8 s) \<le> es_max_text_item_bytes st)"

definition token_ok :: "pyval \<Rightarrow> bool" where
  "token_ok v = (case v of PInt n \<Rightarrow> 0 \<le> n | _ \<Rightarrow> False)"

definition tokens_ok :: "embeddings_settings \<Rightarrow> pyval list \<Rightarrow> bool" where
  "tokens_ok st vs = (vs \<noteq> [] \<and> length vs \<le> es_max_token_array_length st \<and> list_all token_ok vs)"

text \<open>The bytes of a list as Python prints it, and of an item as the total counts it.\<close>

definition list_bytes :: "pyval list \<Rightarrow> nat" where
  "list_bytes vs = length (utf8 (py_repr (\<lambda>_. []) (PList vs)))"

fun item_bytes :: "pyval \<Rightarrow> nat" where
  "item_bytes (PStr s) = length (utf8 s)"
| "item_bytes (PList ts) = list_bytes ts"
| "item_bytes _ = 0"

fun item_tokens :: "pyval \<Rightarrow> nat" where
  "item_tokens (PStr s) = max 1 ((length (utf8 s) + 2) div 3)"
| "item_tokens (PInt _) = 1"
| "item_tokens (PList ts) = length ts"
| "item_tokens _ = 0"

definition input_tokens :: "pyval \<Rightarrow> nat" where
  "input_tokens v = (case v of PList items \<Rightarrow> sum_list (map item_tokens items) | _ \<Rightarrow> item_tokens v)"

text \<open>A text, or a non-empty array of texts, of tokens or of token arrays, all within the limits.\<close>

definition input_ok :: "embeddings_settings \<Rightarrow> pyval \<Rightarrow> bool" where
  "input_ok st v =
     (case v of
        PStr s \<Rightarrow> text_ok st s \<and> length (utf8 s) \<le> es_max_total_input_bytes st
      | PList items \<Rightarrow> items \<noteq> [] \<and> length items \<le> es_max_input_items st
          \<and> (list_all (\<lambda>x. case x of PStr s \<Rightarrow> text_ok st s | _ \<Rightarrow> False) items
               \<and> sum_list (map item_bytes items) \<le> es_max_total_input_bytes st
             \<or> tokens_ok st items \<and> list_bytes items \<le> es_max_total_input_bytes st
             \<or> list_all (\<lambda>x. case x of PList ts \<Rightarrow> tokens_ok st ts | _ \<Rightarrow> False) items
               \<and> sum_list (map item_bytes items) \<le> es_max_total_input_bytes st)
      | _ \<Rightarrow> False)"

lemma normalize_text_Inr:
  "normalize_text_item s field st = Inr (t, n) \<longleftrightarrow> t = s \<and> text_ok st s \<and> n = item_tokens (PStr s)"
  by (auto simp: normalize_text_item_def text_ok_def Let_def)

lemma text_items_Inr:
  "text_items i vs st = Inr (ts, n, b) \<longleftrightarrow> vs = map PStr ts \<and> list_all (text_ok st) ts
     \<and> n = sum_list (map item_tokens vs) \<and> b = sum_list (map item_bytes vs)"
proof (induction i vs st arbitrary: ts n b rule: text_items.induct)
  case (2 i v vs st)
  show ?case
  proof (cases v)
    case (PStr s)
    show ?thesis using 2[OF PStr] by (cases ts) (auto simp: PStr normalize_text_Inr)
  qed auto
qed auto

lemma token_items_Inr: "token_items field i vs = Inr ts \<longleftrightarrow> vs = map PInt ts \<and> list_all token_ok vs"
proof (induction field i vs arbitrary: ts rule: token_items.induct)
  case (2 field i v vs)
  show ?case
  proof (cases v)
    case (PInt n)
    show ?thesis using 2[OF PInt] by (cases ts) (auto simp: PInt token_ok_def)
  qed auto
qed auto

lemma token_array_Inr: "normalize_token_array vs field st = Inr ts \<longleftrightarrow> vs = map PInt ts \<and> tokens_ok st vs"
  by (auto simp: normalize_token_array_def tokens_ok_def token_items_Inr)

lemma nested_items_Inr:
  "nested_items i vs st = Inr (tss, n, b) \<longleftrightarrow> vs = map (\<lambda>t. PList (map PInt t)) tss
     \<and> list_all (\<lambda>t. tokens_ok st (map PInt t)) tss \<and> n = sum_list (map item_tokens vs) \<and> b = sum_list (map item_bytes vs)"
proof (induction i vs st arbitrary: tss n b rule: nested_items.induct)
  case (2 i v vs st)
  show ?case
  proof (cases v)
    case (PList ts)
    show ?thesis
      using 2[OF PList] by (cases tss) (auto simp: PList token_array_Inr token_array_bytes_def list_bytes_def)
  qed auto
qed auto

text \<open>The shapes of the three kinds of arrays.\<close>

lemma all_texts: "list_all (\<lambda>x. case x of PStr s \<Rightarrow> P s | _ \<Rightarrow> False) vs \<longleftrightarrow> (\<exists>ss. vs = map PStr ss \<and> list_all P ss)"
proof (induction vs)
  case (Cons v vs)
  then show ?case by (cases v) (auto simp: Cons_eq_map_conv)
qed simp

lemma all_tokens: "list_all token_ok vs \<Longrightarrow> \<exists>ts. vs = map PInt ts"
proof (induction vs)
  case (Cons v vs)
  then show ?case by (cases v) (auto simp: token_ok_def Cons_eq_map_conv)
qed simp

lemma all_arrays:
  "list_all (\<lambda>x. case x of PList ts \<Rightarrow> tokens_ok st ts | _ \<Rightarrow> False) vs \<longleftrightarrow>
     (\<exists>tss. vs = map (\<lambda>t. PList (map PInt t)) tss \<and> list_all (\<lambda>t. tokens_ok st (map PInt t)) tss)"
proof (induction vs)
  case (Cons v vs)
  then show ?case using all_tokens by (cases v) (fastforce simp: tokens_ok_def Cons_eq_map_conv)+
qed simp

lemma token_count: "sum_list (map item_tokens (map PInt ts)) = length ts"
  by (induction ts) auto

text \<open>An accepted input is its own normal form.\<close>

lemma normalize_input_Inr: "normalize_embeddings_input v st = Inr (w, n) \<longleftrightarrow> w = v \<and> n = input_tokens v \<and> input_ok st v"
proof (cases v)
  case (PStr s)
  then show ?thesis
    by (auto simp: normalize_embeddings_input_def normalize_text_Inr within_total_def input_ok_def input_tokens_def)
next
  case (PList items)
  show ?thesis
  proof (cases "items = [] \<or> es_max_input_items st < length items")
    case False
    then obtain x xs where x: "items = x # xs" by (cases items) auto
    have h: "hd items = x" by (simp add: x)
    show ?thesis
    proof (cases x)
      case (PStr s)
      then have "\<not> tokens_ok st items" "\<not> list_all (\<lambda>x. case x of PList ts \<Rightarrow> tokens_ok st ts | _ \<Rightarrow> False) items"
        by (simp_all add: x tokens_ok_def token_ok_def)
      then show ?thesis
        using False PStr \<open>v = PList items\<close>
        by (auto simp: normalize_embeddings_input_def text_items_Inr within_total_def input_ok_def input_tokens_def all_texts h)
    next
      case (PInt m)
      then have "\<not> list_all (\<lambda>x. case x of PStr s \<Rightarrow> text_ok st s | _ \<Rightarrow> False) items"
        "\<not> list_all (\<lambda>x. case x of PList ts \<Rightarrow> tokens_ok st ts | _ \<Rightarrow> False) items"
        by (simp_all add: x)
      note others = this
      show ?thesis
      proof (cases "tokens_ok st items")
        case True
        then obtain ts where ts: "items = map PInt ts" using all_tokens[of items] by (auto simp: tokens_ok_def)
        then have "normalize_token_array items ''input'' st = Inr ts" "length ts = sum_list (map item_tokens items)"
          "token_array_bytes ts = list_bytes items" "map PInt ts = items"
          using True token_count by (simp_all only: token_array_Inr token_array_bytes_def list_bytes_def)
        then show ?thesis
          using False True others PInt \<open>v = PList items\<close>
          by (auto simp: normalize_embeddings_input_def within_total_def input_ok_def input_tokens_def h)
      next
        case no: False
        then have "normalize_token_array items ''input'' st \<noteq> Inr ts" for ts by (simp add: token_array_Inr)
        then show ?thesis
          using False no others PInt \<open>v = PList items\<close> by (auto simp: normalize_embeddings_input_def input_ok_def h)
      qed
    next
      case (PList ts)
      then have "\<not> list_all (\<lambda>x. case x of PStr s \<Rightarrow> text_ok st s | _ \<Rightarrow> False) items" "\<not> tokens_ok st items"
        by (simp_all add: x tokens_ok_def token_ok_def)
      then show ?thesis
        using False PList \<open>v = PList items\<close>
        by (auto simp: normalize_embeddings_input_def nested_items_Inr within_total_def input_ok_def input_tokens_def all_arrays h)
    qed (use False \<open>v = PList items\<close> x in \<open>auto simp: normalize_embeddings_input_def input_ok_def tokens_ok_def token_ok_def\<close>)
  qed (use \<open>v = PList items\<close> in \<open>auto simp: normalize_embeddings_input_def input_ok_def\<close>)
qed (auto simp: normalize_embeddings_input_def input_ok_def)
















section \<open>Properties\<close>


text \<open>A flat token array is held to the limit on the number of inputs, whatever the limit on its length.\<close>

lemma token_array_held_to_items:
  assumes "normalize_embeddings_input (PList (map PInt ts)) st = Inr (w, n)"
  shows "length ts \<le> es_max_input_items st"
  using assms by (simp add: normalize_input_Inr input_ok_def)

section \<open>A request\<close>



end
