(* ===== verification/Spec2Isabelle.thy ===== *)
theory Spec2Isabelle
  imports QuotaSystem LazyThrottling Routing Pricing LiveBurn ChatStream Auth KeyLifecycle EmbeddingsPolicy
begin

text \<open>
  A model of the SLAIF API gateway: an OpenAI-compatible gateway that hands out its own keys, meters what each key spends
  and forwards requests to providers.  The sources are the Python files under \<open>src/app/slaif_gateway\<close>; names below are
  relative to it.  Modelled is the request path around a key's money and tokens, from the bearer header to the settled
  ledger row, and the administration of keys.


  \<^bold>\<open>The program\<close>

  A request presents a key.  \<open>services/auth_service.py\<close> checks its HMAC, status, fence and validity and hands on the key's
  limits and policies.  \<open>services/endpoint_policy.py\<close> and \<open>services/route_resolution.py\<close> decide whether the key may call
  the endpoint and which provider serves the model; \<open>services/pricing.py\<close> bounds the cost.  \<open>services/rate_limit_service.py\<close>
  takes temporary slots in Redis, and \<open>services/lazy_throttling.py\<close> waits for them when the key allows it.
  \<open>services/quota_service.py\<close> reserves the estimate on the locked key row in PostgreSQL; a request with provider-hosted
  tools instead takes the whole remaining balance and fences the key (\<open>services/external_tool_fence.py\<close> under the contract
  of \<open>services/external_tool_policy_contract.py\<close>).  The stream of \<open>services/chat_completion_gateway.py\<close> is watched by
  \<open>services/chat_streaming_live_burn.py\<close>, and \<open>services/accounting.py\<close> settles the reservation: it charges actual usage,
  releases it, or records an estimate.  What remains unsettled is repaired by \<open>services/reservation_reconciliation.py\<close> and
  \<open>services/external_tool_hold.py\<close>.  \<open>services/key_service.py\<close> creates, rotates and edits keys.


  \<^bold>\<open>The theories\<close>

  Ground: \<open>Gateway_Prelude\<close> (exceptions as a sum, tables as row lists, text, time), \<open>PyDecimal\<close> (Python's Decimal: 28
  digits, half even; locale \<open>decimal_rounding\<close>), \<open>PyValue\<close> (JSON values), \<open>Redaction\<close>, \<open>Sanitization\<close> and \<open>Crypto\<close>
  (\<open>utils/\<close>; SHA-256, HMAC and Base64 written out on words), \<open>Tables\<close>, \<open>Repositories\<close> and \<open>Schemas\<close> (\<open>db/\<close>, \<open>schemas/\<close>),
  \<open>Sample_Data\<close> (inputs of the witnesses).

  Quota: \<open>QuotaMachine\<close> is the abstract specification, a step relation on keys and reservations with its invariant (locale
  \<open>reserved_counter\<close>, interpreted for tokens, requests and cost).  \<open>Quota\<close>, \<open>AccountingCost\<close> and \<open>Accounting\<close> (locale
  \<open>settlement\<close>, interpreted for three settling operations), \<open>Reconciliation\<close>, \<open>ToolPolicy\<close>, \<open>Fence\<close> and \<open>Hold\<close> model the
  services.  \<open>QuotaSystem\<close> joins them: every operation refines the machine, so in every reachable state each reserved counter
  is the sum of the pending reservations and a fence excludes every other one.

  Admission: \<open>RateLimit\<close> (locale \<open>redis_store\<close>: what Redis promises; its in-memory interpretation shows that the promises
  can be kept) and \<open>LazyThrottling\<close> show that no interleaving of clients, lost replies and expiries exceeds a limit, and that
  the wait ends, is revalidated and keeps its caps.  \<open>Routing\<close> (also \<open>services/model_catalog.py\<close>) shows that the chosen
  route is exactly the best usable one, \<open>Pricing\<close> that the estimate covers what accounting charges later, up to the
  rounding of Python's Decimal.  \<open>EmbeddingsPolicy\<close> (\<open>services/embeddings_request_policy.py\<close>) says exactly which embeddings
  requests are accepted.

  Streams: \<open>LiveBurn\<close> has the policies, budgets, monitors and telemetry for Chat and Responses streams; \<open>ChatStream\<close> has the
  event generator of the gateway with its accounting calls, cancellation and interference: what is forwarded stays below the
  key's limits, and the ways a stream ends settle its reservation, except those that the theorems name.

  Keys: \<open>Auth\<close> has authentication, \<open>KeyPolicy\<close> the checks of \<open>services/key_policy_validation.py\<close> and \<open>key_service.py\<close>,
  \<open>KeyLifecycle\<close> the operations.  Administration refines its own row machine, and together with the services it keeps the
  quota invariant; an issued key authenticates with the plaintext handed out.

  This theory: what a revocation stops, across authentication, quota, fence and administration.


  \<^bold>\<open>Correspondence\<close>

  One definition per function or method, under its name (a leading underscore dropped, a suffix where a name is taken); a
  dataclass or table row is a record, an enumerated text a datatype, an exception a constructor of \<open>gateway_error\<close>, an early
  return or a raise a branch.  A call that changes the database takes the \<open>db\<close> record and returns it.

  \<^item> Transactions are atomic: an operation that raises leaves the database unchanged.  A flush stores \<open>Numeric(18, 9)\<close>
    columns rounded by PostgreSQL (\<open>pg9\<close>), refuses overflow with \<open>DataError\<close> and a violated CHECK or UNIQUE constraint with
    \<open>IntegrityError\<close>.  Foreign keys to tables outside the model are not checked.  Where a service reads a row before it locks
    it, the operation takes both states.
  \<^item> Ids of new rows, clocks and random bytes are arguments, and so are Redis, the provider, the transport probe and the
    encryption of \<open>utils/secrets.py\<close>.
  \<^item> Awaits: \<open>LazyThrottling\<close> and \<open>ChatStream\<close> take a sequence of events saying for every await what others did meanwhile and
    whether the call completed, timed out or was cancelled; theorems quantify over all sequences.
  \<^item> Text holds code points below 256, with case mapping on ASCII.  \<open>PDecStr\<close> and \<open>PTimeStr\<close> are the texts of a Decimal and of
    a datetime.  JSON dicts keep their order; only equality of values and lookups depend on them.
  \<^item> Guards on the type of a field whose type is fixed here have no counterpart; the identity of Python objects has none.


  \<^bold>\<open>Bounds\<close>

  Every function is total.  The only fuel is the number of passes of the wait loop: five per second of waiting plus one,
  which \<open>wait_ends\<close> proves to suffice.  The balance of the cost counter is stated for reserved amounts of at most nineteen
  decimal places (flag \<open>e\<close>), where no Decimal addition rounds before PostgreSQL does; tokens and requests need no bound.
  The digests of \<open>Crypto\<close> are not evaluated in proofs; what is used of them is their length and determinism.


  \<^bold>\<open>Not modelled\<close>

  The gateways for Responses, embeddings, audio and realtime requests and the validation of request bodies other than
  those for embeddings (their results are arguments here); typed key configuration documents, templates, clones, batches and imports; catalog administration
  and imports; the Codex replay cache; sessions, owners, reports and mail; HTTP routing, templates, command line, provider
  clients, workers, logging and metrics.  They are orchestration, record keeping and I/O around the modelled core.
\<close>

section \<open>What a revocation stops\<close>

lemma revoked_not_reserved:
  assumes "revoked_in kid db" "ak_gateway_key_id ak = kid"
  shows "\<exists>err. reserve_for_chat_completion clock rid ak route policy est req ep now db = Inl err"
proof (rule ccontr)
  assume "\<not> ?thesis"
  then obtain x where "reserve_for_chat_completion clock rid ak route policy est req ep now db = Inr x"
    by (cases "reserve_for_chat_completion clock rid ak route policy est req ep now db") auto
  then obtain k where "get_gateway_key_by_id kid db = Some k" "gk_status k = KeyActive"
    using assms(2) by (auto simp: reserve_for_chat_completion_def validate_key_can_reserve_def Let_def)
  then show False using revoked_row[OF assms(1)] by fastforce
qed

lemma revoked_not_fenced:
  assumes "revoked_in kid db" "fa_gateway_key_id i = kid"
  shows "\<exists>err. acquire clock rid aid i db = Inl err"
proof (rule ccontr)
  assume "\<not> ?thesis"
  then obtain x where "acquire clock rid aid i db = Inr x" by (cases "acquire clock rid aid i db") auto
  then obtain k where "get_gateway_key_by_id kid db = Some k" "gk_status k = KeyActive"
    using assms(2) by (auto simp: acquire_def validate_key_for_fence_def Let_def split del: if_split)
  then show False using revoked_row[OF assms(1)] by fastforce
qed

text \<open>C10: Revocation is final.  After a key is revoked, whatever the services and the administrators do, in any order, no
  request is authenticated as that key again, a request that was authenticated before can no longer reserve quota, and
  none can take the external-tool fence.\<close>

theorem revocation_stops_spending:
  assumes "wf_quota db" "k \<in> set (db_keys db)" "gk_status k = KeyRevoked" "(system_step e z)\<^sup>*\<^sup>* db db'"
  shows "(\<forall>s clock header now ak. authenticate_authorization_header s clock header now db' = Inr ak
            \<longrightarrow> ak_gateway_key_id ak \<noteq> gk_id k)
    \<and> (\<forall>clock rid ak route policy est req ep now. ak_gateway_key_id ak = gk_id k
            \<longrightarrow> (\<exists>err. reserve_for_chat_completion clock rid ak route policy est req ep now db' = Inl err))
    \<and> (\<forall>clock rid aid i. fa_gateway_key_id i = gk_id k \<longrightarrow> (\<exists>err. acquire clock rid aid i db' = Inl err))"
proof -
  have r: "revoked_in (gk_id k) db'" by (rule revoked_in_reachable[OF assms])
  show ?thesis using revoked_not_authenticated[OF r] revoked_not_reserved[OF r] revoked_not_fenced[OF r] by blast
qed

theorem revocation_stops_spending_witness:
  "\<exists>ak db. authenticate_authorization_header sample_settings (Aware 5) (Some (''Bearer '' @ gg_plaintext_key sample_generated)) None db
       = Inr ak \<and> ak_gateway_key_id ak \<noteq> 11
     \<and> (\<exists>err. reserve_for_chat_completion (Aware 5) 7 (sample_ak\<lparr>ak_gateway_key_id := 11\<rparr>) sample_route sample_policy sample_estimate
          ''req1'' ''/v1/chat/completions'' None db = Inl err)"
proof -
  let ?db = "sample_db\<lparr>db_keys := [sample_token_key, sample_revoked_key]\<rparr>"
  have ne: "gg_public_key_id sample_generated \<noteq> ''pubid001''" using sample_public_id by auto
  have r: "gk_id sample_revoked_key = 11" "gk_status sample_revoked_key = KeyRevoked" "sample_revoked_key \<in> set (db_keys ?db)"
    by (simp_all add: sample_revoked_key_def with_status_def)
  have wf: "wf_quota ?db"
    by (simp add: wf_quota_def key_ok_def sample_db_def sample_token_key_def sample_revoked_key_def sample_key_def row_eval)
  obtain m where run: "authenticate_authorization_header sample_settings (Aware 5)
      (Some (''Bearer '' @ gg_plaintext_key sample_generated)) None ?db = Inr (authenticated_key_of sample_settings sample_token_key m m)"
    using sample_authenticates[of ?db] ne
    by (auto simp: sample_token_key_def sample_revoked_key_def sample_key_def with_status_def)
  have "system_step True True ?db ?db" by (rule Service[OF Rejected])
  then have "(system_step True True)\<^sup>*\<^sup>* ?db ?db" by blast
  note stop = revocation_stops_spending[OF wf r(3,2) this, unfolded r(1)]
  show ?thesis
    by (rule exI[of _ "authenticated_key_of sample_settings sample_token_key m m"], rule exI[of _ ?db]) (use run stop in auto)
qed

end
